(* ===== verification/Prelude.thy ===== *)
theory Prelude
  imports Main "HOL-Library.Sublist"
begin

text \<open>
  The vocabulary every component shares: results of fallible Go functions, Go slices and
  maps read the way Go reads them (an absent map key gives the nil slice), the duplicate scan
  that validators run over a slice, decimal rendering (\<^verbatim>\<open>%d\<close>) and the open-ended
  search loop \<^verbatim>\<open>for i := 0; ; i++\<close>. A Go \<^verbatim>\<open>string\<close> is a byte sequence and so
  is an Isabelle \<^typ>\<open>string\<close>; the empty Go string is \<open>[]\<close>.
\<close>

named_theorems selector_simps "reading the axes of a selector"
named_theorems table_simps "closed tables of the domain, as lookups"
named_theorems result_elims "case analysis of fallible results"


section \<open>Results\<close>

text \<open>A Go function returning \<^verbatim>\<open>(T, error)\<close>: \<open>Inl\<close> is the error.\<close>

definition bindE :: "'e + 'a \<Rightarrow> ('a \<Rightarrow> 'e + 'b) \<Rightarrow> 'e + 'b" where
  "bindE m f = (case m of Inl e \<Rightarrow> Inl e | Inr x \<Rightarrow> f x)"

definition guardE :: "bool \<Rightarrow> 'e \<Rightarrow> 'e + unit" where
  "guardE ok e = (if ok then Inr () else Inl e)"

definition isOk :: "'e + 'a \<Rightarrow> bool" where
  "isOk m = (case m of Inl _ \<Rightarrow> False | Inr _ \<Rightarrow> True)"

lemma bindE_simps [simp]:
  "bindE (Inl e) f = Inl e"
  "bindE (Inr x) f = f x"
  by (simp_all add: bindE_def)

lemma bindE_eq_Inr [simp]: "bindE m f = Inr y \<longleftrightarrow> (\<exists>x. m = Inr x \<and> f x = Inr y)"
  by (cases m) auto

lemma bindE_eq_Inl: "bindE m f = Inl e \<longleftrightarrow> m = Inl e \<or> (\<exists>x. m = Inr x \<and> f x = Inl e)"
  by (cases m) auto

lemma guardE_simps [simp]:
  "guardE ok e = Inr u \<longleftrightarrow> ok"
  "guardE ok e = Inl e' \<longleftrightarrow> \<not> ok \<and> e = e'"
  by (auto simp: guardE_def)

lemma isOk_simps [simp]: "\<not> isOk (Inl e)" "isOk (Inr x)"
  by (simp_all add: isOk_def)

lemma isOk_iff: "isOk m \<longleftrightarrow> (\<exists>x. m = Inr x)"
  by (cases m) auto


section \<open>Slices and maps\<close>

text \<open>
  A Go map is an association list (in some iteration order); a missing key of a map whose
  values are slices reads as the nil slice.
\<close>

definition slice_at :: "('k \<times> 'v list) list \<Rightarrow> 'k \<Rightarrow> 'v list" where
  "slice_at m k = (case map_of m k of None \<Rightarrow> [] | Some xs \<Rightarrow> xs)"

lemma slice_at_Nil [simp]: "slice_at [] k = []"
  by (simp add: slice_at_def)

lemma slice_at_Cons [simp]: "slice_at ((k', xs) # m) k = (if k = k' then xs else slice_at m k)"
  by (simp add: slice_at_def)

lemma slice_at_in_set: "x \<in> set (slice_at m k) \<Longrightarrow> \<exists>xs. (k, xs) \<in> set m \<and> x \<in> set xs"
  by (cases "map_of m k") (auto simp: slice_at_def dest: map_of_SomeD)

lemma slice_at_member:
  "distinct (map fst m) \<Longrightarrow> (k, xs) \<in> set m \<Longrightarrow> slice_at m k = xs"
  by (simp add: slice_at_def)

lemma slice_at_no_key: "k \<notin> fst ` set m \<Longrightarrow> slice_at m k = []"
  by (induction m) auto

text \<open>\<^verbatim>\<open>m[k] = append(m[k], x)\<close>.\<close>

fun append_at :: "('k \<times> 'v list) list \<Rightarrow> 'k \<Rightarrow> 'v \<Rightarrow> ('k \<times> 'v list) list" where
  "append_at [] k x = [(k, [x])]"
| "append_at ((k', xs) # m) k x =
    (if k = k' then (k', xs @ [x]) # m else (k', xs) # append_at m k x)"

lemma slice_at_append_at [simp]:
  "slice_at (append_at m k x) k' = (if k' = k then slice_at m k @ [x] else slice_at m k')"
  by (induction m k x rule: append_at.induct) auto

lemma keys_append_at [simp]: "fst ` set (append_at m k x) = insert k (fst ` set m)"
  by (induction m k x rule: append_at.induct) auto

lemma distinct_append_at: "distinct (map fst m) \<Longrightarrow> distinct (map fst (append_at m k x))"
proof (induction m k x rule: append_at.induct)
  case (2 k' xs m k x)
  then show ?case using keys_append_at [of m k x] by (auto simp flip: image_set)
qed simp

text \<open>
  The scan \<^verbatim>\<open>for i, x := range xs\<close> that faults on an element that is malformed or
  already seen (in \<^verbatim>\<open>seen\<close>, or in the prefix \<^verbatim>\<open>xs[:i]\<close>).
\<close>

fun scan_fault :: "('a \<Rightarrow> bool) \<Rightarrow> 'a list \<Rightarrow> 'a list \<Rightarrow> bool" where
  "scan_fault bad seen [] = False"
| "scan_fault bad seen (x # xs) = (bad x \<or> x \<in> set seen \<or> scan_fault bad (x # seen) xs)"

lemma scan_fault_iff:
  "scan_fault bad seen xs \<longleftrightarrow>
     (\<exists>x \<in> set xs. bad x) \<or> \<not> distinct xs \<or> set xs \<inter> set seen \<noteq> {}"
  by (induction xs arbitrary: seen) auto

corollary scan_fault_Nil [simp]:
  "scan_fault bad [] xs \<longleftrightarrow> \<not> ((\<forall>x \<in> set xs. \<not> bad x) \<and> distinct xs)"
  by (auto simp: scan_fault_iff)


section \<open>Decimal rendering\<close>

definition digit :: "nat \<Rightarrow> char" where
  "digit d = char_of (48 + d)"

fun itoa :: "nat \<Rightarrow> string" where
  "itoa n = (if n < 10 then [digit n] else itoa (n div 10) @ [digit (n mod 10)])"

declare itoa.simps [simp del]

definition atoi_digits :: "string \<Rightarrow> nat" where
  "atoi_digits = foldl (\<lambda>acc c. acc * 10 + (of_char c - 48)) 0"

definition is_digit :: "char \<Rightarrow> bool" where
  "is_digit c \<longleftrightarrow> 48 \<le> (of_char c :: nat) \<and> (of_char c :: nat) \<le> 57"

lemma of_char_digit: "d < 10 \<Longrightarrow> (of_char (digit d) :: nat) = 48 + d"
  by (simp add: digit_def)

lemma is_digit_digit [simp]: "d < 10 \<Longrightarrow> is_digit (digit d)"
  by (simp add: is_digit_def of_char_digit)

lemma itoa_digits: "c \<in> set (itoa n) \<Longrightarrow> is_digit c"
proof (induction n rule: itoa.induct)
  case (1 n)
  then show ?case
    by (cases "n < 10") (auto simp: itoa.simps [of n])
qed

lemma itoa_nonempty [simp]: "itoa n \<noteq> []"
  by (subst itoa.simps) simp

lemma atoi_snoc: "atoi_digits (s @ [c]) = atoi_digits s * 10 + (of_char c - 48)"
  by (simp add: atoi_digits_def)

lemma atoi_itoa [simp]: "atoi_digits (itoa n) = n"
proof (induction n rule: itoa.induct)
  case (1 n)
  show ?case
  proof (cases "n < 10")
    case True
    then show ?thesis
      by (simp add: itoa.simps [of n] atoi_digits_def of_char_digit)
  next
    case False
    with 1 have "atoi_digits (itoa (n div 10)) = n div 10" by blast
    with False show ?thesis
      by (simp add: itoa.simps [of n] atoi_snoc of_char_digit)
  qed
qed

lemma inj_itoa: "inj itoa"
  by (rule inj_on_inverseI [where g = atoi_digits]) simp


section \<open>The open-ended search loop\<close>

text \<open>
  \<^verbatim>\<open>for i := 0; ; i++ { if !bad(i) { break } }\<close> returns the first index the test
  accepts; \<open>None\<close> is a loop that never ends.
\<close>

partial_function (option) first_accepted :: "(nat \<Rightarrow> bool) \<Rightarrow> nat \<Rightarrow> nat option" where
  "first_accepted bad i = (if bad i then first_accepted bad (Suc i) else Some i)"

declare first_accepted.simps [code]

lemma first_accepted_reaches:
  "\<not> bad (i + n) \<Longrightarrow> \<exists>j. first_accepted bad i = Some j \<and> \<not> bad j"
proof (induction n arbitrary: i)
  case 0
  then show ?case by (subst first_accepted.simps) simp
next
  case (Suc n)
  from Suc.IH [of "Suc i"] Suc.prems
  have "\<exists>j. first_accepted bad (Suc i) = Some j \<and> \<not> bad j" by simp
  then show ?case
    by (cases "bad i") (simp_all add: first_accepted.simps [of bad i])
qed

lemma first_accepted_terminates:
  assumes "finite {i. bad i}"
  shows "\<exists>j. first_accepted bad 0 = Some j \<and> \<not> bad j"
proof -
  from assms obtain n where "\<not> bad n"
    using ex_new_if_finite infinite_UNIV_nat by (metis mem_Collect_eq)
  then show ?thesis
    using first_accepted_reaches [of bad 0 n] by simp
qed

lemma finite_hits:
  "inj f \<Longrightarrow> finite {i. f i \<in> set xs}"
  using finite_vimageI [of "set xs" f] by (simp add: vimage_def)

end
