(* ===== verification/Domain.thy ===== *)
theory Domain
  imports Prelude "HOL-Library.Char_ord" "HOL-Library.List_Lexorder"
begin

text \<open>
  The leaf vocabulary (\<^verbatim>\<open>internal/domain/domain.go\<close>,
  \<^verbatim>\<open>internal/domain/permission.go\<close>): tenant identifiers, the closed capability
  table, scopes and their levels, grants, the error sentinels, the role templates, the machine
  classes with their allowlists and depths, and the grant origins. Go's named string types stay
  strings, so a value outside a closed set is representable and is refused by a lookup, as in
  the source.
\<close>


section \<open>Identifiers, errors, capabilities\<close>

type_synonym OrgID = string
type_synonym ProjectID = string
type_synonym EnvID = string
type_synonym PrincipalID = string
type_synonym Capability = string

text \<open>
  The error sentinels; \<open>ErrScopeGap\<close> is the anonymous error of \<^verbatim>\<open>Scope.Level\<close> and
  \<open>ErrInternal\<close> any error that wraps no sentinel (programming errors, engine faults).
\<close>

datatype domain_error =
    ErrNotFound
  | ErrUnauthorized
  | ErrUnauthenticated
  | ErrInvalid
  | ErrConflict
  | ErrLimitExceeded
  | ErrScopeGap
  | ErrNoSuchTemplate
  | ErrTemplateScope
  | ErrInternal

abbreviation CapRead :: Capability where "CapRead \<equiv> ''read''"
abbreviation CapReveal :: Capability where "CapReveal \<equiv> ''reveal''"
abbreviation CapRevealHistory :: Capability where "CapRevealHistory \<equiv> ''reveal-history''"
abbreviation CapEdit :: Capability where "CapEdit \<equiv> ''edit''"
abbreviation CapPublish :: Capability where "CapPublish \<equiv> ''publish''"
abbreviation CapPin :: Capability where "CapPin \<equiv> ''pin''"
abbreviation CapDefinitionsEdit :: Capability where "CapDefinitionsEdit \<equiv> ''definitions-edit''"
abbreviation CapProjectSettings :: Capability where "CapProjectSettings \<equiv> ''project-settings''"
abbreviation CapManageIdentities :: Capability where "CapManageIdentities \<equiv> ''manage-identities''"
abbreviation CapManageAdapters :: Capability where "CapManageAdapters \<equiv> ''manage-adapters''"
abbreviation CapManageMembers :: Capability where "CapManageMembers \<equiv> ''manage-members''"
abbreviation CapManageProjects :: Capability where "CapManageProjects \<equiv> ''manage-projects''"
abbreviation CapBackupExport :: Capability where "CapBackupExport \<equiv> ''backup-export''"
abbreviation CapRestore :: Capability where "CapRestore \<equiv> ''restore''"
abbreviation CapRotateRootKey :: Capability where "CapRotateRootKey \<equiv> ''rotate-root-key''"
abbreviation CapRotateMasterKey :: Capability where "CapRotateMasterKey \<equiv> ''rotate-master-key''"
abbreviation CapRotateDEK :: Capability where "CapRotateDEK \<equiv> ''rotate-dek''"
abbreviation CapReencrypt :: Capability where "CapReencrypt \<equiv> ''reencrypt''"
abbreviation CapInstanceConfig :: Capability where "CapInstanceConfig \<equiv> ''instance-config''"
abbreviation CapInstanceDirector :: Capability where "CapInstanceDirector \<equiv> ''instance-directory''"
abbreviation CapSCIMProvision :: Capability where "CapSCIMProvision \<equiv> ''scim-provision''"
abbreviation CapAuditRead :: Capability where "CapAuditRead \<equiv> ''audit-read''"
abbreviation CapCredentialReset :: Capability where "CapCredentialReset \<equiv> ''credential-reset''"
abbreviation CapReportDeliveryStatus :: Capability where
  "CapReportDeliveryStatus \<equiv> ''report-delivery-status''"
abbreviation CapCryptoUse :: Capability where "CapCryptoUse \<equiv> ''crypto-use''"
abbreviation CapCryptoManage :: Capability where "CapCryptoManage \<equiv> ''crypto-manage''"
abbreviation CapIssueCertificate :: Capability where "CapIssueCertificate \<equiv> ''issue-certificate''"


section \<open>Levels and scopes\<close>

text \<open>The \<^verbatim>\<open>iota\<close> enumeration; its order is the depth of the tenant chain.\<close>

datatype Level = LevelNone | LevelOrg | LevelProject | LevelEnv

primrec depth :: "Level \<Rightarrow> nat" where
  "depth LevelNone = 0"
| "depth LevelOrg = 1"
| "depth LevelProject = 2"
| "depth LevelEnv = 3"

lemma depth_inject: "depth a = depth b \<Longrightarrow> a = b"
  by (cases a; cases b) simp_all

instantiation Level :: linorder
begin

definition less_eq_Level :: "Level \<Rightarrow> Level \<Rightarrow> bool" where
  "less_eq_Level a b \<longleftrightarrow> depth a \<le> depth b"

definition less_Level :: "Level \<Rightarrow> Level \<Rightarrow> bool" where
  "less_Level a b \<longleftrightarrow> depth a < depth b"

instance
  by standard (auto simp: less_eq_Level_def less_Level_def dest: depth_inject)

end

lemmas Level_order = less_eq_Level_def less_Level_def

record Scope =
  s_Org :: OrgID
  s_Project :: ProjectID
  s_Env :: EnvID

record Grant =
  g_Capability :: Capability
  g_Scope :: Scope

definition mkScope :: "OrgID \<Rightarrow> ProjectID \<Rightarrow> EnvID \<Rightarrow> Scope" where
  "mkScope o' p e = \<lparr>s_Org = o', s_Project = p, s_Env = e\<rparr>"

definition Scope_Level :: "Scope \<Rightarrow> domain_error + Level" where
  "Scope_Level s =
    (if s_Org s = '''' \<and> s_Project s = '''' \<and> s_Env s = '''' then Inr LevelNone
     else if s_Org s \<noteq> '''' \<and> s_Project s = '''' \<and> s_Env s = '''' then Inr LevelOrg
     else if s_Org s \<noteq> '''' \<and> s_Project s \<noteq> '''' \<and> s_Env s = '''' then Inr LevelProject
     else if s_Org s \<noteq> '''' \<and> s_Project s \<noteq> '''' \<and> s_Env s \<noteq> '''' then Inr LevelEnv
     else Inl ErrScopeGap)"


section \<open>The capability table\<close>

definition capabilityLevels :: "(Capability \<times> Level) list" where
  "capabilityLevels =
    [(CapRead, LevelEnv),
     (CapReveal, LevelEnv),
     (CapRevealHistory, LevelEnv),
     (CapEdit, LevelEnv),
     (CapPublish, LevelEnv),
     (CapPin, LevelEnv),
     (CapReportDeliveryStatus, LevelEnv),
     (CapCryptoUse, LevelEnv),
     (CapIssueCertificate, LevelEnv),
     (CapDefinitionsEdit, LevelProject),
     (CapProjectSettings, LevelProject),
     (CapManageIdentities, LevelProject),
     (CapManageAdapters, LevelProject),
     (CapCryptoManage, LevelProject),
     (CapManageMembers, LevelProject),
     (CapManageProjects, LevelOrg),
     (CapAuditRead, LevelEnv),
     (CapCredentialReset, LevelOrg),
     (CapSCIMProvision, LevelOrg),
     (CapBackupExport, LevelNone),
     (CapRestore, LevelNone),
     (CapRotateRootKey, LevelNone),
     (CapRotateMasterKey, LevelNone),
     (CapRotateDEK, LevelNone),
     (CapReencrypt, LevelNone),
     (CapInstanceConfig, LevelNone),
     (CapInstanceDirector, LevelNone)]"

definition Capabilities :: "Capability list" where
  "Capabilities = sort (map fst capabilityLevels)"

definition DeepestLevel :: "Capability \<Rightarrow> Level option" where
  "DeepestLevel c = map_of capabilityLevels c"

definition IsCapability :: "Capability \<Rightarrow> bool" where
  "IsCapability c \<longleftrightarrow> map_of capabilityLevels c \<noteq> None"

definition OperatorSet :: "Capability list" where
  "OperatorSet =
    [CapBackupExport, CapRestore, CapRotateRootKey, CapRotateMasterKey,
     CapRotateDEK, CapReencrypt, CapInstanceConfig]"


section \<open>Role templates\<close>

type_synonym Template = string

abbreviation TemplateViewer :: Template where "TemplateViewer \<equiv> ''viewer''"
abbreviation TemplateEditor :: Template where "TemplateEditor \<equiv> ''editor''"
abbreviation TemplatePublisher :: Template where "TemplatePublisher \<equiv> ''publisher''"
abbreviation TemplateRevealer :: Template where "TemplateRevealer \<equiv> ''revealer''"
abbreviation TemplateHistorian :: Template where "TemplateHistorian \<equiv> ''historian''"
abbreviation TemplateMaintainer :: Template where "TemplateMaintainer \<equiv> ''maintainer''"
abbreviation TemplateAdmin :: Template where "TemplateAdmin \<equiv> ''admin''"
abbreviation TemplateOperator :: Template where "TemplateOperator \<equiv> ''operator''"

record templateSpec =
  applicable :: "Level list"
  creates :: "Capability list"
  orgOnly :: "Capability list"

definition tenantLevels :: "Level list" where
  "tenantLevels = [LevelOrg, LevelProject, LevelEnv]"

definition orgProject :: "Level list" where
  "orgProject = [LevelOrg, LevelProject]"

definition instanceOnly :: "Level list" where
  "instanceOnly = [LevelNone]"

definition templates :: "(Template \<times> templateSpec) list" where
  "templates =
    [(TemplateViewer, \<lparr>applicable = tenantLevels, creates = [CapRead], orgOnly = []\<rparr>),
     (TemplateEditor, \<lparr>applicable = tenantLevels, creates = [CapRead, CapEdit], orgOnly = []\<rparr>),
     (TemplatePublisher,
       \<lparr>applicable = tenantLevels, creates = [CapRead, CapEdit, CapPublish, CapPin], orgOnly = []\<rparr>),
     (TemplateRevealer, \<lparr>applicable = tenantLevels, creates = [CapReveal], orgOnly = []\<rparr>),
     (TemplateHistorian, \<lparr>applicable = tenantLevels, creates = [CapRevealHistory], orgOnly = []\<rparr>),
     (TemplateMaintainer,
       \<lparr>applicable = orgProject,
        creates = [CapRead, CapEdit, CapPublish, CapPin,
                   CapDefinitionsEdit, CapManageIdentities, CapManageAdapters],
        orgOnly = []\<rparr>),
     (TemplateAdmin,
       \<lparr>applicable = orgProject,
        creates = [CapRead, CapEdit, CapPublish, CapPin,
                   CapDefinitionsEdit, CapManageIdentities, CapManageAdapters,
                   CapProjectSettings, CapManageMembers, CapReveal, CapRevealHistory],
        orgOnly = [CapManageProjects]\<rparr>),
     (TemplateOperator,
       \<lparr>applicable = instanceOnly, creates = OperatorSet @ [CapManageMembers], orgOnly = []\<rparr>)]"

definition Templates :: "Template list" where
  "Templates = sort (map fst templates)"

definition ExpandTemplate :: "Template \<Rightarrow> Level \<Rightarrow> domain_error + Capability list" where
  "ExpandTemplate t at =
    (case map_of templates t of
       None \<Rightarrow> Inl ErrNoSuchTemplate
     | Some spec \<Rightarrow>
         if at \<notin> set (applicable spec) then Inl ErrTemplateScope
         else Inr (creates spec @ (if at = LevelOrg then orgOnly spec else [])))"


section \<open>Principal classes and origins\<close>

type_synonym PrincipalClass = string

abbreviation ClassHuman :: PrincipalClass where "ClassHuman \<equiv> ''human''"
abbreviation ClassDeveloper :: PrincipalClass where "ClassDeveloper \<equiv> ''developer''"
abbreviation ClassWorkload :: PrincipalClass where "ClassWorkload \<equiv> ''workload''"
abbreviation ClassAutomation :: PrincipalClass where "ClassAutomation \<equiv> ''automation''"
abbreviation ClassProvisioning :: PrincipalClass where
  "ClassProvisioning \<equiv> ''provisioning-connection''"
abbreviation ClassInstanceConn :: PrincipalClass where "ClassInstanceConn \<equiv> ''instance-connection''"

definition IsServiceAccountKind :: "PrincipalClass \<Rightarrow> bool" where
  "IsServiceAccountKind c \<longleftrightarrow> c = ClassWorkload \<or> c = ClassAutomation"

type_synonym IssuerType = string

abbreviation IssuerKubernetes :: IssuerType where "IssuerKubernetes \<equiv> ''kubernetes''"
abbreviation IssuerForgejo :: IssuerType where "IssuerForgejo \<equiv> ''forgejo''"
abbreviation IssuerGitHubActions :: IssuerType where "IssuerGitHubActions \<equiv> ''github-actions''"

definition IsIssuerType :: "IssuerType \<Rightarrow> bool" where
  "IsIssuerType t \<longleftrightarrow> t = IssuerKubernetes \<or> t = IssuerForgejo \<or> t = IssuerGitHubActions"

definition IsCIIssuerType :: "IssuerType \<Rightarrow> bool" where
  "IsCIIssuerType t \<longleftrightarrow> t = IssuerForgejo \<or> t = IssuerGitHubActions"

definition machineAllowlists :: "(PrincipalClass \<times> Capability list) list" where
  "machineAllowlists =
    [(ClassWorkload, [CapRead, CapReportDeliveryStatus, CapIssueCertificate, CapCryptoUse]),
     (ClassAutomation,
       [CapRead, CapEdit, CapPublish, CapDefinitionsEdit, CapIssueCertificate, CapCryptoUse,
        CapAuditRead]),
     (ClassProvisioning, [CapSCIMProvision]),
     (ClassInstanceConn, [CapInstanceDirector])]"

definition machineRevealByOptIn :: "PrincipalClass list" where
  "machineRevealByOptIn = [ClassWorkload, ClassAutomation]"

definition MachineMayHoldRevealByOptIn :: "PrincipalClass \<Rightarrow> bool" where
  "MachineMayHoldRevealByOptIn c \<longleftrightarrow> c \<in> set machineRevealByOptIn"

definition MachineMayHoldRevealHistoryByPin :: "PrincipalClass \<Rightarrow> bool" where
  "MachineMayHoldRevealHistoryByPin c \<longleftrightarrow> c = ClassWorkload"

definition MachineClasses :: "PrincipalClass list" where
  "MachineClasses = sort (map fst machineAllowlists)"

definition IsMachineClass :: "PrincipalClass \<Rightarrow> bool" where
  "IsMachineClass c \<longleftrightarrow> map_of machineAllowlists c \<noteq> None"

definition MachineMayHold :: "PrincipalClass \<Rightarrow> Capability \<Rightarrow> bool" where
  "MachineMayHold c cap \<longleftrightarrow> cap \<in> set (slice_at machineAllowlists c)"

definition machineDepths :: "(PrincipalClass \<times> Level) list" where
  "machineDepths =
    [(ClassWorkload, LevelEnv),
     (ClassAutomation, LevelProject),
     (ClassProvisioning, LevelOrg),
     (ClassInstanceConn, LevelNone)]"

text \<open>A two-value map read: an absent key gives Go's zero \<^verbatim>\<open>Level\<close> and \<open>False\<close>.\<close>

definition MachineScopeDepth :: "PrincipalClass \<Rightarrow> Level \<times> bool" where
  "MachineScopeDepth c =
    (case map_of machineDepths c of None \<Rightarrow> (LevelNone, False) | Some l \<Rightarrow> (l, True))"

type_synonym OriginKind = string

definition mintableOrigins :: "OriginKind list" where
  "mintableOrigins = [''manual'', ''break-glass'', ''registration'']"

definition IsMintableOrigin :: "OriginKind \<Rightarrow> bool" where
  "IsMintableOrigin k \<longleftrightarrow> k \<in> set mintableOrigins"


section \<open>Facts about the tables\<close>

lemma Scope_Level_mkScope [simp]:
  "Scope_Level (mkScope [] [] []) = Inr LevelNone"
  "o' \<noteq> [] \<Longrightarrow> Scope_Level (mkScope o' [] []) = Inr LevelOrg"
  "o' \<noteq> [] \<Longrightarrow> p \<noteq> [] \<Longrightarrow> Scope_Level (mkScope o' p []) = Inr LevelProject"
  "o' \<noteq> [] \<Longrightarrow> p \<noteq> [] \<Longrightarrow> e \<noteq> [] \<Longrightarrow> Scope_Level (mkScope o' p e) = Inr LevelEnv"
  by (simp_all add: Scope_Level_def mkScope_def)

text \<open>What the addressed level says about the coordinates.\<close>

lemma Scope_Level_Inr:
  assumes "Scope_Level s = Inr l"
  shows "s_Org s \<noteq> [] \<longleftrightarrow> LevelOrg \<le> l"
    and "s_Project s \<noteq> [] \<longleftrightarrow> LevelProject \<le> l"
    and "s_Env s \<noteq> [] \<longleftrightarrow> LevelEnv \<le> l"
  using assms by (auto simp: Scope_Level_def Level_order split: if_splits)

lemma template_row:
  assumes "ExpandTemplate t at = Inr cs"
  obtains spec where "(t, spec) \<in> set templates" "at \<in> set (applicable spec)"
    "cs = creates spec @ (if at = LevelOrg then orgOnly spec else [])"
  using assms by (auto simp: ExpandTemplate_def split: option.splits if_splits dest!: map_of_SomeD)

definition grantable_at :: "Level \<Rightarrow> Capability \<Rightarrow> bool" where
  "grantable_at at c \<longleftrightarrow> (case DeepestLevel c of None \<Rightarrow> False | Some d \<Rightarrow> at \<le> d)"

lemma templates_grantable:
  "\<forall>(t, spec) \<in> set templates. \<forall>at \<in> set (applicable spec).
     \<forall>c \<in> set (creates spec @ (if at = LevelOrg then orgOnly spec else [])). grantable_at at c"
  by (simp add: templates_def tenantLevels_def orgProject_def instanceOnly_def OperatorSet_def
      grantable_at_def DeepestLevel_def capabilityLevels_def less_eq_Level_def)

text \<open>
  Role templates expand only into legal grant rows: every capability a template creates at
  an admitted level is in the closed set and may be granted at that level (its deepest level
  is at or below it), and no row is created twice.
\<close>

theorem ExpandTemplate_grantable:
  assumes "ExpandTemplate t at = Inr cs"
  shows "(\<forall>c \<in> set cs. grantable_at at c) \<and> distinct cs"
proof -
  from assms obtain spec where row: "(t, spec) \<in> set templates" "at \<in> set (applicable spec)"
    and cs: "cs = creates spec @ (if at = LevelOrg then orgOnly spec else [])"
    by (rule template_row)
  have "distinct cs"
    using row unfolding cs by (auto simp: templates_def OperatorSet_def)
  with row templates_grantable cs show ?thesis by fast
qed

theorem ExpandTemplate_grantable_witness:
  "ExpandTemplate TemplateAdmin LevelOrg =
     Inr [CapRead, CapEdit, CapPublish, CapPin, CapDefinitionsEdit, CapManageIdentities,
          CapManageAdapters, CapProjectSettings, CapManageMembers, CapReveal, CapRevealHistory,
          CapManageProjects]
   \<and> grantable_at LevelOrg CapManageProjects"
proof -
  have "ExpandTemplate TemplateAdmin LevelOrg =
     Inr [CapRead, CapEdit, CapPublish, CapPin, CapDefinitionsEdit, CapManageIdentities,
          CapManageAdapters, CapProjectSettings, CapManageMembers, CapReveal, CapRevealHistory,
          CapManageProjects]"
    by (simp add: ExpandTemplate_def templates_def orgProject_def)
  with ExpandTemplate_grantable [OF this] show ?thesis by simp
qed

end
