(* ===== verification/Rules.thy ===== *)
theory Rules
  imports Domain "HOL-Library.Multiset"
begin

text \<open>
  Member access rules (\<^verbatim>\<open>internal/domain/rule.go\<close>) and their stored form
  (\<^verbatim>\<open>internal/store/authn/rules.go\<close>): the selector \<open>Where\<close>, the shape table, the
  validator that every write and every read runs, what a rule reaches, the flattening of a
  selector into item rows and the fold that reads the rows back.
\<close>


section \<open>Selectors and rules\<close>

type_synonym AxisMode = string

abbreviation AxisAll :: AxisMode where "AxisAll \<equiv> ''all''"
abbreviation AxisOnly :: AxisMode where "AxisOnly \<equiv> ''only''"

record RuleKeyItem =
  it_Folder :: string
  it_KeyID :: string
  it_IsFolder :: bool

record Where =
  w_Projects :: "ProjectID list"
  w_EnvMode :: AxisMode
  w_Envs :: "(ProjectID \<times> EnvID list) list"
  w_KeyMode :: AxisMode
  w_Keys :: "(ProjectID \<times> RuleKeyItem list) list"

record Rule =
  r_ID :: string
  r_Principal :: PrincipalID
  r_Capability :: Capability
  r_Org :: OrgID
  r_Where :: Where

record RuleKey =
  k_ID :: string
  k_Folder :: string

text \<open>The environment and key items a selector binds to one project.\<close>

abbreviation envs_of :: "Where \<Rightarrow> ProjectID \<Rightarrow> EnvID list" where
  "envs_of w p \<equiv> slice_at (w_Envs w) p"

abbreviation keys_of :: "Where \<Rightarrow> ProjectID \<Rightarrow> RuleKeyItem list" where
  "keys_of w p \<equiv> slice_at (w_Keys w) p"

definition MaxRuleItems :: nat where
  "MaxRuleItems = 500"

datatype RuleShape = ShapeKey | ShapeEnv | ShapeProject

definition ruleShapes :: "(Capability \<times> RuleShape) list" where
  "ruleShapes =
    [(CapRead, ShapeEnv),
     (CapEdit, ShapeKey),
     (CapPublish, ShapeKey),
     (CapPin, ShapeEnv),
     (CapReveal, ShapeKey),
     (CapRevealHistory, ShapeKey),
     (CapDefinitionsEdit, ShapeKey),
     (CapManageMembers, ShapeKey),
     (CapManageIdentities, ShapeProject),
     (CapManageAdapters, ShapeProject),
     (CapProjectSettings, ShapeProject)]"

definition RuleShapeOf :: "Capability \<Rightarrow> RuleShape option" where
  "RuleShapeOf c = map_of ruleShapes c"

definition EnvNarrowed :: "Where \<Rightarrow> bool" where
  "EnvNarrowed w \<longleftrightarrow> w_EnvMode w \<noteq> AxisAll \<or> list_ex (\<lambda>(p, items). items \<noteq> []) (w_Envs w)"

definition KeyNarrowed :: "Where \<Rightarrow> bool" where
  "KeyNarrowed w \<longleftrightarrow> w_KeyMode w \<noteq> AxisAll \<or> list_ex (\<lambda>(p, items). items \<noteq> []) (w_Keys w)"


section \<open>Validation\<close>

text \<open>
  One axis of \<^verbatim>\<open>Rule.Validate\<close>: the loop over a map of items, which faults on a
  project outside the rule and on a malformed or repeated item, and totals the items.
\<close>

fun axisTotal :: "('a \<Rightarrow> bool) \<Rightarrow> ProjectID list \<Rightarrow> (ProjectID \<times> 'a list) list \<Rightarrow> domain_error + nat"
where
  "axisTotal malformed seen [] = Inr 0"
| "axisTotal malformed seen ((p, items) # m) =
    (if p \<notin> set seen then Inl ErrInvalid
     else if scan_fault malformed [] items then Inl ErrInvalid
     else bindE (axisTotal malformed seen m) (\<lambda>n. Inr (length items + n)))"

definition envMalformed :: "EnvID \<Rightarrow> bool" where
  "envMalformed e \<longleftrightarrow> e = []"

definition keyMalformed :: "RuleKeyItem \<Rightarrow> bool" where
  "keyMalformed k \<longleftrightarrow> \<not> it_IsFolder k \<and> it_KeyID k = [] \<or> it_IsFolder k \<and> it_KeyID k \<noteq> []"

definition shapeCheck :: "RuleShape \<Rightarrow> Rule \<Rightarrow> domain_error + unit" where
  "shapeCheck shape r =
    (let w = r_Where r in
     case shape of
       ShapeKey \<Rightarrow> Inr ()
     | ShapeEnv \<Rightarrow> guardE (\<not> (KeyNarrowed w \<and> r_Capability r \<noteq> CapRead)) ErrInvalid
     | ShapeProject \<Rightarrow> guardE (\<not> (KeyNarrowed w \<or> EnvNarrowed w)) ErrInvalid)"

definition Rule_Validate :: "Rule \<Rightarrow> domain_error + unit" where
  "Rule_Validate r =
    (if r_Org r = [] then Inl ErrInvalid else
     case map_of ruleShapes (r_Capability r) of
       None \<Rightarrow> Inl ErrInvalid
     | Some shape \<Rightarrow>
        (let w = r_Where r in
         if w_Projects w = [] then Inl ErrInvalid
         else if scan_fault (\<lambda>p. p = []) [] (w_Projects w) then Inl ErrInvalid
         else if w_EnvMode w \<noteq> AxisAll \<and> w_EnvMode w \<noteq> AxisOnly then Inl ErrInvalid
         else if w_KeyMode w \<noteq> AxisAll \<and> w_KeyMode w \<noteq> AxisOnly then Inl ErrInvalid
         else bindE (axisTotal envMalformed (w_Projects w) (w_Envs w)) (\<lambda>envTotal.
           if w_EnvMode w = AxisOnly \<and> envTotal = 0 then Inl ErrInvalid
           else bindE (axisTotal keyMalformed (w_Projects w) (w_Keys w)) (\<lambda>keyTotal.
             if w_KeyMode w = AxisOnly \<and> keyTotal = 0 then Inl ErrInvalid
             else if length (w_Projects w) + envTotal + keyTotal > MaxRuleItems
               then Inl ErrLimitExceeded
             else shapeCheck shape r))))"

abbreviation validRule :: "Rule \<Rightarrow> bool" where
  "validRule r \<equiv> isOk (Rule_Validate r)"


section \<open>What a rule reaches\<close>

text \<open>The level switch of \<^verbatim>\<open>Reaches\<close>: whether the environment axis admits the atom.\<close>

definition levelAdmits :: "Where \<Rightarrow> Capability \<Rightarrow> Level \<Rightarrow> Scope \<Rightarrow> RuleKey option \<Rightarrow> bool" where
  "levelAdmits w c at s key =
    (let envs = envs_of w (s_Project s) in
     case at of
       LevelProject \<Rightarrow>
         (if c = CapDefinitionsEdit \<and> key \<noteq> None
          then \<not> (w_EnvMode w = AxisOnly \<and> envs = [])
          else \<not> (w_EnvMode w \<noteq> AxisAll \<or> envs \<noteq> []))
     | LevelEnv \<Rightarrow>
         s_Env s \<noteq> [] \<and>
         (let listed = s_Env s \<in> set envs in
          \<not> (w_EnvMode w = AxisOnly \<and> \<not> listed \<or> w_EnvMode w = AxisAll \<and> listed))
     | _ \<Rightarrow> False)"

text \<open>The predicate \<^verbatim>\<open>ContainsFunc\<close> tests each key item with.\<close>

definition itemMatches :: "AxisMode \<Rightarrow> RuleKey \<Rightarrow> RuleKeyItem \<Rightarrow> bool" where
  "itemMatches mode key it =
    (if \<not> it_IsFolder it then k_ID key \<noteq> [] \<and> it_KeyID it = k_ID key
     else it_Folder it = k_Folder key \<or>
          mode = AxisAll \<and> it_Folder it \<noteq> [] \<and> prefix (it_Folder it @ ''/'') (k_Folder key))"

definition Reaches :: "Rule \<Rightarrow> Capability \<Rightarrow> Level \<Rightarrow> Scope \<Rightarrow> RuleKey option \<Rightarrow> bool" where
  "Reaches r c at s key =
    (if c \<noteq> r_Capability r \<or> c = CapManageMembers \<or> s_Org s \<noteq> r_Org r then False
     else
       let w = r_Where r in
       if s_Project s \<notin> set (w_Projects w) then False
       else if \<not> levelAdmits w c at s key then False
       else if c = CapRead then True
       else
         let items = keys_of w (s_Project s) in
         if w_KeyMode w = AxisAll \<and> items = [] then True
         else case key of
             None \<Rightarrow> False
           | Some k \<Rightarrow>
               let matched = list_ex (itemMatches (w_KeyMode w) k) items in
               if w_KeyMode w = AxisOnly then matched else \<not> matched)"


section \<open>Stored rules\<close>

abbreviation ruleAxisProject :: string where "ruleAxisProject \<equiv> ''project''"
abbreviation ruleAxisEnv :: string where "ruleAxisEnv \<equiv> ''env''"
abbreviation ruleAxisKey :: string where "ruleAxisKey \<equiv> ''key''"
abbreviation ruleAxisFolder :: string where "ruleAxisFolder \<equiv> ''folder''"

record StoredRuleItem =
  si_ID :: string
  si_Axis :: string
  si_Project :: ProjectID
  si_Env :: EnvID
  si_KeyID :: string
  si_Folder :: string

record StoredRule =
  sr_Rule :: Rule
  sr_Items :: "StoredRuleItem list"

record ruleRow =
  rr_id :: string
  rr_principal :: string
  rr_capability :: string
  rr_org :: string
  rr_envMode :: string
  rr_keyMode :: string
  rr_item :: StoredRuleItem

definition storedItem :: "string \<Rightarrow> ProjectID \<Rightarrow> EnvID \<Rightarrow> string \<Rightarrow> string \<Rightarrow> StoredRuleItem" where
  "storedItem axis p e k f =
    \<lparr>si_ID = [], si_Axis = axis, si_Project = p, si_Env = e, si_KeyID = k, si_Folder = f\<rparr>"

definition folderItem :: "string \<Rightarrow> RuleKeyItem" where
  "folderItem f = \<lparr>it_Folder = f, it_KeyID = [], it_IsFolder = True\<rparr>"

definition keyItem :: "string \<Rightarrow> RuleKeyItem" where
  "keyItem k = \<lparr>it_Folder = [], it_KeyID = k, it_IsFolder = False\<rparr>"

text \<open>The axis switch of \<^verbatim>\<open>foldRules\<close>, first on the selector, then on the \<^verbatim>\<open>bad\<close> flag.\<close>

definition knownAxis :: "string \<Rightarrow> bool" where
  "knownAxis a \<longleftrightarrow> a \<in> {ruleAxisProject, ruleAxisEnv, ruleAxisKey, ruleAxisFolder}"

definition addItem :: "Where \<Rightarrow> StoredRuleItem \<Rightarrow> Where" where
  "addItem w it =
    (if si_Axis it = ruleAxisProject then w\<lparr>w_Projects := w_Projects w @ [si_Project it]\<rparr>
     else if si_Axis it = ruleAxisEnv
       then w\<lparr>w_Envs := append_at (w_Envs w) (si_Project it) (si_Env it)\<rparr>
     else if si_Axis it = ruleAxisKey
       then w\<lparr>w_Keys := append_at (w_Keys w) (si_Project it) (keyItem (si_KeyID it))\<rparr>
     else if si_Axis it = ruleAxisFolder
       then w\<lparr>w_Keys := append_at (w_Keys w) (si_Project it) (folderItem (si_Folder it))\<rparr>
     else w)"

definition openRule :: "ruleRow \<Rightarrow> StoredRule" where
  "openRule row =
    \<lparr>sr_Rule =
       \<lparr>r_ID = rr_id row, r_Principal = rr_principal row, r_Capability = rr_capability row,
        r_Org = rr_org row,
        r_Where = \<lparr>w_Projects = [], w_EnvMode = rr_envMode row, w_Envs = [],
                   w_KeyMode = rr_keyMode row, w_Keys = []\<rparr>\<rparr>,
     sr_Items = []\<rparr>"

definition pushItem :: "StoredRule \<Rightarrow> StoredRuleItem \<Rightarrow> StoredRule" where
  "pushItem c it =
    c\<lparr>sr_Rule := (sr_Rule c)\<lparr>r_Where := addItem (r_Where (sr_Rule c)) it\<rparr>,
      sr_Items := sr_Items c @ [it]\<rparr>"

definition flushRule :: "StoredRule option \<Rightarrow> bool \<Rightarrow> StoredRule list \<Rightarrow> StoredRule list" where
  "flushRule cur bad out =
    (case cur of
       None \<Rightarrow> out
     | Some c \<Rightarrow> if \<not> bad \<and> validRule (sr_Rule c) then out @ [c] else out)"

fun foldRules_loop :: "StoredRule list \<Rightarrow> StoredRule option \<Rightarrow> bool \<Rightarrow> ruleRow list \<Rightarrow> StoredRule list"
where
  "foldRules_loop out cur bad [] = flushRule cur bad out"
| "foldRules_loop out cur bad (row # rows) =
    (let fresh = (case cur of None \<Rightarrow> True | Some c \<Rightarrow> r_ID (sr_Rule c) \<noteq> rr_id row);
         out' = (if fresh then flushRule cur bad out else out);
         bad' = (if fresh then False else bad);
         c = (if fresh then openRule row else the cur)
     in foldRules_loop out' (Some (pushItem c (rr_item row)))
          (bad' \<or> \<not> knownAxis (si_Axis (rr_item row))) rows)"

definition foldRules :: "ruleRow list \<Rightarrow> StoredRule list" where
  "foldRules rows = foldRules_loop [] None False rows"

definition rulesOf :: "StoredRule list \<Rightarrow> Rule list" where
  "rulesOf stored = map sr_Rule stored"

definition keyItemRow :: "ProjectID \<Rightarrow> RuleKeyItem \<Rightarrow> StoredRuleItem" where
  "keyItemRow p k =
    (if it_IsFolder k then storedItem ruleAxisFolder p [] [] (it_Folder k)
     else storedItem ruleAxisKey p [] (it_KeyID k) [])"

definition itemsOf :: "Where \<Rightarrow> StoredRuleItem list" where
  "itemsOf w =
    map (\<lambda>p. storedItem ruleAxisProject p [] [] []) (w_Projects w) @
    concat (map (\<lambda>p.
        map (\<lambda>e. storedItem ruleAxisEnv p e [] []) (envs_of w p) @
        map (keyItemRow p) (keys_of w p)) (w_Projects w))"


section \<open>The validator as a predicate\<close>

definition axisOK :: "('a \<Rightarrow> bool) \<Rightarrow> ProjectID list \<Rightarrow> (ProjectID \<times> 'a list) list \<Rightarrow> bool" where
  "axisOK malformed ps m \<longleftrightarrow>
    (\<forall>(p, items) \<in> set m. p \<in> set ps \<and> (\<forall>x \<in> set items. \<not> malformed x) \<and> distinct items)"

definition itemCount :: "('k \<times> 'a list) list \<Rightarrow> nat" where
  "itemCount m = sum_list (map (length \<circ> snd) m)"

lemma axisTotal_eq_Inr [simp]:
  "axisTotal malformed ps m = Inr n \<longleftrightarrow> axisOK malformed ps m \<and> n = itemCount m"
  by (induction malformed ps m arbitrary: n rule: axisTotal.induct)
     (auto simp: axisOK_def itemCount_def)

lemma axisTotal_eq_Inl: "axisTotal malformed ps m = Inl e \<longleftrightarrow> \<not> axisOK malformed ps m \<and> e = ErrInvalid"
  by (induction malformed ps m rule: axisTotal.induct) (auto simp: axisOK_def bindE_eq_Inl)

definition shapeOK :: "Rule \<Rightarrow> bool" where
  "shapeOK r \<longleftrightarrow>
    (case map_of ruleShapes (r_Capability r) of
       None \<Rightarrow> False
     | Some ShapeKey \<Rightarrow> True
     | Some ShapeEnv \<Rightarrow> r_Capability r = CapRead \<or> \<not> KeyNarrowed (r_Where r)
     | Some ShapeProject \<Rightarrow> \<not> KeyNarrowed (r_Where r) \<and> \<not> EnvNarrowed (r_Where r))"

definition whereOK :: "Where \<Rightarrow> bool" where
  "whereOK w \<longleftrightarrow>
    w_Projects w \<noteq> [] \<and> [] \<notin> set (w_Projects w) \<and> distinct (w_Projects w) \<and>
    w_EnvMode w \<in> {AxisAll, AxisOnly} \<and> w_KeyMode w \<in> {AxisAll, AxisOnly} \<and>
    axisOK envMalformed (w_Projects w) (w_Envs w) \<and>
    axisOK keyMalformed (w_Projects w) (w_Keys w) \<and>
    (w_EnvMode w = AxisOnly \<longrightarrow> 0 < itemCount (w_Envs w)) \<and>
    (w_KeyMode w = AxisOnly \<longrightarrow> 0 < itemCount (w_Keys w)) \<and>
    length (w_Projects w) + itemCount (w_Envs w) + itemCount (w_Keys w) \<le> MaxRuleItems"

lemma shapeCheck_ok:
  "map_of ruleShapes (r_Capability r) = Some shape \<Longrightarrow> isOk (shapeCheck shape r) \<longleftrightarrow> shapeOK r"
  by (cases shape) (auto simp: shapeCheck_def shapeOK_def guardE_def Let_def)

lemma validRule_iff: "validRule r \<longleftrightarrow> r_Org r \<noteq> [] \<and> shapeOK r \<and> whereOK (r_Where r)"
proof (cases "map_of ruleShapes (r_Capability r)")
  case None
  then show ?thesis by (simp add: Rule_Validate_def shapeOK_def)
next
  case (Some shape)
  note shapeCheck_ok [OF Some]
  with Some show ?thesis
    by (auto simp: Rule_Validate_def whereOK_def isOk_iff Let_def split: if_splits)
qed

lemma validRule_modes:
  assumes "validRule r"
  shows "w_EnvMode (r_Where r) = AxisAll \<or> w_EnvMode (r_Where r) = AxisOnly"
    and "w_KeyMode (r_Where r) = AxisAll \<or> w_KeyMode (r_Where r) = AxisOnly"
  using assms by (auto simp: validRule_iff whereOK_def)

lemma itemCount_zero [simp]: "itemCount m = 0 \<longleftrightarrow> (\<forall>(p, items) \<in> set m. items = [])"
  by (induction m) (auto simp: itemCount_def)


section \<open>Selectors up to order\<close>

text \<open>
  A map in Go has each key once. Under that reading the validator and \<open>Reaches\<close> depend on a
  selector only through its projects, its modes and, per project, its items, none of them
  through their order.
\<close>

definition mapsOK :: "Where \<Rightarrow> bool" where
  "mapsOK w \<longleftrightarrow> distinct (map fst (w_Envs w)) \<and> distinct (map fst (w_Keys w))"

definition sameSelector :: "Where \<Rightarrow> Where \<Rightarrow> bool" where
  "sameSelector w w' \<longleftrightarrow>
    mset (w_Projects w) = mset (w_Projects w') \<and>
    w_EnvMode w = w_EnvMode w' \<and> w_KeyMode w = w_KeyMode w' \<and>
    (\<forall>p. mset (envs_of w p) = mset (envs_of w' p)) \<and>
    (\<forall>p. mset (keys_of w p) = mset (keys_of w' p))"

lemma itemCount_slices:
  "distinct (map fst m) \<Longrightarrow> itemCount m = (\<Sum>p \<in> fst ` set m. length (slice_at m p))"
proof (induction m)
  case (Cons kv m)
  obtain k xs where kv: "kv = (k, xs)" by (cases kv)
  have "(\<Sum>p \<in> fst ` set m. length (slice_at (kv # m) p)) = (\<Sum>p \<in> fst ` set m. length (slice_at m p))"
    by (rule sum.cong) (use Cons.prems kv in auto)
  with Cons kv show ?case by (auto simp: itemCount_def)
qed (simp add: itemCount_def)

lemma itemCount_within:
  assumes "distinct (map fst m)" "fst ` set m \<subseteq> A" "finite A"
  shows "itemCount m = (\<Sum>p \<in> A. length (slice_at m p))"
  unfolding itemCount_slices [OF assms(1)]
  by (rule sum.mono_neutral_left) (use assms in \<open>auto simp: slice_at_no_key\<close>)

lemma axisOK_slices:
  assumes "distinct (map fst m)"
  shows "axisOK malformed ps m \<longleftrightarrow> fst ` set m \<subseteq> set ps \<and>
    (\<forall>p. (\<forall>x \<in> set (slice_at m p). \<not> malformed x) \<and> distinct (slice_at m p))"
    (is "?L \<longleftrightarrow> ?R")
proof
  assume ?L
  then have "p \<in> set ps \<and> (\<forall>x \<in> set items. \<not> malformed x) \<and> distinct items"
    if "(p, items) \<in> set m" for p items
    using that by (auto simp: axisOK_def)
  moreover have "(p, slice_at m p) \<in> set m \<or> slice_at m p = []" for p
    by (cases "map_of m p") (auto simp: slice_at_def dest: map_of_SomeD)
  ultimately show ?R
    by (metis (no_types, lifting) distinct.simps(1) empty_iff empty_set image_subsetI prod.collapse)
next
  assume R: ?R
  show ?L unfolding axisOK_def
  proof clarify
    fix p items assume "(p, items) \<in> set m"
    with R slice_at_member [OF assms this]
    show "p \<in> set ps \<and> (\<forall>x \<in> set items. \<not> malformed x) \<and> distinct items" by force
  qed
qed

lemma narrowed_slices:
  assumes "distinct (map fst m)"
  shows "list_ex (\<lambda>(p, items). items \<noteq> []) m \<longleftrightarrow> (\<exists>p. slice_at m p \<noteq> [])"
proof
  assume "list_ex (\<lambda>(p, items). items \<noteq> []) m"
  then obtain p items where "(p, items) \<in> set m" "items \<noteq> []" by (auto simp: list_ex_iff)
  with slice_at_member [OF assms] show "\<exists>p. slice_at m p \<noteq> []" by metis
next
  assume "\<exists>p. slice_at m p \<noteq> []"
  then obtain p x where "x \<in> set (slice_at m p)" by (meson last_in_set)
  then obtain xs where "(p, xs) \<in> set m" "x \<in> set xs" by (auto dest: slice_at_in_set)
  then show "list_ex (\<lambda>(p, items). items \<noteq> []) m"
    unfolding list_ex_iff by (intro bexI [where x = "(p, xs)"]) auto
qed

lemma mset_eq_facts:
  assumes "mset xs = mset ys"
  shows "set xs = set ys" "length xs = length ys" "distinct xs = distinct ys" "xs = [] \<longleftrightarrow> ys = []"
  using mset_eq_setD [OF assms] mset_eq_length [OF assms] mset_eq_imp_distinct_iff [OF assms]
  by auto

lemma sameSelector_sets:
  assumes "sameSelector w w'"
  shows "set (w_Projects w) = set (w_Projects w')" "length (w_Projects w) = length (w_Projects w')"
    and "distinct (w_Projects w) = distinct (w_Projects w')" "w_Projects w = [] \<longleftrightarrow> w_Projects w' = []"
    and "set (envs_of w p) = set (envs_of w' p)" "length (envs_of w p) = length (envs_of w' p)"
    and "distinct (envs_of w p) = distinct (envs_of w' p)" "envs_of w p = [] \<longleftrightarrow> envs_of w' p = []"
    and "set (keys_of w p) = set (keys_of w' p)" "length (keys_of w p) = length (keys_of w' p)"
    and "distinct (keys_of w p) = distinct (keys_of w' p)" "keys_of w p = [] \<longleftrightarrow> keys_of w' p = []"
  using assms unfolding sameSelector_def by (blast dest: mset_eq_facts)+

lemma sameSelector_modes:
  "sameSelector w w' \<Longrightarrow> w_EnvMode w = w_EnvMode w'"
  "sameSelector w w' \<Longrightarrow> w_KeyMode w = w_KeyMode w'"
  by (simp_all add: sameSelector_def)

text \<open>Two maps with the same slices, both inside the rule's projects, have the same count.\<close>

lemma itemCount_same:
  assumes "distinct (map fst m)" "distinct (map fst m')" "fst ` set m \<subseteq> A" "fst ` set m' \<subseteq> A"
    and "finite A" "\<And>p. length (slice_at m p) = length (slice_at m' p)"
  shows "itemCount m = itemCount m'"
  using itemCount_within [OF assms(1,3,5)] itemCount_within [OF assms(2,4,5)] assms(6) by simp

definition keysInside :: "Where \<Rightarrow> bool" where
  "keysInside w \<longleftrightarrow>
    fst ` set (w_Envs w) \<subseteq> set (w_Projects w) \<and> fst ` set (w_Keys w) \<subseteq> set (w_Projects w)"

lemma whereOK_keysInside: "whereOK w \<Longrightarrow> mapsOK w \<Longrightarrow> keysInside w"
  by (simp add: whereOK_def mapsOK_def keysInside_def axisOK_slices)

lemma whereOK_same:
  assumes same: "sameSelector w w'" and maps: "mapsOK w" "mapsOK w'"
    and inside: "keysInside w" "keysInside w'"
  shows "whereOK w \<longleftrightarrow> whereOK w'"
proof -
  note sets = sameSelector_sets [OF same] sameSelector_modes [OF same]
  have "itemCount (w_Envs w) = itemCount (w_Envs w')" "itemCount (w_Keys w) = itemCount (w_Keys w')"
    using maps inside sets
    by (auto simp: mapsOK_def keysInside_def intro!: itemCount_same [where A = "set (w_Projects w)"])
  then show ?thesis
    using maps inside sets by (simp add: whereOK_def mapsOK_def keysInside_def axisOK_slices)
qed

lemma narrowed_same:
  assumes same: "sameSelector w w'" and "mapsOK w" "mapsOK w'"
  shows "EnvNarrowed w = EnvNarrowed w'" "KeyNarrowed w = KeyNarrowed w'"
  using assms(2,3) sameSelector_sets(8,12) [OF same] sameSelector_modes [OF same]
  by (simp_all add: EnvNarrowed_def KeyNarrowed_def mapsOK_def narrowed_slices)

lemma validRule_same:
  assumes "sameSelector (r_Where r) w'" "mapsOK (r_Where r)" "mapsOK w'" "keysInside w'" "validRule r"
  shows "validRule (r\<lparr>r_Where := w'\<rparr>)"
  using assms whereOK_same [OF assms(1-3)] whereOK_keysInside narrowed_same [OF assms(1-3)]
  by (auto simp: validRule_iff shapeOK_def split: option.splits RuleShape.splits)

lemma list_ex_same: "set xs = set ys \<Longrightarrow> list_ex P xs = list_ex P ys"
  by (simp add: list_ex_iff)

lemma Reaches_same:
  assumes same: "sameSelector (r_Where r) w'"
  shows "Reaches (r\<lparr>r_Where := w'\<rparr>) c at s key = Reaches r c at s key"
proof -
  note sets = sameSelector_sets(5-12) [OF same, where p = "s_Project s"]
    sameSelector_sets(1) [OF same] sameSelector_modes [OF same]
  have "levelAdmits w' c at s key = levelAdmits (r_Where r) c at s key" for c key
    using sets by (auto simp: levelAdmits_def Let_def split: Level.splits)
  then show ?thesis
    using sets list_ex_same [OF sets(5)] by (simp add: Reaches_def Let_def split: option.splits)
qed


section \<open>Writing and reading back\<close>

lemma addItem_modes [simp]:
  "w_EnvMode (addItem w it) = w_EnvMode w" "w_KeyMode (addItem w it) = w_KeyMode w"
  by (simp_all add: addItem_def)

lemma foldl_addItem_modes [simp]:
  "w_EnvMode (foldl addItem w its) = w_EnvMode w" "w_KeyMode (foldl addItem w its) = w_KeyMode w"
  by (induction its arbitrary: w) simp_all

definition projectsIn :: "StoredRuleItem list \<Rightarrow> ProjectID list" where
  "projectsIn its = map si_Project (filter (\<lambda>it. si_Axis it = ruleAxisProject) its)"

definition envsIn :: "ProjectID \<Rightarrow> StoredRuleItem list \<Rightarrow> EnvID list" where
  "envsIn p its = map si_Env (filter (\<lambda>it. si_Axis it = ruleAxisEnv \<and> si_Project it = p) its)"

definition asKeyItem :: "StoredRuleItem \<Rightarrow> RuleKeyItem" where
  "asKeyItem it = (if si_Axis it = ruleAxisKey then keyItem (si_KeyID it) else folderItem (si_Folder it))"

definition keysIn :: "ProjectID \<Rightarrow> StoredRuleItem list \<Rightarrow> RuleKeyItem list" where
  "keysIn p its =
    map asKeyItem (filter (\<lambda>it. (si_Axis it = ruleAxisKey \<or> si_Axis it = ruleAxisFolder) \<and> si_Project it = p) its)"

lemma foldl_addItem_axes:
  "w_Projects (foldl addItem w its) = w_Projects w @ projectsIn its"
  "envs_of (foldl addItem w its) p = envs_of w p @ envsIn p its"
  "keys_of (foldl addItem w its) p = keys_of w p @ keysIn p its"
  by (induction its arbitrary: w)
     (auto simp: addItem_def projectsIn_def envsIn_def keysIn_def asKeyItem_def)

lemma foldl_addItem_mapsOK: "mapsOK w \<Longrightarrow> mapsOK (foldl addItem w its)"
  by (induction its arbitrary: w) (simp_all add: mapsOK_def addItem_def distinct_append_at)

lemma addItem_keys:
  "fst ` set (w_Envs (addItem w it)) \<subseteq> insert (si_Project it) (fst ` set (w_Envs w))"
  "fst ` set (w_Keys (addItem w it)) \<subseteq> insert (si_Project it) (fst ` set (w_Keys w))"
  by (auto simp: addItem_def split: if_splits)

lemma foldl_addItem_keys:
  "fst ` set (w_Envs (foldl addItem w its)) \<subseteq> fst ` set (w_Envs w) \<union> si_Project ` set its"
  "fst ` set (w_Keys (foldl addItem w its)) \<subseteq> fst ` set (w_Keys w) \<union> si_Project ` set its"
proof (induction its arbitrary: w)
  case (Cons it its)
  { case 1 from Cons(1) [of "addItem w it"] addItem_keys(1) [of w it] show ?case by auto }
  { case 2 from Cons(2) [of "addItem w it"] addItem_keys(2) [of w it] show ?case by auto }
qed simp_all

lemma foldl_pushItem:
  "foldl pushItem c its =
    c\<lparr>sr_Rule := (sr_Rule c)\<lparr>r_Where := foldl addItem (r_Where (sr_Rule c)) its\<rparr>,
      sr_Items := sr_Items c @ its\<rparr>"
  by (induction its arbitrary: c) (simp_all add: pushItem_def)

lemma pushItem_ID [simp]: "r_ID (sr_Rule (pushItem c it)) = r_ID (sr_Rule c)"
  by (simp add: pushItem_def)

lemma foldRules_loop_same_rule:
  "\<forall>row \<in> set rows. rr_id row = r_ID (sr_Rule c) \<Longrightarrow>
   foldRules_loop out (Some c) bad rows =
     flushRule (Some (foldl pushItem c (map rr_item rows)))
       (bad \<or> (\<exists>row \<in> set rows. \<not> knownAxis (si_Axis (rr_item row)))) out"
  by (induction rows arbitrary: c bad) (auto simp: Let_def disj_assoc)

text \<open>The rows the store holds for one rule, in the order a query returns them.\<close>

definition rowsFor :: "Rule \<Rightarrow> StoredRuleItem list \<Rightarrow> ruleRow list" where
  "rowsFor r its =
    map (\<lambda>it. \<lparr>rr_id = r_ID r, rr_principal = r_Principal r, rr_capability = r_Capability r,
               rr_org = r_Org r, rr_envMode = w_EnvMode (r_Where r), rr_keyMode = w_KeyMode (r_Where r),
               rr_item = it\<rparr>) its"

definition emptyWhere :: "AxisMode \<Rightarrow> AxisMode \<Rightarrow> Where" where
  "emptyWhere em km = \<lparr>w_Projects = [], w_EnvMode = em, w_Envs = [], w_KeyMode = km, w_Keys = []\<rparr>"

definition readWhere :: "Rule \<Rightarrow> StoredRuleItem list \<Rightarrow> Where" where
  "readWhere r its = foldl addItem (emptyWhere (w_EnvMode (r_Where r)) (w_KeyMode (r_Where r))) its"

lemma foldRules_rowsFor:
  assumes "its \<noteq> []" "\<forall>it \<in> set its. knownAxis (si_Axis it)"
  shows "foldRules (rowsFor r its) =
    (let r' = r\<lparr>r_Where := readWhere r its\<rparr>
     in if validRule r' then [\<lparr>sr_Rule = r', sr_Items = its\<rparr>] else [])"
proof -
  obtain it its' where its: "its = it # its'" using assms(1) by (cases its) auto
  define row where "row = hd (rowsFor r its)"
  have row: "openRule row = \<lparr>sr_Rule = r\<lparr>r_Where := emptyWhere (w_EnvMode (r_Where r)) (w_KeyMode (r_Where r))\<rparr>, sr_Items = []\<rparr>"
    by (simp add: row_def rowsFor_def its openRule_def emptyWhere_def)
  have "foldRules (rowsFor r its) = foldRules_loop [] (Some (pushItem (openRule row) it)) False (rowsFor r its')"
    using assms(2) by (simp add: foldRules_def rowsFor_def its row_def Let_def flushRule_def)
  also have "\<dots> = flushRule (Some (foldl pushItem (openRule row) its)) False []"
    using assms(2) by (subst foldRules_loop_same_rule) (auto simp: rowsFor_def row its o_def)
  finally show ?thesis
    by (simp add: foldl_pushItem row readWhere_def flushRule_def)
qed

text \<open>Axis by axis, the rows of a selector read back as that selector.\<close>

definition canonicalItem :: "RuleKeyItem \<Rightarrow> bool" where
  "canonicalItem k \<longleftrightarrow> (if it_IsFolder k then it_KeyID k = [] else it_Folder k = [])"

lemma asKeyItem_row [simp]: "canonicalItem k \<Longrightarrow> asKeyItem (keyItemRow p k) = k"
  by (cases k) (auto simp: canonicalItem_def keyItemRow_def asKeyItem_def storedItem_def
      folderItem_def keyItem_def split: if_splits)

lemma keyItemRow_axis [simp]:
  "si_Axis (keyItemRow p k) = (if it_IsFolder k then ruleAxisFolder else ruleAxisKey)"
  "si_Project (keyItemRow p k) = p"
  by (simp_all add: keyItemRow_def storedItem_def)

lemma itemsOf_known: "it \<in> set (itemsOf w) \<Longrightarrow> knownAxis (si_Axis it)"
  by (auto simp: itemsOf_def knownAxis_def storedItem_def)

lemma itemsOf_project: "it \<in> set (itemsOf w) \<Longrightarrow> si_Project it \<in> set (w_Projects w)"
  by (auto simp: itemsOf_def storedItem_def)

lemma projectsIn_itemsOf [simp]: "projectsIn (itemsOf w) = w_Projects w"
  by (simp add: projectsIn_def itemsOf_def storedItem_def filter_concat o_def)

lemma filter_own_project:
  assumes "distinct ps" "\<And>q x. x \<in> set (f q) \<Longrightarrow> si_Project x = q" "f p = [] \<or> p \<in> set ps"
  shows "filter (\<lambda>x. P x \<and> si_Project x = p) (concat (map f ps)) = filter P (f p)"
  using assms(1,3)
proof (induction ps)
  case (Cons q ps)
  have own: "filter (\<lambda>x. P x \<and> si_Project x = p) (f q) = (if q = p then filter P (f q) else [])"
    using assms(2) by (auto intro: filter_cong simp: filter_empty_conv)
  have none: "filter (\<lambda>x. P x \<and> si_Project x = p) (concat (map f ps)) = []" if "p \<notin> set ps"
    using that assms(2) by (auto simp: filter_empty_conv)
  show ?case
    using Cons own none by (cases "q = p") auto
qed (use assms in auto)

definition projectRows :: "Where \<Rightarrow> ProjectID \<Rightarrow> StoredRuleItem list" where
  "projectRows w p =
    map (\<lambda>e. storedItem ruleAxisEnv p e [] []) (envs_of w p) @ map (keyItemRow p) (keys_of w p)"

lemma filter_itemsOf:
  assumes "distinct (w_Projects w)" "keysInside w" "\<And>q. \<not> P (storedItem ruleAxisProject q [] [] [])"
  shows "filter (\<lambda>it. P it \<and> si_Project it = p) (itemsOf w) = filter P (projectRows w p)"
proof -
  have "itemsOf w = map (\<lambda>p. storedItem ruleAxisProject p [] [] []) (w_Projects w) @
      concat (map (projectRows w) (w_Projects w))"
    by (simp add: itemsOf_def projectRows_def [abs_def])
  moreover have "projectRows w p = [] \<or> p \<in> set (w_Projects w)"
    using assms(2) by (auto simp: projectRows_def keysInside_def intro!: slice_at_no_key)
  moreover have "si_Project x = q" if "x \<in> set (projectRows w q)" for x q
    using that by (auto simp: projectRows_def storedItem_def)
  ultimately show ?thesis
    using assms(3) filter_own_project [OF assms(1), of "projectRows w" p P]
    by (simp add: filter_empty_conv)
qed

lemma axesIn_itemsOf:
  assumes "distinct (w_Projects w)" "keysInside w" "\<forall>k \<in> set (keys_of w p). canonicalItem k"
  shows "envsIn p (itemsOf w) = envs_of w p" "keysIn p (itemsOf w) = keys_of w p"
proof -
  show "envsIn p (itemsOf w) = envs_of w p"
    unfolding envsIn_def by (subst filter_itemsOf [OF assms(1,2)])
      (simp_all add: projectRows_def storedItem_def o_def)
  have "map (asKeyItem \<circ> keyItemRow p) (keys_of w p) = keys_of w p"
    using assms(3) by (simp add: map_idI)
  then show "keysIn p (itemsOf w) = keys_of w p"
    unfolding keysIn_def by (subst filter_itemsOf [OF assms(1,2)])
      (simp_all add: projectRows_def storedItem_def o_def)
qed

text \<open>Reading the rows back in any order gives the same selector.\<close>

lemma readWhere_same:
  assumes perm: "mset its = mset (itemsOf (r_Where r))"
    and "distinct (w_Projects (r_Where r))" "keysInside (r_Where r)"
    and "\<forall>p. \<forall>k \<in> set (keys_of (r_Where r) p). canonicalItem k"
  shows "sameSelector (r_Where r) (readWhere r its)" "mapsOK (readWhere r its)" "keysInside (readWhere r its)"
proof -
  let ?w = "r_Where r" and ?e = "emptyWhere (w_EnvMode (r_Where r)) (w_KeyMode (r_Where r))"
  have e: "w_Projects ?e = []" "envs_of ?e p = []" "keys_of ?e p = []" "w_Envs ?e = []" "w_Keys ?e = []" for p
    by (simp_all add: emptyWhere_def)
  have P: "mset (projectsIn its) = mset (w_Projects ?w)"
    using arg_cong [OF perm, of "\<lambda>M. image_mset si_Project (filter_mset (\<lambda>it. si_Axis it = ruleAxisProject) M)"]
      projectsIn_itemsOf [of ?w] by (simp add: projectsIn_def flip: mset_map mset_filter)
  have E: "mset (envsIn p its) = mset (envs_of ?w p)" for p
    using arg_cong [OF perm, of "\<lambda>M. image_mset si_Env (filter_mset (\<lambda>it. si_Axis it = ruleAxisEnv \<and> si_Project it = p) M)"]
      axesIn_itemsOf(1) [of ?w p] assms(2-) by (simp add: envsIn_def flip: mset_map mset_filter)
  have K: "mset (keysIn p its) = mset (keys_of ?w p)" for p
    using arg_cong [OF perm, of "\<lambda>M. image_mset asKeyItem (filter_mset (\<lambda>it. (si_Axis it = ruleAxisKey \<or> si_Axis it = ruleAxisFolder) \<and> si_Project it = p) M)"]
      axesIn_itemsOf(2) [of ?w p] assms(2-) by (simp add: keysIn_def flip: mset_map mset_filter)
  show "sameSelector ?w (readWhere r its)"
    using P E K by (simp add: sameSelector_def readWhere_def foldl_addItem_axes e)
      (simp add: emptyWhere_def)
  show "mapsOK (readWhere r its)"
    unfolding readWhere_def by (rule foldl_addItem_mapsOK) (simp add: mapsOK_def emptyWhere_def)
  have "si_Project ` set its \<subseteq> set (projectsIn its)"
    using itemsOf_project mset_eq_setD [OF perm] mset_eq_setD [OF P] by fastforce
  then show "keysInside (readWhere r its)"
    using foldl_addItem_keys [of ?e its] by (simp add: keysInside_def readWhere_def foldl_addItem_axes e) blast
qed

text \<open>Whatever the rows hold, only rules that validate come out of the fold.\<close>

lemma foldRules_loop_valid:
  "\<forall>c \<in> set out. validRule (sr_Rule c) \<Longrightarrow> c \<in> set (foldRules_loop out cur bad rows) \<Longrightarrow> validRule (sr_Rule c)"
proof (induction rows arbitrary: out cur bad)
  case Nil
  then show ?case by (auto simp: flushRule_def split: option.splits if_splits)
next
  case (Cons row rows)
  have "\<forall>c \<in> set (flushRule cur bad out). validRule (sr_Rule c)"
    using Cons.prems(1) by (auto simp: flushRule_def split: option.splits)
  with Cons show ?case by (auto simp: Let_def split: if_splits)
qed

lemma foldRules_valid: "r \<in> set (rulesOf (foldRules rows)) \<Longrightarrow> validRule r"
  using foldRules_loop_valid [of "[]"] by (auto simp: foldRules_def rulesOf_def)

definition canonicalWhere :: "Where \<Rightarrow> bool" where
  "canonicalWhere w \<longleftrightarrow> list_all (\<lambda>(p, items). list_all canonicalItem items) (w_Keys w)"


definition sampleRule :: Rule where
  "sampleRule =
    \<lparr>r_ID = ''r1'', r_Principal = ''alice'', r_Capability = CapReveal, r_Org = ''org'',
     r_Where = \<lparr>w_Projects = [''web'', ''api''], w_EnvMode = AxisOnly,
                w_Envs = [(''web'', [''dev'', ''test'']), (''api'', [''dev''])],
                w_KeyMode = AxisAll, w_Keys = [(''web'', [folderItem ''db'', keyItem ''k9''])]\<rparr>\<rparr>"


end
