(* ===== verification/Containment.thy ===== *)
theory Containment
  imports Rules
begin

text \<open>
  Selector containment (\<^verbatim>\<open>internal/domain/rule_containment.go\<close>). A selector denotes the
  set of (environment, key) pairs it selects in a project, present and future ones. The
  pairwise test is sound for inclusion of these sets; the union test, which samples finitely
  many witnesses, decides it exactly.
\<close>


section \<open>Selector matching\<close>

definition folderWithin :: "string \<Rightarrow> string \<Rightarrow> bool" where
  "folderWithin folder ancestor \<longleftrightarrow>
    folder = ancestor \<or> ancestor \<noteq> [] \<and> prefix (ancestor @ ''/'') folder"

definition selectorEnvMatches :: "Where \<Rightarrow> ProjectID \<Rightarrow> EnvID \<Rightarrow> bool" where
  "selectorEnvMatches w project env =
    (let matched = env \<in> set (envs_of w project) in
     w_EnvMode w = AxisOnly \<and> matched \<or> w_EnvMode w = AxisAll \<and> \<not> matched)"

definition selectorItemMatches :: "AxisMode \<Rightarrow> RuleKey \<Rightarrow> RuleKeyItem \<Rightarrow> bool" where
  "selectorItemMatches mode key item =
    (if \<not> it_IsFolder item then k_ID key \<noteq> [] \<and> k_ID key = it_KeyID item
     else if mode = AxisAll then folderWithin (k_Folder key) (it_Folder item)
     else k_Folder key = it_Folder item)"

definition selectorKeyMatches :: "Where \<Rightarrow> ProjectID \<Rightarrow> RuleKey \<Rightarrow> bool" where
  "selectorKeyMatches w project key =
    (let matched = list_ex (selectorItemMatches (w_KeyMode w) key) (keys_of w project) in
     w_KeyMode w = AxisOnly \<and> matched \<or> w_KeyMode w = AxisAll \<and> \<not> matched)"


section \<open>The pairwise test\<close>

definition axisContains :: "AxisMode \<Rightarrow> 'a list \<Rightarrow> AxisMode \<Rightarrow> 'a list \<Rightarrow> bool" where
  "axisContains outerMode outer innerMode inner =
    (if innerMode = AxisOnly then
       (if list_ex (\<lambda>v. outerMode = AxisOnly \<and> v \<notin> set outer \<or> outerMode = AxisAll \<and> v \<in> set outer) inner
        then False
        else outerMode = AxisOnly \<or> outerMode = AxisAll)
     else if innerMode \<noteq> AxisAll \<or> outerMode \<noteq> AxisAll then False
     else list_all (\<lambda>excluded. excluded \<in> set inner) outer)"

definition keySelectionContains :: "RuleKeyItem \<Rightarrow> RuleKeyItem \<Rightarrow> (string \<Rightarrow> string option) \<Rightarrow> bool" where
  "keySelectionContains outer inner folders =
    (if it_IsFolder inner then it_IsFolder outer \<and> it_Folder outer = it_Folder inner
     else if \<not> it_IsFolder outer then it_KeyID outer = it_KeyID inner
     else folders (it_KeyID inner) = Some (it_Folder outer))"

definition keySelectionOverlapsExclusion ::
  "RuleKeyItem \<Rightarrow> RuleKeyItem \<Rightarrow> (string \<Rightarrow> string option) \<Rightarrow> bool" where
  "keySelectionOverlapsExclusion selected excluded folders =
    (if it_IsFolder selected then
       (if it_IsFolder excluded then folderWithin (it_Folder selected) (it_Folder excluded)
        else case folders (it_KeyID excluded) of
               None \<Rightarrow> True
             | Some folder \<Rightarrow> folder = it_Folder selected)
     else if \<not> it_IsFolder excluded then it_KeyID selected = it_KeyID excluded
     else case folders (it_KeyID selected) of
            None \<Rightarrow> True
          | Some folder \<Rightarrow> folderWithin folder (it_Folder excluded))"

definition exclusionContains :: "RuleKeyItem \<Rightarrow> RuleKeyItem \<Rightarrow> (string \<Rightarrow> string option) \<Rightarrow> bool" where
  "exclusionContains outer inner folders =
    (if it_IsFolder inner then it_IsFolder outer \<and> folderWithin (it_Folder inner) (it_Folder outer)
     else if \<not> it_IsFolder outer then it_KeyID outer = it_KeyID inner
     else case folders (it_KeyID inner) of
            None \<Rightarrow> False
          | Some folder \<Rightarrow> folderWithin folder (it_Folder outer))"

definition ContainsWhereInProject ::
  "Where \<Rightarrow> Where \<Rightarrow> ProjectID \<Rightarrow> (string \<Rightarrow> string option) \<Rightarrow> bool" where
  "ContainsWhereInProject outer inner project keyFolders =
    (if project \<notin> set (w_Projects outer) \<or> project \<notin> set (w_Projects inner) then False
     else if \<not> axisContains (w_EnvMode outer) (envs_of outer project)
                 (w_EnvMode inner) (envs_of inner project) then False
     else
       let os = keys_of outer project; is = keys_of inner project in
       if w_KeyMode inner = AxisOnly then
         list_all (\<lambda>selected.
             if w_KeyMode outer = AxisOnly
             then list_ex (\<lambda>item. keySelectionContains item selected keyFolders) os
             else if w_KeyMode outer = AxisAll
             then \<not> list_ex (\<lambda>excluded. keySelectionOverlapsExclusion selected excluded keyFolders) os
             else False) is
       else if w_KeyMode inner \<noteq> AxisAll \<or> w_KeyMode outer \<noteq> AxisAll then False
       else list_all (\<lambda>excluded. list_ex (\<lambda>item. exclusionContains item excluded keyFolders) is) os)"


section \<open>The union test\<close>

definition insertNew :: "'a list \<Rightarrow> 'a \<Rightarrow> 'a list" where
  "insertNew xs x = (if x \<in> set xs then xs else xs @ [x])"

definition collectItem :: "string list \<times> string list \<Rightarrow> RuleKeyItem \<Rightarrow> string list \<times> string list" where
  "collectItem acc item =
    (let (folders, ids) = acc in
     if it_IsFolder item then (insertNew folders (it_Folder item), ids)
     else (folders, insertNew ids (it_KeyID item)))"

definition collectEnvs :: "ProjectID \<Rightarrow> EnvID list \<Rightarrow> Where list \<Rightarrow> EnvID list" where
  "collectEnvs project envs ws = foldl (\<lambda>envs w. foldl insertNew envs (envs_of w project)) envs ws"

definition collectKeys :: "ProjectID \<Rightarrow> Where list \<Rightarrow> string list \<times> string list" where
  "collectKeys project ws = foldl (\<lambda>acc w. foldl collectItem acc (keys_of w project)) ([''''], []) ws"

definition witnessName :: "nat \<Rightarrow> string" where
  "witnessName i = ''selector-witness-'' @ itoa i"

definition childName :: "string \<Rightarrow> nat \<Rightarrow> string" where
  "childName folder i = (if folder \<noteq> [] then folder @ ''/'' @ witnessName i else witnessName i)"

definition freshEnv :: "EnvID list \<Rightarrow> EnvID option" where
  "freshEnv envs = map_option witnessName (first_accepted (\<lambda>i. witnessName i \<in> set envs) 0)"

definition freshChild :: "string list \<Rightarrow> string \<Rightarrow> string option" where
  "freshChild folders folder =
    map_option (childName folder)
      (first_accepted (\<lambda>i. list_ex (\<lambda>named. folderWithin named (childName folder i)) folders) 0)"

fun freshChildren :: "string list \<Rightarrow> string list \<Rightarrow> string list option" where
  "freshChildren folders [] = Some []"
| "freshChildren folders (f # fs) =
    Option.bind (freshChild folders f) (\<lambda>c. map_option ((#) c) (freshChildren folders fs))"

text \<open>The keys of the named ids; \<open>None\<close> where \<^verbatim>\<open>keyFolders\<close> has no entry.\<close>

fun namedKeys :: "(string \<Rightarrow> string option) \<Rightarrow> string list \<Rightarrow> RuleKey list option" where
  "namedKeys keyFolders [] = Some []"
| "namedKeys keyFolders (id' # ids) =
    (case keyFolders id' of
       None \<Rightarrow> None
     | Some folder \<Rightarrow> map_option ((#) \<lparr>k_ID = id', k_Folder = folder\<rparr>) (namedKeys keyFolders ids))"

definition coveredByUnion :: "Where list \<Rightarrow> ProjectID \<Rightarrow> EnvID \<Rightarrow> RuleKey \<Rightarrow> bool" where
  "coveredByUnion outers project env key =
    list_ex (\<lambda>outer. project \<in> set (w_Projects outer) \<and> selectorEnvMatches outer project env \<and>
                     selectorKeyMatches outer project key) outers"

definition samplesCovered :: "Where list \<Rightarrow> Where \<Rightarrow> ProjectID \<Rightarrow> EnvID list \<Rightarrow> RuleKey list \<Rightarrow> bool" where
  "samplesCovered outers inner project envs keys =
    list_all (\<lambda>env. selectorEnvMatches inner project env \<longrightarrow>
      list_all (\<lambda>key. selectorKeyMatches inner project key \<longrightarrow> coveredByUnion outers project env key) keys) envs"

text \<open>\<open>None\<close> would be a witness loop that does not end.\<close>

definition WhereUnionContainsInProject ::
  "Where list \<Rightarrow> Where \<Rightarrow> ProjectID \<Rightarrow> (string \<Rightarrow> string option) \<Rightarrow> bool option" where
  "WhereUnionContainsInProject outers inner project keyFolders =
    (let ws = outers @ [inner];
         envs = collectEnvs project (envs_of inner project) ws;
         (folders, ids) = collectKeys project ws in
     Option.bind (freshEnv envs) (\<lambda>env.
     Option.bind (freshChildren folders folders) (\<lambda>children.
       case namedKeys keyFolders ids of
         None \<Rightarrow> Some False
       | Some named \<Rightarrow>
           Some (samplesCovered outers inner project (envs @ [env])
             (map (\<lambda>f. \<lparr>k_ID = [], k_Folder = f\<rparr>) (folders @ children) @ named)))))"


section \<open>What a selector denotes\<close>

text \<open>
  A key is consistent with the transaction's catalogue when its folder is the catalogued one;
  a key being created has no id yet.
\<close>

definition catalogued :: "(string \<Rightarrow> string option) \<Rightarrow> RuleKey \<Rightarrow> bool" where
  "catalogued keyFolders key \<longleftrightarrow>
    k_ID key = [] \<or> (case keyFolders (k_ID key) of None \<Rightarrow> True | Some f \<Rightarrow> k_Folder key = f)"

definition selects :: "Where \<Rightarrow> ProjectID \<Rightarrow> EnvID \<Rightarrow> RuleKey \<Rightarrow> bool" where
  "selects w project env key \<longleftrightarrow>
    selectorEnvMatches w project env \<and> selectorKeyMatches w project key"

lemma folderWithin_refl [simp]: "folderWithin f f"
  by (simp add: folderWithin_def)

lemma folderWithin_root [simp]: "folderWithin f [] \<longleftrightarrow> f = []"
  by (auto simp: folderWithin_def)

lemma folderWithin_slash: "a \<noteq> [] \<Longrightarrow> folderWithin f a \<longleftrightarrow> f = a \<or> prefix (a @ ''/'') f"
  by (simp add: folderWithin_def)

lemma folderWithin_trans: "folderWithin f g \<Longrightarrow> folderWithin g h \<Longrightarrow> folderWithin f h"
  unfolding folderWithin_def
  using append_prefixD prefix_order.trans by blast

lemma axisContains_sound:
  assumes "axisContains om os im is"
    and "im = AxisOnly \<and> x \<in> set is \<or> im = AxisAll \<and> x \<notin> set is"
  shows "om = AxisOnly \<and> x \<in> set os \<or> om = AxisAll \<and> x \<notin> set os"
  using assms by (auto simp: axisContains_def list_ex_iff list_all_iff split: if_splits)

lemma keySelectionContains_sound:
  assumes "keySelectionContains out inn kf" "catalogued kf key"
    and "selectorItemMatches AxisOnly key inn"
  shows "selectorItemMatches AxisOnly key out"
  using assms by (auto simp: keySelectionContains_def catalogued_def selectorItemMatches_def
      split: if_splits option.splits)

lemma overlap_complete:
  assumes "catalogued kf key" "selectorItemMatches AxisOnly key selected"
    and "selectorItemMatches AxisAll key excluded"
  shows "keySelectionOverlapsExclusion selected excluded kf"
  using assms by (auto simp: keySelectionOverlapsExclusion_def catalogued_def selectorItemMatches_def
      split: if_splits option.splits)

lemma exclusionContains_sound:
  assumes "exclusionContains out inn kf" "catalogued kf key"
    and "selectorItemMatches AxisAll key inn"
  shows "selectorItemMatches AxisAll key out"
  using assms by (auto simp: exclusionContains_def catalogued_def selectorItemMatches_def
      split: if_splits option.splits intro: folderWithin_trans)

text \<open>The three conditions an accepted pair meets.\<close>

lemma ContainsWhereInProject_parts:
  assumes "ContainsWhereInProject outer inner project kf"
  shows "project \<in> set (w_Projects outer)"
    and "axisContains (w_EnvMode outer) (envs_of outer project) (w_EnvMode inner) (envs_of inner project)"
    and "w_KeyMode inner = AxisOnly \<Longrightarrow> w_KeyMode outer = AxisOnly \<Longrightarrow> it \<in> set (keys_of inner project) \<Longrightarrow>
          \<exists>out \<in> set (keys_of outer project). keySelectionContains out it kf"
    and "w_KeyMode inner = AxisOnly \<Longrightarrow> w_KeyMode outer = AxisAll \<Longrightarrow> it \<in> set (keys_of inner project) \<Longrightarrow>
          out \<in> set (keys_of outer project) \<Longrightarrow> \<not> keySelectionOverlapsExclusion it out kf"
    and "w_KeyMode inner = AxisOnly \<Longrightarrow> it \<in> set (keys_of inner project) \<Longrightarrow>
          w_KeyMode outer = AxisOnly \<or> w_KeyMode outer = AxisAll"
    and "w_KeyMode inner \<noteq> AxisOnly \<Longrightarrow> w_KeyMode outer = AxisAll"
    and "w_KeyMode inner \<noteq> AxisOnly \<Longrightarrow> out \<in> set (keys_of outer project) \<Longrightarrow>
          \<exists>it \<in> set (keys_of inner project). exclusionContains it out kf"
  using assms unfolding ContainsWhereInProject_def Let_def list_all_iff list_ex_iff
  by (simp_all split: if_splits) blast

lemma selectorKeyMatches_Only:
  "w_KeyMode w = AxisOnly \<Longrightarrow>
   selectorKeyMatches w project key \<longleftrightarrow> (\<exists>it \<in> set (keys_of w project). selectorItemMatches AxisOnly key it)"
  by (simp add: selectorKeyMatches_def list_ex_iff)

lemma selectorKeyMatches_All:
  "w_KeyMode w = AxisAll \<Longrightarrow>
   selectorKeyMatches w project key \<longleftrightarrow> \<not> (\<exists>it \<in> set (keys_of w project). selectorItemMatches AxisAll key it)"
  by (simp add: selectorKeyMatches_def list_ex_iff)

lemma selectorKeyMatches_mode:
  "selectorKeyMatches w project key \<Longrightarrow> w_KeyMode w = AxisOnly \<or> w_KeyMode w = AxisAll"
  by (auto simp: selectorKeyMatches_def Let_def)

lemma ContainsWhereInProject_keys:
  assumes contains: "ContainsWhereInProject outer inner project kf"
    and key: "catalogued kf key" and sel: "selectorKeyMatches inner project key"
  shows "selectorKeyMatches outer project key"
proof (cases "w_KeyMode inner = AxisOnly")
  case True
  with sel obtain it where it: "it \<in> set (keys_of inner project)" "selectorItemMatches AxisOnly key it"
    by (auto simp: selectorKeyMatches_Only)
  note parts = ContainsWhereInProject_parts(3-5) [OF contains True]
  from parts(3) [OF it(1)] show ?thesis
  proof
    assume "w_KeyMode outer = AxisOnly"
    with parts(1) [OF this it(1)] keySelectionContains_sound [OF _ key it(2)] show ?thesis
      by (auto simp only: selectorKeyMatches_Only)
  next
    assume "w_KeyMode outer = AxisAll"
    with parts(2) [OF this it(1)] overlap_complete [OF key it(2)] show ?thesis
      by (auto simp only: selectorKeyMatches_All)
  qed
next
  case False
  then have "w_KeyMode inner = AxisAll" using selectorKeyMatches_mode [OF sel] by simp
  moreover note ContainsWhereInProject_parts(6,7) [OF contains False]
  ultimately show ?thesis
    using sel exclusionContains_sound [OF _ key]
    by (auto simp: selectorKeyMatches_All)
qed

lemma pairwise_test_sound:
  assumes contains: "ContainsWhereInProject outer inner project kf"
    and key: "catalogued kf key" and sel: "selects inner project env key"
  shows "project \<in> set (w_Projects outer) \<and> selects outer project env key"
proof -
  have "selectorEnvMatches outer project env"
    using sel axisContains_sound [OF ContainsWhereInProject_parts(2) [OF contains], of env]
    by (simp add: selects_def selectorEnvMatches_def Let_def)
  then show ?thesis
    using sel ContainsWhereInProject_parts(1) [OF contains] ContainsWhereInProject_keys [OF contains key]
    by (simp add: selects_def)
qed


text \<open>
  The pairwise containment test is sound: when it accepts, every environment and every
  catalogued or new key the inner selector selects in the project, present or future, is
  selected by the outer one.
\<close>

theorem ContainsWhereInProject_sound:
  assumes contains: "ContainsWhereInProject outer inner project kf"
    and key: "catalogued kf key" and sel: "selects inner project env key"
  shows "project \<in> set (w_Projects outer) \<and> selects outer project env key"
  using pairwise_test_sound [OF contains key sel] .

definition allExceptDb :: Where where
  "allExceptDb =
    \<lparr>w_Projects = [''web''], w_EnvMode = AxisAll, w_Envs = [(''web'', [''prod''])],
     w_KeyMode = AxisAll, w_Keys = [(''web'', [folderItem ''db''])]\<rparr>"

definition onlyApp :: Where where
  "onlyApp =
    \<lparr>w_Projects = [''web''], w_EnvMode = AxisOnly, w_Envs = [(''web'', [''dev''])],
     w_KeyMode = AxisOnly, w_Keys = [(''web'', [folderItem ''app'', keyItem ''k7''])]\<rparr>"

theorem ContainsWhereInProject_sound_witness:
  "ContainsWhereInProject allExceptDb onlyApp ''web'' [''k7'' \<mapsto> ''mail''] \<and>
   \<not> ContainsWhereInProject allExceptDb onlyApp ''web'' [''k7'' \<mapsto> ''db/x''] \<and>
   selects allExceptDb ''web'' ''dev'' \<lparr>k_ID = ''k7'', k_Folder = ''mail''\<rparr>"
proof -
  have c: "ContainsWhereInProject allExceptDb onlyApp ''web'' [''k7'' \<mapsto> ''mail'']" by code_simp
  have k: "catalogued [''k7'' \<mapsto> ''mail''] \<lparr>k_ID = ''k7'', k_Folder = ''mail''\<rparr>" by code_simp
  have s: "selects onlyApp ''web'' ''dev'' \<lparr>k_ID = ''k7'', k_Folder = ''mail''\<rparr>" by code_simp
  have "\<not> ContainsWhereInProject allExceptDb onlyApp ''web'' [''k7'' \<mapsto> ''db/x'']" by code_simp
  with c ContainsWhereInProject_sound [OF c k s] show ?thesis by simp
qed


section \<open>The sampled objects\<close>

lemma set_foldl_insertNew [simp]: "set (foldl insertNew xs ys) = set xs \<union> set ys"
  by (induction ys arbitrary: xs) (auto simp: insertNew_def)

lemma set_collectEnvs: "set (collectEnvs project envs ws) = set envs \<union> (\<Union>w \<in> set ws. set (envs_of w project))"
  unfolding collectEnvs_def by (induction ws arbitrary: envs) auto

definition namedFolders :: "ProjectID \<Rightarrow> Where list \<Rightarrow> string set" where
  "namedFolders project ws = {it_Folder it |it w. w \<in> set ws \<and> it \<in> set (keys_of w project) \<and> it_IsFolder it}"

definition namedIDs :: "ProjectID \<Rightarrow> Where list \<Rightarrow> string set" where
  "namedIDs project ws = {it_KeyID it |it w. w \<in> set ws \<and> it \<in> set (keys_of w project) \<and> \<not> it_IsFolder it}"

lemma foldl_collectItem:
  "set (fst (foldl collectItem acc its)) = set (fst acc) \<union> {it_Folder it |it. it \<in> set its \<and> it_IsFolder it}"
  "set (snd (foldl collectItem acc its)) = set (snd acc) \<union> {it_KeyID it |it. it \<in> set its \<and> \<not> it_IsFolder it}"
  by (induction its arbitrary: acc) (auto simp: collectItem_def insertNew_def split: prod.splits if_splits)

lemma foldl_collectKeys:
  "set (fst (foldl (\<lambda>acc w. foldl collectItem acc (keys_of w project)) acc ws)) = set (fst acc) \<union> namedFolders project ws"
  "set (snd (foldl (\<lambda>acc w. foldl collectItem acc (keys_of w project)) acc ws)) = set (snd acc) \<union> namedIDs project ws"
  by (induction ws arbitrary: acc) (auto simp: foldl_collectItem namedFolders_def namedIDs_def)

lemma set_collectKeys:
  "set (fst (collectKeys project ws)) = insert [] (namedFolders project ws)"
  "set (snd (collectKeys project ws)) = namedIDs project ws"
  by (simp_all add: collectKeys_def foldl_collectKeys)

text \<open>Witness names are pairwise different and hold no slash.\<close>

lemma inj_witnessName: "inj witnessName"
  by (rule injI) (use inj_itoa in \<open>auto simp: witnessName_def inj_def\<close>)

lemma inj_childName: "inj (childName folder)"
  using inj_witnessName by (auto simp: childName_def inj_def)

lemma witnessName_no_slash: "CHR ''/'' \<notin> set (witnessName i)"
proof
  assume "CHR ''/'' \<in> set (witnessName i)"
  then have "is_digit (CHR ''/'')"
    by (auto simp: witnessName_def dest: itoa_digits)
  then show False by (simp add: is_digit_def)
qed

lemma witnessName_nonempty [simp]: "witnessName i \<noteq> []"
  by (simp add: witnessName_def)

text \<open>Both open-ended loops return.\<close>

lemma freshEnv_returns: "\<exists>env. freshEnv envs = Some env \<and> env \<notin> set envs"
  using first_accepted_terminates [OF finite_hits [OF inj_witnessName, of envs]]
  by (auto simp: freshEnv_def)

lemma finite_blocked_children: "finite {i. list_ex (\<lambda>named. folderWithin named (childName folder i)) folders}"
proof (rule finite_subset)
  show "{i. list_ex (\<lambda>named. folderWithin named (childName folder i)) folders}
      \<subseteq> {i. childName folder i \<in> set (concat (map prefixes folders))}"
    by (auto simp: list_ex_iff folderWithin_def in_set_prefixes dest: append_prefixD)
  show "finite {i. childName folder i \<in> set (concat (map prefixes folders))}"
    by (rule finite_hits [OF inj_childName])
qed

lemma freshChild_returns:
  "\<exists>i. freshChild folders folder = Some (childName folder i) \<and>
       \<not> list_ex (\<lambda>named. folderWithin named (childName folder i)) folders"
  using first_accepted_terminates [OF finite_blocked_children [of folder folders]]
  by (auto simp: freshChild_def)

lemma freshChildren_returns:
  "\<exists>cs. freshChildren folders fs = Some cs \<and>
    (\<forall>f \<in> set fs. \<exists>i. childName f i \<in> set cs \<and> childName f i \<notin> set folders)"
proof (induction fs)
  case (Cons f fs)
  then obtain cs where cs: "freshChildren folders fs = Some cs"
      "\<forall>f \<in> set fs. \<exists>i. childName f i \<in> set cs \<and> childName f i \<notin> set folders" by blast
  moreover obtain i where i: "freshChild folders f = Some (childName f i)"
      "\<not> list_ex (\<lambda>named. folderWithin named (childName f i)) folders"
    using freshChild_returns by blast
  moreover have "childName f i \<notin> set folders"
    using i(2) by (auto simp: list_ex_iff)
  ultimately show ?case by auto
qed simp


section \<open>One representative per region\<close>

text \<open>
  Two folders are in the same region when no named folder tells them apart, neither by equality
  nor by the subtree test.
\<close>

definition sameRegion :: "string set \<Rightarrow> string \<Rightarrow> string \<Rightarrow> bool" where
  "sameRegion F f g \<longleftrightarrow> (\<forall>h \<in> F. (f = h \<longleftrightarrow> g = h) \<and> (folderWithin f h \<longleftrightarrow> folderWithin g h))"

lemma prefix_slash_tail:
  assumes "CHR ''/'' \<notin> set t"
  shows "prefix (g @ ''/'') (a @ ''/'' @ t) \<longleftrightarrow> prefix (g @ ''/'') (a @ ''/'')"
proof -
  have "us = []" if "g @ ''/'' = (a @ ''/'') @ us" "prefix us t" for us
  proof (cases us rule: rev_cases)
    case (snoc vs c)
    with that(1) have "c = CHR ''/''" by (simp only: append_assoc [symmetric] append1_eq_conv)
    moreover have "c \<in> set t" using that(2) set_mono_prefix [of us t] snoc by auto
    ultimately show ?thesis using assms by simp
  qed
  then show ?thesis
    using prefix_append [of "g @ ''/''" "a @ ''/''" t] by auto
qed

text \<open>Of the named ancestors of a folder, the longest decides the folder's region.\<close>

lemma deepest_ancestor:
  assumes "finite F" "f \<notin> F" "\<exists>g \<in> F. g \<noteq> [] \<and> folderWithin f g"
  obtains a where "a \<in> F" "a \<noteq> []"
    and "\<And>h. h \<in> F \<Longrightarrow> h \<noteq> [] \<Longrightarrow> folderWithin f h \<longleftrightarrow> prefix (h @ ''/'') (a @ ''/'')"
proof -
  define A where "A = {g \<in> F. g \<noteq> [] \<and> folderWithin f g}"
  have A: "finite A" "A \<noteq> {}" using assms by (auto simp: A_def)
  then have "Max (length ` A) \<in> length ` A" by simp
  then obtain a where "a \<in> A" "length a = Max (length ` A)" by fastforce
  then have a: "a \<in> A" "\<And>h. h \<in> A \<Longrightarrow> length h \<le> length a" using A by simp_all
  have under: "prefix (g @ ''/'') f" if "g \<in> A" for g
    using that assms(2) by (auto simp: A_def folderWithin_def)
  show thesis
  proof
    show "a \<in> F" "a \<noteq> []" using a(1) by (auto simp: A_def)
    fix h assume h: "h \<in> F" "h \<noteq> []"
    show "folderWithin f h \<longleftrightarrow> prefix (h @ ''/'') (a @ ''/'')"
    proof
      assume "folderWithin f h"
      with h have hA: "h \<in> A" by (simp add: A_def)
      show "prefix (h @ ''/'') (a @ ''/'')"
        by (rule prefix_length_prefix [OF under [OF hA] under [OF a(1)]]) (use a(2) [OF hA] in simp)
    next
      assume "prefix (h @ ''/'') (a @ ''/'')"
      from prefix_order.trans [OF this under [OF a(1)]] h(2) show "folderWithin f h"
        by (simp add: folderWithin_def)
    qed
  qed
qed

lemma region_representative:
  assumes "finite F" "[] \<in> F" and child: "\<And>g. g \<in> F \<Longrightarrow> \<exists>i. childName g i \<in> C \<and> childName g i \<notin> F"
  shows "\<exists>r \<in> F \<union> C. sameRegion F f r"
proof (cases "f \<in> F")
  case True
  then show ?thesis by (auto simp: sameRegion_def)
next
  case out: False
  show ?thesis
  proof (cases "\<exists>g \<in> F. g \<noteq> [] \<and> folderWithin f g")
    case True
    then obtain a where a: "a \<in> F" "a \<noteq> []"
      and anc: "\<And>h. h \<in> F \<Longrightarrow> h \<noteq> [] \<Longrightarrow> folderWithin f h \<longleftrightarrow> prefix (h @ ''/'') (a @ ''/'')"
      by (rule deepest_ancestor [OF assms(1) out]) blast
    from child [OF a(1)] obtain i where i: "childName a i \<in> C" "childName a i \<notin> F" by blast
    have name: "childName a i = a @ ''/'' @ witnessName i" using a(2) by (simp add: childName_def)
    have "folderWithin (childName a i) h \<longleftrightarrow> folderWithin f h" if "h \<in> F" for h
      using that i(2) out assms(2) anc [OF that] prefix_slash_tail [OF witnessName_no_slash, of h a i]
      by (cases "h = []") (auto simp: folderWithin_def name)
    with i out show ?thesis by (intro bexI [where x = "childName a i"]) (auto simp: sameRegion_def)
  next
    case False
    from child [OF assms(2)] obtain i where i: "childName [] i \<in> C" "childName [] i \<notin> F" by blast
    have "\<not> prefix (h @ ''/'') (childName [] i)" for h
      using witnessName_no_slash [of i] set_mono_prefix [of "h @ ''/''" "witnessName i"]
      by (auto simp: childName_def)
    with i(2) False out assms(2) have "folderWithin (childName [] i) h \<longleftrightarrow> folderWithin f h" if "h \<in> F" for h
      using that by (cases "h = []") (auto simp: folderWithin_def)
    with i out show ?thesis by (intro bexI [where x = "childName [] i"]) (auto simp: sameRegion_def)
  qed
qed


section \<open>The union test decides inclusion\<close>

lemma namedKeys_Some:
  "namedKeys kf ids = Some ks \<Longrightarrow>
    (\<forall>id \<in> set ids. kf id \<noteq> None) \<and>
    set ks = {k. k_ID k \<in> set ids \<and> kf (k_ID k) = Some (k_Folder k)}"
proof (induction ids arbitrary: ks)
  case (Cons id' ids)
  then obtain f ks' where f: "kf id' = Some f" "namedKeys kf ids = Some ks'"
    and ks: "ks = \<lparr>k_ID = id', k_Folder = f\<rparr> # ks'"
    by (auto split: option.splits)
  have "k = \<lparr>k_ID = id', k_Folder = f\<rparr> \<longleftrightarrow> k_ID k = id' \<and> k_Folder k = f" for k :: RuleKey
    by (cases k) auto
  with Cons.IH [OF f(2)] f ks show ?case by auto
qed simp

lemma namedKeys_None: "namedKeys kf ids = None \<longleftrightarrow> (\<exists>id \<in> set ids. kf id = None)"
  by (induction ids) (auto split: option.splits)

text \<open>Objects no selector tells apart are selected alike.\<close>

lemma selectorEnvMatches_cong:
  "(env \<in> set (envs_of w project)) = (env' \<in> set (envs_of w project)) \<Longrightarrow>
   selectorEnvMatches w project env = selectorEnvMatches w project env'"
  by (simp add: selectorEnvMatches_def)

lemma selectorKeyMatches_cong:
  assumes "w \<in> set ws" "sameRegion F (k_Folder key) (k_Folder key')" "namedFolders project ws \<subseteq> F"
    and "k_ID key = [] \<or> k_ID key \<notin> namedIDs project ws" "k_ID key' = []"
  shows "selectorKeyMatches w project key = selectorKeyMatches w project key'"
proof -
  have "selectorItemMatches (w_KeyMode w) key it = selectorItemMatches (w_KeyMode w) key' it"
    if it: "it \<in> set (keys_of w project)" for it
  proof (cases "it_IsFolder it")
    case True
    then have "it_Folder it \<in> F" using it assms(1,3) by (auto simp: namedFolders_def)
    with assms(2) True show ?thesis by (simp add: sameRegion_def selectorItemMatches_def)
  next
    case False
    then have "it_KeyID it \<in> namedIDs project ws" using it assms(1) by (auto simp: namedIDs_def)
    with assms(4,5) False show ?thesis by (auto simp: selectorItemMatches_def)
  qed
  then have "list_ex (selectorItemMatches (w_KeyMode w) key) (keys_of w project) =
      list_ex (selectorItemMatches (w_KeyMode w) key') (keys_of w project)"
    by (auto simp: list_ex_iff)
  then show ?thesis by (simp add: selectorKeyMatches_def)
qed

definition includedInUnion :: "Where list \<Rightarrow> Where \<Rightarrow> ProjectID \<Rightarrow> (string \<Rightarrow> string option) \<Rightarrow> bool" where
  "includedInUnion outers inner project kf \<longleftrightarrow>
    (\<forall>env key. catalogued kf key \<longrightarrow> selects inner project env key \<longrightarrow>
      (\<exists>outer \<in> set outers. project \<in> set (w_Projects outer) \<and> selects outer project env key))"

lemma coveredByUnion_iff:
  "coveredByUnion outers project env key \<longleftrightarrow>
    (\<exists>outer \<in> set outers. project \<in> set (w_Projects outer) \<and> selects outer project env key)"
  by (simp add: coveredByUnion_def list_ex_iff selects_def)

lemma samplesCovered_iff:
  "samplesCovered outers inner project envs keys \<longleftrightarrow>
    (\<forall>env \<in> set envs. \<forall>key \<in> set keys. selects inner project env key \<longrightarrow> coveredByUnion outers project env key)"
  by (auto simp: samplesCovered_def list_all_iff selects_def)

text \<open>Every object has a sampled counterpart that all selectors treat the same way.\<close>

lemma sample_counterpart:
  assumes ws: "ws = outers @ [inner]" and envs: "\<forall>w \<in> set ws. set (envs_of w project) \<subseteq> set envs" "env0 \<notin> set envs"
    and folders: "set folders = insert [] (namedFolders project ws)"
    and children: "\<forall>f \<in> set folders. \<exists>i. childName f i \<in> set children \<and> childName f i \<notin> set folders"
    and named: "namedIDs project ws \<subseteq> {id. kf id \<noteq> None}"
      "set named = {k. k_ID k \<in> namedIDs project ws \<and> kf (k_ID k) = Some (k_Folder k)}"
    and key: "catalogued kf key"
  shows "\<exists>env' \<in> set (envs @ [env0]).
    \<exists>key' \<in> set (map (\<lambda>f. \<lparr>k_ID = [], k_Folder = f\<rparr>) (folders @ children) @ named).
    \<forall>w \<in> set ws. selects w project env key = selects w project env' key'"
proof -
  define env' where "env' = (if env \<in> set envs then env else env0)"
  have E: "selectorEnvMatches w project env = selectorEnvMatches w project env'" if "w \<in> set ws" for w
    using that envs by (intro selectorEnvMatches_cong) (auto simp: env'_def)
  have "\<exists>key' \<in> set (map (\<lambda>f. \<lparr>k_ID = [], k_Folder = f\<rparr>) (folders @ children) @ named).
      \<forall>w \<in> set ws. selectorKeyMatches w project key = selectorKeyMatches w project key'"
  proof (cases "k_ID key = [] \<or> k_ID key \<notin> namedIDs project ws")
    case True
    have root: "[] \<in> set folders" using folders by simp
    obtain r where r: "r \<in> set folders \<union> set children" "sameRegion (set folders) (k_Folder key) r"
      using region_representative [OF finite_set root bspec [OF children], of "k_Folder key"] by auto
    have "selectorKeyMatches w project key = selectorKeyMatches w project \<lparr>k_ID = [], k_Folder = r\<rparr>"
      if "w \<in> set ws" for w
      using that r(2) True folders by (intro selectorKeyMatches_cong [where F = "set folders" and ws = ws]) auto
    with r(1) show ?thesis by (intro bexI [where x = "\<lparr>k_ID = [], k_Folder = r\<rparr>"]) auto
  next
    case False
    with named key have "key \<in> set named" by (auto simp: catalogued_def split: option.splits)
    then show ?thesis by auto
  qed
  then have "\<exists>key' \<in> set (map (\<lambda>f. \<lparr>k_ID = [], k_Folder = f\<rparr>) (folders @ children) @ named).
      \<forall>w \<in> set ws. selects w project env key = selects w project env' key'"
    using E unfolding selects_def by metis
  moreover have "env' \<in> set (envs @ [env0])" by (simp add: env'_def)
  ultimately show ?thesis by blast
qed

text \<open>The catalogue names every key the selectors name individually.\<close>

definition namedCatalogued :: "Where list \<Rightarrow> Where \<Rightarrow> ProjectID \<Rightarrow> (string \<Rightarrow> string option) \<Rightarrow> bool" where
  "namedCatalogued outers inner project kf \<longleftrightarrow>
    (\<forall>w \<in> set (outers @ [inner]). \<forall>it \<in> set (keys_of w project). \<not> it_IsFolder it \<longrightarrow> kf (it_KeyID it) \<noteq> None)"

lemma namedCatalogued_iff:
  "namedCatalogued outers inner project kf \<longleftrightarrow> namedIDs project (outers @ [inner]) \<subseteq> {id. kf id \<noteq> None}"
  unfolding namedCatalogued_def namedIDs_def by blast

lemma samples_decide:
  assumes "ws = outers @ [inner]" "\<forall>w \<in> set ws. set (envs_of w project) \<subseteq> set envs" "env0 \<notin> set envs"
    and "set folders = insert [] (namedFolders project ws)"
    and "\<forall>f \<in> set folders. \<exists>i. childName f i \<in> set children \<and> childName f i \<notin> set folders"
    and "namedIDs project ws \<subseteq> {id. kf id \<noteq> None}"
    and named: "set named = {k. k_ID k \<in> namedIDs project ws \<and> kf (k_ID k) = Some (k_Folder k)}"
  shows "samplesCovered outers inner project (envs @ [env0])
      (map (\<lambda>f. \<lparr>k_ID = [], k_Folder = f\<rparr>) (folders @ children) @ named)
    \<longleftrightarrow> includedInUnion outers inner project kf" (is "?L \<longleftrightarrow> ?R")
proof
  assume L: ?L
  show ?R unfolding includedInUnion_def
  proof (intro allI impI)
    fix env key assume key: "catalogued kf key" and sel: "selects inner project env key"
    from sample_counterpart [OF assms key, of env] obtain env' key'
      where in': "env' \<in> set (envs @ [env0])"
          "key' \<in> set (map (\<lambda>f. \<lparr>k_ID = [], k_Folder = f\<rparr>) (folders @ children) @ named)"
        and same: "\<forall>w \<in> set ws. selects w project env key = selects w project env' key'"
      by blast
    have "selects inner project env' key'" using sel same assms(1) by simp
    with L in' have "coveredByUnion outers project env' key'" unfolding samplesCovered_iff by blast
    with same assms(1) show "\<exists>outer \<in> set outers. project \<in> set (w_Projects outer) \<and> selects outer project env key"
      by (auto simp: coveredByUnion_iff)
  qed
next
  assume R: ?R
  have "catalogued kf key"
    if "key \<in> set (map (\<lambda>f. \<lparr>k_ID = [], k_Folder = f\<rparr>) (folders @ children) @ named)" for key
    using that named by (auto simp: catalogued_def)
  with R show ?L by (simp only: samplesCovered_iff coveredByUnion_iff includedInUnion_def) blast
qed

lemma union_test_decides:
  "WhereUnionContainsInProject outers inner project kf =
     Some (namedCatalogued outers inner project kf \<and> includedInUnion outers inner project kf)"
proof -
  define ws where "ws = outers @ [inner]"
  define envs where "envs = collectEnvs project (envs_of inner project) ws"
  obtain folders ids where col: "collectKeys project ws = (folders, ids)" by fastforce
  have folders: "set folders = insert [] (namedFolders project ws)" and ids: "set ids = namedIDs project ws"
    using set_collectKeys [of project ws] col by simp_all
  obtain env0 where env0: "freshEnv envs = Some env0" "env0 \<notin> set envs" using freshEnv_returns by blast
  obtain children where ch: "freshChildren folders folders = Some children"
      "\<forall>f \<in> set folders. \<exists>i. childName f i \<in> set children \<and> childName f i \<notin> set folders"
    using freshChildren_returns by blast
  have run: "WhereUnionContainsInProject outers inner project kf =
      (case namedKeys kf ids of None \<Rightarrow> Some False
       | Some named \<Rightarrow> Some (samplesCovered outers inner project (envs @ [env0])
             (map (\<lambda>f. \<lparr>k_ID = [], k_Folder = f\<rparr>) (folders @ children) @ named)))"
    using env0 ch col by (simp add: WhereUnionContainsInProject_def Let_def envs_def flip: ws_def cong: option.case_cong)
  show ?thesis
  proof (cases "namedKeys kf ids")
    case None
    then have "\<not> namedCatalogued outers inner project kf"
      using ids by (auto simp: namedKeys_None namedCatalogued_iff ws_def)
    with None run show ?thesis by simp
  next
    case (Some named)
    from namedKeys_Some [OF Some] ids have ok: "namedIDs project ws \<subseteq> {id. kf id \<noteq> None}"
      and named: "set named = {k. k_ID k \<in> namedIDs project ws \<and> kf (k_ID k) = Some (k_Folder k)}" by auto
    have "\<forall>w \<in> set ws. set (envs_of w project) \<subseteq> set envs" by (auto simp: envs_def set_collectEnvs)
    from samples_decide [OF ws_def this env0(2) folders ch(2) ok named] ok show ?thesis
      using run Some by (simp add: namedCatalogued_iff ws_def)
  qed
qed

text \<open>
  C7. The union containment test is exact: it always returns (its two open-ended witness loops
  end), and it answers true precisely when the catalogue knows every individually named key
  and every environment and key, present or future, that the inner selector selects is selected
  by one of the outer selectors.
\<close>

theorem WhereUnionContainsInProject_exact:
  "WhereUnionContainsInProject outers inner project kf =
     Some (namedCatalogued outers inner project kf \<and> includedInUnion outers inner project kf)"
  by (rule union_test_decides)


section \<open>The contract of a containment test\<close>

text \<open>
  What the authorization package relies on: an accepted list of selectors covers every object
  the target selects. Authority that backs each listed selector therefore backs the target.
\<close>

locale containment_test =
  fixes accepts :: "Where list \<Rightarrow> Where \<Rightarrow> ProjectID \<Rightarrow> (string \<Rightarrow> string option) \<Rightarrow> bool"
  assumes accepts_sound:
    "accepts outers inner project kf \<Longrightarrow> catalogued kf key \<Longrightarrow> selects inner project env key \<Longrightarrow>
     \<exists>outer \<in> set outers. project \<in> set (w_Projects outer) \<and> selects outer project env key"
begin

lemma backed_target:
  assumes "accepts outers target project kf" "catalogued kf key" "selects target project env key"
    and backed: "\<And>outer. outer \<in> set outers \<Longrightarrow> selects outer project env key \<Longrightarrow> authority env key"
  shows "authority env key"
  using accepts_sound [OF assms(1-3)] backed by blast

end

definition anyContains :: "Where list \<Rightarrow> Where \<Rightarrow> ProjectID \<Rightarrow> (string \<Rightarrow> string option) \<Rightarrow> bool" where
  "anyContains outers inner project kf = list_ex (\<lambda>outer. ContainsWhereInProject outer inner project kf) outers"

text \<open>The result of the union test; \<open>False\<close> stands for a loop that would not end, which none does.\<close>

definition unionContains :: "Where list \<Rightarrow> Where \<Rightarrow> ProjectID \<Rightarrow> (string \<Rightarrow> string option) \<Rightarrow> bool" where
  "unionContains outers inner project kf =
    (case WhereUnionContainsInProject outers inner project kf of None \<Rightarrow> False | Some b \<Rightarrow> b)"

lemma unionContains_iff:
  "unionContains outers inner project kf \<longleftrightarrow>
    namedCatalogued outers inner project kf \<and> includedInUnion outers inner project kf"
  by (simp add: unionContains_def union_test_decides)

interpretation pairwise: containment_test anyContains
  by unfold_locales (auto simp: anyContains_def list_ex_iff dest: pairwise_test_sound)

interpretation union: containment_test unionContains
  by unfold_locales (simp add: unionContains_iff includedInUnion_def)

text \<open>The union test accepts whatever a single selector already contains.\<close>

lemma union_test_complete:
  "anyContains outers inner project kf \<Longrightarrow> namedCatalogued outers inner project kf \<Longrightarrow>
   unionContains outers inner project kf"
  using pairwise.accepts_sound [of outers inner project kf]
  by (simp add: unionContains_iff includedInUnion_def)

end
