(* ===== verification/Authz.thy ===== *)
theory Authz
  imports Containment
begin

text \<open>
  Evaluation of authority (\<^verbatim>\<open>internal/authz\<close>): formulas over grants
  (\<^verbatim>\<open>authorize.go\<close>: \<^verbatim>\<open>evaluate\<close>, \<^verbatim>\<open>truncate\<close>, \<^verbatim>\<open>covers\<close>), over
  grants and rules (\<^verbatim>\<open>rules.go\<close>), reachable plaintext (\<^verbatim>\<open>machine.go\<close>), developer
  authority (\<^verbatim>\<open>developer.go\<close>), metadata navigation (\<^verbatim>\<open>rule_navigation.go\<close>) and
  the bound on what a rule may delegate (\<^verbatim>\<open>rule_delegation.go\<close>).
\<close>


section \<open>Formulas over grants\<close>

type_synonym Operation = string

record Atom =
  a_Cap :: Capability
  a_At :: Level

type_synonym Formula = "Atom list"

definition atom :: "Capability \<Rightarrow> Level \<Rightarrow> Atom" where
  "atom c l = \<lparr>a_Cap = c, a_At = l\<rparr>"

fun truncate_scope :: "Scope \<Rightarrow> Level \<Rightarrow> Scope" where
  "truncate_scope s LevelNone = mkScope [] [] []"
| "truncate_scope s LevelOrg = mkScope (s_Org s) [] []"
| "truncate_scope s LevelProject = mkScope (s_Org s) (s_Project s) []"
| "truncate_scope s LevelEnv = s"

definition covers :: "Scope \<Rightarrow> Scope \<Rightarrow> bool" where
  "covers g target =
    (if s_Org g = [] then True
     else if s_Org g \<noteq> s_Org target then False
     else if s_Project g = [] then True
     else if s_Project g \<noteq> s_Project target then False
     else if s_Env g = [] then True
     else s_Env g = s_Env target)"

definition evaluate :: "Formula \<Rightarrow> Scope \<Rightarrow> Grant list \<Rightarrow> bool" where
  "evaluate f chain grants =
    list_all (\<lambda>a. let target = truncate_scope chain (a_At a) in
      list_ex (\<lambda>g. g_Capability g = a_Cap a \<and> covers (g_Scope g) target) grants) f"

definition coveredBy :: "Grant list \<Rightarrow> Capability \<Rightarrow> Scope \<Rightarrow> bool" where
  "coveredBy grants cap at = list_ex (\<lambda>g. g_Capability g = cap \<and> covers (g_Scope g) at) grants"

text \<open>The two maps of \<^verbatim>\<open>Reachable\<close>, as the environments they hold, in order.\<close>

record Reachable =
  Current :: "EnvID list"
  Historical :: "EnvID list"

definition addReachable :: "Scope \<Rightarrow> Grant list \<Rightarrow> Reachable \<Rightarrow> EnvID \<Rightarrow> Reachable" where
  "addReachable scope grants out env =
    (let at = mkScope (s_Org scope) (s_Project scope) env in
     if \<not> coveredBy grants CapRead at then out
     else
       let out1 = (if coveredBy grants CapReveal at
                   then out\<lparr>Current := insertNew (Current out) env\<rparr> else out) in
       if coveredBy grants CapRevealHistory at
       then out1\<lparr>Historical := insertNew (Historical out1) env\<rparr> else out1)"

definition ReachableFrom :: "Scope \<Rightarrow> EnvID list \<Rightarrow> Grant list \<Rightarrow> Reachable" where
  "ReachableFrom scope envs grants =
    foldl (addReachable scope grants) \<lparr>Current = [], Historical = []\<rparr> envs"


section \<open>Formulas over grants and rules\<close>

definition rulesApply :: "PrincipalClass \<Rightarrow> bool" where
  "rulesApply cls \<longleftrightarrow> cls = [] \<or> cls = ClassHuman"

definition ruleSatisfiable :: "Formula \<Rightarrow> bool" where
  "ruleSatisfiable f =
    list_ex (\<lambda>a. RuleShapeOf (a_Cap a) \<noteq> None \<and> a_Cap a \<noteq> CapManageMembers \<and>
                 (a_At a = LevelProject \<or> a_At a = LevelEnv)) f"

definition ruleHolds :: "Atom \<Rightarrow> Scope \<Rightarrow> Rule list \<Rightarrow> RuleKey option \<Rightarrow> bool" where
  "ruleHolds a chain rules key =
    list_ex (\<lambda>r. validRule r \<and> Reaches r (a_Cap a) (a_At a) chain key) rules"

definition evaluateWithRules ::
  "Formula \<Rightarrow> Scope \<Rightarrow> Grant list \<Rightarrow> Rule list \<Rightarrow> RuleKey option \<Rightarrow> bool" where
  "evaluateWithRules f chain grants rules key =
    list_all (\<lambda>a. evaluate [a] chain grants \<or> ruleHolds a chain rules key) f"

definition developerEnvironmentAuthority :: "Scope \<Rightarrow> Grant list \<Rightarrow> Rule list \<Rightarrow> bool" where
  "developerEnvironmentAuthority scope grants rules =
    evaluateWithRules [atom CapRead LevelEnv, atom CapReveal LevelEnv] scope grants rules None"


section \<open>Metadata navigation\<close>

definition navigationOperations :: "Operation list" where
  "navigationOperations =
    [''org.get'', ''project.list'', ''project.get'', ''environment.list'', ''key.list'', ''key.get'',
     ''folder.list'', ''folder.get'', ''key-group.list'', ''key-group.get'', ''definitions.settings.get'']"

definition ruleNavigationOperation :: "Operation \<Rightarrow> bool" where
  "ruleNavigationOperation op \<longleftrightarrow> op \<in> set navigationOperations"

text \<open>The synthetic selectors of legacy \<^verbatim>\<open>read\<close> grants.\<close>

definition grantNavigation :: "Scope \<Rightarrow> Grant \<Rightarrow> Rule list" where
  "grantNavigation chain grant =
    (let s = g_Scope grant in
     if g_Capability grant \<noteq> CapRead \<or> s_Org s \<noteq> s_Org chain \<or> s_Project s = [] then []
     else
       [\<lparr>r_ID = [], r_Principal = [], r_Capability = CapRead, r_Org = s_Org chain,
         r_Where =
           \<lparr>w_Projects = [s_Project s],
            w_EnvMode = (if s_Env s \<noteq> [] then AxisOnly else AxisAll),
            w_Envs = (if s_Env s \<noteq> [] then [(s_Project s, [s_Env s])] else []),
            w_KeyMode = AxisAll, w_Keys = []\<rparr>\<rparr>])"

definition dropKeyAxis :: "Where \<Rightarrow> Where" where
  "dropKeyAxis w = w\<lparr>w_KeyMode := AxisAll, w_Keys := []\<rparr>"

definition narrowProjects :: "Where \<Rightarrow> Where" where
  "narrowProjects w =
    (if w_EnvMode w = AxisOnly then
       let ps = filter (\<lambda>p. envs_of w p \<noteq> []) (w_Projects w) in
       w\<lparr>w_Projects := ps,
         w_Envs := filter (\<lambda>(p, _). p \<in> set ps) (w_Envs w),
         w_Keys := filter (\<lambda>(p, _). p \<in> set ps) (w_Keys w)\<rparr>
     else w)"

definition ruleNavigationReach :: "Operation \<Rightarrow> Scope \<Rightarrow> Rule list \<Rightarrow> Grant list \<Rightarrow> Rule list" where
  "ruleNavigationReach op chain rules grants =
    (if \<not> ruleNavigationOperation op then []
     else
       concat (map (\<lambda>r.
         if r_Org r \<noteq> s_Org chain \<or> r_Capability r \<noteq> CapRead \<or> \<not> validRule r then []
         else
           let w = narrowProjects (dropKeyAxis (r_Where r)) in
           if w_Projects w = [] \<or> s_Project chain \<noteq> [] \<and> s_Project chain \<notin> set (w_Projects w) then []
           else [r\<lparr>r_Where := w\<rparr>])
         (rules @ concat (map (grantNavigation chain) grants))))"

definition navigationProjectAllowed :: "Rule list \<Rightarrow> ProjectID \<Rightarrow> bool" where
  "navigationProjectAllowed navigation project =
    (if navigation = [] then True
     else list_ex (\<lambda>r. list_ex (\<lambda>p. p = project) (w_Projects (r_Where r))) navigation)"

definition navigationEnvironmentAllowed :: "Rule list \<Rightarrow> Scope \<Rightarrow> EnvID \<Rightarrow> bool" where
  "navigationEnvironmentAllowed navigation chain env =
    (if navigation = [] then True
     else list_ex (\<lambda>r. Reaches r CapRead LevelEnv (chain\<lparr>s_Env := env\<rparr>) None) navigation)"


section \<open>Delegation\<close>

definition envGrantSelectors :: "Scope \<Rightarrow> Capability \<Rightarrow> Grant list \<Rightarrow> Where list" where
  "envGrantSelectors chain capability grants =
    concat (map (\<lambda>g.
      let env = s_Env (g_Scope g) in
      if env = [] then []
      else if evaluate [atom capability LevelEnv] (chain\<lparr>s_Env := env\<rparr>) [g] then
        [\<lparr>w_Projects = [s_Project chain], w_EnvMode = AxisOnly, w_Envs = [(s_Project chain, [env])],
          w_KeyMode = AxisAll, w_Keys = []\<rparr>]
      else []) grants)"

text \<open>Folder metadata of the individually named keys, read through \<^verbatim>\<open>resolve\<close>.\<close>

fun resolveFolders ::
  "(string \<Rightarrow> domain_error + RuleKey) \<Rightarrow> (string \<Rightarrow> string option) \<Rightarrow> RuleKeyItem list \<Rightarrow>
   domain_error + (string \<Rightarrow> string option)" where
  "resolveFolders resolve kf [] = Inr kf"
| "resolveFolders resolve kf (item # items) =
    (if it_IsFolder item then resolveFolders resolve kf items
     else bindE (resolve (it_KeyID item)) (\<lambda>key.
       resolveFolders resolve (kf(it_KeyID item \<mapsto> k_Folder key)) items))"

definition ruleSelector :: "Scope \<Rightarrow> Capability \<Rightarrow> Rule \<Rightarrow> Where option" where
  "ruleSelector chain capability r =
    (if r_Org r \<noteq> s_Org chain \<or> r_Capability r \<noteq> capability \<or> \<not> validRule r \<or>
        s_Project chain \<notin> set (w_Projects (r_Where r)) then None
     else Some (if capability = CapRead then dropKeyAxis (r_Where r) else r_Where r))"

fun selectorHeldLoop ::
  "Scope \<Rightarrow> Capability \<Rightarrow> Where \<Rightarrow> (string \<Rightarrow> domain_error + RuleKey) \<Rightarrow>
   Where list \<Rightarrow> (string \<Rightarrow> string option) \<Rightarrow> Rule list \<Rightarrow> domain_error + bool" where
  "selectorHeldLoop chain capability target resolve selectors allFolders [] =
    (if selectors \<noteq> [] then Inr (unionContains selectors target (s_Project chain) allFolders)
     else Inr False)"
| "selectorHeldLoop chain capability target resolve selectors allFolders (r # rules) =
    (case ruleSelector chain capability r of
       None \<Rightarrow> selectorHeldLoop chain capability target resolve selectors allFolders rules
     | Some outer \<Rightarrow>
         (let items = keys_of outer (s_Project chain) @ keys_of target (s_Project chain) in
          bindE (resolveFolders resolve Map.empty items) (\<lambda>folders.
          bindE (resolveFolders resolve allFolders items) (\<lambda>allFolders'.
            if ContainsWhereInProject outer target (s_Project chain) folders then Inr True
            else selectorHeldLoop chain capability target resolve (selectors @ [outer]) allFolders' rules))))"

definition ruleSelectorHeldResolving ::
  "Scope \<Rightarrow> Grant list \<Rightarrow> Rule list \<Rightarrow> Capability \<Rightarrow> Where \<Rightarrow> (string \<Rightarrow> domain_error + RuleKey) \<Rightarrow>
   domain_error + bool" where
  "ruleSelectorHeldResolving chain grants rules capability target resolve =
    (if evaluate [atom capability LevelProject] chain grants then Inr True
     else if w_EnvMode target = AxisOnly \<and> envs_of target (s_Project chain) \<noteq> [] \<and>
        list_all (\<lambda>env. evaluate [atom capability LevelEnv] (chain\<lparr>s_Env := env\<rparr>) grants)
          (envs_of target (s_Project chain)) then Inr True
     else selectorHeldLoop chain capability target resolve
            (envGrantSelectors chain capability grants) Map.empty rules)"

definition clearReadKeys :: "Rule \<Rightarrow> Where" where
  "clearReadKeys target =
    (if r_Capability target = CapRead then dropKeyAxis (r_Where target) else r_Where target)"

fun ruleDelegationHeld ::
  "Formula \<Rightarrow> Scope \<Rightarrow> Grant list \<Rightarrow> Rule list \<Rightarrow> Rule \<Rightarrow> (string \<Rightarrow> domain_error + RuleKey) \<Rightarrow>
   domain_error + bool" where
  "ruleDelegationHeld [] chain grants rules target resolve = Inr True"
| "ruleDelegationHeld (a # f) chain grants rules target resolve =
    (if evaluate [a] chain grants then ruleDelegationHeld f chain grants rules target resolve
     else if a_Cap a \<noteq> CapManageMembers then Inr False
     else bindE (ruleSelectorHeldResolving chain grants rules CapManageMembers (clearReadKeys target) resolve)
       (\<lambda>held. if held then ruleDelegationHeld f chain grants rules target resolve else Inr False))"

text \<open>
  The grantor bound, over the grants and rules the transaction reads for the caller; a machine
  caller's rules are not consulted.
\<close>

definition RuleCapabilityHeld ::
  "PrincipalClass \<Rightarrow> Grant list \<Rightarrow> Rule list \<Rightarrow> Rule \<Rightarrow> ProjectID \<Rightarrow>
   (string \<Rightarrow> domain_error + RuleKey) \<Rightarrow> domain_error + bool" where
  "RuleCapabilityHeld cls grants callerRules target project resolve =
    ruleSelectorHeldResolving (mkScope (r_Org target) project []) grants
      (if rulesApply cls then callerRules else []) (r_Capability target) (clearReadKeys target) resolve"


section \<open>Inheritance and additivity\<close>

lemma evaluate_single [simp]:
  "evaluate [a] chain grants \<longleftrightarrow> coveredBy grants (a_Cap a) (truncate_scope chain (a_At a))"
  by (simp add: evaluate_def coveredBy_def)

lemma evaluate_iff: "evaluate f chain grants \<longleftrightarrow> (\<forall>a \<in> set f. evaluate [a] chain grants)"
  by (simp add: evaluate_def list_all_iff)

lemma atom_simps [simp]: "a_Cap (atom c l) = c" "a_At (atom c l) = l"
  by (simp_all add: atom_def)

lemma mkScope_sel [simp]:
  "s_Org (mkScope a p e) = a" "s_Project (mkScope a p e) = p" "s_Env (mkScope a p e) = e"
  by (simp_all add: mkScope_def)

lemma covers_deeper:
  assumes "covers g (truncate_scope s l)" "l \<le> l'"
  shows "covers g (truncate_scope s l')"
  using assms by (cases l; cases l') (auto simp: covers_def less_eq_Level_def split: if_splits)

lemma covers_trans: "covers a b \<Longrightarrow> covers b c \<Longrightarrow> covers a c"
  by (auto simp: covers_def split: if_splits)

lemma coveredBy_mono: "set grants \<subseteq> set grants' \<Longrightarrow> coveredBy grants c s \<Longrightarrow> coveredBy grants' c s"
  by (auto simp: coveredBy_def list_ex_iff)

lemma coveredBy_deeper:
  "coveredBy grants c (truncate_scope s l) \<Longrightarrow> l \<le> l' \<Longrightarrow> coveredBy grants c (truncate_scope s l')"
  using covers_deeper by (auto simp: coveredBy_def list_ex_iff)

lemma evaluateWithRules_grants: "evaluate f chain grants \<Longrightarrow> evaluateWithRules f chain grants rules key"
  unfolding evaluate_iff [of f] by (simp add: evaluateWithRules_def list_all_iff)

lemma ruleHolds_mono: "set rules \<subseteq> set rules' \<Longrightarrow> ruleHolds a chain rules key \<Longrightarrow> ruleHolds a chain rules' key"
  by (auto simp: ruleHolds_def list_ex_iff)

text \<open>
  Authority is additive and inherits downward. Adding grants or rules never loses an
  authorization that was held, and a formula held on grants at one level of the chain is held
  with every atom moved to a deeper level of the same chain.
\<close>

theorem authority_additive:
  assumes held: "evaluateWithRules f chain grants rules key"
    and more: "set grants \<subseteq> set grants'" "set rules \<subseteq> set rules'"
  shows "evaluateWithRules f chain grants' rules' key \<and>
    (\<forall>a \<in> set f. \<forall>l \<ge> a_At a. evaluate [a] chain grants \<longrightarrow> evaluate [atom (a_Cap a) l] chain grants')"
  using held coveredBy_mono [OF more(1)] ruleHolds_mono [OF more(2)] coveredBy_deeper
  by (auto simp: evaluateWithRules_def list_all_iff)

definition sampleGrants :: "Grant list" where
  "sampleGrants =
    [\<lparr>g_Capability = CapRead, g_Scope = mkScope ''org'' [] []\<rparr>,
     \<lparr>g_Capability = CapEdit, g_Scope = mkScope ''org'' ''web'' ''dev''\<rparr>]"

theorem authority_additive_witness:
  "evaluateWithRules [atom CapRead LevelOrg, atom CapReveal LevelEnv] (mkScope ''org'' ''web'' ''dev'')
     sampleGrants [sampleRule] (Some \<lparr>k_ID = ''k1'', k_Folder = ''app''\<rparr>) \<and>
   evaluate [atom CapRead LevelEnv] (mkScope ''org'' ''web'' ''dev'') (rev sampleGrants)"
proof -
  let ?f = "[atom CapRead LevelOrg, atom CapReveal LevelEnv]" and ?s = "mkScope ''org'' ''web'' ''dev''"
  have held: "evaluateWithRules ?f ?s sampleGrants [sampleRule] (Some \<lparr>k_ID = ''k1'', k_Folder = ''app''\<rparr>)"
    by code_simp
  have "evaluate [atom CapRead LevelOrg] ?s sampleGrants" by code_simp
  moreover have "a_At (atom CapRead LevelOrg) \<le> LevelEnv" by code_simp
  moreover have "set sampleGrants \<subseteq> set (rev sampleGrants)" by simp
  ultimately show ?thesis
    using held authority_additive [OF held, of "rev sampleGrants" "[sampleRule]"] by auto
qed


section \<open>Rules as selectors\<close>

lemma itemMatches_selector:
  "mode = AxisAll \<or> mode = AxisOnly \<Longrightarrow> itemMatches mode key it = selectorItemMatches mode key it"
  by (auto simp: itemMatches_def selectorItemMatches_def folderWithin_def)

lemma keyAxis_selector:
  assumes "w_KeyMode w = AxisAll \<or> w_KeyMode w = AxisOnly"
  shows "selectorKeyMatches w p key \<longleftrightarrow>
    (if w_KeyMode w = AxisOnly then list_ex (itemMatches (w_KeyMode w) key) (keys_of w p)
     else \<not> list_ex (itemMatches (w_KeyMode w) key) (keys_of w p))"
  using assms itemMatches_selector [OF assms]
  by (auto simp: selectorKeyMatches_def list_ex_iff)

lemma envAxis_selector:
  "w_EnvMode w = AxisAll \<or> w_EnvMode w = AxisOnly \<Longrightarrow>
   levelAdmits w c LevelEnv s key \<longleftrightarrow> s_Env s \<noteq> [] \<and> selectorEnvMatches w (s_Project s) (s_Env s)"
  by (auto simp: levelAdmits_def selectorEnvMatches_def Let_def)

text \<open>At environment level a valid rule reaches exactly what its selector selects.\<close>

lemma Reaches_env:
  assumes "validRule r"
  shows "Reaches r c LevelEnv s (Some key) \<longleftrightarrow>
    c = r_Capability r \<and> c \<noteq> CapManageMembers \<and> s_Org s = r_Org r \<and>
    s_Project s \<in> set (w_Projects (r_Where r)) \<and> s_Env s \<noteq> [] \<and>
    selectorEnvMatches (r_Where r) (s_Project s) (s_Env s) \<and>
    (c = CapRead \<or> selectorKeyMatches (r_Where r) (s_Project s) key)"
  using envAxis_selector [OF validRule_modes(1) [OF assms], of c s "Some key"]
    keyAxis_selector [OF validRule_modes(2) [OF assms], of "s_Project s" key]
    validRule_modes(2) [OF assms]
  by (auto simp: Reaches_def Let_def)

lemma Reaches_env_keyless:
  assumes "validRule r"
  shows "Reaches r c LevelEnv s None \<longleftrightarrow>
    c = r_Capability r \<and> c \<noteq> CapManageMembers \<and> s_Org s = r_Org r \<and>
    s_Project s \<in> set (w_Projects (r_Where r)) \<and> s_Env s \<noteq> [] \<and>
    selectorEnvMatches (r_Where r) (s_Project s) (s_Env s) \<and>
    (c = CapRead \<or> w_KeyMode (r_Where r) = AxisAll \<and> keys_of (r_Where r) (s_Project s) = [])"
  using envAxis_selector [OF validRule_modes(1) [OF assms], of c s None]
  by (auto simp: Reaches_def Let_def)

text \<open>Only an unnarrowed key axis selects every key.\<close>

lemma fresh_folder: "\<exists>f. \<forall>it \<in> set items. it_Folder it \<noteq> f"
proof -
  obtain f where "f \<notin> it_Folder ` set items"
    using ex_new_if_finite [OF infinite_UNIV_listI, of "it_Folder ` set items"] by auto
  then show ?thesis by (intro exI [of _ f]) auto
qed

lemma valid_items:
  assumes "validRule r" "it \<in> set (keys_of (r_Where r) p)"
  shows "\<not> keyMalformed it"
  using assms slice_at_in_set [OF assms(2)] by (auto simp: validRule_iff whereOK_def axisOK_def)

lemma selects_every_key:
  assumes "validRule r"
  shows "(\<forall>key. selectorKeyMatches (r_Where r) p key) \<longleftrightarrow>
    w_KeyMode (r_Where r) = AxisAll \<and> keys_of (r_Where r) p = []"
proof (cases "w_KeyMode (r_Where r) = AxisAll")
  case True
  have "\<exists>key. \<not> selectorKeyMatches (r_Where r) p key" if "it \<in> set (keys_of (r_Where r) p)" for it
  proof -
    have "selectorItemMatches AxisAll \<lparr>k_ID = it_KeyID it, k_Folder = it_Folder it\<rparr> it"
      using valid_items [OF assms that] by (auto simp: selectorItemMatches_def keyMalformed_def)
    with that True show ?thesis by (auto simp: selectorKeyMatches_All)
  qed
  with True show ?thesis by (cases "keys_of (r_Where r) p") (auto simp: selectorKeyMatches_All)
next
  case False
  obtain f where "\<forall>it \<in> set (keys_of (r_Where r) p). it_Folder it \<noteq> f" using fresh_folder by blast
  with False have "\<not> selectorKeyMatches (r_Where r) p \<lparr>k_ID = [], k_Folder = f\<rparr>"
    by (auto simp: selectorKeyMatches_def selectorItemMatches_def list_ex_iff Let_def)
  with False show ?thesis by blast
qed




section \<open>The grantor bound\<close>

text \<open>A key whose folder is the one the transaction resolves for its id.\<close>

definition resolvedKey :: "(string \<Rightarrow> domain_error + RuleKey) \<Rightarrow> RuleKey \<Rightarrow> bool" where
  "resolvedKey resolve key \<longleftrightarrow>
    k_ID key = [] \<or> (case resolve (k_ID key) of Inl _ \<Rightarrow> True | Inr k \<Rightarrow> k_Folder k = k_Folder key)"

lemma resolveFolders_catalogued:
  assumes "resolveFolders resolve kf items = Inr kf'" "catalogued kf key" "resolvedKey resolve key"
  shows "catalogued kf' key"
  using assms
proof (induction resolve kf items rule: resolveFolders.induct)
  case (2 resolve kf item items)
  show ?case
  proof (cases "it_IsFolder item")
    case True
    with 2 show ?thesis by simp
  next
    case False
    with 2(3) obtain k where k: "resolve (it_KeyID item) = Inr k"
      "resolveFolders resolve (kf(it_KeyID item \<mapsto> k_Folder k)) items = Inr kf'" by auto
    have "catalogued (kf(it_KeyID item \<mapsto> k_Folder k)) key"
      using 2(4,5) k(1) by (auto simp: catalogued_def resolvedKey_def)
    with 2(2) [OF False] k(2) 2(5) show ?thesis by blast
  qed
qed simp

text \<open>Authority over one object, as the chokepoint evaluates it for a key-aware operation.\<close>

definition holdsObject :: "Scope \<Rightarrow> Grant list \<Rightarrow> Rule list \<Rightarrow> Capability \<Rightarrow> EnvID \<Rightarrow> RuleKey \<Rightarrow> bool" where
  "holdsObject chain grants rules c env key \<longleftrightarrow>
    evaluateWithRules [atom c LevelEnv] (chain\<lparr>s_Env := env\<rparr>) grants rules (Some key)"

lemma holdsObject_iff:
  "holdsObject chain grants rules c env key \<longleftrightarrow>
    coveredBy grants c (chain\<lparr>s_Env := env\<rparr>) \<or>
    (\<exists>r \<in> set rules. validRule r \<and> Reaches r c LevelEnv (chain\<lparr>s_Env := env\<rparr>) (Some key))"
  by (auto simp: holdsObject_def evaluateWithRules_def ruleHolds_def list_ex_iff)

lemma envGrantSelectors_backed:
  assumes "w \<in> set (envGrantSelectors chain c grants)" "selects w (s_Project chain) env key"
  shows "coveredBy grants c (chain\<lparr>s_Env := env\<rparr>)"
  using assms
  by (auto simp: envGrantSelectors_def selects_def selectorEnvMatches_def coveredBy_def list_ex_iff Let_def
      split: if_splits)

lemma ruleSelector_backed:
  assumes "ruleSelector chain c r = Some w" "selects w (s_Project chain) env key"
    and "env \<noteq> []" "c \<noteq> CapManageMembers"
  shows "validRule r \<and> Reaches r c LevelEnv (chain\<lparr>s_Env := env\<rparr>) (Some key)"
proof -
  have valid: "validRule r" and w: "w = (if c = CapRead then dropKeyAxis (r_Where r) else r_Where r)"
    using assms(1) by (auto simp: ruleSelector_def split: if_splits)
  have "selectorEnvMatches (r_Where r) (s_Project chain) env"
    using assms(2) w by (auto simp: selects_def selectorEnvMatches_def dropKeyAxis_def split: if_splits)
  moreover have "c = CapRead \<or> selectorKeyMatches (r_Where r) (s_Project chain) key"
    using assms(2) w by (auto simp: selects_def split: if_splits)
  ultimately show ?thesis
    using assms valid by (auto simp: Reaches_env [OF valid] ruleSelector_def split: if_splits)
qed

lemma selectorHeldLoop_sound:
  assumes "selectorHeldLoop chain c target resolve selectors kf rules = Inr True"
    and "catalogued kf key" "resolvedKey resolve key" "selects target (s_Project chain) env key"
    and "\<And>w. w \<in> set selectors \<Longrightarrow> selects w (s_Project chain) env key \<Longrightarrow> A"
    and "\<And>r w. r \<in> set rules \<Longrightarrow> ruleSelector chain c r = Some w \<Longrightarrow> selects w (s_Project chain) env key \<Longrightarrow> A"
  shows A
  using assms
proof (induction rules arbitrary: selectors kf)
  case Nil
  then have "unionContains selectors target (s_Project chain) kf" by (simp split: if_splits)
  from this Nil.prems(2,4) show ?case
    by (rule union.backed_target [where authority = "\<lambda>_ _. A"]) (rule Nil.prems(5))
next
  case (Cons r rules)
  show ?case
  proof (cases "ruleSelector chain c r")
    case None
    with Cons.prems(1) have rest: "selectorHeldLoop chain c target resolve selectors kf rules = Inr True" by simp
    show ?thesis
    proof (rule Cons.IH [OF rest Cons.prems(2-5)])
      show A if "r' \<in> set rules" "ruleSelector chain c r' = Some w" "selects w (s_Project chain) env key" for r' w
        by (rule Cons.prems(6) [OF _ that(2,3)]) (simp add: that(1))
    qed
  next
    case (Some outer)
    let ?items = "keys_of outer (s_Project chain) @ keys_of target (s_Project chain)"
    from Cons.prems(1) Some obtain folders kf' where
      f: "resolveFolders resolve Map.empty ?items = Inr folders" "resolveFolders resolve kf ?items = Inr kf'"
      and run: "ContainsWhereInProject outer target (s_Project chain) folders \<or>
        selectorHeldLoop chain c target resolve (selectors @ [outer]) kf' rules = Inr True"
      by (auto simp: Let_def split: if_splits)
    have outer: "selects outer (s_Project chain) env key \<Longrightarrow> A"
      using Cons.prems(6) [of r outer] Some by simp
    have "catalogued Map.empty key" by (simp add: catalogued_def)
    then have cat: "catalogued folders key" "catalogued kf' key"
      using resolveFolders_catalogued [OF f(1) _ Cons.prems(3)]
        resolveFolders_catalogued [OF f(2) Cons.prems(2,3)] by blast+
    from run show ?thesis
    proof
      assume "ContainsWhereInProject outer target (s_Project chain) folders"
      then show ?thesis
        using pairwise_test_sound [OF _ cat(1) Cons.prems(4)] outer by blast
    next
      assume rest: "selectorHeldLoop chain c target resolve (selectors @ [outer]) kf' rules = Inr True"
      show ?thesis
      proof (rule Cons.IH [OF rest cat(2) Cons.prems(3,4)])
        show A if "w \<in> set (selectors @ [outer])" "selects w (s_Project chain) env key" for w
          using that Cons.prems(5) outer by (cases "w = outer") simp_all
        show A if "r' \<in> set rules" "ruleSelector chain c r' = Some w" "selects w (s_Project chain) env key" for r' w
          by (rule Cons.prems(6) [OF _ that(2,3)]) (simp add: that(1))
      qed
    qed
  qed
qed

lemma ruleSelectorHeld_sound:
  assumes held: "ruleSelectorHeldResolving chain grants rules c target resolve = Inr True"
    and "c \<noteq> CapManageMembers" "env \<noteq> []" "s_Env chain = []"
    and key: "resolvedKey resolve key" and sel: "selects target (s_Project chain) env key"
  shows "holdsObject chain grants rules c env key"
proof -
  have project: ?thesis if "coveredBy grants c (truncate_scope chain LevelProject)"
  proof -
    have "truncate_scope chain LevelProject = truncate_scope (chain\<lparr>s_Env := env\<rparr>) LevelProject" by simp
    with that coveredBy_deeper [of grants c "chain\<lparr>s_Env := env\<rparr>" LevelProject LevelEnv] show ?thesis
      by (simp add: holdsObject_iff less_eq_Level_def)
  qed
  have listed: ?thesis if "w_EnvMode target = AxisOnly"
      "list_all (\<lambda>env. coveredBy grants c (chain\<lparr>s_Env := env\<rparr>)) (envs_of target (s_Project chain))"
    using that sel by (auto simp: holdsObject_iff selects_def selectorEnvMatches_def list_all_iff)
  have loop: ?thesis if "selectorHeldLoop chain c target resolve (envGrantSelectors chain c grants) Map.empty rules = Inr True"
  proof (rule selectorHeldLoop_sound [OF that _ key sel])
    show "catalogued Map.empty key" by (simp add: catalogued_def)
    show ?thesis if "w \<in> set (envGrantSelectors chain c grants)" "selects w (s_Project chain) env key" for w
      using envGrantSelectors_backed [OF that] by (simp add: holdsObject_iff)
    show ?thesis if "r \<in> set rules" "ruleSelector chain c r = Some w" "selects w (s_Project chain) env key" for r w
      using ruleSelector_backed [OF that(2,3) assms(3,2)] that(1) by (auto simp: holdsObject_iff)
  qed
  from held project listed loop show ?thesis
    by (auto simp: ruleSelectorHeldResolving_def split: if_splits)
qed

lemma clearReadKeys_selects:
  assumes "validRule r" "Reaches r c LevelEnv s (Some key)"
  shows "selects (clearReadKeys r) (s_Project s) (s_Env s) key"
  using assms(2)
  by (auto simp: Reaches_env [OF assms(1)] clearReadKeys_def selects_def dropKeyAxis_def
      selectorEnvMatches_def selectorKeyMatches_def)

text \<open>
  C5. No privilege escalation through rules. When the grantor bound accepts a target rule for a
  project, every environment and key of that project (present or future, with the folder the
  transaction resolves) that the rule lets its holder reach is one the grantor already holds the
  capability on, through their own grants or rules.
\<close>

theorem rule_grantor_bound:
  assumes held: "RuleCapabilityHeld cls grants callerRules target (s_Project s) resolve = Inr True"
    and valid: "validRule target" and key: "resolvedKey resolve key"
    and reach: "Reaches target c LevelEnv s (Some key)"
  shows "evaluateWithRules [atom c LevelEnv] s grants (if rulesApply cls then callerRules else []) (Some key)"
proof -
  let ?chain = "mkScope (r_Org target) (s_Project s) []"
  from reach have c: "c = r_Capability target" "c \<noteq> CapManageMembers" "s_Env s \<noteq> []"
    and s: "s = ?chain\<lparr>s_Env := s_Env s\<rparr>"
    by (auto simp: Reaches_env [OF valid] mkScope_def)
  have "selects (clearReadKeys target) (s_Project ?chain) (s_Env s) key"
    using clearReadKeys_selects [OF valid reach] by simp
  from ruleSelectorHeld_sound [OF _ c(2,3) _ key this] held c(1)
  have "holdsObject ?chain grants (if rulesApply cls then callerRules else []) c (s_Env s) key"
    by (simp add: RuleCapabilityHeld_def)
  then show ?thesis by (subst s) (simp add: holdsObject_def)
qed

definition revealRule :: "AxisMode \<Rightarrow> RuleKeyItem list \<Rightarrow> Rule" where
  "revealRule mode items =
    \<lparr>r_ID = ''r'', r_Principal = ''alice'', r_Capability = CapReveal, r_Org = ''org'',
     r_Where = \<lparr>w_Projects = [''web''], w_EnvMode = AxisAll, w_Envs = [],
                w_KeyMode = mode, w_Keys = [(''web'', items)]\<rparr>\<rparr>"

definition noKeys :: "string \<Rightarrow> domain_error + RuleKey" where
  "noKeys id' = Inl ErrNotFound"

theorem rule_grantor_bound_witness:
  "RuleCapabilityHeld ClassHuman [] [revealRule AxisAll [folderItem []], revealRule AxisOnly [folderItem []]]
     (revealRule AxisAll []) ''web'' noKeys = Inr True \<and>
   evaluateWithRules [atom CapReveal LevelEnv] (mkScope ''org'' ''web'' ''prod'') []
     [revealRule AxisAll [folderItem []], revealRule AxisOnly [folderItem []]] (Some \<lparr>k_ID = [], k_Folder = ''app''\<rparr>)"
proof -
  let ?rules = "[revealRule AxisAll [folderItem []], revealRule AxisOnly [folderItem []]]"
    and ?s = "mkScope ''org'' ''web'' ''prod''" and ?k = "\<lparr>k_ID = [], k_Folder = ''app''\<rparr> :: RuleKey"
  have h: "RuleCapabilityHeld ClassHuman [] ?rules (revealRule AxisAll []) (s_Project ?s) noKeys = Inr True"
    by code_simp
  have v: "validRule (revealRule AxisAll [])" by code_simp
  have k: "resolvedKey noKeys ?k" by code_simp
  have r: "Reaches (revealRule AxisAll []) CapReveal LevelEnv ?s (Some ?k)" by code_simp
  have "rulesApply ClassHuman" by code_simp
  with h rule_grantor_bound [OF h v k r] show ?thesis by (simp add: mkScope_def)
qed


section \<open>Navigation shows only what See reaches\<close>

lemma slice_at_filter_keys:
  "P p \<Longrightarrow> slice_at (filter (\<lambda>(q, _). P q) m) p = slice_at m p"
  by (induction m) auto

lemma narrowProjects_axes:
  "set (w_Projects (narrowProjects w)) \<subseteq> set (w_Projects w)"
  "w_EnvMode (narrowProjects w) = w_EnvMode w"
  "p \<in> set (w_Projects (narrowProjects w)) \<Longrightarrow> envs_of (narrowProjects w) p = envs_of w p"
  "p \<in> set (w_Projects (narrowProjects w)) \<Longrightarrow> w_EnvMode w = AxisOnly \<Longrightarrow> envs_of w p \<noteq> []"
  by (auto simp: narrowProjects_def Let_def slice_at_filter_keys [where P = "\<lambda>q. q \<in> set _ \<and> envs_of w q \<noteq> []"])

lemma dropKeyAxis_axes [simp]:
  "w_Projects (dropKeyAxis w) = w_Projects w" "w_EnvMode (dropKeyAxis w) = w_EnvMode w"
  "w_Envs (dropKeyAxis w) = w_Envs w"
  by (simp_all add: dropKeyAxis_def)

lemma Reaches_read:
  "Reaches r CapRead LevelEnv s key \<longleftrightarrow>
    r_Capability r = CapRead \<and> s_Org s = r_Org r \<and> s_Project s \<in> set (w_Projects (r_Where r)) \<and>
    s_Env s \<noteq> [] \<and>
    \<not> (w_EnvMode (r_Where r) = AxisOnly \<and> s_Env s \<notin> set (envs_of (r_Where r) (s_Project s)) \<or>
       w_EnvMode (r_Where r) = AxisAll \<and> s_Env s \<in> set (envs_of (r_Where r) (s_Project s)))"
  by (auto simp: Reaches_def levelAdmits_def Let_def)

text \<open>Where a navigation rule comes from.\<close>

lemma navigation_source:
  assumes "r' \<in> set (ruleNavigationReach op chain rules grants)"
  obtains r where "r \<in> set (rules @ concat (map (grantNavigation chain) grants))" "validRule r"
    "r_Capability r = CapRead" "r_Org r = s_Org chain"
    "r' = r\<lparr>r_Where := narrowProjects (dropKeyAxis (r_Where r))\<rparr>"
  using assms by (auto simp: ruleNavigationReach_def Let_def split: if_splits)

lemma navigation_rule_reads:
  assumes "r' = r\<lparr>r_Where := narrowProjects (dropKeyAxis (r_Where r))\<rparr>"
    and "Reaches r' CapRead LevelEnv s key"
  shows "Reaches r CapRead LevelEnv s key'"
  using assms narrowProjects_axes [where w = "dropKeyAxis (r_Where r)"]
  by (auto simp: Reaches_read)

lemma grantNavigation_reads:
  assumes "r \<in> set (grantNavigation chain g)" "Reaches r CapRead LevelEnv s key"
  shows "g_Capability g = CapRead \<and> covers (g_Scope g) s"
  using assms by (auto simp: grantNavigation_def Reaches_read covers_def Let_def split: if_splits)

lemma source_reads:
  assumes "r \<in> set (rules @ concat (map (grantNavigation chain) grants))" "validRule r"
    and "Reaches r CapRead LevelEnv s None"
  shows "evaluateWithRules [atom CapRead LevelEnv] s grants rules None"
proof (cases "r \<in> set rules")
  case True
  with assms show ?thesis by (auto simp: evaluateWithRules_def ruleHolds_def list_ex_iff)
next
  case False
  with assms(1) obtain g where "g \<in> set grants" "r \<in> set (grantNavigation chain g)" by auto
  with grantNavigation_reads [OF _ assms(3)] show ?thesis
    by (auto simp: evaluateWithRules_def coveredBy_def list_ex_iff)
qed

text \<open>A selected project has an environment the rule reads: a listed one, or one not excepted.\<close>

lemma some_environment_read:
  assumes "validRule r" "r_Capability r = CapRead" "p \<in> set (w_Projects (r_Where r))"
    and "w_EnvMode (r_Where r) = AxisOnly \<Longrightarrow> envs_of (r_Where r) p \<noteq> []"
  shows "\<exists>env. Reaches r CapRead LevelEnv (mkScope (r_Org r) p env) None"
proof (cases "w_EnvMode (r_Where r) = AxisOnly")
  case True
  then obtain env where env: "env \<in> set (envs_of (r_Where r) p)" using assms(4) by (meson last_in_set)
  then have "env \<noteq> []"
    using assms(1) slice_at_in_set [OF env] by (auto simp: validRule_iff whereOK_def axisOK_def envMalformed_def)
  with env True assms(2,3) show ?thesis by (intro exI [of _ env]) (simp add: Reaches_read)
next
  case False
  obtain env where "env \<notin> insert [] (set (envs_of (r_Where r) p))"
    using ex_new_if_finite [OF infinite_UNIV_listI, of "insert [] (set (envs_of (r_Where r) p))"] by auto
  with False assms(2,3) show ?thesis by (intro exI [of _ env]) (simp add: Reaches_read)
qed

text \<open>
  C35. Metadata navigation never shows more than See. When navigation is what admitted a
  directory read, an environment passes the proof's filter only if the caller holds read on it
  through a grant or a rule, and a project passes only if it has an environment the caller
  holds read on.
\<close>

theorem navigation_within_read:
  assumes nav: "navigation = ruleNavigationReach op chain rules grants" "navigation \<noteq> []"
  shows "(navigationEnvironmentAllowed navigation chain env \<longrightarrow>
      evaluateWithRules [atom CapRead LevelEnv] (chain\<lparr>s_Env := env\<rparr>) grants rules None) \<and>
    (navigationProjectAllowed navigation p \<longrightarrow>
      (\<exists>e. evaluateWithRules [atom CapRead LevelEnv] (mkScope (s_Org chain) p e) grants rules None))"
proof (intro conjI impI)
  assume "navigationEnvironmentAllowed navigation chain env"
  with nav(2) obtain r' where r': "r' \<in> set navigation" "Reaches r' CapRead LevelEnv (chain\<lparr>s_Env := env\<rparr>) None"
    by (auto simp: navigationEnvironmentAllowed_def list_ex_iff)
  from r'(1) nav(1) show "evaluateWithRules [atom CapRead LevelEnv] (chain\<lparr>s_Env := env\<rparr>) grants rules None"
    using navigation_source navigation_rule_reads r'(2) source_reads by metis
next
  assume "navigationProjectAllowed navigation p"
  with nav(2) obtain r' where r': "r' \<in> set navigation" "p \<in> set (w_Projects (r_Where r'))"
    by (auto simp: navigationProjectAllowed_def list_ex_iff)
  from r'(1) nav(1) obtain r where r: "r \<in> set (rules @ concat (map (grantNavigation chain) grants))" "validRule r"
      "r_Capability r = CapRead" "r_Org r = s_Org chain"
      "r' = r\<lparr>r_Where := narrowProjects (dropKeyAxis (r_Where r))\<rparr>"
    using navigation_source by metis
  have "\<exists>e. Reaches r CapRead LevelEnv (mkScope (r_Org r) p e) None"
    using r r'(2) narrowProjects_axes [where w = "dropKeyAxis (r_Where r)"]
    by (intro some_environment_read) auto
  with source_reads [OF r(1,2)] r(4)
  show "\<exists>e. evaluateWithRules [atom CapRead LevelEnv] (mkScope (s_Org chain) p e) grants rules None" by metis
qed

theorem navigation_within_read_witness:
  "ruleNavigationReach ''environment.list'' (mkScope ''org'' ''web'' []) []
     [\<lparr>g_Capability = CapRead, g_Scope = mkScope ''org'' ''web'' ''dev''\<rparr>] \<noteq> [] \<and>
   evaluateWithRules [atom CapRead LevelEnv] (mkScope ''org'' ''web'' ''dev'')
     [\<lparr>g_Capability = CapRead, g_Scope = mkScope ''org'' ''web'' ''dev''\<rparr>] [] None"
proof -
  let ?c = "mkScope ''org'' ''web'' []" and ?g = "[\<lparr>g_Capability = CapRead, g_Scope = mkScope ''org'' ''web'' ''dev''\<rparr>]"
  have n: "ruleNavigationReach ''environment.list'' ?c [] ?g \<noteq> []" by code_simp
  have a: "navigationEnvironmentAllowed (ruleNavigationReach ''environment.list'' ?c [] ?g) ?c ''dev''" by code_simp
  have "?c\<lparr>s_Env := ''dev''\<rparr> = mkScope ''org'' ''web'' ''dev''" by (simp add: mkScope_def)
  with a n navigation_within_read [OF refl n, of "''dev''" "''web''"] show ?thesis by simp
qed


section \<open>Reachable plaintext\<close>

lemma set_insertNew [simp]: "set (insertNew xs x) = insert x (set xs)"
  by (auto simp: insertNew_def)

lemma foldl_addReachable:
  "set (Current (foldl (addReachable scope grants) out envs)) = set (Current out) \<union>
     {env \<in> set envs. evaluate [atom CapRead LevelEnv, atom CapReveal LevelEnv]
        (mkScope (s_Org scope) (s_Project scope) env) grants}"
  "set (Historical (foldl (addReachable scope grants) out envs)) = set (Historical out) \<union>
     {env \<in> set envs. evaluate [atom CapRead LevelEnv, atom CapRevealHistory LevelEnv]
        (mkScope (s_Org scope) (s_Project scope) env) grants}"
  by (induction envs arbitrary: out)
     (auto simp: addReachable_def Let_def evaluate_iff [of "[_, _]"])

text \<open>
  Reachability agrees with authorization, class by class: an environment is in the current
  set exactly when the chokepoint's formula read and reveal holds there, and in the historical
  set exactly when read and reveal-history holds, so neither disclosure class is ever derived
  from the other.
\<close>

theorem ReachableFrom_exact:
  "set (Current (ReachableFrom scope envs grants)) =
     {env \<in> set envs. evaluate [atom CapRead LevelEnv, atom CapReveal LevelEnv]
        (mkScope (s_Org scope) (s_Project scope) env) grants} \<and>
   set (Historical (ReachableFrom scope envs grants)) =
     {env \<in> set envs. evaluate [atom CapRead LevelEnv, atom CapRevealHistory LevelEnv]
        (mkScope (s_Org scope) (s_Project scope) env) grants}"
  by (simp add: ReachableFrom_def foldl_addReachable)

end
