(* ===== verification/Resolution.thy ===== *)
theory Resolution
  imports Authz
begin

text \<open>
  The resolution surface (\<^verbatim>\<open>internal/store/authn\<close>) that authorization reads through.
  A \<open>Resolver\<close> is the set of answers the surface gives inside one transaction, each of which
  may be an error. \<open>dbResolver\<close> builds it from the tables with the queries of
  \<^verbatim>\<open>internal/store/queries/sqlite\<close>: the chain lookups, the grant lookup with its privacy,
  restore and expiry conjuncts, and the rule lookup that feeds \<open>foldRules\<close>.
\<close>


section \<open>Answers of the surface\<close>

record Resolver =
  q_ResolveOrgChain :: "OrgID \<Rightarrow> domain_error + OrgID"
  q_ResolveProjectChain :: "OrgID \<Rightarrow> ProjectID \<Rightarrow> domain_error + (OrgID \<times> ProjectID)"
  q_ResolveEnvChain :: "OrgID \<Rightarrow> ProjectID \<Rightarrow> EnvID \<Rightarrow> domain_error + (OrgID \<times> ProjectID \<times> EnvID)"
  q_Grants :: "PrincipalID \<Rightarrow> domain_error + (Grant list \<times> OrgID)"
  q_Rules :: "PrincipalID \<Rightarrow> domain_error + Rule list"
  q_ResolveRuleKey :: "OrgID \<Rightarrow> ProjectID \<Rightarrow> string \<Rightarrow> string \<Rightarrow> domain_error + RuleKey"
  q_ResolveRulePendingKey :: "Scope \<Rightarrow> PrincipalID \<Rightarrow> string \<Rightarrow> domain_error + RuleKey"
  q_ResolveRuleApprovalKey :: "Scope \<Rightarrow> string \<Rightarrow> domain_error + RuleKey"
  q_RuleKeyHasValue :: "Scope \<Rightarrow> string \<Rightarrow> domain_error + bool"
  q_RuleKeyHasConflictingDraft :: "Scope \<Rightarrow> string \<Rightarrow> PrincipalID \<Rightarrow> domain_error + bool"
  q_EnvironmentProtected :: "EnvID \<Rightarrow> domain_error + bool"
  q_ProjectMachineReveal :: "ProjectID \<Rightarrow> domain_error + (bool \<times> int)"

definition ResolveChain :: "Resolver \<Rightarrow> Scope \<Rightarrow> domain_error + Scope" where
  "ResolveChain R s =
    bindE (Scope_Level s) (\<lambda>level.
      case level of
        LevelOrg \<Rightarrow> bindE (q_ResolveOrgChain R (s_Org s)) (\<lambda>org. Inr (mkScope org [] []))
      | LevelProject \<Rightarrow>
          bindE (q_ResolveProjectChain R (s_Org s) (s_Project s)) (\<lambda>(org, p). Inr (mkScope org p []))
      | LevelEnv \<Rightarrow>
          bindE (q_ResolveEnvChain R (s_Org s) (s_Project s) (s_Env s)) (\<lambda>(org, p, e). Inr (mkScope org p e))
      | LevelNone \<Rightarrow> Inl ErrInternal)"

text \<open>
  The marker is what the same grant read left behind: the organization of the self-config
  binding as the returned rows carry it, empty when no row came back.
\<close>

definition IsSelfConfigScope :: "OrgID \<Rightarrow> Scope \<Rightarrow> bool" where
  "IsSelfConfigScope marker s \<longleftrightarrow> marker \<noteq> [] \<and> s_Org s = marker"


section \<open>Tables\<close>

record PrincipalRow =
  pr_id :: PrincipalID
  pr_kind :: string
  pr_privacy_state :: string
  pr_reconciled_epoch :: int

record GrantRow =
  gr_principal :: PrincipalID
  gr_capability :: string
  gr_org :: OrgID
  gr_project :: ProjectID
  gr_env :: EnvID

record AccessGrantRow =
  ag_row :: GrantRow
  ag_expires_at :: int

record RuleTableRow =
  ru_id :: string
  ru_principal :: PrincipalID
  ru_capability :: string
  ru_org :: OrgID
  ru_env_mode :: string
  ru_key_mode :: string

record KeyRow =
  kr_org :: OrgID
  kr_project :: ProjectID
  kr_id :: string
  kr_name :: string
  kr_folder :: string

record PendingRow =
  pc_org :: OrgID
  pc_project :: ProjectID
  pc_env :: EnvID
  pc_id :: string
  pc_key :: string
  pc_owner :: PrincipalID
  pc_staged_from :: string

record Database =
  db_orgs :: "OrgID list"
  db_projects :: "(OrgID \<times> ProjectID \<times> bool \<times> int) list"
  db_environments :: "(OrgID \<times> ProjectID \<times> EnvID \<times> bool) list"
  db_principals :: "PrincipalRow list"
  db_grants :: "GrantRow list"
  db_access_grants :: "AccessGrantRow list"
  db_rules :: "RuleTableRow list"
  db_rule_items :: "(string \<times> StoredRuleItem) list"
  db_keys :: "KeyRow list"
  db_pending :: "PendingRow list"
  db_values :: "(Scope \<times> string) list"
  db_approvals :: "(Scope \<times> string \<times> string list) list"
  db_restore_epoch :: int
  db_self_config_org :: OrgID


section \<open>Queries\<close>

definition oneRow :: "'a option \<Rightarrow> domain_error + 'a" where
  "oneRow r = (case r of None \<Rightarrow> Inl ErrNotFound | Some x \<Rightarrow> Inr x)"

definition principalLive :: "Database \<Rightarrow> PrincipalID \<Rightarrow> bool" where
  "principalLive db p =
    list_ex (\<lambda>row. pr_id row = p \<and> pr_privacy_state row = ''active'' \<and>
                   db_restore_epoch db \<le> pr_reconciled_epoch row) (db_principals db)"

definition principalHuman :: "Database \<Rightarrow> PrincipalID \<Rightarrow> bool" where
  "principalHuman db p =
    list_ex (\<lambda>row. pr_id row = p \<and> pr_kind row = ''human'' \<and> pr_privacy_state row = ''active'' \<and>
                   db_restore_epoch db \<le> pr_reconciled_epoch row) (db_principals db)"

definition ListGrantsForPrincipal :: "Database \<Rightarrow> int \<Rightarrow> PrincipalID \<Rightarrow> GrantRow list" where
  "ListGrantsForPrincipal db now p =
    (if principalLive db p then
       filter (\<lambda>g. gr_principal g = p) (db_grants db) @
       map ag_row (filter (\<lambda>j. gr_principal (ag_row j) = p \<and> now < ag_expires_at j) (db_access_grants db))
     else [])"

definition grantFrom :: "GrantRow \<Rightarrow> domain_error + Grant" where
  "grantFrom row =
    (let g = \<lparr>g_Capability = gr_capability row, g_Scope = mkScope (gr_org row) (gr_project row) (gr_env row)\<rparr>
     in bindE (Scope_Level (g_Scope g)) (\<lambda>_. Inr g))"

fun grantsFrom :: "GrantRow list \<Rightarrow> domain_error + Grant list" where
  "grantsFrom [] = Inr []"
| "grantsFrom (row # rows) =
    bindE (grantFrom row) (\<lambda>g. bindE (grantsFrom rows) (\<lambda>gs. Inr (g # gs)))"

definition Grants :: "Database \<Rightarrow> int \<Rightarrow> PrincipalID \<Rightarrow> domain_error + (Grant list \<times> OrgID)" where
  "Grants db now p =
    (let rows = ListGrantsForPrincipal db now p in
     bindE (grantsFrom rows) (\<lambda>gs. Inr (gs, if rows = [] then [] else db_self_config_org db)))"

definition ListRulesForPrincipal :: "Database \<Rightarrow> PrincipalID \<Rightarrow> ruleRow list" where
  "ListRulesForPrincipal db p =
    (if principalHuman db p then
       concat (map (\<lambda>r.
           map (\<lambda>(_, it). \<lparr>rr_id = ru_id r, rr_principal = p, rr_capability = ru_capability r,
                            rr_org = ru_org r, rr_envMode = ru_env_mode r, rr_keyMode = ru_key_mode r,
                            rr_item = it\<lparr>si_ID := []\<rparr>\<rparr>)
             (sort_key (\<lambda>(_, it). si_ID it) (filter (\<lambda>(rid, it). rid = ru_id r) (db_rule_items db))))
         (sort_key ru_id (filter (\<lambda>r. ru_principal r = p) (db_rules db))))
     else [])"

definition Resolver_Rules :: "Database \<Rightarrow> PrincipalID \<Rightarrow> domain_error + Rule list" where
  "Resolver_Rules db p = Inr (rulesOf (foldRules (ListRulesForPrincipal db p)))"

definition ResolveRuleKey :: "Database \<Rightarrow> OrgID \<Rightarrow> ProjectID \<Rightarrow> string \<Rightarrow> string \<Rightarrow> domain_error + RuleKey" where
  "ResolveRuleKey db org project id' name =
    (if (id' = []) = (name = []) then Inl ErrInternal
     else bindE (oneRow (find (\<lambda>k. kr_org k = org \<and> kr_project k = project \<and>
                    (if id' \<noteq> [] then kr_id k = id' else kr_name k = name)) (db_keys db)))
       (\<lambda>k. Inr \<lparr>k_ID = kr_id k, k_Folder = kr_folder k\<rparr>))"

definition ResolveRulePendingKey :: "Database \<Rightarrow> Scope \<Rightarrow> PrincipalID \<Rightarrow> string \<Rightarrow> domain_error + RuleKey" where
  "ResolveRulePendingKey db s owner id' =
    bindE (oneRow (find (\<lambda>c. pc_org c = s_Org s \<and> pc_project c = s_Project s \<and> pc_env c = s_Env s \<and>
                             pc_owner c = owner \<and> pc_id c = id') (db_pending db)))
      (\<lambda>c. bindE (oneRow (find (\<lambda>k. kr_org k = pc_org c \<and> kr_project k = pc_project c \<and> kr_id k = pc_key c)
                             (db_keys db)))
        (\<lambda>k. Inr \<lparr>k_ID = kr_id k, k_Folder = kr_folder k\<rparr>))"

definition refuseRuleApprovalKey :: "Database \<Rightarrow> Scope \<Rightarrow> domain_error + RuleKey" where
  "refuseRuleApprovalKey db s =
    (case ResolveRuleKey db (s_Org s) (s_Project s) ''approval-no-key'' [] of
       Inl e \<Rightarrow> if e \<noteq> ErrNotFound then Inl e else Inl ErrNotFound
     | Inr _ \<Rightarrow> Inl ErrNotFound)"

text \<open>The pinned key ids of the request are a decoded list here.\<close>

definition ResolveRuleApprovalKey :: "Database \<Rightarrow> Scope \<Rightarrow> string \<Rightarrow> domain_error + RuleKey" where
  "ResolveRuleApprovalKey db s id' =
    (case find (\<lambda>(sc, rid, ids). sc = s \<and> rid = id') (db_approvals db) of
       None \<Rightarrow> refuseRuleApprovalKey db s
     | Some (_, _, ids) \<Rightarrow>
         if ids = [] \<or> scan_fault (\<lambda>k. k = []) [] ids then refuseRuleApprovalKey db s
         else ResolveRuleKey db (s_Org s) (s_Project s) (hd ids) [])"

definition RuleKeyHasValue :: "Database \<Rightarrow> Scope \<Rightarrow> string \<Rightarrow> domain_error + bool" where
  "RuleKeyHasValue db s key = Inr (0 < length (filter (\<lambda>(sc, k). sc = s \<and> k = key) (db_values db)))"

definition RuleKeyHasConflictingDraft :: "Database \<Rightarrow> Scope \<Rightarrow> string \<Rightarrow> PrincipalID \<Rightarrow> domain_error + bool" where
  "RuleKeyHasConflictingDraft db s key owner =
    Inr (0 < length (filter (\<lambda>c. pc_org c = s_Org s \<and> pc_project c = s_Project s \<and> pc_env c = s_Env s \<and>
               pc_key c = key \<and> (pc_owner c \<noteq> owner \<or> pc_staged_from c \<noteq> [])) (db_pending db)))"

definition dbResolver :: "Database \<Rightarrow> int \<Rightarrow> Resolver" where
  "dbResolver db now =
    \<lparr>q_ResolveOrgChain = (\<lambda>o'. oneRow (find (\<lambda>x. x = o') (db_orgs db))),
     q_ResolveProjectChain = (\<lambda>o' p. bindE (oneRow (find (\<lambda>(ro, rp, _). ro = o' \<and> rp = p) (db_projects db)))
         (\<lambda>(ro, rp, _). Inr (ro, rp))),
     q_ResolveEnvChain = (\<lambda>o' p e. bindE (oneRow (find (\<lambda>(ro, rp, re, _). ro = o' \<and> rp = p \<and> re = e) (db_environments db)))
         (\<lambda>(ro, rp, re, _). Inr (ro, rp, re))),
     q_Grants = Grants db now,
     q_Rules = Resolver_Rules db,
     q_ResolveRuleKey = ResolveRuleKey db,
     q_ResolveRulePendingKey = ResolveRulePendingKey db,
     q_ResolveRuleApprovalKey = ResolveRuleApprovalKey db,
     q_RuleKeyHasValue = RuleKeyHasValue db,
     q_RuleKeyHasConflictingDraft = RuleKeyHasConflictingDraft db,
     q_EnvironmentProtected = (\<lambda>e. bindE (oneRow (find (\<lambda>(_, _, re, _). re = e) (db_environments db)))
         (\<lambda>(_, _, _, protected). Inr protected)),
     q_ProjectMachineReveal = (\<lambda>p. bindE (oneRow (find (\<lambda>(_, rp, _, _). rp = p) (db_projects db)))
         (\<lambda>(_, _, enabled, generation). Inr (enabled, generation)))\<rparr>"


section \<open>The contract authorization relies on\<close>

text \<open>
  A chain lookup returns the row it was asked for, every rule handed out validates, and a key
  resolved by id has that id.
\<close>

locale resolution_surface =
  fixes R :: Resolver
  assumes org_row: "q_ResolveOrgChain R o1 = Inr o2 \<Longrightarrow> o2 = o1"
    and project_row: "q_ResolveProjectChain R o1 p1 = Inr (o2, p2) \<Longrightarrow> o2 = o1 \<and> p2 = p1"
    and env_row: "q_ResolveEnvChain R o1 p1 e1 = Inr (o2, p2, e2) \<Longrightarrow> o2 = o1 \<and> p2 = p1 \<and> e2 = e1"
    and rules_valid: "q_Rules R p = Inr rs \<Longrightarrow> r \<in> set rs \<Longrightarrow> validRule r"
    and key_row: "q_ResolveRuleKey R o1 p1 i [] = Inr k \<Longrightarrow> k_ID k = i"
begin

lemma ResolveChain_same:
  assumes "ResolveChain R s = Inr chain"
  shows "chain = s"
proof -
  from assms obtain l where l: "Scope_Level s = Inr l" by (auto simp: ResolveChain_def)
  have "s = mkScope (s_Org s) (s_Project s) (s_Env s)" by (simp add: mkScope_def)
  with assms l show ?thesis
    by (cases l)
       (auto simp: ResolveChain_def Scope_Level_def mkScope_def split: if_splits
          dest!: org_row project_row env_row)
qed

end

lemma find_Inr: "oneRow (find P xs) = Inr x \<Longrightarrow> P x \<and> x \<in> set xs"
  by (auto simp: oneRow_def find_Some_iff split: option.splits)

interpretation db: resolution_surface "dbResolver db now" for db now
proof unfold_locales
  fix o1 o2 assume "q_ResolveOrgChain (dbResolver db now) o1 = Inr o2"
  then show "o2 = o1" by (auto simp: dbResolver_def dest: find_Inr)
next
  fix o1 p1 o2 p2 assume "q_ResolveProjectChain (dbResolver db now) o1 p1 = Inr (o2, p2)"
  then show "o2 = o1 \<and> p2 = p1" by (auto simp: dbResolver_def dest!: find_Inr)
next
  fix o1 p1 e1 o2 p2 e2 assume "q_ResolveEnvChain (dbResolver db now) o1 p1 e1 = Inr (o2, p2, e2)"
  then show "o2 = o1 \<and> p2 = p1 \<and> e2 = e1" by (auto simp: dbResolver_def dest!: find_Inr)
next
  fix p rs r assume "q_Rules (dbResolver db now) p = Inr rs" "r \<in> set rs"
  then show "validRule r" by (auto simp: dbResolver_def Resolver_Rules_def intro: foldRules_valid)
next
  fix o1 p1 i k assume "q_ResolveRuleKey (dbResolver db now) o1 p1 i [] = Inr k"
  then show "k_ID k = i"
    by (auto simp: dbResolver_def ResolveRuleKey_def split: if_splits dest!: find_Inr)
qed

end
