(* ===== verification/Chokepoint.thy ===== *)
theory Chokepoint
  imports Resolution
begin

text \<open>
  The authorization chokepoint (\<^verbatim>\<open>internal/authz\<close>: \<^verbatim>\<open>authorize.go\<close>,
  \<^verbatim>\<open>rules.go\<close>, \<^verbatim>\<open>self_config.go\<close>, \<^verbatim>\<open>session.go\<close>, \<^verbatim>\<open>denial.go\<close>,
  \<^verbatim>\<open>proof.go\<close>, \<^verbatim>\<open>verify.go\<close>). The operation registry is a parameter of every
  function that consults it; the decisions read a \<open>Resolver\<close>. A decision after chain
  resolution either fails loudly, is refused with a denial on the resolved chain, or goes on.
\<close>


section \<open>Identities, operations, proofs\<close>

record Identity =
  id_Principal :: PrincipalID
  id_AuthorityPrincipal :: PrincipalID
  id_DeveloperScope :: Scope
  id_Class :: PrincipalClass
  id_SessionID :: string
  id_CredentialID :: string
  id_Factors :: "string list"

datatype OpClass = ClassTenant | ClassInstance | ClassUnauthenticated | ClassSystem

record authorizationSpec =
  spec_class :: OpClass
  spec_level :: Level
  spec_formula :: Formula

type_synonym Registry = "Operation \<Rightarrow> authorizationSpec option"

datatype proofKind = kindTenant | kindInstance | kindSystem

text \<open>
  The navigation slice is nil or non-empty in the code and a list here; \<^verbatim>\<open>publishKeys\<close> is
  \<open>None\<close> for the nil map. A transaction token is its identity.
\<close>

record Proof =
  p_kind :: proofKind
  p_op :: Operation
  p_site :: string
  p_chain :: Scope
  p_tok :: nat
  p_key :: "RuleKey option"
  p_navigation :: "Rule list"
  p_publishKeys :: "string list option"
  p_selfConfig :: bool
  p_selfConfigAdmin :: bool

definition mkProof :: "proofKind \<Rightarrow> Operation \<Rightarrow> Scope \<Rightarrow> nat \<Rightarrow> Proof" where
  "mkProof kind op chain tok =
    \<lparr>p_kind = kind, p_op = op, p_site = [], p_chain = chain, p_tok = tok, p_key = None,
     p_navigation = [], p_publishKeys = None, p_selfConfig = False, p_selfConfigAdmin = False\<rparr>"

abbreviation OpDeliveryFetch :: Operation where "OpDeliveryFetch \<equiv> ''delivery.fetch''"
abbreviation OpDeveloperCredentialMint :: Operation where
  "OpDeveloperCredentialMint \<equiv> ''developer-credential.mint''"
abbreviation OpKeySchemaPublishEmpty :: Operation where
  "OpKeySchemaPublishEmpty \<equiv> ''key.schema-publish-empty''"
abbreviation OpValueInitialize :: Operation where "OpValueInitialize \<equiv> ''value.initialize''"
abbreviation OpValuePublish :: Operation where "OpValuePublish \<equiv> ''value.publish''"
abbreviation OpEnvDelete :: Operation where "OpEnvDelete \<equiv> ''environment.delete''"
abbreviation OpRotateDEK :: Operation where "OpRotateDEK \<equiv> ''crypto.rotate-dek''"
abbreviation OpSelfConfigStatus :: Operation where "OpSelfConfigStatus \<equiv> ''self-config.status''"
abbreviation OpSelfConfigAdopt :: Operation where "OpSelfConfigAdopt \<equiv> ''self-config.adopt''"
abbreviation OpSelfConfigPreview :: Operation where "OpSelfConfigPreview \<equiv> ''self-config.preview''"
abbreviation OpSelfConfigApply :: Operation where "OpSelfConfigApply \<equiv> ''self-config.apply''"
abbreviation OpSelfConfigTest :: Operation where "OpSelfConfigTest \<equiv> ''self-config.test''"
abbreviation OpRuleCreate :: Operation where "OpRuleCreate \<equiv> ''rule.create''"
abbreviation OpRuleRevoke :: Operation where "OpRuleRevoke \<equiv> ''rule.revoke''"
abbreviation OpRuleListProject :: Operation where "OpRuleListProject \<equiv> ''rule.list-project''"


section \<open>Assurance\<close>

definition MFAMandatory :: "Capability list" where
  "MFAMandatory =
    [CapReveal, CapRevealHistory, CapManageMembers, CapCredentialReset, CapInstanceConfig,
     CapAuditRead, CapRotateDEK, CapReencrypt, CapInstanceDirector]"

fun adequate_loop :: "string list \<Rightarrow> string list \<Rightarrow> bool" where
  "adequate_loop seen [] = (2 \<le> length seen)"
| "adequate_loop seen (f # fs) = (if f = ''webauthn'' then True else adequate_loop (insertNew seen f) fs)"

definition AdequateAssurance :: "string list \<Rightarrow> bool" where
  "AdequateAssurance factors = adequate_loop [] factors"

definition FormulaDemandsMFA :: "Registry \<Rightarrow> Operation \<Rightarrow> bool" where
  "FormulaDemandsMFA reg op =
    (case reg op of
       None \<Rightarrow> False
     | Some spec \<Rightarrow> list_ex (\<lambda>a. a_Cap a \<in> set MFAMandatory) (spec_formula spec))"

definition assuranceInadequate :: "Registry \<Rightarrow> Identity \<Rightarrow> Operation \<Rightarrow> bool" where
  "assuranceInadequate reg caller op \<longleftrightarrow>
    id_SessionID caller \<noteq> [] \<and> FormulaDemandsMFA reg op \<and> \<not> AdequateAssurance (id_Factors caller)"


section \<open>The protected configuration profile\<close>

definition selfConfigOperations :: "Operation list" where
  "selfConfigOperations =
    [''org.get'', ''org.rename'', ''project.get'', ''project.list'', ''project.rename'',
     ''environment.read'', ''environment.list'', ''environment.rename'', ''environment.reorder'',
     ''environment.update-note'', ''key.get'', ''key.list'', ''key-group.get'',
     ''key-group.list'', ''folder.get'', ''folder.list'', ''value.read'', ''value.list'',
     ''value.reveal'', ''reveal.window_read'', ''value.stage'', ''value.pending-list'',
     ''value.publish'', ''value.export'', ''value.export-reveal'',
     ''value.export-reveal-history'', ''revision.list'', ''revision.show'', ''revision.signals'',
     ''revision.restore'', ''revision.restore-reveal-history'',
     ''revision.restore-reveal-current'', ''pin.set'', ''pin.set-reveal-history'', ''pin.list'',
     ''pin.release'', ''approval.policy-read'', ''approval.request-read'', ''approval.vote'',
     ''approval.bypass'', ''definitions.export'', ''definitions.check'',
     ''definitions.settings.get'', ''project.machine-reveal.get'', ''project.capacity.read'',
     ''environment.settings-read'', ''retention.org-read'', ''retention.org-update'',
     ''retention.project-read'', ''retention.project-update'', ''audit.query-org'',
     ''audit.query-project'', ''audit.query-env'', ''audit.export-org'', ''audit.export-project'',
     ''audit.export-env'', ''grant.create-org'', ''grant.create-project'', ''grant.create-env'',
     ''grant.revoke-org'', ''grant.revoke-project'', ''grant.revoke-env'', ''grant.list-org'',
     ''grant.list-project'', ''grant.template-org'', ''grant.template-project'',
     ''grant.template-env'', ''member.invite-org'', ''self-config.apply'', ''self-config.test'',
     ''crypto.reencrypt-project'']"

definition selfConfigMembership :: "Operation list" where
  "selfConfigMembership =
    [''grant.create-org'', ''grant.create-project'', ''grant.create-env'',
     ''grant.revoke-org'', ''grant.revoke-project'', ''grant.revoke-env'',
     ''grant.list-org'', ''grant.list-project'', ''grant.template-org'',
     ''grant.template-project'', ''grant.template-env'', ''member.invite-org'']"

definition selfConfigSessionEligible :: "Identity \<Rightarrow> bool" where
  "selfConfigSessionEligible caller \<longleftrightarrow>
    (id_Class caller = [] \<or> id_Class caller = ClassHuman) \<and>
    (id_SessionID caller = [] \<or> AdequateAssurance (id_Factors caller))"

text \<open>The pair \<^verbatim>\<open>(protected, permitted)\<close>.\<close>

definition selfConfigProfile :: "PrincipalClass \<Rightarrow> Operation \<Rightarrow> Scope \<Rightarrow> Grant list \<Rightarrow> OrgID \<Rightarrow> bool \<times> bool" where
  "selfConfigProfile cls op chain grants marker =
    (let protected = IsSelfConfigScope marker chain in
     if \<not> protected then (False, op \<noteq> OpSelfConfigApply \<and> op \<noteq> OpSelfConfigTest)
     else if cls \<noteq> [] \<and> cls \<noteq> ClassHuman then (True, False)
     else if op \<notin> set selfConfigOperations then (True, False)
     else
       let f = [atom CapInstanceConfig LevelNone] @
               (if op \<in> set selfConfigMembership then [atom CapManageMembers LevelNone] else [])
       in (True, evaluate f chain grants))"


section \<open>Key targets\<close>

datatype KeyTarget =
    KeyByID string
  | KeyByName string
  | KeyToCreate string
  | KeyMovedTo string string
  | KeyPendingVersion string
  | KeyApprovalRequest string

fun resolveKeyTarget :: "Resolver \<Rightarrow> Scope \<Rightarrow> KeyTarget \<Rightarrow> PrincipalID \<Rightarrow> domain_error + RuleKey" where
  "resolveKeyTarget R chain (KeyApprovalRequest id') p = q_ResolveRuleApprovalKey R chain id'"
| "resolveKeyTarget R chain (KeyPendingVersion id') p = q_ResolveRulePendingKey R chain p id'"
| "resolveKeyTarget R chain (KeyByID id') p = q_ResolveRuleKey R (s_Org chain) (s_Project chain) id' []"
| "resolveKeyTarget R chain (KeyByName name) p = q_ResolveRuleKey R (s_Org chain) (s_Project chain) [] name"
| "resolveKeyTarget R chain (KeyToCreate folder) p = Inr \<lparr>k_ID = [], k_Folder = folder\<rparr>"
| "resolveKeyTarget R chain (KeyMovedTo id' folder) p =
    bindE (q_ResolveRuleKey R (s_Org chain) (s_Project chain) id' []) (\<lambda>k. Inr (k\<lparr>k_Folder := folder\<rparr>))"


section \<open>Decision steps\<close>

text \<open>
  After the chain is resolved, a step fails with an error, is refused (a denial is captured on
  the resolved chain, then the error returned) or hands on a value.
\<close>

datatype 'a step = Fail domain_error | Deny domain_error | Next 'a

definition bindS :: "'a step \<Rightarrow> ('a \<Rightarrow> 'b step) \<Rightarrow> 'b step" where
  "bindS m f = (case m of Fail e \<Rightarrow> Fail e | Deny e \<Rightarrow> Deny e | Next x \<Rightarrow> f x)"

text \<open>\<open>readS\<close> passes an error through; \<open>readMasked\<close> captures a denial when it is not-found.\<close>

definition readS :: "domain_error + 'a \<Rightarrow> 'a step" where
  "readS m = (case m of Inl e \<Rightarrow> Fail e | Inr x \<Rightarrow> Next x)"

definition readMasked :: "domain_error + 'a \<Rightarrow> 'a step" where
  "readMasked m =
    (case m of
       Inl e \<Rightarrow> if e = ErrNotFound then Deny ErrNotFound else Fail e
     | Inr x \<Rightarrow> Next x)"

definition denyUnless :: "bool \<Rightarrow> domain_error \<Rightarrow> unit step" where
  "denyUnless ok e = (if ok then Next () else Deny e)"

definition grantPrincipalFor :: "Resolver \<Rightarrow> Identity \<Rightarrow> Operation \<Rightarrow> Scope \<Rightarrow> PrincipalID step" where
  "grantPrincipalFor R caller op chain =
    (if id_Class caller = ClassDeveloper then
       (if op \<noteq> OpDeliveryFetch \<or> chain \<noteq> id_DeveloperScope caller then Fail ErrNotFound
        else bindS (readS (q_EnvironmentProtected R (s_Env chain))) (\<lambda>protected.
          bindS (denyUnless (\<not> protected) ErrNotFound) (\<lambda>_. Next (id_AuthorityPrincipal caller))))
     else Next (id_Principal caller))"

definition initialHeld ::
  "Resolver \<Rightarrow> Identity \<Rightarrow> Operation \<Rightarrow> Formula \<Rightarrow> Scope \<Rightarrow> PrincipalID \<Rightarrow> Grant list \<Rightarrow> bool step" where
  "initialHeld R caller op f chain gp grants =
    (if id_Class caller = ClassDeveloper \<or> op = OpDeveloperCredentialMint then
       bindS (readS (q_Rules R gp)) (\<lambda>rules. Next (developerEnvironmentAuthority chain grants rules))
     else Next (evaluate f chain grants))"

text \<open>What the rule consultation leaves: held, the bound key, the navigation rules.\<close>

type_synonym held = "bool \<times> RuleKey option \<times> Rule list"

definition optKey :: "Resolver \<Rightarrow> Scope \<Rightarrow> KeyTarget option \<Rightarrow> PrincipalID \<Rightarrow> RuleKey option step" where
  "optKey R chain key p =
    (case key of
       None \<Rightarrow> Next None
     | Some k \<Rightarrow> bindS (readMasked (resolveKeyTarget R chain k p)) (\<lambda>rk. Next (Some rk)))"

definition consultRules ::
  "Resolver \<Rightarrow> Identity \<Rightarrow> Operation \<Rightarrow> Formula \<Rightarrow> Scope \<Rightarrow> KeyTarget option \<Rightarrow> Rule option \<Rightarrow>
   Grant list \<Rightarrow> bool \<Rightarrow> held step" where
  "consultRules R caller op f chain key targetRule grants held =
    (if op \<noteq> OpDeveloperCredentialMint \<and> rulesApply (id_Class caller) \<and>
        (ruleSatisfiable f \<or> targetRule \<noteq> None \<or> ruleNavigationOperation op) \<and> (\<not> held \<or> targetRule \<noteq> None)
     then
       bindS (readS (q_Rules R (id_Principal caller))) (\<lambda>rules.
       bindS (optKey R chain key (id_Principal caller)) (\<lambda>bound.
         case targetRule of
           Some target \<Rightarrow>
             bindS (readMasked (ruleDelegationHeld f chain grants rules target
                      (\<lambda>id'. q_ResolveRuleKey R (s_Org chain) (s_Project chain) id' [])))
               (\<lambda>h. Next (h, bound, []))
         | None \<Rightarrow>
             if evaluateWithRules f chain grants rules bound then Next (True, bound, [])
             else
               let navigation = ruleNavigationReach op chain rules grants
               in Next (navigation \<noteq> [], bound, navigation)))
     else Next (held, None, []))"

definition emptyCellCheck ::
  "Resolver \<Rightarrow> Identity \<Rightarrow> Operation \<Rightarrow> Scope \<Rightarrow> KeyTarget option \<Rightarrow> RuleKey option \<Rightarrow> RuleKey option step" where
  "emptyCellCheck R caller op chain key bound =
    (if op = OpKeySchemaPublishEmpty \<and> (case key of Some (KeyToCreate _) \<Rightarrow> False | _ \<Rightarrow> True) then Deny ErrNotFound
     else if op = OpKeySchemaPublishEmpty \<or> op = OpValueInitialize then
       bindS (case bound of
                Some k \<Rightarrow> Next k
              | None \<Rightarrow> (case key of None \<Rightarrow> Fail ErrInternal
                                  | Some k \<Rightarrow> readMasked (resolveKeyTarget R chain k (id_Principal caller))))
         (\<lambda>k.
       bindS (readS (q_RuleKeyHasValue R chain (k_ID k))) (\<lambda>present.
       bindS (if \<not> present \<and> op = OpValueInitialize
              then readS (q_RuleKeyHasConflictingDraft R chain (k_ID k) (id_Principal caller))
              else Next present) (\<lambda>present'.
       bindS (denyUnless (\<not> present') ErrNotFound) (\<lambda>_. Next (Some k)))))
     else Next bound)"

definition envDeleteCheck :: "Resolver \<Rightarrow> Identity \<Rightarrow> Operation \<Rightarrow> Scope \<Rightarrow> unit step" where
  "envDeleteCheck R caller op chain =
    (if IsServiceAccountKind (id_Class caller) \<and> op = OpEnvDelete then
       bindS (readS (q_EnvironmentProtected R (s_Env chain))) (\<lambda>protected. denyUnless (\<not> protected) ErrNotFound)
     else Next ())"

definition demandsReveal :: "Formula \<Rightarrow> bool" where
  "demandsReveal f = list_ex (\<lambda>a. a_Cap a = CapReveal \<or> a_Cap a = CapRevealHistory) f"

definition machineRevealWithdrawn :: "Resolver \<Rightarrow> Identity \<Rightarrow> Formula \<Rightarrow> Scope \<Rightarrow> domain_error + bool" where
  "machineRevealWithdrawn R caller f chain =
    (if \<not> IsServiceAccountKind (id_Class caller) \<or> s_Project chain = [] then Inr False
     else if \<not> demandsReveal f then Inr False
     else case q_ProjectMachineReveal R (s_Project chain) of
            Inl e \<Rightarrow> if e = ErrNotFound then Inr True else Inl e
          | Inr (enabled, _) \<Rightarrow> Inr (\<not> enabled))"

definition MachineRevealOptIn :: "Resolver \<Rightarrow> Identity \<Rightarrow> ProjectID \<Rightarrow> domain_error + (bool \<times> int)" where
  "MachineRevealOptIn R caller project =
    (if \<not> IsServiceAccountKind (id_Class caller) then Inr (True, 0)
     else case q_ProjectMachineReveal R project of
            Inl e \<Rightarrow> if e = ErrNotFound then Inr (False, 0) else Inl e
          | Inr st \<Rightarrow> Inr st)"

text \<open>
  The last conjuncts: the protected profile \<^verbatim>\<open>(protected, permitted)\<close>,
  the machine-reveal opt-in and the session's assurance, then the proof.
\<close>

definition closingChecks ::
  "Registry \<Rightarrow> Resolver \<Rightarrow> nat \<Rightarrow> Identity \<Rightarrow> Operation \<Rightarrow> authorizationSpec \<Rightarrow> Scope \<Rightarrow>
   bool \<times> bool \<Rightarrow> RuleKey option \<Rightarrow> Rule list \<Rightarrow> Proof step" where
  "closingChecks reg R tok caller op spec chain profile bound navigation =
    bindS (denyUnless (snd profile) ErrNotFound) (\<lambda>_.
    bindS (readS (machineRevealWithdrawn R caller (spec_formula spec) chain)) (\<lambda>withdrawn.
    bindS (denyUnless (\<not> withdrawn) ErrNotFound) (\<lambda>_.
    bindS (denyUnless (\<not> (assuranceInadequate reg caller op \<or>
                          fst profile \<and> id_SessionID caller \<noteq> [] \<and> \<not> AdequateAssurance (id_Factors caller)))
             ErrUnauthorized) (\<lambda>_.
      Next ((mkProof kindTenant op chain tok)
        \<lparr>p_key := bound, p_navigation := navigation, p_selfConfig := fst profile\<rparr>)))))"

text \<open>The decision on a resolved chain, from the grant read to the minted proof.\<close>

definition tenantDecision ::
  "Registry \<Rightarrow> Resolver \<Rightarrow> nat \<Rightarrow> Identity \<Rightarrow> Operation \<Rightarrow> authorizationSpec \<Rightarrow> Scope \<Rightarrow>
   KeyTarget option \<Rightarrow> Rule option \<Rightarrow> Proof step" where
  "tenantDecision reg R tok caller op spec chain key targetRule =
    bindS (grantPrincipalFor R caller op chain) (\<lambda>gp.
    bindS (readS (q_Grants R gp)) (\<lambda>(grants, marker).
    bindS (initialHeld R caller op (spec_formula spec) chain gp grants) (\<lambda>held0.
    bindS (consultRules R caller op (spec_formula spec) chain key targetRule grants held0)
      (\<lambda>(held, bound, navigation).
    bindS (denyUnless held ErrNotFound) (\<lambda>_.
    bindS (emptyCellCheck R caller op chain key bound) (\<lambda>bound'.
    bindS (envDeleteCheck R caller op chain) (\<lambda>_.
      closingChecks reg R tok caller op spec chain
        (selfConfigProfile (id_Class caller) op chain grants marker) bound' navigation)))))))"


section \<open>Denials and the tenant entry\<close>

datatype DenialTrail = TrailInstance | TrailTenant

datatype Resolution = resolutionResolvable | resolutionUnresolvable

text \<open>
  A captured denial. The caller-asserted identifiers of an unresolvable denial are kept raw;
  their free-text hygiene is not modelled.
\<close>

record Denial =
  d_Trail :: DenialTrail
  d_Scope :: Scope
  d_Principal :: PrincipalID
  d_Credential :: string
  d_Authority :: PrincipalID
  d_Op :: Operation
  d_Formula :: string
  d_Resolution :: Resolution
  d_Claimed :: Scope

record TxAuthorizer =
  tx_denials :: "Denial list"
  tx_developer :: "Identity option"

primrec levelName :: "Level \<Rightarrow> string" where
  "levelName LevelNone = ''instance''"
| "levelName LevelOrg = ''org''"
| "levelName LevelProject = ''project''"
| "levelName LevelEnv = ''environment''"

fun joinPlus :: "string list \<Rightarrow> string" where
  "joinPlus [] = []"
| "joinPlus [x] = x"
| "joinPlus (x # xs) = x @ ''+'' @ joinPlus xs"

definition formulaName :: "Formula \<Rightarrow> string" where
  "formulaName f = joinPlus (map (\<lambda>a. a_Cap a @ ''@'' @ levelName (a_At a)) f)"

definition zeroScope :: Scope where
  "zeroScope = mkScope [] [] []"

text \<open>The developer identity of this attempt, when the denied principal is that developer.\<close>

definition deniedDeveloper :: "TxAuthorizer \<Rightarrow> PrincipalID \<Rightarrow> Identity option" where
  "deniedDeveloper a who =
    (case tx_developer a of
       Some d \<Rightarrow> if id_Principal d = who \<and> id_Class d = ClassDeveloper then Some d else None
     | None \<Rightarrow> None)"

definition deniedActor :: "TxAuthorizer \<Rightarrow> PrincipalID \<Rightarrow> string" where
  "deniedActor a who = (case deniedDeveloper a who of None \<Rightarrow> [] | Some d \<Rightarrow> id_CredentialID d)"

definition deniedAuthority :: "TxAuthorizer \<Rightarrow> PrincipalID \<Rightarrow> PrincipalID" where
  "deniedAuthority a who =
    (case deniedDeveloper a who of None \<Rightarrow> [] | Some d \<Rightarrow> id_AuthorityPrincipal d)"

definition captureDenial ::
  "TxAuthorizer \<Rightarrow> PrincipalID \<Rightarrow> Operation \<Rightarrow> authorizationSpec \<Rightarrow> Resolution \<Rightarrow> Scope \<Rightarrow> Scope \<Rightarrow> TxAuthorizer"
where
  "captureDenial a who op spec resolution resolvedChain claimed =
    (let tenant = (resolution = resolutionResolvable \<and> resolvedChain \<noteq> zeroScope) in
     a\<lparr>tx_denials := tx_denials a @
       [\<lparr>d_Trail = (if tenant then TrailTenant else TrailInstance),
         d_Scope = (if tenant then resolvedChain else zeroScope),
         d_Principal = who, d_Credential = deniedActor a who,
         d_Authority = deniedAuthority a who,
         d_Op = op, d_Formula = formulaName (spec_formula spec), d_Resolution = resolution,
         d_Claimed = (if resolution = resolutionUnresolvable then claimed else zeroScope)\<rparr>]\<rparr>)"

definition missingScopeRefusalWork ::
  "Resolver \<Rightarrow> Identity \<Rightarrow> Operation \<Rightarrow> authorizationSpec \<Rightarrow> KeyTarget option \<Rightarrow> Rule option \<Rightarrow>
   domain_error + unit" where
  "missingScopeRefusalWork R caller op spec key targetRule =
    bindE (q_Grants R (id_Principal caller)) (\<lambda>_.
      if \<not> rulesApply (id_Class caller) \<or>
         \<not> ruleSatisfiable (spec_formula spec) \<and> targetRule = None \<and> \<not> ruleNavigationOperation op then Inr ()
      else bindE (q_Rules R (id_Principal caller)) (\<lambda>_.
        case key of
          None \<Rightarrow> Inr ()
        | Some k \<Rightarrow>
            (case resolveKeyTarget R zeroScope k (id_Principal caller) of
               Inl e \<Rightarrow> if e \<noteq> ErrNotFound then Inl e else Inr ()
             | Inr _ \<Rightarrow> Inr ())))"

type_synonym 'a outcome = "(domain_error + 'a) \<times> TxAuthorizer"

definition authorizeTenant ::
  "Registry \<Rightarrow> Resolver \<Rightarrow> nat \<Rightarrow> Identity \<Rightarrow> Operation \<Rightarrow> authorizationSpec \<Rightarrow> Scope \<Rightarrow>
   KeyTarget option \<Rightarrow> Rule option \<Rightarrow> TxAuthorizer \<Rightarrow> Proof outcome" where
  "authorizeTenant reg R tok caller op spec scope key targetRule a =
    (case Scope_Level scope of
       Inl e \<Rightarrow> (Inl e, a)
     | Inr level \<Rightarrow>
         if level \<noteq> spec_level spec then (Inl ErrInternal, a)
         else if (op = OpKeySchemaPublishEmpty \<or> op = OpValueInitialize) \<and> key = None then (Inl ErrInternal, a)
         else
           case ResolveChain R scope of
             Inl e \<Rightarrow>
               (if e = ErrNotFound then
                  case missingScopeRefusalWork R caller op spec key targetRule of
                    Inl e' \<Rightarrow> (Inl e', a)
                  | Inr _ \<Rightarrow>
                      (Inl e, captureDenial a (id_Principal caller) op spec resolutionUnresolvable zeroScope scope)
                else (Inl e, a))
           | Inr chain \<Rightarrow>
               (case tenantDecision reg R tok caller op spec chain key targetRule of
                  Fail e \<Rightarrow> (Inl e, a)
                | Deny e \<Rightarrow>
                    (Inl e, captureDenial a (id_Principal caller) op spec resolutionResolvable chain zeroScope)
                | Next p \<Rightarrow> (Inr p, a)))"

definition authorizeInstance ::
  "Registry \<Rightarrow> Resolver \<Rightarrow> nat \<Rightarrow> Identity \<Rightarrow> Operation \<Rightarrow> authorizationSpec \<Rightarrow> TxAuthorizer \<Rightarrow> Proof outcome"
where
  "authorizeInstance reg R tok caller op spec a =
    (let refuse = (Inl ErrUnauthorized,
                   captureDenial a (id_Principal caller) op spec resolutionResolvable zeroScope zeroScope) in
     if (op = OpSelfConfigStatus \<or> op = OpSelfConfigAdopt \<or> op = OpSelfConfigPreview) \<and>
        id_Class caller \<noteq> [] \<and> id_Class caller \<noteq> ClassHuman then refuse
     else
       case q_Grants R (id_Principal caller) of
         Inl e \<Rightarrow> (Inl e, a)
       | Inr (grants, _) \<Rightarrow>
           if \<not> evaluate (spec_formula spec) zeroScope grants then refuse
           else if assuranceInadequate reg caller op then refuse
           else (Inr ((mkProof kindInstance op zeroScope tok)
                   \<lparr>p_selfConfigAdmin := selfConfigSessionEligible caller \<and>
                      evaluate [atom CapInstanceConfig LevelNone] zeroScope grants\<rparr>), a))"

text \<open>
  The entry point. \<^verbatim>\<open>admits\<close> is the embedded contract's answer for the instance-connection
  artifact (a generated table), and \<^verbatim>\<open>network\<close> whether HTTP admission already ran.
\<close>

definition Authorize ::
  "Registry \<Rightarrow> Resolver \<Rightarrow> (Operation \<Rightarrow> bool) \<Rightarrow> bool \<Rightarrow> nat \<Rightarrow> Identity \<Rightarrow> Operation \<Rightarrow> Scope \<Rightarrow>
   TxAuthorizer \<Rightarrow> Proof outcome" where
  "Authorize reg R admits network tok caller op scope a =
    (case reg op of
       None \<Rightarrow> (Inl ErrInternal, a)
     | Some spec \<Rightarrow>
        (let developer = (id_Class caller = ClassDeveloper);
             a' = a\<lparr>tx_developer := (if developer then Some caller else None)\<rparr>;
             masked = captureDenial a' (id_Principal caller) op spec resolutionUnresolvable zeroScope scope in
         if developer \<and> (op \<noteq> OpDeliveryFetch \<or> scope \<noteq> id_DeveloperScope caller) then (Inl ErrNotFound, masked)
         else if id_Principal caller = [] then (Inl ErrInternal, a')
         else if \<not> network \<and> id_Class caller = ClassInstanceConn \<and> \<not> admits op then
           (Inl (if spec_class spec = ClassTenant then ErrNotFound else ErrUnauthorized), masked)
         else
           case spec_class spec of
             ClassTenant \<Rightarrow> authorizeTenant reg R tok caller op spec scope None None a'
           | ClassInstance \<Rightarrow>
               if scope \<noteq> zeroScope then (Inl ErrInternal, a')
               else authorizeInstance reg R tok caller op spec a'
           | _ \<Rightarrow> (Inl ErrInternal, a')))"

definition AuthorizeDEKRotation ::
  "Registry \<Rightarrow> Resolver \<Rightarrow> (Operation \<Rightarrow> bool) \<Rightarrow> bool \<Rightarrow> nat \<Rightarrow> Identity \<Rightarrow> Scope \<Rightarrow> TxAuthorizer \<Rightarrow> Proof outcome"
where
  "AuthorizeDEKRotation reg R admits network tok caller scope a =
    (case Authorize reg R admits network tok caller OpRotateDEK zeroScope a of
       (Inl e, a') \<Rightarrow> (Inl e, a')
     | (Inr p, a') \<Rightarrow>
         if scope = zeroScope then (Inr p, a')
         else
           (bindE (Scope_Level scope) (\<lambda>level.
              if level \<noteq> LevelProject then Inl ErrInternal
              else bindE (ResolveChain R scope) (\<lambda>_. Inr p)), a'))"

definition AuthorizeKey ::
  "Registry \<Rightarrow> Resolver \<Rightarrow> (Operation \<Rightarrow> bool) \<Rightarrow> bool \<Rightarrow> nat \<Rightarrow> Identity \<Rightarrow> Operation \<Rightarrow> Scope \<Rightarrow> KeyTarget \<Rightarrow>
   TxAuthorizer \<Rightarrow> Proof outcome" where
  "AuthorizeKey reg R admits network tok caller op scope key a =
    (case reg op of
       None \<Rightarrow> (Inl ErrInternal, a)
     | Some spec \<Rightarrow>
         if spec_class spec \<noteq> ClassTenant then (Inl ErrInternal, a)
         else if id_Principal caller = [] then (Inl ErrInternal, a)
         else if id_Class caller = ClassInstanceConn then Authorize reg R admits network tok caller op scope a
         else authorizeTenant reg R tok caller op spec scope (Some key) None a)"

definition AuthorizeRule ::
  "Registry \<Rightarrow> Resolver \<Rightarrow> (Operation \<Rightarrow> bool) \<Rightarrow> bool \<Rightarrow> nat \<Rightarrow> Identity \<Rightarrow> Operation \<Rightarrow> Scope \<Rightarrow> Rule \<Rightarrow>
   TxAuthorizer \<Rightarrow> Proof outcome" where
  "AuthorizeRule reg R admits network tok caller op scope target a =
    (if op \<noteq> OpRuleCreate \<and> op \<noteq> OpRuleRevoke \<and> op \<noteq> OpRuleListProject then (Inl ErrInternal, a)
     else if id_Principal caller = [] \<or> r_Org target \<noteq> s_Org scope \<or>
             s_Project scope \<notin> set (w_Projects (r_Where target)) then (Inl ErrInternal, a)
     else if id_Class caller = ClassInstanceConn then Authorize reg R admits network tok caller op scope a
     else
       case reg op of
         None \<Rightarrow> (Inl ErrInternal, a)
       | Some spec \<Rightarrow> authorizeTenant reg R tok caller op spec scope None (Some target) a)"

fun publishLoop ::
  "Registry \<Rightarrow> Resolver \<Rightarrow> (Operation \<Rightarrow> bool) \<Rightarrow> bool \<Rightarrow> nat \<Rightarrow> Identity \<Rightarrow> Scope \<Rightarrow> Proof option \<Rightarrow> string list \<Rightarrow>
   TxAuthorizer \<Rightarrow> Proof option outcome" where
  "publishLoop reg R admits network tok caller scope first [] a = (Inr first, a)"
| "publishLoop reg R admits network tok caller scope first (id' # ids) a =
    (case AuthorizeKey reg R admits network tok caller OpValuePublish scope (KeyByID id') a of
       (Inl e, a') \<Rightarrow> (Inl e, a')
     | (Inr p, a') \<Rightarrow>
         publishLoop reg R admits network tok caller scope
           (case first of None \<Rightarrow> Some p | Some q \<Rightarrow> Some q) ids a')"

definition AuthorizePublishKeys ::
  "Registry \<Rightarrow> Resolver \<Rightarrow> (Operation \<Rightarrow> bool) \<Rightarrow> bool \<Rightarrow> nat \<Rightarrow> Identity \<Rightarrow> Scope \<Rightarrow> string list \<Rightarrow>
   TxAuthorizer \<Rightarrow> Proof outcome" where
  "AuthorizePublishKeys reg R admits network tok caller scope ids a =
    (if ids = [] then (Inl ErrInternal, a)
     else
       case publishLoop reg R admits network tok caller scope None ids a of
         (Inl e, a') \<Rightarrow> (Inl e, a')
       | (Inr None, a') \<Rightarrow> (Inl ErrInternal, a')
       | (Inr (Some p), a') \<Rightarrow> (Inr (p\<lparr>p_key := None, p_publishKeys := Some ids\<rparr>), a'))"



section \<open>The store boundary\<close>

text \<open>
  \<^verbatim>\<open>permits\<close> is the registry's store-operation set, \<^verbatim>\<open>sites\<close> the system sites' one,
  and \<^verbatim>\<open>alive\<close> the state of the transaction tokens. \<open>None\<close> is the nil proof or token.
\<close>

definition verifyProof ::
  "(Operation \<Rightarrow> string \<Rightarrow> bool) \<Rightarrow> (string \<Rightarrow> string \<Rightarrow> bool) \<Rightarrow> (nat \<Rightarrow> bool) \<Rightarrow> Proof option \<Rightarrow> string \<Rightarrow>
   nat option \<Rightarrow> domain_error + Proof" where
  "verifyProof permits sites alive p storeOp tok =
    (case p of
       None \<Rightarrow> Inl ErrInternal
     | Some c \<Rightarrow>
         (case tok of
            None \<Rightarrow> Inl ErrInternal
          | Some t \<Rightarrow>
              if p_tok c \<noteq> t then Inl ErrInternal
              else if \<not> alive t then Inl ErrInternal
              else if p_kind c = kindSystem then
                (if sites (p_site c) storeOp then Inr c else Inl ErrInternal)
              else if permits (p_op c) storeOp then Inr c else Inl ErrInternal))"

definition Verify ::
  "(Operation \<Rightarrow> string \<Rightarrow> bool) \<Rightarrow> (string \<Rightarrow> string \<Rightarrow> bool) \<Rightarrow> (nat \<Rightarrow> bool) \<Rightarrow> Proof option \<Rightarrow> string \<Rightarrow>
   nat option \<Rightarrow> domain_error + Scope" where
  "Verify permits sites alive p storeOp tok =
    bindE (verifyProof permits sites alive p storeOp tok) (\<lambda>c. Inr (p_chain c))"

definition VerifyEvent ::
  "(Operation \<Rightarrow> string \<Rightarrow> bool) \<Rightarrow> (string \<Rightarrow> string \<Rightarrow> bool) \<Rightarrow> (Operation \<Rightarrow> string \<Rightarrow> bool) \<Rightarrow>
   (string \<Rightarrow> string \<Rightarrow> bool) \<Rightarrow> (nat \<Rightarrow> bool) \<Rightarrow> Proof option \<Rightarrow> string \<Rightarrow> nat option \<Rightarrow> string \<Rightarrow>
   domain_error + Scope" where
  "VerifyEvent permits sites permitsEvent siteEvents alive p storeOp tok et =
    bindE (verifyProof permits sites alive p storeOp tok) (\<lambda>c.
      if p_kind c = kindSystem
      then (if siteEvents (p_site c) et then Inr (p_chain c) else Inl ErrInternal)
      else (if permitsEvent (p_op c) et then Inr (p_chain c) else Inl ErrInternal))"

definition IsSystemProof :: "Proof option \<Rightarrow> bool" where
  "IsSystemProof p = (case p of None \<Rightarrow> False | Some c \<Rightarrow> p_kind c = kindSystem)"

definition BoundKey :: "Proof option \<Rightarrow> RuleKey option" where
  "BoundKey p = (case p of None \<Rightarrow> None | Some c \<Rightarrow> p_key c)"

definition PublishKeyAllowed :: "Proof option \<Rightarrow> string \<Rightarrow> bool" where
  "PublishKeyAllowed p id' =
    (case p of
       None \<Rightarrow> False
     | Some c \<Rightarrow>
         (case p_publishKeys c of
            Some keys \<Rightarrow> id' \<in> set keys
          | None \<Rightarrow> (case p_key c of None \<Rightarrow> True | Some k \<Rightarrow> k_ID k = id')))"

definition NavigationProjectAllowed :: "Proof option \<Rightarrow> ProjectID \<Rightarrow> bool" where
  "NavigationProjectAllowed p id' =
    (case p of None \<Rightarrow> False | Some c \<Rightarrow> navigationProjectAllowed (p_navigation c) id')"

definition NavigationEnvironmentAllowed :: "Proof option \<Rightarrow> EnvID \<Rightarrow> bool" where
  "NavigationEnvironmentAllowed p id' =
    (case p of None \<Rightarrow> False | Some c \<Rightarrow> navigationEnvironmentAllowed (p_navigation c) (p_chain c) id')"



section \<open>A small installation\<close>

text \<open>Three registry rows and a database with one human, for the witnesses.\<close>

definition exampleRegistry :: Registry where
  "exampleRegistry = map_of
    [(''value.reveal'', \<lparr>spec_class = ClassTenant, spec_level = LevelEnv,
        spec_formula = [atom CapRead LevelEnv, atom CapReveal LevelEnv]\<rparr>),
     (OpDeliveryFetch, \<lparr>spec_class = ClassTenant, spec_level = LevelEnv,
        spec_formula = [atom CapRead LevelEnv]\<rparr>),
     (OpValuePublish, \<lparr>spec_class = ClassTenant, spec_level = LevelEnv,
        spec_formula = [atom CapPublish LevelEnv]\<rparr>),
     (''crypto.rotate-master-key'', \<lparr>spec_class = ClassInstance, spec_level = LevelNone,
        spec_formula = [atom CapRotateMasterKey LevelNone]\<rparr>)]"

definition exampleGrant :: "PrincipalID \<Rightarrow> Capability \<Rightarrow> OrgID \<Rightarrow> GrantRow" where
  "exampleGrant p c o' = \<lparr>gr_principal = p, gr_capability = c, gr_org = o', gr_project = [], gr_env = []\<rparr>"

definition exampleDB :: Database where
  "exampleDB =
    \<lparr>db_orgs = [''org''], db_projects = [(''org'', ''web'', False, 0)],
     db_environments = [(''org'', ''web'', ''dev'', False), (''org'', ''web'', ''prod'', True)],
     db_principals = [\<lparr>pr_id = ''alice'', pr_kind = ''human'', pr_privacy_state = ''active'', pr_reconciled_epoch = 0\<rparr>],
     db_grants = [exampleGrant ''alice'' CapRead ''org'', exampleGrant ''alice'' CapReveal ''org'',
                  exampleGrant ''alice'' CapPublish ''org'', exampleGrant ''alice'' CapRotateMasterKey []],
     db_access_grants = [], db_rules = [], db_rule_items = [], db_keys = [], db_pending = [],
     db_values = [], db_approvals = [], db_restore_epoch = 0, db_self_config_org = []\<rparr>"

definition exampleCaller :: "PrincipalID \<Rightarrow> PrincipalClass \<Rightarrow> string list \<Rightarrow> Identity" where
  "exampleCaller p cls factors =
    \<lparr>id_Principal = p, id_AuthorityPrincipal = ''alice'', id_DeveloperScope = mkScope ''org'' ''web'' ''dev'',
     id_Class = cls, id_SessionID = (if cls = ClassHuman then ''s1'' else []), id_CredentialID = [],
     id_Factors = factors\<rparr>"

definition freshAuthorizer :: TxAuthorizer where
  "freshAuthorizer = \<lparr>tx_denials = [], tx_developer = None\<rparr>"


section \<open>Reading a decision backwards\<close>

lemma bindS_eq [simp]:
  "bindS m f = Next y \<longleftrightarrow> (\<exists>x. m = Next x \<and> f x = Next y)"
  "bindS m f = Deny e \<longleftrightarrow> m = Deny e \<or> (\<exists>x. m = Next x \<and> f x = Deny e)"
  by (cases m; simp add: bindS_def)+

lemma readS_eq [simp]: "readS m = Next x \<longleftrightarrow> m = Inr x" "readS m \<noteq> Deny e"
  by (cases m; simp add: readS_def)+

lemma readMasked_eq [simp]:
  "readMasked m = Next x \<longleftrightarrow> m = Inr x"
  "readMasked m = Deny e \<longleftrightarrow> m = Inl ErrNotFound \<and> e = ErrNotFound"
  by (cases m; auto simp: readMasked_def)+

lemma denyUnless_eq [simp]:
  "denyUnless ok e = Next u \<longleftrightarrow> ok"
  "denyUnless ok e = Deny e' \<longleftrightarrow> \<not> ok \<and> e' = e"
  by (auto simp: denyUnless_def)

definition grantHolder :: "Identity \<Rightarrow> PrincipalID" where
  "grantHolder caller =
    (if id_Class caller = ClassDeveloper then id_AuthorityPrincipal caller else id_Principal caller)"

text \<open>
  What it takes to act on a resolved chain: the formula on grants alone; the developer's human
  authority over the whole environment; or, for a human caller, the formula on grants and rules
  for the bound key, delegation authority over the target selector, or a non-empty navigation.
\<close>

definition tenantAuthority ::
  "Resolver \<Rightarrow> Identity \<Rightarrow> Operation \<Rightarrow> Formula \<Rightarrow> Scope \<Rightarrow> Rule option \<Rightarrow> RuleKey option \<Rightarrow> Rule list \<Rightarrow> bool" where
  "tenantAuthority R caller op f chain targetRule bound navigation \<longleftrightarrow>
    (\<exists>grants marker. q_Grants R (grantHolder caller) = Inr (grants, marker) \<and>
      ((id_Class caller = ClassDeveloper \<or> op = OpDeveloperCredentialMint) \<and>
         (\<exists>rules. q_Rules R (grantHolder caller) = Inr rules \<and> developerEnvironmentAuthority chain grants rules) \<or>
       id_Class caller \<noteq> ClassDeveloper \<and> evaluate f chain grants \<or>
       rulesApply (id_Class caller) \<and>
         (\<exists>rules. q_Rules R (id_Principal caller) = Inr rules \<and>
           (case targetRule of
              Some t \<Rightarrow> ruleDelegationHeld f chain grants rules t
                          (\<lambda>i. q_ResolveRuleKey R (s_Org chain) (s_Project chain) i []) = Inr True
            | None \<Rightarrow> evaluateWithRules f chain grants rules bound \<or>
                       navigation \<noteq> [] \<and> navigation = ruleNavigationReach op chain rules grants))))"

lemma grantPrincipalFor_Next: "grantPrincipalFor R caller op chain = Next gp \<Longrightarrow> gp = grantHolder caller"
  by (auto simp: grantPrincipalFor_def grantHolder_def split: if_splits)

lemma grantPrincipalFor_Deny: "grantPrincipalFor R caller op chain = Deny e \<Longrightarrow> e = ErrNotFound"
  by (auto simp: grantPrincipalFor_def split: if_splits)

lemma optKey_eq:
  "optKey R chain key p = Deny e \<Longrightarrow> e = ErrNotFound"
  "optKey R chain key p = Next b \<Longrightarrow> b = None \<longleftrightarrow> key = None"
  by (auto simp: optKey_def split: option.splits)

lemma consultRules_Next:
  assumes "consultRules R caller op f chain key targetRule grants held0 = Next (True, bound, navigation)"
  shows "held0 \<and> bound = None \<and> navigation = [] \<and> (targetRule = None \<or> \<not> rulesApply (id_Class caller) \<or>
            op = OpDeveloperCredentialMint) \<or>
    rulesApply (id_Class caller) \<and> (bound = None \<longleftrightarrow> key = None) \<and>
      (\<exists>rules. q_Rules R (id_Principal caller) = Inr rules \<and>
        (case targetRule of
           Some t \<Rightarrow> ruleDelegationHeld f chain grants rules t
                       (\<lambda>i. q_ResolveRuleKey R (s_Org chain) (s_Project chain) i []) = Inr True
         | None \<Rightarrow> evaluateWithRules f chain grants rules bound \<or>
                    navigation \<noteq> [] \<and> navigation = ruleNavigationReach op chain rules grants))"
  using assms unfolding consultRules_def Let_def
  by (auto split: if_splits option.splits dest: optKey_eq(2))

lemma consultRules_Deny:
  "consultRules R caller op f chain key targetRule grants held0 = Deny e \<Longrightarrow> e = ErrNotFound"
  unfolding consultRules_def Let_def by (auto split: if_splits option.splits dest: optKey_eq(1))

lemma emptyCellCheck_Next:
  assumes "emptyCellCheck R caller op chain key bound = Next bound'"
  shows "bound' = bound \<or> bound = None \<and> key \<noteq> None"
  using assms unfolding emptyCellCheck_def by (auto split: if_splits option.splits KeyTarget.splits)

lemma emptyCellCheck_Deny: "emptyCellCheck R caller op chain key bound = Deny e \<Longrightarrow> e = ErrNotFound"
  unfolding emptyCellCheck_def by (auto split: if_splits option.splits KeyTarget.splits)

lemma envDeleteCheck_Deny: "envDeleteCheck R caller op chain = Deny e \<Longrightarrow> e = ErrNotFound"
  by (auto simp: envDeleteCheck_def split: if_splits)

lemma initialHeld_Next:
  "initialHeld R caller op f chain gp grants = Next held \<Longrightarrow> held \<Longrightarrow>
    (id_Class caller = ClassDeveloper \<or> op = OpDeveloperCredentialMint) \<and>
      (\<exists>rules. q_Rules R gp = Inr rules \<and> developerEnvironmentAuthority chain grants rules) \<or>
    id_Class caller \<noteq> ClassDeveloper \<and> evaluate f chain grants"
  by (auto simp: initialHeld_def split: if_splits)

lemma initialHeld_Deny: "initialHeld R caller op f chain gp grants \<noteq> Deny e"
  by (auto simp: initialHeld_def)

lemma steps_authority:
  assumes "grantPrincipalFor R caller op chain = Next gp" "q_Grants R gp = Inr (grants, marker)"
    and "initialHeld R caller op f chain gp grants = Next held0"
    and "consultRules R caller op f chain key targetRule grants held0 = Next (True, bound, navigation)"
    and "emptyCellCheck R caller op chain key bound = Next bound'"
  shows "tenantAuthority R caller op f chain targetRule bound' navigation"
proof -
  have gp: "gp = grantHolder caller" using assms(1) by (rule grantPrincipalFor_Next)
  from consultRules_Next [OF assms(4)] show ?thesis
  proof
    assume "held0 \<and> bound = None \<and> navigation = [] \<and> (targetRule = None \<or> \<not> rulesApply (id_Class caller) \<or>
      op = OpDeveloperCredentialMint)"
    with initialHeld_Next [OF assms(3)] assms(2) gp show ?thesis
      unfolding tenantAuthority_def by blast
  next
    assume *: "rulesApply (id_Class caller) \<and> (bound = None \<longleftrightarrow> key = None) \<and>
      (\<exists>rules. q_Rules R (id_Principal caller) = Inr rules \<and>
        (case targetRule of
           Some t \<Rightarrow> ruleDelegationHeld f chain grants rules t
                       (\<lambda>i. q_ResolveRuleKey R (s_Org chain) (s_Project chain) i []) = Inr True
         | None \<Rightarrow> evaluateWithRules f chain grants rules bound \<or>
                    navigation \<noteq> [] \<and> navigation = ruleNavigationReach op chain rules grants))"
    then have "bound' = bound" using emptyCellCheck_Next [OF assms(5)] by auto
    with * assms(2) gp show ?thesis unfolding tenantAuthority_def by blast
  qed
qed

lemma tenantDecision_Next:
  assumes "tenantDecision reg R tok caller op spec chain key targetRule = Next p"
  shows "p_kind p = kindTenant \<and> p_op p = op \<and> p_chain p = chain \<and> p_tok p = tok \<and>
    tenantAuthority R caller op (spec_formula spec) chain targetRule (p_key p) (p_navigation p) \<and>
    \<not> assuranceInadequate reg caller op \<and>
    machineRevealWithdrawn R caller (spec_formula spec) chain = Inr False"
proof -
  from assms obtain gp grants marker held0 bound navigation bound' where
    steps: "grantPrincipalFor R caller op chain = Next gp" "q_Grants R gp = Inr (grants, marker)"
      "initialHeld R caller op (spec_formula spec) chain gp grants = Next held0"
      "consultRules R caller op (spec_formula spec) chain key targetRule grants held0 = Next (True, bound, navigation)"
      "emptyCellCheck R caller op chain key bound = Next bound'"
    and closing: "closingChecks reg R tok caller op spec chain
        (selfConfigProfile (id_Class caller) op chain grants marker) bound' navigation = Next p"
    unfolding tenantDecision_def by (auto split: prod.split_asm)
  from closing steps_authority [OF steps] show ?thesis by (auto simp: closingChecks_def mkProof_def)
qed

lemma tenantDecision_Deny:
  assumes "tenantDecision reg R tok caller op spec chain key targetRule = Deny e"
  shows "e = ErrNotFound \<or>
    e = ErrUnauthorized \<and> (\<exists>b n. tenantAuthority R caller op (spec_formula spec) chain targetRule b n)"
proof (cases "e = ErrNotFound")
  case False
  with assms obtain gp grants marker held0 bound navigation bound' where
    steps: "grantPrincipalFor R caller op chain = Next gp" "q_Grants R gp = Inr (grants, marker)"
      "initialHeld R caller op (spec_formula spec) chain gp grants = Next held0"
      "consultRules R caller op (spec_formula spec) chain key targetRule grants held0 = Next (True, bound, navigation)"
      "emptyCellCheck R caller op chain key bound = Next bound'"
    and "e = ErrUnauthorized"
    unfolding tenantDecision_def
    by (auto split: prod.split_asm dest: grantPrincipalFor_Deny consultRules_Deny emptyCellCheck_Deny
        envDeleteCheck_Deny simp: initialHeld_Deny closingChecks_def)
  with steps_authority [OF steps] show ?thesis by blast
qed simp

lemma authorizeTenant_Inr:
  assumes "authorizeTenant reg R tok caller op spec scope key targetRule a = (Inr p, a')"
  shows "a' = a \<and> Scope_Level scope = Inr (spec_level spec) \<and>
    (\<exists>chain. ResolveChain R scope = Inr chain \<and>
      tenantDecision reg R tok caller op spec chain key targetRule = Next p)"
  using assms unfolding authorizeTenant_def
  by (auto split: sum.splits if_splits step.splits)

lemma authorizeInstance_Inr:
  assumes "authorizeInstance reg R tok caller op spec a = (Inr p, a')"
  shows "p_kind p = kindInstance \<and> p_op p = op \<and> p_tok p = tok \<and> \<not> assuranceInadequate reg caller op \<and>
    (\<exists>grants m. q_Grants R (id_Principal caller) = Inr (grants, m) \<and> evaluate (spec_formula spec) zeroScope grants)"
  using assms unfolding authorizeInstance_def Let_def
  by (auto split: if_splits sum.splits simp: mkProof_def)

lemma Authorize_facts:
  assumes surface: "resolution_surface R"
    and minted: "Authorize reg R admits network tok caller op scope a = (Inr p, a')"
  shows "\<exists>spec. reg op = Some spec \<and> p_op p = op \<and> p_tok p = tok \<and> \<not> assuranceInadequate reg caller op \<and>
    (p_kind p = kindTenant \<and> p_chain p = scope \<and> Scope_Level scope = Inr (spec_level spec) \<and>
       tenantAuthority R caller op (spec_formula spec) scope None (p_key p) (p_navigation p) \<or>
     p_kind p = kindInstance \<and> scope = zeroScope \<and>
       (\<exists>grants m. q_Grants R (id_Principal caller) = Inr (grants, m) \<and>
          evaluate (spec_formula spec) zeroScope grants))"
proof -
  from minted obtain spec a1 where spec: "reg op = Some spec"
    and run: "spec_class spec = ClassTenant \<and> authorizeTenant reg R tok caller op spec scope None None a1 = (Inr p, a') \<or>
      spec_class spec = ClassInstance \<and> scope = zeroScope \<and> authorizeInstance reg R tok caller op spec a1 = (Inr p, a')"
    by (auto simp: Authorize_def Let_def split: option.splits if_splits OpClass.splits)
  from run show ?thesis
  proof (elim disjE conjE)
    assume "authorizeTenant reg R tok caller op spec scope None None a1 = (Inr p, a')"
    from authorizeTenant_Inr [OF this] obtain chain where chain: "ResolveChain R scope = Inr chain"
      and level: "Scope_Level scope = Inr (spec_level spec)"
      and dec: "tenantDecision reg R tok caller op spec chain None None = Next p" by blast
    have "chain = scope" by (rule resolution_surface.ResolveChain_same [OF surface chain])
    with spec level tenantDecision_Next [OF dec] show ?thesis by simp
  next
    assume "scope = zeroScope" "authorizeInstance reg R tok caller op spec a1 = (Inr p, a')"
    with spec authorizeInstance_Inr [of reg R tok caller op spec a1 p a'] show ?thesis by simp
  qed
qed




section \<open>Refusals\<close>

lemma captureDenial_denials:
  "\<exists>d. tx_denials (captureDenial a w op spec res chain claimed) = tx_denials a @ [d] \<and>
    d_Op d = op \<and> d_Principal d = w \<and> d_Resolution d = res \<and>
    (if res = resolutionResolvable \<and> chain \<noteq> zeroScope
     then d_Trail d = TrailTenant \<and> d_Scope d = chain else d_Trail d = TrailInstance \<and> d_Scope d = zeroScope)"
  by (simp add: captureDenial_def Let_def)



text \<open>
  C27. A developer credential is confined. A tenant proof minted for a developer identity is for
  delivery of exactly the credential's environment, that environment is not protected, and the
  human authority behind the credential currently holds read and reveal over the whole of it
  (a rule narrowed to some keys does not suffice).
\<close>

theorem developer_confined:
  assumes surface: "resolution_surface R"
    and minted: "Authorize reg R admits network tok caller op scope a = (Inr p, a')"
    and dev: "id_Class caller = ClassDeveloper" and tenant: "p_kind p = kindTenant"
  shows "op = OpDeliveryFetch \<and> p_chain p = id_DeveloperScope caller \<and>
    q_EnvironmentProtected R (s_Env (p_chain p)) = Inr False \<and>
    (\<exists>grants m rules. q_Grants R (id_AuthorityPrincipal caller) = Inr (grants, m) \<and>
       q_Rules R (id_AuthorityPrincipal caller) = Inr rules \<and>
       developerEnvironmentAuthority (p_chain p) grants rules)"
proof -
  from minted dev have op: "op = OpDeliveryFetch" "scope = id_DeveloperScope caller"
    by (auto simp: Authorize_def Let_def split: option.splits if_splits)
  from minted tenant obtain spec a1 where
    run: "authorizeTenant reg R tok caller op spec scope None None a1 = (Inr p, a')"
    by (auto simp: Authorize_def Let_def split: option.splits if_splits OpClass.splits dest: authorizeInstance_Inr)
  from authorizeTenant_Inr [OF run] obtain chain where chain: "ResolveChain R scope = Inr chain"
    and dec: "tenantDecision reg R tok caller op spec chain None None = Next p" by blast
  have c: "chain = scope" by (rule resolution_surface.ResolveChain_same [OF surface chain])
  from dec dev have "q_EnvironmentProtected R (s_Env scope) = Inr False"
    and "\<exists>grants m rules. q_Grants R (id_AuthorityPrincipal caller) = Inr (grants, m) \<and>
       q_Rules R (id_AuthorityPrincipal caller) = Inr rules \<and> developerEnvironmentAuthority scope grants rules"
    unfolding tenantDecision_def c
    by (auto simp: grantPrincipalFor_def initialHeld_def consultRules_def rulesApply_def split: if_splits prod.split_asm)
  with op tenantDecision_Next [OF dec] c show ?thesis by simp
qed

theorem developer_confined_witness:
  "\<exists>p a. Authorize exampleRegistry (dbResolver exampleDB 0) (\<lambda>_. False) True 7
      (exampleCaller ''dev1'' ClassDeveloper []) OpDeliveryFetch (mkScope ''org'' ''web'' ''dev'') freshAuthorizer = (Inr p, a) \<and>
    q_EnvironmentProtected (dbResolver exampleDB 0) (s_Env (p_chain p)) = Inr False"
proof -
  let ?run = "Authorize exampleRegistry (dbResolver exampleDB 0) (\<lambda>_. False) True 7
      (exampleCaller ''dev1'' ClassDeveloper []) OpDeliveryFetch (mkScope ''org'' ''web'' ''dev'') freshAuthorizer"
  have "isOk (fst ?run)" "p_kind (projr (fst ?run)) = kindTenant" by code_simp+
  then obtain p a where run: "?run = (Inr p, a)" "p_kind p = kindTenant"
    by (metis isOk_iff prod.collapse sum.sel(2))
  have "id_Class (exampleCaller ''dev1'' ClassDeveloper []) = ClassDeveloper" by code_simp
  with developer_confined [OF db.resolution_surface_axioms run(1) _ run(2)] run(1) show ?thesis by auto
qed


section \<open>Publishing a set of keys\<close>

lemma AuthorizeKey_Inr:
  assumes "AuthorizeKey reg R admits network tok caller op scope key a = (Inr p, a')"
    and "id_Class caller \<noteq> ClassInstanceConn"
  shows "\<exists>spec. reg op = Some spec \<and>
    authorizeTenant reg R tok caller op spec scope (Some key) None a = (Inr p, a')"
  using assms by (auto simp: AuthorizeKey_def split: option.splits if_splits)

lemma publishLoop_Inr:
  "publishLoop reg R admits network tok caller scope first ids a = (Inr r, a') \<Longrightarrow>
    (\<forall>i \<in> set ids. \<exists>a1 q a2. AuthorizeKey reg R admits network tok caller OpValuePublish scope (KeyByID i) a1 = (Inr q, a2)) \<and>
    (first = None \<longrightarrow> ids \<noteq> [] \<longrightarrow>
      (\<exists>q a1 a2. r = Some q \<and>
         AuthorizeKey reg R admits network tok caller OpValuePublish scope (KeyByID (hd ids)) a1 = (Inr q, a2))) \<and>
    (first \<noteq> None \<longrightarrow> r = first)"
proof (induction ids arbitrary: first a)
  case (Cons i ids)
  then obtain q a2 where q: "AuthorizeKey reg R admits network tok caller OpValuePublish scope (KeyByID i) a = (Inr q, a2)"
    and rest: "publishLoop reg R admits network tok caller scope (case first of None \<Rightarrow> Some q | Some x \<Rightarrow> Some x) ids a2 = (Inr r, a')"
    by (auto split: prod.splits sum.splits)
  from Cons.IH [OF rest] q show ?case by (cases first) auto
qed simp

text \<open>
  A collection publish proof covers exactly the keys it was asked for, each of them proved:
  the store's per-key check passes for a key exactly when it was in the request, and for every
  requested key the caller holds publish on the environment, by grants or by rules for that key.
\<close>

theorem publish_keys_bound:
  assumes surface: "resolution_surface R" and human: "id_Class caller \<noteq> ClassInstanceConn"
    and minted: "AuthorizePublishKeys reg R admits network tok caller scope ids a = (Inr p, a')"
  shows "(\<forall>i. PublishKeyAllowed (Some p) i = (i \<in> set ids)) \<and> p_op p = OpValuePublish \<and> p_chain p = scope \<and>
    (\<exists>spec. reg OpValuePublish = Some spec \<and>
      (\<forall>i \<in> set ids. \<exists>b n. tenantAuthority R caller OpValuePublish (spec_formula spec) scope None b n))"
proof -
  from minted have ids: "ids \<noteq> []" by (auto simp: AuthorizePublishKeys_def)
  with minted obtain q where
    loop: "publishLoop reg R admits network tok caller scope None ids a = (Inr (Some q), a')"
    and p: "p = q\<lparr>p_key := None, p_publishKeys := Some ids\<rparr>"
    by (auto simp: AuthorizePublishKeys_def split: prod.splits sum.splits option.splits)
  have one: "\<exists>spec. reg OpValuePublish = Some spec \<and> p_op x = OpValuePublish \<and> p_chain x = scope \<and>
      (\<exists>b n. tenantAuthority R caller OpValuePublish (spec_formula spec) scope None b n)"
    if key: "AuthorizeKey reg R admits network tok caller OpValuePublish scope (KeyByID i) a1 = (Inr x, a2)" for i a1 x a2
  proof -
    from AuthorizeKey_Inr [OF key human] obtain spec where spec: "reg OpValuePublish = Some spec"
      and run: "authorizeTenant reg R tok caller OpValuePublish spec scope (Some (KeyByID i)) None a1 = (Inr x, a2)" by blast
    from authorizeTenant_Inr [OF run] obtain chain where chain: "ResolveChain R scope = Inr chain"
      and dec: "tenantDecision reg R tok caller OpValuePublish spec chain (Some (KeyByID i)) None = Next x" by blast
    from tenantDecision_Next [OF dec] resolution_surface.ResolveChain_same [OF surface chain] spec
    show ?thesis by auto
  qed
  from publishLoop_Inr [OF loop] ids one p show ?thesis
    by (fastforce simp: PublishKeyAllowed_def)
qed

theorem publish_keys_bound_witness:
  "\<exists>p a. AuthorizePublishKeys exampleRegistry (dbResolver exampleDB 0) (\<lambda>_. False) True 7
      (exampleCaller ''alice'' ClassHuman [''password'']) (mkScope ''org'' ''web'' ''dev'') [''k1'', ''k2''] freshAuthorizer = (Inr p, a) \<and>
    PublishKeyAllowed (Some p) ''k2'' \<and> \<not> PublishKeyAllowed (Some p) ''k3''"
proof -
  let ?run = "AuthorizePublishKeys exampleRegistry (dbResolver exampleDB 0) (\<lambda>_. False) True 7
      (exampleCaller ''alice'' ClassHuman [''password'']) (mkScope ''org'' ''web'' ''dev'') [''k1'', ''k2''] freshAuthorizer"
  have "isOk (fst ?run)" by code_simp
  then obtain p a where run: "?run = (Inr p, a)" by (metis isOk_iff prod.collapse)
  have "id_Class (exampleCaller ''alice'' ClassHuman [''password'']) \<noteq> ClassInstanceConn" by code_simp
  from publish_keys_bound [OF db.resolution_surface_axioms this run] run show ?thesis by simp
qed


section \<open>Proofs live and die with their transaction\<close>

text \<open>
  The token state as steps: a transaction begins with a token never used before, mints proofs
  while it is live, and ends. The store boundary is consulted in any state.
\<close>

record TxWorld =
  wd_next :: nat
  wd_live :: "nat set"
  wd_proofs :: "Proof set"

inductive tx_step :: "Registry \<Rightarrow> TxWorld \<Rightarrow> TxWorld \<Rightarrow> bool" for reg where
  NewTxToken: "tx_step reg w (w\<lparr>wd_next := Suc (wd_next w), wd_live := insert (wd_next w) (wd_live w)\<rparr>)"
| Mint: "tok \<in> wd_live w \<Longrightarrow> resolution_surface R \<Longrightarrow>
    Authorize reg R admits network tok caller op scope a = (Inr p, a') \<Longrightarrow>
    tx_step reg w (w\<lparr>wd_proofs := insert p (wd_proofs w)\<rparr>)"
| Invalidate: "tx_step reg w (w\<lparr>wd_live := wd_live w - {tok}\<rparr>)"

inductive_cases tx_stepE: "tx_step reg w w'"

definition initialWorld :: TxWorld where
  "initialWorld = \<lparr>wd_next = 0, wd_live = {}, wd_proofs = {}\<rparr>"

definition tx_inv :: "Registry \<Rightarrow> TxWorld \<Rightarrow> bool" where
  "tx_inv reg w \<longleftrightarrow> wd_live w \<subseteq> {..<wd_next w} \<and>
    (\<forall>p \<in> wd_proofs w. p_tok p < wd_next w \<and>
      (\<exists>R caller op scope admits network a a'. resolution_surface R \<and>
         Authorize reg R admits network (p_tok p) caller op scope a = (Inr p, a')))"

lemma Authorize_tok: "Authorize reg R admits network tok caller op scope a = (Inr p, a') \<Longrightarrow> p_tok p = tok"
  by (auto simp: Authorize_def Let_def split: option.splits if_splits OpClass.splits
      dest!: authorizeTenant_Inr authorizeInstance_Inr tenantDecision_Next)

lemma tx_inv_step: "tx_inv reg w \<Longrightarrow> tx_step reg w w' \<Longrightarrow> tx_inv reg w'"
proof (erule tx_stepE, goal_cases)
  case 1
  then show ?case by (auto simp: tx_inv_def)
next
  case (2 tok R admits network caller op scope a p a')
  moreover have "p_tok p = tok" using 2 Authorize_tok by blast
  ultimately show ?case by (auto simp: tx_inv_def) blast+
next
  case 3
  then show ?case by (auto simp: tx_inv_def)
qed

lemma tx_inv_reachable: "(tx_step reg)\<^sup>*\<^sup>* initialWorld w \<Longrightarrow> tx_inv reg w"
proof (induction rule: rtranclp_induct)
  case base
  show ?case by (simp add: tx_inv_def initialWorld_def)
next
  case (step y z)
  then show ?case using tx_inv_step by blast
qed

lemma dead_stays_dead:
  "(tx_step reg)\<^sup>*\<^sup>* w w' \<Longrightarrow> t < wd_next w \<Longrightarrow> t \<notin> wd_live w \<Longrightarrow> t < wd_next w' \<and> t \<notin> wd_live w'"
  by (induction rule: rtranclp_induct) (auto elim!: tx_stepE)

text \<open>
  C2. A store call that passes the boundary check acts on an authorization of its own
  transaction. In every reachable state of the token machine, if a proof is accepted for a
  store operation then its transaction is still live, it was minted by \<open>Authorize\<close> in that
  transaction for an operation that permits the store operation, and once the transaction has
  ended no later state accepts it again.
\<close>

theorem store_call_authorized:
  assumes reach: "(tx_step reg)\<^sup>*\<^sup>* initialWorld w"
    and minted: "p \<in> wd_proofs w"
    and ok: "verifyProof permits sites (\<lambda>t. t \<in> wd_live w) (Some p) storeOp (Some tok) = Inr c"
    and later: "(tx_step reg)\<^sup>*\<^sup>* (w\<lparr>wd_live := wd_live w - {tok}\<rparr>) w'"
  shows "c = p \<and> tok \<in> wd_live w \<and> permits (p_op p) storeOp \<and>
    (\<exists>R caller scope admits network a a'. resolution_surface R \<and>
       Authorize reg R admits network tok caller (p_op p) scope a = (Inr p, a')) \<and>
    (\<forall>tok'. \<not> isOk (verifyProof permits sites (\<lambda>t. t \<in> wd_live w') (Some p) storeOp tok'))"
proof -
  from ok have tok: "c = p" "p_tok p = tok" "tok \<in> wd_live w" "p_kind p \<noteq> kindSystem \<Longrightarrow> permits (p_op p) storeOp"
    by (auto simp: verifyProof_def split: if_splits)
  from tx_inv_reachable [OF reach] minted obtain R caller op scope admits network a a' where
    t: "p_tok p < wd_next w" and R: "resolution_surface R"
    and auth: "Authorize reg R admits network (p_tok p) caller op scope a = (Inr p, a')"
    by (auto simp: tx_inv_def)
  from Authorize_facts [OF R auth] have "p_op p = op" "p_kind p \<noteq> kindSystem" by auto
  moreover have "p_tok p \<notin> wd_live w'"
    using dead_stays_dead [OF later, of "p_tok p"] t tok(2) by simp
  then have "\<not> isOk (verifyProof permits sites (\<lambda>t. t \<in> wd_live w') (Some p) storeOp tok')" for tok'
    by (auto simp: verifyProof_def split: option.splits)
  ultimately show ?thesis using tok R auth by blast
qed

theorem store_call_authorized_witness:
  "\<exists>w p. (tx_step exampleRegistry)\<^sup>*\<^sup>* initialWorld w \<and> p \<in> wd_proofs w \<and>
    verifyProof (\<lambda>_ _. True) (\<lambda>_ _. False) (\<lambda>t. t \<in> wd_live w) (Some p) ''values.get'' (Some 0) = Inr p \<and>
    \<not> isOk (verifyProof (\<lambda>_ _. True) (\<lambda>_ _. False) (\<lambda>t. t \<in> wd_live w - {0}) (Some p) ''values.get'' (Some 0))"
proof -
  let ?run = "Authorize exampleRegistry (dbResolver exampleDB 0) (\<lambda>_. False) True 0
      (exampleCaller ''alice'' ClassHuman [''password'', ''totp'']) ''value.reveal'' (mkScope ''org'' ''web'' ''dev'')
      freshAuthorizer"
  have "isOk (fst ?run)" "p_kind (projr (fst ?run)) = kindTenant" by code_simp+
  then obtain p a where run: "?run = (Inr p, a)" "p_kind p = kindTenant" by (metis isOk_iff prod.collapse sum.sel(2))
  let ?w1 = "initialWorld\<lparr>wd_next := Suc (wd_next initialWorld), wd_live := insert (wd_next initialWorld) (wd_live initialWorld)\<rparr>"
  let ?w2 = "?w1\<lparr>wd_proofs := insert p (wd_proofs ?w1)\<rparr>"
  have "0 \<in> wd_live ?w1" by (simp add: initialWorld_def)
  from tx_step.Mint [OF this db.resolution_surface_axioms run(1)] have "tx_step exampleRegistry ?w1 ?w2" .
  with tx_step.NewTxToken [of exampleRegistry initialWorld]
  have reach: "(tx_step exampleRegistry)\<^sup>*\<^sup>* initialWorld ?w2" by (meson converse_rtranclp_into_rtranclp r_into_rtranclp)
  have "p_tok p = 0" by (rule Authorize_tok [OF run(1)])
  then have ok: "verifyProof (\<lambda>_ _. True) (\<lambda>_ _. False) (\<lambda>t. t \<in> wd_live ?w2) (Some p) ''values.get'' (Some 0) = Inr p"
    using run(2) by (simp add: verifyProof_def initialWorld_def)
  have p: "p \<in> wd_proofs ?w2" by simp
  from store_call_authorized [OF reach p ok rtranclp.rtrancl_refl] reach ok p show ?thesis by force
qed

end
