(* ===== verification/FreeText.thy ===== *)
theory FreeText
  imports Prelude "HOL-Library.Sublist"
begin

text \<open>
  Free-text hygiene (\<^verbatim>\<open>internal/freetext/sanitize.go\<close>): every caller-originated string
  that lands in a durable record is made valid UTF-8, stripped of control characters, passed
  through the token redaction filter and bounded. A Go string is a byte sequence, here a list
  of \<^typ>\<open>char\<close> read as bytes. The parts of the Go library the file uses are spelled out:
  the UTF-8 decoder, \<^verbatim>\<open>strings.ToValidUTF8\<close>, \<^verbatim>\<open>strings.Map\<close> and the leftmost matches
  of the token expression. The results: sanitizing always produces a bounded text without
  control characters in which no substring matches the token grammar, and sanitizing twice
  changes nothing, which is what the re-check at the write boundary relies on.
\<close>

section \<open>Bytes and UTF-8\<close>

abbreviation byte :: "char \<Rightarrow> nat" where "byte c \<equiv> of_char c"

text \<open>\<^verbatim>\<open>utf8.RuneStart\<close>: not a continuation byte \<^verbatim>\<open>10xxxxxx\<close>.\<close>

definition RuneStart :: "char \<Rightarrow> bool" where
  "RuneStart c \<longleftrightarrow> \<not> (128 \<le> byte c \<and> byte c < 192)"

text \<open>
  The second-byte range of a leading byte and the length of its sequence, as the decoder's
  \<^verbatim>\<open>first\<close> and \<^verbatim>\<open>acceptRanges\<close> tables give them (no overlong forms, no surrogates, nothing
  above U+10FFFF).
\<close>

definition secondByte :: "nat \<Rightarrow> (nat \<times> nat \<times> nat) option" where
  "secondByte b =
    (if 194 \<le> b \<and> b \<le> 223 then Some (2, 128, 191)
     else if b = 224 then Some (3, 160, 191)
     else if b = 237 then Some (3, 128, 159)
     else if 225 \<le> b \<and> b \<le> 239 then Some (3, 128, 191)
     else if b = 240 then Some (4, 144, 191)
     else if 241 \<le> b \<and> b \<le> 243 then Some (4, 128, 191)
     else if b = 244 then Some (4, 128, 143)
     else None)"

text \<open>
  The width of the rune at the start of a non-empty text; \<open>None\<close> is the decoder's
  \<^verbatim>\<open>(RuneError, 1)\<close>.
\<close>

fun runeWidth :: "string \<Rightarrow> nat option" where
  "runeWidth [] = None"
| "runeWidth (c # cs) =
    (if byte c < 128 then Some 1
     else case secondByte (byte c) of
       None \<Rightarrow> None
     | Some (w, lo, hi) \<Rightarrow>
         (if w \<le> Suc (length cs) \<and> lo \<le> byte (cs ! 0) \<and> byte (cs ! 0) \<le> hi \<and>
             list_all (\<lambda>d. \<not> RuneStart d) (take (w - 2) (tl cs))
          then Some w else None))"

text \<open>The bytes of U+FFFD.\<close>

definition RuneErrorBytes :: string where
  "RuneErrorBytes = [char_of (239 :: nat), char_of (191 :: nat), char_of (189 :: nat)]"

lemma secondByte_facts:
  "secondByte b = Some (w, lo, hi) \<Longrightarrow> 2 \<le> w \<and> w \<le> 4 \<and> 128 \<le> lo \<and> hi < 192 \<and> 194 \<le> b"
  by (auto simp: secondByte_def split: if_splits)

lemma runeWidth_pos: "runeWidth s = Some w \<Longrightarrow> 0 < w \<and> w \<le> length s"
  by (cases s) (auto split: if_splits option.splits dest: secondByte_facts)

declare runeWidth.simps(2) [simp del]

text \<open>\<^verbatim>\<open>strings.ToValidUTF8(s, "\<^bold>U+FFFD")\<close>: a run of invalid bytes becomes one replacement.\<close>

function toValidFrom :: "bool \<Rightarrow> string \<Rightarrow> string" where
  "toValidFrom invalid [] = []"
| "toValidFrom invalid (c # cs) =
    (case runeWidth (c # cs) of
       None \<Rightarrow> (if invalid then [] else RuneErrorBytes) @ toValidFrom True cs
     | Some w \<Rightarrow> take w (c # cs) @ toValidFrom False (drop w (c # cs)))"
  by pat_completeness auto
termination
  by (relation "measure (\<lambda>(_, s). length s)") (auto dest: runeWidth_pos)

definition ToValidUTF8 :: "string \<Rightarrow> string" where
  "ToValidUTF8 = toValidFrom False"

text \<open>\<^verbatim>\<open>strings.Map\<close> with the function that drops control characters.\<close>

definition isControl :: "char \<Rightarrow> bool" where
  "isControl c \<longleftrightarrow> byte c < 32 \<or> byte c = 127"

function dropControls :: "string \<Rightarrow> string" where
  "dropControls [] = []"
| "dropControls (c # cs) =
    (case runeWidth (c # cs) of
       None \<Rightarrow> RuneErrorBytes @ dropControls cs
     | Some w \<Rightarrow> (if isControl c then [] else take w (c # cs)) @ dropControls (drop w (c # cs)))"
  by pat_completeness auto
termination
  by (relation "measure length") (auto dest: runeWidth_pos)


section \<open>The token grammar\<close>

text \<open>
  \<^verbatim>\<open>(?:hik|ew)_[0-9A-Za-z]{1,8}_[a-z]{2,8}_[0-9A-Za-z]{16,}\<close>. The underscore is in none of
  the classes, so each repetition is the whole run of its class; the last one is greedy.
\<close>

definition isLower :: "char \<Rightarrow> bool" where
  "isLower c \<longleftrightarrow> 97 \<le> byte c \<and> byte c \<le> 122"

definition isAlnum :: "char \<Rightarrow> bool" where
  "isAlnum c \<longleftrightarrow> is_digit c \<or> (65 \<le> byte c \<and> byte c \<le> 90) \<or> isLower c"

definition stripPrefix :: "string \<Rightarrow> string \<Rightarrow> string option" where
  "stripPrefix p s = (if take (length p) s = p then Some (drop (length p) s) else None)"

text \<open>A run of a class of bounded length, up to an underscore; what follows it.\<close>

definition classRun :: "(char \<Rightarrow> bool) \<Rightarrow> nat \<Rightarrow> nat \<Rightarrow> string \<Rightarrow> string option" where
  "classRun P lo hi s =
    (let n = length (takeWhile P s) in
     if lo \<le> n \<and> n \<le> hi then stripPrefix ''_'' (drop n s) else None)"

definition tokenHead :: "string \<Rightarrow> string option" where
  "tokenHead s = (case stripPrefix ''hik_'' s of Some r \<Rightarrow> Some r | None \<Rightarrow> stripPrefix ''ew_'' s)"

text \<open>The text after the match that starts here, if one does.\<close>

definition tokenTail :: "string \<Rightarrow> string option" where
  "tokenTail s =
    (case tokenHead s of
       None \<Rightarrow> None
     | Some r1 \<Rightarrow> (case classRun isAlnum 1 8 r1 of
         None \<Rightarrow> None
       | Some r2 \<Rightarrow> (case classRun isLower 2 8 r2 of
           None \<Rightarrow> None
         | Some r3 \<Rightarrow> (if 16 \<le> length (takeWhile isAlnum r3) then Some (dropWhile isAlnum r3) else None))))"

definition RedactionMarker :: string where
  "RedactionMarker = ''[REDACTED:hikyo-token]''"

lemma stripPrefix_Some [simp]: "stripPrefix p s = Some r \<longleftrightarrow> s = p @ r"
  by (auto simp: stripPrefix_def) (metis append_take_drop_id)

text \<open>The grammar itself, as a set of texts.\<close>

definition tokenGrammar :: "string \<Rightarrow> bool" where
  "tokenGrammar t \<longleftrightarrow> (\<exists>p v y b. t = p @ ''_'' @ v @ ''_'' @ y @ ''_'' @ b \<and> p \<in> {''hik'', ''ew''} \<and>
     list_all isAlnum v \<and> 1 \<le> length v \<and> length v \<le> 8 \<and>
     list_all isLower y \<and> 2 \<le> length y \<and> length y \<le> 8 \<and> list_all isAlnum b \<and> 16 \<le> length b)"

definition isWord :: "char \<Rightarrow> bool" where
  "isWord c \<longleftrightarrow> isAlnum c \<or> c = CHR ''_''"

lemma underscore_class [simp]: "\<not> isAlnum CHR ''_''" "\<not> isLower CHR ''_''"
  by (simp_all add: isAlnum_def isLower_def is_digit_def)

lemma isLower_isAlnum: "isLower c \<Longrightarrow> isAlnum c"
  by (simp add: isAlnum_def)

lemma classRun_Some:
  assumes "classRun P lo hi s = Some r"
  shows "\<exists>u. s = u @ ''_'' @ r \<and> list_all P u \<and> lo \<le> length u \<and> length u \<le> hi"
proof -
  from assms have "dropWhile P s = ''_'' @ r"
    and len: "lo \<le> length (takeWhile P s)" "length (takeWhile P s) \<le> hi"
    by (auto simp: classRun_def Let_def dropWhile_eq_drop split: if_splits)
  then have "s = takeWhile P s @ ''_'' @ r"
    using takeWhile_dropWhile_id [of P s] by simp
  moreover have "list_all P (takeWhile P s)"
    by (auto simp: list_all_iff dest: set_takeWhileD)
  ultimately show ?thesis using len by blast
qed

lemma classRun_append:
  assumes "list_all P u" "lo \<le> length u" "length u \<le> hi" "\<not> P CHR ''_''"
  shows "classRun P lo hi (u @ ''_'' @ r) = Some r"
proof -
  from assms(1,4) have "takeWhile P (u @ ''_'' @ r) = u"
    by (simp add: list_all_iff takeWhile_append)
  with assms(2,3) show ?thesis by (simp add: classRun_def Let_def)
qed

lemma tokenHead_Some: "tokenHead s = Some r \<Longrightarrow> \<exists>p. p \<in> {''hik'', ''ew''} \<and> s = p @ ''_'' @ r"
  by (auto simp: tokenHead_def split: option.splits)

lemma tokenTail_Some:
  assumes "tokenTail s = Some r"
  shows "\<exists>t. s = t @ r \<and> tokenGrammar t"
proof -
  from assms obtain r1 r2 r3 where r1: "tokenHead s = Some r1"
    and r2: "classRun isAlnum 1 8 r1 = Some r2" and r3: "classRun isLower 2 8 r2 = Some r3"
    and b: "16 \<le> length (takeWhile isAlnum r3)" "r = dropWhile isAlnum r3"
    by (auto simp: tokenTail_def split: option.splits if_splits)
  from tokenHead_Some [OF r1] obtain p where p: "p \<in> {''hik'', ''ew''}" "s = p @ ''_'' @ r1" by blast
  from classRun_Some [OF r2] obtain v where v: "r1 = v @ ''_'' @ r2" "list_all isAlnum v"
    "1 \<le> length v" "length v \<le> 8" by blast
  from classRun_Some [OF r3] obtain y where y: "r2 = y @ ''_'' @ r3" "list_all isLower y"
    "2 \<le> length y" "length y \<le> 8" by blast
  let ?b = "takeWhile isAlnum r3"
  have "s = (p @ ''_'' @ v @ ''_'' @ y @ ''_'' @ ?b) @ r"
    using p v(1) y(1) b(2) by simp
  moreover have "tokenGrammar (p @ ''_'' @ v @ ''_'' @ y @ ''_'' @ ?b)"
    unfolding tokenGrammar_def
    by (rule exI [of _ p], rule exI [of _ v], rule exI [of _ y], rule exI [of _ ?b])
       (use p v y b in \<open>auto simp: list_all_iff dest: set_takeWhileD\<close>)
  ultimately show ?thesis by blast
qed

lemma tokenTail_complete:
  assumes "tokenGrammar t"
  shows "tokenTail (t @ u) \<noteq> None"
proof -
  from assms obtain p v y b where t: "t = p @ ''_'' @ v @ ''_'' @ y @ ''_'' @ b"
    and p: "p \<in> {''hik'', ''ew''}" and v: "list_all isAlnum v" "1 \<le> length v" "length v \<le> 8"
    and y: "list_all isLower y" "2 \<le> length y" "length y \<le> 8" and b: "list_all isAlnum b" "16 \<le> length b"
    unfolding tokenGrammar_def by blast
  let ?r3 = "b @ u" let ?r2 = "y @ ''_'' @ ?r3" let ?r1 = "v @ ''_'' @ ?r2"
  have "classRun isAlnum 1 8 ?r1 = Some ?r2" "classRun isLower 2 8 ?r2 = Some ?r3"
    using classRun_append v y by simp_all
  moreover have "16 \<le> length (takeWhile isAlnum ?r3)"
    using b by (simp add: list_all_iff takeWhile_append)
  moreover have "tokenHead (t @ u) = Some ?r1"
    using p t by (auto simp: tokenHead_def stripPrefix_def)
  ultimately show ?thesis by (simp add: tokenTail_def)
qed

lemma tokenGrammar_facts: "tokenGrammar t \<Longrightarrow> list_all isWord t \<and> 24 \<le> length t"
  by (auto simp: tokenGrammar_def isWord_def list_all_iff isLower_isAlnum)
     (simp_all add: isAlnum_def isLower_def is_digit_def)

lemma tokenTail_None_iff: "tokenTail s = None \<longleftrightarrow> (\<forall>t. prefix t s \<longrightarrow> \<not> tokenGrammar t)"
proof
  assume "tokenTail s = None"
  then show "\<forall>t. prefix t s \<longrightarrow> \<not> tokenGrammar t"
    by (metis prefix_def tokenTail_complete)
next
  assume "\<forall>t. prefix t s \<longrightarrow> \<not> tokenGrammar t"
  then show "tokenTail s = None"
    by (metis not_None_eq prefixI tokenTail_Some)
qed


section \<open>Sanitizing\<close>

text \<open>\<^verbatim>\<open>ReplaceAllString\<close>: leftmost matches, none overlapping.\<close>

lemma tokenTail_shorter: "tokenTail s = Some r \<Longrightarrow> length r < length s"
  using tokenTail_Some [of s r] tokenGrammar_facts by fastforce

function RedactTokens :: "string \<Rightarrow> string" where
  "RedactTokens [] = []"
| "RedactTokens (c # cs) =
    (case tokenTail (c # cs) of
       Some r \<Rightarrow> RedactionMarker @ RedactTokens r
     | None \<Rightarrow> c # RedactTokens cs)"
  by pat_completeness auto
termination
  by (relation "measure length") (auto dest: tokenTail_shorter)

definition FreeTextBound :: nat where
  "FreeTextBound = 1024"

text \<open>\<^verbatim>\<open>for cut > 0 && !utf8.RuneStart(s[cut]) { cut-- }\<close>.\<close>

fun runeCut :: "string \<Rightarrow> nat \<Rightarrow> nat" where
  "runeCut s 0 = 0"
| "runeCut s (Suc n) = (if RuneStart (s ! Suc n) then Suc n else runeCut s n)"

definition SanitizeFreeText :: "string \<Rightarrow> string" where
  "SanitizeFreeText s =
    (let t = RedactTokens (dropControls (ToValidUTF8 s)) in
     if FreeTextBound < length t then take (runeCut t FreeTextBound) t else t)"


section \<open>Valid UTF-8\<close>

function validUTF8 :: "string \<Rightarrow> bool" where
  "validUTF8 [] = True"
| "validUTF8 (c # cs) =
    (case runeWidth (c # cs) of None \<Rightarrow> False | Some w \<Rightarrow> validUTF8 (drop w (c # cs)))"
  by pat_completeness auto
termination
  by (relation "measure length") (auto dest: runeWidth_pos)

declare validUTF8.simps(2) [simp del] toValidFrom.simps(2) [simp del] dropControls.simps(2) [simp del]

lemma runeWidth_nonempty: "runeWidth s = Some w \<Longrightarrow> s \<noteq> []"
  by (cases s) auto

lemma validUTF8_step: "runeWidth s = Some w \<Longrightarrow> validUTF8 s = validUTF8 (drop w s)"
  by (cases s) (simp_all add: validUTF8.simps)

lemma validUTF8_cases:
  "validUTF8 s \<Longrightarrow> s = [] \<or> (\<exists>w. runeWidth s = Some w \<and> validUTF8 (drop w s))"
  by (cases s) (auto simp: validUTF8.simps split: option.splits)

lemma runeWidth_ascii: "byte c < 128 \<Longrightarrow> runeWidth (c # cs) = Some 1"
  by (simp add: runeWidth.simps)

lemma runeWidth_bytes:
  assumes "runeWidth s = Some w" "i < w" "0 < i"
  shows "\<not> RuneStart (s ! i)" "128 \<le> byte (hd s)"
proof -
  from assms obtain c cs lo hi where s: "s = c # cs" and sb: "secondByte (byte c) = Some (w, lo, hi)"
    and c: "\<not> byte c < 128" "w \<le> Suc (length cs)" "lo \<le> byte (cs ! 0)" "byte (cs ! 0) \<le> hi"
    and rest: "list_all (\<lambda>d. \<not> RuneStart d) (take (w - 2) (tl cs))"
    by (cases s) (auto simp: runeWidth.simps split: if_splits option.splits)
  from s c(1) show "128 \<le> byte (hd s)" by simp
  show "\<not> RuneStart (s ! i)"
  proof (cases "i = 1")
    case True
    with s c secondByte_facts [OF sb] show ?thesis by (simp add: RuneStart_def)
  next
    case False
    with assms(2,3) c(2) have i: "i - 2 < w - 2" "i - 2 < length (tl cs)" "s ! i = tl cs ! (i - 2)"
      using s by (auto simp: nth_tl Suc_diff_Suc numeral_2_eq_2)
    with rest show ?thesis by (simp add: list_all_length)
  qed
qed

lemma runeWidth_local:
  assumes "runeWidth s = Some w"
  shows "runeWidth (take w s @ t) = Some w"
proof (cases s)
  case (Cons c cs)
  show ?thesis
  proof (cases "byte c < 128")
    case False
    with assms Cons obtain lo hi where sb: "secondByte (byte c) = Some (w, lo, hi)"
      and c: "w \<le> Suc (length cs)" "lo \<le> byte (cs ! 0)" "byte (cs ! 0) \<le> hi"
      and rest: "list_all (\<lambda>d. \<not> RuneStart d) (take (w - 2) (tl cs))"
      by (auto simp: runeWidth.simps split: if_splits option.splits)
    from secondByte_facts [OF sb] obtain n where w: "w = Suc (Suc n)"
      by (metis Suc_le_D numeral_2_eq_2 Suc_le_mono)
    with c(1) obtain d ds where cs: "cs = d # ds" and ds: "n \<le> length ds"
      by (cases cs) auto
    have "take w s @ t = c # d # take n ds @ t"
      using Cons cs w by simp
    with False sb c rest cs w ds show ?thesis
      by (simp add: runeWidth.simps)
  qed (use assms Cons in \<open>auto simp: runeWidth.simps split: if_splits\<close>)
qed (use assms in simp)

lemma validUTF8_rune: "runeWidth s = Some w \<Longrightarrow> validUTF8 (take w s @ t) = validUTF8 t"
  using validUTF8_step [OF runeWidth_local, of s w t] runeWidth_pos [of s w] by simp

lemma validUTF8_ascii [simp]: "byte c < 128 \<Longrightarrow> validUTF8 (c # cs) = validUTF8 cs"
  using validUTF8_step [OF runeWidth_ascii] by simp

lemma validUTF8_error [simp]: "validUTF8 (RuneErrorBytes @ t) = validUTF8 t"
proof -
  have "runeWidth RuneErrorBytes = Some 3"
    by (simp add: RuneErrorBytes_def runeWidth.simps secondByte_def RuneStart_def)
  from validUTF8_rune [OF this] show ?thesis by (simp add: RuneErrorBytes_def)
qed

lemma validUTF8_asciis: "\<forall>c \<in> set a. byte c < 128 \<Longrightarrow> validUTF8 (a @ t) = validUTF8 t"
  by (induction a) auto

lemma toValid_valid: "validUTF8 (toValidFrom invalid s)"
  by (induction invalid s rule: toValidFrom.induct)
     (auto simp: toValidFrom.simps(2) validUTF8_rune split: option.split)

lemma toValid_id: "validUTF8 s \<Longrightarrow> toValidFrom invalid s = s"
proof (induction invalid s rule: toValidFrom.induct)
  case (2 invalid c cs)
  then show ?case
    by (auto simp: toValidFrom.simps(2) validUTF8.simps(2) split: option.splits)
qed simp

lemma runeBytes_clean:
  assumes "runeWidth s = Some w" "\<not> isControl (hd s)" "d \<in> set (take w s)"
  shows "\<not> isControl d"
proof -
  from assms(3) obtain i where i: "i < w" "i < length s" "d = s ! i"
    by (auto simp: in_set_conv_nth)
  show ?thesis
  proof (cases i)
    case 0
    with i assms(2) show ?thesis by (cases s) auto
  next
    case (Suc j)
    with runeWidth_bytes(1) [OF assms(1) i(1)] i(3) show ?thesis
      by (auto simp: RuneStart_def isControl_def)
  qed
qed

lemma dropControls_clean: "d \<in> set (dropControls s) \<Longrightarrow> \<not> isControl d"
proof (induction s rule: dropControls.induct)
  case (2 c cs)
  have "e \<in> set RuneErrorBytes \<Longrightarrow> \<not> isControl e" for e
    by (auto simp: RuneErrorBytes_def isControl_def)
  with 2 show ?case
    by (auto simp: dropControls.simps(2) split: option.splits if_splits
             dest: runeBytes_clean [of "c # cs", simplified])
qed simp

lemma dropControls_valid: "validUTF8 s \<Longrightarrow> validUTF8 (dropControls s)"
proof (induction s rule: dropControls.induct)
  case (2 c cs)
  then show ?case
    by (auto simp: dropControls.simps(2) validUTF8.simps(2) validUTF8_rune split: option.splits)
qed simp

lemma dropControls_id:
  "validUTF8 s \<Longrightarrow> \<forall>c \<in> set s. \<not> isControl c \<Longrightarrow> dropControls s = s"
proof (induction s rule: dropControls.induct)
  case (2 c cs)
  then obtain w where w: "runeWidth (c # cs) = Some w" "validUTF8 (drop w (c # cs))"
    by (auto simp: validUTF8.simps(2) split: option.splits)
  have "\<forall>d \<in> set (drop w (c # cs)). \<not> isControl d"
    using "2.prems"(2) by (meson in_set_dropD)
  with 2 w show ?case by (simp add: dropControls.simps(2))
qed simp


section \<open>Redaction\<close>

declare RedactTokens.simps(2) [simp del]

definition tokenFree :: "string \<Rightarrow> bool" where
  "tokenFree s \<longleftrightarrow> (\<forall>t. sublist t s \<longrightarrow> \<not> tokenGrammar t)"

lemma tokenFree_Cons: "tokenFree (c # cs) \<longleftrightarrow> tokenTail (c # cs) = None \<and> tokenFree cs"
  by (auto simp: tokenFree_def tokenTail_None_iff sublist_Cons_right)

lemma tokenFree_Nil [simp]: "tokenFree []"
  by (auto simp: tokenFree_def dest: tokenGrammar_facts)

lemma tokenFree_prefix: "tokenFree s \<Longrightarrow> prefix p s \<Longrightarrow> tokenFree p"
  unfolding tokenFree_def by (meson prefix_imp_sublist sublist_order.order_trans)

lemma RedactTokens_id: "tokenFree s \<Longrightarrow> RedactTokens s = s"
  by (induction s) (simp_all add: tokenFree_Cons RedactTokens.simps(2))

text \<open>Up to the first character outside the grammar's alphabet nothing was rewritten.\<close>

lemma RedactTokens_word_prefix: "prefix (takeWhile isWord (RedactTokens s)) s"
proof (induction s rule: RedactTokens.induct)
  case (2 c cs)
  have "\<not> isWord CHR ''[''" by (simp add: isWord_def isAlnum_def isLower_def is_digit_def)
  with 2 show ?case
    by (auto simp: RedactTokens.simps(2) RedactionMarker_def split: option.split)
qed simp

lemma word_prefix:
  assumes "prefix t s" "list_all isWord t"
  shows "prefix t (takeWhile isWord s)"
proof -
  from assms(1) obtain u where "s = t @ u" unfolding prefix_def ..
  with assms(2) show ?thesis by (simp add: list_all_iff takeWhile_append)
qed

lemma tokenFree_marker:
  assumes "tokenFree r" "length m < 24" "m = [] \<or> \<not> isWord (last m)"
  shows "tokenFree (m @ r)"
  using assms(2,3)
proof (induction m)
  case (Cons c m)
  have "\<not> tokenGrammar t" if "prefix t (c # m @ r)" for t
  proof
    assume "tokenGrammar t"
    then have word: "list_all isWord t" and len: "24 \<le> length t"
      using tokenGrammar_facts by blast+
    have "prefix (c # m) (c # m @ r)" by simp
    moreover have "length (c # m) \<le> length t" using len Cons.prems(1) by simp
    ultimately have "prefix (c # m) t"
      by (rule prefix_length_prefix [OF _ that])
    then obtain u where "t = (c # m) @ u" unfolding prefix_def ..
    then have "last (c # m) \<in> set t" using last_in_set [of "c # m"] by auto
    with word have "isWord (last (c # m))" by (auto simp: list_all_iff)
    with Cons.prems(2) show False by simp
  qed
  then have "tokenTail (c # m @ r) = None" by (simp add: tokenTail_None_iff)
  moreover have "tokenFree (m @ r)"
    by (rule Cons.IH) (use Cons.prems in \<open>auto split: if_splits\<close>)
  ultimately show ?case by (simp add: tokenFree_Cons)
qed (use assms(1) in simp)

lemma RedactTokens_tokenFree: "tokenFree (RedactTokens s)"
proof (induction s rule: RedactTokens.induct)
  case (2 c cs)
  show ?case
  proof (cases "tokenTail (c # cs)")
    case None
    have "\<not> tokenGrammar t" if t: "prefix t (c # RedactTokens cs)" for t
    proof
      assume g: "tokenGrammar t"
      then have "list_all isWord t" "24 \<le> length t" using tokenGrammar_facts by blast+
      with t have "prefix t (c # takeWhile isWord (RedactTokens cs))"
        by (cases t) (auto intro: word_prefix)
      then have "prefix t (c # cs)"
        using RedactTokens_word_prefix [of cs] by (meson Cons_prefix_Cons prefix_order.trans)
      with None g show False by (simp add: tokenTail_None_iff)
    qed
    then have "tokenTail (c # RedactTokens cs) = None" by (simp add: tokenTail_None_iff)
    with None 2 show ?thesis
      by (simp add: RedactTokens.simps(2) tokenFree_Cons)
  next
    case (Some r)
    have "\<not> isWord (last RedactionMarker)" "length RedactionMarker < 24"
      by (simp_all add: RedactionMarker_def isWord_def isAlnum_def isLower_def is_digit_def)
    with Some 2 show ?thesis
      by (simp add: RedactTokens.simps(2) tokenFree_marker)
  qed
qed simp

lemma word_ascii: "isWord c \<Longrightarrow> byte c < 128"
  by (auto simp: isWord_def isAlnum_def isLower_def is_digit_def)

lemma marker_bytes: "c \<in> set RedactionMarker \<Longrightarrow> byte c < 128 \<and> \<not> isControl c"
  by (auto simp: RedactionMarker_def isControl_def)

lemma tokenTail_start: "tokenTail s = Some r \<Longrightarrow> \<exists>c cs. s = c # cs \<and> isWord c"
  using tokenTail_Some [of s r] tokenGrammar_facts by (cases s) (fastforce simp: list_all_iff Cons_eq_append_conv)+

text \<open>No match starts inside a multi-byte rune.\<close>

lemma RedactTokens_wide:
  "\<forall>c \<in> set p. 128 \<le> byte c \<Longrightarrow> RedactTokens (p @ s) = p @ RedactTokens s"
proof (induction p)
  case (Cons c p)
  then have "tokenTail (c # p @ s) = None"
    using tokenTail_start [of "c # p @ s"] word_ascii by (cases "tokenTail (c # p @ s)") fastforce+
  with Cons show ?case by (simp add: RedactTokens.simps(2))
qed simp

lemma rune_wide:
  assumes "runeWidth s = Some w" "\<not> byte (hd s) < 128" "c \<in> set (take w s)"
  shows "128 \<le> byte c"
proof -
  from assms(3) obtain i where i: "i < w" "i < length s" "c = s ! i"
    by (auto simp: in_set_conv_nth)
  show ?thesis
  proof (cases i)
    case 0
    with i assms(2) show ?thesis by (cases s) auto
  next
    case (Suc j)
    with runeWidth_bytes(1) [OF assms(1) i(1)] i(3) show ?thesis
      by (auto simp: RuneStart_def)
  qed
qed

lemma RedactTokens_valid: "validUTF8 s \<Longrightarrow> validUTF8 (RedactTokens s)"
proof (induction "length s" arbitrary: s rule: less_induct)
  case less
  show ?case
  proof (cases "tokenTail s")
    case (Some r)
    then obtain t where t: "s = t @ r" "tokenGrammar t" using tokenTail_Some by blast
    then have "validUTF8 r"
      using less.prems validUTF8_asciis [of t r] tokenGrammar_facts word_ascii by (auto simp: list_all_iff)
    moreover have "RedactTokens s = RedactionMarker @ RedactTokens r"
      using Some tokenTail_start [OF Some] by (auto simp: RedactTokens.simps(2))
    ultimately show ?thesis
      using less.hyps [of r] tokenTail_shorter [OF Some] validUTF8_asciis [of RedactionMarker] marker_bytes by simp
  next
    case None
    show ?thesis
    proof (cases s)
      case (Cons c cs)
      then obtain w where w: "runeWidth s = Some w" "validUTF8 (drop w s)"
        using less.prems validUTF8_cases by blast
      then have IH: "validUTF8 (RedactTokens (drop w s))"
        using less.hyps runeWidth_pos Cons by simp
      show ?thesis
      proof (cases "byte c < 128")
        case True
        with Cons w(1) have "w = 1" by (simp add: runeWidth_ascii)
        with True None Cons IH show ?thesis
          by (simp add: RedactTokens.simps(2))
      next
        case False
        then have "RedactTokens (take w s @ drop w s) = take w s @ RedactTokens (drop w s)"
          using rune_wide [OF w(1)] Cons by (intro RedactTokens_wide) auto
        with IH w(1) show ?thesis by (simp add: validUTF8_rune)
      qed
    qed simp
  qed
qed

lemma RedactTokens_set: "set (RedactTokens s) \<subseteq> set s \<union> set RedactionMarker"
proof (induction s rule: RedactTokens.induct)
  case (2 c cs)
  show ?case
  proof (cases "tokenTail (c # cs)")
    case (Some r)
    then obtain t where "c # cs = t @ r" using tokenTail_Some by blast
    then have "set r \<subseteq> set (c # cs)" by simp
    with 2(2) [OF Some] Some show ?thesis by (auto simp: RedactTokens.simps(2))
  qed (use 2 in \<open>auto simp: RedactTokens.simps(2)\<close>)
qed simp

lemma runeCut_bound: "runeCut s n \<le> n"
  by (induction n) auto

lemma runeCut_start: "runeCut s n = 0 \<or> RuneStart (s ! runeCut s n)"
  by (induction n) auto

lemma validUTF8_take:
  "validUTF8 s \<Longrightarrow> n < length s \<Longrightarrow> n = 0 \<or> RuneStart (s ! n) \<Longrightarrow> validUTF8 (take n s)"
proof (induction "length s" arbitrary: s n rule: less_induct)
  case less
  then obtain w where w: "runeWidth s = Some w" "validUTF8 (drop w s)"
    using validUTF8_cases [of s] by force
  show ?case
  proof (cases "n = 0")
    case False
    with less.prems(3) runeWidth_bytes(1) [OF w(1), of n] have "w \<le> n" by force
    then have "take n s = take w s @ take (n - w) (drop w s)"
      by (metis le_add_diff_inverse take_add)
    moreover have "validUTF8 (take (n - w) (drop w s))"
      by (rule less.hyps)
         (use w less.prems False \<open>w \<le> n\<close> runeWidth_pos [OF w(1)] in auto)
    ultimately show ?thesis using validUTF8_rune [OF w(1)] by simp
  qed simp
qed


section \<open>The write boundary\<close>

text \<open>\<^verbatim>\<open>checkSanitized\<close> of \<^verbatim>\<open>internal/audit/sanitize.go\<close> accepts what sanitizing leaves alone.\<close>

definition checkSanitized :: "string \<Rightarrow> bool" where
  "checkSanitized s \<longleftrightarrow> s = SanitizeFreeText s"

text \<open>The texts that need no cleaning.\<close>

definition cleanText :: "string \<Rightarrow> bool" where
  "cleanText s \<longleftrightarrow> validUTF8 s \<and> (\<forall>c \<in> set s. \<not> isControl c) \<and> tokenFree s \<and> length s \<le> FreeTextBound"

lemma cleanText_sanitized: "cleanText s \<Longrightarrow> SanitizeFreeText s = s"
  by (simp add: cleanText_def SanitizeFreeText_def ToValidUTF8_def toValid_id dropControls_id RedactTokens_id)

lemma SanitizeFreeText_clean: "cleanText (SanitizeFreeText s)"
proof -
  let ?u = "dropControls (ToValidUTF8 s)" let ?t = "RedactTokens ?u"
  have u: "validUTF8 ?u" "\<forall>c \<in> set ?u. \<not> isControl c"
    using dropControls_valid toValid_valid dropControls_clean by (auto simp: ToValidUTF8_def)
  then have t: "validUTF8 ?t" "\<forall>c \<in> set ?t. \<not> isControl c" "tokenFree ?t"
    using RedactTokens_valid RedactTokens_set [of ?u] marker_bytes RedactTokens_tokenFree by auto
  show ?thesis
  proof (cases "FreeTextBound < length ?t")
    case True
    let ?n = "runeCut ?t FreeTextBound"
    have n: "?n \<le> FreeTextBound" by (rule runeCut_bound)
    have "validUTF8 (take ?n ?t)"
      using t(1) True n runeCut_start by (intro validUTF8_take) auto
    moreover have "tokenFree (take ?n ?t)"
      using t(3) take_is_prefix by (rule tokenFree_prefix)
    moreover have "\<forall>c \<in> set (take ?n ?t). \<not> isControl c"
      using t(2) by (meson in_set_takeD)
    ultimately show ?thesis
      using True n by (simp add: cleanText_def SanitizeFreeText_def Let_def)
  qed (use t in \<open>simp add: cleanText_def SanitizeFreeText_def\<close>)
qed

lemma checkSanitized_iff: "checkSanitized s \<longleftrightarrow> cleanText s"
  unfolding checkSanitized_def by (metis SanitizeFreeText_clean cleanText_sanitized)

text \<open>
  C32. Sanitizing is canonical. Whatever the caller supplied, the sanitized text is accepted by
  the re-check at the write boundary (sanitizing again changes nothing), is at most the bound
  long, is valid UTF-8 without control characters, and has no substring in the token grammar;
  and the re-check accepts exactly the texts with these four properties.
\<close>

theorem SanitizeFreeText_canonical:
  "checkSanitized (SanitizeFreeText s) \<and>
   (checkSanitized t \<longleftrightarrow>
      length t \<le> FreeTextBound \<and> validUTF8 t \<and> filter isControl t = [] \<and>
      (\<nexists>m. sublist m t \<and> tokenGrammar m))"
  using SanitizeFreeText_clean [of s]
  by (auto simp: checkSanitized_iff cleanText_def tokenFree_def filter_empty_conv)

end
