(* ===== verification/NetAddr.thy ===== *)
theory NetAddr
  imports Prelude "HOL-Library.Word"
begin

text \<open>
  The part of Go's \<^verbatim>\<open>net/netip\<close> the program uses: \<^verbatim>\<open>ParseAddr\<close>, \<^verbatim>\<open>Unmap\<close> and
  \<^verbatim>\<open>String\<close>. An address is four bytes or eight 16-bit groups with a zone. The one general fact
  needed elsewhere is the length of a rendered address.
\<close>

unbundle bit_operations_syntax

datatype Addr = Addr4 "8 word list" | Addr6 "16 word list" string

definition splitOn :: "char \<Rightarrow> string \<Rightarrow> string \<times> string option" where
  "splitOn c s = (case dropWhile (\<lambda>x. x \<noteq> c) s of
     [] \<Rightarrow> (s, None)
   | _ # r \<Rightarrow> (takeWhile (\<lambda>x. x \<noteq> c) s, Some r))"

text \<open>\<^verbatim>\<open>parseIPv4Fields\<close>: four decimal fields of at most 255 without leading zeros.\<close>

definition octet :: "string \<Rightarrow> 8 word option" where
  "octet f =
    (if f \<noteq> [] \<and> list_all is_digit f \<and> length f \<le> 3 \<and> (hd f \<noteq> CHR ''0'' \<or> length f = 1) \<and> atoi_digits f \<le> 255
     then Some (of_nat (atoi_digits f)) else None)"

fun ipv4Fields :: "nat \<Rightarrow> string \<Rightarrow> 8 word list option" where
  "ipv4Fields 0 s = None"
| "ipv4Fields (Suc n) s =
    (case splitOn CHR ''.'' s of
       (f, None) \<Rightarrow> (if n = 0 then map_option (\<lambda>b. [b]) (octet f) else None)
     | (f, Some r) \<Rightarrow> (case octet f of
         None \<Rightarrow> None
       | Some b \<Rightarrow> map_option (Cons b) (ipv4Fields n r)))"

text \<open>\<^verbatim>\<open>parseIPv6\<close>: one 16-bit group of one to four hexadecimal digits.\<close>

definition hexValue :: "char \<Rightarrow> nat option" where
  "hexValue c =
    (let b = (of_char c :: nat) in
     if 48 \<le> b \<and> b \<le> 57 then Some (b - 48)
     else if 97 \<le> b \<and> b \<le> 102 then Some (b - 87)
     else if 65 \<le> b \<and> b \<le> 70 then Some (b - 55)
     else None)"

definition hexRun :: "string \<Rightarrow> string" where
  "hexRun s = takeWhile (\<lambda>c. hexValue c \<noteq> None) s"

definition hexNat :: "string \<Rightarrow> nat" where
  "hexNat = foldl (\<lambda>acc c. acc * 16 + (case hexValue c of Some d \<Rightarrow> d | None \<Rightarrow> 0)) 0"

text \<open>
  The loop of the parser: the groups read so far, the position of the double colon, the rest.
  The dotted tail is accepted where four bytes remain, and at the end unless a double colon
  was seen.
\<close>

definition dottedTail :: "16 word list \<Rightarrow> nat option \<Rightarrow> string \<Rightarrow> 16 word list option" where
  "dottedTail gs e s =
    (if e = None \<and> length gs \<noteq> 6 \<or> 6 < length gs then None
     else case ipv4Fields 4 s of
       Some [a, b, c, d] \<Rightarrow>
         Some (gs @ [push_bit 8 (ucast a) OR ucast b, push_bit 8 (ucast c) OR ucast d])
     | _ \<Rightarrow> None)"

function groups6 :: "16 word list \<Rightarrow> nat option \<Rightarrow> string \<Rightarrow> (16 word list \<times> nat option) option" where
  "groups6 gs e s =
    (if 8 \<le> length gs then (if s = [] then Some (gs, e) else None)
     else
       let h = hexRun s; r = drop (length h) s in
       if h = [] \<or> 4 < length h then None
       else if r \<noteq> [] \<and> hd r = CHR ''.'' then map_option (\<lambda>gs'. (gs', e)) (dottedTail gs e s)
       else
         let gs' = gs @ [of_nat (hexNat h)] in
         if r = [] then Some (gs', e)
         else if hd r \<noteq> CHR '':'' \<or> length r = 1 then None
         else if r ! 1 = CHR '':'' then
           (if e \<noteq> None then None
            else if length r = 2 then Some (gs', Some (length gs'))
            else groups6 gs' (Some (length gs')) (drop 2 r))
         else groups6 gs' e (drop 1 r))"
  by pat_completeness auto
termination
  by (relation "measure (\<lambda>(_, _, s). length s)") (auto simp: Let_def)

definition parseIPv6 :: "string \<Rightarrow> Addr option" where
  "parseIPv6 s0 =
    (let (s, zone) = splitOn CHR ''%'' s0 in
     if zone = Some [] then None
     else
       let z = (case zone of None \<Rightarrow> [] | Some z \<Rightarrow> z);
           lead = take 2 s = ''::'' in
       if s = ''::'' then Some (Addr6 (replicate 8 0) z)
       else case groups6 [] (if lead then Some 0 else None) (if lead then drop 2 s else s) of
         None \<Rightarrow> None
       | Some (gs, e) \<Rightarrow>
           (if length gs < 8 then
              (case e of
                 None \<Rightarrow> None
               | Some k \<Rightarrow> Some (Addr6 (take k gs @ replicate (8 - length gs) 0 @ drop k gs) z))
            else if e \<noteq> None then None
            else Some (Addr6 gs z)))"

text \<open>\<^verbatim>\<open>ParseAddr\<close>: the first of the three punctuation characters decides.\<close>

definition ParseAddr :: "string \<Rightarrow> Addr option" where
  "ParseAddr s =
    (case dropWhile (\<lambda>c. c \<noteq> CHR ''.'' \<and> c \<noteq> CHR '':'' \<and> c \<noteq> CHR ''%'') s of
       [] \<Rightarrow> None
     | c # _ \<Rightarrow>
         (if c = CHR ''.'' then map_option Addr4 (ipv4Fields 4 s)
          else if c = CHR '':'' then parseIPv6 s
          else None))"

definition Zone :: "Addr \<Rightarrow> string" where
  "Zone a = (case a of Addr4 _ \<Rightarrow> [] | Addr6 _ z \<Rightarrow> z)"

definition Unmap :: "Addr \<Rightarrow> Addr" where
  "Unmap a = (case a of
     Addr4 _ \<Rightarrow> a
   | Addr6 gs z \<Rightarrow>
       (if take 6 gs = replicate 5 0 @ [0xffff] then
          Addr4 [ucast (drop_bit 8 (gs ! 6)), ucast (gs ! 6), ucast (drop_bit 8 (gs ! 7)), ucast (gs ! 7)]
        else a))"

definition hexDigit :: "nat \<Rightarrow> char" where
  "hexDigit d = (if d < 10 then digit d else char_of (87 + d))"

fun hexOf :: "nat \<Rightarrow> string" where
  "hexOf n = (if n < 16 then [hexDigit n] else hexOf (n div 16) @ [hexDigit (n mod 16)])"

declare hexOf.simps [simp del]

text \<open>\<^verbatim>\<open>appendTo6\<close>: the first longest run of at least two zero groups is written as a double colon.\<close>

definition zeroRun :: "16 word list \<Rightarrow> nat \<Rightarrow> nat" where
  "zeroRun gs i = length (takeWhile (\<lambda>g. g = 0) (drop i gs))"

definition longestZeros :: "16 word list \<Rightarrow> nat \<times> nat" where
  "longestZeros gs = foldl (\<lambda>(start, len) i.
     if 2 \<le> zeroRun gs i \<and> len < zeroRun gs i then (i, zeroRun gs i) else (start, len)) (255, 0) [0..<8]"

definition joinGroups :: "16 word list \<Rightarrow> string" where
  "joinGroups gs = (case gs of [] \<Rightarrow> []
     | g # r \<Rightarrow> hexOf (unat g) @ concat (map (\<lambda>h. CHR '':'' # hexOf (unat h)) r))"

fun AddrString :: "Addr \<Rightarrow> string" where
  "AddrString (Addr4 bs) = (case bs of [] \<Rightarrow> []
     | b # r \<Rightarrow> itoa (unat b) @ concat (map (\<lambda>c. CHR ''.'' # itoa (unat c)) r))"
| "AddrString (Addr6 gs z) =
    (let (start, len) = longestZeros gs in
     (if len = 0 then joinGroups gs
      else joinGroups (take start gs) @ ''::'' @ joinGroups (drop (start + len) gs)) @
     (if z = [] then [] else CHR ''%'' # z))"


section \<open>The shape and length of addresses\<close>

fun wfAddr :: "Addr \<Rightarrow> bool" where
  "wfAddr (Addr4 bs) = (length bs = 4)"
| "wfAddr (Addr6 gs z) = (length gs = 8)"

lemma ipv4Fields_length: "ipv4Fields n s = Some bs \<Longrightarrow> length bs = n"
  by (induction n s arbitrary: bs rule: ipv4Fields.induct)
     (auto split: prod.splits option.splits if_splits)

declare groups6.simps [simp del]

lemma dottedTail_length: "dottedTail gs e s = Some gs' \<Longrightarrow> length gs' \<le> 8"
  by (auto simp: dottedTail_def split: if_splits option.splits list.splits)

lemma groups6_length: "groups6 gs e s = Some (gs', e') \<Longrightarrow> length gs \<le> 8 \<Longrightarrow> length gs' \<le> 8"
proof (induction "length s" arbitrary: gs e s rule: less_induct)
  case less
  let ?r = "drop (length (hexRun s)) s" let ?gs = "gs @ [of_nat (hexNat (hexRun s))]"
  show ?case
  proof (cases "8 \<le> length gs \<or> ?r = [] \<or> hd ?r = CHR ''.''")
    case True
    with less.prems show ?thesis
      by (auto simp: groups6.simps [of gs e s] Let_def dottedTail_length split: if_splits)
  next
    case False
    then have r: "length gs < 8" "?r \<noteq> []" "hd ?r \<noteq> CHR ''.''" by auto
    then have short: "length (drop 1 ?r) < length s" "length (drop 2 ?r) < length s" by simp_all
    from r less.prems(1) consider "gs' = ?gs" | d where "groups6 ?gs (Some (length ?gs)) (drop 2 ?r) = Some (gs', e')"
      | "groups6 ?gs e (drop 1 ?r) = Some (gs', e')"
      by (simp add: groups6.simps [of gs e s] Let_def split: if_splits)
    then show ?thesis
      using less.hyps [OF short(1), of ?gs e] less.hyps [OF short(2), of ?gs "Some (length ?gs)"] r(1)
      by cases simp_all
  qed
qed

lemma parseIPv6_wf:
  assumes "parseIPv6 s = Some a"
  shows "wfAddr a"
proof -
  obtain t zone where sp: "splitOn CHR ''%'' s = (t, zone)" by fastforce
  let ?z = "case zone of None \<Rightarrow> [] | Some z \<Rightarrow> z"
  let ?g = "groups6 [] (if take 2 t = ''::'' then Some 0 else None) (if take 2 t = ''::'' then drop 2 t else t)"
  show ?thesis
  proof (cases ?g)
    case None
    with assms sp show ?thesis by (auto simp: parseIPv6_def Let_def split: if_splits)
  next
    case (Some ge)
    obtain gs e where ge: "ge = (gs, e)" by fastforce
    with Some have "length gs \<le> 8" using groups6_length by force
    with assms sp Some ge show ?thesis
      by (simp add: parseIPv6_def Let_def split: if_splits option.splits) auto
  qed
qed

lemma ParseAddr_wf: "ParseAddr s = Some a \<Longrightarrow> wfAddr a"
  by (auto simp: ParseAddr_def ipv4Fields_length parseIPv6_wf split: list.splits if_splits)

lemma Unmap_wf: "wfAddr a \<Longrightarrow> wfAddr (Unmap a)"
  by (auto simp: Unmap_def split: Addr.splits)

lemma itoa_length: "n < 10 ^ k \<Longrightarrow> 0 < k \<Longrightarrow> length (itoa n) \<le> k"
proof (induction k arbitrary: n)
  case (Suc k)
  then show ?case
    by (cases "n < 10") (auto simp: itoa.simps [of n] intro!: Suc.IH intro: gr0I)
qed simp

lemma hexOf_length: "n < 16 ^ k \<Longrightarrow> 0 < k \<Longrightarrow> length (hexOf n) \<le> k"
proof (induction k arbitrary: n)
  case (Suc k)
  then show ?case
    by (cases "n < 16") (auto simp: hexOf.simps [of n] intro!: Suc.IH intro: gr0I)
qed simp

lemma unat_group: "length (hexOf (unat (g :: 16 word))) \<le> 4"
  using unsigned_less [of g, where ?'a = nat] by (intro hexOf_length) simp_all

lemma unat_octet: "length (itoa (unat (b :: 8 word))) \<le> 3"
  using unsigned_less [of b, where ?'a = nat] by (intro itoa_length) simp_all

lemma concat_groups_length: "length (concat (map (\<lambda>h. CHR '':'' # hexOf (unat (h :: 16 word))) gs)) \<le> 5 * length gs"
proof (induction gs)
  case (Cons g gs)
  then show ?case using unat_group [of g] by simp
qed simp

lemma joinGroups_length: "length (joinGroups gs) \<le> 5 * length gs - 1"
proof (cases gs)
  case (Cons g r)
  then show ?thesis
    using unat_group [of g] concat_groups_length [of r] by (simp add: joinGroups_def)
qed (simp add: joinGroups_def)

lemma foldl_invariant:
  "P acc \<Longrightarrow> (\<And>acc x. x \<in> set xs \<Longrightarrow> P acc \<Longrightarrow> P (f acc x)) \<Longrightarrow> P (foldl f acc xs)"
  by (induction xs arbitrary: acc) auto

lemma zeroRun_within: "i \<le> length gs \<Longrightarrow> i + zeroRun gs i \<le> length gs"
  unfolding zeroRun_def using length_takeWhile_le [of "\<lambda>g. g = 0" "drop i gs"] by simp

lemma longestZeros_within:
  assumes "length gs = 8" "longestZeros gs = (st, len)" "len \<noteq> 0"
  shows "2 \<le> len \<and> st + len \<le> 8"
proof -
  let ?P = "\<lambda>(st, len). len = 0 \<or> 2 \<le> len \<and> st + len \<le> (8 :: nat)"
  have "?P (longestZeros gs)"
    unfolding longestZeros_def
  proof (rule foldl_invariant [where P = ?P])
    fix acc i
    assume i: "i \<in> set [0..<8]" and acc: "?P acc"
    from i have "i + zeroRun gs i \<le> 8" using zeroRun_within [of i gs] assms(1) by simp
    with acc show "?P ((\<lambda>(start, len) i. if 2 \<le> zeroRun gs i \<and> len < zeroRun gs i
        then (i, zeroRun gs i) else (start, len)) acc i)"
      by (cases acc) simp
  qed simp
  with assms show ?thesis by simp
qed

lemma AddrString_length:
  assumes "wfAddr a" "Zone a = []"
  shows "length (AddrString a) \<le> 39"
proof (cases a)
  case (Addr4 bs)
  with assms obtain b c d e where "bs = [b, c, d, e]"
    by (auto simp: numeral_eq_Suc length_Suc_conv)
  with Addr4 show ?thesis
    using unat_octet [of b] unat_octet [of c] unat_octet [of d] unat_octet [of e] by simp
next
  case (Addr6 gs z)
  obtain st len where lz: "longestZeros gs = (st, len)" by fastforce
  have g: "length gs = 8" "z = []" using assms Addr6 by (auto simp: Zone_def)
  show ?thesis
  proof (cases "len = 0")
    case True
    with Addr6 g lz joinGroups_length [of gs] show ?thesis by simp
  next
    case False
    with longestZeros_within [OF g(1) lz] have "2 \<le> len" "st + len \<le> 8" by simp_all
    with Addr6 g lz False joinGroups_length [of "take st gs"] joinGroups_length [of "drop (st + len) gs"]
    show ?thesis by (simp add: min_def)
  qed
qed

end
