(* ===== verification/AuditTrail.thy ===== *)
theory AuditTrail
  imports Domain FreeText NetAddr
begin

text \<open>
  The audit vocabulary (\<^verbatim>\<open>internal/audit\<close>): payload schemas and their validation
  (\<^verbatim>\<open>schema.go\<close>), the event envelope and \<open>Validate\<close> (\<^verbatim>\<open>audit.go\<close>), the storage row
  (\<^verbatim>\<open>row.go\<close>), and the refusal summary (\<^verbatim>\<open>refusal.go\<close>): the bounded durable window, its
  per-stage payload and the per-request receipt. The event registry is an argument here; the
  table itself is in the theory \<^verbatim>\<open>AuditEvents\<close>. An error is a message, so a validator is a
  bool-valued function. \<^verbatim>\<open>uuid.Parse\<close> (package \<^verbatim>\<open>github.com/google/uuid\<close>) and
  \<^verbatim>\<open>json.Marshal\<close> are arguments of the definitions that call them.
\<close>

section \<open>Payload schemas\<close>

datatype FieldKind =
    KindString | KindFreeText | KindInt | KindBool | KindStringList | KindObject | KindFreeTextMap | KindObjectList

datatype FieldSpec = FieldSpec
  (fs_Kind: FieldKind) (fs_Required: bool) (fs_ObjectSchema: "(string \<times> FieldSpec) list option")
  (fs_Enum: "string list") (fs_NonNegative: bool) (fs_AtLeast: int) (fs_MaxLen: int) (fs_MaxBytes: int) (fs_Digest: bool)

text \<open>A schema is a Go map from field names; \<open>None\<close> above is the nil map.\<close>

type_synonym Schema = "(string \<times> FieldSpec) list"

text \<open>The composite literal \<^verbatim>\<open>{Kind: k}\<close> and the fields a literal may add.\<close>

definition field :: "FieldKind \<Rightarrow> FieldSpec" where
  "field k = FieldSpec k False None [] False 0 0 0 False"

fun required :: "FieldSpec \<Rightarrow> FieldSpec" where
  "required (FieldSpec k r ob en nn al ml mb dg) = FieldSpec k True ob en nn al ml mb dg"

fun withSchema :: "Schema \<Rightarrow> FieldSpec \<Rightarrow> FieldSpec" where
  "withSchema s (FieldSpec k r ob en nn al ml mb dg) = FieldSpec k r (Some s) en nn al ml mb dg"

fun withEnum :: "string list \<Rightarrow> FieldSpec \<Rightarrow> FieldSpec" where
  "withEnum e (FieldSpec k r ob en nn al ml mb dg) = FieldSpec k r ob e nn al ml mb dg"

fun nonNegative :: "FieldSpec \<Rightarrow> FieldSpec" where
  "nonNegative (FieldSpec k r ob en nn al ml mb dg) = FieldSpec k r ob en True al ml mb dg"

fun atLeast :: "int \<Rightarrow> FieldSpec \<Rightarrow> FieldSpec" where
  "atLeast n (FieldSpec k r ob en nn al ml mb dg) = FieldSpec k r ob en nn n ml mb dg"

fun maxLen :: "int \<Rightarrow> FieldSpec \<Rightarrow> FieldSpec" where
  "maxLen n (FieldSpec k r ob en nn al ml mb dg) = FieldSpec k r ob en nn al n mb dg"

fun maxBytes :: "int \<Rightarrow> FieldSpec \<Rightarrow> FieldSpec" where
  "maxBytes n (FieldSpec k r ob en nn al ml mb dg) = FieldSpec k r ob en nn al ml n dg"

fun digestHex :: "FieldSpec \<Rightarrow> FieldSpec" where
  "digestHex (FieldSpec k r ob en nn al ml mb dg) = FieldSpec k r ob en nn al ml mb True"

text \<open>
  The dynamic types a payload value (\<^verbatim>\<open>any\<close>) may have; \<open>VOther\<close> is every type the package
  does not name, nil included.
\<close>

datatype Value =
    VString string
  | VInt int
  | VInt64 int
  | VBool bool
  | VStringList "string list"
  | VStringMap "(string \<times> string) list"
  | VPayload "(string \<times> Value) list"
  | VAnyMap "(string \<times> Value) list"
  | VPayloadList "(string \<times> Value) list list"
  | VOther

type_synonym Payload = "(string \<times> Value) list"

definition sha256HexLen :: nat where
  "sha256HexLen = 64"

definition checkInt :: "FieldSpec \<Rightarrow> int \<Rightarrow> bool" where
  "checkInt spec n \<longleftrightarrow>
     \<not> (fs_NonNegative spec \<and> n < 0) \<and> \<not> (fs_AtLeast spec \<noteq> 0 \<and> n < fs_AtLeast spec)"

definition lowerHex :: "char \<Rightarrow> bool" where
  "lowerHex c \<longleftrightarrow> is_digit c \<or> (97 \<le> byte c \<and> byte c \<le> 102)"

definition overBound :: "int \<Rightarrow> nat \<Rightarrow> bool" where
  "overBound bound n \<longleftrightarrow> 0 < bound \<and> bound < int n"

definition enumAdmits :: "FieldSpec \<Rightarrow> Value \<Rightarrow> bool" where
  "enumAdmits spec v \<longleftrightarrow>
     fs_Enum spec = [] \<or> (case v of VString s \<Rightarrow> s \<in> set (fs_Enum spec) | _ \<Rightarrow> [] \<in> set (fs_Enum spec))"

definition checkConstraints :: "FieldSpec \<Rightarrow> Value \<Rightarrow> bool" where
  "checkConstraints spec v \<longleftrightarrow> enumAdmits spec v \<and>
    (case v of
       VString t \<Rightarrow>
         (fs_Digest spec \<longrightarrow> length t = sha256HexLen \<and> list_all lowerHex t) \<and> \<not> overBound (fs_MaxBytes spec) (length t)
     | VInt n \<Rightarrow> checkInt spec n
     | VInt64 n \<Rightarrow> checkInt spec n
     | VStringMap t \<Rightarrow>
         \<not> overBound (fs_MaxLen spec) (length t) \<and>
         list_all (\<lambda>(key, val). checkSanitized key \<and> checkSanitized val \<and>
            \<not> (64 < length key \<or> overBound (fs_MaxBytes spec) (length val))) t
     | VStringList t \<Rightarrow>
         \<not> overBound (fs_MaxLen spec) (length t) \<and>
         list_all (\<lambda>entry. \<not> overBound (fs_MaxBytes spec) (length entry) \<and> checkSanitized entry) t
     | _ \<Rightarrow> True)"

fun checkKind :: "FieldKind \<Rightarrow> Value \<Rightarrow> bool" where
  "checkKind KindString v = (case v of VString _ \<Rightarrow> True | _ \<Rightarrow> False)"
| "checkKind KindFreeText v = (case v of VString s \<Rightarrow> checkSanitized s | _ \<Rightarrow> False)"
| "checkKind KindInt v = (case v of VInt _ \<Rightarrow> True | VInt64 _ \<Rightarrow> True | _ \<Rightarrow> False)"
| "checkKind KindBool v = (case v of VBool _ \<Rightarrow> True | _ \<Rightarrow> False)"
| "checkKind KindStringList v = (case v of VStringList _ \<Rightarrow> True | _ \<Rightarrow> False)"
| "checkKind KindFreeTextMap v = (case v of VStringMap _ \<Rightarrow> True | _ \<Rightarrow> False)"
| "checkKind KindObject v = False"
| "checkKind KindObjectList v = False"

fun objectPayload :: "Value \<Rightarrow> Payload option" where
  "objectPayload (VPayload p) = Some p"
| "objectPayload (VAnyMap p) = Some p"
| "objectPayload _ = None"

lemma size_nested: "fs_ObjectSchema spec = Some sch \<Longrightarrow> size_list (size_prod (\<lambda>_. 0) size) sch < size spec"
  by (cases spec) auto

function Schema_validate :: "Schema \<Rightarrow> Payload \<Rightarrow> bool"
  and fieldsValid :: "Schema \<Rightarrow> Payload \<Rightarrow> bool" where
  "Schema_validate s p \<longleftrightarrow> list_all (\<lambda>(name, _). map_of s name \<noteq> None) p \<and> fieldsValid s p"
| "fieldsValid [] p \<longleftrightarrow> True"
| "fieldsValid ((name, spec) # s) p \<longleftrightarrow>
    (case map_of p name of
       None \<Rightarrow> \<not> fs_Required spec
     | Some v \<Rightarrow>
         (if fs_Kind spec = KindObject then
            (case objectPayload v of
               None \<Rightarrow> False
             | Some ob \<Rightarrow> (case fs_ObjectSchema spec of None \<Rightarrow> False | Some sch \<Rightarrow> Schema_validate sch ob))
          else if fs_Kind spec = KindObjectList then
            (case v of
               VPayloadList obs \<Rightarrow>
                 0 < fs_MaxLen spec \<and> int (length obs) \<le> fs_MaxLen spec \<and>
                 (case fs_ObjectSchema spec of None \<Rightarrow> False | Some sch \<Rightarrow> list_all (\<lambda>ob. Schema_validate sch ob) obs)
             | _ \<Rightarrow> False)
          else checkKind (fs_Kind spec) v \<and> checkConstraints spec v)) \<and>
    fieldsValid s p"
  by pat_completeness auto

termination
  by (relation "measures [\<lambda>x. case x of Inl (s, _) \<Rightarrow> size_list (size_prod (\<lambda>_. 0) size) s
                                      | Inr (s, _) \<Rightarrow> size_list (size_prod (\<lambda>_. 0) size) s,
                          \<lambda>x. case x of Inl _ \<Rightarrow> 1 | Inr _ \<Rightarrow> 0]")
     (auto dest: size_nested)


section \<open>Events\<close>

type_synonym EventType = string
type_synonym Trail = string
type_synonym Outcome = string
type_synonym RetentionClass = string
type_synonym ActorClass = string
type_synonym Origin = string

abbreviation TrailTenant :: Trail where "TrailTenant \<equiv> ''tenant''"
abbreviation TrailInstance :: Trail where "TrailInstance \<equiv> ''instance''"

abbreviation OutcomeIntent :: Outcome where "OutcomeIntent \<equiv> ''intent''"
abbreviation OutcomeSuccess :: Outcome where "OutcomeSuccess \<equiv> ''success''"
abbreviation OutcomeDenied :: Outcome where "OutcomeDenied \<equiv> ''denied''"
abbreviation OutcomeFailure :: Outcome where "OutcomeFailure \<equiv> ''failure''"
abbreviation OutcomeUnknown :: Outcome where "OutcomeUnknown \<equiv> ''unknown''"
abbreviation OutcomeDisconnected :: Outcome where "OutcomeDisconnected \<equiv> ''disconnected''"

abbreviation RetentionAccess :: RetentionClass where "RetentionAccess \<equiv> ''access''"
abbreviation RetentionSecurity :: RetentionClass where "RetentionSecurity \<equiv> ''security''"

abbreviation ActorHuman :: ActorClass where "ActorHuman \<equiv> ''human''"
abbreviation ActorMachine :: ActorClass where "ActorMachine \<equiv> ''machine''"
abbreviation ActorSystem :: ActorClass where "ActorSystem \<equiv> ''system''"
abbreviation ActorBreakGlass :: ActorClass where "ActorBreakGlass \<equiv> ''break-glass''"
abbreviation ActorUnauthenticated :: ActorClass where "ActorUnauthenticated \<equiv> ''unauthenticated''"

abbreviation OriginSystem :: Origin where "OriginSystem \<equiv> ''system''"

definition origins :: "Origin list" where
  "origins = [''web'', ''cli'', ''api'', ''mcp'', ''operator-fetch'', ''adapter-job'', ''offline-reconciled'', OriginSystem]"

record TypeSpec =
  ts_SchemaVersion :: int
  ts_Retention :: RetentionClass
  ts_Outcomes :: "Outcome list"
  ts_Trails :: "Trail list"
  ts_Schema :: Schema

record Actor =
  ac_ID :: string
  ac_Class :: ActorClass
  ac_CredentialID :: string

record Object =
  ob_Type :: string
  ob_ID :: string

text \<open>A \<^verbatim>\<open>time.Time\<close> is its nanoseconds since the zero time.\<close>

type_synonym Time = int

record Event =
  ev_ID :: string
  ev_Type :: EventType
  ev_SchemaVersion :: int
  ev_OccurredAt :: Time
  ev_OccurredAsserted :: bool
  ev_Actor :: Actor
  ev_AuthorityID :: string
  ev_Object :: Object
  ev_Outcome :: Outcome
  ev_CorrelationID :: string
  ev_SourceIP :: string
  ev_UserAgent :: string
  ev_Origin :: Origin
  ev_Payload :: Payload

abbreviation EventRequestRefused :: EventType where "EventRequestRefused \<equiv> ''auth.request_refused''"

definition actorConsistent :: "Actor \<Rightarrow> bool" where
  "actorConsistent a =
    (if ac_Class a \<in> {ActorHuman, ActorMachine} then ac_ID a \<noteq> []
     else if ac_Class a \<in> {ActorSystem, ActorBreakGlass} then True
     else if ac_Class a = ActorUnauthenticated then ac_ID a = [] \<and> ac_CredentialID a = []
     else False)"

definition trailScope :: "Trail \<Rightarrow> Scope \<Rightarrow> bool" where
  "trailScope trail sc =
    (if trail = TrailTenant then isOk (Scope_Level sc) \<and> s_Org sc \<noteq> []
     else if trail = TrailInstance then sc = mkScope [] [] []
     else False)"


section \<open>Refusal summaries\<close>

abbreviation RefusalArtifact :: string where "RefusalArtifact \<equiv> ''artifact''"
abbreviation RefusalConflict :: string where "RefusalConflict \<equiv> ''credential-conflict''"
abbreviation RefusalProof :: string where "RefusalProof \<equiv> ''proof''"
abbreviation RefusalCSRF :: string where "RefusalCSRF \<equiv> ''csrf''"
abbreviation RefusalAdmission :: string where "RefusalAdmission \<equiv> ''admission''"

definition RefusalSampleLimit :: nat where
  "RefusalSampleLimit = 32"

definition RefusalStages :: "string list" where
  "RefusalStages = [RefusalArtifact, RefusalConflict, RefusalProof, RefusalCSRF, RefusalAdmission]"

record RefusalSample =
  rs_Stage :: string
  rs_SourceIP :: string
  rs_RequestID :: string
  rs_Operation :: string

text \<open>\<open>None\<close> is the code's \<^verbatim>\<open>-1\<close>.\<close>

definition refusalStageIndex :: "string \<Rightarrow> nat option" where
  "refusalStageIndex stage = find (\<lambda>i. RefusalStages ! i = stage) [0..<length RefusalStages]"

text \<open>\<^verbatim>\<open>^[a-zA-Z][a-zA-Z0-9._:/-]{0,127}$\<close>.\<close>

definition refusalOperation :: "string \<Rightarrow> bool" where
  "refusalOperation s \<longleftrightarrow> (case s of [] \<Rightarrow> False
     | c # r \<Rightarrow> isAlnum c \<and> \<not> is_digit c \<and> length r \<le> 127 \<and>
                list_all (\<lambda>d. isAlnum d \<or> d \<in> set ''._:/-'') r)"

text \<open>A parsed UUID: its version and canonical text.\<close>

type_synonym UUIDParse = "string \<Rightarrow> (nat \<times> string) option"

definition RefusalSample_Validate :: "UUIDParse \<Rightarrow> RefusalSample \<Rightarrow> bool" where
  "RefusalSample_Validate uuid s \<longleftrightarrow>
     refusalStageIndex (rs_Stage s) \<noteq> None \<and>
     (case ParseAddr (rs_SourceIP s) of
        None \<Rightarrow> False
      | Some ip \<Rightarrow> Zone ip = [] \<and> AddrString (Unmap ip) = rs_SourceIP s) \<and>
     (case uuid (rs_RequestID s) of
        None \<Rightarrow> False
      | Some (version, text) \<Rightarrow> version = 7 \<and> text = rs_RequestID s) \<and>
     refusalOperation (rs_Operation s) \<and> SanitizeFreeText (rs_Operation s) = rs_Operation s"

text \<open>Wrap-around of 64-bit signed arithmetic.\<close>

definition int64 :: "int \<Rightarrow> int" where
  "int64 x = (x + 2 ^ 63) mod 2 ^ 64 - 2 ^ 63"

definition MaxInt64 :: int where
  "MaxInt64 = 2 ^ 63 - 1"

record RefusalWindow =
  rw_Counts :: "int list"
  rw_Samples :: "RefusalSample list"

definition NewRefusalWindow :: RefusalWindow where
  "NewRefusalWindow = \<lparr>rw_Counts = replicate 5 0, rw_Samples = []\<rparr>"

definition sampledAt :: "RefusalSample list \<Rightarrow> nat \<Rightarrow> nat" where
  "sampledAt ss i = length (filter (\<lambda>s. refusalStageIndex (rs_Stage s) = Some i) ss)"

definition RefusalWindow_Validate :: "UUIDParse \<Rightarrow> RefusalWindow \<Rightarrow> bool" where
  "RefusalWindow_Validate uuid w \<longleftrightarrow>
     length (rw_Counts w) = 5 \<and> length (rw_Samples w) \<le> RefusalSampleLimit \<and>
     list_all (RefusalSample_Validate uuid) (rw_Samples w) \<and>
     list_all (\<lambda>i. int (sampledAt (rw_Samples w) i) \<le> rw_Counts w ! i \<and> 0 \<le> rw_Counts w ! i) [0..<length (rw_Counts w)]"

definition RefusalWindow_Add :: "UUIDParse \<Rightarrow> RefusalSample \<Rightarrow> RefusalWindow \<Rightarrow> RefusalWindow option" where
  "RefusalWindow_Add uuid s w =
    (if \<not> RefusalSample_Validate uuid s then None
     else case refusalStageIndex (rs_Stage s) of
       None \<Rightarrow> None
     | Some i \<Rightarrow>
         (if rw_Counts w ! i = MaxInt64 then None
          else Some \<lparr>rw_Counts = (rw_Counts w)[i := int64 (rw_Counts w ! i + 1)],
                     rw_Samples = (if length (rw_Samples w) < RefusalSampleLimit then rw_Samples w @ [s] else rw_Samples w)\<rparr>))"

definition RefusalWindow_Empty :: "RefusalWindow \<Rightarrow> bool" where
  "RefusalWindow_Empty w \<longleftrightarrow> list_all (\<lambda>n. n = 0) (rw_Counts w)"

definition samplePayload :: "RefusalSample \<Rightarrow> Payload" where
  "samplePayload s = [(''source_ip'', VString (rs_SourceIP s)), (''request_id'', VString (rs_RequestID s)),
                      (''operation'', VString (rs_Operation s))]"

text \<open>\<open>None\<close> is the index panic of a stage outside the closed set.\<close>

definition RefusalPayload :: "RefusalWindow \<Rightarrow> string \<Rightarrow> int \<Rightarrow> Payload option" where
  "RefusalPayload w stage start =
    (let samples = map samplePayload (filter (\<lambda>s. rs_Stage s = stage) (rw_Samples w)) in
     case refusalStageIndex stage of
       None \<Rightarrow> None
     | Some i \<Rightarrow>
         (let count = rw_Counts w ! i in
          Some [(''window_start'', VInt64 start), (''window_end'', VInt64 (int64 (start + 60))),
                (''stage'', VString stage), (''count'', VInt64 count),
                (''unsampled_count'', VInt64 (int64 (count - int (length samples)))),
                (''samples'', VPayloadList samples)]))"

definition refusalInt :: "Value option \<Rightarrow> int" where
  "refusalInt v = (case v of Some (VInt64 n) \<Rightarrow> n | Some (VInt n) \<Rightarrow> n | _ \<Rightarrow> - 1)"

definition asString :: "Value option \<Rightarrow> string" where
  "asString v = (case v of Some (VString s) \<Rightarrow> s | _ \<Rightarrow> [])"

definition asPayloads :: "Value option \<Rightarrow> Payload list" where
  "asPayloads v = (case v of Some (VPayloadList ps) \<Rightarrow> ps | _ \<Rightarrow> [])"

definition validateRefusalSummary :: "UUIDParse \<Rightarrow> Event \<Rightarrow> bool" where
  "validateRefusalSummary uuid e \<longleftrightarrow>
    (let p = ev_Payload e;
         start = refusalInt (map_of p ''window_start''); fin = refusalInt (map_of p ''window_end'');
         count = refusalInt (map_of p ''count''); unsampled = refusalInt (map_of p ''unsampled_count'');
         stage = asString (map_of p ''stage''); samples = asPayloads (map_of p ''samples'') in
     ac_Class (ev_Actor e) = ActorUnauthenticated \<and> ac_ID (ev_Actor e) = [] \<and> ac_CredentialID (ev_Actor e) = [] \<and>
     ev_AuthorityID e = [] \<and> ev_Object e = \<lparr>ob_Type = [], ob_ID = []\<rparr> \<and> ev_SourceIP e = [] \<and> ev_UserAgent e = [] \<and>
     ev_Origin e = OriginSystem \<and> start mod 60 = 0 \<and> start \<le> MaxInt64 - 60 \<and> fin = int64 (start + 60) \<and>
     int64 (count - int (length samples)) = unsampled \<and>
     list_all (\<lambda>q. RefusalSample_Validate uuid
        \<lparr>rs_Stage = stage, rs_SourceIP = asString (map_of q ''source_ip''),
         rs_RequestID = asString (map_of q ''request_id''), rs_Operation = asString (map_of q ''operation'')\<rparr>) samples)"

text \<open>The registry read of \<^verbatim>\<open>Validate\<close>; \<open>None\<close> is an unregistered type.\<close>

type_synonym EventRegistry = "EventType \<Rightarrow> TypeSpec option"

definition Validate :: "EventRegistry \<Rightarrow> UUIDParse \<Rightarrow> Event \<Rightarrow> Trail \<Rightarrow> Scope \<Rightarrow> bool" where
  "Validate reg uuid e trail sc =
    (case reg (ev_Type e) of
       None \<Rightarrow> False
     | Some spec \<Rightarrow>
         ev_ID e \<noteq> [] \<and> ev_SchemaVersion e = ts_SchemaVersion spec \<and>
         ev_Outcome e \<in> set (ts_Outcomes spec) \<and> trail \<in> set (ts_Trails spec) \<and> ev_OccurredAt e \<noteq> 0 \<and>
         actorConsistent (ev_Actor e) \<and> ev_Origin e \<in> set origins \<and> trailScope trail sc \<and>
         checkSanitized (ev_UserAgent e) \<and> checkSanitized (ev_SourceIP e) \<and>
         Schema_validate (ts_Schema spec) (ev_Payload e) \<and>
         (if ev_Type e = EventRequestRefused then validateRefusalSummary uuid e else True))"

definition ScopeClass :: "Trail \<Rightarrow> Scope \<Rightarrow> domain_error + string" where
  "ScopeClass trail sc =
    (if trail = TrailInstance then Inr ''instance''
     else bindE (Scope_Level sc) (\<lambda>level. case level of
       LevelOrg \<Rightarrow> Inr ''org''
     | LevelProject \<Rightarrow> Inr ''project''
     | LevelEnv \<Rightarrow> Inr ''env''
     | LevelNone \<Rightarrow> Inl ErrInternal))"


section \<open>Storage rows\<close>

record Row =
  ro_ID :: string
  ro_Type :: string
  ro_SchemaVersion :: int
  ro_OccurredAt :: Time
  ro_OccurredAsserted :: bool
  ro_RecordedAt :: Time
  ro_ActorID :: "string option"
  ro_ActorClass :: string
  ro_ActorCredentialID :: "string option"
  ro_AuthorityID :: "string option"
  ro_ScopeClass :: string
  ro_OrgID :: string
  ro_ProjectID :: "string option"
  ro_EnvID :: "string option"
  ro_ObjectType :: "string option"
  ro_ObjectID :: "string option"
  ro_Outcome :: string
  ro_CorrelationID :: "string option"
  ro_SourceIP :: "string option"
  ro_UserAgent :: "string option"
  ro_Origin :: string
  ro_Payload :: string

definition optional :: "string \<Rightarrow> string option" where
  "optional s = (if s = [] then None else Some s)"

text \<open>\<^verbatim>\<open>Truncate(time.Microsecond)\<close> rounds down since the zero time.\<close>

definition truncateMicro :: "Time \<Rightarrow> Time" where
  "truncateMicro t = t - t mod 1000"

definition BuildRow ::
    "EventRegistry \<Rightarrow> UUIDParse \<Rightarrow> (Payload \<Rightarrow> domain_error + string) \<Rightarrow>
     Event \<Rightarrow> Trail \<Rightarrow> Scope \<Rightarrow> Time \<Rightarrow> domain_error + Row" where
  "BuildRow reg uuid marshal e trail sc recordedAt =
    (if \<not> Validate reg uuid e trail sc then Inl ErrInternal
     else bindE (ScopeClass trail sc) (\<lambda>scopeClass. bindE (marshal (ev_Payload e)) (\<lambda>payload.
       Inr \<lparr>ro_ID = ev_ID e, ro_Type = ev_Type e, ro_SchemaVersion = ev_SchemaVersion e,
            ro_OccurredAt = truncateMicro (ev_OccurredAt e), ro_OccurredAsserted = ev_OccurredAsserted e,
            ro_RecordedAt = truncateMicro recordedAt,
            ro_ActorID = optional (ac_ID (ev_Actor e)), ro_ActorClass = ac_Class (ev_Actor e),
            ro_ActorCredentialID = optional (ac_CredentialID (ev_Actor e)), ro_AuthorityID = optional (ev_AuthorityID e),
            ro_ScopeClass = scopeClass, ro_OrgID = s_Org sc,
            ro_ProjectID = optional (s_Project sc), ro_EnvID = optional (s_Env sc),
            ro_ObjectType = optional (ob_Type (ev_Object e)), ro_ObjectID = optional (ob_ID (ev_Object e)),
            ro_Outcome = ev_Outcome e, ro_CorrelationID = optional (ev_CorrelationID e),
            ro_SourceIP = optional (ev_SourceIP e), ro_UserAgent = optional (ev_UserAgent e),
            ro_Origin = ev_Origin e, ro_Payload = payload\<rparr>)))"

text \<open>
  The actor of a row (\<^verbatim>\<open>internal/store/auditrow\<close>). The lookup answers \<^const>\<open>ErrNotFound\<close> for
  a principal with no row; the flag says that the writing authority has no principal.
\<close>

definition ResolveActorClass :: "(string \<Rightarrow> domain_error + string) \<Rightarrow> Actor \<Rightarrow> bool \<Rightarrow> domain_error + Actor" where
  "ResolveActorClass kindOf a allowAsserted =
    (if ac_Class a \<in> {ActorSystem, ActorBreakGlass, ActorUnauthenticated} then
       (if allowAsserted then Inr a else Inl ErrInternal)
     else if ac_Class a \<noteq> [] then Inl ErrInternal
     else if ac_ID a = [] then Inr (a\<lparr>ac_Class := ActorUnauthenticated\<rparr>)
     else case kindOf (ac_ID a) of
       Inr kind \<Rightarrow>
         (if kind = ''human'' then Inr (a\<lparr>ac_Class := ActorHuman\<rparr>)
          else if kind = ''machine'' then Inr (a\<lparr>ac_Class := ActorMachine\<rparr>)
          else Inl ErrInternal)
     | Inl e \<Rightarrow>
         (if e = ErrNotFound then Inr \<lparr>ac_ID = [], ac_Class = ActorUnauthenticated, ac_CredentialID = []\<rparr>
          else Inl e))"


section \<open>The refusal receipt of a request\<close>

record refusalReceipt =
  rr_sample :: RefusalSample
  rr_dedicated :: bool

definition WithRefusalReceipt :: "string \<Rightarrow> string \<Rightarrow> refusalReceipt" where
  "WithRefusalReceipt source requestID =
    \<lparr>rr_sample = \<lparr>rs_Stage = [], rs_SourceIP = source, rs_RequestID = requestID, rs_Operation = ''unmatched''\<rparr>,
     rr_dedicated = False\<rparr>"

text \<open>The flag is the artifact-probe mark of the context.\<close>

definition NoteRefusal :: "bool \<Rightarrow> string \<Rightarrow> refusalReceipt \<Rightarrow> refusalReceipt" where
  "NoteRefusal probe stage r =
    (if probe \<and> stage = RefusalArtifact then r
     else if rs_Stage (rr_sample r) = [] \<or> stage = RefusalAdmission
     then r\<lparr>rr_sample := (rr_sample r)\<lparr>rs_Stage := stage\<rparr>\<rparr>
     else r)"

definition SetRefusalOperation :: "string \<Rightarrow> refusalReceipt \<Rightarrow> refusalReceipt" where
  "SetRefusalOperation operation r = r\<lparr>rr_sample := (rr_sample r)\<lparr>rs_Operation := operation\<rparr>\<rparr>"

definition MarkDedicatedRefusal :: "refusalReceipt \<Rightarrow> refusalReceipt" where
  "MarkDedicatedRefusal r = r\<lparr>rr_dedicated := True\<rparr>"

definition PendingRefusal :: "refusalReceipt \<Rightarrow> RefusalSample \<times> bool" where
  "PendingRefusal r = (rr_sample r, \<not> rr_dedicated r \<and> rs_Stage (rr_sample r) \<noteq> [])"

definition IsDedicatedRefusal :: "Event \<Rightarrow> bool" where
  "IsDedicatedRefusal e \<longleftrightarrow>
     ev_Type e \<in> {''auth.artifact_class_refused'', ''identity.federation_refused'', ''scim.credential_refused''} \<or>
     (ev_Type e \<noteq> EventRequestRefused \<and> ev_Outcome e = OutcomeFailure \<and> take 5 (ev_Type e) = ''auth.'')"


section \<open>What an accepted event carries\<close>

text \<open>Every caller-influenced text of a payload, at any depth.\<close>

function freeTexts :: "Schema \<Rightarrow> Payload \<Rightarrow> string list" where
  "freeTexts [] p = []"
| "freeTexts ((name, spec) # s) p =
    (case (fs_Kind spec, map_of p name) of
       (KindFreeText, Some (VString t)) \<Rightarrow> [t]
     | (KindStringList, Some (VStringList ts)) \<Rightarrow> ts
     | (KindFreeTextMap, Some (VStringMap m)) \<Rightarrow> map fst m @ map snd m
     | (KindObject, Some v) \<Rightarrow>
         (case (objectPayload v, fs_ObjectSchema spec) of
            (Some ob, Some sch) \<Rightarrow> freeTexts sch ob
          | _ \<Rightarrow> [])
     | (KindObjectList, Some (VPayloadList obs)) \<Rightarrow>
         (case fs_ObjectSchema spec of None \<Rightarrow> [] | Some sch \<Rightarrow> concat (map (\<lambda>ob. freeTexts sch ob) obs))
     | _ \<Rightarrow> []) @ freeTexts s p"
  by pat_completeness auto

termination
  by (relation "measure (\<lambda>(s, _). size_list (size_prod (\<lambda>_. 0) size) s)")
     (auto dest: size_nested size_nested [OF sym])

lemma fieldsValid_freeTexts:
  shows "Schema_validate s p \<Longrightarrow> t \<in> set (freeTexts s p) \<Longrightarrow> cleanText t"
    and "fieldsValid s p \<Longrightarrow> t \<in> set (freeTexts s p) \<Longrightarrow> cleanText t"
proof (induction s p and s p rule: Schema_validate_fieldsValid.induct)
  case (3 name spec s p)
  show ?case
  proof (cases "t \<in> set (freeTexts s p)")
    case True
    with 3 show ?thesis by simp
  next
    case False
    with "3.prems"(2) obtain v where v: "map_of p name = Some v"
      by (cases "map_of p name") (auto split: FieldKind.splits)
    show ?thesis
    proof (cases "fs_Kind spec")
      case KindObject
      with False v "3.prems" "3.IH"(1) [OF v KindObject] show ?thesis
        by (auto split: option.splits)
    next
      case KindObjectList
      with False v "3.prems" "3.IH"(2) [OF v] show ?thesis
        by (auto simp: list_all_iff split: option.splits Value.splits)
    qed (use False v "3.prems" in
      \<open>auto simp: checkSanitized_iff checkConstraints_def list_all_iff split: Value.splits\<close>)
  qed
qed simp_all

text \<open>A small installation for the witnesses: one registered type, one event, one refusal.\<close>

definition sampleSpec :: TypeSpec where
  "sampleSpec = \<lparr>ts_SchemaVersion = 1, ts_Retention = RetentionSecurity, ts_Outcomes = [OutcomeSuccess],
     ts_Trails = [TrailTenant],
     ts_Schema = [(''scope'', required (withSchema [(''note'', required (field KindFreeText))] (field KindObject)))]\<rparr>"

definition sampleRegistry :: EventRegistry where
  "sampleRegistry = map_of [(''project.created'', sampleSpec)]"

definition sampleUUID :: UUIDParse where
  "sampleUUID s = (if length s = 36 then Some (7, s) else None)"

definition sampleEvent :: Event where
  "sampleEvent = \<lparr>ev_ID = ''evt_1'', ev_Type = ''project.created'', ev_SchemaVersion = 1, ev_OccurredAt = 1,
     ev_OccurredAsserted = False, ev_Actor = \<lparr>ac_ID = ''alice'', ac_Class = ActorHuman, ac_CredentialID = []\<rparr>,
     ev_AuthorityID = [], ev_Object = \<lparr>ob_Type = [], ob_ID = []\<rparr>, ev_Outcome = OutcomeSuccess, ev_CorrelationID = [],
     ev_SourceIP = ''10.0.0.1'', ev_UserAgent = ''cli'', ev_Origin = ''cli'',
     ev_Payload = [(''scope'', VPayload [(''note'', VString ''a note'')])]\<rparr>"

definition sampleRefusal :: RefusalSample where
  "sampleRefusal = \<lparr>rs_Stage = RefusalCSRF, rs_SourceIP = ''10.0.0.1'',
     rs_RequestID = ''018f0000-0000-7000-8000-000000000000'', rs_Operation = ''value.read''\<rparr>"

lemma sampleEvent_valid: "Validate sampleRegistry sampleUUID sampleEvent TrailTenant (mkScope ''org'' ''web'' [])"
  by code_simp

lemma sampleRefusal_valid: "RefusalSample_Validate sampleUUID sampleRefusal"
  by code_simp

text \<open>
  C25. No bearer token reaches a trail through free text. In an event the write boundary
  accepts, the user agent, the source address and every caller-influenced text of the payload,
  at any nesting depth the registered schema declares, is at most the bound long, has no
  control character, and has no substring in the token grammar.
\<close>

theorem accepted_texts_clean:
  assumes "Validate reg uuid e trail sc" "reg (ev_Type e) = Some spec"
    and "t = ev_UserAgent e \<or> t = ev_SourceIP e \<or> t \<in> set (freeTexts (ts_Schema spec) (ev_Payload e))"
  shows "length t \<le> FreeTextBound \<and> filter isControl t = [] \<and> (\<nexists>m. sublist m t \<and> tokenGrammar m)"
proof -
  from assms have "cleanText t"
    using fieldsValid_freeTexts(1) by (auto simp: Validate_def checkSanitized_iff)
  then show ?thesis by (auto simp: cleanText_def tokenFree_def filter_empty_conv)
qed

theorem accepted_texts_clean_witness:
  "length ''a note'' \<le> FreeTextBound \<and> filter isControl ''a note'' = [] \<and>
   (\<nexists>m. sublist m ''a note'' \<and> tokenGrammar m)"
proof (rule accepted_texts_clean [OF sampleEvent_valid])
  show "sampleRegistry (ev_Type sampleEvent) = Some sampleSpec" by code_simp
  show "''a note'' = ev_UserAgent sampleEvent \<or> ''a note'' = ev_SourceIP sampleEvent \<or>
      ''a note'' \<in> set (freeTexts (ts_Schema sampleSpec) (ev_Payload sampleEvent))"
    by code_simp
qed

lemma BuildRow_columns:
  assumes "BuildRow reg uuid marshal e trail sc recordedAt = Inr row"
  shows "trailScope trail sc \<and> ScopeClass trail sc = Inr (ro_ScopeClass row) \<and> ro_OrgID row = s_Org sc \<and>
         ro_ProjectID row = optional (s_Project sc) \<and> ro_EnvID row = optional (s_Env sc)"
  using assms by (auto simp: BuildRow_def Validate_def split: if_splits option.splits)

text \<open>
  A stored row's scope columns and class agree. The row of an accepted event on the tenant
  trail names an organization, its class is the depth of the proof's chain, and the nullable
  project and environment columns are filled down to exactly that depth; on the instance trail
  no tenant column is filled.
\<close>

theorem BuildRow_scope_shape:
  assumes "BuildRow reg uuid marshal e trail sc recordedAt = Inr row"
  shows "(trail = TrailTenant \<and> ro_OrgID row \<noteq> [] \<and>
           (ro_ScopeClass row, ro_ProjectID row \<noteq> None, ro_EnvID row \<noteq> None) \<in>
             {(''org'', False, False), (''project'', True, False), (''env'', True, True)}) \<or>
         (trail = TrailInstance \<and> ro_ScopeClass row = ''instance'' \<and> ro_OrgID row = [] \<and>
           ro_ProjectID row = None \<and> ro_EnvID row = None)"
proof -
  from BuildRow_columns [OF assms] have v: "trailScope trail sc" and cls: "ScopeClass trail sc = Inr (ro_ScopeClass row)"
    and row: "ro_OrgID row = s_Org sc"
      "ro_ProjectID row = optional (s_Project sc)" "ro_EnvID row = optional (s_Env sc)"
    by simp_all
  show ?thesis
  proof (cases "trail = TrailTenant")
    case True
    with v obtain l where l: "Scope_Level sc = Inr l" "s_Org sc \<noteq> []"
      by (auto simp: trailScope_def isOk_iff)
    with True cls row show ?thesis
      by (auto simp: ScopeClass_def Scope_Level_def optional_def split: if_splits)
  next
    case False
    with v cls row show ?thesis
      by (auto simp: trailScope_def ScopeClass_def mkScope_def optional_def split: if_splits)
  qed
qed

theorem BuildRow_scope_shape_witness:
  "\<exists>row. BuildRow sampleRegistry sampleUUID (\<lambda>_. Inr ''{}'') sampleEvent TrailTenant (mkScope ''org'' ''web'' []) 5 = Inr row \<and>
     ro_ScopeClass row = ''project'' \<and> ro_OrgID row \<noteq> []"
proof -
  have "isOk (BuildRow sampleRegistry sampleUUID (\<lambda>_. Inr ''{}'') sampleEvent TrailTenant (mkScope ''org'' ''web'' []) 5)"
    by code_simp
  then obtain row where row: "BuildRow sampleRegistry sampleUUID (\<lambda>_. Inr ''{}'') sampleEvent TrailTenant
      (mkScope ''org'' ''web'' []) 5 = Inr row"
    by (auto simp: isOk_iff)
  then have "ro_ProjectID row = Some ''web''" "ro_EnvID row = None"
    using BuildRow_columns [OF row] by (simp_all add: optional_def mkScope_def)
  with BuildRow_scope_shape [OF row] row show ?thesis by auto
qed

text \<open>
  Attribution is the server's. Under a principal-backed authority no emitted actor class is
  taken over: a recorded human or machine actor is the emitted principal whose stored kind says
  so, and an actor recorded as unauthenticated has no stored kind. A failing lookup writes
  nothing.
\<close>

theorem actor_attribution:
  assumes "ResolveActorClass kindOf a False = Inr b"
  shows "ac_Class a = [] \<and>
     (ac_ID b = ac_ID a \<and> ac_Class b = ActorHuman \<and> kindOf (ac_ID a) = Inr ''human'' \<or>
      ac_ID b = ac_ID a \<and> ac_Class b = ActorMachine \<and> kindOf (ac_ID a) = Inr ''machine'' \<or>
      ac_ID b = [] \<and> ac_Class b = ActorUnauthenticated \<and> (ac_ID a = [] \<or> kindOf (ac_ID a) = Inl ErrNotFound))"
  using assms by (auto simp: ResolveActorClass_def split: if_splits sum.splits)

theorem actor_attribution_witness:
  "\<exists>b. ResolveActorClass (\<lambda>_. Inr ''machine'') \<lparr>ac_ID = ''ci'', ac_Class = [], ac_CredentialID = []\<rparr> False = Inr b \<and>
     ac_Class b = ActorMachine"
  using actor_attribution [of "\<lambda>_. Inr ''machine''" "\<lparr>ac_ID = ''ci'', ac_Class = [], ac_CredentialID = []\<rparr>"]
  by (simp add: ResolveActorClass_def)


section \<open>One refusal per request\<close>

datatype receipt_op = Note bool string | SetOp string | MarkDedicated

fun receiptStep :: "refusalReceipt \<Rightarrow> receipt_op \<Rightarrow> refusalReceipt" where
  "receiptStep r (Note probe stage) = NoteRefusal probe stage r"
| "receiptStep r (SetOp operation) = SetRefusalOperation operation r"
| "receiptStep r MarkDedicated = MarkDedicatedRefusal r"

text \<open>The notes that count: an artifact probe claims nothing.\<close>

fun effectiveNotes :: "receipt_op list \<Rightarrow> string list" where
  "effectiveNotes [] = []"
| "effectiveNotes (Note probe stage # ops) =
    (if probe \<and> stage = RefusalArtifact then effectiveNotes ops else stage # effectiveNotes ops)"
| "effectiveNotes (_ # ops) = effectiveNotes ops"

definition decidingStage :: "string \<Rightarrow> string list \<Rightarrow> string" where
  "decidingStage s notes =
    (if RefusalAdmission \<in> set notes then RefusalAdmission
     else if s \<noteq> [] then s
     else case notes of [] \<Rightarrow> [] | n # _ \<Rightarrow> n)"

lemma receipt_run:
  assumes "[] \<notin> set (effectiveNotes ops)"
  shows "rs_Stage (rr_sample (foldl receiptStep r ops)) = decidingStage (rs_Stage (rr_sample r)) (effectiveNotes ops) \<and>
         rr_dedicated (foldl receiptStep r ops) = (rr_dedicated r \<or> MarkDedicated \<in> set ops)"
  using assms
proof (induction ops arbitrary: r)
  case (Cons x ops)
  then show ?case
    by (cases x) (auto simp: NoteRefusal_def SetRefusalOperation_def MarkDedicatedRefusal_def decidingStage_def
                       split: list.splits if_splits)
qed (simp add: decidingStage_def)

text \<open>
  A request contributes at most one refusal and it is the deciding one. After any sequence
  of notes, operation updates and commit receipts, a refusal is pending exactly when some note
  counted and no dedicated event committed, and its stage is admission if admission was noted
  at all, otherwise the first stage noted.
\<close>

theorem pending_refusal_stage:
  assumes "[] \<notin> set (effectiveNotes ops)"
    and "r = foldl receiptStep (WithRefusalReceipt source requestID) ops"
  shows "snd (PendingRefusal r) = (effectiveNotes ops \<noteq> [] \<and> MarkDedicated \<notin> set ops) \<and>
         rs_Stage (fst (PendingRefusal r)) =
           (if RefusalAdmission \<in> set (effectiveNotes ops) then RefusalAdmission
            else if effectiveNotes ops = [] then [] else hd (effectiveNotes ops))"
  using receipt_run [OF assms(1), of "WithRefusalReceipt source requestID"] assms
  by (cases "effectiveNotes ops")
     (auto simp: PendingRefusal_def WithRefusalReceipt_def decidingStage_def)

theorem pending_refusal_stage_witness:
  "rs_Stage (fst (PendingRefusal (foldl receiptStep (WithRefusalReceipt ''10.0.0.1'' ''id'')
     [Note True RefusalArtifact, Note False RefusalCSRF, SetOp ''value.read'', Note False RefusalAdmission]))) = RefusalAdmission"
  using pending_refusal_stage
    [of "[Note True RefusalArtifact, Note False RefusalCSRF, SetOp ''value.read'', Note False RefusalAdmission]"
        _ "''10.0.0.1''" "''id''"]
  by simp


section \<open>The refusal window\<close>

fun addAll :: "UUIDParse \<Rightarrow> RefusalSample list \<Rightarrow> RefusalWindow \<Rightarrow> RefusalWindow option" where
  "addAll uuid [] w = Some w"
| "addAll uuid (s # ss) w = (case RefusalWindow_Add uuid s w of None \<Rightarrow> None | Some w' \<Rightarrow> addAll uuid ss w')"

lemma RefusalStages_length [simp]: "length RefusalStages = 5"
  by (simp add: RefusalStages_def)

lemma refusalStageIndex_less: "refusalStageIndex stage = Some i \<Longrightarrow> i < 5 \<and> RefusalStages ! i = stage"
  by (auto simp: refusalStageIndex_def find_Some_iff)

lemma refusalStageIndex_inj: "refusalStageIndex a = Some i \<Longrightarrow> refusalStageIndex b = Some i \<Longrightarrow> a = b"
  using refusalStageIndex_less by metis

lemma int64_id: "- (2 ^ 63) \<le> x \<Longrightarrow> x \<le> MaxInt64 \<Longrightarrow> int64 x = x"
  by (simp add: int64_def MaxInt64_def)

lemma sampledAt_snoc: "sampledAt (ss @ [s]) i = sampledAt ss i + (if refusalStageIndex (rs_Stage s) = Some i then 1 else 0)"
  by (simp add: sampledAt_def)

lemma sampledAt_take: "sampledAt (take n ss) i \<le> sampledAt ss i"
  unfolding sampledAt_def
  by (metis append_take_drop_id filter_append le_add1 length_append)

text \<open>The window after the samples \<open>ss\<close> were added to a fresh one.\<close>

definition windowOf :: "RefusalSample list \<Rightarrow> RefusalWindow" where
  "windowOf ss = \<lparr>rw_Counts = map (\<lambda>i. int (sampledAt ss i)) [0..<5], rw_Samples = take RefusalSampleLimit ss\<rparr>"

lemma sampledAt_le: "sampledAt ss i \<le> length ss"
  by (simp add: sampledAt_def)

lemma Add_windowOf:
  assumes "RefusalSample_Validate uuid s" "int (length ss) < MaxInt64"
  shows "RefusalWindow_Add uuid s (windowOf ss) = Some (windowOf (ss @ [s]))"
proof -
  from assms(1) obtain i where i: "refusalStageIndex (rs_Stage s) = Some i"
    by (auto simp: RefusalSample_Validate_def)
  then have i5: "i < 5" using refusalStageIndex_less by blast
  have bound: "int (sampledAt ss i) < MaxInt64"
    using assms(2) sampledAt_le [of ss i] by simp
  then have "int64 (int (sampledAt ss i) + 1) = int (sampledAt ss i) + 1"
    by (intro int64_id) simp_all
  moreover have "(map (\<lambda>j. int (sampledAt ss j)) [0..<5])[i := int (sampledAt ss i) + 1] =
      map (\<lambda>j. int (sampledAt (ss @ [s]) j)) [0..<5]"
    using i i5 by (intro nth_equalityI) (auto simp: nth_list_update sampledAt_snoc)
  ultimately show ?thesis
    using assms(1) i i5 bound by (auto simp: RefusalWindow_Add_def windowOf_def)
qed

lemma windowOf_valid:
  assumes "list_all (RefusalSample_Validate uuid) ss"
  shows "RefusalWindow_Validate uuid (windowOf ss)"
  using assms sampledAt_take [of RefusalSampleLimit ss]
  by (auto simp: RefusalWindow_Validate_def windowOf_def list_all_iff dest: in_set_takeD)

lemma addAll_windowOf:
  assumes "list_all (RefusalSample_Validate uuid) ss" "int (length done + length ss) \<le> MaxInt64"
  shows "addAll uuid ss (windowOf done) = Some (windowOf (done @ ss))"
  using assms
proof (induction ss arbitrary: "done")
  case (Cons s ss)
  then show ?case
    using Add_windowOf [of uuid s "done"] Cons.IH [of "done @ [s]"] by simp
qed simp

lemma NewRefusalWindow_windowOf: "NewRefusalWindow = windowOf []"
  by (simp add: NewRefusalWindow_def windowOf_def sampledAt_def map_replicate_const)

text \<open>
  The refusal window counts exactly. Adding valid samples to a fresh window, up to the
  counter's range, always succeeds; the result passes the window's own validation, each stage's
  counter is the number of samples added for it, and the retained samples are the first ones
  up to the limit.
\<close>

theorem refusal_window_exact:
  assumes "list_all (RefusalSample_Validate uuid) ss" "int (length ss) \<le> MaxInt64"
  shows "\<exists>w. addAll uuid ss NewRefusalWindow = Some w \<and> RefusalWindow_Validate uuid w \<and>
           rw_Counts w = map (\<lambda>stage. int (length (filter (\<lambda>s. rs_Stage s = stage) ss))) RefusalStages \<and>
           rw_Samples w = take RefusalSampleLimit ss"
proof -
  have "sampledAt ss i = length (filter (\<lambda>s. rs_Stage s = RefusalStages ! i) ss)" if "i < 5" for i
  proof -
    have "refusalStageIndex (RefusalStages ! i) = Some i"
      using that by (auto simp: refusalStageIndex_def RefusalStages_def less_Suc_eq numeral_eq_Suc)
    then show ?thesis
      unfolding sampledAt_def by (metis refusalStageIndex_inj)
  qed
  then have "rw_Counts (windowOf ss) = map (\<lambda>stage. int (length (filter (\<lambda>s. rs_Stage s = stage) ss))) RefusalStages"
    by (intro nth_equalityI) (auto simp: windowOf_def)
  with addAll_windowOf [OF assms(1), of "[]"] windowOf_valid [OF assms(1)] assms(2) show ?thesis
    by (simp add: NewRefusalWindow_windowOf) (simp add: windowOf_def)
qed

theorem refusal_window_exact_witness:
  "\<exists>w. addAll sampleUUID [sampleRefusal, sampleRefusal] NewRefusalWindow = Some w \<and>
     RefusalWindow_Validate sampleUUID w \<and> rw_Counts w = [0, 0, 0, 2, 0]"
  using refusal_window_exact [of sampleUUID "[sampleRefusal, sampleRefusal]"] sampleRefusal_valid
  by (auto simp: MaxInt64_def RefusalStages_def sampleRefusal_def)

end
