(* ===== verification/AuditEvents.thy ===== *)
theory AuditEvents
  imports AuditTrail
begin

text \<open>
  The closed event catalogue (\<^verbatim>\<open>internal/audit/registry.go\<close>, \<^verbatim>\<open>privacy.go\<close>): one row per
  event type, with the payload schema, retention class, licensed outcomes and trails the code
  gives it, in the order of the source. Each part of the table is a definition of its own.
\<close>

section \<open>Event types\<close>

abbreviation EventSelfConfigMigrated :: EventType where "EventSelfConfigMigrated \<equiv> ''self_config.migrated''"
abbreviation EventSelfConfigResumed :: EventType where "EventSelfConfigResumed \<equiv> ''self_config.resumed''"
abbreviation EventSelfConfigTargetCommitted :: EventType where "EventSelfConfigTargetCommitted \<equiv> ''self_config.target_committed''"
abbreviation EventSelfConfigRecovered :: EventType where "EventSelfConfigRecovered \<equiv> ''self_config.recovered''"
abbreviation EventSelfConfigStatusRead :: EventType where "EventSelfConfigStatusRead \<equiv> ''self_config.status_read''"
abbreviation EventSelfConfigAdopted :: EventType where "EventSelfConfigAdopted \<equiv> ''self_config.adopted''"
abbreviation EventSelfConfigApplyRequested :: EventType where "EventSelfConfigApplyRequested \<equiv> ''self_config.apply_requested''"
abbreviation EventSelfConfigDeploymentRestoreRequested :: EventType where "EventSelfConfigDeploymentRestoreRequested \<equiv> ''self_config.deployment_restore_requested''"
abbreviation EventSelfConfigTestRequested :: EventType where "EventSelfConfigTestRequested \<equiv> ''self_config.test_requested''"
abbreviation EventSelfConfigTestCompleted :: EventType where "EventSelfConfigTestCompleted \<equiv> ''self_config.test_completed''"
abbreviation EventSelfConfigProjectPrepared :: EventType where "EventSelfConfigProjectPrepared \<equiv> ''self_config.project_prepared''"
abbreviation EventSelfConfigApplied :: EventType where "EventSelfConfigApplied \<equiv> ''self_config.applied''"
abbreviation EventSelfConfigRecoveryFenced :: EventType where "EventSelfConfigRecoveryFenced \<equiv> ''self_config.recovery_fenced''"
abbreviation EventGrantDenied :: EventType where "EventGrantDenied \<equiv> ''grant.denied''"
abbreviation EventAuditQuery :: EventType where "EventAuditQuery \<equiv> ''audit.query''"
abbreviation EventAuditExportStarted :: EventType where "EventAuditExportStarted \<equiv> ''audit.export_started''"
abbreviation EventAuditExportCompleted :: EventType where "EventAuditExportCompleted \<equiv> ''audit.export_completed''"
abbreviation EventAuthLogin :: EventType where "EventAuthLogin \<equiv> ''auth.login''"
abbreviation EventAuthLogout :: EventType where "EventAuthLogout \<equiv> ''auth.logout''"
abbreviation EventAuthArtifactClassRefused :: EventType where "EventAuthArtifactClassRefused \<equiv> ''auth.artifact_class_refused''"
abbreviation EventAuthSessionCreated :: EventType where "EventAuthSessionCreated \<equiv> ''auth.session_created''"
abbreviation EventAuthAuthorityMinted :: EventType where "EventAuthAuthorityMinted \<equiv> ''auth.credential_authority_minted''"
abbreviation EventAuthCredentialEstablished :: EventType where "EventAuthCredentialEstablished \<equiv> ''auth.credential_established''"
abbreviation EventAuthAuthorityRefused :: EventType where "EventAuthAuthorityRefused \<equiv> ''auth.credential_authority_refused''"
abbreviation EventAuthThrottleCrossed :: EventType where "EventAuthThrottleCrossed \<equiv> ''auth.throttle_crossed''"
abbreviation EventAuthFactorEnrolled :: EventType where "EventAuthFactorEnrolled \<equiv> ''auth.factor_enrolled''"
abbreviation EventAuthFactorRemoved :: EventType where "EventAuthFactorRemoved \<equiv> ''auth.factor_removed''"
abbreviation EventAuthProfileUpdated :: EventType where "EventAuthProfileUpdated \<equiv> ''auth.profile_updated''"
abbreviation EventAuthRecoveryCodesGenerated :: EventType where "EventAuthRecoveryCodesGenerated \<equiv> ''auth.recovery_codes_generated''"
abbreviation EventAuthRecoveryCodeConsumed :: EventType where "EventAuthRecoveryCodeConsumed \<equiv> ''auth.recovery_code_consumed''"
abbreviation EventAuthReauthenticated :: EventType where "EventAuthReauthenticated \<equiv> ''auth.reauthenticated''"
abbreviation EventAuthCLIReauthHandoff :: EventType where "EventAuthCLIReauthHandoff \<equiv> ''auth.cli_reauth_handoff''"
abbreviation EventAuthPasskeyAdded :: EventType where "EventAuthPasskeyAdded \<equiv> ''auth.passkey_added''"
abbreviation EventAuthPasskeyRemoved :: EventType where "EventAuthPasskeyRemoved \<equiv> ''auth.passkey_removed''"
abbreviation EventAuthPasskeyCloned :: EventType where "EventAuthPasskeyCloned \<equiv> ''auth.passkey_cloned''"
abbreviation EventAuthPasswordChanged :: EventType where "EventAuthPasswordChanged \<equiv> ''auth.password_changed''"
abbreviation EventCredentialEstablish :: EventType where "EventCredentialEstablish \<equiv> ''auth.credential_establish''"
abbreviation EventOAuth2Login :: EventType where "EventOAuth2Login \<equiv> ''auth.oauth2_login''"
abbreviation EventOAuth2Refused :: EventType where "EventOAuth2Refused \<equiv> ''auth.oauth2_refused''"
abbreviation EventOIDCLogin :: EventType where "EventOIDCLogin \<equiv> ''auth.oidc_login''"
abbreviation EventOIDCRefused :: EventType where "EventOIDCRefused \<equiv> ''auth.oidc_refused''"
abbreviation EventIdentityLinked :: EventType where "EventIdentityLinked \<equiv> ''auth.identity_linked''"
abbreviation EventIdentityUnlinked :: EventType where "EventIdentityUnlinked \<equiv> ''auth.identity_unlinked''"
abbreviation EventOIDCProviderChanged :: EventType where "EventOIDCProviderChanged \<equiv> ''auth.provider_changed''"
abbreviation EventOIDCProviderRead :: EventType where "EventOIDCProviderRead \<equiv> ''auth.provider_read''"
abbreviation EventSAMLLogin :: EventType where "EventSAMLLogin \<equiv> ''auth.saml_login''"
abbreviation EventSAMLReauth :: EventType where "EventSAMLReauth \<equiv> ''auth.saml_reauth''"
abbreviation EventSAMLProviderConfigure :: EventType where "EventSAMLProviderConfigure \<equiv> ''auth.saml_provider_configure''"
abbreviation EventSAMLProviderRefresh :: EventType where "EventSAMLProviderRefresh \<equiv> ''auth.saml_provider_refresh''"
abbreviation EventSAMLProviderRemove :: EventType where "EventSAMLProviderRemove \<equiv> ''auth.saml_provider_remove''"
abbreviation EventSAMLCertChange :: EventType where "EventSAMLCertChange \<equiv> ''auth.saml_cert_change''"
abbreviation EventSAMLEmailNameIDOptIn :: EventType where "EventSAMLEmailNameIDOptIn \<equiv> ''auth.saml_nameid_email_optin''"
abbreviation EventSAMLSPKey :: EventType where "EventSAMLSPKey \<equiv> ''auth.saml_sp_key''"
abbreviation EventSAMLMetadataExpiryWarning :: EventType where "EventSAMLMetadataExpiryWarning \<equiv> ''auth.saml_metadata_expiry_warning''"
abbreviation EventAuthCredentialResetIssued :: EventType where "EventAuthCredentialResetIssued \<equiv> ''auth.credential_reset_issued''"
abbreviation EventAuthEffectiveWindowLowered :: EventType where "EventAuthEffectiveWindowLowered \<equiv> ''auth.effective_window_lowered''"
abbreviation EventOrgCreated :: EventType where "EventOrgCreated \<equiv> ''settings.org_created''"
abbreviation EventOrgRenamed :: EventType where "EventOrgRenamed \<equiv> ''settings.org_renamed''"
abbreviation EventOrgDeleted :: EventType where "EventOrgDeleted \<equiv> ''settings.org_deleted''"
abbreviation EventOrgRead :: EventType where "EventOrgRead \<equiv> ''settings.org_read''"
abbreviation EventProjectCreated :: EventType where "EventProjectCreated \<equiv> ''settings.project_created''"
abbreviation EventProjectRenamed :: EventType where "EventProjectRenamed \<equiv> ''settings.project_renamed''"
abbreviation EventProjectDeleted :: EventType where "EventProjectDeleted \<equiv> ''settings.project_deleted''"
abbreviation EventEnvCreated :: EventType where "EventEnvCreated \<equiv> ''settings.environment_created''"
abbreviation EventEnvParameterChanged :: EventType where "EventEnvParameterChanged \<equiv> ''settings.environment_parameter_changed''"
abbreviation EventEnvRenamed :: EventType where "EventEnvRenamed \<equiv> ''settings.environment_renamed''"
abbreviation EventEnvDeleted :: EventType where "EventEnvDeleted \<equiv> ''settings.environment_deleted''"
abbreviation EventEnvReordered :: EventType where "EventEnvReordered \<equiv> ''settings.environment_reordered''"
abbreviation EventEnvNoteChanged :: EventType where "EventEnvNoteChanged \<equiv> ''settings.environment_note_changed''"
abbreviation EventFolderCreated :: EventType where "EventFolderCreated \<equiv> ''settings.folder_created''"
abbreviation EventFolderRenamed :: EventType where "EventFolderRenamed \<equiv> ''settings.folder_renamed''"
abbreviation EventFolderDeleted :: EventType where "EventFolderDeleted \<equiv> ''settings.folder_deleted''"
abbreviation EventGrantCreated :: EventType where "EventGrantCreated \<equiv> ''grant.created''"
abbreviation EventGrantModified :: EventType where "EventGrantModified \<equiv> ''grant.modified''"
abbreviation EventGrantRevoked :: EventType where "EventGrantRevoked \<equiv> ''grant.revoked''"
abbreviation EventGrantTemplateApplied :: EventType where "EventGrantTemplateApplied \<equiv> ''grant.template_applied''"
abbreviation EventRuleCreated :: EventType where "EventRuleCreated \<equiv> ''rule.created''"
abbreviation EventRuleRevoked :: EventType where "EventRuleRevoked \<equiv> ''rule.revoked''"
abbreviation EventRuleMoveWideningConfirmed :: EventType where "EventRuleMoveWideningConfirmed \<equiv> ''rule.move_widening_confirmed''"
abbreviation EventGrantMembershipRead :: EventType where "EventGrantMembershipRead \<equiv> ''grant.membership_read''"
abbreviation EventMemberInvited :: EventType where "EventMemberInvited \<equiv> ''member.invited''"
abbreviation EventRegistrationPolicyCreated :: EventType where "EventRegistrationPolicyCreated \<equiv> ''registration.policy_created''"
abbreviation EventRegistrationPolicyUpdated :: EventType where "EventRegistrationPolicyUpdated \<equiv> ''registration.policy_updated''"
abbreviation EventRegistrationPolicyDeleted :: EventType where "EventRegistrationPolicyDeleted \<equiv> ''registration.policy_deleted''"
abbreviation EventRegistrationSignupExpired :: EventType where "EventRegistrationSignupExpired \<equiv> ''registration.signup_expired''"
abbreviation EventRegistrationSignupAdmitted :: EventType where "EventRegistrationSignupAdmitted \<equiv> ''registration.signup_admitted''"
abbreviation EventRegistrationSignupRefused :: EventType where "EventRegistrationSignupRefused \<equiv> ''registration.signup_refused''"
abbreviation EventRegistrationSignupCompleted :: EventType where "EventRegistrationSignupCompleted \<equiv> ''registration.signup_completed''"
abbreviation EventRegistrationMailIntent :: EventType where "EventRegistrationMailIntent \<equiv> ''registration.mail_intent''"
abbreviation EventRegistrationMailOutcome :: EventType where "EventRegistrationMailOutcome \<equiv> ''registration.mail_outcome''"
abbreviation EventRegistrationMailStatusRead :: EventType where "EventRegistrationMailStatusRead \<equiv> ''registration.mail_status_read''"
abbreviation EventReauthWindowChanged :: EventType where "EventReauthWindowChanged \<equiv> ''settings.reauthentication_window_changed''"
abbreviation EventProtectedFlagChange :: EventType where "EventProtectedFlagChange \<equiv> ''settings.protected_flag_changed''"
abbreviation EventOrgRetentionChanged :: EventType where "EventOrgRetentionChanged \<equiv> ''settings.org_retention_changed''"
abbreviation EventProjectRetentionChanged :: EventType where "EventProjectRetentionChanged \<equiv> ''settings.project_retention_changed''"
abbreviation EventProjectCapacityChanged :: EventType where "EventProjectCapacityChanged \<equiv> ''project.capacity_changed''"
abbreviation EventAuditRetentionChanged :: EventType where "EventAuditRetentionChanged \<equiv> ''retention.audit_policy_changed''"
abbreviation EventAuditRetentionPruned :: EventType where "EventAuditRetentionPruned \<equiv> ''retention.audit_pruned''"
abbreviation EventRetentionHealthRead :: EventType where "EventRetentionHealthRead \<equiv> ''retention.health_read''"
abbreviation EventRetentionPayloadGC :: EventType where "EventRetentionPayloadGC \<equiv> ''retention.payload_gc''"
abbreviation EventRetentionPruneRun :: EventType where "EventRetentionPruneRun \<equiv> ''retention.prune_run''"
abbreviation EventUpdateStatusRead :: EventType where "EventUpdateStatusRead \<equiv> ''system.update_status_read''"
abbreviation EventUpdateRequested :: EventType where "EventUpdateRequested \<equiv> ''system.update_requested''"
abbreviation EventUpdateOutcome :: EventType where "EventUpdateOutcome \<equiv> ''system.update_outcome''"
abbreviation EventBreakGlassGrant :: EventType where "EventBreakGlassGrant \<equiv> ''recovery.break_glass_grant''"
abbreviation EventApprovalPolicyChanged :: EventType where "EventApprovalPolicyChanged \<equiv> ''approval.policy_changed''"
abbreviation EventApprovalPolicyRead :: EventType where "EventApprovalPolicyRead \<equiv> ''approval.policy_read''"
abbreviation EventApprovalRequested :: EventType where "EventApprovalRequested \<equiv> ''approval.requested''"
abbreviation EventApprovalVoted :: EventType where "EventApprovalVoted \<equiv> ''approval.voted''"
abbreviation EventApprovalMerged :: EventType where "EventApprovalMerged \<equiv> ''approval.merged''"
abbreviation EventApprovalInvalidated :: EventType where "EventApprovalInvalidated \<equiv> ''approval.invalidated''"
abbreviation EventApprovalExpired :: EventType where "EventApprovalExpired \<equiv> ''approval.expired''"
abbreviation EventApprovalBypassed :: EventType where "EventApprovalBypassed \<equiv> ''approval.bypassed''"
abbreviation EventAccessPolicyChanged :: EventType where "EventAccessPolicyChanged \<equiv> ''access.policy_changed''"
abbreviation EventAccessPolicyRead :: EventType where "EventAccessPolicyRead \<equiv> ''access.policy_read''"
abbreviation EventAccessRequested :: EventType where "EventAccessRequested \<equiv> ''access.requested''"
abbreviation EventAccessVoted :: EventType where "EventAccessVoted \<equiv> ''access.voted''"
abbreviation EventAccessGranted :: EventType where "EventAccessGranted \<equiv> ''access.granted''"
abbreviation EventAccessCancelled :: EventType where "EventAccessCancelled \<equiv> ''access.cancelled''"
abbreviation EventAccessInvalidated :: EventType where "EventAccessInvalidated \<equiv> ''access.invalidated''"
abbreviation EventAccessRevoked :: EventType where "EventAccessRevoked \<equiv> ''access.revoked''"
abbreviation EventAccessExpired :: EventType where "EventAccessExpired \<equiv> ''access.expired''"
abbreviation EventAccessBypassed :: EventType where "EventAccessBypassed \<equiv> ''access.bypassed''"
abbreviation EventBackupExported :: EventType where "EventBackupExported \<equiv> ''backup.exported''"
abbreviation EventBackupExportSkipped :: EventType where "EventBackupExportSkipped \<equiv> ''backup.export_skipped''"
abbreviation EventRestoreCompleted :: EventType where "EventRestoreCompleted \<equiv> ''restore.completed''"
abbreviation EventRestorePrincipalReconciled :: EventType where "EventRestorePrincipalReconciled \<equiv> ''restore.principal_reconciled''"
abbreviation EventBackupExportFailed :: EventType where "EventBackupExportFailed \<equiv> ''backup.export_failed''"
abbreviation EventRestoreDrillCompleted :: EventType where "EventRestoreDrillCompleted \<equiv> ''restore.drill_completed''"
abbreviation EventKeyCreated :: EventType where "EventKeyCreated \<equiv> ''settings.key_created''"
abbreviation EventKeyRenamed :: EventType where "EventKeyRenamed \<equiv> ''settings.key_renamed''"
abbreviation EventKeyDeleted :: EventType where "EventKeyDeleted \<equiv> ''settings.key_deleted''"
abbreviation EventKeyDeclarationChanged :: EventType where "EventKeyDeclarationChanged \<equiv> ''settings.key_declaration_changed''"
abbreviation EventKeyMetadataChanged :: EventType where "EventKeyMetadataChanged \<equiv> ''settings.key_metadata_changed''"
abbreviation EventKeyReclassified :: EventType where "EventKeyReclassified \<equiv> ''settings.key_reclassified''"
abbreviation EventKeyRevealGateAttempt :: EventType where "EventKeyRevealGateAttempt \<equiv> ''settings.key_reveal_gate_attempt''"
abbreviation EventDefinitionsPlanCreated :: EventType where "EventDefinitionsPlanCreated \<equiv> ''definitions.plan_created''"
abbreviation EventDefinitionsApplied :: EventType where "EventDefinitionsApplied \<equiv> ''definitions.applied''"
abbreviation EventDefinitionsApplyRejectedStale :: EventType where "EventDefinitionsApplyRejectedStale \<equiv> ''definitions.apply_rejected_stale''"
abbreviation EventDefinitionsDeletionRefused :: EventType where "EventDefinitionsDeletionRefused \<equiv> ''definitions.deletion_refused''"
abbreviation EventDefinitionsAdditiveModificationRefused :: EventType where "EventDefinitionsAdditiveModificationRefused \<equiv> ''definitions.additive_modification_refused''"
abbreviation EventSettingsDefinitionsSourceChanged :: EventType where "EventSettingsDefinitionsSourceChanged \<equiv> ''settings.definitions_source_changed''"
abbreviation EventSettingsMachineRevealChanged :: EventType where "EventSettingsMachineRevealChanged \<equiv> ''settings.machine_reveal_changed''"
abbreviation EventValueSet :: EventType where "EventValueSet \<equiv> ''value.set''"
abbreviation EventValueCleared :: EventType where "EventValueCleared \<equiv> ''value.cleared''"
abbreviation EventValueRevealed :: EventType where "EventValueRevealed \<equiv> ''disclosure.value_revealed''"
abbreviation EventValuesExported :: EventType where "EventValuesExported \<equiv> ''disclosure.values_exported''"
abbreviation EventValueStaged :: EventType where "EventValueStaged \<equiv> ''value.staged''"
abbreviation EventValueChangeValidated :: EventType where "EventValueChangeValidated \<equiv> ''value.change_validated''"
abbreviation EventRevisionPublished :: EventType where "EventRevisionPublished \<equiv> ''revision.published''"
abbreviation EventRevisionRestoreStaged :: EventType where "EventRevisionRestoreStaged \<equiv> ''revision.restore_staged''"
abbreviation EventPinCreated :: EventType where "EventPinCreated \<equiv> ''pin.created''"
abbreviation EventPinReassigned :: EventType where "EventPinReassigned \<equiv> ''pin.reassigned''"
abbreviation EventPinRenewed :: EventType where "EventPinRenewed \<equiv> ''pin.renewed''"
abbreviation EventPinReleased :: EventType where "EventPinReleased \<equiv> ''pin.released''"
abbreviation EventPinExpiryRefused :: EventType where "EventPinExpiryRefused \<equiv> ''pin.expiry_refused''"
abbreviation EventTokenKeyRotated :: EventType where "EventTokenKeyRotated \<equiv> ''crypto.token_key_rotated''"
abbreviation EventScanningKeyRotated :: EventType where "EventScanningKeyRotated \<equiv> ''crypto.scanning_key_rotated''"
abbreviation EventScanningFindingWarned :: EventType where "EventScanningFindingWarned \<equiv> ''scanning.finding_warned''"
abbreviation EventScanningFindingDismissed :: EventType where "EventScanningFindingDismissed \<equiv> ''scanning.finding_dismissed''"
abbreviation EventScanningFindingBlocked :: EventType where "EventScanningFindingBlocked \<equiv> ''scanning.finding_blocked''"
abbreviation EventScanningFindingOverridden :: EventType where "EventScanningFindingOverridden \<equiv> ''scanning.finding_overridden''"
abbreviation EventDEKRotated :: EventType where "EventDEKRotated \<equiv> ''crypto.dek_rotated''"
abbreviation EventReencryptCompleted :: EventType where "EventReencryptCompleted \<equiv> ''crypto.reencrypt_completed''"
abbreviation EventMasterKeyRotated :: EventType where "EventMasterKeyRotated \<equiv> ''crypto.master_key_rotated''"
abbreviation EventRootEscrowVerified :: EventType where "EventRootEscrowVerified \<equiv> ''crypto.root_escrow_verified''"
abbreviation EventRootKeyRotationPrepared :: EventType where "EventRootKeyRotationPrepared \<equiv> ''crypto.root_key_rotation_prepared''"
abbreviation EventRootKeyRotationVerified :: EventType where "EventRootKeyRotationVerified \<equiv> ''crypto.root_key_rotation_verified''"
abbreviation EventRootKeyRotationFinalized :: EventType where "EventRootKeyRotationFinalized \<equiv> ''crypto.root_key_rotation_finalized''"
abbreviation EventValueCopied :: EventType where "EventValueCopied \<equiv> ''disclosure.value_copied''"
abbreviation EventValueImported :: EventType where "EventValueImported \<equiv> ''value.imported''"
abbreviation EventKeyGroupCreated :: EventType where "EventKeyGroupCreated \<equiv> ''settings.key_group_created''"
abbreviation EventKeyGroupRenamed :: EventType where "EventKeyGroupRenamed \<equiv> ''settings.key_group_renamed''"
abbreviation EventKeyGroupDeleted :: EventType where "EventKeyGroupDeleted \<equiv> ''settings.key_group_deleted''"
abbreviation EventKeyGroupMembershipChanged :: EventType where "EventKeyGroupMembershipChanged \<equiv> ''settings.key_group_membership_changed''"
abbreviation EventServiceAccountCreated :: EventType where "EventServiceAccountCreated \<equiv> ''identity.service_account_created''"
abbreviation EventServiceAccountDeleted :: EventType where "EventServiceAccountDeleted \<equiv> ''identity.service_account_deleted''"
abbreviation EventCredentialMinted :: EventType where "EventCredentialMinted \<equiv> ''identity.credential_minted''"
abbreviation EventDeveloperCredentialMintRefused :: EventType where "EventDeveloperCredentialMintRefused \<equiv> ''identity.developer_credential_mint_refused''"
abbreviation EventDeveloperCredentialMinted :: EventType where "EventDeveloperCredentialMinted \<equiv> ''identity.developer_credential_minted''"
abbreviation EventDeveloperCredentialRevoked :: EventType where "EventDeveloperCredentialRevoked \<equiv> ''identity.developer_credential_revoked''"
abbreviation EventDeveloperCredentialsListed :: EventType where "EventDeveloperCredentialsListed \<equiv> ''identity.developer_credentials_listed''"
abbreviation EventDeveloperCredentialPolicyRead :: EventType where "EventDeveloperCredentialPolicyRead \<equiv> ''identity.developer_credential_policy_read''"
abbreviation EventDeveloperCredentialPolicyChanged :: EventType where "EventDeveloperCredentialPolicyChanged \<equiv> ''identity.developer_credential_policy_changed''"
abbreviation EventCredentialRevoked :: EventType where "EventCredentialRevoked \<equiv> ''identity.credential_revoked''"
abbreviation EventMachineGrantWidened :: EventType where "EventMachineGrantWidened \<equiv> ''identity.grant_widened''"
abbreviation EventCredentialPolicyChanged :: EventType where "EventCredentialPolicyChanged \<equiv> ''identity.lifetime_policy_changed''"
abbreviation EventCredentialsListed :: EventType where "EventCredentialsListed \<equiv> ''identity.credentials_listed''"
abbreviation EventCredentialPolicyRead :: EventType where "EventCredentialPolicyRead \<equiv> ''identity.lifetime_policy_read''"
abbreviation EventBindingCreated :: EventType where "EventBindingCreated \<equiv> ''identity.binding_created''"
abbreviation EventBindingReactivated :: EventType where "EventBindingReactivated \<equiv> ''identity.binding_reactivated''"
abbreviation EventFederationIssuerChanged :: EventType where "EventFederationIssuerChanged \<equiv> ''identity.federation_issuer_changed''"
abbreviation EventFederationIssuerRead :: EventType where "EventFederationIssuerRead \<equiv> ''identity.federation_issuer_read''"
abbreviation EventFederationRefused :: EventType where "EventFederationRefused \<equiv> ''identity.federation_refused''"
abbreviation EventJWKSRefreshFailed :: EventType where "EventJWKSRefreshFailed \<equiv> ''identity.jwks_refresh_failed''"
abbreviation EventDeliveryFetched :: EventType where "EventDeliveryFetched \<equiv> ''identity.delivery_fetched''"
abbreviation EventDeliveryTargetCreated :: EventType where "EventDeliveryTargetCreated \<equiv> ''identity.delivery_target_created''"
abbreviation EventDeliveryTargetTombstoned :: EventType where "EventDeliveryTargetTombstoned \<equiv> ''identity.delivery_target_tombstoned''"
abbreviation EventDeliveryTargetPurged :: EventType where "EventDeliveryTargetPurged \<equiv> ''identity.delivery_target_purged''"
abbreviation EventDeliveryTargetRefused :: EventType where "EventDeliveryTargetRefused \<equiv> ''identity.delivery_target_refused''"
abbreviation EventOfflineRecordsReconciled :: EventType where "EventOfflineRecordsReconciled \<equiv> ''identity.offline_records_reconciled''"
abbreviation EventDisclosure :: EventType where "EventDisclosure \<equiv> ''identity.disclosure''"
abbreviation EventSCIMUserProvisioned :: EventType where "EventSCIMUserProvisioned \<equiv> ''scim.user_provisioned''"
abbreviation EventSCIMUserUpdated :: EventType where "EventSCIMUserUpdated \<equiv> ''scim.user_updated''"
abbreviation EventSCIMUserDeprovisioned :: EventType where "EventSCIMUserDeprovisioned \<equiv> ''scim.user_deprovisioned''"
abbreviation EventSCIMUserDeleted :: EventType where "EventSCIMUserDeleted \<equiv> ''scim.user_deleted''"
abbreviation EventSCIMGroupCreated :: EventType where "EventSCIMGroupCreated \<equiv> ''scim.group_created''"
abbreviation EventSCIMGroupUpdated :: EventType where "EventSCIMGroupUpdated \<equiv> ''scim.group_updated''"
abbreviation EventSCIMGroupDeleted :: EventType where "EventSCIMGroupDeleted \<equiv> ''scim.group_deleted''"
abbreviation EventSCIMGroupMembership :: EventType where "EventSCIMGroupMembership \<equiv> ''scim.group_membership_changed''"
abbreviation EventSCIMLockoutRetention :: EventType where "EventSCIMLockoutRetention \<equiv> ''scim.lockout_retention''"
abbreviation EventSCIMLockoutRetentionReleased :: EventType where "EventSCIMLockoutRetentionReleased \<equiv> ''scim.lockout_retention_released''"
abbreviation EventSCIMBindingCreated :: EventType where "EventSCIMBindingCreated \<equiv> ''scim.binding_created''"
abbreviation EventSCIMBindingDeleted :: EventType where "EventSCIMBindingDeleted \<equiv> ''scim.binding_deleted''"
abbreviation EventSCIMMappingCreated :: EventType where "EventSCIMMappingCreated \<equiv> ''scim.mapping_created''"
abbreviation EventSCIMMappingUpdated :: EventType where "EventSCIMMappingUpdated \<equiv> ''scim.mapping_updated''"
abbreviation EventSCIMMappingDeleted :: EventType where "EventSCIMMappingDeleted \<equiv> ''scim.mapping_deleted''"
abbreviation EventSCIMCredentialMinted :: EventType where "EventSCIMCredentialMinted \<equiv> ''scim.credential_minted''"
abbreviation EventSCIMCredentialRotated :: EventType where "EventSCIMCredentialRotated \<equiv> ''scim.credential_rotated''"
abbreviation EventSCIMCredentialRevoked :: EventType where "EventSCIMCredentialRevoked \<equiv> ''scim.credential_revoked''"
abbreviation EventSCIMAttentionEntered :: EventType where "EventSCIMAttentionEntered \<equiv> ''scim.attention_entered''"
abbreviation EventSCIMAttentionCleared :: EventType where "EventSCIMAttentionCleared \<equiv> ''scim.attention_cleared''"
abbreviation EventSCIMDirectoryRead :: EventType where "EventSCIMDirectoryRead \<equiv> ''scim.directory_read''"
abbreviation EventSCIMAdminRead :: EventType where "EventSCIMAdminRead \<equiv> ''scim.admin_read''"
abbreviation EventSCIMCredentialRefused :: EventType where "EventSCIMCredentialRefused \<equiv> ''scim.credential_refused''"
abbreviation EventRemotePairingPrepared :: EventType where "EventRemotePairingPrepared \<equiv> ''remote.pairing_prepared''"
abbreviation EventRemotePairingInviteCreated :: EventType where "EventRemotePairingInviteCreated \<equiv> ''remote.pairing_invite_created''"
abbreviation EventRemotePairingInvitesListed :: EventType where "EventRemotePairingInvitesListed \<equiv> ''remote.pairing_invites_listed''"
abbreviation EventRemotePairingInviteRevoked :: EventType where "EventRemotePairingInviteRevoked \<equiv> ''remote.pairing_invite_revoked''"
abbreviation EventRemotePairingStarted :: EventType where "EventRemotePairingStarted \<equiv> ''remote.pairing_started''"
abbreviation EventRemotePairingFinished :: EventType where "EventRemotePairingFinished \<equiv> ''remote.pairing_finished''"
abbreviation EventRemotePairingFailed :: EventType where "EventRemotePairingFailed \<equiv> ''remote.pairing_failed''"
abbreviation EventRemoteAdded :: EventType where "EventRemoteAdded \<equiv> ''remote.added''"
abbreviation EventRemoteRemoved :: EventType where "EventRemoteRemoved \<equiv> ''remote.removed''"
abbreviation EventRemoteRenamed :: EventType where "EventRemoteRenamed \<equiv> ''remote.renamed''"
abbreviation EventRemoteFetchFailed :: EventType where "EventRemoteFetchFailed \<equiv> ''remote.fetch_failed''"
abbreviation EventRemoteDirectoryViewed :: EventType where "EventRemoteDirectoryViewed \<equiv> ''remote.directory_viewed''"
abbreviation EventRemoteCredentialMinted :: EventType where "EventRemoteCredentialMinted \<equiv> ''remote.credential_minted''"
abbreviation EventRemoteCredentialRevoked :: EventType where "EventRemoteCredentialRevoked \<equiv> ''remote.credential_revoked''"
abbreviation EventRemoteDirectoryServed :: EventType where "EventRemoteDirectoryServed \<equiv> ''remote.directory_served''"
abbreviation EventRemoteOriginAllowlistChanged :: EventType where "EventRemoteOriginAllowlistChanged \<equiv> ''remote.origin_allowlist_changed''"
abbreviation EventRemoteWorkspaceSessionIssued :: EventType where "EventRemoteWorkspaceSessionIssued \<equiv> ''remote.workspace_session_issued''"
abbreviation EventRemoteWorkspaceSessionRevoked :: EventType where "EventRemoteWorkspaceSessionRevoked \<equiv> ''remote.workspace_session_revoked''"
abbreviation EventRemoteHandoffFailed :: EventType where "EventRemoteHandoffFailed \<equiv> ''remote.handoff_failed''"
abbreviation EventRemoteCredentialsListed :: EventType where "EventRemoteCredentialsListed \<equiv> ''remote.credentials_listed''"
abbreviation EventRemoteOriginAllowlistRead :: EventType where "EventRemoteOriginAllowlistRead \<equiv> ''remote.origin_allowlist_read''"
abbreviation EventRemoteWorkspaceHandoffRead :: EventType where "EventRemoteWorkspaceHandoffRead \<equiv> ''remote.workspace_handoff_read''"
abbreviation EventAdapterConfigure :: EventType where "EventAdapterConfigure \<equiv> ''adapter.configure''"
abbreviation EventAdapterCredentialReplace :: EventType where "EventAdapterCredentialReplace \<equiv> ''adapter.credential_replace''"
abbreviation EventAdapterCredentialRevoke :: EventType where "EventAdapterCredentialRevoke \<equiv> ''adapter.credential_revoke''"
abbreviation EventAdapterAdopt :: EventType where "EventAdapterAdopt \<equiv> ''adapter.adopt''"
abbreviation EventAdapterInspect :: EventType where "EventAdapterInspect \<equiv> ''adapter.inspect''"
abbreviation EventAdapterPlan :: EventType where "EventAdapterPlan \<equiv> ''adapter.plan''"
abbreviation EventAdapterTest :: EventType where "EventAdapterTest \<equiv> ''adapter.test''"
abbreviation EventAdapterSyncRequested :: EventType where "EventAdapterSyncRequested \<equiv> ''adapter.sync_requested''"
abbreviation EventAdapterPushIntent :: EventType where "EventAdapterPushIntent \<equiv> ''adapter.push_intent''"
abbreviation EventAdapterPushOutcome :: EventType where "EventAdapterPushOutcome \<equiv> ''adapter.push_outcome''"
abbreviation EventAdapterKeyDelivered :: EventType where "EventAdapterKeyDelivered \<equiv> ''adapter.key_delivered''"
abbreviation EventAdapterAbort :: EventType where "EventAdapterAbort \<equiv> ''adapter.abort''"
abbreviation EventAdapterScrub :: EventType where "EventAdapterScrub \<equiv> ''adapter.scrub''"
abbreviation EventAdapterSuperseded :: EventType where "EventAdapterSuperseded \<equiv> ''adapter.superseded''"
abbreviation EventFileTargetConfigured :: EventType where "EventFileTargetConfigured \<equiv> ''file_target.configured''"
abbreviation EventFileTargetInspected :: EventType where "EventFileTargetInspected \<equiv> ''file_target.inspected''"
abbreviation EventFileTargetApplied :: EventType where "EventFileTargetApplied \<equiv> ''file_target.applied''"
abbreviation EventDynamicProviderConfigured :: EventType where "EventDynamicProviderConfigured \<equiv> ''dynamic.provider_configured''"
abbreviation EventDynamicProviderCredentialReplace :: EventType where "EventDynamicProviderCredentialReplace \<equiv> ''dynamic.provider_credential_replace''"
abbreviation EventDynamicProviderCredentialRevoke :: EventType where "EventDynamicProviderCredentialRevoke \<equiv> ''dynamic.provider_credential_revoke''"
abbreviation EventDynamicProviderDeleted :: EventType where "EventDynamicProviderDeleted \<equiv> ''dynamic.provider_deleted''"
abbreviation EventDynamicProviderInspected :: EventType where "EventDynamicProviderInspected \<equiv> ''dynamic.provider_inspected''"
abbreviation EventDynamicLeaseTransitionIntent :: EventType where "EventDynamicLeaseTransitionIntent \<equiv> ''dynamic.lease_transition_intent''"
abbreviation EventDynamicLeaseTransitionOutcome :: EventType where "EventDynamicLeaseTransitionOutcome \<equiv> ''dynamic.lease_transition_outcome''"
abbreviation EventDynamicLeaseDisclosed :: EventType where "EventDynamicLeaseDisclosed \<equiv> ''dynamic.lease_disclosed''"
abbreviation EventDynamicLeaseSettleRequested :: EventType where "EventDynamicLeaseSettleRequested \<equiv> ''dynamic.lease_settle_requested''"
abbreviation EventSSHCAConfigured :: EventType where "EventSSHCAConfigured \<equiv> ''ssh.ca_configured''"
abbreviation EventSSHCARotated :: EventType where "EventSSHCARotated \<equiv> ''ssh.ca_rotated''"
abbreviation EventSSHCAKeyRetired :: EventType where "EventSSHCAKeyRetired \<equiv> ''ssh.ca_key_retired''"
abbreviation EventSSHCADeleted :: EventType where "EventSSHCADeleted \<equiv> ''ssh.ca_deleted''"
abbreviation EventSSHProfileConfigured :: EventType where "EventSSHProfileConfigured \<equiv> ''ssh.profile_configured''"
abbreviation EventSSHProfileDeleted :: EventType where "EventSSHProfileDeleted \<equiv> ''ssh.profile_deleted''"
abbreviation EventSSHCertificateIssued :: EventType where "EventSSHCertificateIssued \<equiv> ''ssh.certificate_issued''"
abbreviation EventSSHCertificateRevoked :: EventType where "EventSSHCertificateRevoked \<equiv> ''ssh.certificate_revoked''"
abbreviation EventTransitKeyCreated :: EventType where "EventTransitKeyCreated \<equiv> ''transit.key_created''"
abbreviation EventTransitKeyConfigured :: EventType where "EventTransitKeyConfigured \<equiv> ''transit.key_configured''"
abbreviation EventTransitKeyRotated :: EventType where "EventTransitKeyRotated \<equiv> ''transit.key_rotated''"
abbreviation EventTransitKeyStateChanged :: EventType where "EventTransitKeyStateChanged \<equiv> ''transit.key_state_changed''"
abbreviation EventTransitKeyTrimmed :: EventType where "EventTransitKeyTrimmed \<equiv> ''transit.key_trimmed''"
abbreviation EventTransitKeyDestroyed :: EventType where "EventTransitKeyDestroyed \<equiv> ''transit.key_destroyed''"
abbreviation EventTransitOperation :: EventType where "EventTransitOperation \<equiv> ''transit.operation''"
abbreviation EventPKIInventoryRead :: EventType where "EventPKIInventoryRead \<equiv> ''pki.inventory_read''"
abbreviation EventPKIIssuer :: EventType where "EventPKIIssuer \<equiv> ''pki.issuer''"
abbreviation EventPKIProfile :: EventType where "EventPKIProfile \<equiv> ''pki.profile''"
abbreviation EventPKICertificateTransitionIntent :: EventType where "EventPKICertificateTransitionIntent \<equiv> ''pki.certificate_transition_intent''"
abbreviation EventPKICertificateTransitionOutcome :: EventType where "EventPKICertificateTransitionOutcome \<equiv> ''pki.certificate_transition_outcome''"
abbreviation EventPKICertificateKeyDisclosed :: EventType where "EventPKICertificateKeyDisclosed \<equiv> ''pki.certificate_key_disclosed''"
abbreviation EventPKICRLPublished :: EventType where "EventPKICRLPublished \<equiv> ''pki.crl_published''"
abbreviation EventPrivacySubjectCorrected :: EventType where "EventPrivacySubjectCorrected \<equiv> ''privacy.subject_corrected''"
abbreviation EventPrivacySubjectReleased :: EventType where "EventPrivacySubjectReleased \<equiv> ''privacy.subject_released''"
abbreviation EventPrivacySubjectExported :: EventType where "EventPrivacySubjectExported \<equiv> ''privacy.subject_exported''"
abbreviation EventPrivacySubjectRestricted :: EventType where "EventPrivacySubjectRestricted \<equiv> ''privacy.subject_restricted''"
abbreviation EventPrivacySubjectErased :: EventType where "EventPrivacySubjectErased \<equiv> ''privacy.subject_erased''"


section \<open>Shared schemas and rows\<close>

definition TransitAlgorithmValues :: "string list" where
  "TransitAlgorithmValues =
    [''xchacha20-poly1305'', ''ed25519'', ''hmac-sha256'', ''mldsa65'']"

definition TransitOperationValues :: "string list" where
  "TransitOperationValues =
    [''encrypt'', ''decrypt'', ''rewrap'', ''datakey'', ''datakey-plaintext'', ''sign'', ''verify'', ''hmac'',
       ''hmac-verify'']"

definition TransitKeyStates :: "string list" where
  "TransitKeyStates =
    [''active'', ''retired'', ''disabled'', ''pending-deletion'', ''destroyed'']"

definition TransitLifecycleActions :: "string list" where
  "TransitLifecycleActions =
    [''disable'', ''enable'', ''retire'', ''compromise'', ''schedule-deletion'', ''cancel-deletion'']"

definition TransitRefusalCauses :: "string list" where
  "TransitRefusalCauses =
    [''state'', ''version'', ''compromised'', ''caller'', ''operation'', ''custody-unavailable'',
       ''invalid-input'']"

text \<open>\<^verbatim>\<open>delivery.MaxAcknowledgedKeys\<close>.\<close>

definition MaxAcknowledgedKeys :: int where
  "MaxAcknowledgedKeys = 64"

text \<open>A copy of the first schema overwritten by the second.\<close>

definition merged :: "Schema \<Rightarrow> Schema \<Rightarrow> Schema" where
  "merged a b = b @ filter (\<lambda>(k, _). k \<notin> set (map fst b)) a"

definition renameSchema :: "string \<Rightarrow> Schema" where
  "renameSchema name = [(''previous_'' @ name, required (field KindFreeText)), (name, required (field KindFreeText))]"

definition filterSchema :: "Schema" where
  "filterSchema =
    [(''filter_from'', field KindString), (''filter_to'', field KindString), (''filter_after_seq'', field
       KindInt), (''filter_to_seq'', field KindInt), (''filter_limit'', required (field KindInt)),
       (''filter_actor'', field KindString), (''filter_actor_name'', field KindString), (''filter_type'', field
       KindString), (''filter_outcome'', field KindString), (''filter_outcomes'', field KindStringList),
       (''filter_object_type'', field KindString), (''filter_object_id'', field KindString),
       (''filter_correlation_id'', field KindString)]"

definition pinMutationSchema :: "Schema" where
  "pinMutationSchema =
    [(''workload_principal_id'', required (field KindString)), (''revision'', required (field KindInt)),
       (''expires_at'', required (field KindString)), (''schema_override'', required (field KindBool)),
       (''history_authorized'', required (field KindBool))]"

definition ruleSchema :: "Schema" where
  "ruleSchema =
    [(''target_principal'', required (field KindString)), (''capability'', required (field KindString)),
       (''projects'', required (maxLen 1000 (maxBytes 256 (field KindStringList)))), (''env_mode'', required
       (withEnum [''all'', ''only''] (field KindString))), (''envs'', required (maxLen 1000 (maxBytes 256 (field
       KindStringList)))), (''key_mode'', required (withEnum [''all'', ''only''] (field KindString))),
       (''keys'', required (maxLen 1000 (maxBytes 1024 (field KindStringList))))]"

definition grantSchema :: "Schema" where
  "grantSchema =
    [(''target_principal'', required (field KindString)), (''capability'', required (field KindString)),
       (''scope'', required (field KindString)), (''origin_kind'', required (field KindString)),
       (''self_grant'', required (field KindBool)), (''unheld'', required (field KindBool)), (''target_class'',
       required (field KindString)), (''template'', field KindString), (''origin_binding'', field KindString),
       (''origin_mapping_row'', field KindString), (''origin_group'', field KindString)]"

definition scimScopeSchema :: "Schema" where
  "scimScopeSchema =
    [(''level'', required (withEnum [''org'', ''project'', ''environment''] (field KindString))), (''scope_id'',
       required (field KindString))]"

definition scimMappingSchema :: "Schema" where
  "scimMappingSchema =
    [(''binding'', required (field KindString)), (''group_id'', required (field KindString)), (''template'',
       required (field KindString)), (''scope'', required (withSchema scimScopeSchema (field KindObject))),
       (''actor'', required (field KindString))]"

definition scimBindingSchema :: "Schema" where
  "scimBindingSchema =
    [(''org'', required (field KindString)), (''provider_ref'', required (field KindString)), (''actor'',
       required (field KindString))]"

definition scimCredentialSchema :: "Schema" where
  "scimCredentialSchema =
    [(''binding'', required (field KindString)), (''credential_id'', required (field KindString)), (''actor'',
       required (field KindString))]"

definition scimGroupSchema :: "Schema" where
  "scimGroupSchema =
    [(''binding'', required (field KindString)), (''group_id'', required (field KindString)), (''display_name'',
       required (maxBytes 256 (field KindFreeText)))]"

definition scimDeprovisionSchema :: "Schema" where
  "scimDeprovisionSchema =
    [(''binding'', required (field KindString)), (''resource_id'', required (field KindString)),
       (''account_id'', required (field KindString)), (''released_origin_count'', required (nonNegative (field
       KindInt))), (''manual_grants_remain'', required (field KindBool))]"

definition scimAttentionSchema :: "Schema" where
  "scimAttentionSchema =
    [(''binding'', required (field KindString)), (''state'', required (withEnum [''provider_unavailable'',
       ''lockout_retention'', ''manual_grants_remain'', ''inert_mapping'', ''stale'', ''post_restore''] (field
       KindString))), (''cause'', required (withEnum [[], ''deprovision'', ''user_deleted'', ''member_removed'',
       ''group_deleted'', ''mapping_deleted'', ''binding_deleted'', ''reactivation''] (field KindString)))]"

definition scimPageSchema :: "Schema" where
  "scimPageSchema =
    [(''start_index'', required (atLeast 1 (field KindInt))), (''count'', required (nonNegative (field
       KindInt)))]"

definition adapterLifecycleEvent :: "Schema \<Rightarrow> TypeSpec" where
  "adapterLifecycleEvent schema =
    \<lparr>ts_SchemaVersion = 1, ts_Retention = RetentionSecurity, ts_Outcomes = [OutcomeSuccess,
       OutcomeDenied, OutcomeFailure], ts_Trails = [TrailTenant], ts_Schema = schema\<rparr>"

definition scimAdminEvent :: "Schema \<Rightarrow> TypeSpec" where
  "scimAdminEvent schema =
    \<lparr>ts_SchemaVersion = 1, ts_Retention = RetentionSecurity, ts_Outcomes = [OutcomeSuccess], ts_Trails =
       [TrailTenant], ts_Schema = schema\<rparr>"

definition scimWireEvent :: "Schema \<Rightarrow> TypeSpec" where
  "scimWireEvent schema =
    \<lparr>ts_SchemaVersion = 1, ts_Retention = RetentionSecurity, ts_Outcomes = [OutcomeSuccess], ts_Trails =
       [TrailTenant], ts_Schema = schema\<rparr>"

definition scimLockoutEvent :: "Schema \<Rightarrow> TypeSpec" where
  "scimLockoutEvent schema =
    \<lparr>ts_SchemaVersion = 1, ts_Retention = RetentionSecurity, ts_Outcomes = [OutcomeSuccess], ts_Trails =
       [TrailTenant, TrailInstance], ts_Schema = schema\<rparr>"

definition hierarchyEvent :: "Schema \<Rightarrow> TypeSpec" where
  "hierarchyEvent schema =
    \<lparr>ts_SchemaVersion = 1, ts_Retention = RetentionSecurity, ts_Outcomes = [OutcomeSuccess], ts_Trails =
       [TrailTenant], ts_Schema = schema\<rparr>"

definition hierarchyFailureEvent :: "Schema \<Rightarrow> TypeSpec" where
  "hierarchyFailureEvent schema =
    \<lparr>ts_SchemaVersion = 1, ts_Retention = RetentionSecurity, ts_Outcomes = [OutcomeFailure], ts_Trails =
       [TrailTenant], ts_Schema = schema\<rparr>"

definition diffSchema :: "Schema" where
  "diffSchema =
    [(''endpoints_added'', required (field KindStringList)), (''endpoints_removed'', required (field
       KindStringList)), (''certs_added_fps'', required (field KindStringList)), (''certs_removed_fps'',
       required (field KindStringList)), (''valid_until'', field KindString)]"

definition samlCeremonyEvent :: "TypeSpec" where
  "samlCeremonyEvent =
    \<lparr>ts_SchemaVersion = 1, ts_Retention = RetentionSecurity, ts_Outcomes = [OutcomeSuccess,
       OutcomeFailure], ts_Trails = [TrailInstance], ts_Schema = [(''provider_id'', required (field
       KindString)), (''entity_id'', required (field KindString)), (''purpose'', required (field KindString)),
       (''transaction_id'', required (field KindString)), (''pinned_certificate_expired'', field KindBool),
       (''cause'', field KindString), (''name_id_format'', field KindString), (''authn_context_class_ref'',
       field KindString)]\<rparr>"

definition samlProviderEvent :: "TypeSpec" where
  "samlProviderEvent =
    \<lparr>ts_SchemaVersion = 1, ts_Retention = RetentionSecurity, ts_Outcomes = [OutcomeSuccess,
       OutcomeFailure], ts_Trails = [TrailInstance], ts_Schema = [(''provider_id'', required (field
       KindString)), (''entity_id'', required (field KindString)), (''source'', required (field KindString)),
       (''signed'', required (field KindBool)), (''diff'', required (withSchema diffSchema (field KindObject))),
       (''confirmed_fps'', required (field KindStringList)), (''cause'', field KindString)]\<rparr>"

definition registrationPolicySpec :: "TypeSpec" where
  "registrationPolicySpec =
    \<lparr>ts_SchemaVersion = 1, ts_Retention = RetentionSecurity, ts_Outcomes = [OutcomeSuccess], ts_Trails =
       [TrailTenant, TrailInstance], ts_Schema = [(''policy_id'', required (field KindString)), (''scope'',
       required (field KindString)), (''landing'', required (withEnum [''org-template'', ''none'',
       ''fresh-org''] (field KindString))), (''authority_principal_id'', required (field KindString)),
       (''previous_authority_principal_id'', field KindString)]\<rparr>"

definition privacySubjectSpec :: "TypeSpec" where
  "privacySubjectSpec =
    \<lparr>ts_SchemaVersion = 1, ts_Retention = RetentionSecurity, ts_Outcomes = [OutcomeSuccess], ts_Trails =
       [TrailInstance], ts_Schema = [(''target_principal'', required (field KindString)), (''authority'',
       required (withEnum [''local-host''] (field KindString)))]\<rparr>"


section \<open>The table\<close>

definition eventTable1 :: "(EventType \<times> TypeSpec) list" where
  "eventTable1 = [
    (EventRequestRefused, \<lparr>ts_SchemaVersion = 1, ts_Retention = RetentionSecurity, ts_Outcomes =
       [OutcomeFailure], ts_Trails = [TrailInstance], ts_Schema = [
         (''window_start'', required (nonNegative (field KindInt))),
         (''window_end'', required (nonNegative (field KindInt))),
         (''stage'', required (withEnum [''artifact'', ''credential-conflict'', ''proof'', ''csrf'',
            ''admission''] (field KindString))),
         (''count'', required (atLeast 1 (field KindInt))),
         (''unsampled_count'', required (nonNegative (field KindInt))),
         (''samples'', required (withSchema [(''source_ip'', required (maxBytes 45 (field KindString))),
            (''request_id'', required (maxBytes 36 (field KindString))), (''operation'', required (maxBytes 128
            (field KindString)))] (maxLen (int RefusalSampleLimit) (field KindObjectList))))]\<rparr>),
    (EventSelfConfigMigrated, \<lparr>ts_SchemaVersion = 1, ts_Retention = RetentionSecurity, ts_Outcomes =
       [OutcomeSuccess], ts_Trails = [TrailInstance], ts_Schema = [
         (''migration_version'', required (nonNegative (field KindInt))),
         (''owner_instance_id'', required (field KindString)),
         (''revision'', required (nonNegative (field KindInt))),
         (''generation'', required (nonNegative (field KindInt)))]\<rparr>),
    (EventSelfConfigRecovered, \<lparr>ts_SchemaVersion = 1, ts_Retention = RetentionSecurity, ts_Outcomes =
       [OutcomeSuccess, OutcomeFailure], ts_Trails = [TrailTenant], ts_Schema = [
         (''owner_instance_id'', required (field KindString)),
         (''revision'', required (nonNegative (field KindInt))),
         (''generation'', required (nonNegative (field KindInt)))]\<rparr>),
    (EventSelfConfigStatusRead, \<lparr>ts_SchemaVersion = 1, ts_Retention = RetentionSecurity, ts_Outcomes =
       [OutcomeSuccess, OutcomeFailure], ts_Trails = [TrailInstance], ts_Schema = [
         (''owner_instance_id'', required (field KindString)),
         (''revision'', nonNegative (field KindInt)),
         (''generation'', nonNegative (field KindInt)),
         (''job_id'', field KindString),
         (''node_id'', field KindString),
         (''error_code'', withEnum [''invalid_config'', ''incompatible_schema'', ''preparation_failed'',
            ''preparation_timeout'', ''convergence_timeout'', ''restored'', ''transport_failed'', ''none'']
            (field KindString))]\<rparr>),
    (EventSelfConfigAdopted, \<lparr>ts_SchemaVersion = 1, ts_Retention = RetentionSecurity, ts_Outcomes =
       [OutcomeSuccess, OutcomeFailure], ts_Trails = [TrailInstance], ts_Schema = [
         (''owner_instance_id'', required (field KindString)),
         (''revision'', nonNegative (field KindInt)),
         (''generation'', nonNegative (field KindInt)),
         (''job_id'', field KindString),
         (''node_id'', field KindString),
         (''error_code'', withEnum [''invalid_config'', ''incompatible_schema'', ''preparation_failed'',
            ''preparation_timeout'', ''convergence_timeout'', ''restored'', ''transport_failed'', ''none'']
            (field KindString))]\<rparr>),
    (EventSelfConfigTargetCommitted, \<lparr>ts_SchemaVersion = 1, ts_Retention = RetentionSecurity, ts_Outcomes
       = [OutcomeSuccess, OutcomeFailure], ts_Trails = [TrailTenant], ts_Schema = [
         (''owner_instance_id'', required (field KindString)),
         (''revision'', nonNegative (field KindInt)),
         (''generation'', nonNegative (field KindInt)),
         (''job_id'', field KindString),
         (''node_id'', field KindString),
         (''error_code'', withEnum [''invalid_config'', ''incompatible_schema'', ''preparation_failed'',
            ''preparation_timeout'', ''convergence_timeout'', ''restored'', ''transport_failed'', ''none'']
            (field KindString))]\<rparr>),
    (EventSelfConfigResumed, \<lparr>ts_SchemaVersion = 1, ts_Retention = RetentionSecurity, ts_Outcomes =
       [OutcomeSuccess, OutcomeFailure], ts_Trails = [TrailTenant], ts_Schema = [
         (''owner_instance_id'', required (field KindString)),
         (''revision'', nonNegative (field KindInt)),
         (''generation'', nonNegative (field KindInt)),
         (''job_id'', field KindString),
         (''node_id'', field KindString),
         (''error_code'', withEnum [''invalid_config'', ''incompatible_schema'', ''preparation_failed'',
            ''preparation_timeout'', ''convergence_timeout'', ''restored'', ''transport_failed'', ''none'']
            (field KindString))]\<rparr>),
    (EventSelfConfigDeploymentRestoreRequested, \<lparr>ts_SchemaVersion = 1, ts_Retention = RetentionSecurity,
       ts_Outcomes = [OutcomeSuccess], ts_Trails = [TrailTenant], ts_Schema = [
         (''owner_instance_id'', required (field KindString)),
         (''revision'', required (nonNegative (field KindInt))),
         (''generation'', required (nonNegative (field KindInt))),
         (''job_id'', required (field KindString)),
         (''plan_digest'', required (field KindString))]\<rparr>),
    (EventSelfConfigApplyRequested, \<lparr>ts_SchemaVersion = 1, ts_Retention = RetentionSecurity, ts_Outcomes
       = [OutcomeSuccess, OutcomeFailure], ts_Trails = [TrailTenant], ts_Schema = [
         (''owner_instance_id'', required (field KindString)),
         (''revision'', nonNegative (field KindInt)),
         (''generation'', nonNegative (field KindInt)),
         (''job_id'', field KindString),
         (''node_id'', field KindString),
         (''error_code'', withEnum [''invalid_config'', ''incompatible_schema'', ''preparation_failed'',
            ''preparation_timeout'', ''convergence_timeout'', ''restored'', ''transport_failed'', ''none'']
            (field KindString))]\<rparr>),
    (EventSelfConfigTestRequested, \<lparr>ts_SchemaVersion = 1, ts_Retention = RetentionSecurity, ts_Outcomes =
       [OutcomeSuccess, OutcomeFailure], ts_Trails = [TrailTenant], ts_Schema = [
         (''owner_instance_id'', required (field KindString)),
         (''revision'', nonNegative (field KindInt)),
         (''generation'', nonNegative (field KindInt)),
         (''job_id'', field KindString),
         (''node_id'', field KindString),
         (''error_code'', withEnum [''invalid_config'', ''incompatible_schema'', ''preparation_failed'',
            ''preparation_timeout'', ''convergence_timeout'', ''restored'', ''transport_failed'', ''none'']
            (field KindString))]\<rparr>),
    (EventSelfConfigTestCompleted, \<lparr>ts_SchemaVersion = 1, ts_Retention = RetentionSecurity, ts_Outcomes =
       [OutcomeSuccess, OutcomeFailure], ts_Trails = [TrailTenant], ts_Schema = [
         (''owner_instance_id'', required (field KindString)),
         (''revision'', nonNegative (field KindInt)),
         (''generation'', nonNegative (field KindInt)),
         (''job_id'', field KindString),
         (''node_id'', field KindString),
         (''error_code'', withEnum [''invalid_config'', ''incompatible_schema'', ''preparation_failed'',
            ''preparation_timeout'', ''convergence_timeout'', ''restored'', ''transport_failed'', ''none'']
            (field KindString))]\<rparr>),
    (EventSelfConfigProjectPrepared, \<lparr>ts_SchemaVersion = 1, ts_Retention = RetentionSecurity, ts_Outcomes
       = [OutcomeSuccess, OutcomeFailure], ts_Trails = [TrailTenant], ts_Schema = [
         (''owner_instance_id'', required (field KindString)),
         (''revision'', nonNegative (field KindInt)),
         (''generation'', nonNegative (field KindInt)),
         (''job_id'', field KindString),
         (''node_id'', field KindString),
         (''error_code'', withEnum [''invalid_config'', ''incompatible_schema'', ''preparation_failed'',
            ''preparation_timeout'', ''convergence_timeout'', ''restored'', ''transport_failed'', ''none'']
            (field KindString))]\<rparr>),
    (EventSelfConfigApplied, \<lparr>ts_SchemaVersion = 1, ts_Retention = RetentionSecurity, ts_Outcomes =
       [OutcomeSuccess, OutcomeFailure], ts_Trails = [TrailTenant], ts_Schema = [
         (''owner_instance_id'', required (field KindString)),
         (''revision'', nonNegative (field KindInt)),
         (''generation'', nonNegative (field KindInt)),
         (''job_id'', field KindString),
         (''node_id'', field KindString),
         (''error_code'', withEnum [''invalid_config'', ''incompatible_schema'', ''preparation_failed'',
            ''activation_failed'', ''preparation_timeout'', ''convergence_timeout'', ''restored'',
            ''transport_failed'', ''none''] (field KindString))]\<rparr>),
    (EventSelfConfigRecoveryFenced, \<lparr>ts_SchemaVersion = 1, ts_Retention = RetentionSecurity, ts_Outcomes
       = [OutcomeSuccess, OutcomeFailure], ts_Trails = [TrailTenant], ts_Schema = [
         (''owner_instance_id'', required (field KindString)),
         (''revision'', nonNegative (field KindInt)),
         (''generation'', nonNegative (field KindInt)),
         (''job_id'', field KindString),
         (''node_id'', field KindString),
         (''error_code'', withEnum [''invalid_config'', ''incompatible_schema'', ''preparation_failed'',
            ''preparation_timeout'', ''convergence_timeout'', ''restored'', ''transport_failed'', ''none'']
            (field KindString))]\<rparr>),
    (EventAuthProfileUpdated, \<lparr>ts_SchemaVersion = 1, ts_Retention = RetentionSecurity, ts_Outcomes =
       [OutcomeSuccess], ts_Trails = [TrailInstance], ts_Schema = [
         (''account_id'', required (field KindString))]\<rparr>),
    (EventPrivacySubjectCorrected, privacySubjectSpec),
    (EventPrivacySubjectReleased, privacySubjectSpec),
    (EventPrivacySubjectExported, privacySubjectSpec),
    (EventPrivacySubjectRestricted, privacySubjectSpec),
    (EventPrivacySubjectErased, privacySubjectSpec),
    (EventGrantDenied, \<lparr>ts_SchemaVersion = 1, ts_Retention = RetentionAccess, ts_Outcomes =
       [OutcomeDenied], ts_Trails = [TrailTenant, TrailInstance], ts_Schema = [
         (''operation'', required (field KindString)),
         (''formula'', required (field KindString)),
         (''resolution'', required (withEnum [''resolvable'', ''unresolvable''] (field KindString))),
         (''claimed_org'', field KindFreeText),
         (''claimed_project'', field KindFreeText),
         (''claimed_env'', field KindFreeText)]\<rparr>),
    (EventAuditQuery, \<lparr>ts_SchemaVersion = 1, ts_Retention = RetentionSecurity, ts_Outcomes =
       [OutcomeSuccess], ts_Trails = [TrailTenant, TrailInstance], ts_Schema = (merged filterSchema
       [(''row_count'', required (field KindInt))])\<rparr>),
    (EventAuditExportStarted, \<lparr>ts_SchemaVersion = 1, ts_Retention = RetentionSecurity, ts_Outcomes =
       [OutcomeIntent], ts_Trails = [TrailTenant, TrailInstance], ts_Schema = filterSchema\<rparr>),
    (EventAuditExportCompleted, \<lparr>ts_SchemaVersion = 1, ts_Retention = RetentionSecurity, ts_Outcomes =
       [OutcomeSuccess, OutcomeFailure, OutcomeDisconnected], ts_Trails = [TrailTenant, TrailInstance],
       ts_Schema = [
         (''rows_streamed'', required (field KindInt)),
         (''cause'', field KindString)]\<rparr>),
    (EventAuthLogin, \<lparr>ts_SchemaVersion = 1, ts_Retention = RetentionSecurity, ts_Outcomes =
       [OutcomeSuccess, OutcomeFailure], ts_Trails = [TrailInstance], ts_Schema = [
         (''method'', required (field KindString)),
         (''artifact'', required (withEnum [''cli'', ''browser''] (field KindString))),
         (''subject_resolved'', required (field KindBool)),
         (''account_id'', field KindString),
         (''assurance'', withEnum [''single-factor'', ''multi-factor''] (field KindString)),
         (''cause'', field KindString),
         (''challenge_id'', field KindString)]\<rparr>)]"

definition eventTable2 :: "(EventType \<times> TypeSpec) list" where
  "eventTable2 = [
    (EventAuthLogout, \<lparr>ts_SchemaVersion = 1, ts_Retention = RetentionSecurity, ts_Outcomes =
       [OutcomeSuccess], ts_Trails = [TrailInstance], ts_Schema = [
         (''session_id'', required (field KindString)),
         (''artifact'', required (field KindString))]\<rparr>),
    (EventAuthArtifactClassRefused, \<lparr>ts_SchemaVersion = 1, ts_Retention = RetentionSecurity, ts_Outcomes
       = [OutcomeFailure], ts_Trails = [TrailInstance], ts_Schema = [
         (''operation'', required (field KindString)),
         (''artifact_class'', required (field KindString)),
         (''cause'', required (withEnum [''class-mismatch'', ''enrolment-required'',
            ''invalid-developer-credential''] (field KindString)))]\<rparr>),
    (EventAuthSessionCreated, \<lparr>ts_SchemaVersion = 1, ts_Retention = RetentionSecurity, ts_Outcomes =
       [OutcomeSuccess], ts_Trails = [TrailInstance], ts_Schema = [
         (''session_id'', required (field KindString)),
         (''artifact'', required (field KindString)),
         (''method'', required (field KindString)),
         (''assurance'', required (field KindString))]\<rparr>),
    (EventAuthAuthorityMinted, \<lparr>ts_SchemaVersion = 1, ts_Retention = RetentionSecurity, ts_Outcomes =
       [OutcomeSuccess], ts_Trails = [TrailInstance], ts_Schema = [
         (''authority_id'', required (field KindString)),
         (''account_id'', required (field KindString)),
         (''issued_by'', required (withEnum [''bootstrap'', ''credential-reset'', ''break-glass'', ''recovery'',
            ''invitation''] (field KindString))),
         (''delivery'', required (withEnum [''file'', ''terminal'', ''stdout'', ''response''] (field
            KindString)))]\<rparr>),
    (EventAuthCredentialEstablished, \<lparr>ts_SchemaVersion = 1, ts_Retention = RetentionSecurity, ts_Outcomes
       = [OutcomeSuccess], ts_Trails = [TrailInstance], ts_Schema = [
         (''kind'', withEnum [''oidc'', ''oauth2''] (field KindString)),
         (''established_credential_kind'', withEnum [''password'', ''oidc'', ''oauth2''] (field KindString)),
         (''identity_id'', field KindString),
         (''provider_id'', field KindString),
         (''authority_id'', required (field KindString)),
         (''account_id'', required (field KindString)),
         (''credential'', required (field KindString))]\<rparr>),
    (EventAuthAuthorityRefused, \<lparr>ts_SchemaVersion = 1, ts_Retention = RetentionSecurity, ts_Outcomes =
       [OutcomeFailure], ts_Trails = [TrailInstance], ts_Schema = [
         (''cause'', required (withEnum [''malformed'', ''unknown'', ''consumed'', ''expired'',
            ''epoch-superseded'', ''purpose''] (field KindString)))]\<rparr>),
    (EventAuthThrottleCrossed, \<lparr>ts_SchemaVersion = 1, ts_Retention = RetentionSecurity, ts_Outcomes =
       [OutcomeFailure], ts_Trails = [TrailInstance], ts_Schema = [
         (''scope'', required (withEnum [''account'', ''source-ip'', ''instance''] (field KindString))),
         (''subject_resolved'', required (field KindBool)),
         (''account_id'', field KindString)]\<rparr>),
    (EventAuthFactorEnrolled, \<lparr>ts_SchemaVersion = 1, ts_Retention = RetentionSecurity, ts_Outcomes =
       [OutcomeSuccess], ts_Trails = [TrailInstance], ts_Schema = [
         (''factor'', required (field KindString)),
         (''account_id'', required (field KindString)),
         (''authorizing_credential'', required (field KindString))]\<rparr>),
    (EventAuthFactorRemoved, \<lparr>ts_SchemaVersion = 1, ts_Retention = RetentionSecurity, ts_Outcomes =
       [OutcomeSuccess], ts_Trails = [TrailInstance], ts_Schema = [
         (''factor'', required (field KindString)),
         (''account_id'', required (field KindString)),
         (''authorizing_credential'', required (field KindString))]\<rparr>),
    (EventAuthRecoveryCodesGenerated, \<lparr>ts_SchemaVersion = 1, ts_Retention = RetentionSecurity,
       ts_Outcomes = [OutcomeSuccess], ts_Trails = [TrailInstance], ts_Schema = [
         (''account_id'', required (field KindString)),
         (''count'', required (field KindInt)),
         (''authorizing_credential'', required (field KindString))]\<rparr>),
    (EventAuthRecoveryCodeConsumed, \<lparr>ts_SchemaVersion = 1, ts_Retention = RetentionSecurity, ts_Outcomes
       = [OutcomeSuccess, OutcomeFailure], ts_Trails = [TrailInstance], ts_Schema = [
         (''subject_resolved'', required (field KindBool)),
         (''account_id'', field KindString),
         (''authority_id'', field KindString),
         (''factors_retired'', field KindBool),
         (''passkeys_retired'', field KindInt),
         (''cause'', field KindString)]\<rparr>),
    (EventAuthReauthenticated, \<lparr>ts_SchemaVersion = 1, ts_Retention = RetentionSecurity, ts_Outcomes =
       [OutcomeSuccess], ts_Trails = [TrailInstance], ts_Schema = [
         (''session_id'', required (field KindString)),
         (''factor'', required (field KindString))]\<rparr>)]"

definition eventTable3 :: "(EventType \<times> TypeSpec) list" where
  "eventTable3 = [
    (EventAuthCLIReauthHandoff, \<lparr>ts_SchemaVersion = 1, ts_Retention = RetentionSecurity, ts_Outcomes =
       [OutcomeSuccess, OutcomeFailure], ts_Trails = [TrailInstance], ts_Schema = [
         (''phase'', required (withEnum [''start'', ''inspect'', ''approve'', ''redeem''] (field KindString))),
         (''handoff_id'', field KindString),
         (''operation'', field KindString),
         (''environment_ids'', field KindStringList),
         (''cause'', withEnum [''invalid_request'', ''unauthenticated'', ''unauthorized'',
            ''invalid_or_expired'', ''reauth_required'', ''pkce_mismatch'', ''already_consumed''] (field
            KindString))]\<rparr>),
    (EventAuthPasskeyAdded, \<lparr>ts_SchemaVersion = 1, ts_Retention = RetentionSecurity, ts_Outcomes =
       [OutcomeSuccess], ts_Trails = [TrailInstance], ts_Schema = [
         (''account_id'', required (field KindString)),
         (''credential_id'', required (field KindString)),
         (''authorizing_credential'', required (field KindString)),
         (''discoverable'', required (field KindBool))]\<rparr>),
    (EventAuthPasskeyRemoved, \<lparr>ts_SchemaVersion = 1, ts_Retention = RetentionSecurity, ts_Outcomes =
       [OutcomeSuccess], ts_Trails = [TrailInstance], ts_Schema = [
         (''account_id'', required (field KindString)),
         (''credential_id'', required (field KindString)),
         (''authorizing_credential'', required (field KindString))]\<rparr>),
    (EventAuthPasskeyCloned, \<lparr>ts_SchemaVersion = 1, ts_Retention = RetentionSecurity, ts_Outcomes =
       [OutcomeFailure], ts_Trails = [TrailInstance], ts_Schema = [
         (''account_id'', required (field KindString)),
         (''credential_id'', required (field KindString)),
         (''sessions_swept'', required (field KindInt))]\<rparr>),
    (EventAuthPasswordChanged, \<lparr>ts_SchemaVersion = 1, ts_Retention = RetentionSecurity, ts_Outcomes =
       [OutcomeSuccess], ts_Trails = [TrailInstance], ts_Schema = [
         (''account_id'', required (field KindString)),
         (''first'', required (field KindBool)),
         (''authorizing_credential'', required (withEnum [''password'', ''totp'', ''establish''] (field
            KindString)))]\<rparr>),
    (EventCredentialEstablish, \<lparr>ts_SchemaVersion = 1, ts_Retention = RetentionSecurity, ts_Outcomes =
       [OutcomeSuccess], ts_Trails = [TrailInstance], ts_Schema = [
         (''account_id'', required (field KindString)),
         (''identity_id'', required (field KindString)),
         (''provider_id'', required (field KindString)),
         (''kind'', required (withEnum [''oidc'', ''oauth2''] (field KindString))),
         (''purpose'', required (withEnum [''account-security''] (field KindString)))]\<rparr>),
    (EventOAuth2Login, \<lparr>ts_SchemaVersion = 1, ts_Retention = RetentionSecurity, ts_Outcomes =
       [OutcomeSuccess], ts_Trails = [TrailInstance], ts_Schema = [
         (''method'', required (field KindString)),
         (''purpose'', required (withEnum [''login'', ''claim''] (field KindString))),
         (''account_id'', required (field KindString)),
         (''assurance'', required (withEnum [''single-factor''] (field KindString))),
         (''provider_id'', required (field KindString)),
         (''provider_row_version'', required (field KindInt)),
         (''intent'', withEnum [''sign-in'', ''sign-up''] (field KindString)),
         (''signup_org'', field KindString)]\<rparr>),
    (EventOAuth2Refused, \<lparr>ts_SchemaVersion = 1, ts_Retention = RetentionSecurity, ts_Outcomes =
       [OutcomeFailure], ts_Trails = [TrailInstance], ts_Schema = [
         (''cause'', required (withEnum [''mixup'', ''state'', ''purpose'', ''idp-error'', ''expired'',
            ''unknown-identity'', ''binding'', ''reconciliation'', ''epoch'', ''downgrade'', ''userinfo-error'',
            ''identity-exists''] (field KindString))),
         (''purpose'', withEnum [''login'', ''link'', ''claim'', ''establish'', ''reauth''] (field KindString)),
         (''provider_id'', field KindString),
         (''intent'', withEnum [''sign-in'', ''sign-up''] (field KindString)),
         (''signup_org'', field KindString)]\<rparr>),
    (EventOIDCLogin, \<lparr>ts_SchemaVersion = 1, ts_Retention = RetentionSecurity, ts_Outcomes =
       [OutcomeSuccess], ts_Trails = [TrailInstance], ts_Schema = [
         (''method'', required (field KindString)),
         (''purpose'', required (withEnum [''login'', ''reauth'', ''claim''] (field KindString))),
         (''account_id'', required (field KindString)),
         (''assurance'', required (withEnum [''single-factor'', ''multi-factor''] (field KindString))),
         (''provider_id'', required (field KindString)),
         (''acr'', field KindString),
         (''amr'', field KindString),
         (''provider_row_version'', required (field KindInt)),
         (''intent'', withEnum [''sign-in'', ''sign-up''] (field KindString)),
         (''signup_org'', field KindString)]\<rparr>),
    (EventOIDCRefused, \<lparr>ts_SchemaVersion = 1, ts_Retention = RetentionSecurity, ts_Outcomes =
       [OutcomeFailure], ts_Trails = [TrailInstance], ts_Schema = [
         (''cause'', required (withEnum [''mixup'', ''nonce'', ''purpose'', ''state'', ''issuer'', ''audience'',
            ''signature'', ''epoch'', ''idp-error'', ''expired'', ''unknown-identity'', ''no-assurance-policy'',
            ''no-auth-time'', ''binding'', ''reconciliation'', ''window-zero'', ''no-possession'',
            ''downgrade'', ''identity-exists''] (field KindString))),
         (''purpose'', withEnum [''login'', ''link'', ''reauth'', ''claim'', ''establish''] (field KindString)),
         (''provider_id'', field KindString),
         (''intent'', withEnum [''sign-in'', ''sign-up''] (field KindString)),
         (''signup_org'', field KindString)]\<rparr>),
    (EventIdentityLinked, \<lparr>ts_SchemaVersion = 1, ts_Retention = RetentionSecurity, ts_Outcomes =
       [OutcomeSuccess], ts_Trails = [TrailInstance], ts_Schema = [
         (''kind'', required (field KindString)),
         (''account_id'', required (field KindString)),
         (''identity_id'', required (field KindString)),
         (''provider_id'', required (field KindString)),
         (''authorizing_credential'', required (field KindString))]\<rparr>)]"

definition eventTable4 :: "(EventType \<times> TypeSpec) list" where
  "eventTable4 = [
    (EventIdentityUnlinked, \<lparr>ts_SchemaVersion = 1, ts_Retention = RetentionSecurity, ts_Outcomes =
       [OutcomeSuccess], ts_Trails = [TrailInstance], ts_Schema = [
         (''kind'', required (field KindString)),
         (''account_id'', required (field KindString)),
         (''identity_id'', required (field KindString)),
         (''authorizing_credential'', required (field KindString))]\<rparr>),
    (EventOIDCProviderChanged, \<lparr>ts_SchemaVersion = 1, ts_Retention = RetentionSecurity, ts_Outcomes =
       [OutcomeSuccess], ts_Trails = [TrailInstance], ts_Schema = [
         (''kind'', withEnum [''oidc'', ''saml'', ''oauth2''] (field KindString)),
         (''provider_id'', required (field KindString)),
         (''change'', required (withEnum [''created'', ''updated'', ''deleted''] (field KindString))),
         (''sessions_swept'', required (field KindInt))]\<rparr>),
    (EventOIDCProviderRead, \<lparr>ts_SchemaVersion = 1, ts_Retention = RetentionAccess, ts_Outcomes =
       [OutcomeSuccess], ts_Trails = [TrailInstance], ts_Schema = [
         (''kind'', withEnum [''oidc'', ''saml'', ''oauth2''] (field KindString)),
         (''query'', required (withEnum [''get'', ''list''] (field KindString))),
         (''row_count'', required (field KindInt))]\<rparr>),
    (EventSAMLLogin, samlCeremonyEvent),
    (EventSAMLReauth, samlCeremonyEvent),
    (EventSAMLProviderConfigure, samlProviderEvent),
    (EventSAMLProviderRefresh, samlProviderEvent),
    (EventSAMLProviderRemove, samlProviderEvent),
    (EventSAMLCertChange, \<lparr>ts_SchemaVersion = 1, ts_Retention = RetentionSecurity, ts_Outcomes =
       [OutcomeSuccess], ts_Trails = [TrailInstance], ts_Schema = [
         (''provider_id'', required (field KindString)),
         (''entity_id'', required (field KindString)),
         (''change'', required (field KindString)),
         (''fingerprint'', required (field KindString))]\<rparr>),
    (EventSAMLEmailNameIDOptIn, \<lparr>ts_SchemaVersion = 1, ts_Retention = RetentionSecurity, ts_Outcomes =
       [OutcomeSuccess], ts_Trails = [TrailInstance], ts_Schema = [
         (''provider_id'', required (field KindString)),
         (''entity_id'', required (field KindString)),
         (''state'', required (field KindString))]\<rparr>),
    (EventSAMLSPKey, \<lparr>ts_SchemaVersion = 1, ts_Retention = RetentionSecurity, ts_Outcomes =
       [OutcomeSuccess], ts_Trails = [TrailInstance], ts_Schema = [
         (''action'', required (field KindString)),
         (''key_fingerprint'', required (field KindString)),
         (''prior_key_fingerprint'', field KindString)]\<rparr>),
    (EventSAMLMetadataExpiryWarning, \<lparr>ts_SchemaVersion = 1, ts_Retention = RetentionSecurity, ts_Outcomes
       = [OutcomeSuccess], ts_Trails = [TrailInstance], ts_Schema = [
         (''provider_id'', required (field KindString)),
         (''entity_id'', required (field KindString)),
         (''valid_until'', required (field KindString)),
         (''threshold'', required (field KindString))]\<rparr>),
    (EventAuthCredentialResetIssued, \<lparr>ts_SchemaVersion = 1, ts_Retention = RetentionSecurity, ts_Outcomes
       = [OutcomeSuccess, OutcomeFailure], ts_Trails = [TrailInstance], ts_Schema = [
         (''target_principal'', required (field KindString)),
         (''issued_by'', required (withEnum [''credential-reset'', ''break-glass''] (field KindString))),
         (''authority'', required (withEnum [''network'', ''local-host''] (field KindString))),
         (''target_account'', field KindString),
         (''authority_id'', field KindString),
         (''delivery'', field KindString),
         (''sessions_revoked'', field KindBool),
         (''cause'', field KindString)]\<rparr>),
    (EventAuthEffectiveWindowLowered, \<lparr>ts_SchemaVersion = 1, ts_Retention = RetentionSecurity,
       ts_Outcomes = [OutcomeSuccess], ts_Trails = [TrailInstance], ts_Schema = [
         (''environment_id'', required (field KindString)),
         (''new_window_seconds'', required (field KindInt)),
         (''windows_invalidated'', required (field KindInt)),
         (''stranded_count'', required (field KindInt)),
         (''stranded_principals'', field KindString)]\<rparr>),
    (EventOrgRead, \<lparr>ts_SchemaVersion = 1, ts_Retention = RetentionAccess, ts_Outcomes = [OutcomeSuccess],
       ts_Trails = [TrailInstance], ts_Schema = [
         (''query'', required (withEnum [''get'', ''list'', ''count''] (field KindString))),
         (''row_count'', required (field KindInt))]\<rparr>),
    (EventOrgCreated, \<lparr>ts_SchemaVersion = 1, ts_Retention = RetentionSecurity, ts_Outcomes =
       [OutcomeSuccess], ts_Trails = [TrailInstance], ts_Schema = [
         (''org_id'', required (field KindString)),
         (''org_name'', required (field KindFreeText)),
         (''origin'', required (withEnum [''manual'', ''registration''] (field KindString))),
         (''policy_id'', field KindString)]\<rparr>)]"

definition eventTable5 :: "(EventType \<times> TypeSpec) list" where
  "eventTable5 = [
    (EventProjectCreated, \<lparr>ts_SchemaVersion = 1, ts_Retention = RetentionSecurity, ts_Outcomes =
       [OutcomeSuccess], ts_Trails = [TrailTenant], ts_Schema = [
         (''name'', required (field KindFreeText))]\<rparr>),
    (EventEnvCreated, \<lparr>ts_SchemaVersion = 1, ts_Retention = RetentionSecurity, ts_Outcomes =
       [OutcomeSuccess], ts_Trails = [TrailTenant], ts_Schema = [
         (''name'', required (field KindFreeText))]\<rparr>),
    (EventEnvNoteChanged, \<lparr>ts_SchemaVersion = 1, ts_Retention = RetentionSecurity, ts_Outcomes =
       [OutcomeSuccess], ts_Trails = [TrailTenant], ts_Schema = []\<rparr>),
    (EventOrgRenamed, hierarchyEvent (renameSchema ''name'')),
    (EventOrgDeleted, hierarchyEvent [(''name'', required (field KindFreeText))]),
    (EventProjectRenamed, hierarchyEvent (renameSchema ''name'')),
    (EventProjectDeleted, hierarchyEvent [(''name'', required (field KindFreeText))]),
    (EventEnvParameterChanged, hierarchyEvent [(''name'', required (field KindFreeText)), (''pattern'', field
       KindFreeText), (''action'', required (withEnum [''add'', ''delete''] (field KindString)))]),
    (EventEnvRenamed, hierarchyEvent (renameSchema ''name'')),
    (EventEnvDeleted, hierarchyEvent [(''name'', required (field KindFreeText))]),
    (EventEnvReordered, hierarchyEvent [(''environment_count'', required (field KindInt)),
       (''environment_order'', required (field KindString))]),
    (EventFolderCreated, hierarchyEvent [(''namespace'', required (field KindFreeText))]),
    (EventFolderRenamed, hierarchyEvent (renameSchema ''namespace'')),
    (EventFolderDeleted, hierarchyEvent [(''namespace'', required (field KindFreeText))]),
    (EventKeyCreated, hierarchyEvent [(''name'', required (field KindFreeText)), (''classification'', required
       (field KindString)), (''namespace'', required (field KindFreeText))]),
    (EventKeyRenamed, hierarchyEvent (renameSchema ''name'')),
    (EventKeyDeleted, hierarchyEvent [(''name'', required (field KindFreeText))]),
    (EventKeyDeclarationChanged, hierarchyEvent [(''name'', required (field KindFreeText)),
       (''schema_revision'', required (field KindInt)), (''rules_changed'', required (field KindBool)),
       (''presence_changed'', required (field KindBool))]),
    (EventKeyMetadataChanged, hierarchyEvent [(''name'', required (field KindFreeText)), (''namespace'',
       required (field KindFreeText))]),
    (EventKeyReclassified, hierarchyEvent [(''name'', required (field KindFreeText)),
       (''previous_classification'', required (field KindString)), (''classification'', required (field
       KindString))]),
    (EventKeyRevealGateAttempt, \<lparr>ts_SchemaVersion = 1, ts_Retention = RetentionSecurity, ts_Outcomes =
       [OutcomeSuccess, OutcomeDenied, OutcomeFailure], ts_Trails = [TrailTenant], ts_Schema = [
         (''key_id'', required (field KindString)),
         (''name'', required (field KindFreeText)),
         (''gate'', required (field KindString))]\<rparr>),
    (EventDefinitionsPlanCreated, hierarchyEvent [(''plan_id'', required (field KindString)), (''additive'',
       required (field KindBool)), (''deletions_present'', required (field KindBool))]),
    (EventDefinitionsApplied, hierarchyEvent [(''plan_id'', required (field KindString)), (''revision'',
       required (field KindInt)), (''commit'', field KindFreeText), (''ref'', field KindFreeText), (''actor'',
       field KindFreeText)]),
    (EventDefinitionsApplyRejectedStale, \<lparr>ts_SchemaVersion = 1, ts_Retention = RetentionSecurity,
       ts_Outcomes = [OutcomeDenied], ts_Trails = [TrailTenant], ts_Schema = [
         (''plan_id'', required (field KindString)),
         (''moved'', required (field KindString))]\<rparr>)]"

definition eventTable6 :: "(EventType \<times> TypeSpec) list" where
  "eventTable6 = [
    (EventDefinitionsDeletionRefused, \<lparr>ts_SchemaVersion = 1, ts_Retention = RetentionSecurity,
       ts_Outcomes = [OutcomeDenied], ts_Trails = [TrailTenant], ts_Schema = [
         (''plan_id'', required (field KindString))]\<rparr>),
    (EventDefinitionsAdditiveModificationRefused, \<lparr>ts_SchemaVersion = 1, ts_Retention =
       RetentionSecurity, ts_Outcomes = [OutcomeDenied], ts_Trails = [TrailTenant], ts_Schema = [
         (''name'', required (field KindFreeText))]\<rparr>),
    (EventSettingsDefinitionsSourceChanged, hierarchyEvent [(''previous_source'', required (field KindString)),
       (''source'', required (field KindString))]),
    (EventProjectCapacityChanged, hierarchyEvent [(''previous_mode'', required (field KindString)),
       (''previous_override'', required (field KindInt)), (''mode'', required (field KindString)),
       (''override'', required (field KindInt)), (''previous_effective_limit'', required (field KindInt)),
       (''effective_limit'', required (field KindInt)), (''instance_default'', required (field KindInt)),
       (''instance_maximum'', required (field KindInt))]),
    (EventSettingsMachineRevealChanged, hierarchyEvent [(''previous_enabled'', required (field KindBool)),
       (''enabled'', required (field KindBool))]),
    (EventValueSet, hierarchyEvent [(''key_id'', required (field KindString)), (''name'', required (field
       KindFreeText)), (''classification'', required (field KindString))]),
    (EventValueCleared, hierarchyEvent [(''key_id'', required (field KindString)), (''name'', required (field
       KindFreeText)), (''classification'', required (field KindString))]),
    (EventValueRevealed, hierarchyEvent [(''parameters'', maxLen 32 (maxBytes 256 (field KindFreeTextMap))),
       (''key_id'', required (field KindString)), (''name'', required (field KindFreeText)), (''surface'',
       required (field KindString)), (''revision'', field KindInt), (''classification'', field KindString),
       (''served_credential_id'', field KindString), (''generation'', field KindString), (''served_from'', field
       KindString), (''receipt_verified'', field KindBool), (''snapshot_commitment'', field KindString)]),
    (EventValuesExported, hierarchyEvent [(''parameters'', required (maxLen 32 (maxBytes 256 (field
       KindFreeTextMap)))), (''revision'', required (field KindInt))]),
    (EventValueStaged, hierarchyEvent [(''key_id'', required (field KindString)), (''name'', required (field
       KindFreeText)), (''classification'', required (field KindString)), (''operation'', required (field
       KindString)), (''version_id'', required (field KindString))]),
    (EventValueChangeValidated, hierarchyEvent [(''key_id'', required (field KindString)), (''name'', required
       (field KindFreeText)), (''classification'', required (field KindString)), (''operation'', required
       (withEnum [''set'', ''unset''] (field KindString))), (''valid'', required (field KindBool)),
       (''problems'', required (field KindInt)), (''findings'', required (field KindInt))]),
    (EventRevisionPublished, hierarchyEvent [(''revision'', required (field KindInt)), (''schema_revision'',
       required (field KindInt)), (''changed_keys'', required (field KindInt)), (''pending_count'', required
       (field KindInt)), (''trigger'', required (field KindString))]),
    (EventRevisionRestoreStaged, hierarchyEvent [(''revision'', required (field KindInt)), (''key_count'',
       required (field KindInt)), (''key'', field KindString)]),
    (EventPinCreated, hierarchyEvent pinMutationSchema),
    (EventPinReassigned, hierarchyEvent pinMutationSchema),
    (EventPinRenewed, hierarchyEvent pinMutationSchema),
    (EventPinReleased, hierarchyEvent [(''workload_principal_id'', required (field KindString)), (''revision'',
       required (field KindInt))]),
    (EventPinExpiryRefused, hierarchyFailureEvent [(''workload_principal_id'', required (field KindString)),
       (''requested_expires_at'', required (field KindString)), (''max_days'', required (field KindInt)),
       (''cause'', required (field KindString))]),
    (EventTokenKeyRotated, \<lparr>ts_SchemaVersion = 1, ts_Retention = RetentionSecurity, ts_Outcomes =
       [OutcomeSuccess], ts_Trails = [TrailInstance], ts_Schema = [
         (''key_version'', required (field KindInt))]\<rparr>),
    (EventScanningKeyRotated, \<lparr>ts_SchemaVersion = 1, ts_Retention = RetentionSecurity, ts_Outcomes =
       [OutcomeSuccess], ts_Trails = [TrailInstance], ts_Schema = [
         (''key_version'', required (field KindInt))]\<rparr>),
    (EventScanningFindingWarned, hierarchyEvent [(''rule_id'', required (field KindString)), (''surface'',
       required (withEnum [''value_write'', ''declassification'', ''import_value''] (field KindString)))])]"

definition eventTable7 :: "(EventType \<times> TypeSpec) list" where
  "eventTable7 = [
    (EventScanningFindingDismissed, hierarchyEvent [(''rule_id'', required (field KindString)),
       (''dismissal_id'', required (field KindString))]),
    (EventScanningFindingBlocked, hierarchyEvent [(''rule_id'', required (field KindString)), (''ingress'',
       required (withEnum [''edit'', ''plan'', ''apply''] (field KindString)))]),
    (EventScanningFindingOverridden, hierarchyEvent [(''rule_id'', required (field KindString)), (''ingress'',
       required (withEnum [''edit'', ''plan'', ''apply''] (field KindString))), (''acknowledgement_ref'',
       required (field KindString))]),
    (EventDEKRotated, \<lparr>ts_SchemaVersion = 1, ts_Retention = RetentionSecurity, ts_Outcomes =
       [OutcomeSuccess], ts_Trails = [TrailInstance], ts_Schema = [
         (''scope'', required (field KindString)),
         (''org_id'', field KindString),
         (''project_id'', field KindString),
         (''key_version'', required (field KindInt))]\<rparr>),
    (EventMasterKeyRotated, \<lparr>ts_SchemaVersion = 1, ts_Retention = RetentionSecurity, ts_Outcomes =
       [OutcomeSuccess], ts_Trails = [TrailInstance], ts_Schema = [
         (''key_version'', required (field KindInt))]\<rparr>),
    (EventReencryptCompleted, \<lparr>ts_SchemaVersion = 1, ts_Retention = RetentionSecurity, ts_Outcomes =
       [OutcomeSuccess], ts_Trails = [TrailTenant, TrailInstance], ts_Schema = [
         (''scope'', required (field KindString)),
         (''rows_moved'', required (field KindInt))]\<rparr>),
    (EventRootEscrowVerified, \<lparr>ts_SchemaVersion = 1, ts_Retention = RetentionSecurity, ts_Outcomes =
       [OutcomeSuccess], ts_Trails = [TrailInstance], ts_Schema = [
         (''root_key_epoch'', required (field KindInt)),
         (''separate_custody_asserted'', required (field KindBool))]\<rparr>),
    (EventRootKeyRotationPrepared, \<lparr>ts_SchemaVersion = 1, ts_Retention = RetentionSecurity, ts_Outcomes =
       [OutcomeSuccess], ts_Trails = [TrailInstance], ts_Schema = [
         (''root_key_epoch'', required (field KindInt))]\<rparr>),
    (EventRootKeyRotationVerified, \<lparr>ts_SchemaVersion = 1, ts_Retention = RetentionSecurity, ts_Outcomes =
       [OutcomeSuccess], ts_Trails = [TrailInstance], ts_Schema = [
         (''root_key_epoch'', required (field KindInt))]\<rparr>),
    (EventRootKeyRotationFinalized, \<lparr>ts_SchemaVersion = 1, ts_Retention = RetentionSecurity, ts_Outcomes
       = [OutcomeSuccess], ts_Trails = [TrailInstance], ts_Schema = [
         (''root_key_epoch'', required (field KindInt))]\<rparr>),
    (EventValueCopied, hierarchyEvent [(''key_id'', required (field KindString)), (''name'', required (field
       KindFreeText)), (''classification'', required (field KindString)), (''source_environment_id'', required
       (field KindString)), (''operation'', required (field KindString))]),
    (EventValueImported, hierarchyEvent [(''imported_count'', required (field KindInt)), (''skipped_count'',
       required (field KindInt)), (''manifest_bound'', required (field KindBool))]),
    (EventKeyGroupCreated, hierarchyEvent [(''name'', required (field KindFreeText))]),
    (EventKeyGroupRenamed, hierarchyEvent (renameSchema ''name'')),
    (EventKeyGroupDeleted, hierarchyEvent [(''name'', required (field KindFreeText)), (''members_released'',
       required (field KindInt))]),
    (EventKeyGroupMembershipChanged, hierarchyEvent [(''name'', required (field KindFreeText)),
       (''previous_group_id'', field KindString), (''group_id'', field KindString)]),
    (EventGrantCreated, \<lparr>ts_SchemaVersion = 1, ts_Retention = RetentionSecurity, ts_Outcomes =
       [OutcomeSuccess], ts_Trails = [TrailTenant, TrailInstance], ts_Schema = grantSchema\<rparr>),
    (EventGrantModified, \<lparr>ts_SchemaVersion = 1, ts_Retention = RetentionSecurity, ts_Outcomes =
       [OutcomeSuccess], ts_Trails = [TrailTenant, TrailInstance], ts_Schema = grantSchema\<rparr>)]"

definition eventTable8 :: "(EventType \<times> TypeSpec) list" where
  "eventTable8 = [
    (EventGrantRevoked, \<lparr>ts_SchemaVersion = 1, ts_Retention = RetentionSecurity, ts_Outcomes =
       [OutcomeSuccess], ts_Trails = [TrailTenant, TrailInstance], ts_Schema = (merged grantSchema
       [(''origins_remaining'', required (field KindInt)), (''sessions_revoked'', required (field
       KindBool))])\<rparr>),
    (EventRuleCreated, \<lparr>ts_SchemaVersion = 1, ts_Retention = RetentionSecurity, ts_Outcomes =
       [OutcomeSuccess], ts_Trails = [TrailTenant], ts_Schema = (merged ruleSchema [(''unheld'', required (field
       KindBool))])\<rparr>),
    (EventRuleRevoked, \<lparr>ts_SchemaVersion = 1, ts_Retention = RetentionSecurity, ts_Outcomes =
       [OutcomeSuccess], ts_Trails = [TrailTenant], ts_Schema = (merged ruleSchema [(''cause'', required
       (withEnum [''revoked'', ''emptied-by-deletion'', ''scope-deleted''] (field KindString)))])\<rparr>),
    (EventRuleMoveWideningConfirmed, \<lparr>ts_SchemaVersion = 1, ts_Retention = RetentionSecurity, ts_Outcomes
       = [OutcomeSuccess], ts_Trails = [TrailTenant], ts_Schema = [
         (''key_id'', required (field KindString)),
         (''from_folder'', required (field KindFreeText)),
         (''to_folder'', required (field KindFreeText)),
         (''principals'', required (maxLen 1000 (maxBytes 256 (field KindStringList))))]\<rparr>),
    (EventMemberInvited, \<lparr>ts_SchemaVersion = 1, ts_Retention = RetentionSecurity, ts_Outcomes =
       [OutcomeSuccess], ts_Trails = [TrailTenant, TrailInstance], ts_Schema = [
         (''principal_id'', required (field KindString)),
         (''account_id'', required (field KindString)),
         (''username'', required (field KindFreeText)),
         (''scope'', required (field KindString)),
         (''template'', field KindString),
         (''grants_created'', required (field KindInt)),
         (''authority_id'', required (field KindString)),
         (''delivery'', required (withEnum [''file'', ''terminal'', ''stdout'', ''response''] (field
            KindString)))]\<rparr>),
    (EventRegistrationPolicyCreated, registrationPolicySpec),
    (EventRegistrationPolicyUpdated, registrationPolicySpec),
    (EventRegistrationPolicyDeleted, registrationPolicySpec),
    (EventRegistrationSignupExpired, \<lparr>ts_SchemaVersion = 1, ts_Retention = RetentionSecurity, ts_Outcomes
       = [OutcomeSuccess], ts_Trails = [TrailTenant, TrailInstance], ts_Schema = [
         (''signup_id'', required (field KindString)),
         (''policy_id'', required (field KindString)),
         (''cause'', required (withEnum [''expired'', ''policy-deleted''] (field KindString)))]\<rparr>),
    (EventRegistrationMailStatusRead, \<lparr>ts_SchemaVersion = 1, ts_Retention = RetentionAccess, ts_Outcomes
       = [OutcomeSuccess], ts_Trails = [TrailInstance], ts_Schema = [
         (''configured'', required (field KindBool))]\<rparr>),
    (EventRegistrationMailIntent, \<lparr>ts_SchemaVersion = 1, ts_Retention = RetentionSecurity, ts_Outcomes =
       [OutcomeIntent], ts_Trails = [TrailInstance], ts_Schema = [
         (''kind'', required (withEnum [''verification'', ''existing-address'', ''test''] (field KindString))),
         (''recipient'', required (field KindFreeText)),
         (''policy_id'', field KindString)]\<rparr>),
    (EventRegistrationMailOutcome, \<lparr>ts_SchemaVersion = 1, ts_Retention = RetentionSecurity, ts_Outcomes =
       [OutcomeSuccess, OutcomeFailure], ts_Trails = [TrailInstance], ts_Schema = [
         (''intent_id'', required (field KindString))]\<rparr>),
    (EventRegistrationSignupAdmitted, \<lparr>ts_SchemaVersion = 1, ts_Retention = RetentionSecurity,
       ts_Outcomes = [OutcomeSuccess], ts_Trails = [TrailInstance], ts_Schema = [
         (''policy_id'', required (field KindString)),
         (''scope'', required (field KindString)),
         (''landing'', required (withEnum [''org-template'', ''none'', ''fresh-org''] (field KindString))),
         (''kind'', withEnum [''oidc'', ''oauth2''] (field KindString)),
         (''issuer'', field KindString),
         (''provider_id'', field KindString),
         (''address'', field KindFreeText),
         (''verified_by'', withEnum [''email_verified'', ''xms_edov'', ''github-primary''] (field
            KindString))]\<rparr>),
    (EventRegistrationSignupRefused, \<lparr>ts_SchemaVersion = 1, ts_Retention = RetentionSecurity, ts_Outcomes
       = [OutcomeFailure], ts_Trails = [TrailInstance], ts_Schema = [
         (''cause'', required (withEnum [''closed'', ''predicate'', ''precondition'', ''budget'',
            ''authority-lost'', ''identity-exists'', ''cap'', ''email-exists'', ''no-verified-email'',
            ''malformed'', ''unknown'', ''expired'', ''epoch-superseded''] (field KindString))),
         (''scope'', required (field KindString)),
         (''policy_id'', field KindString),
         (''kind'', withEnum [''oidc'', ''oauth2''] (field KindString)),
         (''provider_id'', field KindString),
         (''verified_by'', withEnum [''none''] (field KindString))]\<rparr>),
    (EventRegistrationSignupCompleted, \<lparr>ts_SchemaVersion = 1, ts_Retention = RetentionSecurity,
       ts_Outcomes = [OutcomeSuccess], ts_Trails = [TrailInstance], ts_Schema = [
         (''policy_id'', required (field KindString)),
         (''account_id'', required (field KindString)),
         (''landing'', required (withEnum [''org-template'', ''none'', ''fresh-org''] (field KindString))),
         (''org_id'', field KindString),
         (''kind'', withEnum [''oidc'', ''oauth2''] (field KindString)),
         (''provider_id'', field KindString),
         (''address'', field KindFreeText),
         (''verified_by'', withEnum [''email_verified'', ''xms_edov'', ''github-primary''] (field KindString)),
         (''display_name_from'', withEnum [''name-claim'', ''handle''] (field KindString))]\<rparr>)]"

definition eventTable9 :: "(EventType \<times> TypeSpec) list" where
  "eventTable9 = [
    (EventGrantTemplateApplied, \<lparr>ts_SchemaVersion = 1, ts_Retention = RetentionSecurity, ts_Outcomes =
       [OutcomeSuccess], ts_Trails = [TrailTenant, TrailInstance], ts_Schema = [
         (''template'', required (field KindString)),
         (''target_principal'', required (field KindString)),
         (''scope'', required (field KindString)),
         (''capability_count'', required (field KindInt)),
         (''grants_created'', required (field KindInt)),
         (''grants_deduped'', required (field KindInt)),
         (''grants_joined'', required (field KindInt)),
         (''grants_unchanged'', required (field KindInt)),
         (''self_grant'', required (field KindBool)),
         (''capabilities'', required (field KindString))]\<rparr>),
    (EventReauthWindowChanged, \<lparr>ts_SchemaVersion = 1, ts_Retention = RetentionSecurity, ts_Outcomes =
       [OutcomeSuccess], ts_Trails = [TrailTenant], ts_Schema = [
         (''previous_window_seconds'', required (field KindInt)),
         (''window_seconds'', required (field KindInt)),
         (''previous_configured_seconds'', required (field KindInt)),
         (''configured_seconds'', required (field KindInt)),
         (''previous_inherited'', required (field KindBool)),
         (''inherited'', required (field KindBool)),
         (''widened'', required (field KindBool)),
         (''protected'', required (field KindBool))]\<rparr>),
    (EventProtectedFlagChange, \<lparr>ts_SchemaVersion = 1, ts_Retention = RetentionSecurity, ts_Outcomes =
       [OutcomeSuccess], ts_Trails = [TrailTenant], ts_Schema = [
         (''protected'', required (field KindBool)),
         (''window_seconds'', required (field KindInt))]\<rparr>),
    (EventOrgRetentionChanged, \<lparr>ts_SchemaVersion = 1, ts_Retention = RetentionSecurity, ts_Outcomes =
       [OutcomeSuccess], ts_Trails = [TrailTenant], ts_Schema = [
         (''previous_policy'', required (field KindString)),
         (''policy'', required (field KindString))]\<rparr>),
    (EventProjectRetentionChanged, \<lparr>ts_SchemaVersion = 1, ts_Retention = RetentionSecurity, ts_Outcomes =
       [OutcomeSuccess], ts_Trails = [TrailTenant], ts_Schema = [
         (''previous_policy'', required (field KindString)),
         (''policy'', required (field KindString)),
         (''previous_inherited'', required (field KindBool)),
         (''inherited'', required (field KindBool))]\<rparr>),
    (EventRetentionHealthRead, \<lparr>ts_SchemaVersion = 1, ts_Retention = RetentionAccess, ts_Outcomes =
       [OutcomeSuccess], ts_Trails = [TrailInstance], ts_Schema = [
         (''recorded'', required (field KindBool)),
         (''stale'', required (field KindBool)),
         (''stale_after_seconds'', required (field KindInt)),
         (''peak_project_bytes'', required (field KindInt)),
         (''storage_warn'', required (field KindBool))]\<rparr>),
    (EventUpdateStatusRead, \<lparr>ts_SchemaVersion = 1, ts_Retention = RetentionAccess, ts_Outcomes =
       [OutcomeSuccess], ts_Trails = [TrailInstance], ts_Schema = [
         (''channel'', required (withEnum [''stable'', ''nightly'', ''off''] (field KindString))),
         (''current_version'', required (field KindString))]\<rparr>),
    (EventUpdateRequested, \<lparr>ts_SchemaVersion = 1, ts_Retention = RetentionSecurity, ts_Outcomes =
       [OutcomeIntent], ts_Trails = [TrailInstance], ts_Schema = [
         (''version'', required (field KindString)),
         (''backend'', required (withEnum [''flux'', ''compose'', ''systemd'', ''disabled''] (field
            KindString)))]\<rparr>),
    (EventUpdateOutcome, \<lparr>ts_SchemaVersion = 1, ts_Retention = RetentionSecurity, ts_Outcomes =
       [OutcomeSuccess, OutcomeFailure], ts_Trails = [TrailInstance], ts_Schema = [
         (''version'', required (field KindString)),
         (''backend'', required (withEnum [''flux'', ''compose'', ''systemd'', ''disabled''] (field
            KindString))),
         (''state'', required (withEnum [''succeeded'', ''failed'', ''rolled-back'', ''rollback-failed''] (field
            KindString))),
         (''failure_code'', field KindString)]\<rparr>),
    (EventRetentionPayloadGC, \<lparr>ts_SchemaVersion = 1, ts_Retention = RetentionSecurity, ts_Outcomes =
       [OutcomeSuccess], ts_Trails = [TrailTenant], ts_Schema = [
         (''org'', required (field KindString)),
         (''project'', required (field KindString)),
         (''environment'', required (field KindString)),
         (''revision'', required (field KindInt)),
         (''snapshot_id'', required (field KindString)),
         (''policy'', required (field KindString)),
         (''collected_at'', required (field KindString))]\<rparr>)]"

definition eventTable10 :: "(EventType \<times> TypeSpec) list" where
  "eventTable10 = [
    (EventAuditRetentionChanged, \<lparr>ts_SchemaVersion = 1, ts_Retention = RetentionSecurity, ts_Outcomes =
       [OutcomeSuccess], ts_Trails = [TrailInstance], ts_Schema = [
         (''previous_access_days'', required (field KindInt)),
         (''previous_security_days'', required (field KindInt)),
         (''access_days'', required (field KindInt)),
         (''security_days'', required (field KindInt))]\<rparr>),
    (EventAuditRetentionPruned, \<lparr>ts_SchemaVersion = 1, ts_Retention = RetentionSecurity, ts_Outcomes =
       [OutcomeSuccess], ts_Trails = [TrailInstance], ts_Schema = [
         (''trail'', required (withEnum [''tenant'', ''instance''] (field KindString))),
         (''category'', required (field KindString)),
         (''deleted'', required (nonNegative (field KindInt))),
         (''from_time'', required (field KindString)),
         (''through_time'', required (field KindString)),
         (''access_days'', required (field KindInt)),
         (''security_days'', required (field KindInt))]\<rparr>),
    (EventRetentionPruneRun, \<lparr>ts_SchemaVersion = 1, ts_Retention = RetentionSecurity, ts_Outcomes =
       [OutcomeSuccess, OutcomeFailure], ts_Trails = [TrailInstance], ts_Schema = [
         (''started_at'', required (field KindString)),
         (''finished_at'', required (field KindString)),
         (''candidates'', required (field KindInt)),
         (''collected'', required (withSchema [(''revision_payloads'', required (field KindInt))] (field
            KindObject))),
         (''error_class'', field KindString)]\<rparr>),
    (EventBreakGlassGrant, \<lparr>ts_SchemaVersion = 1, ts_Retention = RetentionSecurity, ts_Outcomes =
       [OutcomeSuccess], ts_Trails = [TrailInstance], ts_Schema = [
         (''target_principal'', required (field KindString)),
         (''capability'', required (field KindString)),
         (''scope'', required (field KindString)),
         (''authority'', required (field KindString)),
         (''grant_created'', required (field KindBool))]\<rparr>),
    (EventApprovalPolicyChanged, \<lparr>ts_SchemaVersion = 1, ts_Retention = RetentionSecurity, ts_Outcomes =
       [OutcomeSuccess], ts_Trails = [TrailTenant], ts_Schema = [
         (''action'', required (withEnum [''created'', ''updated'', ''disabled'', ''deleted''] (field
            KindString))),
         (''environment'', required (field KindString)),
         (''min_approvals'', required (nonNegative (field KindInt))),
         (''self_approval'', required (field KindBool)),
         (''enabled'', required (field KindBool)),
         (''approver_count'', required (nonNegative (field KindInt))),
         (''bypasser_count'', required (nonNegative (field KindInt)))]\<rparr>),
    (EventApprovalPolicyRead, \<lparr>ts_SchemaVersion = 1, ts_Retention = RetentionSecurity, ts_Outcomes =
       [OutcomeSuccess], ts_Trails = [TrailTenant], ts_Schema = [
         (''policy_count'', required (nonNegative (field KindInt)))]\<rparr>),
    (EventApprovalRequested, \<lparr>ts_SchemaVersion = 1, ts_Retention = RetentionSecurity, ts_Outcomes =
       [OutcomeSuccess], ts_Trails = [TrailTenant], ts_Schema = [
         (''policy_id'', required (field KindString)),
         (''policy_version'', required (nonNegative (field KindInt))),
         (''change_count'', required (nonNegative (field KindInt))),
         (''base_revision'', required (nonNegative (field KindInt))),
         (''preview_digest'', required (digestHex (field KindString)))]\<rparr>),
    (EventApprovalVoted, \<lparr>ts_SchemaVersion = 1, ts_Retention = RetentionSecurity, ts_Outcomes =
       [OutcomeSuccess], ts_Trails = [TrailTenant], ts_Schema = [
         (''decision'', required (withEnum [''approve'', ''reject''] (field KindString))),
         (''self_approval'', required (field KindBool))]\<rparr>),
    (EventApprovalMerged, \<lparr>ts_SchemaVersion = 1, ts_Retention = RetentionSecurity, ts_Outcomes =
       [OutcomeSuccess], ts_Trails = [TrailTenant], ts_Schema = [
         (''revision'', required (nonNegative (field KindInt))),
         (''approvals'', required (nonNegative (field KindInt))),
         (''preview_digest'', required (digestHex (field KindString)))]\<rparr>),
    (EventApprovalInvalidated, \<lparr>ts_SchemaVersion = 1, ts_Retention = RetentionSecurity, ts_Outcomes =
       [OutcomeSuccess], ts_Trails = [TrailTenant], ts_Schema = [
         (''cause'', required (withEnum [''policy_changed'', ''draft_edited'', ''env_advanced'',
            ''approver_removed''] (field KindString)))]\<rparr>),
    (EventApprovalExpired, \<lparr>ts_SchemaVersion = 1, ts_Retention = RetentionSecurity, ts_Outcomes =
       [OutcomeSuccess], ts_Trails = [TrailTenant], ts_Schema = [
         (''policy_id'', required (field KindString)),
         (''expired_at'', required (field KindString))]\<rparr>)]"

definition eventTable11 :: "(EventType \<times> TypeSpec) list" where
  "eventTable11 = [
    (EventApprovalBypassed, \<lparr>ts_SchemaVersion = 1, ts_Retention = RetentionSecurity, ts_Outcomes =
       [OutcomeSuccess], ts_Trails = [TrailTenant], ts_Schema = [
         (''reason'', required (maxBytes 512 (field KindFreeText))),
         (''revision'', required (nonNegative (field KindInt))),
         (''preview_digest'', required (digestHex (field KindString)))]\<rparr>),
    (EventAccessPolicyChanged, \<lparr>ts_SchemaVersion = 1, ts_Retention = RetentionSecurity, ts_Outcomes =
       [OutcomeSuccess], ts_Trails = [TrailTenant], ts_Schema = [
         (''action'', required (withEnum [''created'', ''updated'', ''deleted''] (field KindString))),
         (''environment'', required (field KindString)),
         (''capabilities'', required (field KindStringList)),
         (''max_duration_seconds'', required (nonNegative (field KindInt))),
         (''min_approvals'', required (nonNegative (field KindInt))),
         (''self_approval'', required (field KindBool)),
         (''enabled'', required (field KindBool)),
         (''approver_count'', required (nonNegative (field KindInt))),
         (''bypasser_count'', required (nonNegative (field KindInt)))]\<rparr>),
    (EventAccessPolicyRead, \<lparr>ts_SchemaVersion = 1, ts_Retention = RetentionSecurity, ts_Outcomes =
       [OutcomeSuccess], ts_Trails = [TrailTenant], ts_Schema = [
         (''policy_count'', required (nonNegative (field KindInt)))]\<rparr>),
    (EventAccessRequested, \<lparr>ts_SchemaVersion = 1, ts_Retention = RetentionSecurity, ts_Outcomes =
       [OutcomeSuccess], ts_Trails = [TrailTenant], ts_Schema = [
         (''policy_id'', required (field KindString)),
         (''policy_version'', required (nonNegative (field KindInt))),
         (''capabilities'', required (field KindStringList)),
         (''duration_seconds'', required (nonNegative (field KindInt))),
         (''reason'', required (maxBytes 512 (field KindFreeText)))]\<rparr>),
    (EventAccessVoted, \<lparr>ts_SchemaVersion = 1, ts_Retention = RetentionSecurity, ts_Outcomes =
       [OutcomeSuccess], ts_Trails = [TrailTenant], ts_Schema = [
         (''decision'', required (withEnum [''approve'', ''reject''] (field KindString))),
         (''self_approval'', required (field KindBool))]\<rparr>),
    (EventAccessGranted, \<lparr>ts_SchemaVersion = 1, ts_Retention = RetentionSecurity, ts_Outcomes =
       [OutcomeSuccess], ts_Trails = [TrailTenant], ts_Schema = [
         (''target_principal'', required (field KindString)),
         (''capabilities'', required (field KindStringList)),
         (''expires_at'', required (field KindString)),
         (''approvals'', required (nonNegative (field KindInt)))]\<rparr>),
    (EventAccessCancelled, \<lparr>ts_SchemaVersion = 1, ts_Retention = RetentionSecurity, ts_Outcomes =
       [OutcomeSuccess], ts_Trails = [TrailTenant], ts_Schema = []\<rparr>),
    (EventAccessInvalidated, \<lparr>ts_SchemaVersion = 1, ts_Retention = RetentionSecurity, ts_Outcomes =
       [OutcomeSuccess], ts_Trails = [TrailTenant], ts_Schema = [
         (''cause'', required (withEnum [''policy_changed'', ''policy_disabled'', ''approver_removed''] (field
            KindString)))]\<rparr>),
    (EventAccessRevoked, \<lparr>ts_SchemaVersion = 1, ts_Retention = RetentionSecurity, ts_Outcomes =
       [OutcomeSuccess], ts_Trails = [TrailTenant], ts_Schema = [
         (''target_principal'', required (field KindString)),
         (''capabilities'', required (field KindStringList)),
         (''released_rows'', required (nonNegative (field KindInt))),
         (''self_revoked'', required (field KindBool))]\<rparr>),
    (EventAccessExpired, \<lparr>ts_SchemaVersion = 1, ts_Retention = RetentionSecurity, ts_Outcomes =
       [OutcomeSuccess], ts_Trails = [TrailTenant], ts_Schema = [
         (''phase'', required (withEnum [''review'', ''grant''] (field KindString))),
         (''target_principal'', required (field KindString)),
         (''released_rows'', required (nonNegative (field KindInt))),
         (''expired_at'', required (field KindString))]\<rparr>),
    (EventAccessBypassed, \<lparr>ts_SchemaVersion = 1, ts_Retention = RetentionSecurity, ts_Outcomes =
       [OutcomeSuccess], ts_Trails = [TrailTenant], ts_Schema = [
         (''policy_id'', required (field KindString)),
         (''policy_version'', required (nonNegative (field KindInt))),
         (''capabilities'', required (field KindStringList)),
         (''duration_seconds'', required (nonNegative (field KindInt))),
         (''expires_at'', required (field KindString)),
         (''reason'', required (maxBytes 512 (field KindFreeText)))]\<rparr>)]"

definition eventTable12 :: "(EventType \<times> TypeSpec) list" where
  "eventTable12 = [
    (EventBackupExported, \<lparr>ts_SchemaVersion = 1, ts_Retention = RetentionSecurity, ts_Outcomes =
       [OutcomeSuccess], ts_Trails = [TrailInstance], ts_Schema = [
         (''trigger'', required (field KindString)),
         (''recipient_mode'', required (field KindString)),
         (''recipient_count'', required (field KindInt)),
         (''engine'', required (field KindString)),
         (''schema_version'', required (field KindInt)),
         (''artifact_bytes'', required (field KindInt)),
         (''destination'', required (field KindFreeText))]\<rparr>),
    (EventBackupExportSkipped, \<lparr>ts_SchemaVersion = 1, ts_Retention = RetentionSecurity, ts_Outcomes =
       [OutcomeFailure], ts_Trails = [TrailInstance], ts_Schema = [
         (''trigger'', required (field KindString)),
         (''reason'', required (field KindString))]\<rparr>),
    (EventRestoreCompleted, \<lparr>ts_SchemaVersion = 1, ts_Retention = RetentionSecurity, ts_Outcomes =
       [OutcomeSuccess], ts_Trails = [TrailInstance], ts_Schema = [
         (''engine'', required (field KindString)),
         (''schema_version'', required (field KindInt)),
         (''credential_epoch'', required (field KindInt)),
         (''restore_epoch'', required (field KindInt)),
         (''pending_principals'', required (field KindInt)),
         (''authority'', required (field KindString))]\<rparr>),
    (EventRestorePrincipalReconciled, \<lparr>ts_SchemaVersion = 1, ts_Retention = RetentionSecurity,
       ts_Outcomes = [OutcomeSuccess], ts_Trails = [TrailInstance], ts_Schema = [
         (''target_principal'', required (field KindString)),
         (''restore_epoch'', required (field KindInt)),
         (''pending_principals'', required (field KindInt)),
         (''authority'', required (field KindString))]\<rparr>),
    (EventBackupExportFailed, \<lparr>ts_SchemaVersion = 1, ts_Retention = RetentionSecurity, ts_Outcomes =
       [OutcomeFailure], ts_Trails = [TrailInstance], ts_Schema = [
         (''trigger'', required (field KindString)),
         (''error_class'', required (field KindString))]\<rparr>),
    (EventRestoreDrillCompleted, \<lparr>ts_SchemaVersion = 1, ts_Retention = RetentionSecurity, ts_Outcomes =
       [OutcomeSuccess, OutcomeFailure], ts_Trails = [TrailInstance], ts_Schema = [
         (''archive'', required (field KindString)),
         (''archive_digest'', required (field KindString)),
         (''engine'', required (field KindString)),
         (''schema_version'', required (field KindInt)),
         (''binary_version'', required (field KindString)),
         (''elapsed_ms'', required (field KindInt)),
         (''rto_target_ms'', required (field KindInt)),
         (''rto_met'', required (field KindBool)),
         (''values_readable'', required (field KindBool)),
         (''reconciled_principal'', required (field KindString)),
         (''credential_minted'', required (field KindBool)),
         (''failed_step'', required (field KindString)),
         (''authority'', required (field KindString))]\<rparr>),
    (EventGrantMembershipRead, \<lparr>ts_SchemaVersion = 1, ts_Retention = RetentionAccess, ts_Outcomes =
       [OutcomeSuccess], ts_Trails = [TrailTenant, TrailInstance], ts_Schema = [
         (''scope'', required (field KindString)),
         (''row_count'', required (field KindInt))]\<rparr>),
    (EventServiceAccountCreated, \<lparr>ts_SchemaVersion = 1, ts_Retention = RetentionSecurity, ts_Outcomes =
       [OutcomeSuccess], ts_Trails = [TrailTenant], ts_Schema = [
         (''service_account_id'', required (field KindString)),
         (''target_principal'', required (field KindString)),
         (''principal_class'', required (field KindString)),
         (''name'', required (field KindFreeText))]\<rparr>),
    (EventServiceAccountDeleted, \<lparr>ts_SchemaVersion = 1, ts_Retention = RetentionSecurity, ts_Outcomes =
       [OutcomeSuccess], ts_Trails = [TrailTenant], ts_Schema = [
         (''service_account_id'', required (field KindString)),
         (''target_principal'', required (field KindString)),
         (''principal_class'', required (field KindString)),
         (''credentials_revoked'', required (field KindInt))]\<rparr>),
    (EventDeveloperCredentialMintRefused, \<lparr>ts_SchemaVersion = 1, ts_Retention = RetentionSecurity,
       ts_Outcomes = [OutcomeFailure], ts_Trails = [TrailInstance], ts_Schema = [
         (''cause'', required (field KindString)),
         (''scope'', required (field KindString))]\<rparr>)]"

definition eventTable13 :: "(EventType \<times> TypeSpec) list" where
  "eventTable13 = [
    (EventDeveloperCredentialMinted, \<lparr>ts_SchemaVersion = 1, ts_Retention = RetentionSecurity, ts_Outcomes
       = [OutcomeSuccess], ts_Trails = [TrailTenant], ts_Schema = [
         (''credential_id'', required (field KindString)),
         (''target_principal'', required (field KindString)),
         (''human_authority'', required (field KindString)),
         (''lifetime_seconds'', required (field KindInt)),
         (''consent_current_and_future'', required (field KindBool)),
         (''expires_at'', required (field KindString))]\<rparr>),
    (EventDeveloperCredentialRevoked, \<lparr>ts_SchemaVersion = 1, ts_Retention = RetentionSecurity,
       ts_Outcomes = [OutcomeSuccess], ts_Trails = [TrailTenant, TrailInstance], ts_Schema = [
         (''credential_id'', required (field KindString)),
         (''target_principal'', required (field KindString)),
         (''human_authority'', required (field KindString)),
         (''cause'', required (field KindString)),
         (''scope'', required (field KindString))]\<rparr>),
    (EventDeveloperCredentialsListed, \<lparr>ts_SchemaVersion = 1, ts_Retention = RetentionAccess, ts_Outcomes
       = [OutcomeSuccess], ts_Trails = [TrailTenant, TrailInstance], ts_Schema = [
         (''row_count'', required (field KindInt))]\<rparr>),
    (EventDeveloperCredentialPolicyRead, \<lparr>ts_SchemaVersion = 1, ts_Retention = RetentionAccess,
       ts_Outcomes = [OutcomeSuccess], ts_Trails = [TrailInstance], ts_Schema = []\<rparr>),
    (EventDeveloperCredentialPolicyChanged, \<lparr>ts_SchemaVersion = 1, ts_Retention = RetentionSecurity,
       ts_Outcomes = [OutcomeSuccess], ts_Trails = [TrailInstance], ts_Schema = [
         (''max_lifetime_seconds'', required (field KindInt)),
         (''clamped_count'', required (field KindInt))]\<rparr>),
    (EventCredentialMinted, \<lparr>ts_SchemaVersion = 1, ts_Retention = RetentionSecurity, ts_Outcomes =
       [OutcomeSuccess], ts_Trails = [TrailTenant], ts_Schema = [
         (''service_account_id'', required (field KindString)),
         (''target_principal'', required (field KindString)),
         (''principal_class'', required (field KindString)),
         (''credential_id'', required (field KindString)),
         (''credential_kind'', required (field KindString)),
         (''lifetime'', required (field KindString)),
         (''expires_at'', field KindString),
         (''clamped'', required (field KindBool)),
         (''reveal_environments'', required (field KindStringList)),
         (''reveal_history_environments'', required (field KindStringList))]\<rparr>),
    (EventCredentialRevoked, \<lparr>ts_SchemaVersion = 1, ts_Retention = RetentionSecurity, ts_Outcomes =
       [OutcomeSuccess], ts_Trails = [TrailTenant], ts_Schema = [
         (''service_account_id'', required (field KindString)),
         (''target_principal'', required (field KindString)),
         (''principal_class'', required (field KindString)),
         (''credential_id'', required (field KindString)),
         (''cause'', required (field KindString)),
         (''credential_kind'', field KindString)]\<rparr>),
    (EventMachineGrantWidened, \<lparr>ts_SchemaVersion = 1, ts_Retention = RetentionSecurity, ts_Outcomes =
       [OutcomeSuccess], ts_Trails = [TrailTenant], ts_Schema = [
         (''target_principal'', required (field KindString)),
         (''principal_class'', required (field KindString)),
         (''capability'', required (field KindString)),
         (''scope'', required (field KindString)),
         (''newly_reachable_current'', required (field KindStringList)),
         (''newly_reachable_historical'', required (field KindStringList))]\<rparr>),
    (EventCredentialPolicyChanged, \<lparr>ts_SchemaVersion = 1, ts_Retention = RetentionSecurity, ts_Outcomes =
       [OutcomeSuccess], ts_Trails = [TrailInstance], ts_Schema = [
         (''max_finite_lifetime_seconds'', required (field KindInt)),
         (''allow_indefinite'', required (field KindBool)),
         (''max_live_credentials'', required (field KindInt)),
         (''affected_credentials'', required (field KindStringList)),
         (''clamped_count'', required (field KindInt))]\<rparr>),
    (EventCredentialsListed, \<lparr>ts_SchemaVersion = 1, ts_Retention = RetentionAccess, ts_Outcomes =
       [OutcomeSuccess], ts_Trails = [TrailTenant], ts_Schema = [
         (''scope'', required (field KindString)),
         (''row_count'', required (field KindInt))]\<rparr>),
    (EventCredentialPolicyRead, \<lparr>ts_SchemaVersion = 1, ts_Retention = RetentionAccess, ts_Outcomes =
       [OutcomeSuccess], ts_Trails = [TrailInstance], ts_Schema = []\<rparr>)]"

definition eventTable14 :: "(EventType \<times> TypeSpec) list" where
  "eventTable14 = [
    (EventBindingCreated, \<lparr>ts_SchemaVersion = 1, ts_Retention = RetentionSecurity, ts_Outcomes =
       [OutcomeSuccess], ts_Trails = [TrailTenant], ts_Schema = [
         (''service_account_id'', required (field KindString)),
         (''target_principal'', required (field KindString)),
         (''principal_class'', required (field KindString)),
         (''credential_id'', required (field KindString)),
         (''issuer_id'', required (field KindString)),
         (''issuer'', required (field KindFreeText)),
         (''issuer_type'', required (field KindString)),
         (''subject'', required (field KindFreeText)),
         (''audience'', required (field KindFreeText)),
         (''pinned_claims'', required (field KindStringList)),
         (''lifetime'', required (field KindString)),
         (''expires_at'', field KindString),
         (''clamped'', required (field KindBool)),
         (''replaces'', required (field KindString)),
         (''reveal_environments'', required (field KindStringList)),
         (''reveal_history_environments'', required (field KindStringList))]\<rparr>),
    (EventBindingReactivated, \<lparr>ts_SchemaVersion = 1, ts_Retention = RetentionSecurity, ts_Outcomes =
       [OutcomeSuccess], ts_Trails = [TrailTenant], ts_Schema = [
         (''service_account_id'', required (field KindString)),
         (''target_principal'', required (field KindString)),
         (''principal_class'', required (field KindString)),
         (''credential_id'', required (field KindString)),
         (''reactivated_at'', required (field KindString)),
         (''skew_seconds'', required (field KindInt))]\<rparr>),
    (EventFederationIssuerChanged, \<lparr>ts_SchemaVersion = 1, ts_Retention = RetentionSecurity, ts_Outcomes =
       [OutcomeSuccess], ts_Trails = [TrailInstance], ts_Schema = [
         (''issuer_id'', required (field KindString)),
         (''issuer'', required (field KindFreeText)),
         (''issuer_type'', required (field KindString)),
         (''change'', required (field KindString)),
         (''jwks_mode'', required (field KindString)),
         (''ca_bundle_sha256'', field KindString),
         (''refused_audiences'', required (field KindStringList))]\<rparr>),
    (EventFederationIssuerRead, \<lparr>ts_SchemaVersion = 1, ts_Retention = RetentionAccess, ts_Outcomes =
       [OutcomeSuccess], ts_Trails = [TrailInstance], ts_Schema = [
         (''row_count'', required (field KindInt))]\<rparr>),
    (EventFederationRefused, \<lparr>ts_SchemaVersion = 1, ts_Retention = RetentionSecurity, ts_Outcomes =
       [OutcomeFailure], ts_Trails = [TrailInstance], ts_Schema = [
         (''issuer'', required (field KindFreeText)),
         (''cause'', required (field KindString))]\<rparr>),
    (EventJWKSRefreshFailed, \<lparr>ts_SchemaVersion = 1, ts_Retention = RetentionSecurity, ts_Outcomes =
       [OutcomeFailure], ts_Trails = [TrailInstance], ts_Schema = [
         (''issuer'', required (field KindFreeText)),
         (''age_seconds'', required (field KindInt)),
         (''served_stale'', required (field KindBool)),
         (''staleness_breached'', required (field KindBool)),
         (''refresh_throttled'', required (field KindBool))]\<rparr>),
    (EventRemoteAdded, \<lparr>ts_SchemaVersion = 1, ts_Retention = RetentionSecurity, ts_Outcomes =
       [OutcomeSuccess], ts_Trails = [TrailInstance], ts_Schema = [
         (''remote_id'', required (field KindString)),
         (''name'', required (field KindFreeText)),
         (''url'', required (field KindString)),
         (''spki_pin'', required (field KindString)),
         (''remote_identity'', required (field KindString))]\<rparr>),
    (EventRemoteRemoved, \<lparr>ts_SchemaVersion = 1, ts_Retention = RetentionSecurity, ts_Outcomes =
       [OutcomeSuccess], ts_Trails = [TrailInstance], ts_Schema = [
         (''remote_id'', required (field KindString)),
         (''name'', required (field KindFreeText)),
         (''url'', required (field KindString))]\<rparr>)]"

definition eventTable15 :: "(EventType \<times> TypeSpec) list" where
  "eventTable15 = [
    (EventRemoteRenamed, \<lparr>ts_SchemaVersion = 1, ts_Retention = RetentionSecurity, ts_Outcomes =
       [OutcomeSuccess], ts_Trails = [TrailInstance], ts_Schema = [
         (''remote_id'', required (field KindString)),
         (''old_name'', required (field KindFreeText)),
         (''new_name'', required (field KindFreeText))]\<rparr>),
    (EventRemoteFetchFailed, \<lparr>ts_SchemaVersion = 1, ts_Retention = RetentionSecurity, ts_Outcomes =
       [OutcomeFailure], ts_Trails = [TrailInstance], ts_Schema = [
         (''remote_id'', required (field KindString)),
         (''name'', required (field KindFreeText)),
         (''fetch_outcome'', required (field KindString))]\<rparr>),
    (EventRemoteDirectoryViewed, \<lparr>ts_SchemaVersion = 1, ts_Retention = RetentionAccess, ts_Outcomes =
       [OutcomeSuccess], ts_Trails = [TrailInstance], ts_Schema = [
         (''remote_count'', required (field KindInt)),
         (''stale_count'', required (field KindInt))]\<rparr>),
    (EventRemotePairingPrepared, \<lparr>ts_SchemaVersion = 1, ts_Retention = RetentionSecurity, ts_Outcomes =
       [OutcomeSuccess], ts_Trails = [TrailInstance], ts_Schema = [
         (''invite_id'', field KindString),
         (''exchange_id'', field KindString),
         (''row_count'', field KindInt)]\<rparr>),
    (EventRemotePairingInviteCreated, \<lparr>ts_SchemaVersion = 1, ts_Retention = RetentionSecurity,
       ts_Outcomes = [OutcomeSuccess], ts_Trails = [TrailInstance], ts_Schema = [
         (''invite_id'', field KindString),
         (''exchange_id'', field KindString),
         (''row_count'', field KindInt)]\<rparr>),
    (EventRemotePairingInvitesListed, \<lparr>ts_SchemaVersion = 1, ts_Retention = RetentionAccess, ts_Outcomes
       = [OutcomeSuccess], ts_Trails = [TrailInstance], ts_Schema = [
         (''invite_id'', field KindString),
         (''exchange_id'', field KindString),
         (''row_count'', field KindInt)]\<rparr>),
    (EventRemotePairingInviteRevoked, \<lparr>ts_SchemaVersion = 1, ts_Retention = RetentionSecurity,
       ts_Outcomes = [OutcomeSuccess], ts_Trails = [TrailInstance], ts_Schema = [
         (''invite_id'', field KindString),
         (''exchange_id'', field KindString),
         (''row_count'', field KindInt)]\<rparr>),
    (EventRemotePairingStarted, \<lparr>ts_SchemaVersion = 1, ts_Retention = RetentionSecurity, ts_Outcomes =
       [OutcomeSuccess], ts_Trails = [TrailInstance], ts_Schema = [
         (''invite_id'', field KindString),
         (''exchange_id'', field KindString),
         (''row_count'', field KindInt)]\<rparr>),
    (EventRemotePairingFinished, \<lparr>ts_SchemaVersion = 1, ts_Retention = RetentionSecurity, ts_Outcomes =
       [OutcomeSuccess], ts_Trails = [TrailInstance], ts_Schema = [
         (''invite_id'', field KindString),
         (''exchange_id'', field KindString),
         (''row_count'', field KindInt)]\<rparr>),
    (EventRemotePairingFailed, \<lparr>ts_SchemaVersion = 1, ts_Retention = RetentionSecurity, ts_Outcomes =
       [OutcomeFailure], ts_Trails = [TrailInstance], ts_Schema = [
         (''invite_id'', field KindString),
         (''exchange_id'', field KindString),
         (''row_count'', field KindInt)]\<rparr>),
    (EventRemoteCredentialMinted, \<lparr>ts_SchemaVersion = 1, ts_Retention = RetentionSecurity, ts_Outcomes =
       [OutcomeSuccess], ts_Trails = [TrailInstance], ts_Schema = [
         (''connection_id'', required (field KindString)),
         (''target_principal'', required (field KindString)),
         (''label'', required (field KindFreeText)),
         (''credential_kind'', required (field KindString)),
         (''lifetime'', required (field KindString)),
         (''expires_at'', field KindString),
         (''clamped'', required (field KindBool))]\<rparr>),
    (EventRemoteCredentialRevoked, \<lparr>ts_SchemaVersion = 1, ts_Retention = RetentionSecurity, ts_Outcomes =
       [OutcomeSuccess], ts_Trails = [TrailInstance], ts_Schema = [
         (''connection_id'', required (field KindString)),
         (''target_principal'', required (field KindString)),
         (''label'', required (field KindFreeText))]\<rparr>),
    (EventRemoteCredentialsListed, \<lparr>ts_SchemaVersion = 1, ts_Retention = RetentionAccess, ts_Outcomes =
       [OutcomeSuccess], ts_Trails = [TrailInstance], ts_Schema = [
         (''row_count'', required (field KindInt))]\<rparr>),
    (EventRemoteDirectoryServed, \<lparr>ts_SchemaVersion = 1, ts_Retention = RetentionAccess, ts_Outcomes =
       [OutcomeSuccess], ts_Trails = [TrailInstance], ts_Schema = [
         (''connection_id'', required (field KindString)),
         (''label'', required (field KindFreeText)),
         (''principal_class'', required (field KindString)),
         (''org_count'', required (field KindInt)),
         (''project_count'', required (field KindInt))]\<rparr>),
    (EventRemoteOriginAllowlistChanged, \<lparr>ts_SchemaVersion = 1, ts_Retention = RetentionSecurity,
       ts_Outcomes = [OutcomeSuccess], ts_Trails = [TrailInstance], ts_Schema = [
         (''origin'', required (field KindString)),
         (''change'', required (withEnum [''added'', ''removed''] (field KindString))),
         (''sessions_revoked'', required (field KindInt))]\<rparr>),
    (EventRemoteOriginAllowlistRead, \<lparr>ts_SchemaVersion = 1, ts_Retention = RetentionAccess, ts_Outcomes =
       [OutcomeSuccess], ts_Trails = [TrailInstance], ts_Schema = [
         (''row_count'', required (field KindInt))]\<rparr>)]"

definition eventTable16 :: "(EventType \<times> TypeSpec) list" where
  "eventTable16 = [
    (EventRemoteWorkspaceHandoffRead, \<lparr>ts_SchemaVersion = 1, ts_Retention = RetentionAccess, ts_Outcomes
       = [OutcomeSuccess], ts_Trails = [TrailInstance], ts_Schema = [
         (''handoff_id'', required (field KindString)),
         (''origin'', required (field KindString))]\<rparr>),
    (EventRemoteWorkspaceSessionIssued, \<lparr>ts_SchemaVersion = 1, ts_Retention = RetentionSecurity,
       ts_Outcomes = [OutcomeSuccess], ts_Trails = [TrailInstance], ts_Schema = [
         (''session_id'', required (field KindString)),
         (''origin'', required (field KindString)),
         (''handoff_id'', required (field KindString)),
         (''purpose'', required (field KindString))]\<rparr>),
    (EventRemoteWorkspaceSessionRevoked, \<lparr>ts_SchemaVersion = 1, ts_Retention = RetentionSecurity,
       ts_Outcomes = [OutcomeSuccess], ts_Trails = [TrailInstance], ts_Schema = [
         (''session_id'', required (field KindString)),
         (''origin'', required (field KindString)),
         (''cause'', required (field KindString))]\<rparr>),
    (EventRemoteHandoffFailed, \<lparr>ts_SchemaVersion = 1, ts_Retention = RetentionSecurity, ts_Outcomes =
       [OutcomeFailure], ts_Trails = [TrailInstance], ts_Schema = [
         (''handoff_id'', required (field KindString)),
         (''origin'', required (field KindString)),
         (''stage'', required (withEnum [''start'', ''callback'', ''redeem''] (field KindString))),
         (''cause'', required (field KindString))]\<rparr>),
    (EventDeliveryTargetCreated, \<lparr>ts_SchemaVersion = 1, ts_Retention = RetentionAccess, ts_Outcomes =
       [OutcomeSuccess], ts_Trails = [TrailTenant], ts_Schema = [
         (''target_id'', required (field KindString)),
         (''cluster_id'', required (maxBytes 36 (field KindString))),
         (''instance_uid'', required (maxBytes 36 (field KindString))),
         (''target_uid'', required (maxBytes 36 (field KindString))),
         (''namespace'', required (maxBytes 63 (field KindString))),
         (''name'', required (maxBytes 253 (field KindString))),
         (''reporter'', required (withEnum [''kubernetes-operator''] (field KindString))),
         (''vocabulary'', required (atLeast 1 (field KindInt))),
         (''credential_id'', required (field KindString)),
         (''scope'', required (field KindString))]\<rparr>),
    (EventDeliveryTargetTombstoned, \<lparr>ts_SchemaVersion = 1, ts_Retention = RetentionAccess, ts_Outcomes =
       [OutcomeSuccess], ts_Trails = [TrailTenant], ts_Schema = [
         (''target_id'', required (field KindString)),
         (''credential_id'', required (field KindString)),
         (''scope'', required (field KindString))]\<rparr>),
    (EventDeliveryTargetPurged, \<lparr>ts_SchemaVersion = 1, ts_Retention = RetentionAccess, ts_Outcomes =
       [OutcomeSuccess], ts_Trails = [TrailTenant], ts_Schema = [
         (''target_id'', required (field KindString)),
         (''principal_id'', required (field KindString)),
         (''last_received_at'', required (field KindString))]\<rparr>),
    (EventDeliveryTargetRefused, \<lparr>ts_SchemaVersion = 1, ts_Retention = RetentionSecurity, ts_Outcomes =
       [OutcomeDenied], ts_Trails = [TrailTenant], ts_Schema = [
         (''cause'', required (withEnum [''ordering'', ''quota'', ''size'', ''vocabulary''] (field
            KindString))),
         (''field'', maxBytes 64 (field KindString)),
         (''target_id'', field KindString),
         (''credential_id'', required (field KindString)),
         (''scope'', required (field KindString))]\<rparr>)]"

definition eventTable17 :: "(EventType \<times> TypeSpec) list" where
  "eventTable17 = [
    (EventDeliveryFetched, \<lparr>ts_SchemaVersion = 1, ts_Retention = RetentionAccess, ts_Outcomes =
       [OutcomeSuccess], ts_Trails = [TrailTenant], ts_Schema = [
         (''parameters'', maxLen 32 (maxBytes 256 (field KindFreeTextMap))),
         (''disposition'', required (field KindString)),
         (''credential_id'', required (field KindString)),
         (''credential_kind'', required (field KindString)),
         (''principal_class'', required (field KindString)),
         (''scope'', required (field KindString)),
         (''key_count'', required (field KindInt)),
         (''projection'', required (withEnum [''full'', ''config-only''] (field KindString))),
         (''file_target'', maxBytes 64 (field KindString)),
         (''acknowledged_keys'', required (maxLen MaxAcknowledgedKeys (maxBytes 128 (field KindStringList)))),
         (''delivered_count'', required (field KindInt)),
         (''change_token_version'', required (field KindString)),
         (''cursor_presented'', required (field KindBool))]\<rparr>),
    (EventOfflineRecordsReconciled, \<lparr>ts_SchemaVersion = 1, ts_Retention = RetentionAccess, ts_Outcomes =
       [OutcomeSuccess], ts_Trails = [TrailTenant], ts_Schema = [
         (''accepted'', required (field KindInt)),
         (''duplicates'', required (field KindInt)),
         (''credential_id'', required (field KindString)),
         (''scope'', required (field KindString))]\<rparr>),
    (EventDisclosure, \<lparr>ts_SchemaVersion = 1, ts_Retention = RetentionAccess, ts_Outcomes =
       [OutcomeSuccess], ts_Trails = [TrailTenant], ts_Schema = [
         (''key'', required (field KindFreeText)),
         (''classification'', required (field KindString)),
         (''revision'', required (field KindInt)),
         (''credential_id'', required (field KindString)),
         (''credential_kind'', required (field KindString)),
         (''principal_class'', required (field KindString)),
         (''scope'', required (field KindString)),
         (''projection'', required (withEnum [''full'', ''config-only''] (field KindString)))]\<rparr>),
    (EventSCIMBindingCreated, scimAdminEvent scimBindingSchema),
    (EventSCIMBindingDeleted, scimAdminEvent scimBindingSchema),
    (EventSCIMMappingCreated, scimAdminEvent scimMappingSchema),
    (EventSCIMMappingUpdated, scimAdminEvent scimMappingSchema),
    (EventSCIMMappingDeleted, scimAdminEvent scimMappingSchema),
    (EventSCIMCredentialMinted, scimAdminEvent scimCredentialSchema),
    (EventSCIMCredentialRotated, scimAdminEvent scimCredentialSchema),
    (EventSCIMCredentialRevoked, scimAdminEvent scimCredentialSchema),
    (EventSCIMUserProvisioned, scimWireEvent [(''binding'', required (field KindString)), (''resource_id'',
       required (field KindString)), (''account_id'', required (field KindString)), (''disposition'', required
       (withEnum [''create'', ''attach''] (field KindString))), (''subject_digest'', required (digestHex (field
       KindString)))]),
    (EventSCIMUserUpdated, scimWireEvent [(''binding'', required (field KindString)), (''resource_id'', required
       (field KindString)), (''changed_attributes'', required (maxLen 50 (maxBytes 256 (field
       KindStringList))))]),
    (EventSCIMUserDeprovisioned, scimWireEvent scimDeprovisionSchema),
    (EventSCIMUserDeleted, scimWireEvent (merged scimDeprovisionSchema [(''member_references_removed'', required
       (nonNegative (field KindInt)))])),
    (EventSCIMGroupCreated, scimWireEvent scimGroupSchema),
    (EventSCIMGroupUpdated, scimWireEvent scimGroupSchema),
    (EventSCIMGroupDeleted, scimWireEvent scimGroupSchema)]"

definition eventTable18 :: "(EventType \<times> TypeSpec) list" where
  "eventTable18 = [
    (EventSCIMGroupMembership, scimWireEvent [(''binding'', required (field KindString)), (''group_id'',
       required (field KindString)), (''added_accounts'', required (maxLen 200 (maxBytes 256 (field
       KindStringList)))), (''removed_accounts'', required (maxLen 200 (maxBytes 256 (field KindStringList))))]),
    (EventSCIMLockoutRetention, scimLockoutEvent [(''binding'', required (field KindString)), (''principal'',
       required (field KindString)), (''grant_id'', required (field KindString)), (''cause'', required (withEnum
       [''deprovision'', ''user_deleted'', ''member_removed'', ''group_deleted'', ''mapping_deleted'',
       ''binding_deleted''] (field KindString)))]),
    (EventSCIMLockoutRetentionReleased, scimLockoutEvent [(''binding'', required (field KindString)),
       (''principal'', required (field KindString)), (''grant_id'', required (field KindString)), (''cause'',
       required (withEnum [''deprovision'', ''user_deleted'', ''member_removed'', ''group_deleted'',
       ''mapping_deleted'', ''binding_deleted''] (field KindString))), (''curing_grant_id'', required (field
       KindString))]),
    (EventSCIMAttentionEntered, scimWireEvent scimAttentionSchema),
    (EventSCIMAttentionCleared, scimWireEvent scimAttentionSchema),
    (EventSCIMDirectoryRead, \<lparr>ts_SchemaVersion = 1, ts_Retention = RetentionAccess, ts_Outcomes =
       [OutcomeSuccess], ts_Trails = [TrailTenant], ts_Schema = [
         (''binding'', required (field KindString)),
         (''resource_type'', required (withEnum [''user'', ''group'', ''discovery''] (field KindString))),
         (''filter_shape'', required (withEnum [''none'', ''userName_eq'', ''externalId_eq'',
            ''displayName_eq''] (field KindString))),
         (''page'', required (withSchema scimPageSchema (field KindObject)))]\<rparr>),
    (EventSCIMCredentialRefused, \<lparr>ts_SchemaVersion = 1, ts_Retention = RetentionSecurity, ts_Outcomes =
       [OutcomeFailure], ts_Trails = [TrailInstance], ts_Schema = [
         (''binding'', required (field KindString)),
         (''credential_id'', required (field KindString)),
         (''cause'', required (withEnum [''binding-mismatch''] (field KindString)))]\<rparr>),
    (EventSCIMAdminRead, \<lparr>ts_SchemaVersion = 1, ts_Retention = RetentionAccess, ts_Outcomes =
       [OutcomeSuccess], ts_Trails = [TrailTenant], ts_Schema = [
         (''org'', required (field KindString)),
         (''binding'', field KindString),
         (''resource_type'', required (withEnum [''binding'', ''mapping'', ''credential'', ''directory''] (field
            KindString))),
         (''row_count'', required (field KindInt))]\<rparr>),
    (EventAdapterPushIntent, \<lparr>ts_SchemaVersion = 1, ts_Retention = RetentionSecurity, ts_Outcomes =
       [OutcomeIntent], ts_Trails = [TrailTenant], ts_Schema = [
         (''surface'', required (withEnum [''secret'', ''variable'', ''environment''] (field KindString))),
         (''effective_name'', required (field KindString)),
         (''disposition'', required (withEnum [''create'', ''update'', ''delete''] (field KindString))),
         (''input_revision'', nonNegative (field KindInt))]\<rparr>),
    (EventAdapterPushOutcome, \<lparr>ts_SchemaVersion = 1, ts_Retention = RetentionSecurity, ts_Outcomes =
       [OutcomeSuccess, OutcomeFailure, OutcomeUnknown], ts_Trails = [TrailTenant], ts_Schema = [
         (''surface'', required (withEnum [''secret'', ''variable'', ''environment''] (field KindString))),
         (''effective_name'', required (field KindString)),
         (''disposition'', required (withEnum [''create'', ''update'', ''delete''] (field
            KindString)))]\<rparr>),
    (EventAdapterConfigure, adapterLifecycleEvent [(''mutation'', required (field KindString)),
       (''previous_authority'', field KindString), (''authority'', required (field KindString)), (''spki_pin'',
       field KindString), (''personal_credential_accepted'', field KindBool)]),
    (EventAdapterCredentialReplace, adapterLifecycleEvent [(''credential_present'', required (field KindBool)),
       (''previous_authority'', required (field KindString)), (''authority'', required (field KindString))]),
    (EventAdapterCredentialRevoke, adapterLifecycleEvent [(''credential_present'', required (field KindBool))]),
    (EventAdapterAdopt, adapterLifecycleEvent [(''artifact_id'', required (field KindString)),
       (''target_generation'', required (field KindInt)), (''entries'', required (field KindStringList))]),
    (EventAdapterInspect, \<lparr>ts_SchemaVersion = 1, ts_Retention = RetentionAccess, ts_Outcomes =
       [OutcomeSuccess, OutcomeDenied], ts_Trails = [TrailTenant], ts_Schema = [
         (''row_count'', required (field KindInt))]\<rparr>),
    (EventFileTargetConfigured, adapterLifecycleEvent [(''mutation'', required (withEnum [''create'',
       ''update'', ''delete''] (field KindString))), (''environment_id'', required (field KindString)),
       (''service_account_id'', required (field KindString)), (''generation'', required (field KindInt)),
       (''key_count'', required (field KindInt))]),
    (EventFileTargetInspected, \<lparr>ts_SchemaVersion = 1, ts_Retention = RetentionAccess, ts_Outcomes =
       [OutcomeSuccess, OutcomeDenied], ts_Trails = [TrailTenant], ts_Schema = [
         (''row_count'', required (field KindInt))]\<rparr>)]"

definition eventTable19 :: "(EventType \<times> TypeSpec) list" where
  "eventTable19 = [
    (EventFileTargetApplied, \<lparr>ts_SchemaVersion = 1, ts_Retention = RetentionAccess, ts_Outcomes =
       [OutcomeSuccess], ts_Trails = [TrailTenant], ts_Schema = [
         (''state'', required (withEnum [''applied'', ''current'', ''offline'', ''refused'', ''failed''] (field
            KindString))),
         (''revision'', required (field KindInt)),
         (''generation'', required (field KindInt)),
         (''stamp'', maxBytes 35 (field KindString))]\<rparr>),
    (EventDynamicProviderConfigured, adapterLifecycleEvent [(''kind'', required (withEnum [''postgres''] (field
       KindString))), (''authority'', required (field KindString))]),
    (EventDynamicProviderCredentialReplace, adapterLifecycleEvent [(''credential_present'', required (field
       KindBool))]),
    (EventDynamicProviderCredentialRevoke, adapterLifecycleEvent [(''credential_present'', required (field
       KindBool))]),
    (EventDynamicProviderDeleted, adapterLifecycleEvent [(''revoked_lease_count'', required (field KindInt))]),
    (EventDynamicProviderInspected, \<lparr>ts_SchemaVersion = 1, ts_Retention = RetentionAccess, ts_Outcomes =
       [OutcomeSuccess, OutcomeDenied], ts_Trails = [TrailTenant], ts_Schema = [
         (''row_count'', required (field KindInt))]\<rparr>),
    (EventDynamicLeaseTransitionIntent, \<lparr>ts_SchemaVersion = 1, ts_Retention = RetentionSecurity,
       ts_Outcomes = [OutcomeIntent], ts_Trails = [TrailTenant], ts_Schema = [
         (''kind'', required (withEnum [''mint'', ''renew'', ''revoke'', ''expire''] (field KindString))),
         (''provider_handle'', required (field KindString))]\<rparr>),
    (EventDynamicLeaseTransitionOutcome, \<lparr>ts_SchemaVersion = 1, ts_Retention = RetentionSecurity,
       ts_Outcomes = [OutcomeSuccess, OutcomeFailure, OutcomeUnknown], ts_Trails = [TrailTenant], ts_Schema = [
         (''kind'', required (withEnum [''mint'', ''renew'', ''revoke'', ''expire''] (field KindString))),
         (''provider_handle'', required (field KindString))]\<rparr>),
    (EventDynamicLeaseDisclosed, \<lparr>ts_SchemaVersion = 1, ts_Retention = RetentionAccess, ts_Outcomes =
       [OutcomeSuccess], ts_Trails = [TrailTenant], ts_Schema = [
         (''provider_handle'', required (field KindString)),
         (''principal_class'', required (field KindString)),
         (''expires_at'', field KindString)]\<rparr>),
    (EventDynamicLeaseSettleRequested, \<lparr>ts_SchemaVersion = 1, ts_Retention = RetentionSecurity,
       ts_Outcomes = [OutcomeSuccess], ts_Trails = [TrailTenant], ts_Schema = [
         (''provider_handle'', required (field KindString))]\<rparr>),
    (EventSSHCAConfigured, adapterLifecycleEvent [(''origin'', required (withEnum [''generated'', ''imported'']
       (field KindString))), (''algorithm'', required (withEnum [''ed25519'', ''ecdsa-p256'', ''rsa-3072'']
       (field KindString))), (''fingerprint'', required (field KindString)), (''authority'', required (field
       KindString))]),
    (EventSSHCARotated, adapterLifecycleEvent [(''origin'', required (withEnum [''generated'', ''imported'']
       (field KindString))), (''algorithm'', required (withEnum [''ed25519'', ''ecdsa-p256'', ''rsa-3072'']
       (field KindString))), (''fingerprint'', required (field KindString)), (''previous_fingerprint'', required
       (field KindString)), (''overlap_seconds'', required (field KindInt))]),
    (EventSSHCAKeyRetired, adapterLifecycleEvent [(''fingerprint'', required (field KindString))]),
    (EventSSHCADeleted, adapterLifecycleEvent [(''name'', required (field KindString))]),
    (EventSSHProfileConfigured, adapterLifecycleEvent [(''mutation'', required (withEnum [''create'',
       ''update''] (field KindString))), (''enabled'', required (field KindBool)), (''requester_count'',
       required (field KindInt)), (''max_ttl_seconds'', required (field KindInt))]),
    (EventSSHProfileDeleted, adapterLifecycleEvent [(''revoked_certificate_count'', required (field KindInt))]),
    (EventSSHCertificateIssued, \<lparr>ts_SchemaVersion = 1, ts_Retention = RetentionSecurity, ts_Outcomes =
       [OutcomeSuccess], ts_Trails = [TrailTenant], ts_Schema = [
         (''serial'', required (field KindString)),
         (''profile_id'', required (field KindString)),
         (''principals'', required (field KindStringList)),
         (''key_origin'', required (withEnum [''generated'', ''supplied''] (field KindString))),
         (''key_fingerprint'', required (field KindString)),
         (''principal_class'', required (field KindString)),
         (''valid_before'', required (field KindString))]\<rparr>),
    (EventSSHCertificateRevoked, \<lparr>ts_SchemaVersion = 1, ts_Retention = RetentionSecurity, ts_Outcomes =
       [OutcomeSuccess], ts_Trails = [TrailTenant], ts_Schema = [
         (''serial'', required (field KindString)),
         (''reason'', required (withEnum [''explicit'', ''authority-withdrawn'', ''profile-deleted''] (field
            KindString)))]\<rparr>)]"

definition eventTable20 :: "(EventType \<times> TypeSpec) list" where
  "eventTable20 = [
    (EventTransitKeyCreated, \<lparr>ts_SchemaVersion = 1, ts_Retention = RetentionSecurity, ts_Outcomes =
       [OutcomeSuccess], ts_Trails = [TrailTenant], ts_Schema = [
         (''algorithm'', required (withEnum TransitAlgorithmValues (field KindString))),
         (''custody'', required (withEnum [''software'', ''external''] (field KindString))),
         (''allowed_operations'', required (maxLen (int (length TransitOperationValues)) (maxBytes 32 (field
            KindStringList)))),
         (''rotation_period_seconds'', required (field KindInt)),
         (''caller_count'', required (field KindInt))]\<rparr>),
    (EventTransitKeyConfigured, \<lparr>ts_SchemaVersion = 1, ts_Retention = RetentionSecurity, ts_Outcomes =
       [OutcomeSuccess], ts_Trails = [TrailTenant], ts_Schema = [
         (''min_encrypt_version'', required (field KindInt)),
         (''min_decrypt_version'', required (field KindInt)),
         (''rotation_period_seconds'', required (field KindInt)),
         (''caller_count'', required (field KindInt)),
         (''callers_changed'', required (field KindBool))]\<rparr>),
    (EventTransitKeyRotated, \<lparr>ts_SchemaVersion = 1, ts_Retention = RetentionSecurity, ts_Outcomes =
       [OutcomeSuccess], ts_Trails = [TrailTenant], ts_Schema = [
         (''version'', required (field KindInt)),
         (''trigger'', required (withEnum [''operator'', ''schedule''] (field KindString)))]\<rparr>),
    (EventTransitKeyStateChanged, \<lparr>ts_SchemaVersion = 1, ts_Retention = RetentionSecurity, ts_Outcomes =
       [OutcomeSuccess], ts_Trails = [TrailTenant], ts_Schema = [
         (''action'', required (withEnum TransitLifecycleActions (field KindString))),
         (''from_state'', required (withEnum TransitKeyStates (field KindString))),
         (''to_state'', required (withEnum TransitKeyStates (field KindString))),
         (''deletion_after'', field KindString),
         (''compromised_through_version'', field KindInt)]\<rparr>),
    (EventTransitKeyTrimmed, \<lparr>ts_SchemaVersion = 1, ts_Retention = RetentionSecurity, ts_Outcomes =
       [OutcomeSuccess], ts_Trails = [TrailTenant], ts_Schema = [
         (''min_decrypt_version'', required (field KindInt)),
         (''versions_deleted'', required (field KindInt))]\<rparr>),
    (EventTransitKeyDestroyed, \<lparr>ts_SchemaVersion = 1, ts_Retention = RetentionSecurity, ts_Outcomes =
       [OutcomeSuccess], ts_Trails = [TrailTenant], ts_Schema = [
         (''custody'', required (withEnum [''software'', ''external''] (field KindString))),
         (''versions_erased'', required (field KindInt))]\<rparr>),
    (EventTransitOperation, \<lparr>ts_SchemaVersion = 1, ts_Retention = RetentionAccess, ts_Outcomes =
       [OutcomeSuccess, OutcomeDenied, OutcomeFailure], ts_Trails = [TrailTenant], ts_Schema = [
         (''operation'', required (withEnum TransitOperationValues (field KindString))),
         (''key_version'', field KindInt),
         (''input_bytes'', required (field KindInt)),
         (''output_bytes'', required (field KindInt)),
         (''credential_id'', field KindString),
         (''refusal'', withEnum TransitRefusalCauses (field KindString))]\<rparr>),
    (EventPKIInventoryRead, \<lparr>ts_SchemaVersion = 1, ts_Retention = RetentionAccess, ts_Outcomes =
       [OutcomeSuccess], ts_Trails = [TrailInstance], ts_Schema = [
         (''object'', required (withEnum [''issuer'', ''profile'', ''crl''] (field KindString))),
         (''query'', required (withEnum [''list'', ''show''] (field KindString))),
         (''row_count'', required (field KindInt))]\<rparr>),
    (EventPKIIssuer, \<lparr>ts_SchemaVersion = 1, ts_Retention = RetentionSecurity, ts_Outcomes =
       [OutcomeSuccess], ts_Trails = [TrailInstance], ts_Schema = [
         (''action'', required (withEnum [''create'', ''install'', ''rotate'', ''retire'', ''revoke'',
            ''release-hold''] (field KindString))),
         (''name'', required (field KindString)),
         (''version'', required (field KindInt)),
         (''kind'', required (withEnum [''root'', ''intermediate''] (field KindString))),
         (''state'', required (withEnum [''pending'', ''active'', ''retiring'', ''retired'', ''revoked''] (field
            KindString))),
         (''key_fingerprint'', required (field KindString)),
         (''prior_key_fingerprint'', field KindString),
         (''certificates_revoked'', field KindInt)]\<rparr>),
    (EventPKIProfile, \<lparr>ts_SchemaVersion = 1, ts_Retention = RetentionSecurity, ts_Outcomes =
       [OutcomeSuccess], ts_Trails = [TrailInstance], ts_Schema = [
         (''action'', required (withEnum [''create'', ''update'', ''delete'', ''bind'', ''unbind''] (field
            KindString))),
         (''name'', required (field KindString)),
         (''binding_org'', field KindString),
         (''binding_project'', field KindString),
         (''binding_environment'', field KindString)]\<rparr>),
    (EventPKICertificateTransitionIntent, \<lparr>ts_SchemaVersion = 1, ts_Retention = RetentionSecurity,
       ts_Outcomes = [OutcomeIntent], ts_Trails = [TrailTenant], ts_Schema = [
         (''kind'', required (withEnum [''issue'', ''renew''] (field KindString))),
         (''serial'', required (field KindString)),
         (''issuer'', required (field KindString)),
         (''profile'', required (field KindString))]\<rparr>)]"

definition eventTable21 :: "(EventType \<times> TypeSpec) list" where
  "eventTable21 = [
    (EventPKICertificateTransitionOutcome, \<lparr>ts_SchemaVersion = 1, ts_Retention = RetentionSecurity,
       ts_Outcomes = [OutcomeSuccess, OutcomeFailure, OutcomeUnknown], ts_Trails = [TrailTenant], ts_Schema = [
         (''kind'', required (withEnum [''issue'', ''renew'', ''revoke'', ''expire''] (field KindString))),
         (''serial'', required (field KindString)),
         (''issuer'', required (field KindString)),
         (''state'', required (withEnum [''issued'', ''renewed'', ''revoked'', ''expired'', ''unknown'',
            ''failed''] (field KindString))),
         (''reason'', withEnum [''unspecified'', ''key-compromise'', ''ca-compromise'', ''affiliation-changed'',
            ''superseded'', ''cessation-of-operation'', ''privilege-withdrawn''] (field KindString))]\<rparr>),
    (EventPKICertificateKeyDisclosed, \<lparr>ts_SchemaVersion = 1, ts_Retention = RetentionAccess, ts_Outcomes
       = [OutcomeSuccess], ts_Trails = [TrailTenant], ts_Schema = [
         (''serial'', required (field KindString)),
         (''key_algorithm'', required (withEnum [''ecdsa-p256'', ''ecdsa-p384'', ''ed25519'', ''rsa-2048'',
            ''rsa-3072'', ''rsa-4096'', ''mldsa65''] (field KindString))),
         (''principal_class'', required (field KindString))]\<rparr>),
    (EventPKICRLPublished, \<lparr>ts_SchemaVersion = 1, ts_Retention = RetentionSecurity, ts_Outcomes =
       [OutcomeSuccess], ts_Trails = [TrailInstance], ts_Schema = [
         (''issuer'', required (field KindString)),
         (''version'', required (field KindInt)),
         (''crl_number'', required (field KindInt)),
         (''entries'', required (field KindInt))]\<rparr>),
    (EventAdapterPlan, adapterLifecycleEvent [(''changes'', required (field KindStringList))]),
    (EventAdapterTest, adapterLifecycleEvent [(''version'', field KindString), (''destination_id'', field
       KindInt)]),
    (EventAdapterSyncRequested, \<lparr>ts_SchemaVersion = 1, ts_Retention = RetentionSecurity, ts_Outcomes =
       [OutcomeSuccess, OutcomeDenied], ts_Trails = [TrailTenant], ts_Schema = [
         (''trigger'', required (withEnum [''manual'', ''on-publish'', ''resume''] (field
            KindString)))]\<rparr>),
    (EventAdapterKeyDelivered, \<lparr>ts_SchemaVersion = 1, ts_Retention = RetentionSecurity, ts_Outcomes =
       [OutcomeSuccess], ts_Trails = [TrailTenant], ts_Schema = [
         (''key_id'', required (field KindString)),
         (''surface'', required (withEnum [''secret'', ''variable''] (field KindString))),
         (''effective_name'', required (field KindString))]\<rparr>),
    (EventAdapterAbort, \<lparr>ts_SchemaVersion = 1, ts_Retention = RetentionSecurity, ts_Outcomes =
       [OutcomeFailure], ts_Trails = [TrailTenant], ts_Schema = [
         (''cause'', required (withEnum [''authority'', ''generation''] (field KindString)))]\<rparr>),
    (EventAdapterScrub, \<lparr>ts_SchemaVersion = 1, ts_Retention = RetentionSecurity, ts_Outcomes =
       [OutcomeSuccess, OutcomeFailure], ts_Trails = [TrailTenant], ts_Schema = [
         (''orphaned'', required (field KindStringList))]\<rparr>),
    (EventAdapterSuperseded, \<lparr>ts_SchemaVersion = 1, ts_Retention = RetentionSecurity, ts_Outcomes =
       [OutcomeSuccess], ts_Trails = [TrailTenant], ts_Schema = [
         (''previous_job_id'', required (field KindString)),
         (''job_id'', required (field KindString))]\<rparr>)]"

definition eventTable :: "(EventType \<times> TypeSpec) list" where
  "eventTable = eventTable1 @ eventTable2 @ eventTable3 @ eventTable4 @ eventTable5 @ eventTable6
    @ eventTable7 @ eventTable8 @ eventTable9 @ eventTable10 @ eventTable11 @ eventTable12
    @ eventTable13 @ eventTable14 @ eventTable15 @ eventTable16 @ eventTable17 @ eventTable18
    @ eventTable19 @ eventTable20 @ eventTable21"

text \<open>\<^verbatim>\<open>Spec\<close>: a type's row, \<open>None\<close> for an unregistered one.\<close>

definition AuditSpec :: EventRegistry where
  "AuditSpec = map_of eventTable"


section \<open>Every registered type can be recorded\<close>

text \<open>
  A field declaration no value could satisfy would make every emitting operation fail closed.
  \<open>exemplar\<close> builds the least payload a schema admits: the required fields only, each with
  the least value of its kind; \<open>fieldOk\<close> is the closed test that this value is admitted.
\<close>

function exemplar :: "Schema \<Rightarrow> Payload" where
  "exemplar [] = []"
| "exemplar ((name, spec) # s) =
    (if \<not> fs_Required spec then []
     else [(name, case fs_Kind spec of
         KindString \<Rightarrow> VString (if fs_Enum spec \<noteq> [] then hd (fs_Enum spec)
                                else if fs_Digest spec then replicate sha256HexLen CHR ''0'' else [])
       | KindFreeText \<Rightarrow> VString []
       | KindInt \<Rightarrow> VInt64 (max 0 (fs_AtLeast spec))
       | KindBool \<Rightarrow> VBool False
       | KindStringList \<Rightarrow> VStringList []
       | KindFreeTextMap \<Rightarrow> VStringMap []
       | KindObject \<Rightarrow> VPayload (case fs_ObjectSchema spec of None \<Rightarrow> [] | Some sch \<Rightarrow> exemplar sch)
       | KindObjectList \<Rightarrow> VPayloadList [])]) @ exemplar s"
  by pat_completeness auto

termination
  by (relation "measure (size_list (size_prod (\<lambda>_. 0) size))") (auto dest: size_nested size_nested [OF sym])

function wfSchema :: "Schema \<Rightarrow> bool" where
  "wfSchema [] \<longleftrightarrow> True"
| "wfSchema ((name, spec) # s) \<longleftrightarrow>
    name \<notin> set (map fst s) \<and>
    (case fs_Kind spec of
       KindString \<Rightarrow>
         (if fs_Enum spec \<noteq> [] then \<not> fs_Digest spec \<and> \<not> overBound (fs_MaxBytes spec) (length (hd (fs_Enum spec)))
          else fs_Digest spec \<longrightarrow> \<not> overBound (fs_MaxBytes spec) sha256HexLen)
     | KindObject \<Rightarrow> (case fs_ObjectSchema spec of None \<Rightarrow> False | Some sch \<Rightarrow> wfSchema sch)
     | KindObjectList \<Rightarrow> 0 < fs_MaxLen spec \<and> fs_ObjectSchema spec \<noteq> None
     | _ \<Rightarrow> fs_Enum spec = [] \<and> \<not> fs_Digest spec) \<and>
    wfSchema s"
  by pat_completeness auto

termination
  by (relation "measure (size_list (size_prod (\<lambda>_. 0) size))") (auto dest: size_nested size_nested [OF sym])

lemma exemplar_keys: "fst ` set (exemplar s) \<subseteq> fst ` set s"
  by (induction s rule: exemplar.induct) (auto split: if_splits)

lemma exemplar_names: "map_of (exemplar s) name = Some v \<Longrightarrow> name \<in> set (map fst s)"
  using exemplar_keys [of s] map_of_SomeD [of "exemplar s" name v] by force

lemma fieldsValid_cong:
  "(\<And>name. name \<in> set (map fst s) \<Longrightarrow> map_of p name = map_of q name) \<Longrightarrow> fieldsValid s p = fieldsValid s q"
proof (induction s)
  case (Cons f s)
  obtain name spec where f: "f = (name, spec)" by fastforce
  have "map_of p name = map_of q name" using Cons.prems f by simp
  moreover have "fieldsValid s p = fieldsValid s q" using Cons by simp
  ultimately show ?case unfolding f by simp
qed simp

lemma cleanText_Nil [simp]: "checkSanitized []"
  by (simp add: checkSanitized_iff cleanText_def)

lemma digest_hex: "list_all lowerHex (replicate n CHR ''0'')"
  by (simp add: list_all_iff lowerHex_def is_digit_def)

lemma exemplar_validates:
  assumes "wfSchema s"
  shows "Schema_validate s (exemplar s)"
  using assms
proof (induction s rule: exemplar.induct)
  case (2 name spec s)
  let ?p = "exemplar ((name, spec) # s)"
  have fresh: "name \<notin> set (map fst s)" using "2.prems" by simp
  have "map_of ?p n = map_of (exemplar s) n" if "n \<in> set (map fst s)" for n
    using that fresh by auto
  then have rest: "fieldsValid s ?p"
    using fieldsValid_cong [of s ?p "exemplar s"] 2 by (auto simp: Schema_validate.simps)
  have "map_of ((name, spec) # s) n \<noteq> None" if "(n, v) \<in> set ?p" for n v
  proof -
    from that have "n \<in> fst ` set ?p" by force
    then have "n \<in> fst ` set ((name, spec) # s)" using exemplar_keys by blast
    then show ?thesis unfolding map_of_eq_None_iff by simp
  qed
  then have names: "list_all (\<lambda>(n, _). map_of ((name, spec) # s) n \<noteq> None) ?p"
    unfolding list_all_iff by blast
  have "fieldsValid ((name, spec) # s) ?p"
  proof (cases "fs_Required spec")
    case False
    then have "map_of ?p name = None"
      using fresh exemplar_names [of s name] by (cases "map_of (exemplar s) name") auto
    with False rest show ?thesis by (simp del: exemplar.simps)
  next
    case True
    note facts = True "2.prems" rest checkConstraints_def enumAdmits_def checkInt_def overBound_def digest_hex
    show ?thesis
    proof (cases "fs_Kind spec")
      case KindObject
      with "2.prems" obtain sch where sch: "fs_ObjectSchema spec = Some sch" "wfSchema sch"
        by (auto split: option.splits)
      then have "Schema_validate sch (exemplar sch)" using "2.IH"(1) True KindObject by simp
      with KindObject True sch rest show ?thesis by (simp del: Schema_validate.simps)
    next
      case KindString
      with facts show ?thesis by (simp split: if_splits)
    qed (use facts in auto)
  qed
  with names show ?case by (simp only: Schema_validate.simps simp_thms)
qed simp

definition rowOk :: "TypeSpec \<Rightarrow> bool" where
  "rowOk spec \<longleftrightarrow> wfSchema (ts_Schema spec) \<and> ts_Outcomes spec \<noteq> [] \<and> ts_Trails spec \<noteq> [] \<and>
     list_all (\<lambda>t. t = TrailTenant \<or> t = TrailInstance) (ts_Trails spec) \<and>
     (ts_Retention spec = RetentionAccess \<or> ts_Retention spec = RetentionSecurity)"

definition tableOk :: "(EventType \<times> TypeSpec) list \<Rightarrow> bool" where
  "tableOk rows \<longleftrightarrow> list_all (\<lambda>(_, spec). rowOk spec) rows"

lemma eventTable1_ok: "tableOk eventTable1"
  by code_simp

lemma eventTable2_ok: "tableOk eventTable2"
  by code_simp

lemma eventTable3_ok: "tableOk eventTable3"
  by code_simp

lemma eventTable4_ok: "tableOk eventTable4"
  by code_simp

lemma eventTable5_ok: "tableOk eventTable5"
  by code_simp

lemma eventTable6_ok: "tableOk eventTable6"
  by code_simp

lemma eventTable7_ok: "tableOk eventTable7"
  by code_simp

lemma eventTable8_ok: "tableOk eventTable8"
  by code_simp

lemma eventTable9_ok: "tableOk eventTable9"
  by code_simp

lemma eventTable10_ok: "tableOk eventTable10"
  by code_simp

lemma eventTable11_ok: "tableOk eventTable11"
  by code_simp

lemma eventTable12_ok: "tableOk eventTable12"
  by code_simp

lemma eventTable13_ok: "tableOk eventTable13"
  by code_simp

lemma eventTable14_ok: "tableOk eventTable14"
  by code_simp

lemma eventTable15_ok: "tableOk eventTable15"
  by code_simp

lemma eventTable16_ok: "tableOk eventTable16"
  by code_simp

lemma eventTable17_ok: "tableOk eventTable17"
  by code_simp

lemma eventTable18_ok: "tableOk eventTable18"
  by code_simp

lemma eventTable19_ok: "tableOk eventTable19"
  by code_simp

lemma eventTable20_ok: "tableOk eventTable20"
  by code_simp

lemma eventTable21_ok: "tableOk eventTable21"
  by code_simp

lemmas eventTable_oks =
  eventTable1_ok eventTable2_ok eventTable3_ok eventTable4_ok eventTable5_ok eventTable6_ok eventTable7_ok
  eventTable8_ok eventTable9_ok eventTable10_ok eventTable11_ok eventTable12_ok eventTable13_ok eventTable14_ok
  eventTable15_ok eventTable16_ok eventTable17_ok eventTable18_ok eventTable19_ok eventTable20_ok eventTable21_ok

lemma tableOk_append [simp]: "tableOk (a @ b) \<longleftrightarrow> tableOk a \<and> tableOk b"
  by (simp add: tableOk_def)

lemma AuditSpec_rowOk: "AuditSpec t = Some spec \<Longrightarrow> rowOk spec"
proof -
  assume "AuditSpec t = Some spec"
  then have "(t, spec) \<in> set eventTable" unfolding AuditSpec_def by (rule map_of_SomeD)
  moreover have "tableOk eventTable" unfolding eventTable_def by (simp add: eventTable_oks)
  ultimately show "rowOk spec" by (auto simp: tableOk_def list_all_iff)
qed

text \<open>The event of a system actor with the least payload of its type.\<close>

definition exemplarEvent :: "EventType \<Rightarrow> TypeSpec \<Rightarrow> Outcome \<Rightarrow> Event" where
  "exemplarEvent t spec out =
    \<lparr>ev_ID = ''evt_1'', ev_Type = t, ev_SchemaVersion = ts_SchemaVersion spec, ev_OccurredAt = 1,
     ev_OccurredAsserted = False, ev_Actor = \<lparr>ac_ID = [], ac_Class = ActorSystem, ac_CredentialID = []\<rparr>,
     ev_AuthorityID = [], ev_Object = \<lparr>ob_Type = [], ob_ID = []\<rparr>, ev_Outcome = out, ev_CorrelationID = [],
     ev_SourceIP = [], ev_UserAgent = [], ev_Origin = OriginSystem, ev_Payload = exemplar (ts_Schema spec)\<rparr>"

text \<open>
  C31. No registered event type is unwritable. For every type of the catalogue, every outcome
  and every trail its row licenses, some event passes the write boundary: no row combines a
  required field, an enumeration, a digest or a bound that no payload satisfies, so an
  operation cannot be blocked for ever by its own audit record. (The refusal summary has
  further checks of its own and is treated with its writer.)
\<close>

theorem event_types_recordable:
  assumes "AuditSpec t = Some spec" "out \<in> set (ts_Outcomes spec)" "trail \<in> set (ts_Trails spec)"
    and "t \<noteq> EventRequestRefused"
  shows "\<exists>e sc. ev_Type e = t \<and> ev_Outcome e = out \<and> Validate AuditSpec uuid e trail sc"
proof -
  let ?sc = "if trail = TrailTenant then mkScope ''o'' [] [] else mkScope [] [] []"
  have row: "wfSchema (ts_Schema spec)" "trail = TrailTenant \<or> trail = TrailInstance"
    using AuditSpec_rowOk [OF assms(1)] assms(3) by (auto simp: rowOk_def list_all_iff)
  have "s_Org (mkScope ''o'' [] []) \<noteq> []" by (simp add: mkScope_def)
  with row(2) have "trailScope trail ?sc"
    by (cases "trail = TrailTenant") (simp_all add: trailScope_def)
  then have "Validate AuditSpec uuid (exemplarEvent t spec out) trail ?sc"
    using assms exemplar_validates [OF row(1)]
    by (simp add: Validate_def exemplarEvent_def actorConsistent_def origins_def del: Schema_validate.simps)
  then show ?thesis by (intro exI [of _ "exemplarEvent t spec out"] exI [of _ ?sc]) (simp add: exemplarEvent_def)
qed

theorem event_types_recordable_witness:
  "\<exists>e sc. ev_Type e = EventPrivacySubjectErased \<and> ev_Outcome e = OutcomeSuccess \<and>
     Validate AuditSpec (\<lambda>_. None) e TrailInstance sc"
proof -
  have row: "AuditSpec EventPrivacySubjectErased = Some privacySubjectSpec" by code_simp
  show ?thesis
    by (rule event_types_recordable [OF row]) (simp_all add: privacySubjectSpec_def)
qed

end
