(* ===== verification/StoreOps.thy ===== *)
theory StoreOps
  imports Chokepoint AuditEvents
begin

text \<open>
  The names of the operation registry (\<^verbatim>\<open>internal/authz/registry.go\<close>): operations, store
  operations and system sites, as the string constants of the source, and the two pinned sets
  of store operations.
\<close>

type_synonym StoreOp = string
type_synonym SystemSite = string

section \<open>Operations\<close>

abbreviation OpRemotePairingPrepare :: Operation where "OpRemotePairingPrepare \<equiv> ''remote-pairing.prepare''"
abbreviation OpRemotePairingCreate :: Operation where "OpRemotePairingCreate \<equiv> ''remote-pairing.create''"
abbreviation OpRemotePairingList :: Operation where "OpRemotePairingList \<equiv> ''remote-pairing.list''"
abbreviation OpRemotePairingRevoke :: Operation where "OpRemotePairingRevoke \<equiv> ''remote-pairing.revoke''"
abbreviation OpRemotePairingComplete :: Operation where "OpRemotePairingComplete \<equiv> ''remote-pairing.complete''"
abbreviation OpMailGet :: Operation where "OpMailGet \<equiv> ''mail.get''"
abbreviation OpMailTest :: Operation where "OpMailTest \<equiv> ''mail.test''"
abbreviation OpSelfConfigProvisionProject :: Operation where "OpSelfConfigProvisionProject \<equiv> ''self-config.provision-project''"
abbreviation OpOrgCreate :: Operation where "OpOrgCreate \<equiv> ''org.create''"
abbreviation OpOrgGet :: Operation where "OpOrgGet \<equiv> ''org.get''"
abbreviation OpOrgList :: Operation where "OpOrgList \<equiv> ''org.list''"
abbreviation OpOrgRename :: Operation where "OpOrgRename \<equiv> ''org.rename''"
abbreviation OpOrgDelete :: Operation where "OpOrgDelete \<equiv> ''org.delete''"
abbreviation OpProjectCreate :: Operation where "OpProjectCreate \<equiv> ''project.create''"
abbreviation OpProjectGet :: Operation where "OpProjectGet \<equiv> ''project.get''"
abbreviation OpProjectList :: Operation where "OpProjectList \<equiv> ''project.list''"
abbreviation OpProjectRename :: Operation where "OpProjectRename \<equiv> ''project.rename''"
abbreviation OpProjectDelete :: Operation where "OpProjectDelete \<equiv> ''project.delete''"
abbreviation OpEnvCreate :: Operation where "OpEnvCreate \<equiv> ''environment.create''"
abbreviation OpEnvRead :: Operation where "OpEnvRead \<equiv> ''environment.read''"
abbreviation OpEnvList :: Operation where "OpEnvList \<equiv> ''environment.list''"
abbreviation OpEnvParameterSet :: Operation where "OpEnvParameterSet \<equiv> ''environment.parameter-set''"
abbreviation OpEnvRename :: Operation where "OpEnvRename \<equiv> ''environment.rename''"
abbreviation OpEnvReorder :: Operation where "OpEnvReorder \<equiv> ''environment.reorder''"
abbreviation OpEnvUpdateNote :: Operation where "OpEnvUpdateNote \<equiv> ''environment.update-note''"
abbreviation OpKeyCreate :: Operation where "OpKeyCreate \<equiv> ''key.create''"
abbreviation OpKeyGet :: Operation where "OpKeyGet \<equiv> ''key.get''"
abbreviation OpKeyList :: Operation where "OpKeyList \<equiv> ''key.list''"
abbreviation OpKeyRename :: Operation where "OpKeyRename \<equiv> ''key.rename''"
abbreviation OpKeyUpdateDeclaration :: Operation where "OpKeyUpdateDeclaration \<equiv> ''key.update-declaration''"
abbreviation OpKeyUpdateMetadata :: Operation where "OpKeyUpdateMetadata \<equiv> ''key.update-metadata''"
abbreviation OpKeySetGroup :: Operation where "OpKeySetGroup \<equiv> ''key.set-group''"
abbreviation OpKeyDelete :: Operation where "OpKeyDelete \<equiv> ''key.delete''"
abbreviation OpKeyReclassify :: Operation where "OpKeyReclassify \<equiv> ''key.reclassify''"
abbreviation OpKeySchemaPublishValues :: Operation where "OpKeySchemaPublishValues \<equiv> ''key.schema-publish-values''"
abbreviation OpKeySecretRuleChange :: Operation where "OpKeySecretRuleChange \<equiv> ''key.secret-rule-change''"
abbreviation OpKeyDeclassify :: Operation where "OpKeyDeclassify \<equiv> ''key.declassify''"
abbreviation OpDefinitionsExport :: Operation where "OpDefinitionsExport \<equiv> ''definitions.export''"
abbreviation OpDefinitionsCheck :: Operation where "OpDefinitionsCheck \<equiv> ''definitions.check''"
abbreviation OpDefinitionsPlanCreate :: Operation where "OpDefinitionsPlanCreate \<equiv> ''definitions.plan''"
abbreviation OpDefinitionsPlanGet :: Operation where "OpDefinitionsPlanGet \<equiv> ''definitions.plan.get''"
abbreviation OpDefinitionsApply :: Operation where "OpDefinitionsApply \<equiv> ''definitions.apply''"
abbreviation OpDefinitionsSettingsGet :: Operation where "OpDefinitionsSettingsGet \<equiv> ''definitions.settings.get''"
abbreviation OpDefinitionsSettingsSet :: Operation where "OpDefinitionsSettingsSet \<equiv> ''definitions.settings.set''"
abbreviation OpProjectCapacityRead :: Operation where "OpProjectCapacityRead \<equiv> ''project.capacity.read''"
abbreviation OpProjectCapacitySet :: Operation where "OpProjectCapacitySet \<equiv> ''project.capacity.set''"
abbreviation OpProjectMachineRevealGet :: Operation where "OpProjectMachineRevealGet \<equiv> ''project.machine-reveal.get''"
abbreviation OpProjectMachineRevealSet :: Operation where "OpProjectMachineRevealSet \<equiv> ''project.machine-reveal.set''"
abbreviation OpValueRead :: Operation where "OpValueRead \<equiv> ''value.read''"
abbreviation OpValueList :: Operation where "OpValueList \<equiv> ''value.list''"
abbreviation OpValueReveal :: Operation where "OpValueReveal \<equiv> ''value.reveal''"
abbreviation OpRevealWindowRead :: Operation where "OpRevealWindowRead \<equiv> ''reveal.window_read''"
abbreviation OpValueSet :: Operation where "OpValueSet \<equiv> ''value.set''"
abbreviation OpValueClear :: Operation where "OpValueClear \<equiv> ''value.clear''"
abbreviation OpValueCopySource :: Operation where "OpValueCopySource \<equiv> ''value.copy-source''"
abbreviation OpValueCopyDestination :: Operation where "OpValueCopyDestination \<equiv> ''value.copy-destination''"
abbreviation OpValueCopyDestinationConfig :: Operation where "OpValueCopyDestinationConfig \<equiv> ''value.copy-destination-config''"
abbreviation OpImportPresence :: Operation where "OpImportPresence \<equiv> ''import.presence''"
abbreviation OpValueImport :: Operation where "OpValueImport \<equiv> ''value.import''"
abbreviation OpValueStage :: Operation where "OpValueStage \<equiv> ''value.stage''"
abbreviation OpValuePendingList :: Operation where "OpValuePendingList \<equiv> ''value.pending-list''"
abbreviation OpValueValidate :: Operation where "OpValueValidate \<equiv> ''value.validate''"
abbreviation OpValueExport :: Operation where "OpValueExport \<equiv> ''value.export''"
abbreviation OpValueExportReveal :: Operation where "OpValueExportReveal \<equiv> ''value.export-reveal''"
abbreviation OpValueExportRevealHistory :: Operation where "OpValueExportRevealHistory \<equiv> ''value.export-reveal-history''"
abbreviation OpRevisionList :: Operation where "OpRevisionList \<equiv> ''revision.list''"
abbreviation OpRevisionShow :: Operation where "OpRevisionShow \<equiv> ''revision.show''"
abbreviation OpRevisionSignals :: Operation where "OpRevisionSignals \<equiv> ''revision.signals''"
abbreviation OpRevisionRestore :: Operation where "OpRevisionRestore \<equiv> ''revision.restore''"
abbreviation OpRevisionRestoreHistory :: Operation where "OpRevisionRestoreHistory \<equiv> ''revision.restore-reveal-history''"
abbreviation OpRevisionRestoreCurrent :: Operation where "OpRevisionRestoreCurrent \<equiv> ''revision.restore-reveal-current''"
abbreviation OpPinSet :: Operation where "OpPinSet \<equiv> ''pin.set''"
abbreviation OpPinSetHistory :: Operation where "OpPinSetHistory \<equiv> ''pin.set-reveal-history''"
abbreviation OpPinList :: Operation where "OpPinList \<equiv> ''pin.list''"
abbreviation OpPinRelease :: Operation where "OpPinRelease \<equiv> ''pin.release''"
abbreviation OpApprovalPolicyWrite :: Operation where "OpApprovalPolicyWrite \<equiv> ''approval.policy-write''"
abbreviation OpApprovalPolicyRead :: Operation where "OpApprovalPolicyRead \<equiv> ''approval.policy-read''"
abbreviation OpApprovalRequestRead :: Operation where "OpApprovalRequestRead \<equiv> ''approval.request-read''"
abbreviation OpApprovalVote :: Operation where "OpApprovalVote \<equiv> ''approval.vote''"
abbreviation OpApprovalBypass :: Operation where "OpApprovalBypass \<equiv> ''approval.bypass''"
abbreviation OpAccessPolicyWrite :: Operation where "OpAccessPolicyWrite \<equiv> ''access.policy-write''"
abbreviation OpAccessPolicyRead :: Operation where "OpAccessPolicyRead \<equiv> ''access.policy-read''"
abbreviation OpAccessRequestCreate :: Operation where "OpAccessRequestCreate \<equiv> ''access.request-create''"
abbreviation OpAccessRequestRead :: Operation where "OpAccessRequestRead \<equiv> ''access.request-read''"
abbreviation OpAccessVote :: Operation where "OpAccessVote \<equiv> ''access.vote''"
abbreviation OpAccessCancel :: Operation where "OpAccessCancel \<equiv> ''access.cancel''"
abbreviation OpAccessRevoke :: Operation where "OpAccessRevoke \<equiv> ''access.revoke''"
abbreviation OpAccessBypass :: Operation where "OpAccessBypass \<equiv> ''access.bypass''"
abbreviation OpAdvisoryWatch :: Operation where "OpAdvisoryWatch \<equiv> ''advisory.watch''"
abbreviation OpAdvisoryEvent :: Operation where "OpAdvisoryEvent \<equiv> ''advisory.event''"
abbreviation OpRotateTokenKey :: Operation where "OpRotateTokenKey \<equiv> ''crypto.rotate-token-key''"
abbreviation OpRotateScanningKey :: Operation where "OpRotateScanningKey \<equiv> ''crypto.rotate-scanning-key''"
abbreviation OpRotateMasterKey :: Operation where "OpRotateMasterKey \<equiv> ''crypto.rotate-master-key''"
abbreviation OpRotateRootKey :: Operation where "OpRotateRootKey \<equiv> ''crypto.rotate-root-key''"
abbreviation OpReencryptProject :: Operation where "OpReencryptProject \<equiv> ''crypto.reencrypt-project''"
abbreviation OpReencryptInstance :: Operation where "OpReencryptInstance \<equiv> ''crypto.reencrypt-instance''"
abbreviation OpKeyGroupCreate :: Operation where "OpKeyGroupCreate \<equiv> ''key-group.create''"
abbreviation OpKeyGroupGet :: Operation where "OpKeyGroupGet \<equiv> ''key-group.get''"
abbreviation OpKeyGroupList :: Operation where "OpKeyGroupList \<equiv> ''key-group.list''"
abbreviation OpKeyGroupRename :: Operation where "OpKeyGroupRename \<equiv> ''key-group.rename''"
abbreviation OpKeyGroupDelete :: Operation where "OpKeyGroupDelete \<equiv> ''key-group.delete''"
abbreviation OpFolderCreate :: Operation where "OpFolderCreate \<equiv> ''folder.create''"
abbreviation OpFolderGet :: Operation where "OpFolderGet \<equiv> ''folder.get''"
abbreviation OpFolderList :: Operation where "OpFolderList \<equiv> ''folder.list''"
abbreviation OpFolderRename :: Operation where "OpFolderRename \<equiv> ''folder.rename''"
abbreviation OpFolderDelete :: Operation where "OpFolderDelete \<equiv> ''folder.delete''"
abbreviation OpOAuth2ProviderPut :: Operation where "OpOAuth2ProviderPut \<equiv> ''oauth2-provider.put''"
abbreviation OpOAuth2ProviderGet :: Operation where "OpOAuth2ProviderGet \<equiv> ''oauth2-provider.get''"
abbreviation OpOAuth2ProviderList :: Operation where "OpOAuth2ProviderList \<equiv> ''oauth2-provider.list''"
abbreviation OpOAuth2ProviderDelete :: Operation where "OpOAuth2ProviderDelete \<equiv> ''oauth2-provider.delete''"
abbreviation OpProviderPut :: Operation where "OpProviderPut \<equiv> ''oidc-provider.put''"
abbreviation OpProviderGet :: Operation where "OpProviderGet \<equiv> ''oidc-provider.get''"
abbreviation OpProviderList :: Operation where "OpProviderList \<equiv> ''oidc-provider.list''"
abbreviation OpProviderDelete :: Operation where "OpProviderDelete \<equiv> ''oidc-provider.delete''"
abbreviation OpSAMLProviderPut :: Operation where "OpSAMLProviderPut \<equiv> ''saml-provider.put''"
abbreviation OpSAMLProviderPatch :: Operation where "OpSAMLProviderPatch \<equiv> ''saml-provider.patch''"
abbreviation OpSAMLProviderGet :: Operation where "OpSAMLProviderGet \<equiv> ''saml-provider.get''"
abbreviation OpSAMLProviderList :: Operation where "OpSAMLProviderList \<equiv> ''saml-provider.list''"
abbreviation OpSAMLProviderDelete :: Operation where "OpSAMLProviderDelete \<equiv> ''saml-provider.delete''"
abbreviation OpSAMLProviderRefreshMetadata :: Operation where "OpSAMLProviderRefreshMetadata \<equiv> ''saml-provider.refresh-metadata''"
abbreviation OpSAMLSPKeyList :: Operation where "OpSAMLSPKeyList \<equiv> ''saml-sp-key.list''"
abbreviation OpSAMLSPKeyRotate :: Operation where "OpSAMLSPKeyRotate \<equiv> ''saml-sp-key.rotate''"
abbreviation OpSAMLSPKeyRetire :: Operation where "OpSAMLSPKeyRetire \<equiv> ''saml-sp-key.retire''"
abbreviation OpSAMLSPKeyCompromiseRetire :: Operation where "OpSAMLSPKeyCompromiseRetire \<equiv> ''saml-sp-key.compromise-retire''"
abbreviation OpCredentialReset :: Operation where "OpCredentialReset \<equiv> ''credential-reset.org''"
abbreviation OpCredentialResetInstance :: Operation where "OpCredentialResetInstance \<equiv> ''credential-reset.instance''"
abbreviation OpAuditQueryOrg :: Operation where "OpAuditQueryOrg \<equiv> ''audit.query-org''"
abbreviation OpAuditQueryProject :: Operation where "OpAuditQueryProject \<equiv> ''audit.query-project''"
abbreviation OpAuditQueryEnv :: Operation where "OpAuditQueryEnv \<equiv> ''audit.query-env''"
abbreviation OpAuditExportOrg :: Operation where "OpAuditExportOrg \<equiv> ''audit.export-org''"
abbreviation OpAuditExportProject :: Operation where "OpAuditExportProject \<equiv> ''audit.export-project''"
abbreviation OpAuditExportEnv :: Operation where "OpAuditExportEnv \<equiv> ''audit.export-env''"
abbreviation OpAuditInstanceQuery :: Operation where "OpAuditInstanceQuery \<equiv> ''audit.instance-query''"
abbreviation OpAuditInstanceExport :: Operation where "OpAuditInstanceExport \<equiv> ''audit.instance-export''"
abbreviation OpGrantCreateOrg :: Operation where "OpGrantCreateOrg \<equiv> ''grant.create-org''"
abbreviation OpGrantCreateProject :: Operation where "OpGrantCreateProject \<equiv> ''grant.create-project''"
abbreviation OpGrantCreateEnv :: Operation where "OpGrantCreateEnv \<equiv> ''grant.create-env''"
abbreviation OpGrantCreateInstance :: Operation where "OpGrantCreateInstance \<equiv> ''grant.create-instance''"
abbreviation OpMemberInviteOrg :: Operation where "OpMemberInviteOrg \<equiv> ''member.invite-org''"
abbreviation OpMemberInviteInstance :: Operation where "OpMemberInviteInstance \<equiv> ''member.invite-instance''"
abbreviation OpRegistrationPolicyGetOrg :: Operation where "OpRegistrationPolicyGetOrg \<equiv> ''registration-policy.get-org''"
abbreviation OpRegistrationPolicyPutOrg :: Operation where "OpRegistrationPolicyPutOrg \<equiv> ''registration-policy.put-org''"
abbreviation OpRegistrationPolicyDeleteOrg :: Operation where "OpRegistrationPolicyDeleteOrg \<equiv> ''registration-policy.delete-org''"
abbreviation OpRegistrationPolicyGetInstance :: Operation where "OpRegistrationPolicyGetInstance \<equiv> ''registration-policy.get-instance''"
abbreviation OpRegistrationPolicyPutInstance :: Operation where "OpRegistrationPolicyPutInstance \<equiv> ''registration-policy.put-instance''"
abbreviation OpRegistrationPolicyDeleteInstance :: Operation where "OpRegistrationPolicyDeleteInstance \<equiv> ''registration-policy.delete-instance''"
abbreviation OpGrantRevokeOrg :: Operation where "OpGrantRevokeOrg \<equiv> ''grant.revoke-org''"
abbreviation OpGrantRevokeProject :: Operation where "OpGrantRevokeProject \<equiv> ''grant.revoke-project''"
abbreviation OpRuleListOrg :: Operation where "OpRuleListOrg \<equiv> ''rule.list-org''"
abbreviation OpGrantRevokeEnv :: Operation where "OpGrantRevokeEnv \<equiv> ''grant.revoke-env''"
abbreviation OpGrantRevokeInstance :: Operation where "OpGrantRevokeInstance \<equiv> ''grant.revoke-instance''"
abbreviation OpGrantListOrg :: Operation where "OpGrantListOrg \<equiv> ''grant.list-org''"
abbreviation OpGrantListProject :: Operation where "OpGrantListProject \<equiv> ''grant.list-project''"
abbreviation OpGrantListInstance :: Operation where "OpGrantListInstance \<equiv> ''grant.list-instance''"
abbreviation OpTemplateApplyOrg :: Operation where "OpTemplateApplyOrg \<equiv> ''grant.template-org''"
abbreviation OpTemplateApplyProject :: Operation where "OpTemplateApplyProject \<equiv> ''grant.template-project''"
abbreviation OpTemplateApplyEnv :: Operation where "OpTemplateApplyEnv \<equiv> ''grant.template-env''"
abbreviation OpTemplateApplyInstance :: Operation where "OpTemplateApplyInstance \<equiv> ''grant.template-instance''"
abbreviation OpEnvSettingsRead :: Operation where "OpEnvSettingsRead \<equiv> ''environment.settings-read''"
abbreviation OpEnvSettingsUpdate :: Operation where "OpEnvSettingsUpdate \<equiv> ''environment.settings-update''"
abbreviation OpOrgRetentionRead :: Operation where "OpOrgRetentionRead \<equiv> ''retention.org-read''"
abbreviation OpOrgRetentionUpdate :: Operation where "OpOrgRetentionUpdate \<equiv> ''retention.org-update''"
abbreviation OpProjectRetentionRead :: Operation where "OpProjectRetentionRead \<equiv> ''retention.project-read''"
abbreviation OpProjectRetentionUpdate :: Operation where "OpProjectRetentionUpdate \<equiv> ''retention.project-update''"
abbreviation OpRetentionHealthRead :: Operation where "OpRetentionHealthRead \<equiv> ''retention.health-read''"
abbreviation OpUpdateStatusRead :: Operation where "OpUpdateStatusRead \<equiv> ''update.status-read''"
abbreviation OpUpdateRequest :: Operation where "OpUpdateRequest \<equiv> ''update.request''"
abbreviation OpUpdateJobRead :: Operation where "OpUpdateJobRead \<equiv> ''update.job-read''"
abbreviation OpServiceAccountCreate :: Operation where "OpServiceAccountCreate \<equiv> ''identity.service-account-create''"
abbreviation OpServiceAccountList :: Operation where "OpServiceAccountList \<equiv> ''identity.service-account-list''"
abbreviation OpServiceAccountDelete :: Operation where "OpServiceAccountDelete \<equiv> ''identity.service-account-delete''"
abbreviation OpCredentialMint :: Operation where "OpCredentialMint \<equiv> ''identity.credential-mint''"
abbreviation OpCredentialList :: Operation where "OpCredentialList \<equiv> ''identity.credential-list''"
abbreviation OpCredentialRevoke :: Operation where "OpCredentialRevoke \<equiv> ''identity.credential-revoke''"
abbreviation OpCredentialPolicyRead :: Operation where "OpCredentialPolicyRead \<equiv> ''identity.credential-policy-read''"
abbreviation OpCredentialPolicyUpdate :: Operation where "OpCredentialPolicyUpdate \<equiv> ''identity.credential-policy-update''"
abbreviation OpDeveloperCredentialListProject :: Operation where "OpDeveloperCredentialListProject \<equiv> ''developer-credential.list-project''"
abbreviation OpDeveloperCredentialRevokeProject :: Operation where "OpDeveloperCredentialRevokeProject \<equiv> ''developer-credential.revoke-project''"
abbreviation OpDeveloperCredentialPolicyRead :: Operation where "OpDeveloperCredentialPolicyRead \<equiv> ''developer-credential.policy-read''"
abbreviation OpDeveloperCredentialPolicyUpdate :: Operation where "OpDeveloperCredentialPolicyUpdate \<equiv> ''developer-credential.policy-update''"
abbreviation OpFederationIssuerCreate :: Operation where "OpFederationIssuerCreate \<equiv> ''federation.issuer-create''"
abbreviation OpFederationIssuerList :: Operation where "OpFederationIssuerList \<equiv> ''federation.issuer-list''"
abbreviation OpFederationIssuerUpdate :: Operation where "OpFederationIssuerUpdate \<equiv> ''federation.issuer-update''"
abbreviation OpFederationIssuerDelete :: Operation where "OpFederationIssuerDelete \<equiv> ''federation.issuer-delete''"
abbreviation OpBindingCreate :: Operation where "OpBindingCreate \<equiv> ''identity.binding-create''"
abbreviation OpDeliveryReconcileOffline :: Operation where "OpDeliveryReconcileOffline \<equiv> ''delivery.reconcile-offline''"
abbreviation OpDeliveryTargetReport :: Operation where "OpDeliveryTargetReport \<equiv> ''delivery-target.report''"
abbreviation OpDeliveryTargetTombstone :: Operation where "OpDeliveryTargetTombstone \<equiv> ''delivery-target.tombstone''"
abbreviation OpDeliveryTargetList :: Operation where "OpDeliveryTargetList \<equiv> ''delivery-target.list''"
abbreviation OpFileTargetCreate :: Operation where "OpFileTargetCreate \<equiv> ''file-target.create''"
abbreviation OpFileTargetUpdate :: Operation where "OpFileTargetUpdate \<equiv> ''file-target.update''"
abbreviation OpFileTargetDelete :: Operation where "OpFileTargetDelete \<equiv> ''file-target.delete''"
abbreviation OpFileTargetInspect :: Operation where "OpFileTargetInspect \<equiv> ''file-target.inspect''"
abbreviation OpFileTargetReport :: Operation where "OpFileTargetReport \<equiv> ''file-target.report''"
abbreviation OpSCIMBindingCreate :: Operation where "OpSCIMBindingCreate \<equiv> ''scim-binding.create''"
abbreviation OpSCIMBindingGet :: Operation where "OpSCIMBindingGet \<equiv> ''scim-binding.get''"
abbreviation OpSCIMBindingList :: Operation where "OpSCIMBindingList \<equiv> ''scim-binding.list''"
abbreviation OpSCIMBindingDelete :: Operation where "OpSCIMBindingDelete \<equiv> ''scim-binding.delete''"
abbreviation OpSCIMMappingCreate :: Operation where "OpSCIMMappingCreate \<equiv> ''scim-mapping.create''"
abbreviation OpSCIMMappingUpdate :: Operation where "OpSCIMMappingUpdate \<equiv> ''scim-mapping.update''"
abbreviation OpSCIMMappingDelete :: Operation where "OpSCIMMappingDelete \<equiv> ''scim-mapping.delete''"
abbreviation OpSCIMMappingList :: Operation where "OpSCIMMappingList \<equiv> ''scim-mapping.list''"
abbreviation OpSCIMCredentialMint :: Operation where "OpSCIMCredentialMint \<equiv> ''scim-credential.mint''"
abbreviation OpSCIMCredentialGet :: Operation where "OpSCIMCredentialGet \<equiv> ''scim-credential.get''"
abbreviation OpSCIMCredentialList :: Operation where "OpSCIMCredentialList \<equiv> ''scim-credential.list''"
abbreviation OpSCIMCredentialRevoke :: Operation where "OpSCIMCredentialRevoke \<equiv> ''scim-credential.revoke''"
abbreviation OpSCIMDirectoryUsers :: Operation where "OpSCIMDirectoryUsers \<equiv> ''scim-directory.users''"
abbreviation OpSCIMDirectoryGroups :: Operation where "OpSCIMDirectoryGroups \<equiv> ''scim-directory.groups''"
abbreviation OpSCIMUserCreate :: Operation where "OpSCIMUserCreate \<equiv> ''scim-user.create''"
abbreviation OpSCIMUserGet :: Operation where "OpSCIMUserGet \<equiv> ''scim-user.get''"
abbreviation OpSCIMUserList :: Operation where "OpSCIMUserList \<equiv> ''scim-user.list''"
abbreviation OpSCIMUserReplace :: Operation where "OpSCIMUserReplace \<equiv> ''scim-user.replace''"
abbreviation OpSCIMUserPatch :: Operation where "OpSCIMUserPatch \<equiv> ''scim-user.patch''"
abbreviation OpSCIMUserDelete :: Operation where "OpSCIMUserDelete \<equiv> ''scim-user.delete''"
abbreviation OpSCIMGroupCreate :: Operation where "OpSCIMGroupCreate \<equiv> ''scim-group.create''"
abbreviation OpSCIMGroupGet :: Operation where "OpSCIMGroupGet \<equiv> ''scim-group.get''"
abbreviation OpSCIMGroupList :: Operation where "OpSCIMGroupList \<equiv> ''scim-group.list''"
abbreviation OpSCIMGroupReplace :: Operation where "OpSCIMGroupReplace \<equiv> ''scim-group.replace''"
abbreviation OpSCIMGroupPatch :: Operation where "OpSCIMGroupPatch \<equiv> ''scim-group.patch''"
abbreviation OpSCIMGroupDelete :: Operation where "OpSCIMGroupDelete \<equiv> ''scim-group.delete''"
abbreviation OpSCIMDiscovery :: Operation where "OpSCIMDiscovery \<equiv> ''scim-discovery.read''"
abbreviation OpSCIMUnsupported :: Operation where "OpSCIMUnsupported \<equiv> ''scim-unsupported.refuse''"
abbreviation OpRemoteDirectoryServe :: Operation where "OpRemoteDirectoryServe \<equiv> ''remote.directory-serve''"
abbreviation OpRemoteAdd :: Operation where "OpRemoteAdd \<equiv> ''remote.add''"
abbreviation OpRemoteList :: Operation where "OpRemoteList \<equiv> ''remote.list''"
abbreviation OpRemoteShow :: Operation where "OpRemoteShow \<equiv> ''remote.show''"
abbreviation OpRemoteRename :: Operation where "OpRemoteRename \<equiv> ''remote.rename''"
abbreviation OpRemoteRemove :: Operation where "OpRemoteRemove \<equiv> ''remote.remove''"
abbreviation OpRemoteCredentialCreate :: Operation where "OpRemoteCredentialCreate \<equiv> ''remote-credential.create''"
abbreviation OpRemoteCredentialList :: Operation where "OpRemoteCredentialList \<equiv> ''remote-credential.list''"
abbreviation OpRemoteCredentialShow :: Operation where "OpRemoteCredentialShow \<equiv> ''remote-credential.show''"
abbreviation OpRemoteCredentialRevoke :: Operation where "OpRemoteCredentialRevoke \<equiv> ''remote-credential.revoke''"
abbreviation OpWorkspaceOriginList :: Operation where "OpWorkspaceOriginList \<equiv> ''workspace-origin.list''"
abbreviation OpWorkspaceOriginAdd :: Operation where "OpWorkspaceOriginAdd \<equiv> ''workspace-origin.add''"
abbreviation OpWorkspaceOriginRemove :: Operation where "OpWorkspaceOriginRemove \<equiv> ''workspace-origin.remove''"
abbreviation OpAdapterConfigure :: Operation where "OpAdapterConfigure \<equiv> ''adapter.configure''"
abbreviation OpAdapterCredentialSet :: Operation where "OpAdapterCredentialSet \<equiv> ''adapter.credential-set''"
abbreviation OpAdapterCredentialRevoke :: Operation where "OpAdapterCredentialRevoke \<equiv> ''adapter.credential-revoke''"
abbreviation OpAdapterAdopt :: Operation where "OpAdapterAdopt \<equiv> ''adapter.adopt''"
abbreviation OpAdapterInspect :: Operation where "OpAdapterInspect \<equiv> ''adapter.inspect''"
abbreviation OpAdapterPlan :: Operation where "OpAdapterPlan \<equiv> ''adapter.plan''"
abbreviation OpAdapterTest :: Operation where "OpAdapterTest \<equiv> ''adapter.test''"
abbreviation OpAdapterSync :: Operation where "OpAdapterSync \<equiv> ''adapter.sync''"
abbreviation OpAdapterDelete :: Operation where "OpAdapterDelete \<equiv> ''adapter.delete''"
abbreviation OpAdapterPush :: Operation where "OpAdapterPush \<equiv> ''adapter.push''"
abbreviation OpDynamicProviderConfigure :: Operation where "OpDynamicProviderConfigure \<equiv> ''dynamic-provider.configure''"
abbreviation OpDynamicProviderInspect :: Operation where "OpDynamicProviderInspect \<equiv> ''dynamic-provider.inspect''"
abbreviation OpDynamicProviderCredentialSet :: Operation where "OpDynamicProviderCredentialSet \<equiv> ''dynamic-provider.credential-set''"
abbreviation OpDynamicProviderCredentialRevoke :: Operation where "OpDynamicProviderCredentialRevoke \<equiv> ''dynamic-provider.credential-revoke''"
abbreviation OpDynamicProviderDelete :: Operation where "OpDynamicProviderDelete \<equiv> ''dynamic-provider.delete''"
abbreviation OpLeaseMint :: Operation where "OpLeaseMint \<equiv> ''lease.mint''"
abbreviation OpLeaseInspect :: Operation where "OpLeaseInspect \<equiv> ''lease.inspect''"
abbreviation OpLeaseRenew :: Operation where "OpLeaseRenew \<equiv> ''lease.renew''"
abbreviation OpLeaseRevoke :: Operation where "OpLeaseRevoke \<equiv> ''lease.revoke''"
abbreviation OpLeaseSettle :: Operation where "OpLeaseSettle \<equiv> ''lease.settle''"
abbreviation OpSSHCAConfigure :: Operation where "OpSSHCAConfigure \<equiv> ''ssh-ca.configure''"
abbreviation OpSSHCAInspect :: Operation where "OpSSHCAInspect \<equiv> ''ssh-ca.inspect''"
abbreviation OpSSHCARotate :: Operation where "OpSSHCARotate \<equiv> ''ssh-ca.rotate''"
abbreviation OpSSHCARetireKey :: Operation where "OpSSHCARetireKey \<equiv> ''ssh-ca.retire-key''"
abbreviation OpSSHCADelete :: Operation where "OpSSHCADelete \<equiv> ''ssh-ca.delete''"
abbreviation OpSSHProfileConfigure :: Operation where "OpSSHProfileConfigure \<equiv> ''ssh-profile.configure''"
abbreviation OpSSHProfileInspect :: Operation where "OpSSHProfileInspect \<equiv> ''ssh-profile.inspect''"
abbreviation OpSSHProfileDelete :: Operation where "OpSSHProfileDelete \<equiv> ''ssh-profile.delete''"
abbreviation OpSSHCertIssue :: Operation where "OpSSHCertIssue \<equiv> ''ssh-cert.issue''"
abbreviation OpSSHCertInspect :: Operation where "OpSSHCertInspect \<equiv> ''ssh-cert.inspect''"
abbreviation OpSSHCertRevoke :: Operation where "OpSSHCertRevoke \<equiv> ''ssh-cert.revoke''"
abbreviation OpTransitKeyCreate :: Operation where "OpTransitKeyCreate \<equiv> ''transit.key-create''"
abbreviation OpTransitKeyInspect :: Operation where "OpTransitKeyInspect \<equiv> ''transit.key-inspect''"
abbreviation OpTransitKeyConfigure :: Operation where "OpTransitKeyConfigure \<equiv> ''transit.key-configure''"
abbreviation OpTransitKeyRotate :: Operation where "OpTransitKeyRotate \<equiv> ''transit.key-rotate''"
abbreviation OpTransitKeyLifecycle :: Operation where "OpTransitKeyLifecycle \<equiv> ''transit.key-lifecycle''"
abbreviation OpTransitKeyTrim :: Operation where "OpTransitKeyTrim \<equiv> ''transit.key-trim''"
abbreviation OpTransitUse :: Operation where "OpTransitUse \<equiv> ''transit.use''"
abbreviation OpPKIIssuerInspect :: Operation where "OpPKIIssuerInspect \<equiv> ''pki-issuer.inspect''"
abbreviation OpPKIIssuerCreate :: Operation where "OpPKIIssuerCreate \<equiv> ''pki-issuer.create''"
abbreviation OpPKIIssuerInstall :: Operation where "OpPKIIssuerInstall \<equiv> ''pki-issuer.install''"
abbreviation OpPKIIssuerRotate :: Operation where "OpPKIIssuerRotate \<equiv> ''pki-issuer.rotate''"
abbreviation OpPKIIssuerRetire :: Operation where "OpPKIIssuerRetire \<equiv> ''pki-issuer.retire''"
abbreviation OpPKIIssuerRevoke :: Operation where "OpPKIIssuerRevoke \<equiv> ''pki-issuer.revoke''"
abbreviation OpPKIIssuerReleaseHold :: Operation where "OpPKIIssuerReleaseHold \<equiv> ''pki-issuer.release-hold''"
abbreviation OpPKIIssuerPublishCRL :: Operation where "OpPKIIssuerPublishCRL \<equiv> ''pki-issuer.publish-crl''"
abbreviation OpPKIProfileInspect :: Operation where "OpPKIProfileInspect \<equiv> ''pki-profile.inspect''"
abbreviation OpPKIProfileCreate :: Operation where "OpPKIProfileCreate \<equiv> ''pki-profile.create''"
abbreviation OpPKIProfileUpdate :: Operation where "OpPKIProfileUpdate \<equiv> ''pki-profile.update''"
abbreviation OpPKIProfileDelete :: Operation where "OpPKIProfileDelete \<equiv> ''pki-profile.delete''"
abbreviation OpPKIProfileBind :: Operation where "OpPKIProfileBind \<equiv> ''pki-profile.bind''"
abbreviation OpPKIProfileUnbind :: Operation where "OpPKIProfileUnbind \<equiv> ''pki-profile.unbind''"
abbreviation OpCertificateIssue :: Operation where "OpCertificateIssue \<equiv> ''certificate.issue''"
abbreviation OpCertificateRenew :: Operation where "OpCertificateRenew \<equiv> ''certificate.renew''"
abbreviation OpCertificateRevoke :: Operation where "OpCertificateRevoke \<equiv> ''certificate.revoke''"
abbreviation OpCertificateInspect :: Operation where "OpCertificateInspect \<equiv> ''certificate.inspect''"


section \<open>Store operations\<close>

abbreviation StoreSelfConfigSeedInputs :: StoreOp where "StoreSelfConfigSeedInputs \<equiv> ''selfconfig.SeedInputs''"
abbreviation StoreSelfConfigHostSeedInputs :: StoreOp where "StoreSelfConfigHostSeedInputs \<equiv> ''selfconfig.HostSeedInputs''"
abbreviation StoreSelfConfigPutSeedInput :: StoreOp where "StoreSelfConfigPutSeedInput \<equiv> ''selfconfig.PutSeedInput''"
abbreviation StoreSelfConfigRecoverTarget :: StoreOp where "StoreSelfConfigRecoverTarget \<equiv> ''selfconfig.RecoverTarget''"
abbreviation StoreSelfConfigBinding :: StoreOp where "StoreSelfConfigBinding \<equiv> ''selfconfig.Binding''"
abbreviation StoreSelfConfigPreviousRevision :: StoreOp where "StoreSelfConfigPreviousRevision \<equiv> ''selfconfig.PreviousRevision''"
abbreviation StoreSelfConfigRollout :: StoreOp where "StoreSelfConfigRollout \<equiv> ''selfconfig.Rollout''"
abbreviation StoreSelfConfigPutRollout :: StoreOp where "StoreSelfConfigPutRollout \<equiv> ''selfconfig.PutRollout''"
abbreviation StoreSelfConfigNextRolloutSequence :: StoreOp where "StoreSelfConfigNextRolloutSequence \<equiv> ''selfconfig.NextRolloutSequence''"
abbreviation StoreSelfConfigJobs :: StoreOp where "StoreSelfConfigJobs \<equiv> ''selfconfig.Jobs''"
abbreviation StoreSelfConfigJob :: StoreOp where "StoreSelfConfigJob \<equiv> ''selfconfig.Job''"
abbreviation StoreSelfConfigJobByIdempotencyKey :: StoreOp where "StoreSelfConfigJobByIdempotencyKey \<equiv> ''selfconfig.JobByIdempotencyKey''"
abbreviation StoreSelfConfigNodes :: StoreOp where "StoreSelfConfigNodes \<equiv> ''selfconfig.Nodes''"
abbreviation StoreSelfConfigRetained :: StoreOp where "StoreSelfConfigRetained \<equiv> ''selfconfig.Retained''"
abbreviation StoreSelfConfigCreateBinding :: StoreOp where "StoreSelfConfigCreateBinding \<equiv> ''selfconfig.CreateBinding''"
abbreviation StoreSelfConfigBeginJob :: StoreOp where "StoreSelfConfigBeginJob \<equiv> ''selfconfig.BeginJob''"
abbreviation StoreSelfConfigCommitJob :: StoreOp where "StoreSelfConfigCommitJob \<equiv> ''selfconfig.CommitJob''"
abbreviation StoreSelfConfigFinishJob :: StoreOp where "StoreSelfConfigFinishJob \<equiv> ''selfconfig.FinishJob''"
abbreviation StoreSelfConfigPutNode :: StoreOp where "StoreSelfConfigPutNode \<equiv> ''selfconfig.PutNode''"
abbreviation StoreSelfConfigFenceRestored :: StoreOp where "StoreSelfConfigFenceRestored \<equiv> ''selfconfig.FenceRestored''"
abbreviation StoreKeysInsertInitialProjectDEK :: StoreOp where "StoreKeysInsertInitialProjectDEK \<equiv> ''keys.InsertInitialProjectDEK''"
abbreviation StoreOrgsCreate :: StoreOp where "StoreOrgsCreate \<equiv> ''orgs.Create''"
abbreviation StoreOrgsGet :: StoreOp where "StoreOrgsGet \<equiv> ''orgs.Get''"
abbreviation StoreOrgsList :: StoreOp where "StoreOrgsList \<equiv> ''orgs.List''"
abbreviation StoreOrgsCount :: StoreOp where "StoreOrgsCount \<equiv> ''orgs.Count''"
abbreviation StoreOrgsRename :: StoreOp where "StoreOrgsRename \<equiv> ''orgs.Rename''"
abbreviation StoreOrgsLock :: StoreOp where "StoreOrgsLock \<equiv> ''orgs.Lock''"
abbreviation StoreOrgsSetRetention :: StoreOp where "StoreOrgsSetRetention \<equiv> ''orgs.SetRetention''"
abbreviation StoreOrgsDelete :: StoreOp where "StoreOrgsDelete \<equiv> ''orgs.Delete''"
abbreviation StoreProjectsCreate :: StoreOp where "StoreProjectsCreate \<equiv> ''projects.Create''"
abbreviation StoreProjectsGet :: StoreOp where "StoreProjectsGet \<equiv> ''projects.Get''"
abbreviation StoreProjectsGetCapacity :: StoreOp where "StoreProjectsGetCapacity \<equiv> ''projects.GetCapacity''"
abbreviation StoreProjectsSetCapacity :: StoreOp where "StoreProjectsSetCapacity \<equiv> ''projects.SetCapacity''"
abbreviation StoreProjectsList :: StoreOp where "StoreProjectsList \<equiv> ''projects.List''"
abbreviation StoreProjectsListAll :: StoreOp where "StoreProjectsListAll \<equiv> ''projects.ListAll''"
abbreviation StoreProjectsLock :: StoreOp where "StoreProjectsLock \<equiv> ''projects.Lock''"
abbreviation StoreProjectsRename :: StoreOp where "StoreProjectsRename \<equiv> ''projects.Rename''"
abbreviation StoreProjectsSetRetention :: StoreOp where "StoreProjectsSetRetention \<equiv> ''projects.SetRetention''"
abbreviation StoreProjectsSetDefinitionsSource :: StoreOp where "StoreProjectsSetDefinitionsSource \<equiv> ''projects.SetDefinitionsSource''"
abbreviation StoreProjectsSetMachineReveal :: StoreOp where "StoreProjectsSetMachineReveal \<equiv> ''projects.SetMachineReveal''"
abbreviation StoreProjectsDelete :: StoreOp where "StoreProjectsDelete \<equiv> ''projects.Delete''"
abbreviation StoreDefinitionsPlanCreate :: StoreOp where "StoreDefinitionsPlanCreate \<equiv> ''definitions.CreatePlan''"
abbreviation StoreDefinitionsPlanGet :: StoreOp where "StoreDefinitionsPlanGet \<equiv> ''definitions.GetPlan''"
abbreviation StoreDefinitionsPlanCountOpen :: StoreOp where "StoreDefinitionsPlanCountOpen \<equiv> ''definitions.CountOpenPlans''"
abbreviation StoreDefinitionsPlanApply :: StoreOp where "StoreDefinitionsPlanApply \<equiv> ''definitions.MarkPlanApplied''"
abbreviation StoreDefinitionsPlanPrune :: StoreOp where "StoreDefinitionsPlanPrune \<equiv> ''definitions.PruneExpiredPlans''"
abbreviation StoreDefinitionsLatestAppliedPlan :: StoreOp where "StoreDefinitionsLatestAppliedPlan \<equiv> ''definitions.LatestAppliedPlan''"
abbreviation StoreEnvironmentParametersGet :: StoreOp where "StoreEnvironmentParametersGet \<equiv> ''environments.Parameters''"
abbreviation StoreEnvironmentParametersSet :: StoreOp where "StoreEnvironmentParametersSet \<equiv> ''environments.SetParameters''"
abbreviation StoreEnvironmentsCreate :: StoreOp where "StoreEnvironmentsCreate \<equiv> ''environments.Create''"
abbreviation StoreEnvironmentsGet :: StoreOp where "StoreEnvironmentsGet \<equiv> ''environments.Get''"
abbreviation StoreEnvironmentsList :: StoreOp where "StoreEnvironmentsList \<equiv> ''environments.List''"
abbreviation StoreEnvironmentsListPage :: StoreOp where "StoreEnvironmentsListPage \<equiv> ''environments.ListPage''"
abbreviation StoreEnvironmentsCount :: StoreOp where "StoreEnvironmentsCount \<equiv> ''environments.Count''"
abbreviation StoreEnvironmentsNextOrder :: StoreOp where "StoreEnvironmentsNextOrder \<equiv> ''environments.NextOrder''"
abbreviation StoreEnvironmentsUpdateNote :: StoreOp where "StoreEnvironmentsUpdateNote \<equiv> ''environments.UpdateNote''"
abbreviation StoreEnvironmentsRename :: StoreOp where "StoreEnvironmentsRename \<equiv> ''environments.Rename''"
abbreviation StoreEnvironmentsSetOrder :: StoreOp where "StoreEnvironmentsSetOrder \<equiv> ''environments.SetOrder''"
abbreviation StoreEnvironmentsDelete :: StoreOp where "StoreEnvironmentsDelete \<equiv> ''environments.Delete''"
abbreviation StoreEnvironmentsGetSettings :: StoreOp where "StoreEnvironmentsGetSettings \<equiv> ''environments.Settings''"
abbreviation StoreEnvironmentsSetSettings :: StoreOp where "StoreEnvironmentsSetSettings \<equiv> ''environments.SetSettings''"
abbreviation StoreEnvironmentsListProtection :: StoreOp where "StoreEnvironmentsListProtection \<equiv> ''environments.ListProtection''"
abbreviation StoreCatalogueCreate :: StoreOp where "StoreCatalogueCreate \<equiv> ''catalogue.Create''"
abbreviation StoreCatalogueGet :: StoreOp where "StoreCatalogueGet \<equiv> ''catalogue.Get''"
abbreviation StoreCatalogueList :: StoreOp where "StoreCatalogueList \<equiv> ''catalogue.List''"
abbreviation StoreCatalogueListPage :: StoreOp where "StoreCatalogueListPage \<equiv> ''catalogue.ListPage''"
abbreviation StoreCatalogueGetInProject :: StoreOp where "StoreCatalogueGetInProject \<equiv> ''catalogue.GetInProject''"
abbreviation StoreCataloguePresenceForKey :: StoreOp where "StoreCataloguePresenceForKey \<equiv> ''catalogue.PresenceForKey''"
abbreviation StoreCatalogueCount :: StoreOp where "StoreCatalogueCount \<equiv> ''catalogue.Count''"
abbreviation StoreCatalogueAdapterPins :: StoreOp where "StoreCatalogueAdapterPins \<equiv> ''catalogue.AdapterPins''"
abbreviation StoreCatalogueRename :: StoreOp where "StoreCatalogueRename \<equiv> ''catalogue.Rename''"
abbreviation StoreCatalogueUpdateMetadata :: StoreOp where "StoreCatalogueUpdateMetadata \<equiv> ''catalogue.UpdateMetadata''"
abbreviation StoreCatalogueUpdateDeclaration :: StoreOp where "StoreCatalogueUpdateDeclaration \<equiv> ''catalogue.UpdateDeclaration''"
abbreviation StoreCatalogueSetClassification :: StoreOp where "StoreCatalogueSetClassification \<equiv> ''catalogue.SetClassification''"
abbreviation StoreCatalogueSetGroup :: StoreOp where "StoreCatalogueSetGroup \<equiv> ''catalogue.SetGroup''"
abbreviation StoreCatalogueDelete :: StoreOp where "StoreCatalogueDelete \<equiv> ''catalogue.Delete''"
abbreviation StoreCatalogueGroupCreate :: StoreOp where "StoreCatalogueGroupCreate \<equiv> ''catalogue.CreateGroup''"
abbreviation StoreCatalogueGroupGet :: StoreOp where "StoreCatalogueGroupGet \<equiv> ''catalogue.GetGroup''"
abbreviation StoreCatalogueGroupList :: StoreOp where "StoreCatalogueGroupList \<equiv> ''catalogue.ListGroups''"
abbreviation StoreCatalogueGroupCount :: StoreOp where "StoreCatalogueGroupCount \<equiv> ''catalogue.CountGroups''"
abbreviation StoreCatalogueGroupRename :: StoreOp where "StoreCatalogueGroupRename \<equiv> ''catalogue.RenameGroup''"
abbreviation StoreCatalogueGroupDelete :: StoreOp where "StoreCatalogueGroupDelete \<equiv> ''catalogue.DeleteGroup''"
abbreviation StoreCatalogueGroupClearMembers :: StoreOp where "StoreCatalogueGroupClearMembers \<equiv> ''catalogue.ClearGroupMembers''"
abbreviation StoreCataloguePresenceList :: StoreOp where "StoreCataloguePresenceList \<equiv> ''catalogue.ListPresence''"
abbreviation StoreCataloguePresenceReplace :: StoreOp where "StoreCataloguePresenceReplace \<equiv> ''catalogue.ReplacePresence''"
abbreviation StoreCataloguePresenceCascade :: StoreOp where "StoreCataloguePresenceCascade \<equiv> ''catalogue.DeletePresenceForEnvironment''"
abbreviation StoreCatalogueRevisionGet :: StoreOp where "StoreCatalogueRevisionGet \<equiv> ''catalogue.SchemaRevision''"
abbreviation StoreAdaptersTarget :: StoreOp where "StoreAdaptersTarget \<equiv> ''adapters.Target''"
abbreviation StoreAdaptersGet :: StoreOp where "StoreAdaptersGet \<equiv> ''adapters.Get''"
abbreviation StoreAdaptersConfiguration :: StoreOp where "StoreAdaptersConfiguration \<equiv> ''adapters.Configuration''"
abbreviation StoreAdaptersConfigurationForUpdate :: StoreOp where "StoreAdaptersConfigurationForUpdate \<equiv> ''adapters.ConfigurationForUpdate''"
abbreviation StoreAdaptersList :: StoreOp where "StoreAdaptersList \<equiv> ''adapters.List''"
abbreviation StoreAdaptersListTargets :: StoreOp where "StoreAdaptersListTargets \<equiv> ''adapters.ListTargets''"
abbreviation StoreAdaptersTargetKeyIDs :: StoreOp where "StoreAdaptersTargetKeyIDs \<equiv> ''adapters.TargetKeyIDs''"
abbreviation StoreAdaptersCreate :: StoreOp where "StoreAdaptersCreate \<equiv> ''adapters.Create''"
abbreviation StoreAdaptersAddTarget :: StoreOp where "StoreAdaptersAddTarget \<equiv> ''adapters.AddTarget''"
abbreviation StoreAdaptersRecordCredentialExpiry :: StoreOp where "StoreAdaptersRecordCredentialExpiry \<equiv> ''adapters.RecordCredentialExpiry''"
abbreviation StoreAdaptersBeginConfigureEffect :: StoreOp where "StoreAdaptersBeginConfigureEffect \<equiv> ''adapters.BeginConfigureEffect''"
abbreviation StoreAdaptersFinishConfigureEffect :: StoreOp where "StoreAdaptersFinishConfigureEffect \<equiv> ''adapters.FinishConfigureEffect''"
abbreviation StoreAdaptersUpdateTarget :: StoreOp where "StoreAdaptersUpdateTarget \<equiv> ''adapters.UpdateTarget''"
abbreviation StoreAdaptersMoveTarget :: StoreOp where "StoreAdaptersMoveTarget \<equiv> ''adapters.MoveTarget''"
abbreviation StoreAdaptersMoveOrigin :: StoreOp where "StoreAdaptersMoveOrigin \<equiv> ''adapters.MoveOrigin''"
abbreviation StoreAdaptersMove :: StoreOp where "StoreAdaptersMove \<equiv> ''adapters.Move''"
abbreviation StoreAdaptersListForReencrypt :: StoreOp where "StoreAdaptersListForReencrypt \<equiv> ''adapters.ListAdaptersForReencrypt''"
abbreviation StoreAdaptersReencrypt :: StoreOp where "StoreAdaptersReencrypt \<equiv> ''adapters.ReencryptAdapter''"
abbreviation StoreAdaptersListMovesForReencrypt :: StoreOp where "StoreAdaptersListMovesForReencrypt \<equiv> ''adapters.ListRouteMovesForReencrypt''"
abbreviation StoreAdaptersReencryptMove :: StoreOp where "StoreAdaptersReencryptMove \<equiv> ''adapters.ReencryptRouteMove''"
abbreviation StoreAdaptersCancelMove :: StoreOp where "StoreAdaptersCancelMove \<equiv> ''adapters.CancelMove''"
abbreviation StoreAdaptersReplaceMoveTarget :: StoreOp where "StoreAdaptersReplaceMoveTarget \<equiv> ''adapters.ReplaceMoveTarget''"
abbreviation StoreAdaptersReplaceMoveOrigin :: StoreOp where "StoreAdaptersReplaceMoveOrigin \<equiv> ''adapters.ReplaceMoveOrigin''"
abbreviation StoreAdaptersMapping :: StoreOp where "StoreAdaptersMapping \<equiv> ''adapters.Mapping''"
abbreviation StoreAdaptersPlanMaterial :: StoreOp where "StoreAdaptersPlanMaterial \<equiv> ''adapters.PlanMaterial''"
abbreviation StoreAdaptersTargetEnvironments :: StoreOp where "StoreAdaptersTargetEnvironments \<equiv> ''adapters.TargetEnvironments''"
abbreviation StoreAdaptersEnvironments :: StoreOp where "StoreAdaptersEnvironments \<equiv> ''adapters.Environments''"
abbreviation StoreAdaptersConflicts :: StoreOp where "StoreAdaptersConflicts \<equiv> ''adapters.Conflicts''"
abbreviation StoreAdaptersRecordPlan :: StoreOp where "StoreAdaptersRecordPlan \<equiv> ''adapters.RecordPlan''"
abbreviation StoreAdaptersAdopt :: StoreOp where "StoreAdaptersAdopt \<equiv> ''adapters.Adopt''"
abbreviation StoreAdaptersEnqueuePublished :: StoreOp where "StoreAdaptersEnqueuePublished \<equiv> ''adapters.EnqueuePublished''"
abbreviation StoreAdaptersTeardownTarget :: StoreOp where "StoreAdaptersTeardownTarget \<equiv> ''adapters.TeardownTarget''"
abbreviation StoreAdaptersTeardownAdapter :: StoreOp where "StoreAdaptersTeardownAdapter \<equiv> ''adapters.TeardownAdapter''"
abbreviation StoreAdaptersReplaceCredential :: StoreOp where "StoreAdaptersReplaceCredential \<equiv> ''adapters.ReplaceCredential''"
abbreviation StoreAdaptersRevokeCredential :: StoreOp where "StoreAdaptersRevokeCredential \<equiv> ''adapters.RevokeCredential''"
abbreviation StoreAdaptersEnqueueManual :: StoreOp where "StoreAdaptersEnqueueManual \<equiv> ''adapters.EnqueueManual''"
abbreviation StoreAdaptersTargetKeys :: StoreOp where "StoreAdaptersTargetKeys \<equiv> ''adapters.TargetKeys''"
abbreviation StoreAdaptersPauseTarget :: StoreOp where "StoreAdaptersPauseTarget \<equiv> ''adapters.PauseTarget''"
abbreviation StoreAdaptersResumeTarget :: StoreOp where "StoreAdaptersResumeTarget \<equiv> ''adapters.ResumeTarget''"
abbreviation StoreAdaptersHealthCounts :: StoreOp where "StoreAdaptersHealthCounts \<equiv> ''adapters.HealthCounts''"
abbreviation StoreCatalogueRevisionBump :: StoreOp where "StoreCatalogueRevisionBump \<equiv> ''catalogue.BumpSchemaRevision''"
abbreviation StoreDynamicProvidersCreate :: StoreOp where "StoreDynamicProvidersCreate \<equiv> ''dynamic.CreateProvider''"
abbreviation StoreDynamicProvidersGet :: StoreOp where "StoreDynamicProvidersGet \<equiv> ''dynamic.GetProvider''"
abbreviation StoreDynamicProvidersCredentialCiphertext :: StoreOp where "StoreDynamicProvidersCredentialCiphertext \<equiv> ''dynamic.ProviderCredentialCiphertext''"
abbreviation StoreDynamicProvidersList :: StoreOp where "StoreDynamicProvidersList \<equiv> ''dynamic.ListProviders''"
abbreviation StoreDynamicProvidersReplaceCredential :: StoreOp where "StoreDynamicProvidersReplaceCredential \<equiv> ''dynamic.ReplaceProviderCredential''"
abbreviation StoreDynamicProvidersRevokeCredential :: StoreOp where "StoreDynamicProvidersRevokeCredential \<equiv> ''dynamic.RevokeProviderCredential''"
abbreviation StoreDynamicProvidersDelete :: StoreOp where "StoreDynamicProvidersDelete \<equiv> ''dynamic.DeleteProvider''"
abbreviation StoreDynamicProvidersListForReencrypt :: StoreOp where "StoreDynamicProvidersListForReencrypt \<equiv> ''dynamic.ListProvidersForReencrypt''"
abbreviation StoreDynamicProvidersReencrypt :: StoreOp where "StoreDynamicProvidersReencrypt \<equiv> ''dynamic.ReencryptProvider''"
abbreviation StoreDynamicLeasesActiveIDsForProvider :: StoreOp where "StoreDynamicLeasesActiveIDsForProvider \<equiv> ''dynamic.ActiveLeaseIDsForProvider''"
abbreviation StoreDynamicLeasesCreate :: StoreOp where "StoreDynamicLeasesCreate \<equiv> ''dynamic.CreateLease''"
abbreviation StoreDynamicLeasesGet :: StoreOp where "StoreDynamicLeasesGet \<equiv> ''dynamic.GetLease''"
abbreviation StoreDynamicLeasesList :: StoreOp where "StoreDynamicLeasesList \<equiv> ''dynamic.ListLeasesForEnvironment''"
abbreviation StoreDynamicLeasesFinishMint :: StoreOp where "StoreDynamicLeasesFinishMint \<equiv> ''dynamic.FinishMint''"
abbreviation StoreDynamicLeasesEnqueueTransition :: StoreOp where "StoreDynamicLeasesEnqueueTransition \<equiv> ''dynamic.EnqueueTransition''"
abbreviation StoreSSHCreateCA :: StoreOp where "StoreSSHCreateCA \<equiv> ''ssh.CreateCA''"
abbreviation StoreSSHInsertCAKey :: StoreOp where "StoreSSHInsertCAKey \<equiv> ''ssh.InsertCAKey''"
abbreviation StoreSSHGetCA :: StoreOp where "StoreSSHGetCA \<equiv> ''ssh.GetCA''"
abbreviation StoreSSHListCAs :: StoreOp where "StoreSSHListCAs \<equiv> ''ssh.ListCAs''"
abbreviation StoreSSHActiveCAKey :: StoreOp where "StoreSSHActiveCAKey \<equiv> ''ssh.ActiveCAKey''"
abbreviation StoreSSHRetireActiveCAKey :: StoreOp where "StoreSSHRetireActiveCAKey \<equiv> ''ssh.RetireActiveCAKey''"
abbreviation StoreSSHRetireCAKey :: StoreOp where "StoreSSHRetireCAKey \<equiv> ''ssh.RetireCAKey''"
abbreviation StoreSSHDeleteCA :: StoreOp where "StoreSSHDeleteCA \<equiv> ''ssh.DeleteCA''"
abbreviation StoreSSHCountLiveProfilesForCA :: StoreOp where "StoreSSHCountLiveProfilesForCA \<equiv> ''ssh.CountLiveProfilesForCA''"
abbreviation StoreSSHActiveKeyLastExpiry :: StoreOp where "StoreSSHActiveKeyLastExpiry \<equiv> ''ssh.ActiveKeyLastExpiry''"
abbreviation StoreSSHGetProfile :: StoreOp where "StoreSSHGetProfile \<equiv> ''ssh.GetProfile''"
abbreviation StoreSSHListProfiles :: StoreOp where "StoreSSHListProfiles \<equiv> ''ssh.ListProfiles''"
abbreviation StoreSSHCreateProfile :: StoreOp where "StoreSSHCreateProfile \<equiv> ''ssh.CreateProfile''"
abbreviation StoreSSHUpdateProfile :: StoreOp where "StoreSSHUpdateProfile \<equiv> ''ssh.UpdateProfile''"
abbreviation StoreSSHDeleteProfile :: StoreOp where "StoreSSHDeleteProfile \<equiv> ''ssh.DeleteProfile''"
abbreviation StoreSSHIsRequester :: StoreOp where "StoreSSHIsRequester \<equiv> ''ssh.IsRequester''"
abbreviation StoreSSHInsertCertificate :: StoreOp where "StoreSSHInsertCertificate \<equiv> ''ssh.InsertCertificate''"
abbreviation StoreSSHGetCertificate :: StoreOp where "StoreSSHGetCertificate \<equiv> ''ssh.GetCertificate''"
abbreviation StoreSSHListCertificates :: StoreOp where "StoreSSHListCertificates \<equiv> ''ssh.ListCertificates''"
abbreviation StoreSSHRevokeCertificate :: StoreOp where "StoreSSHRevokeCertificate \<equiv> ''ssh.RevokeCertificate''"
abbreviation StoreSSHRevokeProfileCertificates :: StoreOp where "StoreSSHRevokeProfileCertificates \<equiv> ''ssh.RevokeProfileCertificates''"
abbreviation StoreSSHRevokedSerials :: StoreOp where "StoreSSHRevokedSerials \<equiv> ''ssh.RevokedSerials''"
abbreviation StoreSSHListCAKeysForReencrypt :: StoreOp where "StoreSSHListCAKeysForReencrypt \<equiv> ''ssh.ListCAKeysForReencrypt''"
abbreviation StoreSSHReencryptCAKey :: StoreOp where "StoreSSHReencryptCAKey \<equiv> ''ssh.ReencryptCAKey''"
abbreviation StoreSSHPurgeEnvironment :: StoreOp where "StoreSSHPurgeEnvironment \<equiv> ''ssh.PurgeEnvironment''"
abbreviation StoreTransitKeysList :: StoreOp where "StoreTransitKeysList \<equiv> ''transit.ListKeys''"
abbreviation StoreTransitKeysGet :: StoreOp where "StoreTransitKeysGet \<equiv> ''transit.GetKey''"
abbreviation StoreTransitKeysGetForUse :: StoreOp where "StoreTransitKeysGetForUse \<equiv> ''transit.GetKeyForUse''"
abbreviation StoreTransitKeysCount :: StoreOp where "StoreTransitKeysCount \<equiv> ''transit.CountKeys''"
abbreviation StoreTransitKeysCreate :: StoreOp where "StoreTransitKeysCreate \<equiv> ''transit.CreateKey''"
abbreviation StoreTransitKeysConfigure :: StoreOp where "StoreTransitKeysConfigure \<equiv> ''transit.Configure''"
abbreviation StoreTransitKeysChangeState :: StoreOp where "StoreTransitKeysChangeState \<equiv> ''transit.ChangeState''"
abbreviation StoreTransitKeysCompromise :: StoreOp where "StoreTransitKeysCompromise \<equiv> ''transit.Compromise''"
abbreviation StoreTransitVersionsList :: StoreOp where "StoreTransitVersionsList \<equiv> ''transit.ListVersions''"
abbreviation StoreTransitVersionMaterial :: StoreOp where "StoreTransitVersionMaterial \<equiv> ''transit.VersionMaterial''"
abbreviation StoreTransitVersionsAppend :: StoreOp where "StoreTransitVersionsAppend \<equiv> ''transit.AppendVersion''"
abbreviation StoreTransitVersionsTrim :: StoreOp where "StoreTransitVersionsTrim \<equiv> ''transit.Trim''"
abbreviation StoreTransitVersionsFenceTrim :: StoreOp where "StoreTransitVersionsFenceTrim \<equiv> ''transit.FenceTrim''"
abbreviation StoreTransitVersionsListForReencrypt :: StoreOp where "StoreTransitVersionsListForReencrypt \<equiv> ''transit.ListVersionsForReencrypt''"
abbreviation StoreTransitVersionsReencrypt :: StoreOp where "StoreTransitVersionsReencrypt \<equiv> ''transit.ReencryptVersion''"
abbreviation StoreTransitCallersList :: StoreOp where "StoreTransitCallersList \<equiv> ''transit.ListCallers''"
abbreviation StoreTransitSelectDeletionDue :: StoreOp where "StoreTransitSelectDeletionDue \<equiv> ''transit.SelectDeletionDue''"
abbreviation StoreTransitSelectRotationDue :: StoreOp where "StoreTransitSelectRotationDue \<equiv> ''transit.SelectRotationDue''"
abbreviation StoreTransitDestroyVersions :: StoreOp where "StoreTransitDestroyVersions \<equiv> ''transit.DestroyVersions''"
abbreviation StoreTransitDestroy :: StoreOp where "StoreTransitDestroy \<equiv> ''transit.Destroy''"
abbreviation StorePKIIssuersList :: StoreOp where "StorePKIIssuersList \<equiv> ''pki.ListIssuers''"
abbreviation StorePKIIssuersGet :: StoreOp where "StorePKIIssuersGet \<equiv> ''pki.GetIssuer''"
abbreviation StorePKIIssuersKey :: StoreOp where "StorePKIIssuersKey \<equiv> ''pki.IssuerKey''"
abbreviation StorePKIIssuersCreate :: StoreOp where "StorePKIIssuersCreate \<equiv> ''pki.CreateIssuer''"
abbreviation StorePKIIssuersInstall :: StoreOp where "StorePKIIssuersInstall \<equiv> ''pki.InstallIssuerCertificate''"
abbreviation StorePKIIssuersTransition :: StoreOp where "StorePKIIssuersTransition \<equiv> ''pki.TransitionIssuer''"
abbreviation StorePKIIssuersDestroyKey :: StoreOp where "StorePKIIssuersDestroyKey \<equiv> ''pki.DestroyIssuerKey''"
abbreviation StorePKIIssuersHold :: StoreOp where "StorePKIIssuersHold \<equiv> ''pki.SetIssuerHold''"
abbreviation StorePKIIssuersPublishCRL :: StoreOp where "StorePKIIssuersPublishCRL \<equiv> ''pki.PublishCRL''"
abbreviation StorePKIIssuersPublic :: StoreOp where "StorePKIIssuersPublic \<equiv> ''pki.IssuerPublic''"
abbreviation StorePKIIssuersActivePublic :: StoreOp where "StorePKIIssuersActivePublic \<equiv> ''pki.ActiveIssuerPublic''"
abbreviation StorePKIIssuersSigning :: StoreOp where "StorePKIIssuersSigning \<equiv> ''pki.IssuerForSigning''"
abbreviation StorePKIIssuersFence :: StoreOp where "StorePKIIssuersFence \<equiv> ''pki.FenceIssuance''"
abbreviation StorePKIProfilesList :: StoreOp where "StorePKIProfilesList \<equiv> ''pki.ListProfiles''"
abbreviation StorePKIProfilesGet :: StoreOp where "StorePKIProfilesGet \<equiv> ''pki.GetProfile''"
abbreviation StorePKIProfilesCreate :: StoreOp where "StorePKIProfilesCreate \<equiv> ''pki.CreateProfile''"
abbreviation StorePKIProfilesUpdate :: StoreOp where "StorePKIProfilesUpdate \<equiv> ''pki.UpdateProfile''"
abbreviation StorePKIProfilesDelete :: StoreOp where "StorePKIProfilesDelete \<equiv> ''pki.DeleteProfile''"
abbreviation StorePKIProfilesBound :: StoreOp where "StorePKIProfilesBound \<equiv> ''pki.BoundProfile''"
abbreviation StorePKIProfilesBoundList :: StoreOp where "StorePKIProfilesBoundList \<equiv> ''pki.BoundProfiles''"
abbreviation StorePKIBindingsList :: StoreOp where "StorePKIBindingsList \<equiv> ''pki.ListBindings''"
abbreviation StorePKIBindingsCreate :: StoreOp where "StorePKIBindingsCreate \<equiv> ''pki.CreateBinding''"
abbreviation StorePKIBindingsDelete :: StoreOp where "StorePKIBindingsDelete \<equiv> ''pki.DeleteBinding''"
abbreviation StorePKICertificatesGet :: StoreOp where "StorePKICertificatesGet \<equiv> ''pki.GetCertificate''"
abbreviation StorePKICertificatesList :: StoreOp where "StorePKICertificatesList \<equiv> ''pki.ListCertificates''"
abbreviation StorePKICertificatesCreate :: StoreOp where "StorePKICertificatesCreate \<equiv> ''pki.CreateCertificate''"
abbreviation StorePKICertificatesFinish :: StoreOp where "StorePKICertificatesFinish \<equiv> ''pki.FinishCertificate''"
abbreviation StorePKICertificatesFail :: StoreOp where "StorePKICertificatesFail \<equiv> ''pki.FailCertificate''"
abbreviation StorePKICertificatesClaimRenewal :: StoreOp where "StorePKICertificatesClaimRenewal \<equiv> ''pki.ClaimRenewal''"
abbreviation StorePKICertificatesCompleteRenewal :: StoreOp where "StorePKICertificatesCompleteRenewal \<equiv> ''pki.CompleteRenewal''"
abbreviation StorePKICertificatesReleaseRenewal :: StoreOp where "StorePKICertificatesReleaseRenewal \<equiv> ''pki.ReleaseRenewal''"
abbreviation StorePKICertificatesRevoke :: StoreOp where "StorePKICertificatesRevoke \<equiv> ''pki.RevokeCertificate''"
abbreviation StorePKICertificatesCountLive :: StoreOp where "StorePKICertificatesCountLive \<equiv> ''pki.CountLiveCertificates''"
abbreviation StorePKICertificatesRevokeLive :: StoreOp where "StorePKICertificatesRevokeLive \<equiv> ''pki.RevokeLiveCertificates''"
abbreviation StorePKICertificatesRevokedEntries :: StoreOp where "StorePKICertificatesRevokedEntries \<equiv> ''pki.RevokedEntries''"
abbreviation StoreFoldersCreate :: StoreOp where "StoreFoldersCreate \<equiv> ''folders.Create''"
abbreviation StoreFoldersGet :: StoreOp where "StoreFoldersGet \<equiv> ''folders.Get''"
abbreviation StoreFoldersList :: StoreOp where "StoreFoldersList \<equiv> ''folders.List''"
abbreviation StoreFoldersRename :: StoreOp where "StoreFoldersRename \<equiv> ''folders.Rename''"
abbreviation StoreFoldersDelete :: StoreOp where "StoreFoldersDelete \<equiv> ''folders.Delete''"
abbreviation StoreValuesGet :: StoreOp where "StoreValuesGet \<equiv> ''values.Get''"
abbreviation StoreValuesList :: StoreOp where "StoreValuesList \<equiv> ''values.List''"
abbreviation StoreValuesEnvironmentsWithValue :: StoreOp where "StoreValuesEnvironmentsWithValue \<equiv> ''values.EnvironmentsWithValue''"
abbreviation StoreValuesPut :: StoreOp where "StoreValuesPut \<equiv> ''values.Put''"
abbreviation StoreValuesListForReencrypt :: StoreOp where "StoreValuesListForReencrypt \<equiv> ''values.ListForReencrypt''"
abbreviation StoreValuesReencrypt :: StoreOp where "StoreValuesReencrypt \<equiv> ''values.Reencrypt''"
abbreviation StoreValuesClear :: StoreOp where "StoreValuesClear \<equiv> ''values.Clear''"
abbreviation StoreValuesClearEnvironment :: StoreOp where "StoreValuesClearEnvironment \<equiv> ''values.ClearEnvironment''"
abbreviation StoreValuesCountEnvironment :: StoreOp where "StoreValuesCountEnvironment \<equiv> ''values.CountEnvironmentValues''"
abbreviation StoreValuesClearKey :: StoreOp where "StoreValuesClearKey \<equiv> ''values.ClearKey''"
abbreviation StorePendingListForOwner :: StoreOp where "StorePendingListForOwner \<equiv> ''pending.ListForOwner''"
abbreviation StorePendingListForOwnerInEnvironment :: StoreOp where "StorePendingListForOwnerInEnvironment \<equiv> ''pending.ListForOwnerInEnvironment''"
abbreviation StorePendingListForOwnerInEnvironmentPage :: StoreOp where "StorePendingListForOwnerInEnvironmentPage \<equiv> ''pending.ListForOwnerInEnvironmentPage''"
abbreviation StorePendingListMarkers :: StoreOp where "StorePendingListMarkers \<equiv> ''pending.ListMarkers''"
abbreviation StorePendingStage :: StoreOp where "StorePendingStage \<equiv> ''pending.Stage''"
abbreviation StorePendingListForReencrypt :: StoreOp where "StorePendingListForReencrypt \<equiv> ''pending.ListForReencrypt''"
abbreviation StorePendingReencrypt :: StoreOp where "StorePendingReencrypt \<equiv> ''pending.Reencrypt''"
abbreviation StorePendingDiscard :: StoreOp where "StorePendingDiscard \<equiv> ''pending.Discard''"
abbreviation StorePendingDiscardEnvironment :: StoreOp where "StorePendingDiscardEnvironment \<equiv> ''pending.DiscardEnvironment''"
abbreviation StorePendingDiscardKey :: StoreOp where "StorePendingDiscardKey \<equiv> ''pending.DiscardKey''"
abbreviation StorePendingCountForProjectExcludingCell :: StoreOp where "StorePendingCountForProjectExcludingCell \<equiv> ''pending.CountForProjectExcludingCell''"
abbreviation StoreSnapshotsLatest :: StoreOp where "StoreSnapshotsLatest \<equiv> ''snapshots.Latest''"
abbreviation StoreSnapshotsParameterContract :: StoreOp where "StoreSnapshotsParameterContract \<equiv> ''snapshots.ParameterContract''"
abbreviation StoreSnapshotsProjectRevisions :: StoreOp where "StoreSnapshotsProjectRevisions \<equiv> ''snapshots.ProjectRevisions''"
abbreviation StoreSnapshotsAtRevision :: StoreOp where "StoreSnapshotsAtRevision \<equiv> ''snapshots.AtRevision''"
abbreviation StoreSnapshotsList :: StoreOp where "StoreSnapshotsList \<equiv> ''snapshots.List''"
abbreviation StoreSnapshotsListPage :: StoreOp where "StoreSnapshotsListPage \<equiv> ''snapshots.ListPage''"
abbreviation StoreSnapshotsEntries :: StoreOp where "StoreSnapshotsEntries \<equiv> ''snapshots.Entries''"
abbreviation StoreSnapshotsListForReencrypt :: StoreOp where "StoreSnapshotsListForReencrypt \<equiv> ''snapshots.ListForReencrypt''"
abbreviation StoreSnapshotsReencrypt :: StoreOp where "StoreSnapshotsReencrypt \<equiv> ''snapshots.Reencrypt''"
abbreviation StoreSnapshotsChanges :: StoreOp where "StoreSnapshotsChanges \<equiv> ''snapshots.Changes''"
abbreviation StoreSnapshotsChangesInRange :: StoreOp where "StoreSnapshotsChangesInRange \<equiv> ''snapshots.ChangesInRange''"
abbreviation StoreSnapshotsInsert :: StoreOp where "StoreSnapshotsInsert \<equiv> ''snapshots.Insert''"
abbreviation StoreSnapshotsInsertEntry :: StoreOp where "StoreSnapshotsInsertEntry \<equiv> ''snapshots.InsertEntry''"
abbreviation StoreSnapshotsSecretValueOccurrenceIDsIn :: StoreOp where "StoreSnapshotsSecretValueOccurrenceIDsIn \<equiv> ''snapshots.SecretValueOccurrenceIDsIn''"
abbreviation StoreSnapshotsRecordSecretValueOccurrence :: StoreOp where "StoreSnapshotsRecordSecretValueOccurrence \<equiv> ''snapshots.RecordSecretValueOccurrence''"
abbreviation StoreSnapshotsInsertChange :: StoreOp where "StoreSnapshotsInsertChange \<equiv> ''snapshots.InsertChange''"
abbreviation StoreSnapshotsDeleteEnvironment :: StoreOp where "StoreSnapshotsDeleteEnvironment \<equiv> ''snapshots.DeleteEnvironment''"
abbreviation StorePinsGetForWorkload :: StoreOp where "StorePinsGetForWorkload \<equiv> ''pins.GetForWorkload''"
abbreviation StorePinsList :: StoreOp where "StorePinsList \<equiv> ''pins.List''"
abbreviation StorePinsCountProject :: StoreOp where "StorePinsCountProject \<equiv> ''pins.CountProject''"
abbreviation StorePinsInsert :: StoreOp where "StorePinsInsert \<equiv> ''pins.Insert''"
abbreviation StorePinsDelete :: StoreOp where "StorePinsDelete \<equiv> ''pins.Delete''"
abbreviation StorePinsDeleteEnvironment :: StoreOp where "StorePinsDeleteEnvironment \<equiv> ''pins.DeleteEnvironment''"
abbreviation StoreDeliveryTargetsGet :: StoreOp where "StoreDeliveryTargetsGet \<equiv> ''deliverytargets.Get''"
abbreviation StoreDeliveryTargetsList :: StoreOp where "StoreDeliveryTargetsList \<equiv> ''deliverytargets.List''"
abbreviation StoreDeliveryTargetsQuotaNotices :: StoreOp where "StoreDeliveryTargetsQuotaNotices \<equiv> ''deliverytargets.QuotaNotices''"
abbreviation StoreDeliveryTargetsLastFetch :: StoreOp where "StoreDeliveryTargetsLastFetch \<equiv> ''deliverytargets.LastFetchAt''"
abbreviation StoreDeliveryTargetsCountPrincipal :: StoreOp where "StoreDeliveryTargetsCountPrincipal \<equiv> ''deliverytargets.CountForPrincipal''"
abbreviation StoreDeliveryTargetsInsert :: StoreOp where "StoreDeliveryTargetsInsert \<equiv> ''deliverytargets.Insert''"
abbreviation StoreDeliveryTargetsUpdate :: StoreOp where "StoreDeliveryTargetsUpdate \<equiv> ''deliverytargets.Update''"
abbreviation StoreDeliveryTargetsRecordRefusal :: StoreOp where "StoreDeliveryTargetsRecordRefusal \<equiv> ''deliverytargets.RecordRefusal''"
abbreviation StoreDeliveryTargetsDelete :: StoreOp where "StoreDeliveryTargetsDelete \<equiv> ''deliverytargets.Delete''"
abbreviation StoreDeliveryTargetsRecordQuota :: StoreOp where "StoreDeliveryTargetsRecordQuota \<equiv> ''deliverytargets.RecordQuotaRefusal''"
abbreviation StoreDeliveryTargetsSelectExpired :: StoreOp where "StoreDeliveryTargetsSelectExpired \<equiv> ''deliverytargets.SelectExpired''"
abbreviation StoreDeliveryTargetsPurge :: StoreOp where "StoreDeliveryTargetsPurge \<equiv> ''deliverytargets.Purge''"
abbreviation StoreFileTargetsList :: StoreOp where "StoreFileTargetsList \<equiv> ''filetargets.List''"
abbreviation StoreFileTargetsGet :: StoreOp where "StoreFileTargetsGet \<equiv> ''filetargets.Get''"
abbreviation StoreFileTargetsKeys :: StoreOp where "StoreFileTargetsKeys \<equiv> ''filetargets.Keys''"
abbreviation StoreFileTargetsKeysForTargets :: StoreOp where "StoreFileTargetsKeysForTargets \<equiv> ''filetargets.KeysForTargets''"
abbreviation StoreFileTargetsForPrincipal :: StoreOp where "StoreFileTargetsForPrincipal \<equiv> ''filetargets.ForPrincipal''"
abbreviation StoreFileTargetsCreate :: StoreOp where "StoreFileTargetsCreate \<equiv> ''filetargets.Create''"
abbreviation StoreFileTargetsReplaceKeys :: StoreOp where "StoreFileTargetsReplaceKeys \<equiv> ''filetargets.ReplaceKeys''"
abbreviation StoreFileTargetsDelete :: StoreOp where "StoreFileTargetsDelete \<equiv> ''filetargets.Delete''"
abbreviation StoreFileTargetsRecordReport :: StoreOp where "StoreFileTargetsRecordReport \<equiv> ''filetargets.RecordReport''"
abbreviation StoreRetentionAuditPolicy :: StoreOp where "StoreRetentionAuditPolicy \<equiv> ''retention.AuditPolicy''"
abbreviation StoreRetentionSetAuditPolicy :: StoreOp where "StoreRetentionSetAuditPolicy \<equiv> ''retention.SetAuditPolicy''"
abbreviation StoreRetentionPruneAudit :: StoreOp where "StoreRetentionPruneAudit \<equiv> ''retention.PruneAudit''"
abbreviation StoreRetentionEligible :: StoreOp where "StoreRetentionEligible \<equiv> ''retention.Eligible''"
abbreviation StoreRetentionSnapshotLock :: StoreOp where "StoreRetentionSnapshotLock \<equiv> ''retention.LockSnapshot''"
abbreviation StoreRetentionMarkCollected :: StoreOp where "StoreRetentionMarkCollected \<equiv> ''retention.MarkCollected''"
abbreviation StoreRetentionDeleteEntries :: StoreOp where "StoreRetentionDeleteEntries \<equiv> ''retention.DeleteCollectedEntries''"
abbreviation StoreRetentionLastSuccess :: StoreOp where "StoreRetentionLastSuccess \<equiv> ''retention.LastPruneSuccess''"
abbreviation StoreRetentionSetLastSuccess :: StoreOp where "StoreRetentionSetLastSuccess \<equiv> ''retention.SetLastPruneSuccess''"
abbreviation StoreOpsDiagnosticsRead :: StoreOp where "StoreOpsDiagnosticsRead \<equiv> ''retention.Diagnostics''"
abbreviation StoreEscrowVerificationWrite :: StoreOp where "StoreEscrowVerificationWrite \<equiv> ''retention.RecordEscrow''"
abbreviation StoreReencryptSuccessWrite :: StoreOp where "StoreReencryptSuccessWrite \<equiv> ''retention.RecordReencryptSuccess''"
abbreviation StoreBackupStateGet :: StoreOp where "StoreBackupStateGet \<equiv> ''backupstate.Get''"
abbreviation StoreBackupStateSetExportSuccess :: StoreOp where "StoreBackupStateSetExportSuccess \<equiv> ''backupstate.SetExportSuccess''"
abbreviation StoreBackupStateSetExportFailure :: StoreOp where "StoreBackupStateSetExportFailure \<equiv> ''backupstate.SetExportFailure''"
abbreviation StoreBackupStateSetPruneResult :: StoreOp where "StoreBackupStateSetPruneResult \<equiv> ''backupstate.SetPruneResult''"
abbreviation StoreBackupStateSetDrill :: StoreOp where "StoreBackupStateSetDrill \<equiv> ''backupstate.SetDrill''"
abbreviation StoreValuesSampleSecretEntry :: StoreOp where "StoreValuesSampleSecretEntry \<equiv> ''values.SampleSecretEntry''"
abbreviation StoreValuesPayloadBytesForProject :: StoreOp where "StoreValuesPayloadBytesForProject \<equiv> ''values.PayloadBytesForProject''"
abbreviation StoreSnapshotsPayloadBytesForProject :: StoreOp where "StoreSnapshotsPayloadBytesForProject \<equiv> ''snapshots.PayloadBytesForProject''"
abbreviation StoreValuesInstancePayloadByProject :: StoreOp where "StoreValuesInstancePayloadByProject \<equiv> ''values.InstancePayloadByProject''"
abbreviation StoreSnapshotsInstancePayloadByProject :: StoreOp where "StoreSnapshotsInstancePayloadByProject \<equiv> ''snapshots.InstancePayloadByProject''"
abbreviation StoreKeysActiveMasterWrappers :: StoreOp where "StoreKeysActiveMasterWrappers \<equiv> ''keys.ActiveMasterWrappers''"
abbreviation StoreKeysActiveTier3 :: StoreOp where "StoreKeysActiveTier3 \<equiv> ''keys.ActiveTier3''"
abbreviation StoreKeysActiveTokenKeyForReceipt :: StoreOp where "StoreKeysActiveTokenKeyForReceipt \<equiv> ''keys.ActiveTokenKeyForReceipt''"
abbreviation StoreKeysTier3Versions :: StoreOp where "StoreKeysTier3Versions \<equiv> ''keys.Tier3Versions''"
abbreviation StoreKeysAllOpenableTier3 :: StoreOp where "StoreKeysAllOpenableTier3 \<equiv> ''keys.AllOpenableTier3''"
abbreviation StoreKeysAssertActiveDEKVersion :: StoreOp where "StoreKeysAssertActiveDEKVersion \<equiv> ''keys.AssertActiveDEKVersion''"
abbreviation StoreKeysAcquireHierarchyGeneration :: StoreOp where "StoreKeysAcquireHierarchyGeneration \<equiv> ''keys.AcquireHierarchyGeneration''"
abbreviation StoreKeysInsertMaster :: StoreOp where "StoreKeysInsertMaster \<equiv> ''keys.InsertMaster''"
abbreviation StoreKeysInsertTier3 :: StoreOp where "StoreKeysInsertTier3 \<equiv> ''keys.InsertTier3''"
abbreviation StoreKeysRotateTokenKey :: StoreOp where "StoreKeysRotateTokenKey \<equiv> ''keys.RotateTokenKey''"
abbreviation StoreKeysRotateScanningKey :: StoreOp where "StoreKeysRotateScanningKey \<equiv> ''keys.RotateScanningKey''"
abbreviation StoreKeysRotateDEK :: StoreOp where "StoreKeysRotateDEK \<equiv> ''keys.RotateDEK''"
abbreviation StoreKeysRotateMasterKey :: StoreOp where "StoreKeysRotateMasterKey \<equiv> ''keys.RotateMasterKey''"
abbreviation StoreKeysRetireRetiringTier3 :: StoreOp where "StoreKeysRetireRetiringTier3 \<equiv> ''keys.RetireRetiringTier3''"
abbreviation StoreReencryptListPasswordCreds :: StoreOp where "StoreReencryptListPasswordCreds \<equiv> ''reencrypt.ListPasswordCredsForReencrypt''"
abbreviation StoreReencryptPasswordCred :: StoreOp where "StoreReencryptPasswordCred \<equiv> ''reencrypt.ReencryptPasswordCred''"
abbreviation StoreReencryptListTotpCreds :: StoreOp where "StoreReencryptListTotpCreds \<equiv> ''reencrypt.ListTotpCredsForReencrypt''"
abbreviation StoreReencryptTotpCred :: StoreOp where "StoreReencryptTotpCred \<equiv> ''reencrypt.ReencryptTotpCred''"
abbreviation StoreReencryptListRecoveryCodes :: StoreOp where "StoreReencryptListRecoveryCodes \<equiv> ''reencrypt.ListRecoveryCodesForReencrypt''"
abbreviation StoreReencryptRecoveryCodes :: StoreOp where "StoreReencryptRecoveryCodes \<equiv> ''reencrypt.ReencryptRecoveryCodes''"
abbreviation StoreReencryptListOidcProviders :: StoreOp where "StoreReencryptListOidcProviders \<equiv> ''reencrypt.ListOidcProvidersForReencrypt''"
abbreviation StoreReencryptOidcProvider :: StoreOp where "StoreReencryptOidcProvider \<equiv> ''reencrypt.ReencryptOidcProvider''"
abbreviation StoreReencryptListOauth2Providers :: StoreOp where "StoreReencryptListOauth2Providers \<equiv> ''reencrypt.ListOauth2ProvidersForReencrypt''"
abbreviation StoreReencryptOauth2Provider :: StoreOp where "StoreReencryptOauth2Provider \<equiv> ''reencrypt.ReencryptOauth2Provider''"
abbreviation StoreReencryptListSelfConfigSeedInputs :: StoreOp where "StoreReencryptListSelfConfigSeedInputs \<equiv> ''reencrypt.ListSelfConfigSeedInputsForReencrypt''"
abbreviation StoreReencryptSelfConfigSeedInput :: StoreOp where "StoreReencryptSelfConfigSeedInput \<equiv> ''reencrypt.ReencryptSelfConfigSeedInput''"
abbreviation StoreReencryptListSamlKeys :: StoreOp where "StoreReencryptListSamlKeys \<equiv> ''reencrypt.ListSamlKeysForReencrypt''"
abbreviation StoreReencryptSamlKey :: StoreOp where "StoreReencryptSamlKey \<equiv> ''reencrypt.ReencryptSamlKey''"
abbreviation StoreReencryptListPairingInvites :: StoreOp where "StoreReencryptListPairingInvites \<equiv> ''reencrypt.ListPairingInvitesForReencrypt''"
abbreviation StoreReencryptPairingInvites :: StoreOp where "StoreReencryptPairingInvites \<equiv> ''reencrypt.ReencryptPairingInvites''"
abbreviation StoreReencryptListPairingExchanges :: StoreOp where "StoreReencryptListPairingExchanges \<equiv> ''reencrypt.ListPairingExchangesForReencrypt''"
abbreviation StoreReencryptPairingExchanges :: StoreOp where "StoreReencryptPairingExchanges \<equiv> ''reencrypt.ReencryptPairingExchanges''"
abbreviation StoreReencryptListRemotes :: StoreOp where "StoreReencryptListRemotes \<equiv> ''reencrypt.ListRemotesForReencrypt''"
abbreviation StoreReencryptRemote :: StoreOp where "StoreReencryptRemote \<equiv> ''reencrypt.ReencryptRemote''"
abbreviation StoreReencryptListPkiIssuers :: StoreOp where "StoreReencryptListPkiIssuers \<equiv> ''reencrypt.ListPkiIssuersForReencrypt''"
abbreviation StoreReencryptPkiIssuer :: StoreOp where "StoreReencryptPkiIssuer \<equiv> ''reencrypt.ReencryptPkiIssuer''"
abbreviation StoreKeysAssertRootKeyEpoch :: StoreOp where "StoreKeysAssertRootKeyEpoch \<equiv> ''keys.AssertRootKeyEpoch''"
abbreviation StoreKeysRootRotatePrepare :: StoreOp where "StoreKeysRootRotatePrepare \<equiv> ''keys.RootKeyRotatePrepare''"
abbreviation StoreKeysRootRotateFinalize :: StoreOp where "StoreKeysRootRotateFinalize \<equiv> ''keys.RootKeyRotateFinalize''"
abbreviation StoreKeysInsertScopeGeneration :: StoreOp where "StoreKeysInsertScopeGeneration \<equiv> ''keys.InsertScopeGeneration''"
abbreviation StoreScanningDismissalsInsert :: StoreOp where "StoreScanningDismissalsInsert \<equiv> ''scanningdismissals.Insert''"
abbreviation StoreScanningDismissalsExists :: StoreOp where "StoreScanningDismissalsExists \<equiv> ''scanningdismissals.Exists''"
abbreviation StoreScanningDismissalsDeleteByKey :: StoreOp where "StoreScanningDismissalsDeleteByKey \<equiv> ''scanningdismissals.DeleteByKey''"
abbreviation StoreScanningDismissalsDeleteByProject :: StoreOp where "StoreScanningDismissalsDeleteByProject \<equiv> ''scanningdismissals.DeleteByProject''"
abbreviation StoreScanningDismissalsDeleteAll :: StoreOp where "StoreScanningDismissalsDeleteAll \<equiv> ''scanningdismissals.DeleteAll''"
abbreviation StoreApprovalPolicyInsert :: StoreOp where "StoreApprovalPolicyInsert \<equiv> ''approvals.InsertPolicy''"
abbreviation StoreApprovalPolicyGet :: StoreOp where "StoreApprovalPolicyGet \<equiv> ''approvals.GetPolicy''"
abbreviation StoreApprovalPolicyCovering :: StoreOp where "StoreApprovalPolicyCovering \<equiv> ''approvals.CoveringPolicy''"
abbreviation StoreApprovalPolicyList :: StoreOp where "StoreApprovalPolicyList \<equiv> ''approvals.ListPolicies''"
abbreviation StoreApprovalPolicyUpdate :: StoreOp where "StoreApprovalPolicyUpdate \<equiv> ''approvals.UpdatePolicy''"
abbreviation StoreApprovalPolicyDelete :: StoreOp where "StoreApprovalPolicyDelete \<equiv> ''approvals.DeletePolicy''"
abbreviation StoreApprovalApproverInsert :: StoreOp where "StoreApprovalApproverInsert \<equiv> ''approvals.InsertApprover''"
abbreviation StoreApprovalApproverList :: StoreOp where "StoreApprovalApproverList \<equiv> ''approvals.ListApprovers''"
abbreviation StoreApprovalApproverClear :: StoreOp where "StoreApprovalApproverClear \<equiv> ''approvals.ClearApprovers''"
abbreviation StoreApprovalBypasserInsert :: StoreOp where "StoreApprovalBypasserInsert \<equiv> ''approvals.InsertBypasser''"
abbreviation StoreApprovalBypasserList :: StoreOp where "StoreApprovalBypasserList \<equiv> ''approvals.ListBypassers''"
abbreviation StoreApprovalBypasserClear :: StoreOp where "StoreApprovalBypasserClear \<equiv> ''approvals.ClearBypassers''"
abbreviation StoreApprovalBypasserGet :: StoreOp where "StoreApprovalBypasserGet \<equiv> ''approvals.IsBypasser''"
abbreviation StoreApprovalRequestInsert :: StoreOp where "StoreApprovalRequestInsert \<equiv> ''approvals.InsertRequest''"
abbreviation StoreApprovalRequestGet :: StoreOp where "StoreApprovalRequestGet \<equiv> ''approvals.GetRequest''"
abbreviation StoreApprovalRequestList :: StoreOp where "StoreApprovalRequestList \<equiv> ''approvals.ListRequests''"
abbreviation StoreApprovalRequestUpdateState :: StoreOp where "StoreApprovalRequestUpdateState \<equiv> ''approvals.UpdateRequestState''"
abbreviation StoreApprovalRequestSelectExpiry :: StoreOp where "StoreApprovalRequestSelectExpiry \<equiv> ''approvals.SelectExpired''"
abbreviation StoreApprovalRequestMarkExpired :: StoreOp where "StoreApprovalRequestMarkExpired \<equiv> ''approvals.MarkExpired''"
abbreviation StoreApprovalRequestCounts :: StoreOp where "StoreApprovalRequestCounts \<equiv> ''approvals.OperationalCounts''"
abbreviation StoreApprovalVoteInsert :: StoreOp where "StoreApprovalVoteInsert \<equiv> ''approvals.InsertVote''"
abbreviation StoreApprovalVoteGet :: StoreOp where "StoreApprovalVoteGet \<equiv> ''approvals.GetVote''"
abbreviation StoreApprovalVoteList :: StoreOp where "StoreApprovalVoteList \<equiv> ''approvals.ListVotes''"
abbreviation StoreAccessPolicyInsert :: StoreOp where "StoreAccessPolicyInsert \<equiv> ''access.InsertPolicy''"
abbreviation StoreAccessPolicyGet :: StoreOp where "StoreAccessPolicyGet \<equiv> ''access.GetPolicy''"
abbreviation StoreAccessPolicyCovering :: StoreOp where "StoreAccessPolicyCovering \<equiv> ''access.CoveringPolicy''"
abbreviation StoreAccessPolicyList :: StoreOp where "StoreAccessPolicyList \<equiv> ''access.ListPolicies''"
abbreviation StoreAccessPolicyUpdate :: StoreOp where "StoreAccessPolicyUpdate \<equiv> ''access.UpdatePolicy''"
abbreviation StoreAccessPolicyDelete :: StoreOp where "StoreAccessPolicyDelete \<equiv> ''access.DeletePolicy''"
abbreviation StoreAccessApproverInsert :: StoreOp where "StoreAccessApproverInsert \<equiv> ''access.InsertApprover''"
abbreviation StoreAccessApproverList :: StoreOp where "StoreAccessApproverList \<equiv> ''access.ListApprovers''"
abbreviation StoreAccessApproverClear :: StoreOp where "StoreAccessApproverClear \<equiv> ''access.ClearApprovers''"
abbreviation StoreAccessBypasserInsert :: StoreOp where "StoreAccessBypasserInsert \<equiv> ''access.InsertBypasser''"
abbreviation StoreAccessBypasserList :: StoreOp where "StoreAccessBypasserList \<equiv> ''access.ListBypassers''"
abbreviation StoreAccessBypasserClear :: StoreOp where "StoreAccessBypasserClear \<equiv> ''access.ClearBypassers''"
abbreviation StoreAccessBypasserGet :: StoreOp where "StoreAccessBypasserGet \<equiv> ''access.IsBypasser''"
abbreviation StoreAccessRequestInsert :: StoreOp where "StoreAccessRequestInsert \<equiv> ''access.InsertRequest''"
abbreviation StoreAccessRequestGet :: StoreOp where "StoreAccessRequestGet \<equiv> ''access.GetRequest''"
abbreviation StoreAccessRequestList :: StoreOp where "StoreAccessRequestList \<equiv> ''access.ListRequests''"
abbreviation StoreAccessRequestGrant :: StoreOp where "StoreAccessRequestGrant \<equiv> ''access.GrantRequest''"
abbreviation StoreAccessRequestResolve :: StoreOp where "StoreAccessRequestResolve \<equiv> ''access.ResolveRequest''"
abbreviation StoreAccessRequestSelectDue :: StoreOp where "StoreAccessRequestSelectDue \<equiv> ''access.SelectDue''"
abbreviation StoreAccessRequestMarkExpired :: StoreOp where "StoreAccessRequestMarkExpired \<equiv> ''access.MarkExpired''"
abbreviation StoreAccessRequestCounts :: StoreOp where "StoreAccessRequestCounts \<equiv> ''access.OperationalCounts''"
abbreviation StoreAccessVoteInsert :: StoreOp where "StoreAccessVoteInsert \<equiv> ''access.InsertVote''"
abbreviation StoreAccessVoteGet :: StoreOp where "StoreAccessVoteGet \<equiv> ''access.GetVote''"
abbreviation StoreAccessVoteList :: StoreOp where "StoreAccessVoteList \<equiv> ''access.ListVotes''"
abbreviation StoreRemotesCreate :: StoreOp where "StoreRemotesCreate \<equiv> ''remotes.Create''"
abbreviation StoreRemotesList :: StoreOp where "StoreRemotesList \<equiv> ''remotes.List''"
abbreviation StoreRemotesGet :: StoreOp where "StoreRemotesGet \<equiv> ''remotes.Get''"
abbreviation StoreRemotesGetByName :: StoreOp where "StoreRemotesGetByName \<equiv> ''remotes.GetByName''"
abbreviation StoreRemotesCount :: StoreOp where "StoreRemotesCount \<equiv> ''remotes.Count''"
abbreviation StoreRemotesRename :: StoreOp where "StoreRemotesRename \<equiv> ''remotes.Rename''"
abbreviation StoreRemotesDelete :: StoreOp where "StoreRemotesDelete \<equiv> ''remotes.Delete''"
abbreviation StoreRemotesSealed :: StoreOp where "StoreRemotesSealed \<equiv> ''remotes.SealedCredential''"
abbreviation StoreRemoteSnapshotsList :: StoreOp where "StoreRemoteSnapshotsList \<equiv> ''remotes.Snapshots''"
abbreviation StoreRemoteSnapshotsGet :: StoreOp where "StoreRemoteSnapshotsGet \<equiv> ''remotes.Snapshot''"
abbreviation StoreRemoteSnapshotsWrite :: StoreOp where "StoreRemoteSnapshotsWrite \<equiv> ''remotes.WriteSnapshot''"
abbreviation StoreRemoteSnapshotsFail :: StoreOp where "StoreRemoteSnapshotsFail \<equiv> ''remotes.RecordFetchFailure''"
abbreviation StoreAuditTenantInsert :: StoreOp where "StoreAuditTenantInsert \<equiv> ''audit.InsertTenant''"
abbreviation StoreAuditInstanceInsert :: StoreOp where "StoreAuditInstanceInsert \<equiv> ''audit.InsertInstance''"
abbreviation StoreAuditClaimOfflineRecord :: StoreOp where "StoreAuditClaimOfflineRecord \<equiv> ''audit.ClaimOfflineRecord''"
abbreviation StoreAuditTenantPage :: StoreOp where "StoreAuditTenantPage \<equiv> ''audit.PageTenant''"
abbreviation StoreAuditInstancePage :: StoreOp where "StoreAuditInstancePage \<equiv> ''audit.PageInstance''"
abbreviation StoreAuditTenantMaxSeq :: StoreOp where "StoreAuditTenantMaxSeq \<equiv> ''audit.MaxTenantSeq''"
abbreviation StoreAuditInstanceMaxSeq :: StoreOp where "StoreAuditInstanceMaxSeq \<equiv> ''audit.MaxInstanceSeq''"
abbreviation StoreSCIMLockBinding :: StoreOp where "StoreSCIMLockBinding \<equiv> ''scim.LockBinding''"
abbreviation StoreSCIMCreateCredential :: StoreOp where "StoreSCIMCreateCredential \<equiv> ''scim.CreateCredential''"
abbreviation StoreSCIMCredential :: StoreOp where "StoreSCIMCredential \<equiv> ''scim.Credential''"
abbreviation StoreSCIMCredentials :: StoreOp where "StoreSCIMCredentials \<equiv> ''scim.Credentials''"
abbreviation StoreSCIMRevokeCredential :: StoreOp where "StoreSCIMRevokeCredential \<equiv> ''scim.RevokeCredential''"
abbreviation StoreSCIMRevokeCredentialsForBinding :: StoreOp where "StoreSCIMRevokeCredentialsForBinding \<equiv> ''scim.RevokeCredentialsForBinding''"
abbreviation StoreSCIMDeleteCredentialsForBinding :: StoreOp where "StoreSCIMDeleteCredentialsForBinding \<equiv> ''scim.DeleteCredentialsForBinding''"
abbreviation StoreSCIMCreateBinding :: StoreOp where "StoreSCIMCreateBinding \<equiv> ''scim.CreateBinding''"
abbreviation StoreSCIMBinding :: StoreOp where "StoreSCIMBinding \<equiv> ''scim.Binding''"
abbreviation StoreSCIMBindings :: StoreOp where "StoreSCIMBindings \<equiv> ''scim.Bindings''"
abbreviation StoreSCIMTouchBinding :: StoreOp where "StoreSCIMTouchBinding \<equiv> ''scim.TouchBinding''"
abbreviation StoreSCIMDeleteBinding :: StoreOp where "StoreSCIMDeleteBinding \<equiv> ''scim.DeleteBinding''"
abbreviation StoreSCIMRetireConnection :: StoreOp where "StoreSCIMRetireConnection \<equiv> ''scim.RetireConnectionPrincipal''"
abbreviation StoreSCIMCreateMapping :: StoreOp where "StoreSCIMCreateMapping \<equiv> ''scim.CreateMapping''"
abbreviation StoreSCIMMapping :: StoreOp where "StoreSCIMMapping \<equiv> ''scim.Mapping''"
abbreviation StoreSCIMMappings :: StoreOp where "StoreSCIMMappings \<equiv> ''scim.Mappings''"
abbreviation StoreSCIMMappingsForGroup :: StoreOp where "StoreSCIMMappingsForGroup \<equiv> ''scim.MappingsForGroup''"
abbreviation StoreSCIMSetMappingInert :: StoreOp where "StoreSCIMSetMappingInert \<equiv> ''scim.SetMappingInert''"
abbreviation StoreSCIMUpdateMappingTemplate :: StoreOp where "StoreSCIMUpdateMappingTemplate \<equiv> ''scim.UpdateMappingTemplate''"
abbreviation StoreSCIMDeleteMapping :: StoreOp where "StoreSCIMDeleteMapping \<equiv> ''scim.DeleteMapping''"
abbreviation StoreSCIMDeleteMappingsForBinding :: StoreOp where "StoreSCIMDeleteMappingsForBinding \<equiv> ''scim.DeleteMappingsForBinding''"
abbreviation StoreSCIMCreateUser :: StoreOp where "StoreSCIMCreateUser \<equiv> ''scim.CreateUser''"
abbreviation StoreSCIMUser :: StoreOp where "StoreSCIMUser \<equiv> ''scim.User''"
abbreviation StoreSCIMUserByUserName :: StoreOp where "StoreSCIMUserByUserName \<equiv> ''scim.UserByUserName''"
abbreviation StoreSCIMPageUsers :: StoreOp where "StoreSCIMPageUsers \<equiv> ''scim.PageUsers''"
abbreviation StoreSCIMUserBySubject :: StoreOp where "StoreSCIMUserBySubject \<equiv> ''scim.UserBySubject''"
abbreviation StoreSCIMUserByAccount :: StoreOp where "StoreSCIMUserByAccount \<equiv> ''scim.UserByAccount''"
abbreviation StoreSCIMUsers :: StoreOp where "StoreSCIMUsers \<equiv> ''scim.Users''"
abbreviation StoreSCIMUpdateUser :: StoreOp where "StoreSCIMUpdateUser \<equiv> ''scim.UpdateUser''"
abbreviation StoreSCIMDeleteUser :: StoreOp where "StoreSCIMDeleteUser \<equiv> ''scim.DeleteUser''"
abbreviation StoreSCIMDeleteUsersForBinding :: StoreOp where "StoreSCIMDeleteUsersForBinding \<equiv> ''scim.DeleteUsersForBinding''"
abbreviation StoreSCIMCreateGroup :: StoreOp where "StoreSCIMCreateGroup \<equiv> ''scim.CreateGroup''"
abbreviation StoreSCIMGroup :: StoreOp where "StoreSCIMGroup \<equiv> ''scim.Group''"
abbreviation StoreSCIMPageGroups :: StoreOp where "StoreSCIMPageGroups \<equiv> ''scim.PageGroups''"
abbreviation StoreSCIMGroups :: StoreOp where "StoreSCIMGroups \<equiv> ''scim.Groups''"
abbreviation StoreSCIMUpdateGroup :: StoreOp where "StoreSCIMUpdateGroup \<equiv> ''scim.UpdateGroup''"
abbreviation StoreSCIMDeleteGroup :: StoreOp where "StoreSCIMDeleteGroup \<equiv> ''scim.DeleteGroup''"
abbreviation StoreSCIMDeleteGroupsForBinding :: StoreOp where "StoreSCIMDeleteGroupsForBinding \<equiv> ''scim.DeleteGroupsForBinding''"
abbreviation StoreSCIMAddGroupMember :: StoreOp where "StoreSCIMAddGroupMember \<equiv> ''scim.AddGroupMember''"
abbreviation StoreSCIMGroupMembers :: StoreOp where "StoreSCIMGroupMembers \<equiv> ''scim.GroupMembers''"
abbreviation StoreSCIMMembershipsForUser :: StoreOp where "StoreSCIMMembershipsForUser \<equiv> ''scim.MembershipsForUser''"
abbreviation StoreSCIMRemoveGroupMember :: StoreOp where "StoreSCIMRemoveGroupMember \<equiv> ''scim.RemoveGroupMember''"
abbreviation StoreSCIMClearGroupMembers :: StoreOp where "StoreSCIMClearGroupMembers \<equiv> ''scim.ClearGroupMembers''"
abbreviation StoreSCIMRemoveMembershipsForUser :: StoreOp where "StoreSCIMRemoveMembershipsForUser \<equiv> ''scim.RemoveMembershipsForUser''"
abbreviation StoreSCIMDeleteGroupMembersForBinding :: StoreOp where "StoreSCIMDeleteGroupMembersForBinding \<equiv> ''scim.DeleteGroupMembersForBinding''"
abbreviation StoreSCIMEnterAttention :: StoreOp where "StoreSCIMEnterAttention \<equiv> ''scim.EnterAttention''"
abbreviation StoreSCIMAttention :: StoreOp where "StoreSCIMAttention \<equiv> ''scim.Attention''"
abbreviation StoreSCIMClearAttention :: StoreOp where "StoreSCIMClearAttention \<equiv> ''scim.ClearAttention''"
abbreviation StoreSCIMDeleteAttentionForBinding :: StoreOp where "StoreSCIMDeleteAttentionForBinding \<equiv> ''scim.DeleteAttentionForBinding''"


section \<open>System sites\<close>

abbreviation SiteSelfConfigSeed :: SystemSite where "SiteSelfConfigSeed \<equiv> ''self-config-seed''"
abbreviation SiteSelfConfigRecovery :: SystemSite where "SiteSelfConfigRecovery \<equiv> ''self-config-recovery''"
abbreviation SiteSelfConfigRuntime :: SystemSite where "SiteSelfConfigRuntime \<equiv> ''self-config-runtime''"
abbreviation SiteEscrow :: SystemSite where "SiteEscrow \<equiv> ''local-escrow-verification''"
abbreviation SiteBoot :: SystemSite where "SiteBoot \<equiv> ''boot''"
abbreviation SiteMigration :: SystemSite where "SiteMigration \<equiv> ''migration''"
abbreviation SiteRecoveryReconcile :: SystemSite where "SiteRecoveryReconcile \<equiv> ''recovery-mode-reconciliation''"
abbreviation SiteBreakGlass :: SystemSite where "SiteBreakGlass \<equiv> ''break-glass''"
abbreviation SiteScheduler :: SystemSite where "SiteScheduler \<equiv> ''scheduler''"


section \<open>Pinned sets\<close>

text \<open>Sets of store operations are the keys of the \<^verbatim>\<open>map[StoreOp]bool\<close> literals, all \<^verbatim>\<open>true\<close>.\<close>

definition readOnlyStoreOps1 :: "StoreOp list" where
  "readOnlyStoreOps1 =
    [StoreOrgsGet, StoreOrgsList, StoreOrgsCount, StoreDynamicLeasesGet, StoreDynamicLeasesList, StoreSSHGetCA,
       StoreSSHListCAs, StoreSSHRevokedSerials, StoreSSHGetProfile, StoreSSHListProfiles,
       StoreSSHGetCertificate, StoreSSHListCertificates, StoreTransitKeysList, StoreTransitKeysGet,
       StoreTransitVersionsList, StoreTransitCallersList, StoreProjectsGet, StoreProjectsGetCapacity,
       StoreProjectsList, StoreProjectsListAll, StorePKIIssuersList, StorePKIIssuersGet, StorePKIIssuersPublic,
       StorePKIIssuersActivePublic, StorePKIProfilesList, StorePKIProfilesGet, StorePKIProfilesBound,
       StorePKIProfilesBoundList, StorePKIBindingsList, StorePKICertificatesGet, StorePKICertificatesList,
       StorePKICertificatesCountLive, StorePKICertificatesRevokedEntries, StoreDefinitionsLatestAppliedPlan,
       StoreRemotesList, StoreRemotesGet, StoreRemotesGetByName, StoreRemotesCount, StoreRemoteSnapshotsList,
       StoreRemoteSnapshotsGet, StoreEnvironmentsGet, StoreEnvironmentParametersGet, StoreEnvironmentsList,
       StoreEnvironmentsListPage, StoreEnvironmentsCount, StoreEnvironmentsNextOrder, StoreFoldersGet,
       StoreFoldersList, StoreEnvironmentsGetSettings, StoreCatalogueGet, StoreCatalogueList,
       StoreCatalogueListPage, StoreCatalogueGetInProject, StoreCataloguePresenceForKey, StoreCatalogueCount,
       StoreAdaptersTarget, StoreAdaptersGet, StoreAdaptersConfiguration, StoreAdaptersList,
       StoreAdaptersListTargets, StoreAdaptersTargetKeyIDs, StoreAdaptersTargetKeys, StoreAdaptersHealthCounts,
       StoreAdaptersMapping, StoreAdaptersPlanMaterial, StoreAdaptersTargetEnvironments,
       StoreAdaptersEnvironments, StoreAdaptersConflicts, StoreAdaptersMove, StoreCatalogueGroupGet,
       StoreCatalogueGroupList, StoreCatalogueGroupCount, StoreCataloguePresenceList, StoreCatalogueRevisionGet,
       StoreKeysActiveMasterWrappers, StoreKeysActiveTier3, StoreKeysActiveTokenKeyForReceipt,
       StoreKeysTier3Versions, StoreKeysAllOpenableTier3]"

definition readOnlyStoreOps2 :: "StoreOp list" where
  "readOnlyStoreOps2 =
    [StoreKeysAssertActiveDEKVersion, StoreValuesListForReencrypt, StoreSnapshotsListForReencrypt,
       StorePendingListForReencrypt, StoreAdaptersListForReencrypt, StoreAdaptersListMovesForReencrypt,
       StoreReencryptListPasswordCreds, StoreReencryptListTotpCreds, StoreReencryptListRecoveryCodes,
       StoreReencryptListOidcProviders, StoreReencryptListOauth2Providers, StoreReencryptListSamlKeys,
       StoreReencryptListPairingInvites, StoreReencryptListPairingExchanges, StoreReencryptListRemotes,
       StoreReencryptListPkiIssuers, StoreAuditTenantPage, StoreAuditInstancePage, StoreAuditTenantMaxSeq,
       StoreAuditInstanceMaxSeq, StoreValuesGet, StoreValuesList, StoreValuesEnvironmentsWithValue,
       StorePendingListForOwner, StorePendingListForOwnerInEnvironment,
       StorePendingListForOwnerInEnvironmentPage, StorePendingListMarkers,
       StorePendingCountForProjectExcludingCell, StoreValuesPayloadBytesForProject,
       StoreSnapshotsPayloadBytesForProject, StoreValuesInstancePayloadByProject,
       StoreSnapshotsInstancePayloadByProject, StoreValuesSampleSecretEntry, StoreBackupStateGet,
       StoreSnapshotsLatest, StoreSnapshotsAtRevision, StoreSnapshotsList, StoreSnapshotsListPage,
       StoreSnapshotsEntries, StoreSnapshotsParameterContract, StoreSnapshotsSecretValueOccurrenceIDsIn,
       StoreSnapshotsChanges, StoreSnapshotsChangesInRange, StorePinsGetForWorkload, StorePinsList,
       StoreDeliveryTargetsGet, StoreDeliveryTargetsList, StoreDeliveryTargetsQuotaNotices,
       StoreDeliveryTargetsLastFetch, StoreDeliveryTargetsCountPrincipal, StoreFileTargetsList,
       StoreFileTargetsGet, StoreFileTargetsKeys, StoreFileTargetsKeysForTargets, StoreFileTargetsForPrincipal,
       StoreApprovalPolicyGet, StoreApprovalPolicyList, StoreApprovalPolicyCovering, StoreApprovalApproverList,
       StoreApprovalBypasserList, StoreApprovalBypasserGet, StoreApprovalRequestGet, StoreApprovalRequestList,
       StoreApprovalVoteList, StoreApprovalRequestSelectExpiry, StoreApprovalRequestCounts,
       StoreSCIMUserByAccount, StoreSCIMMembershipsForUser, StoreAccessPolicyGet, StoreAccessPolicyList,
       StoreAccessPolicyCovering, StoreAccessApproverList, StoreAccessBypasserList, StoreAccessBypasserGet,
       StoreAccessRequestGet, StoreAccessRequestList, StoreAccessVoteGet, StoreAccessVoteList,
       StoreAccessRequestSelectDue, StoreAccessRequestCounts]"

definition readOnlyStoreOps :: "StoreOp list" where
  "readOnlyStoreOps = readOnlyStoreOps1 @ readOnlyStoreOps2"

definition bootKeyringOps :: "StoreOp list" where
  "bootKeyringOps =
    [StoreKeysActiveMasterWrappers, StoreKeysActiveTier3, StoreKeysTier3Versions, StoreKeysAllOpenableTier3,
       StoreKeysAcquireHierarchyGeneration, StoreKeysInsertMaster, StoreKeysInsertTier3,
       StoreKeysInsertScopeGeneration]"

end
