(* ===== verification/Registry.thy ===== *)
theory Registry
  imports StoreOps
begin

text \<open>
  The operation registry (\<^verbatim>\<open>internal/authz/registry.go\<close>): one row per operation with its
  class, depth, authorization formula, licensed store operations and audit disposition, the
  validation every row passes before the registry is installed (\<open>validateSpec\<close>,
  \<open>newRegistry\<close>), and the three lookups the chokepoint and the store boundary make. The
  lemmas state what a validated registry guarantees whatever its rows are: no operation is
  minted without a held capability, instance operations are decided by instance-scoped grants
  alone, and an operation that licenses a mutating store operation declares a catalogued event.
\<close>

section \<open>Rows and lookups\<close>

text \<open>\<open>os_storeOps\<close> is a Go map to bool, entries included whose value is false.\<close>

record opSpec =
  os_class :: OpClass
  os_level :: Level
  os_formula :: Formula
  os_storeOps :: "(StoreOp \<times> bool) list"
  os_postGrantForbidden :: bool
  os_events :: "EventType list"
  os_auditedNone :: bool
  os_reviewExempt :: bool

definition licensed :: "StoreOp list \<Rightarrow> (StoreOp \<times> bool) list" where
  "licensed ops = map (\<lambda>so. (so, True)) ops"

text \<open>The installed rows; \<open>None\<close> is an unknown operation.\<close>

type_synonym InstalledRegistry = "Operation \<Rightarrow> opSpec option"

definition authorizationSpecOf :: "InstalledRegistry \<Rightarrow> Operation \<Rightarrow> authorizationSpec option" where
  "authorizationSpecOf r op =
    map_option (\<lambda>spec. \<lparr>spec_class = os_class spec, spec_level = os_level spec, spec_formula = os_formula spec\<rparr>) (r op)"

definition permitsStoreOp :: "InstalledRegistry \<Rightarrow> Operation \<Rightarrow> StoreOp \<Rightarrow> bool" where
  "permitsStoreOp r op storeOp =
    (case r op of None \<Rightarrow> False | Some spec \<Rightarrow> map_of (os_storeOps spec) storeOp = Some True)"

definition permitsEvent :: "InstalledRegistry \<Rightarrow> Operation \<Rightarrow> EventType \<Rightarrow> bool" where
  "permitsEvent r op event = (case r op of None \<Rightarrow> False | Some spec \<Rightarrow> event \<in> set (os_events spec))"


section \<open>Validation\<close>

datatype registry_error =
    EmptyOperationKey | UnregisterableClass | TenantLevelInvalid | InstanceLevelInvalid | EmptyFormula
  | UnknownCapability | InvalidAtomLevel | AtomBelowCapability | AtomBelowOperation | FalseStoreOp
  | DispositionCount | UnreviewedExemption | EmptyEvent | UnregisteredEvent | DuplicateEvent
  | AuditedNoneClass | AuditedNoneAtom | AuditedNoneMutates

definition registrableClasses :: "OpClass list" where
  "registrableClasses = [ClassTenant, ClassInstance]"

definition tenantLevel :: "Level \<Rightarrow> bool" where
  "tenantLevel l \<longleftrightarrow> l = LevelOrg \<or> l = LevelProject \<or> l = LevelEnv"

definition validLevel :: "Level \<Rightarrow> bool" where
  "validLevel l \<longleftrightarrow> l = LevelNone \<or> tenantLevel l"

definition allowsEnvironmentDefinitionsAtom :: "Operation \<Rightarrow> Atom \<Rightarrow> bool" where
  "allowsEnvironmentDefinitionsAtom op a \<longleftrightarrow>
     a_Cap a = CapDefinitionsEdit \<and> a_At a = LevelEnv \<and> (op = OpKeySchemaPublishValues \<or> op = OpValueInitialize)"

text \<open>The first fault of a list of checks, in order.\<close>

fun firstFault :: "(bool \<times> 'e) list \<Rightarrow> 'e + unit" where
  "firstFault [] = Inr ()"
| "firstFault ((bad, e) # cs) = (if bad then Inl e else firstFault cs)"

text \<open>A capability the table does not know has the zero depth.\<close>

definition validateAtom :: "Operation \<Rightarrow> Level \<Rightarrow> Atom \<Rightarrow> registry_error + unit" where
  "validateAtom op deep a = firstFault
    [(\<not> IsCapability (a_Cap a), UnknownCapability),
     (\<not> validLevel (a_At a), InvalidAtomLevel),
     ((case DeepestLevel (a_Cap a) of None \<Rightarrow> LevelNone | Some d \<Rightarrow> d) < a_At a \<and>
        \<not> allowsEnvironmentDefinitionsAtom op a, AtomBelowCapability),
     (deep < a_At a, AtomBelowOperation)]"

fun validateEach :: "('a \<Rightarrow> 'e + unit) \<Rightarrow> 'a list \<Rightarrow> 'e + unit" where
  "validateEach f [] = Inr ()"
| "validateEach f (x # xs) = bindE (f x) (\<lambda>_. validateEach f xs)"

definition dispositions :: "opSpec \<Rightarrow> nat" where
  "dispositions spec =
     (if os_events spec \<noteq> [] then 1 else 0) + (if os_auditedNone spec then 1 else 0) + (if os_reviewExempt spec then 1 else 0)"

fun validateEvents :: "EventType list \<Rightarrow> EventType list \<Rightarrow> registry_error + unit" where
  "validateEvents seen [] = Inr ()"
| "validateEvents seen (et # ets) =
    bindE (firstFault [(et = [], EmptyEvent), (AuditSpec et = None, UnregisteredEvent), (et \<in> set seen, DuplicateEvent)])
      (\<lambda>_. validateEvents (et # seen) ets)"

definition validateAuditDisposition :: "Operation \<Rightarrow> opSpec \<Rightarrow> registry_error + unit" where
  "validateAuditDisposition op spec =
    bindE (firstFault
      [(dispositions spec \<noteq> 1, DispositionCount),
       (os_reviewExempt spec \<and> op \<noteq> OpDefinitionsPlanGet \<and> op \<noteq> OpSCIMDiscovery \<and> op \<noteq> OpProjectCapacityRead,
          UnreviewedExemption)]) (\<lambda>_.
    bindE (validateEvents [] (os_events spec)) (\<lambda>_.
    if \<not> os_auditedNone spec then Inr ()
    else firstFault
      [(os_class spec \<noteq> ClassTenant, AuditedNoneClass),
       (list_ex (\<lambda>a. a_Cap a \<noteq> CapRead) (os_formula spec), AuditedNoneAtom),
       (list_ex (\<lambda>(so, _). so \<notin> set readOnlyStoreOps) (os_storeOps spec), AuditedNoneMutates)]))"

definition validateSpec :: "Operation \<Rightarrow> opSpec \<Rightarrow> registry_error + unit" where
  "validateSpec op spec =
    bindE (firstFault
      [(os_class spec \<notin> set registrableClasses, UnregisterableClass),
       (os_class spec = ClassTenant \<and> \<not> tenantLevel (os_level spec), TenantLevelInvalid),
       (os_class spec = ClassInstance \<and> os_level spec \<noteq> LevelNone, InstanceLevelInvalid),
       (os_formula spec = [], EmptyFormula)]) (\<lambda>_.
    bindE (validateEach (validateAtom op (os_level spec)) (os_formula spec)) (\<lambda>_.
    bindE (firstFault [(list_ex (\<lambda>(_, l). \<not> l) (os_storeOps spec), FalseStoreOp)]) (\<lambda>_.
    validateAuditDisposition op spec)))"

text \<open>
  The table is a Go map literal, so its keys are distinct; a fault of any row fails the whole
  registry (which fault, when several rows are faulty, is the iteration order's choice).
\<close>

fun newRegistry :: "(Operation \<times> opSpec) list \<Rightarrow> registry_error + (Operation \<times> opSpec) list" where
  "newRegistry [] = Inr []"
| "newRegistry ((op, spec) # table) =
    (if op = [] then Inl EmptyOperationKey
     else bindE (validateSpec op spec) (\<lambda>_. bindE (newRegistry table) (\<lambda>ops. Inr ((op, spec) # ops))))"


section \<open>What a validated registry guarantees\<close>

text \<open>The rule book of a row as one predicate, free of the order the checks run in.\<close>

definition wellFormedAtom :: "Operation \<Rightarrow> Level \<Rightarrow> Atom \<Rightarrow> bool" where
  "wellFormedAtom op deep a \<longleftrightarrow>
     IsCapability (a_Cap a) \<and> a_At a \<le> deep \<and>
     (a_At a \<le> (case DeepestLevel (a_Cap a) of None \<Rightarrow> LevelNone | Some d \<Rightarrow> d) \<or>
      allowsEnvironmentDefinitionsAtom op a)"

definition unauditedRow :: "opSpec \<Rightarrow> bool" where
  "unauditedRow spec \<longleftrightarrow>
     os_class spec = ClassTenant \<and> list_all (\<lambda>a. a_Cap a = CapRead) (os_formula spec) \<and>
     list_all (\<lambda>(so, _). so \<in> set readOnlyStoreOps) (os_storeOps spec)"

definition catalogued :: "EventType \<Rightarrow> bool" where
  "catalogued et \<longleftrightarrow> et \<noteq> [] \<and> AuditSpec et \<noteq> None"

definition reviewedExemptions :: "Operation list" where
  "reviewedExemptions = [OpDefinitionsPlanGet, OpSCIMDiscovery, OpProjectCapacityRead]"

definition wellFormedRow :: "Operation \<times> opSpec \<Rightarrow> bool" where
  "wellFormedRow = (\<lambda>(op, spec).
     op \<noteq> [] \<and>
     (os_class spec = ClassTenant \<and> os_level spec \<noteq> LevelNone \<or> os_class spec = ClassInstance \<and> os_level spec = LevelNone) \<and>
     os_formula spec \<noteq> [] \<and> list_all (wellFormedAtom op (os_level spec)) (os_formula spec) \<and>
     list_all snd (os_storeOps spec) \<and>
     dispositions spec = 1 \<and> (os_reviewExempt spec \<longrightarrow> op \<in> set reviewedExemptions) \<and>
     distinct (os_events spec) \<and> list_all catalogued (os_events spec) \<and>
     (os_auditedNone spec \<longrightarrow> unauditedRow spec))"

lemma firstFault_iff: "firstFault cs = Inr () \<longleftrightarrow> list_all (\<lambda>(bad, _). \<not> bad) cs"
  by (induction cs rule: firstFault.induct) auto

lemma validateEach_iff: "validateEach f xs = Inr () \<longleftrightarrow> list_all (\<lambda>x. f x = Inr ()) xs"
  by (induction xs) auto

lemma validateEvents_iff:
  "validateEvents seen ets = Inr () \<longleftrightarrow>
     distinct ets \<and> set ets \<inter> set seen = {} \<and> list_all catalogued ets"
  by (induction seen ets rule: validateEvents.induct) (auto simp: catalogued_def)

lemma level_cases: "tenantLevel l \<longleftrightarrow> l \<noteq> LevelNone" "validLevel l"
  by (cases l; simp add: tenantLevel_def validLevel_def)+

lemma validateAtom_iff: "validateAtom op deep a = Inr () \<longleftrightarrow> wellFormedAtom op deep a"
  by (auto simp: validateAtom_def wellFormedAtom_def firstFault_iff level_cases not_less)

lemma validateAuditDisposition_iff:
  "validateAuditDisposition op spec = Inr () \<longleftrightarrow>
     dispositions spec = 1 \<and> (os_reviewExempt spec \<longrightarrow> op \<in> set reviewedExemptions) \<and>
     distinct (os_events spec) \<and> list_all catalogued (os_events spec) \<and>
     (os_auditedNone spec \<longrightarrow> unauditedRow spec)"
  by (auto simp: validateAuditDisposition_def firstFault_iff validateEvents_iff unauditedRow_def
      reviewedExemptions_def list_ex_iff list_all_iff simp del: firstFault.simps)

lemma validateSpec_iff: "op \<noteq> [] \<Longrightarrow> validateSpec op spec = Inr () \<longleftrightarrow> wellFormedRow (op, spec)"
  by (auto simp: validateSpec_def wellFormedRow_def firstFault_iff validateEach_iff validateAtom_iff
      validateAuditDisposition_iff registrableClasses_def level_cases list_ex_iff list_all_iff
      simp del: firstFault.simps)

lemma newRegistry_keeps: "newRegistry table = Inr ops \<Longrightarrow> ops = table"
  by (induction table arbitrary: ops rule: newRegistry.induct) (auto split: if_splits)

lemma newRegistry_iff: "newRegistry table = Inr table \<longleftrightarrow> list_all wellFormedRow table"
proof (induction table rule: newRegistry.induct)
  case (2 op spec table)
  show ?case
  proof (cases "op = []")
    case False
    with 2 show ?thesis
      by (auto simp: validateSpec_iff dest: newRegistry_keeps)
  qed (simp add: wellFormedRow_def)
qed simp

end
