(* ===== verification/OperationTable.thy ===== *)
theory OperationTable
  imports Registry
begin

text \<open>
  The operation policy table (\<^verbatim>\<open>operationTable\<close> of \<^verbatim>\<open>internal/authz/registry.go\<close>), row by row
  in the order of the source, the store-operation groups its rows share, and the system sites.
  The table is proved to pass the registry's validation, so the installed registry exists, and
  every row of it meets the rule book of \<open>wellFormedRow\<close>.
\<close>

section \<open>Shared formulas, events and store operations\<close>

definition pkiOperatorFormula :: "Formula" where
  "pkiOperatorFormula =
    [atom CapInstanceConfig LevelNone]"

definition pkiIssueFormula :: "Formula" where
  "pkiIssueFormula =
    [atom CapIssueCertificate LevelEnv]"

definition scimAdminFormula :: "Formula" where
  "scimAdminFormula =
    [atom CapManageMembers LevelOrg]"

definition scimWireFormula :: "Formula" where
  "scimWireFormula =
    [atom CapSCIMProvision LevelOrg]"

definition grantCureEvents :: "EventType list" where
  "grantCureEvents =
    [EventSCIMLockoutRetentionReleased, EventSCIMAttentionCleared, EventGrantRevoked]"

definition scimUserMutationEvents :: "EventType list" where
  "scimUserMutationEvents =
    [EventSCIMUserUpdated, EventSCIMUserDeprovisioned, EventGrantCreated, EventGrantModified, EventGrantRevoked,
       EventSCIMLockoutRetention, EventSCIMAttentionEntered, EventSCIMAttentionCleared]"

definition scimGroupMutationEvents :: "EventType list" where
  "scimGroupMutationEvents =
    [EventSCIMGroupUpdated, EventSCIMGroupMembership, EventGrantCreated, EventGrantModified, EventGrantRevoked,
       EventSCIMLockoutRetention, EventSCIMLockoutRetentionReleased, EventSCIMAttentionEntered,
       EventSCIMAttentionCleared]"

definition grantCureStoreOps :: "StoreOp list" where
  "grantCureStoreOps =
    [StoreSCIMAttention, StoreSCIMClearAttention]"

definition scimCredentialOps :: "StoreOp list" where
  "scimCredentialOps =
    [StoreSCIMCreateCredential, StoreSCIMCredential, StoreSCIMCredentials, StoreSCIMRevokeCredential,
       StoreSCIMRevokeCredentialsForBinding, StoreSCIMDeleteCredentialsForBinding]"

definition scimBase :: "StoreOp list" where
  "scimBase =
    [StoreSCIMLockBinding, StoreSCIMBinding, StoreSCIMAttention, StoreSCIMEnterAttention,
       StoreSCIMClearAttention]"

definition scimAttentionReadOps :: "StoreOp list" where
  "scimAttentionReadOps =
    [StoreSCIMCredentials]"

definition scimWireBase :: "StoreOp list" where
  "scimWireBase =
    [StoreSCIMTouchBinding]"

definition scimDirectoryOps :: "StoreOp list" where
  "scimDirectoryOps =
    [StoreProjectsList, StoreSCIMUser, StoreSCIMUsers, StoreSCIMUserByUserName, StoreSCIMPageUsers,
       StoreSCIMUserBySubject, StoreSCIMUserByAccount, StoreSCIMGroup, StoreSCIMGroups, StoreSCIMPageGroups,
       StoreSCIMGroupMembers, StoreSCIMMembershipsForUser, StoreSCIMMappings, StoreSCIMMappingsForGroup,
       StoreSCIMMapping]"

definition scimUserWriteOps :: "StoreOp list" where
  "scimUserWriteOps =
    [StoreSCIMCreateUser, StoreSCIMUpdateUser, StoreSCIMDeleteUser, StoreSCIMRemoveMembershipsForUser]"

definition scimGroupWriteOps :: "StoreOp list" where
  "scimGroupWriteOps =
    [StoreSCIMCreateGroup, StoreSCIMUpdateGroup, StoreSCIMDeleteGroup, StoreSCIMAddGroupMember,
       StoreSCIMRemoveGroupMember, StoreSCIMClearGroupMembers]"

definition scimMappingWriteOps :: "StoreOp list" where
  "scimMappingWriteOps =
    [StoreSCIMCreateMapping, StoreSCIMUpdateMappingTemplate, StoreSCIMDeleteMapping, StoreSCIMSetMappingInert]"

definition scimTeardownOps :: "StoreOp list" where
  "scimTeardownOps =
    [StoreSCIMDeleteGroupMembersForBinding, StoreSCIMDeleteGroupsForBinding, StoreSCIMDeleteUsersForBinding,
       StoreSCIMDeleteMappingsForBinding, StoreSCIMDeleteAttentionForBinding, StoreSCIMDeleteBinding,
       StoreSCIMRetireConnection]"

definition scimDiscoveryOps :: "StoreOp list" where
  "scimDiscoveryOps = [StoreSCIMBinding, StoreSCIMTouchBinding]"

text \<open>Maps of store operations united; every entry is \<^verbatim>\<open>true\<close>.\<close>

definition withCure :: "StoreOp list \<Rightarrow> (StoreOp \<times> bool) list" where
  "withCure base = licensed (base @ grantCureStoreOps)"

definition scimOps :: "StoreOp list list \<Rightarrow> (StoreOp \<times> bool) list" where
  "scimOps groups = licensed (StoreAuditTenantInsert # concat groups)"


section \<open>The table\<close>

definition operationTable1 :: "(Operation \<times> opSpec) list" where
  "operationTable1 = [
    (OpRemotePairingPrepare,
     \<lparr>os_class = ClassInstance, os_level = LevelNone, os_formula = [atom CapInstanceConfig LevelNone],
      os_storeOps = licensed [StoreAuditInstanceInsert, StoreKeysAssertActiveDEKVersion],
      os_postGrantForbidden = False, os_events = [EventRemotePairingPrepared],
      os_auditedNone = False, os_reviewExempt = False\<rparr>),
    (OpRemotePairingCreate,
     \<lparr>os_class = ClassInstance, os_level = LevelNone, os_formula = [atom CapInstanceConfig LevelNone],
      os_storeOps = licensed [StoreAuditInstanceInsert],
      os_postGrantForbidden = False, os_events = [EventRemotePairingInviteCreated],
      os_auditedNone = False, os_reviewExempt = False\<rparr>),
    (OpRemotePairingList,
     \<lparr>os_class = ClassInstance, os_level = LevelNone, os_formula = [atom CapInstanceConfig LevelNone],
      os_storeOps = licensed [StoreAuditInstanceInsert],
      os_postGrantForbidden = False, os_events = [EventRemotePairingInvitesListed],
      os_auditedNone = False, os_reviewExempt = False\<rparr>),
    (OpRemotePairingRevoke,
     \<lparr>os_class = ClassInstance, os_level = LevelNone, os_formula = [atom CapInstanceConfig LevelNone],
      os_storeOps = licensed [StoreAuditInstanceInsert],
      os_postGrantForbidden = False, os_events = [EventRemotePairingInviteRevoked],
      os_auditedNone = False, os_reviewExempt = False\<rparr>),
    (OpRemotePairingComplete,
     \<lparr>os_class = ClassInstance, os_level = LevelNone, os_formula = [atom CapInstanceConfig LevelNone],
      os_storeOps = licensed [StoreRemotesCount, StoreRemotesList, StoreRemoteSnapshotsList, StoreRemotesCreate,
        StoreRemoteSnapshotsWrite, StoreKeysAssertActiveDEKVersion, StoreAuditInstanceInsert],
      os_postGrantForbidden = False, os_events = [EventRemoteAdded],
      os_auditedNone = False, os_reviewExempt = False\<rparr>),
    (OpMailGet,
     \<lparr>os_class = ClassInstance, os_level = LevelNone, os_formula = [atom CapInstanceConfig LevelNone],
      os_storeOps = licensed [StoreAuditInstanceInsert],
      os_postGrantForbidden = False, os_events = [EventRegistrationMailStatusRead],
      os_auditedNone = False, os_reviewExempt = False\<rparr>),
    (OpMailTest,
     \<lparr>os_class = ClassInstance, os_level = LevelNone, os_formula = [atom CapInstanceConfig LevelNone],
      os_storeOps = licensed [StoreAuditInstanceInsert],
      os_postGrantForbidden = False, os_events = [EventRegistrationMailIntent, EventRegistrationMailOutcome],
      os_auditedNone = False, os_reviewExempt = False\<rparr>),
    (OpSelfConfigPreview,
     \<lparr>os_class = ClassInstance, os_level = LevelNone, os_formula = [atom CapInstanceConfig LevelNone,
        atom CapManageMembers LevelNone],
      os_storeOps = licensed [StoreSelfConfigBinding, StoreSelfConfigSeedInputs, StoreAuditInstanceInsert],
      os_postGrantForbidden = False, os_events = [EventSelfConfigStatusRead],
      os_auditedNone = False, os_reviewExempt = False\<rparr>),
    (OpSelfConfigStatus,
     \<lparr>os_class = ClassInstance, os_level = LevelNone, os_formula = [atom CapInstanceConfig LevelNone],
      os_storeOps = licensed [StoreSelfConfigBinding, StoreSelfConfigRollout, StoreSelfConfigJobs,
        StoreSelfConfigJob, StoreSelfConfigNodes, StoreSelfConfigRetained, StoreAuditInstanceInsert],
      os_postGrantForbidden = False, os_events = [EventSelfConfigStatusRead],
      os_auditedNone = False, os_reviewExempt = False\<rparr>),
    (OpSelfConfigAdopt,
     \<lparr>os_class = ClassInstance, os_level = LevelNone, os_formula = [atom CapInstanceConfig LevelNone,
        atom CapManageMembers LevelNone],
      os_storeOps = licensed [StoreSelfConfigBinding, StoreSelfConfigSeedInputs, StoreSelfConfigCreateBinding,
        StoreAuditInstanceInsert],
      os_postGrantForbidden = False, os_events = [EventSelfConfigAdopted],
      os_auditedNone = False, os_reviewExempt = False\<rparr>),
    (OpSelfConfigApply,
     \<lparr>os_class = ClassTenant, os_level = LevelEnv, os_formula = [atom CapInstanceConfig LevelNone, atom
        CapRead LevelEnv, atom CapPublish LevelEnv],
      os_storeOps = licensed [StoreSelfConfigBinding, StoreSelfConfigRollout, StoreSelfConfigPutRollout,
        StoreSelfConfigNextRolloutSequence, StoreSelfConfigJobs, StoreSelfConfigJob,
        StoreSelfConfigJobByIdempotencyKey, StoreSelfConfigNodes, StoreSelfConfigBeginJob,
        StoreSelfConfigCommitJob, StoreSelfConfigFinishJob, StoreSnapshotsAtRevision, StoreAuditTenantInsert],
      os_postGrantForbidden = False, os_events = [EventSelfConfigDeploymentRestoreRequested,
        EventSelfConfigApplyRequested, EventSelfConfigTargetCommitted, EventSelfConfigResumed],
      os_auditedNone = False, os_reviewExempt = False\<rparr>),
    (OpSelfConfigTest,
     \<lparr>os_class = ClassTenant, os_level = LevelEnv, os_formula = [atom CapInstanceConfig LevelNone, atom
        CapRead LevelEnv],
      os_storeOps = licensed [StoreSelfConfigBinding, StoreSnapshotsAtRevision, StoreSnapshotsEntries,
        StoreSnapshotsParameterContract, StoreCatalogueList, StoreCatalogueRevisionGet, StoreAuditTenantInsert],
      os_postGrantForbidden = False, os_events = [EventSelfConfigTestRequested, EventSelfConfigTestCompleted],
      os_auditedNone = False, os_reviewExempt = False\<rparr>),
    (OpSelfConfigProvisionProject,
     \<lparr>os_class = ClassTenant, os_level = LevelProject, os_formula = [atom CapInstanceConfig LevelNone,
        atom CapDefinitionsEdit LevelProject],
      os_storeOps = licensed [StoreKeysInsertInitialProjectDEK, StoreAuditTenantInsert],
      os_postGrantForbidden = False, os_events = [EventSelfConfigProjectPrepared],
      os_auditedNone = False, os_reviewExempt = False\<rparr>),
    (OpOrgCreate,
     \<lparr>os_class = ClassInstance, os_level = LevelNone, os_formula = [atom CapInstanceConfig LevelNone,
        atom CapManageMembers LevelNone],
      os_storeOps = licensed [StoreOrgsCreate, StoreAuditInstanceInsert],
      os_postGrantForbidden = False, os_events = [EventOrgCreated],
      os_auditedNone = False, os_reviewExempt = False\<rparr>),
    (OpOrgList,
     \<lparr>os_class = ClassInstance, os_level = LevelNone, os_formula = [atom CapInstanceConfig LevelNone],
      os_storeOps = licensed [StoreOrgsList, StoreOrgsCount, StoreAuditInstanceInsert],
      os_postGrantForbidden = False, os_events = [EventOrgRead],
      os_auditedNone = False, os_reviewExempt = False\<rparr>),
    (OpOrgGet,
     \<lparr>os_class = ClassTenant, os_level = LevelOrg, os_formula = [atom CapRead LevelOrg],
      os_storeOps = licensed [StoreOrgsGet],
      os_postGrantForbidden = False, os_events = [],
      os_auditedNone = True, os_reviewExempt = False\<rparr>),
    (OpOrgRename,
     \<lparr>os_class = ClassTenant, os_level = LevelOrg, os_formula = [atom CapManageMembers LevelOrg],
      os_storeOps = licensed [StoreOrgsGet, StoreOrgsRename, StoreAuditTenantInsert],
      os_postGrantForbidden = False, os_events = [EventOrgRenamed],
      os_auditedNone = False, os_reviewExempt = False\<rparr>),
    (OpOrgDelete,
     \<lparr>os_class = ClassTenant, os_level = LevelOrg, os_formula = [atom CapInstanceConfig LevelNone],
      os_storeOps = licensed [StoreOrgsGet, StoreOrgsDelete, StoreAuditTenantInsert],
      os_postGrantForbidden = False, os_events = [EventRuleRevoked, EventOrgDeleted],
      os_auditedNone = False, os_reviewExempt = False\<rparr>),
    (OpOAuth2ProviderPut,
     \<lparr>os_class = ClassInstance, os_level = LevelNone, os_formula = [atom CapInstanceConfig LevelNone],
      os_storeOps = licensed [StoreKeysAssertActiveDEKVersion, StoreAuditInstanceInsert],
      os_postGrantForbidden = False, os_events = [EventOIDCProviderChanged],
      os_auditedNone = False, os_reviewExempt = False\<rparr>),
    (OpOAuth2ProviderGet,
     \<lparr>os_class = ClassInstance, os_level = LevelNone, os_formula = [atom CapInstanceConfig LevelNone],
      os_storeOps = licensed [StoreAuditInstanceInsert],
      os_postGrantForbidden = False, os_events = [EventOIDCProviderRead],
      os_auditedNone = False, os_reviewExempt = False\<rparr>),
    (OpOAuth2ProviderList,
     \<lparr>os_class = ClassInstance, os_level = LevelNone, os_formula = [atom CapInstanceConfig LevelNone],
      os_storeOps = licensed [StoreAuditInstanceInsert],
      os_postGrantForbidden = False, os_events = [EventOIDCProviderRead],
      os_auditedNone = False, os_reviewExempt = False\<rparr>),
    (OpOAuth2ProviderDelete,
     \<lparr>os_class = ClassInstance, os_level = LevelNone, os_formula = [atom CapInstanceConfig LevelNone],
      os_storeOps = licensed [StoreAuditInstanceInsert],
      os_postGrantForbidden = False, os_events = [EventOIDCProviderChanged],
      os_auditedNone = False, os_reviewExempt = False\<rparr>),
    (OpProviderPut,
     \<lparr>os_class = ClassInstance, os_level = LevelNone, os_formula = [atom CapInstanceConfig LevelNone],
      os_storeOps = licensed [StoreKeysAssertActiveDEKVersion, StoreAuditInstanceInsert],
      os_postGrantForbidden = False, os_events = [EventOIDCProviderChanged],
      os_auditedNone = False, os_reviewExempt = False\<rparr>),
    (OpProviderGet,
     \<lparr>os_class = ClassInstance, os_level = LevelNone, os_formula = [atom CapInstanceConfig LevelNone],
      os_storeOps = licensed [StoreAuditInstanceInsert],
      os_postGrantForbidden = False, os_events = [EventOIDCProviderRead],
      os_auditedNone = False, os_reviewExempt = False\<rparr>),
    (OpProviderList,
     \<lparr>os_class = ClassInstance, os_level = LevelNone, os_formula = [atom CapInstanceConfig LevelNone],
      os_storeOps = licensed [StoreAuditInstanceInsert],
      os_postGrantForbidden = False, os_events = [EventOIDCProviderRead],
      os_auditedNone = False, os_reviewExempt = False\<rparr>),
    (OpProviderDelete,
     \<lparr>os_class = ClassInstance, os_level = LevelNone, os_formula = [atom CapInstanceConfig LevelNone],
      os_storeOps = licensed [StoreAuditInstanceInsert],
      os_postGrantForbidden = False, os_events = [EventOIDCProviderChanged],
      os_auditedNone = False, os_reviewExempt = False\<rparr>)]"

definition operationTable2 :: "(Operation \<times> opSpec) list" where
  "operationTable2 = [
    (OpSAMLProviderPut,
     \<lparr>os_class = ClassInstance, os_level = LevelNone, os_formula = [atom CapInstanceConfig LevelNone],
      os_storeOps = licensed [StoreKeysAssertActiveDEKVersion, StoreAuditInstanceInsert],
      os_postGrantForbidden = False, os_events = [EventSAMLProviderConfigure, EventSAMLCertChange,
        EventSAMLEmailNameIDOptIn, EventSAMLSPKey, EventSAMLMetadataExpiryWarning],
      os_auditedNone = False, os_reviewExempt = False\<rparr>),
    (OpSAMLProviderPatch,
     \<lparr>os_class = ClassInstance, os_level = LevelNone, os_formula = [atom CapInstanceConfig LevelNone],
      os_storeOps = licensed [StoreAuditInstanceInsert],
      os_postGrantForbidden = False, os_events = [EventSAMLProviderConfigure, EventSAMLEmailNameIDOptIn],
      os_auditedNone = False, os_reviewExempt = False\<rparr>),
    (OpSAMLProviderGet,
     \<lparr>os_class = ClassInstance, os_level = LevelNone, os_formula = [atom CapInstanceConfig LevelNone],
      os_storeOps = licensed [StoreAuditInstanceInsert],
      os_postGrantForbidden = False, os_events = [EventOIDCProviderRead, EventSAMLMetadataExpiryWarning],
      os_auditedNone = False, os_reviewExempt = False\<rparr>),
    (OpSAMLProviderList,
     \<lparr>os_class = ClassInstance, os_level = LevelNone, os_formula = [atom CapInstanceConfig LevelNone],
      os_storeOps = licensed [StoreAuditInstanceInsert],
      os_postGrantForbidden = False, os_events = [EventOIDCProviderRead, EventSAMLMetadataExpiryWarning],
      os_auditedNone = False, os_reviewExempt = False\<rparr>),
    (OpSAMLProviderDelete,
     \<lparr>os_class = ClassInstance, os_level = LevelNone, os_formula = [atom CapInstanceConfig LevelNone],
      os_storeOps = licensed [StoreAuditInstanceInsert],
      os_postGrantForbidden = False, os_events = [EventSAMLProviderRemove],
      os_auditedNone = False, os_reviewExempt = False\<rparr>),
    (OpSAMLProviderRefreshMetadata,
     \<lparr>os_class = ClassInstance, os_level = LevelNone, os_formula = [atom CapInstanceConfig LevelNone],
      os_storeOps = licensed [StoreAuditInstanceInsert],
      os_postGrantForbidden = False, os_events = [EventSAMLProviderRefresh, EventSAMLCertChange,
        EventSAMLMetadataExpiryWarning],
      os_auditedNone = False, os_reviewExempt = False\<rparr>),
    (OpSAMLSPKeyList,
     \<lparr>os_class = ClassInstance, os_level = LevelNone, os_formula = [atom CapInstanceConfig LevelNone],
      os_storeOps = licensed [StoreAuditInstanceInsert],
      os_postGrantForbidden = False, os_events = [EventOIDCProviderRead],
      os_auditedNone = False, os_reviewExempt = False\<rparr>),
    (OpSAMLSPKeyRotate,
     \<lparr>os_class = ClassInstance, os_level = LevelNone, os_formula = [atom CapInstanceConfig LevelNone],
      os_storeOps = licensed [StoreAuditInstanceInsert],
      os_postGrantForbidden = False, os_events = [EventSAMLSPKey],
      os_auditedNone = False, os_reviewExempt = False\<rparr>),
    (OpSAMLSPKeyRetire,
     \<lparr>os_class = ClassInstance, os_level = LevelNone, os_formula = [atom CapInstanceConfig LevelNone],
      os_storeOps = licensed [StoreAuditInstanceInsert],
      os_postGrantForbidden = False, os_events = [EventSAMLSPKey],
      os_auditedNone = False, os_reviewExempt = False\<rparr>),
    (OpSAMLSPKeyCompromiseRetire,
     \<lparr>os_class = ClassInstance, os_level = LevelNone, os_formula = [atom CapInstanceConfig LevelNone],
      os_storeOps = licensed [StoreAuditInstanceInsert],
      os_postGrantForbidden = False, os_events = [EventSAMLSPKey],
      os_auditedNone = False, os_reviewExempt = False\<rparr>),
    (OpCredentialReset,
     \<lparr>os_class = ClassTenant, os_level = LevelOrg, os_formula = [atom CapCredentialReset LevelOrg],
      os_storeOps = licensed [],
      os_postGrantForbidden = False, os_events = [EventAuthCredentialResetIssued],
      os_auditedNone = False, os_reviewExempt = False\<rparr>),
    (OpCredentialResetInstance,
     \<lparr>os_class = ClassInstance, os_level = LevelNone, os_formula = [atom CapCredentialReset LevelNone],
      os_storeOps = licensed [],
      os_postGrantForbidden = False, os_events = [EventAuthCredentialResetIssued],
      os_auditedNone = False, os_reviewExempt = False\<rparr>),
    (OpProjectCreate,
     \<lparr>os_class = ClassTenant, os_level = LevelOrg, os_formula = [atom CapManageProjects LevelOrg],
      os_storeOps = licensed [StoreProjectsCreate, StoreAuditTenantInsert],
      os_postGrantForbidden = False, os_events = [EventProjectCreated],
      os_auditedNone = False, os_reviewExempt = False\<rparr>),
    (OpProjectGet,
     \<lparr>os_class = ClassTenant, os_level = LevelProject, os_formula = [atom CapRead LevelProject],
      os_storeOps = licensed [StoreProjectsGet],
      os_postGrantForbidden = False, os_events = [],
      os_auditedNone = True, os_reviewExempt = False\<rparr>),
    (OpProjectList,
     \<lparr>os_class = ClassTenant, os_level = LevelOrg, os_formula = [atom CapRead LevelOrg],
      os_storeOps = licensed [StoreProjectsList],
      os_postGrantForbidden = False, os_events = [],
      os_auditedNone = True, os_reviewExempt = False\<rparr>),
    (OpProjectRename,
     \<lparr>os_class = ClassTenant, os_level = LevelProject, os_formula = [atom CapManageProjects LevelOrg],
      os_storeOps = licensed [StoreProjectsGet, StoreProjectsRename, StoreAuditTenantInsert],
      os_postGrantForbidden = False, os_events = [EventProjectRenamed],
      os_auditedNone = False, os_reviewExempt = False\<rparr>),
    (OpProjectDelete,
     \<lparr>os_class = ClassTenant, os_level = LevelProject, os_formula = [atom CapManageProjects LevelOrg],
      os_storeOps = licensed [StoreProjectsGet, StoreProjectsDelete, StoreAuditTenantInsert,
        StoreScanningDismissalsDeleteByProject],
      os_postGrantForbidden = False, os_events = [EventRuleRevoked, EventProjectDeleted],
      os_auditedNone = False, os_reviewExempt = False\<rparr>)]"

definition operationTable3 :: "(Operation \<times> opSpec) list" where
  "operationTable3 = [
    (OpEnvCreate,
     \<lparr>os_class = ClassTenant, os_level = LevelProject, os_formula = [atom CapDefinitionsEdit
        LevelProject],
      os_storeOps = licensed [StoreProjectsGet, StoreProjectsLock, StoreEnvironmentsCount, StoreCatalogueCount,
        StoreEnvironmentsNextOrder, StoreEnvironmentsCreate, StoreCatalogueRevisionBump,
        StoreAuditTenantInsert],
      os_postGrantForbidden = False, os_events = [EventEnvCreated, EventScanningFindingBlocked,
        EventScanningFindingOverridden],
      os_auditedNone = False, os_reviewExempt = False\<rparr>),
    (OpEnvRead,
     \<lparr>os_class = ClassTenant, os_level = LevelEnv, os_formula = [atom CapRead LevelEnv],
      os_storeOps = licensed [StoreEnvironmentsGet, StoreEnvironmentParametersGet],
      os_postGrantForbidden = False, os_events = [],
      os_auditedNone = True, os_reviewExempt = False\<rparr>),
    (OpEnvList,
     \<lparr>os_class = ClassTenant, os_level = LevelProject, os_formula = [atom CapRead LevelProject],
      os_storeOps = licensed [StoreEnvironmentsList, StoreEnvironmentsListPage],
      os_postGrantForbidden = False, os_events = [],
      os_auditedNone = True, os_reviewExempt = False\<rparr>),
    (OpEnvParameterSet,
     \<lparr>os_class = ClassTenant, os_level = LevelEnv, os_formula = [atom CapDefinitionsEdit LevelProject],
      os_storeOps = licensed [StoreProjectsGet, StoreProjectsLock, StoreEnvironmentParametersGet,
        StoreEnvironmentParametersSet, StoreCatalogueRevisionBump, StoreAuditTenantInsert],
      os_postGrantForbidden = False, os_events = [EventEnvParameterChanged],
      os_auditedNone = False, os_reviewExempt = False\<rparr>),
    (OpEnvRename,
     \<lparr>os_class = ClassTenant, os_level = LevelEnv, os_formula = [atom CapDefinitionsEdit LevelProject],
      os_storeOps = licensed [StoreProjectsGet, StoreProjectsLock, StoreEnvironmentsGet,
        StoreEnvironmentsRename, StoreCatalogueRevisionBump, StoreAuditTenantInsert],
      os_postGrantForbidden = False, os_events = [EventEnvRenamed, EventScanningFindingBlocked,
        EventScanningFindingOverridden],
      os_auditedNone = False, os_reviewExempt = False\<rparr>),
    (OpEnvReorder,
     \<lparr>os_class = ClassTenant, os_level = LevelProject, os_formula = [atom CapDefinitionsEdit
        LevelProject],
      os_storeOps = licensed [StoreProjectsGet, StoreProjectsLock, StoreEnvironmentsList,
        StoreEnvironmentsSetOrder, StoreAuditTenantInsert],
      os_postGrantForbidden = False, os_events = [EventEnvReordered],
      os_auditedNone = False, os_reviewExempt = False\<rparr>),
    (OpEnvDelete,
     \<lparr>os_class = ClassTenant, os_level = LevelEnv, os_formula = [atom CapDefinitionsEdit LevelProject],
      os_storeOps = licensed [StoreProjectsGet, StoreProjectsLock, StoreEnvironmentsGet,
        StoreCataloguePresenceList, StoreCataloguePresenceCascade, StoreCatalogueList,
        StoreCatalogueUpdateDeclaration, StoreCatalogueRevisionBump, StoreValuesClearEnvironment,
        StorePendingDiscardEnvironment, StoreSnapshotsDeleteEnvironment, StorePinsDeleteEnvironment,
        StoreSSHPurgeEnvironment, StoreEnvironmentsDelete, StoreAuditTenantInsert],
      os_postGrantForbidden = False, os_events = [EventRuleRevoked, EventEnvDeleted, EventGrantRevoked],
      os_auditedNone = False, os_reviewExempt = False\<rparr>),
    (OpEnvUpdateNote,
     \<lparr>os_class = ClassTenant, os_level = LevelEnv, os_formula = [atom CapEdit LevelEnv],
      os_storeOps = licensed [StoreEnvironmentsUpdateNote, StoreAuditTenantInsert],
      os_postGrantForbidden = False, os_events = [EventEnvNoteChanged, EventScanningFindingBlocked,
        EventScanningFindingOverridden],
      os_auditedNone = False, os_reviewExempt = False\<rparr>),
    (OpKeyCreate,
     \<lparr>os_class = ClassTenant, os_level = LevelProject, os_formula = [atom CapDefinitionsEdit
        LevelProject],
      os_storeOps = licensed [StoreProjectsGetCapacity, StoreEnvironmentsList, StoreEnvironmentsCount,
        StoreProjectsGet, StoreProjectsLock, StoreCatalogueCount, StoreCatalogueList,
        StoreCataloguePresenceList, StoreCatalogueGroupGet, StoreCatalogueCreate, StoreCataloguePresenceReplace,
        StoreCatalogueRevisionBump, StoreAuditTenantInsert],
      os_postGrantForbidden = False, os_events = [EventKeyCreated, EventScanningFindingBlocked,
        EventScanningFindingOverridden],
      os_auditedNone = False, os_reviewExempt = False\<rparr>)]"

definition operationTable4 :: "(Operation \<times> opSpec) list" where
  "operationTable4 = [
    (OpKeyGet,
     \<lparr>os_class = ClassTenant, os_level = LevelProject, os_formula = [atom CapRead LevelProject],
      os_storeOps = licensed [StoreCatalogueGet, StoreCataloguePresenceList],
      os_postGrantForbidden = False, os_events = [],
      os_auditedNone = True, os_reviewExempt = False\<rparr>),
    (OpKeyList,
     \<lparr>os_class = ClassTenant, os_level = LevelProject, os_formula = [atom CapRead LevelProject],
      os_storeOps = licensed [StoreCatalogueList, StoreCataloguePresenceList, StoreCatalogueRevisionGet,
        StoreCatalogueListPage, StoreCataloguePresenceForKey],
      os_postGrantForbidden = False, os_events = [],
      os_auditedNone = True, os_reviewExempt = False\<rparr>),
    (OpKeyRename,
     \<lparr>os_class = ClassTenant, os_level = LevelProject, os_formula = [atom CapDefinitionsEdit
        LevelProject],
      os_storeOps = licensed [StoreEnvironmentsList, StoreProjectsGet, StoreProjectsLock, StoreCatalogueGet,
        StoreCatalogueRename, StoreCatalogueAdapterPins, StoreCatalogueRevisionBump, StoreCataloguePresenceList,
        StoreAuditTenantInsert],
      os_postGrantForbidden = False, os_events = [EventKeyRenamed, EventScanningFindingBlocked,
        EventScanningFindingOverridden],
      os_auditedNone = False, os_reviewExempt = False\<rparr>),
    (OpKeyUpdateDeclaration,
     \<lparr>os_class = ClassTenant, os_level = LevelProject, os_formula = [atom CapDefinitionsEdit
        LevelProject],
      os_storeOps = licensed [StoreEnvironmentsList, StoreProjectsGet, StoreProjectsLock, StoreCatalogueGet,
        StoreCatalogueList, StoreCataloguePresenceList, StoreCatalogueUpdateDeclaration,
        StoreCataloguePresenceReplace, StoreCatalogueRevisionBump, StoreCatalogueRevisionGet,
        StoreAuditTenantInsert],
      os_postGrantForbidden = False, os_events = [EventKeyDeclarationChanged, EventScanningFindingBlocked,
        EventScanningFindingOverridden],
      os_auditedNone = False, os_reviewExempt = False\<rparr>),
    (OpKeyUpdateMetadata,
     \<lparr>os_class = ClassTenant, os_level = LevelProject, os_formula = [atom CapDefinitionsEdit
        LevelProject],
      os_storeOps = licensed [StoreProjectsGet, StoreProjectsLock, StoreCatalogueGet,
        StoreCatalogueUpdateMetadata, StoreCatalogueRevisionBump, StoreCataloguePresenceList,
        StoreAuditTenantInsert, StoreEnvironmentsList],
      os_postGrantForbidden = False, os_events = [EventRuleMoveWideningConfirmed, EventKeyMetadataChanged,
        EventScanningFindingBlocked, EventScanningFindingOverridden],
      os_auditedNone = False, os_reviewExempt = False\<rparr>),
    (OpKeySetGroup,
     \<lparr>os_class = ClassTenant, os_level = LevelProject, os_formula = [atom CapDefinitionsEdit
        LevelProject],
      os_storeOps = licensed [StoreEnvironmentsList, StoreProjectsGet, StoreProjectsLock, StoreCatalogueGet,
        StoreCatalogueGroupGet, StoreCatalogueList, StoreCataloguePresenceList, StoreCatalogueSetGroup,
        StoreCatalogueRevisionBump, StoreAuditTenantInsert],
      os_postGrantForbidden = False, os_events = [EventKeyGroupMembershipChanged],
      os_auditedNone = False, os_reviewExempt = False\<rparr>),
    (OpKeyDelete,
     \<lparr>os_class = ClassTenant, os_level = LevelProject, os_formula = [atom CapDefinitionsEdit
        LevelProject],
      os_storeOps = licensed [StorePendingDiscardKey, StoreEnvironmentsList, StoreProjectsGet,
        StoreProjectsLock, StoreCatalogueGet, StoreCataloguePresenceReplace, StoreCatalogueDelete,
        StoreValuesEnvironmentsWithValue, StoreCatalogueRevisionBump, StoreAuditTenantInsert,
        StoreScanningDismissalsDeleteByKey],
      os_postGrantForbidden = False, os_events = [EventRuleRevoked, EventKeyDeleted],
      os_auditedNone = False, os_reviewExempt = False\<rparr>)]"

definition operationTable5 :: "(Operation \<times> opSpec) list" where
  "operationTable5 = [
    (OpKeyReclassify,
     \<lparr>os_class = ClassTenant, os_level = LevelProject, os_formula = [atom CapDefinitionsEdit
        LevelProject],
      os_storeOps = licensed [StoreEnvironmentsList, StoreProjectsGet, StoreProjectsLock, StoreCatalogueGet,
        StoreCatalogueSetClassification, StoreCatalogueRevisionBump, StoreCatalogueAdapterPins,
        StoreCataloguePresenceList, StoreAuditTenantInsert, StoreScanningDismissalsDeleteByKey,
        StoreValuesEnvironmentsWithValue],
      os_postGrantForbidden = False, os_events = [EventKeyReclassified, EventScanningFindingWarned],
      os_auditedNone = False, os_reviewExempt = False\<rparr>),
    (OpKeySecretRuleChange,
     \<lparr>os_class = ClassTenant, os_level = LevelProject, os_formula = [atom CapReveal LevelProject],
      os_storeOps = licensed [],
      os_postGrantForbidden = False, os_events = [EventKeyRevealGateAttempt],
      os_auditedNone = False, os_reviewExempt = False\<rparr>),
    (OpKeyDeclassify,
     \<lparr>os_class = ClassTenant, os_level = LevelProject, os_formula = [atom CapReveal LevelProject],
      os_storeOps = licensed [],
      os_postGrantForbidden = False, os_events = [EventKeyRevealGateAttempt],
      os_auditedNone = False, os_reviewExempt = False\<rparr>),
    (OpDefinitionsExport,
     \<lparr>os_class = ClassTenant, os_level = LevelProject, os_formula = [atom CapRead LevelProject],
      os_storeOps = licensed [StoreProjectsGet, StoreEnvironmentsList, StoreCatalogueList,
        StoreCataloguePresenceList, StoreCatalogueGroupList, StoreCatalogueRevisionGet],
      os_postGrantForbidden = False, os_events = [],
      os_auditedNone = True, os_reviewExempt = False\<rparr>),
    (OpDefinitionsCheck,
     \<lparr>os_class = ClassTenant, os_level = LevelProject, os_formula = [atom CapRead LevelProject],
      os_storeOps = licensed [StoreProjectsGet, StoreEnvironmentsList, StoreCatalogueList,
        StoreCataloguePresenceList, StoreCatalogueGroupList, StoreCatalogueRevisionGet],
      os_postGrantForbidden = False, os_events = [],
      os_auditedNone = True, os_reviewExempt = False\<rparr>),
    (OpDefinitionsPlanCreate,
     \<lparr>os_class = ClassTenant, os_level = LevelProject, os_formula = [atom CapDefinitionsEdit
        LevelProject],
      os_storeOps = licensed [StoreProjectsGetCapacity, StoreProjectsLock, StoreProjectsGet,
        StoreEnvironmentsList, StoreEnvironmentsListProtection, StoreCatalogueList, StoreCataloguePresenceList,
        StoreCatalogueGroupList, StoreCatalogueRevisionGet, StoreSnapshotsProjectRevisions,
        StoreValuesCountEnvironment, StoreValuesEnvironmentsWithValue, StoreDefinitionsPlanCountOpen,
        StoreDefinitionsPlanCreate, StoreAuditTenantInsert],
      os_postGrantForbidden = False, os_events = [EventDefinitionsPlanCreated,
        EventDefinitionsAdditiveModificationRefused, EventScanningFindingBlocked,
        EventScanningFindingOverridden],
      os_auditedNone = False, os_reviewExempt = False\<rparr>),
    (OpDefinitionsPlanGet,
     \<lparr>os_class = ClassTenant, os_level = LevelProject, os_formula = [atom CapDefinitionsEdit
        LevelProject],
      os_storeOps = licensed [StoreDefinitionsPlanGet],
      os_postGrantForbidden = False, os_events = [],
      os_auditedNone = False, os_reviewExempt = True\<rparr>)]"

definition operationTable6 :: "(Operation \<times> opSpec) list" where
  "operationTable6 = [
    (OpDefinitionsApply,
     \<lparr>os_class = ClassTenant, os_level = LevelProject, os_formula = [atom CapDefinitionsEdit
        LevelProject],
      os_storeOps = licensed [StoreProjectsGetCapacity, StoreProjectsLock, StoreProjectsGet,
        StoreEnvironmentsList, StoreEnvironmentsListProtection, StoreEnvironmentsCount,
        StoreEnvironmentsNextOrder, StoreEnvironmentsCreate, StoreEnvironmentsRename, StoreEnvironmentsDelete,
        StoreCatalogueList, StoreCatalogueGet, StoreCatalogueCount, StoreCataloguePresenceList,
        StoreCatalogueGroupList, StoreCatalogueGroupGet, StoreCatalogueRevisionGet, StoreCatalogueRevisionBump,
        StoreCatalogueCreate, StoreCatalogueRename, StoreCatalogueUpdateMetadata,
        StoreCatalogueUpdateDeclaration, StoreCatalogueSetClassification, StoreCatalogueSetGroup,
        StoreCatalogueDelete, StoreCatalogueAdapterPins, StoreCataloguePresenceReplace,
        StoreCataloguePresenceCascade, StoreCatalogueGroupCreate, StoreCatalogueGroupRename,
        StoreCatalogueGroupDelete, StoreCatalogueGroupClearMembers, StoreValuesCountEnvironment,
        StoreValuesEnvironmentsWithValue, StoreValuesClearKey, StorePendingDiscardKey,
        StoreScanningDismissalsDeleteByKey, StoreSnapshotsProjectRevisions, StoreSnapshotsDeleteEnvironment,
        StorePinsDeleteEnvironment, StoreSSHPurgeEnvironment, StoreDefinitionsPlanGet,
        StoreDefinitionsPlanApply, StoreAuditTenantInsert],
      os_postGrantForbidden = False, os_events = [EventRuleMoveWideningConfirmed, EventRuleRevoked,
        EventDefinitionsApplied, EventGrantRevoked, EventDefinitionsApplyRejectedStale,
        EventDefinitionsDeletionRefused, EventEnvCreated, EventEnvRenamed, EventEnvDeleted,
        EventKeyGroupCreated, EventKeyGroupRenamed, EventKeyGroupDeleted, EventKeyCreated, EventKeyRenamed,
        EventKeyDeleted, EventKeyMetadataChanged, EventKeyDeclarationChanged, EventKeyReclassified,
        EventKeyGroupMembershipChanged, EventScanningFindingBlocked, EventScanningFindingOverridden],
      os_auditedNone = False, os_reviewExempt = False\<rparr>),
    (OpDefinitionsSettingsGet,
     \<lparr>os_class = ClassTenant, os_level = LevelProject, os_formula = [atom CapRead LevelProject],
      os_storeOps = licensed [StoreProjectsGet, StoreDefinitionsLatestAppliedPlan, StoreEnvironmentsList],
      os_postGrantForbidden = False, os_events = [],
      os_auditedNone = True, os_reviewExempt = False\<rparr>),
    (OpDefinitionsSettingsSet,
     \<lparr>os_class = ClassTenant, os_level = LevelProject, os_formula = [atom CapProjectSettings
        LevelProject],
      os_storeOps = licensed [StoreProjectsGet, StoreProjectsSetDefinitionsSource,
        StoreDefinitionsLatestAppliedPlan, StoreAuditTenantInsert],
      os_postGrantForbidden = False, os_events = [EventSettingsDefinitionsSourceChanged],
      os_auditedNone = False, os_reviewExempt = False\<rparr>),
    (OpProjectCapacityRead,
     \<lparr>os_class = ClassTenant, os_level = LevelProject, os_formula = [atom CapProjectSettings
        LevelProject],
      os_storeOps = licensed [StoreProjectsGetCapacity, StoreCatalogueCount, StoreEnvironmentsCount],
      os_postGrantForbidden = False, os_events = [],
      os_auditedNone = False, os_reviewExempt = True\<rparr>),
    (OpProjectCapacitySet,
     \<lparr>os_class = ClassTenant, os_level = LevelProject, os_formula = [atom CapProjectSettings
        LevelProject],
      os_storeOps = licensed [StoreProjectsLock, StoreProjectsGetCapacity, StoreProjectsSetCapacity,
        StoreCatalogueCount, StoreEnvironmentsCount, StoreAuditTenantInsert],
      os_postGrantForbidden = False, os_events = [EventProjectCapacityChanged],
      os_auditedNone = False, os_reviewExempt = False\<rparr>),
    (OpProjectMachineRevealGet,
     \<lparr>os_class = ClassTenant, os_level = LevelProject, os_formula = [atom CapRead LevelProject],
      os_storeOps = licensed [StoreProjectsGet],
      os_postGrantForbidden = False, os_events = [],
      os_auditedNone = True, os_reviewExempt = False\<rparr>),
    (OpProjectMachineRevealSet,
     \<lparr>os_class = ClassTenant, os_level = LevelProject, os_formula = [atom CapProjectSettings
        LevelProject, atom CapReveal LevelProject],
      os_storeOps = licensed [StoreProjectsGet, StoreProjectsSetMachineReveal, StoreAuditTenantInsert],
      os_postGrantForbidden = False, os_events = [EventSettingsMachineRevealChanged],
      os_auditedNone = False, os_reviewExempt = False\<rparr>),
    (OpValueRead,
     \<lparr>os_class = ClassTenant, os_level = LevelEnv, os_formula = [atom CapRead LevelEnv],
      os_storeOps = licensed [StoreCatalogueList, StoreValuesGet],
      os_postGrantForbidden = False, os_events = [],
      os_auditedNone = True, os_reviewExempt = False\<rparr>)]"

definition operationTable7 :: "(Operation \<times> opSpec) list" where
  "operationTable7 = [
    (OpValueList,
     \<lparr>os_class = ClassTenant, os_level = LevelEnv, os_formula = [atom CapRead LevelEnv],
      os_storeOps = licensed [StoreEnvironmentParametersGet, StoreCatalogueList, StoreValuesList,
        StoreValuesGet, StoreCataloguePresenceList, StoreCatalogueListPage],
      os_postGrantForbidden = False, os_events = [],
      os_auditedNone = True, os_reviewExempt = False\<rparr>),
    (OpRevealWindowRead,
     \<lparr>os_class = ClassTenant, os_level = LevelEnv, os_formula = [atom CapRead LevelEnv],
      os_storeOps = licensed [],
      os_postGrantForbidden = False, os_events = [],
      os_auditedNone = True, os_reviewExempt = False\<rparr>),
    (OpValueReveal,
     \<lparr>os_class = ClassTenant, os_level = LevelEnv, os_formula = [atom CapRead LevelEnv, atom CapReveal
        LevelEnv],
      os_storeOps = licensed [StoreCatalogueList, StoreValuesGet, StoreValuesList, StoreAuditTenantInsert],
      os_postGrantForbidden = False, os_events = [EventValueRevealed],
      os_auditedNone = False, os_reviewExempt = False\<rparr>),
    (OpValueSet,
     \<lparr>os_class = ClassTenant, os_level = LevelEnv, os_formula = [atom CapEdit LevelEnv, atom CapPublish
        LevelEnv],
      os_storeOps = licensed [StoreEnvironmentParametersGet, StoreProjectsLock, StoreCatalogueList,
        StoreCataloguePresenceList, StoreValuesPut, StoreKeysAssertActiveDEKVersion, StoreAuditTenantInsert],
      os_postGrantForbidden = False, os_events = [EventValueSet, EventScanningFindingWarned],
      os_auditedNone = False, os_reviewExempt = False\<rparr>),
    (OpValueInitialize,
     \<lparr>os_class = ClassTenant, os_level = LevelEnv, os_formula = [atom CapDefinitionsEdit LevelEnv, atom
        CapPublish LevelEnv],
      os_storeOps = licensed [StoreProjectsLock, StoreCatalogueList, StoreValuesGet, StoreSnapshotsLatest,
        StorePendingStage, StoreAuditTenantInsert, StorePendingCountForProjectExcludingCell,
        StoreScanningDismissalsExists, StoreScanningDismissalsInsert, StoreKeysAssertActiveDEKVersion],
      os_postGrantForbidden = False, os_events = [EventValueStaged, EventScanningFindingWarned,
        EventScanningFindingDismissed],
      os_auditedNone = False, os_reviewExempt = False\<rparr>),
    (OpValueClear,
     \<lparr>os_class = ClassTenant, os_level = LevelEnv, os_formula = [atom CapEdit LevelEnv, atom CapPublish
        LevelEnv],
      os_storeOps = licensed [StoreProjectsLock, StoreCatalogueList, StoreCataloguePresenceList,
        StoreValuesClear, StoreAuditTenantInsert],
      os_postGrantForbidden = False, os_events = [EventValueCleared],
      os_auditedNone = False, os_reviewExempt = False\<rparr>),
    (OpValueCopySource,
     \<lparr>os_class = ClassTenant, os_level = LevelEnv, os_formula = [atom CapReveal LevelEnv],
      os_storeOps = licensed [StoreCatalogueList, StoreValuesGet, StoreValuesList, StoreAuditTenantInsert],
      os_postGrantForbidden = False, os_events = [EventValueRevealed],
      os_auditedNone = False, os_reviewExempt = False\<rparr>)]"

definition operationTable8 :: "(Operation \<times> opSpec) list" where
  "operationTable8 = [
    (OpValueCopyDestination,
     \<lparr>os_class = ClassTenant, os_level = LevelEnv, os_formula = [atom CapReveal LevelEnv, atom CapPublish
        LevelEnv],
      os_storeOps = licensed [StoreEnvironmentParametersGet, StoreProjectsLock, StoreCatalogueList,
        StoreCataloguePresenceList, StoreEnvironmentsGetSettings, StoreApprovalPolicyCovering, StoreValuesPut,
        StoreKeysAssertActiveDEKVersion, StoreAuditTenantInsert],
      os_postGrantForbidden = False, os_events = [EventValueCopied],
      os_auditedNone = False, os_reviewExempt = False\<rparr>),
    (OpValueCopyDestinationConfig,
     \<lparr>os_class = ClassTenant, os_level = LevelEnv, os_formula = [atom CapPublish LevelEnv],
      os_storeOps = licensed [StoreEnvironmentParametersGet, StoreProjectsLock, StoreCatalogueList,
        StoreCataloguePresenceList, StoreEnvironmentsGetSettings, StoreApprovalPolicyCovering, StoreValuesPut,
        StoreKeysAssertActiveDEKVersion, StoreAuditTenantInsert],
      os_postGrantForbidden = False, os_events = [EventValueCopied, EventScanningFindingWarned],
      os_auditedNone = False, os_reviewExempt = False\<rparr>),
    (OpImportPresence,
     \<lparr>os_class = ClassTenant, os_level = LevelEnv, os_formula = [atom CapRead LevelProject],
      os_storeOps = licensed [StoreCatalogueList, StoreValuesList, StoreCatalogueRevisionGet],
      os_postGrantForbidden = False, os_events = [],
      os_auditedNone = True, os_reviewExempt = False\<rparr>),
    (OpValueImport,
     \<lparr>os_class = ClassTenant, os_level = LevelEnv, os_formula = [atom CapRead LevelProject, atom CapEdit
        LevelEnv, atom CapPublish LevelEnv],
      os_storeOps = licensed [StoreEnvironmentParametersGet, StoreProjectsLock, StoreCatalogueList,
        StoreCataloguePresenceList, StoreCatalogueRevisionGet, StoreValuesList, StoreValuesPut,
        StoreKeysAssertActiveDEKVersion, StoreAuditTenantInsert],
      os_postGrantForbidden = False, os_events = [EventValueSet, EventValueImported,
        EventScanningFindingWarned],
      os_auditedNone = False, os_reviewExempt = False\<rparr>),
    (OpValueStage,
     \<lparr>os_class = ClassTenant, os_level = LevelEnv, os_formula = [atom CapEdit LevelEnv],
      os_storeOps = licensed [StoreProjectsLock, StoreCatalogueList, StoreValuesGet, StoreSnapshotsLatest,
        StorePendingStage, StoreAuditTenantInsert, StorePendingCountForProjectExcludingCell,
        StoreScanningDismissalsExists, StoreScanningDismissalsInsert, StoreKeysAssertActiveDEKVersion],
      os_postGrantForbidden = False, os_events = [EventValueStaged, EventScanningFindingWarned,
        EventScanningFindingDismissed],
      os_auditedNone = False, os_reviewExempt = False\<rparr>),
    (OpValueValidate,
     \<lparr>os_class = ClassTenant, os_level = LevelEnv, os_formula = [atom CapEdit LevelEnv],
      os_storeOps = licensed [StoreCatalogueList, StoreCataloguePresenceList, StoreEnvironmentParametersGet,
        StoreAuditTenantInsert],
      os_postGrantForbidden = False, os_events = [EventValueChangeValidated],
      os_auditedNone = False, os_reviewExempt = False\<rparr>)]"

definition operationTable9 :: "(Operation \<times> opSpec) list" where
  "operationTable9 = [
    (OpValuePublish,
     \<lparr>os_class = ClassTenant, os_level = LevelEnv, os_formula = [atom CapPublish LevelEnv],
      os_storeOps = licensed [StoreProjectsLock, StoreCatalogueList, StoreCataloguePresenceList,
        StoreCatalogueRevisionGet, StoreValuesList, StoreValuesPut, StoreValuesClear, StorePendingListForOwner,
        StorePendingListMarkers, StorePendingDiscard, StoreSnapshotsLatest, StoreSnapshotsEntries,
        StoreSnapshotsInsert, StoreSnapshotsInsertEntry, StoreEnvironmentParametersGet,
        StoreSnapshotsRecordSecretValueOccurrence, StoreSnapshotsInsertChange, StoreAdaptersEnqueuePublished,
        StoreKeysAssertActiveDEKVersion, StoreAuditTenantInsert, StoreValuesPayloadBytesForProject,
        StoreSnapshotsPayloadBytesForProject, StoreApprovalPolicyCovering, StoreApprovalPolicyGet,
        StoreApprovalRequestInsert, StoreApprovalRequestGet, StoreApprovalRequestUpdateState,
        StoreApprovalVoteList, StoreApprovalApproverList, StoreApprovalBypasserGet, StoreSCIMUserByAccount,
        StoreSCIMMembershipsForUser],
      os_postGrantForbidden = True, os_events = [EventRevisionPublished, EventValueSet, EventValueCleared,
        EventAdapterSyncRequested, EventAdapterSuperseded, EventScanningFindingWarned, EventApprovalRequested,
        EventApprovalMerged, EventApprovalInvalidated, EventApprovalBypassed],
      os_auditedNone = False, os_reviewExempt = False\<rparr>),
    (OpKeySchemaPublishEmpty,
     \<lparr>os_class = ClassTenant, os_level = LevelEnv, os_formula = [atom CapDefinitionsEdit LevelProject],
      os_storeOps = licensed [StoreCatalogueList, StoreCataloguePresenceList, StoreCatalogueRevisionGet,
        StoreValuesList, StoreSnapshotsLatest, StoreSnapshotsEntries, StoreSnapshotsInsert,
        StoreSnapshotsInsertEntry, StoreSnapshotsRecordSecretValueOccurrence, StoreSnapshotsInsertChange,
        StoreEnvironmentParametersGet, StoreAdaptersEnqueuePublished, StoreKeysAssertActiveDEKVersion,
        StoreAuditTenantInsert, StoreValuesPayloadBytesForProject, StoreSnapshotsPayloadBytesForProject],
      os_postGrantForbidden = False, os_events = [EventRevisionPublished, EventValueSet, EventValueCleared,
        EventAdapterSyncRequested, EventAdapterSuperseded],
      os_auditedNone = False, os_reviewExempt = False\<rparr>),
    (OpKeySchemaPublishValues,
     \<lparr>os_class = ClassTenant, os_level = LevelEnv, os_formula = [atom CapDefinitionsEdit LevelEnv, atom
        CapPublish LevelEnv],
      os_storeOps = licensed [StoreCatalogueList, StoreCataloguePresenceList, StoreCatalogueRevisionGet,
        StoreValuesList, StoreSnapshotsLatest, StoreSnapshotsEntries, StoreSnapshotsInsert,
        StoreSnapshotsInsertEntry, StoreSnapshotsRecordSecretValueOccurrence, StoreSnapshotsInsertChange,
        StoreEnvironmentParametersGet, StoreAdaptersEnqueuePublished, StoreKeysAssertActiveDEKVersion,
        StoreAuditTenantInsert, StoreValuesPayloadBytesForProject, StoreSnapshotsPayloadBytesForProject],
      os_postGrantForbidden = False, os_events = [EventRevisionPublished, EventValueSet, EventValueCleared,
        EventAdapterSyncRequested, EventAdapterSuperseded],
      os_auditedNone = False, os_reviewExempt = False\<rparr>),
    (OpApprovalPolicyWrite,
     \<lparr>os_class = ClassTenant, os_level = LevelProject, os_formula = [atom CapProjectSettings
        LevelProject],
      os_storeOps = licensed [StoreApprovalPolicyInsert, StoreApprovalPolicyGet, StoreApprovalPolicyList,
        StoreApprovalPolicyUpdate, StoreApprovalPolicyDelete, StoreApprovalApproverInsert,
        StoreApprovalApproverList, StoreApprovalApproverClear, StoreApprovalBypasserInsert,
        StoreApprovalBypasserList, StoreApprovalBypasserClear, StoreAuditTenantInsert],
      os_postGrantForbidden = False, os_events = [EventApprovalPolicyChanged],
      os_auditedNone = False, os_reviewExempt = False\<rparr>),
    (OpApprovalPolicyRead,
     \<lparr>os_class = ClassTenant, os_level = LevelProject, os_formula = [atom CapProjectSettings
        LevelProject],
      os_storeOps = licensed [StoreApprovalPolicyGet, StoreApprovalPolicyList, StoreApprovalApproverList,
        StoreApprovalBypasserList, StoreAuditTenantInsert],
      os_postGrantForbidden = False, os_events = [EventApprovalPolicyRead],
      os_auditedNone = False, os_reviewExempt = False\<rparr>)]"

definition operationTable10 :: "(Operation \<times> opSpec) list" where
  "operationTable10 = [
    (OpApprovalRequestRead,
     \<lparr>os_class = ClassTenant, os_level = LevelEnv, os_formula = [atom CapRead LevelEnv],
      os_storeOps = licensed [StoreApprovalRequestGet, StoreApprovalRequestList, StoreApprovalVoteList,
        StoreApprovalPolicyGet, StoreApprovalPolicyCovering, StoreApprovalApproverList,
        StoreApprovalBypasserList, StoreSCIMUserByAccount, StoreSCIMMembershipsForUser],
      os_postGrantForbidden = False, os_events = [],
      os_auditedNone = True, os_reviewExempt = False\<rparr>),
    (OpApprovalVote,
     \<lparr>os_class = ClassTenant, os_level = LevelEnv, os_formula = [atom CapPublish LevelEnv],
      os_storeOps = licensed [StoreApprovalRequestGet, StoreApprovalRequestUpdateState, StoreApprovalVoteGet,
        StoreApprovalVoteInsert, StoreApprovalVoteList, StoreApprovalPolicyGet, StoreApprovalApproverList,
        StorePendingListForOwner, StorePendingListMarkers, StoreCatalogueList, StoreCatalogueRevisionGet,
        StoreSnapshotsLatest, StoreSCIMUserByAccount, StoreSCIMMembershipsForUser, StoreAuditTenantInsert],
      os_postGrantForbidden = True, os_events = [EventApprovalVoted, EventApprovalInvalidated],
      os_auditedNone = False, os_reviewExempt = False\<rparr>),
    (OpApprovalBypass,
     \<lparr>os_class = ClassTenant, os_level = LevelEnv, os_formula = [atom CapPublish LevelEnv],
      os_storeOps = licensed [StoreApprovalBypasserGet, StoreApprovalRequestGet,
        StoreApprovalRequestUpdateState, StoreAuditTenantInsert],
      os_postGrantForbidden = False, os_events = [EventApprovalBypassed],
      os_auditedNone = False, os_reviewExempt = False\<rparr>),
    (OpAccessPolicyWrite,
     \<lparr>os_class = ClassTenant, os_level = LevelProject, os_formula = [atom CapManageMembers LevelProject],
      os_storeOps = licensed [StoreAccessPolicyInsert, StoreAccessPolicyGet, StoreAccessPolicyList,
        StoreAccessPolicyUpdate, StoreAccessPolicyDelete, StoreAccessPolicyCovering, StoreAccessApproverInsert,
        StoreAccessApproverList, StoreAccessApproverClear, StoreAccessBypasserInsert, StoreAccessBypasserList,
        StoreAccessBypasserClear, StoreAuditTenantInsert],
      os_postGrantForbidden = False, os_events = [EventAccessPolicyChanged],
      os_auditedNone = False, os_reviewExempt = False\<rparr>),
    (OpAccessPolicyRead,
     \<lparr>os_class = ClassTenant, os_level = LevelProject, os_formula = [atom CapManageMembers LevelProject],
      os_storeOps = licensed [StoreAccessPolicyGet, StoreAccessPolicyList, StoreAccessApproverList,
        StoreAccessBypasserList, StoreAuditTenantInsert],
      os_postGrantForbidden = False, os_events = [EventAccessPolicyRead],
      os_auditedNone = False, os_reviewExempt = False\<rparr>),
    (OpAccessRequestCreate,
     \<lparr>os_class = ClassTenant, os_level = LevelEnv, os_formula = [atom CapRead LevelEnv],
      os_storeOps = licensed [StoreAccessPolicyCovering, StoreAccessRequestInsert, StoreAccessRequestGet,
        StoreAccessVoteList, StoreAccessPolicyGet, StoreAccessApproverList, StoreSCIMUserByAccount,
        StoreSCIMMembershipsForUser, StoreAuditTenantInsert],
      os_postGrantForbidden = True, os_events = [EventAccessRequested],
      os_auditedNone = False, os_reviewExempt = False\<rparr>),
    (OpAccessRequestRead,
     \<lparr>os_class = ClassTenant, os_level = LevelEnv, os_formula = [atom CapRead LevelEnv],
      os_storeOps = licensed [StoreAccessRequestGet, StoreAccessRequestList, StoreAccessVoteList,
        StoreAccessPolicyGet, StoreAccessPolicyCovering, StoreAccessApproverList, StoreAccessBypasserGet,
        StoreSCIMUserByAccount, StoreSCIMMembershipsForUser],
      os_postGrantForbidden = False, os_events = [],
      os_auditedNone = True, os_reviewExempt = False\<rparr>)]"

definition operationTable11 :: "(Operation \<times> opSpec) list" where
  "operationTable11 = [
    (OpAccessVote,
     \<lparr>os_class = ClassTenant, os_level = LevelEnv, os_formula = [atom CapRead LevelEnv],
      os_storeOps = licensed [StoreAccessRequestGet, StoreAccessRequestGrant, StoreAccessRequestResolve,
        StoreAccessVoteGet, StoreAccessVoteInsert, StoreAccessVoteList, StoreAccessPolicyGet,
        StoreAccessApproverList, StoreSCIMUserByAccount, StoreSCIMMembershipsForUser, StoreAuditTenantInsert],
      os_postGrantForbidden = True, os_events = [EventAccessVoted, EventAccessGranted, EventAccessInvalidated],
      os_auditedNone = False, os_reviewExempt = False\<rparr>),
    (OpAccessCancel,
     \<lparr>os_class = ClassTenant, os_level = LevelEnv, os_formula = [atom CapRead LevelEnv],
      os_storeOps = licensed [StoreAccessRequestGet, StoreAccessRequestResolve, StoreAuditTenantInsert],
      os_postGrantForbidden = True, os_events = [EventAccessCancelled],
      os_auditedNone = False, os_reviewExempt = False\<rparr>),
    (OpAccessRevoke,
     \<lparr>os_class = ClassTenant, os_level = LevelEnv, os_formula = [atom CapRead LevelEnv],
      os_storeOps = licensed [StoreAccessRequestGet, StoreAccessRequestResolve, StoreAccessPolicyGet,
        StoreAccessApproverList, StoreSCIMUserByAccount, StoreSCIMMembershipsForUser, StoreAuditTenantInsert],
      os_postGrantForbidden = True, os_events = [EventAccessRevoked],
      os_auditedNone = False, os_reviewExempt = False\<rparr>),
    (OpAccessBypass,
     \<lparr>os_class = ClassTenant, os_level = LevelEnv, os_formula = [atom CapRead LevelEnv],
      os_storeOps = licensed [StoreAccessPolicyCovering, StoreAccessBypasserGet, StoreAccessRequestInsert,
        StoreAccessRequestGet, StoreCatalogueList, StoreAuditTenantInsert],
      os_postGrantForbidden = True, os_events = [EventAccessBypassed],
      os_auditedNone = False, os_reviewExempt = False\<rparr>),
    (OpValueExport,
     \<lparr>os_class = ClassTenant, os_level = LevelEnv, os_formula = [atom CapRead LevelEnv],
      os_storeOps = licensed [StoreSnapshotsLatest, StoreSnapshotsAtRevision, StoreSnapshotsEntries,
        StoreSnapshotsParameterContract, StoreSnapshotsSecretValueOccurrenceIDsIn, StoreCatalogueList,
        StoreAuditTenantInsert],
      os_postGrantForbidden = False, os_events = [EventValuesExported],
      os_auditedNone = False, os_reviewExempt = False\<rparr>),
    (OpValueExportReveal,
     \<lparr>os_class = ClassTenant, os_level = LevelEnv, os_formula = [atom CapRead LevelEnv, atom CapReveal
        LevelEnv],
      os_storeOps = licensed [StoreSnapshotsLatest, StoreSnapshotsAtRevision, StoreSnapshotsEntries,
        StoreSnapshotsParameterContract, StoreSnapshotsSecretValueOccurrenceIDsIn, StoreCatalogueList,
        StoreAuditTenantInsert],
      os_postGrantForbidden = False, os_events = [EventValueRevealed, EventValuesExported],
      os_auditedNone = False, os_reviewExempt = False\<rparr>),
    (OpValueExportRevealHistory,
     \<lparr>os_class = ClassTenant, os_level = LevelEnv, os_formula = [atom CapRead LevelEnv, atom
        CapRevealHistory LevelEnv],
      os_storeOps = licensed [StoreSnapshotsLatest, StoreSnapshotsAtRevision, StoreSnapshotsEntries,
        StoreSnapshotsParameterContract, StoreSnapshotsSecretValueOccurrenceIDsIn, StoreCatalogueList,
        StoreAuditTenantInsert],
      os_postGrantForbidden = False, os_events = [EventValueRevealed, EventValuesExported],
      os_auditedNone = False, os_reviewExempt = False\<rparr>),
    (OpRotateTokenKey,
     \<lparr>os_class = ClassInstance, os_level = LevelNone, os_formula = [atom CapRotateDEK LevelNone],
      os_storeOps = licensed [StoreKeysRotateTokenKey, StoreAuditInstanceInsert],
      os_postGrantForbidden = False, os_events = [EventTokenKeyRotated],
      os_auditedNone = False, os_reviewExempt = False\<rparr>),
    (OpRotateScanningKey,
     \<lparr>os_class = ClassInstance, os_level = LevelNone, os_formula = [atom CapRotateDEK LevelNone],
      os_storeOps = licensed [StoreKeysRotateScanningKey, StoreScanningDismissalsDeleteAll,
        StoreAuditInstanceInsert],
      os_postGrantForbidden = False, os_events = [EventScanningKeyRotated],
      os_auditedNone = False, os_reviewExempt = False\<rparr>),
    (OpRotateDEK,
     \<lparr>os_class = ClassInstance, os_level = LevelNone, os_formula = [atom CapRotateDEK LevelNone],
      os_storeOps = licensed [StoreKeysRotateDEK, StoreAuditInstanceInsert],
      os_postGrantForbidden = False, os_events = [EventDEKRotated],
      os_auditedNone = False, os_reviewExempt = False\<rparr>)]"

definition operationTable12 :: "(Operation \<times> opSpec) list" where
  "operationTable12 = [
    (OpReencryptProject,
     \<lparr>os_class = ClassTenant, os_level = LevelProject, os_formula = [atom CapReencrypt LevelNone],
      os_storeOps = licensed [StoreValuesListForReencrypt, StoreValuesReencrypt, StoreSnapshotsListForReencrypt,
        StoreSnapshotsReencrypt, StorePendingListForReencrypt, StorePendingReencrypt,
        StoreAdaptersListForReencrypt, StoreAdaptersReencrypt, StoreAdaptersListMovesForReencrypt,
        StoreAdaptersReencryptMove, StoreDynamicProvidersListForReencrypt, StoreDynamicProvidersReencrypt,
        StoreSSHListCAKeysForReencrypt, StoreSSHReencryptCAKey, StoreTransitVersionsListForReencrypt,
        StoreTransitVersionsReencrypt, StoreKeysAssertActiveDEKVersion, StoreKeysRetireRetiringTier3,
        StoreReencryptSuccessWrite, StoreAuditTenantInsert],
      os_postGrantForbidden = False, os_events = [EventReencryptCompleted],
      os_auditedNone = False, os_reviewExempt = False\<rparr>),
    (OpReencryptInstance,
     \<lparr>os_class = ClassInstance, os_level = LevelNone, os_formula = [atom CapReencrypt LevelNone],
      os_storeOps = licensed [StoreReencryptListPasswordCreds, StoreReencryptPasswordCred,
        StoreReencryptListTotpCreds, StoreReencryptTotpCred, StoreReencryptListRecoveryCodes,
        StoreReencryptRecoveryCodes, StoreReencryptListOidcProviders, StoreReencryptOidcProvider,
        StoreReencryptListOauth2Providers, StoreReencryptOauth2Provider, StoreReencryptListSamlKeys,
        StoreReencryptSamlKey, StoreReencryptListSelfConfigSeedInputs, StoreReencryptSelfConfigSeedInput,
        StoreReencryptListPairingInvites, StoreReencryptPairingInvites, StoreReencryptListPairingExchanges,
        StoreReencryptPairingExchanges, StoreReencryptListRemotes, StoreReencryptRemote,
        StoreReencryptListPkiIssuers, StoreReencryptPkiIssuer, StoreKeysAssertActiveDEKVersion,
        StoreKeysRetireRetiringTier3, StoreReencryptSuccessWrite, StoreAuditInstanceInsert],
      os_postGrantForbidden = False, os_events = [EventReencryptCompleted],
      os_auditedNone = False, os_reviewExempt = False\<rparr>),
    (OpRotateMasterKey,
     \<lparr>os_class = ClassInstance, os_level = LevelNone, os_formula = [atom CapRotateMasterKey LevelNone],
      os_storeOps = licensed [StoreKeysRotateMasterKey, StoreAuditInstanceInsert],
      os_postGrantForbidden = False, os_events = [EventMasterKeyRotated],
      os_auditedNone = False, os_reviewExempt = False\<rparr>),
    (OpRotateRootKey,
     \<lparr>os_class = ClassInstance, os_level = LevelNone, os_formula = [atom CapRotateRootKey LevelNone],
      os_storeOps = licensed [StoreKeysRootRotatePrepare, StoreKeysAssertRootKeyEpoch,
        StoreKeysRootRotateFinalize, StoreAuditInstanceInsert],
      os_postGrantForbidden = False, os_events = [EventRootKeyRotationPrepared, EventRootKeyRotationVerified,
        EventRootKeyRotationFinalized],
      os_auditedNone = False, os_reviewExempt = False\<rparr>),
    (OpRevisionList,
     \<lparr>os_class = ClassTenant, os_level = LevelEnv, os_formula = [atom CapRead LevelEnv],
      os_storeOps = licensed [StoreSnapshotsListPage, StoreSnapshotsChangesInRange],
      os_postGrantForbidden = False, os_events = [],
      os_auditedNone = True, os_reviewExempt = False\<rparr>),
    (OpRevisionShow,
     \<lparr>os_class = ClassTenant, os_level = LevelEnv, os_formula = [atom CapRead LevelEnv],
      os_storeOps = licensed [StoreSnapshotsLatest, StoreSnapshotsAtRevision, StoreSnapshotsEntries,
        StoreSnapshotsChanges, StoreSnapshotsSecretValueOccurrenceIDsIn],
      os_postGrantForbidden = False, os_events = [],
      os_auditedNone = True, os_reviewExempt = False\<rparr>),
    (OpValuePendingList,
     \<lparr>os_class = ClassTenant, os_level = LevelEnv, os_formula = [atom CapRead LevelEnv],
      os_storeOps = licensed [StoreEnvironmentParametersGet, StoreCatalogueList, StoreCataloguePresenceList,
        StorePendingListForOwnerInEnvironment, StorePendingListForOwnerInEnvironmentPage,
        StoreCatalogueGetInProject, StoreCataloguePresenceForKey],
      os_postGrantForbidden = False, os_events = [],
      os_auditedNone = True, os_reviewExempt = False\<rparr>),
    (OpRevisionSignals,
     \<lparr>os_class = ClassTenant, os_level = LevelEnv, os_formula = [atom CapRead LevelEnv],
      os_storeOps = licensed [StoreCatalogueList, StorePendingListMarkers, StoreSnapshotsLatest,
        StoreSnapshotsChanges],
      os_postGrantForbidden = False, os_events = [],
      os_auditedNone = True, os_reviewExempt = False\<rparr>)]"

definition operationTable13 :: "(Operation \<times> opSpec) list" where
  "operationTable13 = [
    (OpRevisionRestore,
     \<lparr>os_class = ClassTenant, os_level = LevelEnv, os_formula = [atom CapEdit LevelEnv],
      os_storeOps = licensed [StoreProjectsLock, StoreCatalogueList, StoreCatalogueRevisionGet, StoreValuesList,
        StoreSnapshotsLatest, StoreSnapshotsAtRevision, StoreSnapshotsEntries,
        StoreSnapshotsSecretValueOccurrenceIDsIn, StorePendingListForOwner, StorePendingListMarkers,
        StorePendingStage, StoreKeysAssertActiveDEKVersion, StoreAuditTenantInsert],
      os_postGrantForbidden = False, os_events = [EventValueStaged, EventRevisionRestoreStaged,
        EventValueRevealed],
      os_auditedNone = False, os_reviewExempt = False\<rparr>),
    (OpRevisionRestoreHistory,
     \<lparr>os_class = ClassTenant, os_level = LevelEnv, os_formula = [atom CapRead LevelEnv, atom
        CapRevealHistory LevelEnv],
      os_storeOps = licensed [],
      os_postGrantForbidden = False, os_events = [EventValueStaged, EventRevisionRestoreStaged],
      os_auditedNone = False, os_reviewExempt = False\<rparr>),
    (OpRevisionRestoreCurrent,
     \<lparr>os_class = ClassTenant, os_level = LevelEnv, os_formula = [atom CapRead LevelEnv, atom CapReveal
        LevelEnv],
      os_storeOps = licensed [],
      os_postGrantForbidden = False, os_events = [EventValueStaged, EventRevisionRestoreStaged],
      os_auditedNone = False, os_reviewExempt = False\<rparr>),
    (OpPinSet,
     \<lparr>os_class = ClassTenant, os_level = LevelEnv, os_formula = [atom CapPin LevelEnv, atom CapPublish
        LevelEnv],
      os_storeOps = licensed [StoreSnapshotsParameterContract, StoreOrgsGet, StoreProjectsGet,
        StoreProjectsLock, StoreCatalogueList, StoreCataloguePresenceList, StoreSnapshotsLatest,
        StoreSnapshotsAtRevision, StoreSnapshotsEntries, StoreSnapshotsList,
        StoreSnapshotsSecretValueOccurrenceIDsIn, StorePinsGetForWorkload, StorePinsCountProject,
        StorePinsInsert, StorePinsDelete, StorePinsList, StoreAuditTenantInsert],
      os_postGrantForbidden = False, os_events = [EventPinCreated, EventPinReassigned, EventPinRenewed,
        EventPinExpiryRefused, EventValueRevealed],
      os_auditedNone = False, os_reviewExempt = False\<rparr>),
    (OpPinSetHistory,
     \<lparr>os_class = ClassTenant, os_level = LevelEnv, os_formula = [atom CapRevealHistory LevelEnv],
      os_storeOps = licensed [],
      os_postGrantForbidden = False, os_events = [EventPinCreated, EventPinReassigned, EventPinRenewed],
      os_auditedNone = False, os_reviewExempt = False\<rparr>),
    (OpPinList,
     \<lparr>os_class = ClassTenant, os_level = LevelEnv, os_formula = [atom CapRead LevelEnv],
      os_storeOps = licensed [StoreOrgsGet, StoreProjectsGet, StoreSnapshotsList, StorePinsList],
      os_postGrantForbidden = False, os_events = [],
      os_auditedNone = True, os_reviewExempt = False\<rparr>),
    (OpPinRelease,
     \<lparr>os_class = ClassTenant, os_level = LevelEnv, os_formula = [atom CapPin LevelEnv],
      os_storeOps = licensed [StoreOrgsGet, StoreOrgsLock, StoreProjectsGet, StoreProjectsLock,
        StoreSnapshotsList, StorePinsGetForWorkload, StorePinsList, StorePinsDelete, StoreRetentionSnapshotLock,
        StoreAuditTenantInsert],
      os_postGrantForbidden = False, os_events = [EventPinReleased],
      os_auditedNone = False, os_reviewExempt = False\<rparr>),
    (OpAdvisoryWatch,
     \<lparr>os_class = ClassTenant, os_level = LevelProject, os_formula = [atom CapRead LevelProject],
      os_storeOps = licensed [],
      os_postGrantForbidden = False, os_events = [],
      os_auditedNone = True, os_reviewExempt = False\<rparr>),
    (OpAdvisoryEvent,
     \<lparr>os_class = ClassTenant, os_level = LevelEnv, os_formula = [atom CapRead LevelEnv],
      os_storeOps = licensed [],
      os_postGrantForbidden = False, os_events = [],
      os_auditedNone = True, os_reviewExempt = False\<rparr>),
    (OpKeyGroupCreate,
     \<lparr>os_class = ClassTenant, os_level = LevelProject, os_formula = [atom CapDefinitionsEdit
        LevelProject],
      os_storeOps = licensed [StoreEnvironmentsList, StoreProjectsGet, StoreProjectsLock,
        StoreCatalogueGroupCount, StoreCatalogueGroupCreate, StoreCatalogueRevisionBump,
        StoreAuditTenantInsert],
      os_postGrantForbidden = False, os_events = [EventKeyGroupCreated, EventScanningFindingBlocked,
        EventScanningFindingOverridden],
      os_auditedNone = False, os_reviewExempt = False\<rparr>),
    (OpKeyGroupGet,
     \<lparr>os_class = ClassTenant, os_level = LevelProject, os_formula = [atom CapRead LevelProject],
      os_storeOps = licensed [StoreCatalogueGroupGet, StoreCatalogueList],
      os_postGrantForbidden = False, os_events = [],
      os_auditedNone = True, os_reviewExempt = False\<rparr>),
    (OpKeyGroupList,
     \<lparr>os_class = ClassTenant, os_level = LevelProject, os_formula = [atom CapRead LevelProject],
      os_storeOps = licensed [StoreCatalogueGroupList, StoreCatalogueList],
      os_postGrantForbidden = False, os_events = [],
      os_auditedNone = True, os_reviewExempt = False\<rparr>)]"

definition operationTable14 :: "(Operation \<times> opSpec) list" where
  "operationTable14 = [
    (OpKeyGroupRename,
     \<lparr>os_class = ClassTenant, os_level = LevelProject, os_formula = [atom CapDefinitionsEdit
        LevelProject],
      os_storeOps = licensed [StoreEnvironmentsList, StoreProjectsGet, StoreProjectsLock,
        StoreCatalogueGroupGet, StoreCatalogueGroupRename, StoreCatalogueList, StoreCatalogueRevisionBump,
        StoreAuditTenantInsert],
      os_postGrantForbidden = False, os_events = [EventKeyGroupRenamed, EventScanningFindingBlocked,
        EventScanningFindingOverridden],
      os_auditedNone = False, os_reviewExempt = False\<rparr>),
    (OpKeyGroupDelete,
     \<lparr>os_class = ClassTenant, os_level = LevelProject, os_formula = [atom CapDefinitionsEdit
        LevelProject],
      os_storeOps = licensed [StoreEnvironmentsList, StoreProjectsGet, StoreProjectsLock,
        StoreCatalogueGroupGet, StoreCatalogueList, StoreCatalogueGroupClearMembers, StoreCatalogueGroupDelete,
        StoreCatalogueRevisionBump, StoreAuditTenantInsert],
      os_postGrantForbidden = False, os_events = [EventKeyGroupDeleted],
      os_auditedNone = False, os_reviewExempt = False\<rparr>),
    (OpFolderCreate,
     \<lparr>os_class = ClassTenant, os_level = LevelProject, os_formula = [atom CapDefinitionsEdit
        LevelProject],
      os_storeOps = licensed [StoreProjectsGet, StoreFoldersCreate, StoreAuditTenantInsert],
      os_postGrantForbidden = False, os_events = [EventFolderCreated, EventScanningFindingBlocked,
        EventScanningFindingOverridden],
      os_auditedNone = False, os_reviewExempt = False\<rparr>),
    (OpFolderGet,
     \<lparr>os_class = ClassTenant, os_level = LevelProject, os_formula = [atom CapRead LevelProject],
      os_storeOps = licensed [StoreFoldersGet],
      os_postGrantForbidden = False, os_events = [],
      os_auditedNone = True, os_reviewExempt = False\<rparr>),
    (OpFolderList,
     \<lparr>os_class = ClassTenant, os_level = LevelProject, os_formula = [atom CapRead LevelProject],
      os_storeOps = licensed [StoreFoldersList],
      os_postGrantForbidden = False, os_events = [],
      os_auditedNone = True, os_reviewExempt = False\<rparr>),
    (OpFolderRename,
     \<lparr>os_class = ClassTenant, os_level = LevelProject, os_formula = [atom CapDefinitionsEdit
        LevelProject],
      os_storeOps = licensed [StoreProjectsGet, StoreFoldersGet, StoreFoldersRename, StoreAuditTenantInsert],
      os_postGrantForbidden = False, os_events = [EventFolderRenamed, EventScanningFindingBlocked,
        EventScanningFindingOverridden],
      os_auditedNone = False, os_reviewExempt = False\<rparr>),
    (OpFolderDelete,
     \<lparr>os_class = ClassTenant, os_level = LevelProject, os_formula = [atom CapDefinitionsEdit
        LevelProject],
      os_storeOps = licensed [StoreProjectsGet, StoreFoldersGet, StoreFoldersDelete, StoreAuditTenantInsert],
      os_postGrantForbidden = False, os_events = [EventFolderDeleted],
      os_auditedNone = False, os_reviewExempt = False\<rparr>),
    (OpAuditQueryOrg,
     \<lparr>os_class = ClassTenant, os_level = LevelOrg, os_formula = [atom CapAuditRead LevelOrg],
      os_storeOps = licensed [StoreAuditTenantPage, StoreAuditTenantMaxSeq, StoreAuditTenantInsert],
      os_postGrantForbidden = False, os_events = [EventAuditQuery],
      os_auditedNone = False, os_reviewExempt = False\<rparr>),
    (OpAuditQueryProject,
     \<lparr>os_class = ClassTenant, os_level = LevelProject, os_formula = [atom CapAuditRead LevelProject],
      os_storeOps = licensed [StoreAuditTenantPage, StoreAuditTenantMaxSeq, StoreAuditTenantInsert],
      os_postGrantForbidden = False, os_events = [EventAuditQuery],
      os_auditedNone = False, os_reviewExempt = False\<rparr>),
    (OpAuditQueryEnv,
     \<lparr>os_class = ClassTenant, os_level = LevelEnv, os_formula = [atom CapAuditRead LevelEnv],
      os_storeOps = licensed [StoreAuditTenantPage, StoreAuditTenantMaxSeq, StoreAuditTenantInsert],
      os_postGrantForbidden = False, os_events = [EventAuditQuery],
      os_auditedNone = False, os_reviewExempt = False\<rparr>),
    (OpAuditExportOrg,
     \<lparr>os_class = ClassTenant, os_level = LevelOrg, os_formula = [atom CapAuditRead LevelOrg],
      os_storeOps = licensed [StoreAuditTenantPage, StoreAuditTenantInsert],
      os_postGrantForbidden = False, os_events = [EventAuditExportStarted, EventAuditExportCompleted],
      os_auditedNone = False, os_reviewExempt = False\<rparr>),
    (OpAuditExportProject,
     \<lparr>os_class = ClassTenant, os_level = LevelProject, os_formula = [atom CapAuditRead LevelProject],
      os_storeOps = licensed [StoreAuditTenantPage, StoreAuditTenantInsert],
      os_postGrantForbidden = False, os_events = [EventAuditExportStarted, EventAuditExportCompleted],
      os_auditedNone = False, os_reviewExempt = False\<rparr>),
    (OpAuditExportEnv,
     \<lparr>os_class = ClassTenant, os_level = LevelEnv, os_formula = [atom CapAuditRead LevelEnv],
      os_storeOps = licensed [StoreAuditTenantPage, StoreAuditTenantInsert],
      os_postGrantForbidden = False, os_events = [EventAuditExportStarted, EventAuditExportCompleted],
      os_auditedNone = False, os_reviewExempt = False\<rparr>),
    (OpAuditInstanceQuery,
     \<lparr>os_class = ClassInstance, os_level = LevelNone, os_formula = [atom CapAuditRead LevelNone],
      os_storeOps = licensed [StoreAuditInstancePage, StoreAuditInstanceMaxSeq, StoreAuditInstanceInsert],
      os_postGrantForbidden = False, os_events = [EventAuditQuery],
      os_auditedNone = False, os_reviewExempt = False\<rparr>),
    (OpAuditInstanceExport,
     \<lparr>os_class = ClassInstance, os_level = LevelNone, os_formula = [atom CapAuditRead LevelNone],
      os_storeOps = licensed [StoreAuditInstancePage, StoreAuditInstanceInsert],
      os_postGrantForbidden = False, os_events = [EventAuditExportStarted, EventAuditExportCompleted],
      os_auditedNone = False, os_reviewExempt = False\<rparr>)]"

definition operationTable15 :: "(Operation \<times> opSpec) list" where
  "operationTable15 = [
    (OpGrantCreateOrg,
     \<lparr>os_class = ClassTenant, os_level = LevelOrg, os_formula = [atom CapManageMembers LevelOrg],
      os_storeOps = withCure [StoreAuditTenantInsert],
      os_postGrantForbidden = False, os_events = [EventGrantCreated, EventGrantModified] @ grantCureEvents,
      os_auditedNone = False, os_reviewExempt = False\<rparr>),
    (OpGrantCreateProject,
     \<lparr>os_class = ClassTenant, os_level = LevelProject, os_formula = [atom CapManageMembers LevelProject],
      os_storeOps = licensed [StoreAuditTenantInsert],
      os_postGrantForbidden = False, os_events = [EventGrantCreated, EventGrantModified,
        EventMachineGrantWidened],
      os_auditedNone = False, os_reviewExempt = False\<rparr>),
    (OpGrantCreateEnv,
     \<lparr>os_class = ClassTenant, os_level = LevelEnv, os_formula = [atom CapManageMembers LevelProject],
      os_storeOps = licensed [StoreAuditTenantInsert],
      os_postGrantForbidden = False, os_events = [EventGrantCreated, EventGrantModified,
        EventMachineGrantWidened],
      os_auditedNone = False, os_reviewExempt = False\<rparr>),
    (OpGrantCreateInstance,
     \<lparr>os_class = ClassInstance, os_level = LevelNone, os_formula = [atom CapManageMembers LevelNone],
      os_storeOps = licensed [StoreAuditInstanceInsert],
      os_postGrantForbidden = False, os_events = [EventGrantCreated, EventGrantModified] @ grantCureEvents,
      os_auditedNone = False, os_reviewExempt = False\<rparr>),
    (OpGrantRevokeOrg,
     \<lparr>os_class = ClassTenant, os_level = LevelOrg, os_formula = [atom CapManageMembers LevelOrg],
      os_storeOps = licensed [StoreAuditTenantInsert],
      os_postGrantForbidden = False, os_events = [EventGrantRevoked, EventGrantModified],
      os_auditedNone = False, os_reviewExempt = False\<rparr>),
    (OpRuleCreate,
     \<lparr>os_class = ClassTenant, os_level = LevelProject, os_formula = [atom CapManageMembers LevelProject],
      os_storeOps = licensed [StoreAuditTenantInsert],
      os_postGrantForbidden = False, os_events = [EventRuleCreated],
      os_auditedNone = False, os_reviewExempt = False\<rparr>),
    (OpRuleRevoke,
     \<lparr>os_class = ClassTenant, os_level = LevelProject, os_formula = [atom CapManageMembers LevelProject],
      os_storeOps = licensed [StoreAuditTenantInsert],
      os_postGrantForbidden = False, os_events = [EventRuleRevoked],
      os_auditedNone = False, os_reviewExempt = False\<rparr>),
    (OpRuleListOrg,
     \<lparr>os_class = ClassTenant, os_level = LevelOrg, os_formula = [atom CapManageMembers LevelOrg],
      os_storeOps = licensed [StoreAuditTenantInsert],
      os_postGrantForbidden = False, os_events = [EventGrantMembershipRead],
      os_auditedNone = False, os_reviewExempt = False\<rparr>),
    (OpRuleListProject,
     \<lparr>os_class = ClassTenant, os_level = LevelProject, os_formula = [atom CapManageMembers LevelProject],
      os_storeOps = licensed [StoreAuditTenantInsert],
      os_postGrantForbidden = False, os_events = [EventGrantMembershipRead],
      os_auditedNone = False, os_reviewExempt = False\<rparr>),
    (OpGrantRevokeProject,
     \<lparr>os_class = ClassTenant, os_level = LevelProject, os_formula = [atom CapManageMembers LevelProject],
      os_storeOps = licensed [StoreAuditTenantInsert],
      os_postGrantForbidden = False, os_events = [EventGrantRevoked, EventGrantModified],
      os_auditedNone = False, os_reviewExempt = False\<rparr>),
    (OpGrantRevokeEnv,
     \<lparr>os_class = ClassTenant, os_level = LevelEnv, os_formula = [atom CapManageMembers LevelProject],
      os_storeOps = licensed [StoreAuditTenantInsert],
      os_postGrantForbidden = False, os_events = [EventGrantRevoked, EventGrantModified],
      os_auditedNone = False, os_reviewExempt = False\<rparr>),
    (OpGrantRevokeInstance,
     \<lparr>os_class = ClassInstance, os_level = LevelNone, os_formula = [atom CapManageMembers LevelNone],
      os_storeOps = licensed [StoreAuditInstanceInsert],
      os_postGrantForbidden = False, os_events = [EventGrantRevoked, EventGrantModified],
      os_auditedNone = False, os_reviewExempt = False\<rparr>),
    (OpGrantListOrg,
     \<lparr>os_class = ClassTenant, os_level = LevelOrg, os_formula = [atom CapManageMembers LevelOrg],
      os_storeOps = licensed [StoreAuditTenantInsert],
      os_postGrantForbidden = False, os_events = [EventGrantMembershipRead],
      os_auditedNone = False, os_reviewExempt = False\<rparr>),
    (OpGrantListProject,
     \<lparr>os_class = ClassTenant, os_level = LevelProject, os_formula = [atom CapManageMembers LevelProject],
      os_storeOps = licensed [StoreAuditTenantInsert],
      os_postGrantForbidden = False, os_events = [EventGrantMembershipRead],
      os_auditedNone = False, os_reviewExempt = False\<rparr>),
    (OpGrantListInstance,
     \<lparr>os_class = ClassInstance, os_level = LevelNone, os_formula = [atom CapManageMembers LevelNone],
      os_storeOps = licensed [StoreAuditInstanceInsert],
      os_postGrantForbidden = False, os_events = [EventGrantMembershipRead],
      os_auditedNone = False, os_reviewExempt = False\<rparr>)]"

definition operationTable16 :: "(Operation \<times> opSpec) list" where
  "operationTable16 = [
    (OpTemplateApplyOrg,
     \<lparr>os_class = ClassTenant, os_level = LevelOrg, os_formula = [atom CapManageMembers LevelOrg],
      os_storeOps = withCure [StoreAuditTenantInsert],
      os_postGrantForbidden = False, os_events = [EventGrantTemplateApplied, EventGrantCreated,
        EventGrantModified] @ grantCureEvents,
      os_auditedNone = False, os_reviewExempt = False\<rparr>),
    (OpTemplateApplyProject,
     \<lparr>os_class = ClassTenant, os_level = LevelProject, os_formula = [atom CapManageMembers LevelProject],
      os_storeOps = licensed [StoreAuditTenantInsert],
      os_postGrantForbidden = False, os_events = [EventGrantTemplateApplied, EventGrantCreated,
        EventGrantModified, EventMachineGrantWidened],
      os_auditedNone = False, os_reviewExempt = False\<rparr>),
    (OpTemplateApplyEnv,
     \<lparr>os_class = ClassTenant, os_level = LevelEnv, os_formula = [atom CapManageMembers LevelProject],
      os_storeOps = licensed [StoreAuditTenantInsert],
      os_postGrantForbidden = False, os_events = [EventGrantTemplateApplied, EventGrantCreated,
        EventGrantModified, EventMachineGrantWidened],
      os_auditedNone = False, os_reviewExempt = False\<rparr>),
    (OpTemplateApplyInstance,
     \<lparr>os_class = ClassInstance, os_level = LevelNone, os_formula = [atom CapManageMembers LevelNone],
      os_storeOps = licensed [StoreAuditInstanceInsert],
      os_postGrantForbidden = False, os_events = [EventGrantTemplateApplied, EventGrantCreated,
        EventGrantModified] @ grantCureEvents,
      os_auditedNone = False, os_reviewExempt = False\<rparr>),
    (OpMemberInviteOrg,
     \<lparr>os_class = ClassTenant, os_level = LevelOrg, os_formula = [atom CapManageMembers LevelOrg],
      os_storeOps = withCure [StoreAuditTenantInsert],
      os_postGrantForbidden = False, os_events = [EventMemberInvited, EventGrantTemplateApplied,
        EventGrantCreated, EventGrantModified] @ grantCureEvents,
      os_auditedNone = False, os_reviewExempt = False\<rparr>),
    (OpMemberInviteInstance,
     \<lparr>os_class = ClassInstance, os_level = LevelNone, os_formula = [atom CapManageMembers LevelNone],
      os_storeOps = licensed [StoreAuditInstanceInsert],
      os_postGrantForbidden = False, os_events = [EventMemberInvited, EventGrantTemplateApplied,
        EventGrantCreated, EventGrantModified] @ grantCureEvents,
      os_auditedNone = False, os_reviewExempt = False\<rparr>),
    (OpRegistrationPolicyGetOrg,
     \<lparr>os_class = ClassTenant, os_level = LevelOrg, os_formula = [atom CapManageMembers LevelOrg],
      os_storeOps = licensed [StoreAuditTenantInsert],
      os_postGrantForbidden = False, os_events = [EventGrantMembershipRead],
      os_auditedNone = False, os_reviewExempt = False\<rparr>),
    (OpRegistrationPolicyPutOrg,
     \<lparr>os_class = ClassTenant, os_level = LevelOrg, os_formula = [atom CapManageMembers LevelOrg],
      os_storeOps = licensed [StoreAuditTenantInsert],
      os_postGrantForbidden = False, os_events = [EventRegistrationPolicyCreated,
        EventRegistrationPolicyUpdated],
      os_auditedNone = False, os_reviewExempt = False\<rparr>),
    (OpRegistrationPolicyDeleteOrg,
     \<lparr>os_class = ClassTenant, os_level = LevelOrg, os_formula = [atom CapManageMembers LevelOrg],
      os_storeOps = licensed [StoreAuditTenantInsert],
      os_postGrantForbidden = False, os_events = [EventRegistrationPolicyDeleted,
        EventRegistrationSignupExpired],
      os_auditedNone = False, os_reviewExempt = False\<rparr>),
    (OpRegistrationPolicyGetInstance,
     \<lparr>os_class = ClassInstance, os_level = LevelNone, os_formula = [atom CapManageMembers LevelNone],
      os_storeOps = licensed [StoreAuditInstanceInsert],
      os_postGrantForbidden = False, os_events = [EventGrantMembershipRead],
      os_auditedNone = False, os_reviewExempt = False\<rparr>),
    (OpRegistrationPolicyPutInstance,
     \<lparr>os_class = ClassInstance, os_level = LevelNone, os_formula = [atom CapManageMembers LevelNone],
      os_storeOps = licensed [StoreAuditInstanceInsert],
      os_postGrantForbidden = False, os_events = [EventRegistrationPolicyCreated,
        EventRegistrationPolicyUpdated],
      os_auditedNone = False, os_reviewExempt = False\<rparr>),
    (OpRegistrationPolicyDeleteInstance,
     \<lparr>os_class = ClassInstance, os_level = LevelNone, os_formula = [atom CapManageMembers LevelNone],
      os_storeOps = licensed [StoreAuditInstanceInsert],
      os_postGrantForbidden = False, os_events = [EventRegistrationPolicyDeleted,
        EventRegistrationSignupExpired],
      os_auditedNone = False, os_reviewExempt = False\<rparr>),
    (OpEnvSettingsRead,
     \<lparr>os_class = ClassTenant, os_level = LevelEnv, os_formula = [atom CapRead LevelEnv],
      os_storeOps = licensed [StoreEnvironmentsGetSettings],
      os_postGrantForbidden = False, os_events = [],
      os_auditedNone = True, os_reviewExempt = False\<rparr>),
    (OpEnvSettingsUpdate,
     \<lparr>os_class = ClassTenant, os_level = LevelEnv, os_formula = [atom CapProjectSettings LevelProject],
      os_storeOps = licensed [StoreEnvironmentsGetSettings, StoreEnvironmentsSetSettings,
        StoreAuditTenantInsert],
      os_postGrantForbidden = False, os_events = [EventReauthWindowChanged, EventProtectedFlagChange,
        EventAuthEffectiveWindowLowered],
      os_auditedNone = False, os_reviewExempt = False\<rparr>),
    (OpOrgRetentionRead,
     \<lparr>os_class = ClassTenant, os_level = LevelOrg, os_formula = [atom CapRead LevelOrg],
      os_storeOps = licensed [StoreOrgsGet],
      os_postGrantForbidden = False, os_events = [],
      os_auditedNone = True, os_reviewExempt = False\<rparr>)]"

definition operationTable17 :: "(Operation \<times> opSpec) list" where
  "operationTable17 = [
    (OpOrgRetentionUpdate,
     \<lparr>os_class = ClassTenant, os_level = LevelOrg, os_formula = [atom CapProjectSettings LevelOrg],
      os_storeOps = licensed [StoreOrgsGet, StoreOrgsLock, StoreOrgsSetRetention, StoreProjectsList,
        StoreAuditTenantInsert],
      os_postGrantForbidden = False, os_events = [EventOrgRetentionChanged],
      os_auditedNone = False, os_reviewExempt = False\<rparr>),
    (OpProjectRetentionRead,
     \<lparr>os_class = ClassTenant, os_level = LevelProject, os_formula = [atom CapRead LevelProject],
      os_storeOps = licensed [StoreOrgsGet, StoreProjectsGet],
      os_postGrantForbidden = False, os_events = [],
      os_auditedNone = True, os_reviewExempt = False\<rparr>),
    (OpProjectRetentionUpdate,
     \<lparr>os_class = ClassTenant, os_level = LevelProject, os_formula = [atom CapProjectSettings
        LevelProject],
      os_storeOps = licensed [StoreOrgsGet, StoreOrgsLock, StoreProjectsGet, StoreProjectsSetRetention,
        StoreAuditTenantInsert],
      os_postGrantForbidden = False, os_events = [EventProjectRetentionChanged],
      os_auditedNone = False, os_reviewExempt = False\<rparr>),
    (OpRetentionHealthRead,
     \<lparr>os_class = ClassInstance, os_level = LevelNone, os_formula = [atom CapInstanceConfig LevelNone],
      os_storeOps = licensed [StoreRetentionLastSuccess, StoreOpsDiagnosticsRead, StoreAuditInstanceInsert,
        StoreAdaptersHealthCounts, StoreValuesInstancePayloadByProject, StoreSnapshotsInstancePayloadByProject,
        StoreBackupStateGet],
      os_postGrantForbidden = False, os_events = [EventRetentionHealthRead],
      os_auditedNone = False, os_reviewExempt = False\<rparr>),
    (OpUpdateStatusRead,
     \<lparr>os_class = ClassInstance, os_level = LevelNone, os_formula = [atom CapInstanceConfig LevelNone],
      os_storeOps = licensed [StoreAuditInstanceInsert],
      os_postGrantForbidden = False, os_events = [EventUpdateStatusRead],
      os_auditedNone = False, os_reviewExempt = False\<rparr>),
    (OpUpdateRequest,
     \<lparr>os_class = ClassInstance, os_level = LevelNone, os_formula = [atom CapInstanceConfig LevelNone],
      os_storeOps = licensed [StoreAuditInstanceInsert],
      os_postGrantForbidden = False, os_events = [EventUpdateRequested, EventUpdateOutcome],
      os_auditedNone = False, os_reviewExempt = False\<rparr>),
    (OpUpdateJobRead,
     \<lparr>os_class = ClassInstance, os_level = LevelNone, os_formula = [atom CapInstanceConfig LevelNone],
      os_storeOps = licensed [StoreAuditInstanceInsert],
      os_postGrantForbidden = False, os_events = [EventUpdateOutcome],
      os_auditedNone = False, os_reviewExempt = False\<rparr>),
    (OpServiceAccountCreate,
     \<lparr>os_class = ClassTenant, os_level = LevelProject, os_formula = [atom CapManageIdentities
        LevelProject],
      os_storeOps = licensed [StoreAuditTenantInsert],
      os_postGrantForbidden = False, os_events = [EventServiceAccountCreated],
      os_auditedNone = False, os_reviewExempt = False\<rparr>),
    (OpServiceAccountList,
     \<lparr>os_class = ClassTenant, os_level = LevelProject, os_formula = [atom CapManageIdentities
        LevelProject],
      os_storeOps = licensed [StoreAuditTenantInsert],
      os_postGrantForbidden = False, os_events = [EventCredentialsListed],
      os_auditedNone = False, os_reviewExempt = False\<rparr>),
    (OpServiceAccountDelete,
     \<lparr>os_class = ClassTenant, os_level = LevelProject, os_formula = [atom CapManageIdentities
        LevelProject],
      os_storeOps = licensed [StoreAuditTenantInsert],
      os_postGrantForbidden = False, os_events = [EventServiceAccountDeleted, EventCredentialRevoked],
      os_auditedNone = False, os_reviewExempt = False\<rparr>),
    (OpCredentialMint,
     \<lparr>os_class = ClassTenant, os_level = LevelProject, os_formula = [atom CapManageIdentities
        LevelProject],
      os_storeOps = licensed [StoreAuditTenantInsert],
      os_postGrantForbidden = False, os_events = [EventCredentialMinted],
      os_auditedNone = False, os_reviewExempt = False\<rparr>),
    (OpCredentialList,
     \<lparr>os_class = ClassTenant, os_level = LevelProject, os_formula = [atom CapManageIdentities
        LevelProject],
      os_storeOps = licensed [StoreAuditTenantInsert],
      os_postGrantForbidden = False, os_events = [EventCredentialsListed],
      os_auditedNone = False, os_reviewExempt = False\<rparr>),
    (OpCredentialRevoke,
     \<lparr>os_class = ClassTenant, os_level = LevelProject, os_formula = [atom CapManageIdentities
        LevelProject],
      os_storeOps = licensed [StoreAuditTenantInsert],
      os_postGrantForbidden = False, os_events = [EventCredentialRevoked, EventBindingReactivated],
      os_auditedNone = False, os_reviewExempt = False\<rparr>),
    (OpDeveloperCredentialMint,
     \<lparr>os_class = ClassTenant, os_level = LevelEnv, os_formula = [atom CapRead LevelEnv, atom CapReveal
        LevelEnv],
      os_storeOps = licensed [StoreAuditTenantInsert, StoreSnapshotsLatest, StoreSnapshotsEntries],
      os_postGrantForbidden = False, os_events = [EventDeveloperCredentialMinted,
        EventDeveloperCredentialMintRefused],
      os_auditedNone = False, os_reviewExempt = False\<rparr>)]"

definition operationTable18 :: "(Operation \<times> opSpec) list" where
  "operationTable18 = [
    (OpDeveloperCredentialListProject,
     \<lparr>os_class = ClassTenant, os_level = LevelProject, os_formula = [atom CapManageIdentities
        LevelProject],
      os_storeOps = licensed [StoreAuditTenantInsert],
      os_postGrantForbidden = False, os_events = [EventDeveloperCredentialsListed],
      os_auditedNone = False, os_reviewExempt = False\<rparr>),
    (OpDeveloperCredentialRevokeProject,
     \<lparr>os_class = ClassTenant, os_level = LevelProject, os_formula = [atom CapManageIdentities
        LevelProject],
      os_storeOps = licensed [StoreAuditTenantInsert],
      os_postGrantForbidden = False, os_events = [EventDeveloperCredentialRevoked],
      os_auditedNone = False, os_reviewExempt = False\<rparr>),
    (OpDeveloperCredentialPolicyRead,
     \<lparr>os_class = ClassInstance, os_level = LevelNone, os_formula = [atom CapInstanceConfig LevelNone],
      os_storeOps = licensed [StoreAuditInstanceInsert],
      os_postGrantForbidden = False, os_events = [EventDeveloperCredentialPolicyRead],
      os_auditedNone = False, os_reviewExempt = False\<rparr>),
    (OpDeveloperCredentialPolicyUpdate,
     \<lparr>os_class = ClassInstance, os_level = LevelNone, os_formula = [atom CapInstanceConfig LevelNone],
      os_storeOps = licensed [StoreAuditInstanceInsert],
      os_postGrantForbidden = False, os_events = [EventDeveloperCredentialPolicyChanged],
      os_auditedNone = False, os_reviewExempt = False\<rparr>),
    (OpCredentialPolicyRead,
     \<lparr>os_class = ClassInstance, os_level = LevelNone, os_formula = [atom CapInstanceConfig LevelNone],
      os_storeOps = licensed [StoreAuditInstanceInsert],
      os_postGrantForbidden = False, os_events = [EventCredentialPolicyRead],
      os_auditedNone = False, os_reviewExempt = False\<rparr>),
    (OpCredentialPolicyUpdate,
     \<lparr>os_class = ClassInstance, os_level = LevelNone, os_formula = [atom CapInstanceConfig LevelNone],
      os_storeOps = licensed [StoreAuditInstanceInsert],
      os_postGrantForbidden = False, os_events = [EventCredentialPolicyChanged, EventCredentialPolicyRead],
      os_auditedNone = False, os_reviewExempt = False\<rparr>),
    (OpFederationIssuerCreate,
     \<lparr>os_class = ClassInstance, os_level = LevelNone, os_formula = [atom CapInstanceConfig LevelNone],
      os_storeOps = licensed [StoreAuditInstanceInsert],
      os_postGrantForbidden = False, os_events = [EventFederationIssuerChanged],
      os_auditedNone = False, os_reviewExempt = False\<rparr>),
    (OpFederationIssuerUpdate,
     \<lparr>os_class = ClassInstance, os_level = LevelNone, os_formula = [atom CapInstanceConfig LevelNone],
      os_storeOps = licensed [StoreAuditInstanceInsert],
      os_postGrantForbidden = False, os_events = [EventFederationIssuerChanged],
      os_auditedNone = False, os_reviewExempt = False\<rparr>),
    (OpFederationIssuerDelete,
     \<lparr>os_class = ClassInstance, os_level = LevelNone, os_formula = [atom CapInstanceConfig LevelNone],
      os_storeOps = licensed [StoreAuditInstanceInsert],
      os_postGrantForbidden = False, os_events = [EventFederationIssuerChanged],
      os_auditedNone = False, os_reviewExempt = False\<rparr>),
    (OpFederationIssuerList,
     \<lparr>os_class = ClassInstance, os_level = LevelNone, os_formula = [atom CapInstanceConfig LevelNone],
      os_storeOps = licensed [StoreAuditInstanceInsert],
      os_postGrantForbidden = False, os_events = [EventFederationIssuerRead],
      os_auditedNone = False, os_reviewExempt = False\<rparr>),
    (OpBindingCreate,
     \<lparr>os_class = ClassTenant, os_level = LevelProject, os_formula = [atom CapManageIdentities
        LevelProject],
      os_storeOps = licensed [StoreAuditTenantInsert],
      os_postGrantForbidden = False, os_events = [EventBindingCreated, EventCredentialRevoked],
      os_auditedNone = False, os_reviewExempt = False\<rparr>),
    (OpDeliveryFetch,
     \<lparr>os_class = ClassTenant, os_level = LevelEnv, os_formula = [atom CapRead LevelEnv],
      os_storeOps = licensed [StoreKeysActiveTokenKeyForReceipt, StoreSnapshotsLatest, StoreSnapshotsEntries,
        StoreSnapshotsParameterContract, StoreSnapshotsAtRevision, StorePinsGetForWorkload,
        StoreFileTargetsForPrincipal, StoreFileTargetsKeys, StoreCatalogueList, StoreCataloguePresenceList,
        StoreCatalogueRevisionGet, StoreAuditTenantInsert],
      os_postGrantForbidden = False, os_events = [EventDeliveryFetched, EventDisclosure],
      os_auditedNone = False, os_reviewExempt = False\<rparr>),
    (OpDeliveryReconcileOffline,
     \<lparr>os_class = ClassTenant, os_level = LevelEnv, os_formula = [atom CapRead LevelEnv],
      os_storeOps = licensed [StoreKeysActiveTokenKeyForReceipt, StoreAuditClaimOfflineRecord,
        StoreAuditTenantInsert],
      os_postGrantForbidden = False, os_events = [EventOfflineRecordsReconciled, EventValueRevealed],
      os_auditedNone = False, os_reviewExempt = False\<rparr>),
    (OpDeliveryTargetReport,
     \<lparr>os_class = ClassTenant, os_level = LevelEnv, os_formula = [atom CapReportDeliveryStatus LevelEnv],
      os_storeOps = licensed [StoreDeliveryTargetsGet, StoreDeliveryTargetsCountPrincipal,
        StoreDeliveryTargetsInsert, StoreDeliveryTargetsUpdate, StoreDeliveryTargetsRecordRefusal,
        StoreDeliveryTargetsRecordQuota, StoreAuditTenantInsert],
      os_postGrantForbidden = False, os_events = [EventDeliveryTargetCreated, EventDeliveryTargetRefused],
      os_auditedNone = False, os_reviewExempt = False\<rparr>)]"

definition operationTable19 :: "(Operation \<times> opSpec) list" where
  "operationTable19 = [
    (OpDeliveryTargetTombstone,
     \<lparr>os_class = ClassTenant, os_level = LevelEnv, os_formula = [atom CapReportDeliveryStatus LevelEnv],
      os_storeOps = licensed [StoreDeliveryTargetsGet, StoreDeliveryTargetsDelete, StoreAuditTenantInsert],
      os_postGrantForbidden = False, os_events = [EventDeliveryTargetTombstoned],
      os_auditedNone = False, os_reviewExempt = False\<rparr>),
    (OpDeliveryTargetList,
     \<lparr>os_class = ClassTenant, os_level = LevelEnv, os_formula = [atom CapRead LevelEnv],
      os_storeOps = licensed [StoreDeliveryTargetsList, StoreDeliveryTargetsQuotaNotices,
        StoreDeliveryTargetsLastFetch],
      os_postGrantForbidden = False, os_events = [],
      os_auditedNone = True, os_reviewExempt = False\<rparr>),
    (OpSCIMBindingCreate,
     \<lparr>os_class = ClassTenant, os_level = LevelOrg, os_formula = scimAdminFormula,
      os_storeOps = scimOps [scimBase, scimAttentionReadOps, [StoreSCIMCreateBinding]],
      os_postGrantForbidden = False, os_events = [EventSCIMBindingCreated, EventGrantCreated,
        EventSCIMAttentionEntered],
      os_auditedNone = False, os_reviewExempt = False\<rparr>),
    (OpSCIMBindingGet,
     \<lparr>os_class = ClassTenant, os_level = LevelOrg, os_formula = scimAdminFormula,
      os_storeOps = scimOps [scimBase, scimAttentionReadOps],
      os_postGrantForbidden = False, os_events = [EventSCIMAdminRead, EventSCIMAttentionEntered,
        EventSCIMAttentionCleared],
      os_auditedNone = False, os_reviewExempt = False\<rparr>),
    (OpSCIMBindingList,
     \<lparr>os_class = ClassTenant, os_level = LevelOrg, os_formula = scimAdminFormula,
      os_storeOps = scimOps [scimBase, scimAttentionReadOps, [StoreSCIMBindings]],
      os_postGrantForbidden = False, os_events = [EventSCIMAdminRead, EventSCIMAttentionEntered,
        EventSCIMAttentionCleared],
      os_auditedNone = False, os_reviewExempt = False\<rparr>),
    (OpSCIMBindingDelete,
     \<lparr>os_class = ClassTenant, os_level = LevelOrg, os_formula = scimAdminFormula,
      os_storeOps = scimOps [scimBase, scimDirectoryOps, scimTeardownOps, scimCredentialOps],
      os_postGrantForbidden = False, os_events = [EventSCIMBindingDeleted, EventGrantRevoked,
        EventGrantModified, EventSCIMLockoutRetention, EventSCIMAttentionEntered, EventSCIMAttentionCleared],
      os_auditedNone = False, os_reviewExempt = False\<rparr>),
    (OpSCIMMappingCreate,
     \<lparr>os_class = ClassTenant, os_level = LevelOrg, os_formula = scimAdminFormula,
      os_storeOps = scimOps [scimBase, scimDirectoryOps, scimMappingWriteOps],
      os_postGrantForbidden = False, os_events = [EventSCIMMappingCreated, EventGrantCreated,
        EventGrantModified, EventSCIMLockoutRetentionReleased, EventSCIMAttentionCleared],
      os_auditedNone = False, os_reviewExempt = False\<rparr>),
    (OpSCIMMappingUpdate,
     \<lparr>os_class = ClassTenant, os_level = LevelOrg, os_formula = scimAdminFormula,
      os_storeOps = scimOps [scimBase, scimDirectoryOps, scimMappingWriteOps],
      os_postGrantForbidden = False, os_events = [EventSCIMMappingUpdated, EventGrantCreated,
        EventGrantModified, EventGrantRevoked, EventSCIMLockoutRetention, EventSCIMLockoutRetentionReleased,
        EventSCIMAttentionEntered, EventSCIMAttentionCleared],
      os_auditedNone = False, os_reviewExempt = False\<rparr>),
    (OpSCIMMappingDelete,
     \<lparr>os_class = ClassTenant, os_level = LevelOrg, os_formula = scimAdminFormula,
      os_storeOps = scimOps [scimBase, scimDirectoryOps, scimMappingWriteOps],
      os_postGrantForbidden = False, os_events = [EventSCIMMappingDeleted, EventGrantRevoked,
        EventGrantModified, EventSCIMLockoutRetention, EventSCIMAttentionEntered, EventSCIMAttentionCleared],
      os_auditedNone = False, os_reviewExempt = False\<rparr>),
    (OpSCIMMappingList,
     \<lparr>os_class = ClassTenant, os_level = LevelOrg, os_formula = scimAdminFormula,
      os_storeOps = scimOps [scimBase, [StoreSCIMMappings]],
      os_postGrantForbidden = False, os_events = [EventSCIMAdminRead],
      os_auditedNone = False, os_reviewExempt = False\<rparr>),
    (OpSCIMCredentialMint,
     \<lparr>os_class = ClassTenant, os_level = LevelOrg, os_formula = scimAdminFormula,
      os_storeOps = scimOps [scimBase, scimCredentialOps],
      os_postGrantForbidden = False, os_events = [EventSCIMCredentialMinted, EventSCIMCredentialRotated],
      os_auditedNone = False, os_reviewExempt = False\<rparr>),
    (OpSCIMCredentialGet,
     \<lparr>os_class = ClassTenant, os_level = LevelOrg, os_formula = scimAdminFormula,
      os_storeOps = scimOps [scimBase, scimCredentialOps],
      os_postGrantForbidden = False, os_events = [EventSCIMAdminRead],
      os_auditedNone = False, os_reviewExempt = False\<rparr>),
    (OpSCIMCredentialList,
     \<lparr>os_class = ClassTenant, os_level = LevelOrg, os_formula = scimAdminFormula,
      os_storeOps = scimOps [scimBase, scimCredentialOps],
      os_postGrantForbidden = False, os_events = [EventSCIMAdminRead],
      os_auditedNone = False, os_reviewExempt = False\<rparr>)]"

definition operationTable20 :: "(Operation \<times> opSpec) list" where
  "operationTable20 = [
    (OpSCIMCredentialRevoke,
     \<lparr>os_class = ClassTenant, os_level = LevelOrg, os_formula = scimAdminFormula,
      os_storeOps = scimOps [scimBase, scimCredentialOps],
      os_postGrantForbidden = False, os_events = [EventSCIMCredentialRevoked],
      os_auditedNone = False, os_reviewExempt = False\<rparr>),
    (OpSCIMDirectoryUsers,
     \<lparr>os_class = ClassTenant, os_level = LevelOrg, os_formula = scimAdminFormula,
      os_storeOps = scimOps [scimBase, scimDirectoryOps],
      os_postGrantForbidden = False, os_events = [EventSCIMAdminRead],
      os_auditedNone = False, os_reviewExempt = False\<rparr>),
    (OpSCIMDirectoryGroups,
     \<lparr>os_class = ClassTenant, os_level = LevelOrg, os_formula = scimAdminFormula,
      os_storeOps = scimOps [scimBase, scimDirectoryOps],
      os_postGrantForbidden = False, os_events = [EventSCIMAdminRead],
      os_auditedNone = False, os_reviewExempt = False\<rparr>),
    (OpSCIMUserCreate,
     \<lparr>os_class = ClassTenant, os_level = LevelOrg, os_formula = scimWireFormula,
      os_storeOps = scimOps [scimBase, scimWireBase, scimDirectoryOps, scimUserWriteOps],
      os_postGrantForbidden = False, os_events = [EventSCIMUserProvisioned, EventGrantCreated,
        EventGrantModified, EventSCIMAttentionCleared],
      os_auditedNone = False, os_reviewExempt = False\<rparr>),
    (OpSCIMUserGet,
     \<lparr>os_class = ClassTenant, os_level = LevelOrg, os_formula = scimWireFormula,
      os_storeOps = scimOps [scimBase, scimWireBase, scimDirectoryOps],
      os_postGrantForbidden = False, os_events = [EventSCIMDirectoryRead, EventSCIMAttentionCleared],
      os_auditedNone = False, os_reviewExempt = False\<rparr>),
    (OpSCIMUserList,
     \<lparr>os_class = ClassTenant, os_level = LevelOrg, os_formula = scimWireFormula,
      os_storeOps = scimOps [scimBase, scimWireBase, scimDirectoryOps],
      os_postGrantForbidden = False, os_events = [EventSCIMDirectoryRead, EventSCIMAttentionCleared],
      os_auditedNone = False, os_reviewExempt = False\<rparr>),
    (OpSCIMUserReplace,
     \<lparr>os_class = ClassTenant, os_level = LevelOrg, os_formula = scimWireFormula,
      os_storeOps = scimOps [scimBase, scimWireBase, scimDirectoryOps, scimUserWriteOps],
      os_postGrantForbidden = False, os_events = scimUserMutationEvents,
      os_auditedNone = False, os_reviewExempt = False\<rparr>),
    (OpSCIMUserPatch,
     \<lparr>os_class = ClassTenant, os_level = LevelOrg, os_formula = scimWireFormula,
      os_storeOps = scimOps [scimBase, scimWireBase, scimDirectoryOps, scimUserWriteOps],
      os_postGrantForbidden = False, os_events = scimUserMutationEvents,
      os_auditedNone = False, os_reviewExempt = False\<rparr>),
    (OpSCIMUserDelete,
     \<lparr>os_class = ClassTenant, os_level = LevelOrg, os_formula = scimWireFormula,
      os_storeOps = scimOps [scimBase, scimWireBase, scimDirectoryOps, scimUserWriteOps],
      os_postGrantForbidden = False, os_events = [EventSCIMUserDeleted, EventGrantRevoked, EventGrantModified,
        EventSCIMLockoutRetention, EventSCIMAttentionEntered, EventSCIMAttentionCleared],
      os_auditedNone = False, os_reviewExempt = False\<rparr>),
    (OpSCIMGroupCreate,
     \<lparr>os_class = ClassTenant, os_level = LevelOrg, os_formula = scimWireFormula,
      os_storeOps = scimOps [scimBase, scimWireBase, scimDirectoryOps, scimGroupWriteOps],
      os_postGrantForbidden = False, os_events = [EventSCIMGroupCreated, EventSCIMGroupMembership,
        EventGrantCreated, EventGrantModified, EventSCIMAttentionCleared],
      os_auditedNone = False, os_reviewExempt = False\<rparr>),
    (OpSCIMGroupGet,
     \<lparr>os_class = ClassTenant, os_level = LevelOrg, os_formula = scimWireFormula,
      os_storeOps = scimOps [scimBase, scimWireBase, scimDirectoryOps],
      os_postGrantForbidden = False, os_events = [EventSCIMDirectoryRead, EventSCIMAttentionCleared],
      os_auditedNone = False, os_reviewExempt = False\<rparr>),
    (OpSCIMGroupList,
     \<lparr>os_class = ClassTenant, os_level = LevelOrg, os_formula = scimWireFormula,
      os_storeOps = scimOps [scimBase, scimWireBase, scimDirectoryOps],
      os_postGrantForbidden = False, os_events = [EventSCIMDirectoryRead, EventSCIMAttentionCleared],
      os_auditedNone = False, os_reviewExempt = False\<rparr>),
    (OpSCIMGroupReplace,
     \<lparr>os_class = ClassTenant, os_level = LevelOrg, os_formula = scimWireFormula,
      os_storeOps = scimOps [scimBase, scimWireBase, scimDirectoryOps, scimGroupWriteOps],
      os_postGrantForbidden = False, os_events = scimGroupMutationEvents,
      os_auditedNone = False, os_reviewExempt = False\<rparr>),
    (OpSCIMGroupPatch,
     \<lparr>os_class = ClassTenant, os_level = LevelOrg, os_formula = scimWireFormula,
      os_storeOps = scimOps [scimBase, scimWireBase, scimDirectoryOps, scimGroupWriteOps],
      os_postGrantForbidden = False, os_events = scimGroupMutationEvents,
      os_auditedNone = False, os_reviewExempt = False\<rparr>),
    (OpSCIMGroupDelete,
     \<lparr>os_class = ClassTenant, os_level = LevelOrg, os_formula = scimWireFormula,
      os_storeOps = scimOps [scimBase, scimWireBase, scimDirectoryOps, scimGroupWriteOps, scimMappingWriteOps],
      os_postGrantForbidden = False, os_events = [EventSCIMGroupDeleted, EventSCIMGroupMembership,
        EventGrantRevoked, EventGrantModified, EventSCIMLockoutRetention, EventSCIMAttentionEntered,
        EventSCIMAttentionCleared],
      os_auditedNone = False, os_reviewExempt = False\<rparr>),
    (OpSCIMUnsupported,
     \<lparr>os_class = ClassTenant, os_level = LevelOrg, os_formula = scimWireFormula,
      os_storeOps = scimOps [scimBase, scimWireBase],
      os_postGrantForbidden = False, os_events = [EventSCIMDirectoryRead, EventSCIMAttentionCleared],
      os_auditedNone = False, os_reviewExempt = False\<rparr>)]"

definition operationTable21 :: "(Operation \<times> opSpec) list" where
  "operationTable21 = [
    (OpSCIMDiscovery,
     \<lparr>os_class = ClassTenant, os_level = LevelOrg, os_formula = scimWireFormula,
      os_storeOps = licensed scimDiscoveryOps,
      os_postGrantForbidden = False, os_events = [],
      os_auditedNone = False, os_reviewExempt = True\<rparr>),
    (OpRemoteDirectoryServe,
     \<lparr>os_class = ClassInstance, os_level = LevelNone, os_formula = [atom CapInstanceDirector LevelNone],
      os_storeOps = licensed [StoreOrgsList, StoreProjectsListAll, StoreAuditInstanceInsert],
      os_postGrantForbidden = False, os_events = [EventRemoteDirectoryServed],
      os_auditedNone = False, os_reviewExempt = False\<rparr>),
    (OpRemoteAdd,
     \<lparr>os_class = ClassInstance, os_level = LevelNone, os_formula = [atom CapInstanceConfig LevelNone],
      os_storeOps = licensed [StoreRemotesCount, StoreRemotesList, StoreRemoteSnapshotsList, StoreRemotesCreate,
        StoreRemoteSnapshotsWrite, StoreKeysAssertActiveDEKVersion, StoreAuditInstanceInsert],
      os_postGrantForbidden = False, os_events = [EventRemoteAdded],
      os_auditedNone = False, os_reviewExempt = False\<rparr>),
    (OpRemoteList,
     \<lparr>os_class = ClassInstance, os_level = LevelNone, os_formula = [atom CapInstanceDirector LevelNone],
      os_storeOps = licensed [StoreRemotesList, StoreRemotesSealed, StoreRemoteSnapshotsList,
        StoreRemoteSnapshotsWrite, StoreRemoteSnapshotsFail, StoreAuditInstanceInsert],
      os_postGrantForbidden = False, os_events = [EventRemoteDirectoryViewed, EventRemoteFetchFailed],
      os_auditedNone = False, os_reviewExempt = False\<rparr>),
    (OpRemoteShow,
     \<lparr>os_class = ClassInstance, os_level = LevelNone, os_formula = [atom CapInstanceDirector LevelNone],
      os_storeOps = licensed [StoreRemotesGet, StoreRemotesGetByName, StoreRemotesSealed,
        StoreRemoteSnapshotsGet, StoreRemoteSnapshotsWrite, StoreRemoteSnapshotsFail, StoreAuditInstanceInsert],
      os_postGrantForbidden = False, os_events = [EventRemoteDirectoryViewed, EventRemoteFetchFailed],
      os_auditedNone = False, os_reviewExempt = False\<rparr>),
    (OpRemoteRename,
     \<lparr>os_class = ClassInstance, os_level = LevelNone, os_formula = [atom CapInstanceConfig LevelNone],
      os_storeOps = licensed [StoreRemotesGet, StoreRemotesGetByName, StoreRemotesRename,
        StoreRemoteSnapshotsGet, StoreAuditInstanceInsert],
      os_postGrantForbidden = False, os_events = [EventRemoteRenamed],
      os_auditedNone = False, os_reviewExempt = False\<rparr>),
    (OpRemoteRemove,
     \<lparr>os_class = ClassInstance, os_level = LevelNone, os_formula = [atom CapInstanceConfig LevelNone],
      os_storeOps = licensed [StoreRemotesGet, StoreRemotesGetByName, StoreRemotesDelete,
        StoreAuditInstanceInsert],
      os_postGrantForbidden = False, os_events = [EventRemoteRemoved],
      os_auditedNone = False, os_reviewExempt = False\<rparr>),
    (OpRemoteCredentialCreate,
     \<lparr>os_class = ClassInstance, os_level = LevelNone, os_formula = [atom CapInstanceConfig LevelNone],
      os_storeOps = licensed [StoreAuditInstanceInsert],
      os_postGrantForbidden = False, os_events = [EventRemoteCredentialMinted],
      os_auditedNone = False, os_reviewExempt = False\<rparr>),
    (OpRemoteCredentialList,
     \<lparr>os_class = ClassInstance, os_level = LevelNone, os_formula = [atom CapInstanceConfig LevelNone],
      os_storeOps = licensed [StoreAuditInstanceInsert],
      os_postGrantForbidden = False, os_events = [EventRemoteCredentialsListed],
      os_auditedNone = False, os_reviewExempt = False\<rparr>),
    (OpRemoteCredentialShow,
     \<lparr>os_class = ClassInstance, os_level = LevelNone, os_formula = [atom CapInstanceConfig LevelNone],
      os_storeOps = licensed [StoreAuditInstanceInsert],
      os_postGrantForbidden = False, os_events = [EventRemoteCredentialsListed],
      os_auditedNone = False, os_reviewExempt = False\<rparr>),
    (OpRemoteCredentialRevoke,
     \<lparr>os_class = ClassInstance, os_level = LevelNone, os_formula = [atom CapInstanceConfig LevelNone],
      os_storeOps = licensed [StoreAuditInstanceInsert],
      os_postGrantForbidden = False, os_events = [EventRemoteCredentialRevoked],
      os_auditedNone = False, os_reviewExempt = False\<rparr>)]"

definition operationTable22 :: "(Operation \<times> opSpec) list" where
  "operationTable22 = [
    (OpWorkspaceOriginList,
     \<lparr>os_class = ClassInstance, os_level = LevelNone, os_formula = [atom CapInstanceConfig LevelNone],
      os_storeOps = licensed [StoreAuditInstanceInsert],
      os_postGrantForbidden = False, os_events = [EventRemoteOriginAllowlistRead],
      os_auditedNone = False, os_reviewExempt = False\<rparr>),
    (OpWorkspaceOriginAdd,
     \<lparr>os_class = ClassInstance, os_level = LevelNone, os_formula = [atom CapInstanceConfig LevelNone],
      os_storeOps = licensed [StoreAuditInstanceInsert],
      os_postGrantForbidden = False, os_events = [EventRemoteOriginAllowlistChanged],
      os_auditedNone = False, os_reviewExempt = False\<rparr>),
    (OpWorkspaceOriginRemove,
     \<lparr>os_class = ClassInstance, os_level = LevelNone, os_formula = [atom CapInstanceConfig LevelNone],
      os_storeOps = licensed [StoreAuditInstanceInsert],
      os_postGrantForbidden = False, os_events = [EventRemoteOriginAllowlistChanged,
        EventRemoteWorkspaceSessionRevoked],
      os_auditedNone = False, os_reviewExempt = False\<rparr>),
    (OpAdapterConfigure,
     \<lparr>os_class = ClassTenant, os_level = LevelProject, os_formula = [atom CapManageAdapters
        LevelProject],
      os_storeOps = licensed [StoreAdaptersCreate, StoreAdaptersAddTarget, StoreAdaptersBeginConfigureEffect,
        StoreAdaptersFinishConfigureEffect, StoreAdaptersUpdateTarget, StoreAdaptersMoveTarget,
        StoreAdaptersMoveOrigin, StoreAdaptersCancelMove, StoreAdaptersReplaceMoveTarget,
        StoreAdaptersReplaceMoveOrigin, StoreAdaptersMove, StoreAdaptersConfiguration,
        StoreAdaptersConfigurationForUpdate, StoreAdaptersTarget, StoreAdaptersTargetKeyIDs,
        StoreAdaptersTargetKeys, StoreAdaptersPauseTarget, StoreAdaptersEnvironments, StoreCatalogueList,
        StoreKeysAssertActiveDEKVersion, StoreAuditTenantInsert],
      os_postGrantForbidden = True, os_events = [EventAdapterConfigure, EventAdapterSyncRequested,
        EventAdapterSuperseded, EventAdapterScrub, EventAdapterPushIntent, EventAdapterPushOutcome],
      os_auditedNone = False, os_reviewExempt = False\<rparr>),
    (OpAdapterCredentialSet,
     \<lparr>os_class = ClassTenant, os_level = LevelProject, os_formula = [atom CapManageAdapters
        LevelProject],
      os_storeOps = licensed [StoreAdaptersEnvironments, StoreAdaptersReplaceCredential,
        StoreKeysAssertActiveDEKVersion, StoreAuditTenantInsert],
      os_postGrantForbidden = True, os_events = [EventAdapterCredentialReplace],
      os_auditedNone = False, os_reviewExempt = False\<rparr>),
    (OpAdapterCredentialRevoke,
     \<lparr>os_class = ClassTenant, os_level = LevelProject, os_formula = [atom CapManageAdapters
        LevelProject],
      os_storeOps = licensed [StoreAdaptersRevokeCredential, StoreAuditTenantInsert],
      os_postGrantForbidden = False, os_events = [EventAdapterCredentialRevoke],
      os_auditedNone = False, os_reviewExempt = False\<rparr>),
    (OpAdapterAdopt,
     \<lparr>os_class = ClassTenant, os_level = LevelProject, os_formula = [atom CapManageAdapters
        LevelProject],
      os_storeOps = licensed [StoreAdaptersTarget, StoreAdaptersTargetEnvironments, StoreAdaptersConflicts,
        StoreAdaptersAdopt, StoreAuditTenantInsert],
      os_postGrantForbidden = True, os_events = [EventAdapterAdopt, EventAdapterSuperseded],
      os_auditedNone = False, os_reviewExempt = False\<rparr>),
    (OpAdapterInspect,
     \<lparr>os_class = ClassTenant, os_level = LevelProject, os_formula = [atom CapManageAdapters
        LevelProject],
      os_storeOps = licensed [StoreAdaptersGet, StoreAdaptersList, StoreAdaptersListTargets,
        StoreAdaptersTarget, StoreAdaptersTargetKeys, StoreAdaptersMapping, StoreAdaptersTargetEnvironments,
        StoreAdaptersConflicts, StoreAdaptersMove, StoreAuditTenantInsert],
      os_postGrantForbidden = False, os_events = [EventAdapterInspect],
      os_auditedNone = False, os_reviewExempt = False\<rparr>),
    (OpAdapterPlan,
     \<lparr>os_class = ClassTenant, os_level = LevelProject, os_formula = [atom CapManageAdapters
        LevelProject],
      os_storeOps = licensed [StoreAdaptersTarget, StoreAdaptersPlanMaterial, StoreAdaptersConflicts,
        StoreAdaptersRecordPlan, StoreAuditTenantInsert],
      os_postGrantForbidden = False, os_events = [EventAdapterPlan],
      os_auditedNone = False, os_reviewExempt = False\<rparr>),
    (OpAdapterTest,
     \<lparr>os_class = ClassTenant, os_level = LevelProject, os_formula = [atom CapManageAdapters
        LevelProject],
      os_storeOps = licensed [StoreAdaptersPlanMaterial, StoreAdaptersTarget,
        StoreAdaptersRecordCredentialExpiry, StoreAuditTenantInsert],
      os_postGrantForbidden = False, os_events = [EventAdapterTest],
      os_auditedNone = False, os_reviewExempt = False\<rparr>),
    (OpAdapterSync,
     \<lparr>os_class = ClassTenant, os_level = LevelProject, os_formula = [atom CapManageAdapters
        LevelProject],
      os_storeOps = licensed [StoreAdaptersTarget, StoreAdaptersEnvironments, StoreAdaptersEnqueueManual,
        StoreAdaptersResumeTarget, StoreAuditTenantInsert],
      os_postGrantForbidden = True, os_events = [EventAdapterSyncRequested, EventAdapterPushIntent,
        EventAdapterPushOutcome, EventAdapterKeyDelivered, EventAdapterAbort, EventAdapterSuperseded],
      os_auditedNone = False, os_reviewExempt = False\<rparr>),
    (OpAdapterDelete,
     \<lparr>os_class = ClassTenant, os_level = LevelProject, os_formula = [atom CapManageAdapters
        LevelProject],
      os_storeOps = licensed [StoreAdaptersTeardownTarget, StoreAdaptersTeardownAdapter,
        StoreAuditTenantInsert],
      os_postGrantForbidden = False, os_events = [EventAdapterConfigure, EventAdapterScrub,
        EventAdapterPushIntent, EventAdapterPushOutcome, EventAdapterAbort, EventAdapterSuperseded],
      os_auditedNone = False, os_reviewExempt = False\<rparr>),
    (OpAdapterPush,
     \<lparr>os_class = ClassTenant, os_level = LevelEnv, os_formula = [atom CapManageAdapters LevelProject,
        atom CapReveal LevelEnv],
      os_storeOps = licensed [StoreAuditTenantInsert],
      os_postGrantForbidden = False, os_events = [EventAdapterPushIntent, EventAdapterPushOutcome,
        EventAdapterKeyDelivered, EventAdapterAbort, EventAdapterScrub, EventAdapterSuperseded],
      os_auditedNone = False, os_reviewExempt = False\<rparr>),
    (OpFileTargetCreate,
     \<lparr>os_class = ClassTenant, os_level = LevelProject, os_formula = [atom CapManageAdapters LevelProject,
        atom CapManageIdentities LevelProject],
      os_storeOps = licensed [StoreFileTargetsCreate, StoreFileTargetsGet, StoreFileTargetsKeys,
        StoreCatalogueList, StoreAuditTenantInsert],
      os_postGrantForbidden = False, os_events = [EventFileTargetConfigured],
      os_auditedNone = False, os_reviewExempt = False\<rparr>),
    (OpFileTargetUpdate,
     \<lparr>os_class = ClassTenant, os_level = LevelProject, os_formula = [atom CapManageAdapters LevelProject,
        atom CapManageIdentities LevelProject],
      os_storeOps = licensed [StoreFileTargetsGet, StoreFileTargetsKeys, StoreFileTargetsReplaceKeys,
        StoreCatalogueList, StoreAuditTenantInsert],
      os_postGrantForbidden = False, os_events = [EventFileTargetConfigured],
      os_auditedNone = False, os_reviewExempt = False\<rparr>),
    (OpFileTargetDelete,
     \<lparr>os_class = ClassTenant, os_level = LevelProject, os_formula = [atom CapManageAdapters LevelProject,
        atom CapManageIdentities LevelProject],
      os_storeOps = licensed [StoreFileTargetsGet, StoreFileTargetsKeys, StoreFileTargetsDelete,
        StoreAuditTenantInsert],
      os_postGrantForbidden = False, os_events = [EventFileTargetConfigured],
      os_auditedNone = False, os_reviewExempt = False\<rparr>),
    (OpFileTargetInspect,
     \<lparr>os_class = ClassTenant, os_level = LevelProject, os_formula = [atom CapManageAdapters
        LevelProject],
      os_storeOps = licensed [StoreFileTargetsList, StoreFileTargetsGet, StoreFileTargetsKeys,
        StoreFileTargetsKeysForTargets, StoreAuditTenantInsert],
      os_postGrantForbidden = False, os_events = [EventFileTargetInspected],
      os_auditedNone = False, os_reviewExempt = False\<rparr>),
    (OpFileTargetReport,
     \<lparr>os_class = ClassTenant, os_level = LevelEnv, os_formula = [atom CapReportDeliveryStatus LevelEnv],
      os_storeOps = licensed [StoreFileTargetsGet, StoreFileTargetsRecordReport, StoreAuditTenantInsert],
      os_postGrantForbidden = False, os_events = [EventFileTargetApplied],
      os_auditedNone = False, os_reviewExempt = False\<rparr>)]"

definition operationTable23 :: "(Operation \<times> opSpec) list" where
  "operationTable23 = [
    (OpDynamicProviderConfigure,
     \<lparr>os_class = ClassTenant, os_level = LevelProject, os_formula = [atom CapManageIdentities
        LevelProject],
      os_storeOps = licensed [StoreDynamicProvidersCreate, StoreDynamicProvidersGet,
        StoreKeysAssertActiveDEKVersion, StoreAuditTenantInsert],
      os_postGrantForbidden = False, os_events = [EventDynamicProviderConfigured],
      os_auditedNone = False, os_reviewExempt = False\<rparr>),
    (OpDynamicProviderInspect,
     \<lparr>os_class = ClassTenant, os_level = LevelProject, os_formula = [atom CapManageIdentities
        LevelProject],
      os_storeOps = licensed [StoreDynamicProvidersGet, StoreDynamicProvidersList, StoreAuditTenantInsert],
      os_postGrantForbidden = False, os_events = [EventDynamicProviderInspected],
      os_auditedNone = False, os_reviewExempt = False\<rparr>),
    (OpDynamicProviderCredentialSet,
     \<lparr>os_class = ClassTenant, os_level = LevelProject, os_formula = [atom CapManageIdentities
        LevelProject],
      os_storeOps = licensed [StoreDynamicProvidersGet, StoreDynamicProvidersReplaceCredential,
        StoreKeysAssertActiveDEKVersion, StoreAuditTenantInsert],
      os_postGrantForbidden = False, os_events = [EventDynamicProviderCredentialReplace],
      os_auditedNone = False, os_reviewExempt = False\<rparr>),
    (OpDynamicProviderCredentialRevoke,
     \<lparr>os_class = ClassTenant, os_level = LevelProject, os_formula = [atom CapManageIdentities
        LevelProject],
      os_storeOps = licensed [StoreDynamicProvidersGet, StoreDynamicProvidersRevokeCredential,
        StoreAuditTenantInsert],
      os_postGrantForbidden = False, os_events = [EventDynamicProviderCredentialRevoke],
      os_auditedNone = False, os_reviewExempt = False\<rparr>),
    (OpDynamicProviderDelete,
     \<lparr>os_class = ClassTenant, os_level = LevelProject, os_formula = [atom CapManageIdentities
        LevelProject],
      os_storeOps = licensed [StoreDynamicProvidersGet, StoreDynamicProvidersDelete,
        StoreDynamicLeasesActiveIDsForProvider, StoreDynamicLeasesGet, StoreDynamicLeasesEnqueueTransition,
        StoreAuditTenantInsert],
      os_postGrantForbidden = False, os_events = [EventDynamicProviderDeleted,
        EventDynamicLeaseTransitionIntent],
      os_auditedNone = False, os_reviewExempt = False\<rparr>),
    (OpLeaseMint,
     \<lparr>os_class = ClassTenant, os_level = LevelEnv, os_formula = [atom CapRead LevelEnv],
      os_storeOps = licensed [StoreDynamicProvidersGet, StoreDynamicProvidersCredentialCiphertext,
        StoreDynamicLeasesCreate, StoreDynamicLeasesGet, StoreDynamicLeasesFinishMint, StoreAuditTenantInsert],
      os_postGrantForbidden = True, os_events = [EventDynamicLeaseTransitionIntent,
        EventDynamicLeaseTransitionOutcome, EventDynamicLeaseDisclosed],
      os_auditedNone = False, os_reviewExempt = False\<rparr>),
    (OpLeaseInspect,
     \<lparr>os_class = ClassTenant, os_level = LevelEnv, os_formula = [atom CapRead LevelEnv],
      os_storeOps = licensed [StoreDynamicLeasesGet, StoreDynamicLeasesList],
      os_postGrantForbidden = False, os_events = [],
      os_auditedNone = True, os_reviewExempt = False\<rparr>),
    (OpLeaseRenew,
     \<lparr>os_class = ClassTenant, os_level = LevelEnv, os_formula = [atom CapRead LevelEnv],
      os_storeOps = licensed [StoreDynamicLeasesGet, StoreDynamicLeasesEnqueueTransition,
        StoreAuditTenantInsert],
      os_postGrantForbidden = False, os_events = [EventDynamicLeaseTransitionIntent],
      os_auditedNone = False, os_reviewExempt = False\<rparr>),
    (OpLeaseRevoke,
     \<lparr>os_class = ClassTenant, os_level = LevelEnv, os_formula = [atom CapRead LevelEnv],
      os_storeOps = licensed [StoreDynamicLeasesGet, StoreDynamicLeasesEnqueueTransition,
        StoreAuditTenantInsert],
      os_postGrantForbidden = False, os_events = [EventDynamicLeaseTransitionIntent],
      os_auditedNone = False, os_reviewExempt = False\<rparr>),
    (OpLeaseSettle,
     \<lparr>os_class = ClassTenant, os_level = LevelEnv, os_formula = [atom CapRead LevelEnv],
      os_storeOps = licensed [StoreDynamicLeasesGet, StoreDynamicLeasesEnqueueTransition,
        StoreAuditTenantInsert],
      os_postGrantForbidden = False, os_events = [EventDynamicLeaseSettleRequested],
      os_auditedNone = False, os_reviewExempt = False\<rparr>),
    (OpSSHCAConfigure,
     \<lparr>os_class = ClassTenant, os_level = LevelEnv, os_formula = [atom CapManageIdentities LevelProject],
      os_storeOps = licensed [StoreSSHCreateCA, StoreSSHInsertCAKey, StoreSSHGetCA,
        StoreKeysAssertActiveDEKVersion, StoreAuditTenantInsert],
      os_postGrantForbidden = False, os_events = [EventSSHCAConfigured],
      os_auditedNone = False, os_reviewExempt = False\<rparr>),
    (OpSSHCAInspect,
     \<lparr>os_class = ClassTenant, os_level = LevelEnv, os_formula = [atom CapRead LevelEnv],
      os_storeOps = licensed [StoreSSHGetCA, StoreSSHListCAs, StoreSSHRevokedSerials],
      os_postGrantForbidden = False, os_events = [],
      os_auditedNone = True, os_reviewExempt = False\<rparr>),
    (OpSSHCARotate,
     \<lparr>os_class = ClassTenant, os_level = LevelEnv, os_formula = [atom CapManageIdentities LevelProject],
      os_storeOps = licensed [StoreSSHGetCA, StoreSSHActiveKeyLastExpiry, StoreSSHRetireActiveCAKey,
        StoreSSHInsertCAKey, StoreKeysAssertActiveDEKVersion, StoreAuditTenantInsert],
      os_postGrantForbidden = False, os_events = [EventSSHCARotated],
      os_auditedNone = False, os_reviewExempt = False\<rparr>),
    (OpSSHCARetireKey,
     \<lparr>os_class = ClassTenant, os_level = LevelEnv, os_formula = [atom CapManageIdentities LevelProject],
      os_storeOps = licensed [StoreSSHGetCA, StoreSSHRetireCAKey, StoreAuditTenantInsert],
      os_postGrantForbidden = False, os_events = [EventSSHCAKeyRetired],
      os_auditedNone = False, os_reviewExempt = False\<rparr>),
    (OpSSHCADelete,
     \<lparr>os_class = ClassTenant, os_level = LevelEnv, os_formula = [atom CapManageIdentities LevelProject],
      os_storeOps = licensed [StoreSSHGetCA, StoreSSHCountLiveProfilesForCA, StoreSSHDeleteCA,
        StoreAuditTenantInsert],
      os_postGrantForbidden = False, os_events = [EventSSHCADeleted],
      os_auditedNone = False, os_reviewExempt = False\<rparr>),
    (OpSSHProfileConfigure,
     \<lparr>os_class = ClassTenant, os_level = LevelEnv, os_formula = [atom CapManageIdentities LevelProject],
      os_storeOps = licensed [StoreSSHGetCA, StoreSSHGetProfile, StoreSSHCreateProfile, StoreSSHUpdateProfile,
        StoreSSHRevokeProfileCertificates, StoreAuditTenantInsert],
      os_postGrantForbidden = False, os_events = [EventSSHProfileConfigured, EventSSHCertificateRevoked],
      os_auditedNone = False, os_reviewExempt = False\<rparr>),
    (OpSSHProfileInspect,
     \<lparr>os_class = ClassTenant, os_level = LevelEnv, os_formula = [atom CapRead LevelEnv],
      os_storeOps = licensed [StoreSSHGetProfile, StoreSSHListProfiles],
      os_postGrantForbidden = False, os_events = [],
      os_auditedNone = True, os_reviewExempt = False\<rparr>),
    (OpSSHProfileDelete,
     \<lparr>os_class = ClassTenant, os_level = LevelEnv, os_formula = [atom CapManageIdentities LevelProject],
      os_storeOps = licensed [StoreSSHGetProfile, StoreSSHDeleteProfile, StoreSSHRevokeProfileCertificates,
        StoreAuditTenantInsert],
      os_postGrantForbidden = False, os_events = [EventSSHProfileDeleted, EventSSHCertificateRevoked],
      os_auditedNone = False, os_reviewExempt = False\<rparr>),
    (OpSSHCertIssue,
     \<lparr>os_class = ClassTenant, os_level = LevelEnv, os_formula = [atom CapRead LevelEnv],
      os_storeOps = licensed [StoreSSHGetProfile, StoreSSHIsRequester, StoreSSHActiveCAKey,
        StoreSSHInsertCertificate, StoreSSHGetCertificate, StoreKeysAssertActiveDEKVersion,
        StoreAuditTenantInsert],
      os_postGrantForbidden = True, os_events = [EventSSHCertificateIssued],
      os_auditedNone = False, os_reviewExempt = False\<rparr>),
    (OpSSHCertInspect,
     \<lparr>os_class = ClassTenant, os_level = LevelEnv, os_formula = [atom CapRead LevelEnv],
      os_storeOps = licensed [StoreSSHGetCertificate, StoreSSHListCertificates],
      os_postGrantForbidden = False, os_events = [],
      os_auditedNone = True, os_reviewExempt = False\<rparr>),
    (OpSSHCertRevoke,
     \<lparr>os_class = ClassTenant, os_level = LevelEnv, os_formula = [atom CapRead LevelEnv],
      os_storeOps = licensed [StoreSSHGetCertificate, StoreSSHRevokeCertificate, StoreAuditTenantInsert],
      os_postGrantForbidden = False, os_events = [EventSSHCertificateRevoked],
      os_auditedNone = False, os_reviewExempt = False\<rparr>),
    (OpTransitKeyCreate,
     \<lparr>os_class = ClassTenant, os_level = LevelEnv, os_formula = [atom CapCryptoManage LevelProject],
      os_storeOps = licensed [StoreTransitKeysCount, StoreTransitKeysCreate, StoreKeysAssertActiveDEKVersion,
        StoreAuditTenantInsert],
      os_postGrantForbidden = False, os_events = [EventTransitKeyCreated],
      os_auditedNone = False, os_reviewExempt = False\<rparr>),
    (OpTransitKeyInspect,
     \<lparr>os_class = ClassTenant, os_level = LevelEnv, os_formula = [atom CapRead LevelEnv],
      os_storeOps = licensed [StoreTransitKeysList, StoreTransitKeysGet, StoreTransitVersionsList,
        StoreTransitCallersList],
      os_postGrantForbidden = False, os_events = [],
      os_auditedNone = True, os_reviewExempt = False\<rparr>)]"

definition operationTable24 :: "(Operation \<times> opSpec) list" where
  "operationTable24 = [
    (OpTransitKeyConfigure,
     \<lparr>os_class = ClassTenant, os_level = LevelEnv, os_formula = [atom CapCryptoManage LevelProject],
      os_storeOps = licensed [StoreAuditTenantInsert, StoreTransitCallersList, StoreTransitKeysConfigure,
        StoreTransitKeysGet, StoreTransitVersionsList],
      os_postGrantForbidden = False, os_events = [EventTransitKeyConfigured],
      os_auditedNone = False, os_reviewExempt = False\<rparr>),
    (OpTransitKeyRotate,
     \<lparr>os_class = ClassTenant, os_level = LevelEnv, os_formula = [atom CapCryptoManage LevelProject],
      os_storeOps = licensed [StoreAuditTenantInsert, StoreKeysAssertActiveDEKVersion, StoreTransitCallersList,
        StoreTransitKeysGet, StoreTransitVersionsAppend, StoreTransitVersionsList],
      os_postGrantForbidden = False, os_events = [EventTransitKeyRotated],
      os_auditedNone = False, os_reviewExempt = False\<rparr>),
    (OpTransitKeyLifecycle,
     \<lparr>os_class = ClassTenant, os_level = LevelEnv, os_formula = [atom CapCryptoManage LevelProject],
      os_storeOps = licensed [StoreAuditTenantInsert, StoreTransitCallersList, StoreTransitKeysChangeState,
        StoreTransitKeysCompromise, StoreTransitKeysGet, StoreTransitVersionsList],
      os_postGrantForbidden = False, os_events = [EventTransitKeyStateChanged],
      os_auditedNone = False, os_reviewExempt = False\<rparr>),
    (OpTransitKeyTrim,
     \<lparr>os_class = ClassTenant, os_level = LevelEnv, os_formula = [atom CapCryptoManage LevelProject],
      os_storeOps = licensed [StoreAuditTenantInsert, StoreTransitCallersList, StoreTransitKeysGet,
        StoreTransitVersionMaterial, StoreTransitVersionsFenceTrim, StoreTransitVersionsList,
        StoreTransitVersionsTrim],
      os_postGrantForbidden = False, os_events = [EventTransitKeyTrimmed],
      os_auditedNone = False, os_reviewExempt = False\<rparr>),
    (OpTransitUse,
     \<lparr>os_class = ClassTenant, os_level = LevelEnv, os_formula = [atom CapCryptoUse LevelEnv],
      os_storeOps = licensed [StoreTransitKeysGetForUse, StoreTransitVersionMaterial, StoreTransitCallersList,
        StoreAuditTenantInsert],
      os_postGrantForbidden = True, os_events = [EventTransitOperation],
      os_auditedNone = False, os_reviewExempt = False\<rparr>),
    (OpPKIIssuerInspect,
     \<lparr>os_class = ClassInstance, os_level = LevelNone, os_formula = pkiOperatorFormula,
      os_storeOps = licensed [StorePKIIssuersList, StorePKIIssuersGet, StoreAuditInstanceInsert],
      os_postGrantForbidden = False, os_events = [EventPKIInventoryRead],
      os_auditedNone = False, os_reviewExempt = False\<rparr>),
    (OpPKIIssuerCreate,
     \<lparr>os_class = ClassInstance, os_level = LevelNone, os_formula = pkiOperatorFormula,
      os_storeOps = licensed [StorePKIIssuersList, StorePKIIssuersGet, StorePKIIssuersActivePublic,
        StorePKIIssuersKey, StorePKIIssuersCreate, StoreKeysAssertActiveDEKVersion, StoreAuditInstanceInsert],
      os_postGrantForbidden = False, os_events = [EventPKIIssuer],
      os_auditedNone = False, os_reviewExempt = False\<rparr>),
    (OpPKIIssuerInstall,
     \<lparr>os_class = ClassInstance, os_level = LevelNone, os_formula = pkiOperatorFormula,
      os_storeOps = licensed [StorePKIIssuersList, StorePKIIssuersGet, StorePKIIssuersInstall,
        StorePKIIssuersTransition, StoreAuditInstanceInsert],
      os_postGrantForbidden = False, os_events = [EventPKIIssuer],
      os_auditedNone = False, os_reviewExempt = False\<rparr>),
    (OpPKIIssuerRotate,
     \<lparr>os_class = ClassInstance, os_level = LevelNone, os_formula = pkiOperatorFormula,
      os_storeOps = licensed [StorePKIIssuersList, StorePKIIssuersGet, StorePKIIssuersActivePublic,
        StorePKIIssuersKey, StorePKIIssuersCreate, StorePKIIssuersTransition, StoreKeysAssertActiveDEKVersion,
        StoreAuditInstanceInsert],
      os_postGrantForbidden = False, os_events = [EventPKIIssuer],
      os_auditedNone = False, os_reviewExempt = False\<rparr>),
    (OpPKIIssuerRetire,
     \<lparr>os_class = ClassInstance, os_level = LevelNone, os_formula = pkiOperatorFormula,
      os_storeOps = licensed [StorePKIIssuersList, StorePKIIssuersGet, StorePKICertificatesCountLive,
        StorePKIIssuersDestroyKey, StoreAuditInstanceInsert],
      os_postGrantForbidden = False, os_events = [EventPKIIssuer],
      os_auditedNone = False, os_reviewExempt = False\<rparr>),
    (OpPKIIssuerRevoke,
     \<lparr>os_class = ClassInstance, os_level = LevelNone, os_formula = pkiOperatorFormula,
      os_storeOps = licensed [StorePKIIssuersList, StorePKIIssuersGet, StorePKICertificatesRevokeLive,
        StorePKIIssuersDestroyKey, StoreAuditInstanceInsert],
      os_postGrantForbidden = False, os_events = [EventPKIIssuer],
      os_auditedNone = False, os_reviewExempt = False\<rparr>),
    (OpPKIIssuerReleaseHold,
     \<lparr>os_class = ClassInstance, os_level = LevelNone, os_formula = pkiOperatorFormula,
      os_storeOps = licensed [StorePKIIssuersList, StorePKIIssuersGet, StorePKIIssuersHold,
        StoreAuditInstanceInsert],
      os_postGrantForbidden = False, os_events = [EventPKIIssuer],
      os_auditedNone = False, os_reviewExempt = False\<rparr>),
    (OpPKIIssuerPublishCRL,
     \<lparr>os_class = ClassInstance, os_level = LevelNone, os_formula = pkiOperatorFormula,
      os_storeOps = licensed [StorePKIIssuersList, StorePKIIssuersGet, StorePKIIssuersKey,
        StorePKICertificatesRevokedEntries, StorePKIIssuersPublishCRL, StoreAuditInstanceInsert],
      os_postGrantForbidden = False, os_events = [EventPKICRLPublished],
      os_auditedNone = False, os_reviewExempt = False\<rparr>),
    (OpPKIProfileInspect,
     \<lparr>os_class = ClassInstance, os_level = LevelNone, os_formula = pkiOperatorFormula,
      os_storeOps = licensed [StorePKIProfilesList, StorePKIProfilesGet, StorePKIBindingsList,
        StoreAuditInstanceInsert],
      os_postGrantForbidden = False, os_events = [EventPKIInventoryRead],
      os_auditedNone = False, os_reviewExempt = False\<rparr>),
    (OpPKIProfileCreate,
     \<lparr>os_class = ClassInstance, os_level = LevelNone, os_formula = pkiOperatorFormula,
      os_storeOps = licensed [StorePKIIssuersList, StorePKIProfilesGet, StorePKIProfilesCreate,
        StoreAuditInstanceInsert],
      os_postGrantForbidden = False, os_events = [EventPKIProfile],
      os_auditedNone = False, os_reviewExempt = False\<rparr>),
    (OpPKIProfileUpdate,
     \<lparr>os_class = ClassInstance, os_level = LevelNone, os_formula = pkiOperatorFormula,
      os_storeOps = licensed [StorePKIIssuersList, StorePKIProfilesGet, StorePKIProfilesUpdate,
        StoreAuditInstanceInsert],
      os_postGrantForbidden = False, os_events = [EventPKIProfile],
      os_auditedNone = False, os_reviewExempt = False\<rparr>),
    (OpPKIProfileDelete,
     \<lparr>os_class = ClassInstance, os_level = LevelNone, os_formula = pkiOperatorFormula,
      os_storeOps = licensed [StorePKIProfilesGet, StorePKIProfilesDelete, StoreAuditInstanceInsert],
      os_postGrantForbidden = False, os_events = [EventPKIProfile],
      os_auditedNone = False, os_reviewExempt = False\<rparr>),
    (OpPKIProfileBind,
     \<lparr>os_class = ClassInstance, os_level = LevelNone, os_formula = pkiOperatorFormula,
      os_storeOps = licensed [StorePKIProfilesGet, StorePKIBindingsList, StorePKIBindingsCreate,
        StoreAuditInstanceInsert],
      os_postGrantForbidden = False, os_events = [EventPKIProfile],
      os_auditedNone = False, os_reviewExempt = False\<rparr>),
    (OpPKIProfileUnbind,
     \<lparr>os_class = ClassInstance, os_level = LevelNone, os_formula = pkiOperatorFormula,
      os_storeOps = licensed [StorePKIProfilesGet, StorePKIBindingsList, StorePKIBindingsDelete,
        StoreAuditInstanceInsert],
      os_postGrantForbidden = False, os_events = [EventPKIProfile],
      os_auditedNone = False, os_reviewExempt = False\<rparr>),
    (OpCertificateIssue,
     \<lparr>os_class = ClassTenant, os_level = LevelEnv, os_formula = pkiIssueFormula,
      os_storeOps = licensed [StorePKIProfilesBound, StorePKIIssuersActivePublic, StorePKIIssuersSigning,
        StorePKIIssuersFence, StorePKICertificatesCreate, StorePKICertificatesFinish, StorePKICertificatesFail,
        StorePKICertificatesGet, StoreAuditTenantInsert],
      os_postGrantForbidden = True, os_events = [EventPKICertificateTransitionIntent,
        EventPKICertificateTransitionOutcome, EventPKICertificateKeyDisclosed],
      os_auditedNone = False, os_reviewExempt = False\<rparr>),
    (OpCertificateRenew,
     \<lparr>os_class = ClassTenant, os_level = LevelEnv, os_formula = pkiIssueFormula,
      os_storeOps = licensed [StorePKICertificatesGet, StorePKIProfilesBound, StorePKIIssuersActivePublic,
        StorePKIIssuersPublic, StorePKIIssuersSigning, StorePKIIssuersFence, StorePKICertificatesCreate,
        StorePKICertificatesFinish, StorePKICertificatesFail, StorePKICertificatesClaimRenewal,
        StorePKICertificatesCompleteRenewal, StorePKICertificatesReleaseRenewal, StoreAuditTenantInsert],
      os_postGrantForbidden = True, os_events = [EventPKICertificateTransitionIntent,
        EventPKICertificateTransitionOutcome],
      os_auditedNone = False, os_reviewExempt = False\<rparr>),
    (OpCertificateRevoke,
     \<lparr>os_class = ClassTenant, os_level = LevelEnv, os_formula = pkiIssueFormula,
      os_storeOps = licensed [StorePKICertificatesGet, StorePKIIssuersPublic, StorePKICertificatesRevoke,
        StoreAuditTenantInsert],
      os_postGrantForbidden = False, os_events = [EventPKICertificateTransitionOutcome],
      os_auditedNone = False, os_reviewExempt = False\<rparr>),
    (OpCertificateInspect,
     \<lparr>os_class = ClassTenant, os_level = LevelEnv, os_formula = [atom CapRead LevelEnv],
      os_storeOps = licensed [StorePKICertificatesGet, StorePKICertificatesList, StorePKIProfilesBoundList,
        StorePKIIssuersPublic, StorePKIIssuersActivePublic],
      os_postGrantForbidden = False, os_events = [],
      os_auditedNone = True, os_reviewExempt = False\<rparr>)]"

definition operationTable :: "(Operation \<times> opSpec) list" where
  "operationTable =
    operationTable1 @ operationTable2 @ operationTable3 @ operationTable4 @ operationTable5
    @ operationTable6 @ operationTable7 @ operationTable8 @ operationTable9 @ operationTable10
    @ operationTable11 @ operationTable12 @ operationTable13 @ operationTable14 @ operationTable15
    @ operationTable16 @ operationTable17 @ operationTable18 @ operationTable19 @ operationTable20
    @ operationTable21 @ operationTable22 @ operationTable23 @ operationTable24"

section \<open>System sites\<close>

definition systemSites :: "(SystemSite \<times> StoreOp list) list" where
  "systemSites = [
    (SiteSelfConfigSeed, [StoreSelfConfigSeedInputs, StoreSelfConfigHostSeedInputs,
       StoreSelfConfigPutSeedInput]),
    (SiteSelfConfigRecovery, [StoreSelfConfigBinding, StoreSelfConfigJobs, StoreSelfConfigNodes,
       StoreSelfConfigRetained, StoreSelfConfigRecoverTarget, StoreSnapshotsAtRevision, StoreSnapshotsEntries,
       StoreSnapshotsParameterContract, StoreCatalogueList, StoreCatalogueRevisionGet, StoreAuditTenantInsert]),
    (SiteSelfConfigRuntime, [StoreSelfConfigBinding, StoreSelfConfigPreviousRevision, StoreSelfConfigRollout,
       StoreSelfConfigPutRollout, StoreSelfConfigNextRolloutSequence, StoreSelfConfigJobs, StoreSelfConfigJob,
       StoreSelfConfigNodes, StoreSelfConfigRetained, StoreSelfConfigPutNode, StoreSelfConfigFinishJob,
       StoreSelfConfigFenceRestored, StoreSnapshotsAtRevision, StoreSnapshotsEntries,
       StoreSnapshotsParameterContract, StoreCatalogueList, StoreCatalogueRevisionGet, StoreAuditTenantInsert]),
    (SiteEscrow, [StoreKeysActiveMasterWrappers, StoreKeysAllOpenableTier3, StoreKeysAcquireHierarchyGeneration,
       StoreEscrowVerificationWrite, StoreAuditInstanceInsert]),
    (SiteBoot, bootKeyringOps),
    (SiteMigration, []),
    (SiteRecoveryReconcile, []),
    (SiteBreakGlass, []),
    (SiteScheduler, [StoreOpsDiagnosticsRead, StoreRetentionEligible, StoreRetentionMarkCollected,
       StoreRetentionDeleteEntries, StoreRetentionLastSuccess, StoreRetentionSetLastSuccess,
       StoreAuditTenantInsert, StoreRetentionAuditPolicy, StoreRetentionSetAuditPolicy,
       StoreRetentionPruneAudit, StoreAuditInstanceInsert, StoreDefinitionsPlanPrune,
       StoreApprovalRequestSelectExpiry, StoreApprovalRequestMarkExpired, StoreApprovalRequestCounts,
       StoreAccessRequestSelectDue, StoreAccessRequestMarkExpired, StoreAccessRequestCounts,
       StoreValuesInstancePayloadByProject, StoreSnapshotsInstancePayloadByProject, StoreBackupStateGet,
       StoreBackupStateSetExportSuccess, StoreBackupStateSetExportFailure, StoreBackupStateSetPruneResult,
       StoreBackupStateSetDrill, StoreValuesSampleSecretEntry, StoreAdaptersHealthCounts,
       StoreDeliveryTargetsSelectExpired, StoreDeliveryTargetsPurge, StoreTransitSelectDeletionDue,
       StoreTransitSelectRotationDue, StoreTransitVersionsAppend, StoreTransitDestroyVersions,
       StoreTransitDestroy, StoreKeysAssertActiveDEKVersion])]"

definition systemSiteEvents :: "(SystemSite \<times> EventType list) list" where
  "systemSiteEvents = [
    (SiteMigration, [EventSelfConfigMigrated]),
    (SiteSelfConfigRecovery, [EventSelfConfigRecovered]),
    (SiteSelfConfigRuntime, [EventSelfConfigApplied, EventSelfConfigRecoveryFenced,
       EventSelfConfigTestCompleted]),
    (SiteEscrow, [EventRootEscrowVerified]),
    (SiteScheduler, [EventAuditRetentionChanged, EventAuditRetentionPruned, EventRetentionPayloadGC,
       EventRetentionPruneRun, EventUpdateOutcome, EventApprovalExpired, EventAccessExpired,
       EventBackupExportFailed, EventDeliveryTargetPurged, EventTransitKeyRotated, EventTransitKeyDestroyed])]"

section \<open>The table is a valid registry\<close>

text \<open>The names of the event catalogue, so that membership evaluates without the schemas.\<close>

definition eventNames :: "EventType list" where
  "eventNames = [
    EventRequestRefused, EventSelfConfigMigrated, EventSelfConfigRecovered, EventSelfConfigStatusRead,
    EventSelfConfigAdopted, EventSelfConfigTargetCommitted, EventSelfConfigResumed,
    EventSelfConfigDeploymentRestoreRequested, EventSelfConfigApplyRequested, EventSelfConfigTestRequested,
    EventSelfConfigTestCompleted, EventSelfConfigProjectPrepared, EventSelfConfigApplied,
    EventSelfConfigRecoveryFenced, EventAuthProfileUpdated, EventPrivacySubjectCorrected,
    EventPrivacySubjectReleased, EventPrivacySubjectExported, EventPrivacySubjectRestricted,
    EventPrivacySubjectErased, EventGrantDenied, EventAuditQuery, EventAuditExportStarted,
    EventAuditExportCompleted, EventAuthLogin, EventAuthLogout, EventAuthArtifactClassRefused,
    EventAuthSessionCreated, EventAuthAuthorityMinted, EventAuthCredentialEstablished,
    EventAuthAuthorityRefused, EventAuthThrottleCrossed, EventAuthFactorEnrolled, EventAuthFactorRemoved,
    EventAuthRecoveryCodesGenerated, EventAuthRecoveryCodeConsumed, EventAuthReauthenticated,
    EventAuthCLIReauthHandoff, EventAuthPasskeyAdded, EventAuthPasskeyRemoved, EventAuthPasskeyCloned,
    EventAuthPasswordChanged, EventCredentialEstablish, EventOAuth2Login, EventOAuth2Refused,
    EventOIDCLogin, EventOIDCRefused, EventIdentityLinked, EventIdentityUnlinked, EventOIDCProviderChanged,
    EventOIDCProviderRead, EventSAMLLogin, EventSAMLReauth, EventSAMLProviderConfigure,
    EventSAMLProviderRefresh, EventSAMLProviderRemove, EventSAMLCertChange, EventSAMLEmailNameIDOptIn,
    EventSAMLSPKey, EventSAMLMetadataExpiryWarning, EventAuthCredentialResetIssued,
    EventAuthEffectiveWindowLowered, EventOrgRead, EventOrgCreated, EventProjectCreated, EventEnvCreated,
    EventEnvNoteChanged, EventOrgRenamed, EventOrgDeleted, EventProjectRenamed, EventProjectDeleted,
    EventEnvParameterChanged, EventEnvRenamed, EventEnvDeleted, EventEnvReordered, EventFolderCreated,
    EventFolderRenamed, EventFolderDeleted, EventKeyCreated, EventKeyRenamed, EventKeyDeleted,
    EventKeyDeclarationChanged, EventKeyMetadataChanged, EventKeyReclassified, EventKeyRevealGateAttempt,
    EventDefinitionsPlanCreated, EventDefinitionsApplied, EventDefinitionsApplyRejectedStale,
    EventDefinitionsDeletionRefused, EventDefinitionsAdditiveModificationRefused,
    EventSettingsDefinitionsSourceChanged, EventProjectCapacityChanged, EventSettingsMachineRevealChanged,
    EventValueSet, EventValueCleared, EventValueRevealed, EventValuesExported, EventValueStaged,
    EventValueChangeValidated, EventRevisionPublished, EventRevisionRestoreStaged, EventPinCreated,
    EventPinReassigned, EventPinRenewed, EventPinReleased, EventPinExpiryRefused, EventTokenKeyRotated,
    EventScanningKeyRotated, EventScanningFindingWarned, EventScanningFindingDismissed,
    EventScanningFindingBlocked, EventScanningFindingOverridden, EventDEKRotated, EventMasterKeyRotated,
    EventReencryptCompleted, EventRootEscrowVerified, EventRootKeyRotationPrepared,
    EventRootKeyRotationVerified, EventRootKeyRotationFinalized, EventValueCopied, EventValueImported,
    EventKeyGroupCreated, EventKeyGroupRenamed, EventKeyGroupDeleted, EventKeyGroupMembershipChanged,
    EventGrantCreated, EventGrantModified, EventGrantRevoked, EventRuleCreated, EventRuleRevoked,
    EventRuleMoveWideningConfirmed, EventMemberInvited, EventRegistrationPolicyCreated,
    EventRegistrationPolicyUpdated, EventRegistrationPolicyDeleted, EventRegistrationSignupExpired,
    EventRegistrationMailStatusRead, EventRegistrationMailIntent, EventRegistrationMailOutcome,
    EventRegistrationSignupAdmitted, EventRegistrationSignupRefused, EventRegistrationSignupCompleted,
    EventGrantTemplateApplied, EventReauthWindowChanged, EventProtectedFlagChange, EventOrgRetentionChanged,
    EventProjectRetentionChanged, EventRetentionHealthRead, EventUpdateStatusRead, EventUpdateRequested,
    EventUpdateOutcome, EventRetentionPayloadGC, EventAuditRetentionChanged, EventAuditRetentionPruned,
    EventRetentionPruneRun, EventBreakGlassGrant, EventApprovalPolicyChanged, EventApprovalPolicyRead,
    EventApprovalRequested, EventApprovalVoted, EventApprovalMerged, EventApprovalInvalidated,
    EventApprovalExpired, EventApprovalBypassed, EventAccessPolicyChanged, EventAccessPolicyRead,
    EventAccessRequested, EventAccessVoted, EventAccessGranted, EventAccessCancelled,
    EventAccessInvalidated, EventAccessRevoked, EventAccessExpired, EventAccessBypassed,
    EventBackupExported, EventBackupExportSkipped, EventRestoreCompleted, EventRestorePrincipalReconciled,
    EventBackupExportFailed, EventRestoreDrillCompleted, EventGrantMembershipRead,
    EventServiceAccountCreated, EventServiceAccountDeleted, EventDeveloperCredentialMintRefused,
    EventDeveloperCredentialMinted, EventDeveloperCredentialRevoked, EventDeveloperCredentialsListed,
    EventDeveloperCredentialPolicyRead, EventDeveloperCredentialPolicyChanged, EventCredentialMinted,
    EventCredentialRevoked, EventMachineGrantWidened, EventCredentialPolicyChanged, EventCredentialsListed,
    EventCredentialPolicyRead, EventBindingCreated, EventBindingReactivated, EventFederationIssuerChanged,
    EventFederationIssuerRead, EventFederationRefused, EventJWKSRefreshFailed, EventRemoteAdded,
    EventRemoteRemoved, EventRemoteRenamed, EventRemoteFetchFailed, EventRemoteDirectoryViewed,
    EventRemotePairingPrepared, EventRemotePairingInviteCreated, EventRemotePairingInvitesListed,
    EventRemotePairingInviteRevoked, EventRemotePairingStarted, EventRemotePairingFinished,
    EventRemotePairingFailed, EventRemoteCredentialMinted, EventRemoteCredentialRevoked,
    EventRemoteCredentialsListed, EventRemoteDirectoryServed, EventRemoteOriginAllowlistChanged,
    EventRemoteOriginAllowlistRead, EventRemoteWorkspaceHandoffRead, EventRemoteWorkspaceSessionIssued,
    EventRemoteWorkspaceSessionRevoked, EventRemoteHandoffFailed, EventDeliveryTargetCreated,
    EventDeliveryTargetTombstoned, EventDeliveryTargetPurged, EventDeliveryTargetRefused,
    EventDeliveryFetched, EventOfflineRecordsReconciled, EventDisclosure, EventSCIMBindingCreated,
    EventSCIMBindingDeleted, EventSCIMMappingCreated, EventSCIMMappingUpdated, EventSCIMMappingDeleted,
    EventSCIMCredentialMinted, EventSCIMCredentialRotated, EventSCIMCredentialRevoked,
    EventSCIMUserProvisioned, EventSCIMUserUpdated, EventSCIMUserDeprovisioned, EventSCIMUserDeleted,
    EventSCIMGroupCreated, EventSCIMGroupUpdated, EventSCIMGroupDeleted, EventSCIMGroupMembership,
    EventSCIMLockoutRetention, EventSCIMLockoutRetentionReleased, EventSCIMAttentionEntered,
    EventSCIMAttentionCleared, EventSCIMDirectoryRead, EventSCIMCredentialRefused, EventSCIMAdminRead,
    EventAdapterPushIntent, EventAdapterPushOutcome, EventAdapterConfigure, EventAdapterCredentialReplace,
    EventAdapterCredentialRevoke, EventAdapterAdopt, EventAdapterInspect, EventFileTargetConfigured,
    EventFileTargetInspected, EventFileTargetApplied, EventDynamicProviderConfigured,
    EventDynamicProviderCredentialReplace, EventDynamicProviderCredentialRevoke,
    EventDynamicProviderDeleted, EventDynamicProviderInspected, EventDynamicLeaseTransitionIntent,
    EventDynamicLeaseTransitionOutcome, EventDynamicLeaseDisclosed, EventDynamicLeaseSettleRequested,
    EventSSHCAConfigured, EventSSHCARotated, EventSSHCAKeyRetired, EventSSHCADeleted,
    EventSSHProfileConfigured, EventSSHProfileDeleted, EventSSHCertificateIssued,
    EventSSHCertificateRevoked, EventTransitKeyCreated, EventTransitKeyConfigured, EventTransitKeyRotated,
    EventTransitKeyStateChanged, EventTransitKeyTrimmed, EventTransitKeyDestroyed, EventTransitOperation,
    EventPKIInventoryRead, EventPKIIssuer, EventPKIProfile, EventPKICertificateTransitionIntent,
    EventPKICertificateTransitionOutcome, EventPKICertificateKeyDisclosed, EventPKICRLPublished,
    EventAdapterPlan, EventAdapterTest, EventAdapterSyncRequested, EventAdapterKeyDelivered,
    EventAdapterAbort, EventAdapterScrub, EventAdapterSuperseded]"

lemma eventNames_eq: "map fst eventTable = eventNames"
  unfolding eventNames_def eventTable_def
    eventTable1_def eventTable2_def eventTable3_def eventTable4_def eventTable5_def eventTable6_def
    eventTable7_def eventTable8_def eventTable9_def eventTable10_def eventTable11_def eventTable12_def
    eventTable13_def eventTable14_def eventTable15_def eventTable16_def eventTable17_def
    eventTable18_def eventTable19_def eventTable20_def eventTable21_def
  by (simp only: list.map append.simps fst_conv)

lemma eventNames_nonempty: "[] \<notin> set eventNames"
  by (simp add: eventNames_def)

lemma catalogued_all: "list_all catalogued eventNames"
  using eventNames_nonempty map_of_eq_None_iff [of eventTable]
  by (force simp: list_all_iff catalogued_def AuditSpec_def simp flip: eventNames_eq)

text \<open>
  Membership in the catalogue and in the read-only store operations as rewrite rules, one per
  member; the same for the capability table's levels.
\<close>

lemmas catalogued_facts = catalogued_all [unfolded eventNames_def list.pred_inject]

lemma readOnly_all:
  "list_all (\<lambda>so. so \<in> set readOnlyStoreOps) readOnlyStoreOps1"
  "list_all (\<lambda>so. so \<in> set readOnlyStoreOps) readOnlyStoreOps2"
  by (simp_all add: list_all_iff readOnlyStoreOps_def)

lemmas readOnly_facts = readOnly_all [unfolded readOnlyStoreOps1_def readOnlyStoreOps2_def list.pred_inject]

lemma capability_levels: "list_all (\<lambda>(c, l). DeepestLevel c = Some l) capabilityLevels"
  by code_simp

lemmas capability_facts = capability_levels [unfolded capabilityLevels_def list.pred_inject prod.case]

lemma IsCapability_iff: "IsCapability c \<longleftrightarrow> DeepestLevel c \<noteq> None"
  by (simp add: IsCapability_def DeepestLevel_def)

lemma wellFormedRow_simp:
  "wellFormedRow (op, \<lparr>os_class = cl, os_level = l, os_formula = f, os_storeOps = licensed sos,
      os_postGrantForbidden = pg, os_events = es, os_auditedNone = an, os_reviewExempt = re\<rparr>) \<longleftrightarrow>
   op \<noteq> [] \<and> (cl = ClassTenant \<and> l \<noteq> LevelNone \<or> cl = ClassInstance \<and> l = LevelNone) \<and>
   f \<noteq> [] \<and> list_all (wellFormedAtom op l) f \<and>
   (if es \<noteq> [] then 1 else 0) + (if an then 1 else 0) + (if re then 1 else 0) = (1 :: nat) \<and>
   (re \<longrightarrow> op \<in> set reviewedExemptions) \<and> distinct es \<and> list_all catalogued es \<and>
   (an \<longrightarrow> cl = ClassTenant \<and> list_all (\<lambda>a. a_Cap a = CapRead) f \<and> list_all (\<lambda>so. so \<in> set readOnlyStoreOps) sos)"
  by (auto simp: wellFormedRow_def dispositions_def unauditedRow_def licensed_def list_all_iff)

lemma level_le:
  "LevelNone \<le> l" "LevelOrg \<le> LevelOrg" "LevelOrg \<le> LevelProject" "LevelOrg \<le> LevelEnv"
  "LevelProject \<le> LevelEnv"
  by (cases l) code_simp+

lemmas row_rules = withCure_def scimOps_def wellFormedRow_simp wellFormedAtom_def IsCapability_iff allowsEnvironmentDefinitionsAtom_def
  reviewedExemptions_def capability_facts catalogued_facts readOnly_facts level_le
  pkiOperatorFormula_def pkiIssueFormula_def scimAdminFormula_def scimWireFormula_def grantCureEvents_def scimUserMutationEvents_def scimGroupMutationEvents_def

lemma operationTable1_ok: "list_all wellFormedRow operationTable1"
  by (simp add: operationTable1_def row_rules)

lemma operationTable2_ok: "list_all wellFormedRow operationTable2"
  by (simp add: operationTable2_def row_rules)

lemma operationTable3_ok: "list_all wellFormedRow operationTable3"
  by (simp add: operationTable3_def row_rules)

lemma operationTable4_ok: "list_all wellFormedRow operationTable4"
  by (simp add: operationTable4_def row_rules)

lemma operationTable5_ok: "list_all wellFormedRow operationTable5"
  by (simp add: operationTable5_def row_rules)

lemma operationTable6_ok: "list_all wellFormedRow operationTable6"
  by (simp add: operationTable6_def row_rules)

lemma operationTable7_ok: "list_all wellFormedRow operationTable7"
  by (simp add: operationTable7_def row_rules)

lemma operationTable8_ok: "list_all wellFormedRow operationTable8"
  by (simp add: operationTable8_def row_rules)

lemma operationTable9_ok: "list_all wellFormedRow operationTable9"
  by (simp add: operationTable9_def row_rules)

lemma operationTable10_ok: "list_all wellFormedRow operationTable10"
  by (simp add: operationTable10_def row_rules)

lemma operationTable11_ok: "list_all wellFormedRow operationTable11"
  by (simp add: operationTable11_def row_rules)

lemma operationTable12_ok: "list_all wellFormedRow operationTable12"
  by (simp add: operationTable12_def row_rules)

lemma operationTable13_ok: "list_all wellFormedRow operationTable13"
  by (simp add: operationTable13_def row_rules)

lemma operationTable14_ok: "list_all wellFormedRow operationTable14"
  by (simp add: operationTable14_def row_rules)

lemma operationTable15_ok: "list_all wellFormedRow operationTable15"
  by (simp add: operationTable15_def row_rules)

lemma operationTable16_ok: "list_all wellFormedRow operationTable16"
  by (simp add: operationTable16_def row_rules)

lemma operationTable17_ok: "list_all wellFormedRow operationTable17"
  by (simp add: operationTable17_def row_rules)

lemma operationTable18_ok: "list_all wellFormedRow operationTable18"
  by (simp add: operationTable18_def row_rules)

lemma operationTable19_ok: "list_all wellFormedRow operationTable19"
  by (simp add: operationTable19_def row_rules)

lemma operationTable20_ok: "list_all wellFormedRow operationTable20"
  by (simp add: operationTable20_def row_rules)

lemma operationTable21_ok: "list_all wellFormedRow operationTable21"
  by (simp add: operationTable21_def row_rules)

lemma operationTable22_ok: "list_all wellFormedRow operationTable22"
  by (simp add: operationTable22_def row_rules)

lemma operationTable23_ok: "list_all wellFormedRow operationTable23"
  by (simp add: operationTable23_def row_rules)

lemma operationTable24_ok: "list_all wellFormedRow operationTable24"
  by (simp add: operationTable24_def row_rules)

lemma operationTable_ok: "list_all wellFormedRow operationTable"
  by (simp only: operationTable_def list_all_append
    operationTable1_ok operationTable2_ok operationTable3_ok operationTable4_ok operationTable5_ok
    operationTable6_ok operationTable7_ok operationTable8_ok operationTable9_ok operationTable10_ok
    operationTable11_ok operationTable12_ok operationTable13_ok operationTable14_ok
    operationTable15_ok operationTable16_ok operationTable17_ok operationTable18_ok
    operationTable19_ok operationTable20_ok operationTable21_ok operationTable22_ok
    operationTable23_ok operationTable24_ok simp_thms)

lemma systemSiteEvents_ok: "list_all (\<lambda>(_, ets). list_all catalogued ets) systemSiteEvents"
  by (simp add: systemSiteEvents_def catalogued_facts)

end
