(* ===== verification/Policy.thy ===== *)
theory Policy
  imports OperationTable
begin

text \<open>
  The installed registry (\<^verbatim>\<open>registry\<close> of \<^verbatim>\<open>internal/authz/registry.go\<close>), the system mint sites
  (\<^verbatim>\<open>SystemAuthority\<close> and \<^verbatim>\<open>ScopedSystemAuthority\<close> of \<^verbatim>\<open>internal/authz/authorize.go\<close>) and the
  projection the network adapters read. The properties compose the chokepoint and the store
  boundary with the table the program ships: what a minted proof needed, what a store call
  that mutates must record, which events the audit doors let through.
\<close>

section \<open>The installed registry and the system mint sites\<close>

definition registry :: InstalledRegistry where
  "registry = map_of operationTable"

definition permitsSystemOp :: "SystemSite \<Rightarrow> StoreOp \<Rightarrow> bool" where
  "permitsSystemOp site op = (case map_of systemSites site of None \<Rightarrow> False | Some ops \<Rightarrow> op \<in> set ops)"

definition permitsSystemEvent :: "SystemSite \<Rightarrow> EventType \<Rightarrow> bool" where
  "permitsSystemEvent site et = (case map_of systemSiteEvents site of None \<Rightarrow> False | Some ets \<Rightarrow> et \<in> set ets)"

definition systemProof :: "SystemSite \<Rightarrow> Scope \<Rightarrow> nat \<Rightarrow> Proof" where
  "systemProof site chain tok = (mkProof kindSystem (''system:'' @ site) chain tok)\<lparr>p_site := site\<rparr>"

definition SystemAuthority :: "SystemSite \<Rightarrow> nat option \<Rightarrow> domain_error + Proof" where
  "SystemAuthority site tok =
    (if site = SiteSelfConfigRuntime \<or> site = SiteSelfConfigRecovery \<or> site = SiteSelfConfigSeed then Inl ErrInternal
     else if map_of systemSites site = None then Inl ErrInternal
     else case tok of None \<Rightarrow> Inl ErrInternal | Some t \<Rightarrow> Inr (systemProof site zeroScope t))"

definition ScopedSystemAuthority :: "Resolver \<Rightarrow> SystemSite \<Rightarrow> nat option \<Rightarrow> Scope \<Rightarrow> domain_error + Proof" where
  "ScopedSystemAuthority R site tok scope =
    (if site = SiteSelfConfigRuntime \<or> site = SiteSelfConfigRecovery \<or> site = SiteSelfConfigSeed then Inl ErrInternal
     else if map_of systemSites site = None then Inl ErrInternal
     else
       case tok of
         None \<Rightarrow> Inl ErrInternal
       | Some t \<Rightarrow>
           if s_Org scope = [] then Inl ErrInternal
           else bindE (ResolveChain R scope) (\<lambda>chain. Inr (systemProof site chain t)))"

text \<open>The projection the network adapters compare their compiled contract with.\<close>

record NetworkOperationPolicy =
  np_Formula :: "string list"
  np_AuditedNone :: bool
  np_ReadOnly :: bool

definition LookupNetworkOperationPolicy :: "InstalledRegistry \<Rightarrow> Operation \<Rightarrow> NetworkOperationPolicy option" where
  "LookupNetworkOperationPolicy r name =
    map_option (\<lambda>spec.
      \<lparr>np_Formula = map (\<lambda>a. a_Cap a @ ''@'' @ levelName (a_At a)) (os_formula spec),
       np_AuditedNone = os_auditedNone spec,
       np_ReadOnly = list_all (\<lambda>(so, _). so \<in> set readOnlyStoreOps) (os_storeOps spec)\<rparr>) (r name)"

lemma registry_row: "registry op = Some spec \<Longrightarrow> wellFormedRow (op, spec)"
  using operationTable_ok by (auto simp: registry_def list_all_iff dest: map_of_SomeD)

lemma verifyProof_facts:
  "verifyProof permits sites alive p storeOp tok = Inr c \<Longrightarrow>
     p = Some c \<and> (if p_kind c = kindSystem then sites (p_site c) storeOp else permits (p_op c) storeOp)"
  by (auto simp: verifyProof_def split: option.splits if_splits)

lemma truncate_zeroScope: "truncate_scope zeroScope l = zeroScope"
  by (cases l) (simp_all add: zeroScope_def)

lemma covers_zeroScope: "covers g zeroScope \<longleftrightarrow> s_Org g = []"
  by (simp add: covers_def zeroScope_def)

lemma evaluate_zeroScope:
  "evaluate f zeroScope grants \<longleftrightarrow>
     (\<forall>x \<in> set f. \<exists>g \<in> set grants. g_Capability g = a_Cap x \<and> s_Org (g_Scope g) = [])"
  by (simp add: evaluate_def truncate_zeroScope covers_zeroScope list_all_iff list_ex_iff)

lemma permitsStoreOp_row:
  "permitsStoreOp r op so \<Longrightarrow> \<exists>spec. r op = Some spec \<and> (so, True) \<in> set (os_storeOps spec)"
  by (auto simp: permitsStoreOp_def split: option.splits dest: map_of_SomeD)

lemma audited_none_read_only:
  "LookupNetworkOperationPolicy registry name = Some pol \<Longrightarrow> np_AuditedNone pol \<Longrightarrow> np_ReadOnly pol"
  by (auto simp: LookupNetworkOperationPolicy_def wellFormedRow_def unauditedRow_def dest!: registry_row)

section \<open>Properties\<close>

text \<open>
  C10. The operation table the program ships passes the registry's own validation, every row of it,
  so the registry installs and the process starts; what is installed is the table itself.
\<close>
theorem registry_installs: "newRegistry operationTable = Inr operationTable"
  using operationTable_ok by (simp add: newRegistry_iff)

text \<open>
  With the shipped registry no operation is minted without capabilities: a proof exists only
  for a registered operation whose formula is non-empty and names known capabilities no deeper
  than the operation, and an instance operation is decided by grants of each of those
  capabilities at the instance scope, so no grant inside an organization can reach it.
\<close>
theorem minted_by_capability:
  assumes surface: "resolution_surface R"
    and minted: "Authorize (authorizationSpecOf registry) R admits network tok caller op scope a = (Inr p, a')"
  shows "\<exists>spec. registry op = Some spec \<and> os_formula spec \<noteq> [] \<and>
    (\<forall>x \<in> set (os_formula spec). IsCapability (a_Cap x) \<and> a_At x \<le> os_level spec) \<and>
    (p_kind p = kindInstance \<longrightarrow>
      (\<exists>grants m. q_Grants R (id_Principal caller) = Inr (grants, m) \<and>
        (\<forall>x \<in> set (os_formula spec). \<exists>g \<in> set grants. g_Capability g = a_Cap x \<and> s_Org (g_Scope g) = [])))"
proof -
  from Authorize_facts [OF surface minted] obtain spec where row: "registry op = Some spec"
    and inst: "p_kind p = kindInstance \<Longrightarrow> \<exists>grants m. q_Grants R (id_Principal caller) = Inr (grants, m) \<and>
      evaluate (os_formula spec) zeroScope grants"
    by (auto simp: authorizationSpecOf_def)
  from registry_row [OF row] have wf: "os_formula spec \<noteq> []"
    "\<forall>x \<in> set (os_formula spec). IsCapability (a_Cap x) \<and> a_At x \<le> os_level spec"
    by (auto simp: wellFormedRow_def wellFormedAtom_def list_all_iff)
  with row inst show ?thesis unfolding evaluate_zeroScope by blast
qed

text \<open>A database with one instance operator, for the witnesses.\<close>

definition operatorDB :: Database where
  "operatorDB = exampleDB\<lparr>db_grants := [exampleGrant ''alice'' CapInstanceConfig []]\<rparr>"

definition operatorRun :: "Proof outcome" where
  "operatorRun = Authorize (authorizationSpecOf registry) (dbResolver operatorDB 0) (\<lambda>_. False) True 7
     (exampleCaller ''alice'' ClassHuman [''password'', ''totp'']) OpRemotePairingPrepare zeroScope freshAuthorizer"

theorem minted_by_capability_witness:
  "\<exists>p a grants m. operatorRun = (Inr p, a) \<and> p_kind p = kindInstance \<and>
     q_Grants (dbResolver operatorDB 0) ''alice'' = Inr (grants, m) \<and> grants \<noteq> []"
proof -
  have "case fst operatorRun of Inl _ \<Rightarrow> False | Inr p \<Rightarrow> p_kind p = kindInstance" by code_simp
  then obtain p where p: "fst operatorRun = Inr p" "p_kind p = kindInstance" by (cases "fst operatorRun") auto
  define a where "a = snd operatorRun"
  with p have run: "operatorRun = (Inr p, a)" "p_kind p = kindInstance" by (simp_all add: prod_eq_iff)
  from minted_by_capability [OF db.resolution_surface_axioms run(1) [unfolded operatorRun_def]] run show ?thesis
    by (fastforce simp: exampleCaller_def)
qed

text \<open>
  C3. With the shipped registry nothing mutates unrecorded: when the store boundary admits a store
  operation outside the pinned read-only set, for a proof a principal's operation carries, that
  operation declares an event of the audit catalogue and may emit it, or it is one of the three
  reviewed exemptions.
\<close>
theorem mutation_audited:
  assumes ok: "verifyProof (permitsStoreOp registry) permitsSystemOp alive p storeOp tok = Inr c"
    and kind: "p_kind c \<noteq> kindSystem"
    and mutates: "storeOp \<notin> set readOnlyStoreOps"
  shows "(\<exists>et. permitsEvent registry (p_op c) et \<and> AuditSpec et \<noteq> None) \<or> p_op c \<in> set reviewedExemptions"
proof -
  from verifyProof_facts [OF ok] kind obtain spec where row: "registry (p_op c) = Some spec"
    and so: "(storeOp, True) \<in> set (os_storeOps spec)"
    by (auto dest: permitsStoreOp_row)
  have wf: "wellFormedRow (p_op c, spec)" using row by (rule registry_row)
  from wf mutates so have "\<not> os_auditedNone spec"
    by (auto simp: wellFormedRow_def unauditedRow_def list_all_iff)
  with wf consider "os_events spec \<noteq> []" | "os_reviewExempt spec"
    by (auto simp: wellFormedRow_def dispositions_def split: if_splits)
  then show ?thesis
  proof cases
    case 1
    with wf row show ?thesis
      by (cases "os_events spec") (auto simp: wellFormedRow_def catalogued_def permitsEvent_def)
  qed (use wf in \<open>auto simp: wellFormedRow_def\<close>)
qed

lemma registry_first: "map_of operationTable1 op = Some spec \<Longrightarrow> registry op = Some spec"
  by (simp add: registry_def operationTable_def map_of_append)

theorem mutation_audited_witness:
  "let p = mkProof kindInstance OpRemotePairingPrepare zeroScope 7 in
     verifyProof (permitsStoreOp registry) permitsSystemOp (\<lambda>_. True) (Some p) StoreAuditInstanceInsert (Some 7) = Inr p \<and>
     ((\<exists>et. permitsEvent registry OpRemotePairingPrepare et \<and> AuditSpec et \<noteq> None) \<or>
      OpRemotePairingPrepare \<in> set reviewedExemptions)"
proof -
  let ?p = "mkProof kindInstance OpRemotePairingPrepare zeroScope 7"
  have "permitsStoreOp registry OpRemotePairingPrepare StoreAuditInstanceInsert"
    using registry_first [of OpRemotePairingPrepare]
    by (simp add: operationTable1_def permitsStoreOp_def licensed_def)
  then have ok: "verifyProof (permitsStoreOp registry) permitsSystemOp (\<lambda>_. True) (Some ?p) StoreAuditInstanceInsert (Some 7)
      = Inr ?p"
    by (simp add: verifyProof_def mkProof_def)
  have "StoreAuditInstanceInsert \<notin> set readOnlyStoreOps" by code_simp
  with mutation_audited [OF ok] ok show ?thesis by (simp add: mkProof_def)
qed

text \<open>
  The audit-insert door admits only catalogued events: whatever proof is presented, of a
  principal or of a system site, an event type that passes \<^verbatim>\<open>VerifyEvent\<close> has a schema.
\<close>
theorem emitted_events_catalogued:
  assumes "VerifyEvent (permitsStoreOp registry) permitsSystemOp (permitsEvent registry) permitsSystemEvent
    alive p storeOp tok et = Inr chain"
  shows "AuditSpec et \<noteq> None"
proof -
  from assms have "\<exists>c :: Proof. permitsSystemEvent (p_site c) et \<or> permitsEvent registry (p_op c) et"
    by (auto simp: VerifyEvent_def split: if_splits)
  then obtain c :: Proof where "permitsSystemEvent (p_site c) et \<or> permitsEvent registry (p_op c) et" ..
  then show ?thesis
  proof
    assume "permitsSystemEvent (p_site c) et"
    then show ?thesis
      using systemSiteEvents_ok
      by (fastforce simp: permitsSystemEvent_def list_all_iff catalogued_def split: option.splits dest: map_of_SomeD)
  next
    assume "permitsEvent registry (p_op c) et"
    then show ?thesis
      by (auto simp: permitsEvent_def wellFormedRow_def list_all_iff catalogued_def split: option.splits dest!: registry_row)
  qed
qed

theorem emitted_events_catalogued_witness:
  "VerifyEvent (permitsStoreOp registry) permitsSystemOp (permitsEvent registry) permitsSystemEvent
     (\<lambda>_. True) (Some (systemProof SiteEscrow zeroScope 3)) StoreAuditInstanceInsert (Some 3) EventRootEscrowVerified
     = Inr zeroScope \<and> AuditSpec EventRootEscrowVerified \<noteq> None"
proof -
  have "VerifyEvent (permitsStoreOp registry) permitsSystemOp (permitsEvent registry) permitsSystemEvent
     (\<lambda>_. True) (Some (systemProof SiteEscrow zeroScope 3)) StoreAuditInstanceInsert (Some 3) EventRootEscrowVerified
     = Inr zeroScope"
    by (simp add: VerifyEvent_def verifyProof_def systemProof_def mkProof_def permitsSystemOp_def systemSites_def
        permitsSystemEvent_def systemSiteEvents_def)
  with emitted_events_catalogued [OF this] show ?thesis by simp
qed

text \<open>
  System authority stays inside its site: a proof minted without a principal opens exactly the
  store operations its site's row lists and no site outside the table, and the self-configuration
  sites, whose authority is bound to a resolver, cannot be minted this way at all.
\<close>
theorem system_authority_bounded:
  assumes "SystemAuthority site tok = Inr p"
  shows "IsSystemProof (Some p) \<and> p_chain p = zeroScope \<and> Some (p_tok p) = tok \<and>
    (isOk (verifyProof (permitsStoreOp registry) permitsSystemOp alive (Some p) storeOp tok) \<longleftrightarrow>
       alive (p_tok p) \<and> (\<exists>ops. (site, ops) \<in> set systemSites \<and> map_of systemSites site = Some ops \<and> storeOp \<in> set ops)) \<and>
    site \<notin> {SiteSelfConfigRuntime, SiteSelfConfigRecovery, SiteSelfConfigSeed}"
  using assms
  by (auto simp: SystemAuthority_def systemProof_def mkProof_def IsSystemProof_def verifyProof_def permitsSystemOp_def
      split: if_splits option.splits dest: map_of_SomeD)

theorem system_authority_bounded_witness:
  "\<exists>p. SystemAuthority SiteEscrow (Some 3) = Inr p \<and>
     isOk (verifyProof (permitsStoreOp registry) permitsSystemOp (\<lambda>_. True) (Some p) StoreEscrowVerificationWrite (Some 3))"
proof -
  have p: "SystemAuthority SiteEscrow (Some 3) = Inr (systemProof SiteEscrow zeroScope 3)"
    by (simp add: SystemAuthority_def systemSites_def)
  have "\<exists>ops. map_of systemSites SiteEscrow = Some ops \<and> StoreEscrowVerificationWrite \<in> set ops"
    by (simp add: systemSites_def)
  with system_authority_bounded [OF p, of "\<lambda>_. True" StoreEscrowVerificationWrite] p show ?thesis
    by (auto dest: map_of_SomeD)
qed

end
