(* ===== verification/Refusals.thy ===== *)
theory Refusals
  imports AuditEvents
begin

text \<open>
  The staging writer of request refusals (\<^verbatim>\<open>internal/store/authn/refusal.go\<close>,
  \<open>UpdateRequestRefusals\<close>): one transaction seals a window that is a minute old into one audit
  event per stage, restarts it, and adds the sample at hand. The staging row holds the window
  as JSON; here the row holds the window the text decodes to (\<open>None\<close> for a text that is not
  exactly one window) and the length of the text, which \<open>encodeWindow\<close> gives on every save.
  The clock value is an argument, as is the identifier source \<open>mint\<close>
  (\<^verbatim>\<open>github.com/google/uuid\<close>, \<open>None\<close> its error). A failing update rolls its transaction
  back. The results: a sealed event always passes the write boundary, the staging text never
  exceeds its bound, an update on a well-formed row cannot fail for any reason but the clock, the
  sample, the identifier source or a saturated counter, and over any run no accepted refusal
  is lost or counted twice.
\<close>

section \<open>The staging row\<close>

record Staging =
  st_start :: int
  st_window :: "RefusalWindow option"
  st_bytes :: nat

definition RefusalStateBytes :: nat where
  "RefusalStateBytes = 16384"

text \<open>
  \<^verbatim>\<open>json.Marshal(window)\<close>: the texts are of the address, identifier and operation alphabets,
  none of which JSON escapes.
\<close>

abbreviation quote :: char where "quote \<equiv> CHR 0x22"

definition jsonString :: "string \<Rightarrow> string" where
  "jsonString s = [quote] @ s @ [quote]"

fun commaSep :: "string list \<Rightarrow> string" where
  "commaSep [] = []"
| "commaSep [x] = x"
| "commaSep (x # xs) = x @ '','' @ commaSep xs"

definition jsonInt :: "int \<Rightarrow> string" where
  "jsonInt n = (if n < 0 then CHR ''-'' # itoa (nat (- n)) else itoa (nat n))"

definition encodeSample :: "RefusalSample \<Rightarrow> string" where
  "encodeSample s =
    ''{'' @ jsonString ''stage'' @ '':'' @ jsonString (rs_Stage s) @
    '','' @ jsonString ''source_ip'' @ '':'' @ jsonString (rs_SourceIP s) @
    '','' @ jsonString ''request_id'' @ '':'' @ jsonString (rs_RequestID s) @
    '','' @ jsonString ''operation'' @ '':'' @ jsonString (rs_Operation s) @ ''}''"

definition encodeWindow :: "RefusalWindow \<Rightarrow> string" where
  "encodeWindow w =
    ''{'' @ jsonString ''counts'' @ '':['' @ commaSep (map jsonInt (rw_Counts w)) @
    ''],'' @ jsonString ''samples'' @ '':['' @ commaSep (map encodeSample (rw_Samples w)) @ '']}''"


section \<open>The update\<close>

text \<open>\<^verbatim>\<open>time.Unix(s, 0)\<close>, in nanoseconds since the zero time.\<close>

definition unixTime :: "int \<Rightarrow> Time" where
  "unixTime s = (s + 62135596800) * 10 ^ 9"

definition sealEvent :: "string \<Rightarrow> int \<Rightarrow> Payload \<Rightarrow> Event" where
  "sealEvent ident start payload =
    \<lparr>ev_ID = ''evt_'' @ ident, ev_Type = EventRequestRefused, ev_SchemaVersion = 1,
     ev_OccurredAt = unixTime (int64 (start + 60)), ev_OccurredAsserted = False,
     ev_Actor = \<lparr>ac_ID = [], ac_Class = ActorUnauthenticated, ac_CredentialID = []\<rparr>,
     ev_AuthorityID = [], ev_Object = \<lparr>ob_Type = [], ob_ID = []\<rparr>, ev_Outcome = OutcomeFailure,
     ev_CorrelationID = [], ev_SourceIP = [], ev_UserAgent = [], ev_Origin = OriginSystem, ev_Payload = payload\<rparr>"

text \<open>
  The proof-free write of an event: the actor is resolved, the row built, and an error of
  either fails the transaction (\<open>False\<close>).
\<close>

definition WriteAuthEvent ::
    "(string \<Rightarrow> domain_error + string) \<Rightarrow> UUIDParse \<Rightarrow> (Payload \<Rightarrow> domain_error + string) \<Rightarrow> Time \<Rightarrow> Trail \<Rightarrow> Event \<Rightarrow> bool" where
  "WriteAuthEvent kindOf uuid marshal recordedAt trail e =
    (case ResolveActorClass kindOf (ev_Actor e) True of
       Inl _ \<Rightarrow> False
     | Inr actor \<Rightarrow> isOk (BuildRow AuditSpec uuid marshal (e\<lparr>ev_Actor := actor\<rparr>) trail (mkScope [] [] []) recordedAt))"

text \<open>The sealing loop over the stages; \<open>emit\<close> is the event write.\<close>

fun sealStages ::
    "(Event \<Rightarrow> bool) \<Rightarrow> (nat \<Rightarrow> string option) \<Rightarrow> RefusalWindow \<Rightarrow> int \<Rightarrow> string list \<Rightarrow> nat \<Rightarrow> Event list option" where
  "sealStages emit mint w start [] n = Some []"
| "sealStages emit mint w start (stage # stages) n =
    (case RefusalPayload w stage start of
       None \<Rightarrow> None
     | Some payload \<Rightarrow>
         (if map_of payload ''count'' = Some (VInt64 0) then sealStages emit mint w start stages n
          else case mint n of
            None \<Rightarrow> None
          | Some ident \<Rightarrow>
              (let event = sealEvent ident start payload in
               if emit event
               then map_option (Cons event) (sealStages emit mint w start stages (Suc n)) else None)))"

text \<open>Whether the window is a minute old and has something to report.\<close>

definition sealDue :: "int \<Rightarrow> int \<Rightarrow> RefusalWindow \<Rightarrow> bool" where
  "sealDue now start w \<longleftrightarrow> start \<noteq> 0 \<and> 60 \<le> now - start \<and> \<not> RefusalWindow_Empty w"

text \<open>The sample at hand, if there is one; the flag says whether the row changed.\<close>

definition addSample ::
    "UUIDParse \<Rightarrow> int \<Rightarrow> RefusalSample option \<Rightarrow> RefusalWindow \<Rightarrow> int \<Rightarrow> bool \<Rightarrow> (RefusalWindow \<times> int \<times> bool) option" where
  "addSample uuid now sample w start changed =
    (case sample of
       None \<Rightarrow> Some (w, start, changed)
     | Some s \<Rightarrow>
         map_option (\<lambda>w'. (w', if start = 0 \<or> RefusalWindow_Empty w then now div 60 * 60 else start, True))
           (RefusalWindow_Add uuid s w))"

definition saveStaging :: "Staging \<Rightarrow> RefusalWindow \<times> int \<times> bool \<Rightarrow> Staging option" where
  "saveStaging st x =
    (case x of (w, start, changed) \<Rightarrow>
       if \<not> changed then Some st
       else if RefusalStateBytes < length (encodeWindow w) then None
       else Some \<lparr>st_start = start, st_window = Some w, st_bytes = length (encodeWindow w)\<rparr>)"

text \<open>
  The result: the events written, the row saved and the returned window start; \<open>None\<close> is an
  error.
\<close>

definition UpdateRequestRefusals ::
    "(Event \<Rightarrow> bool) \<Rightarrow> UUIDParse \<Rightarrow> (nat \<Rightarrow> string option) \<Rightarrow> int \<Rightarrow> RefusalSample option \<Rightarrow> Staging \<Rightarrow>
     (Event list \<times> Staging \<times> int) option" where
  "UpdateRequestRefusals emit uuid mint now sample st =
    (let start = st_start st in
     if RefusalStateBytes < st_bytes st \<or> start < 0 \<or> start mod 60 \<noteq> 0 \<or> now < start then None
     else Option.bind (st_window st) (\<lambda>w.
       if \<not> RefusalWindow_Validate uuid w then None
       else if start = 0 \<and> \<not> RefusalWindow_Empty w then None
       else if sealDue now start w then
         Option.bind (sealStages emit mint w start RefusalStages 0) (\<lambda>events.
         Option.bind (addSample uuid now sample NewRefusalWindow 0 True) (\<lambda>(w', start', changed).
           map_option (\<lambda>st'. (events, st', if RefusalWindow_Empty w' then 0 else start')) (saveStaging st (w', start', changed))))
       else
         Option.bind (addSample uuid now sample w start False) (\<lambda>(w', start', changed).
           map_option (\<lambda>st'. ([], st', if RefusalWindow_Empty w' then 0 else start')) (saveStaging st (w', start', changed)))))"


section \<open>Sealed events pass the write boundary\<close>

text \<open>What is documented of the identifier library: the canonical text has 36 characters.\<close>

definition uuidLaw :: "UUIDParse \<Rightarrow> bool" where
  "uuidLaw uuid \<longleftrightarrow> (\<forall>s v t. uuid s = Some (v, t) \<longrightarrow> length t = 36)"

lemma Zone_Unmap: "Zone a = [] \<Longrightarrow> Zone (Unmap a) = []"
  by (auto simp: Zone_def Unmap_def split: Addr.splits)

lemma sample_lengths:
  assumes "RefusalSample_Validate uuid s" "uuidLaw uuid"
  shows "length (rs_SourceIP s) \<le> 39" "length (rs_RequestID s) = 36" "length (rs_Operation s) \<le> 128"
    "length (rs_Stage s) \<le> 19"
proof -
  from assms(1) obtain ip where ip: "ParseAddr (rs_SourceIP s) = Some ip" "Zone ip = []" "AddrString (Unmap ip) = rs_SourceIP s"
    by (auto simp: RefusalSample_Validate_def split: option.splits)
  then show "length (rs_SourceIP s) \<le> 39"
    using AddrString_length [OF Unmap_wf [OF ParseAddr_wf [OF ip(1)]] Zone_Unmap [OF ip(2)]] by simp
  from assms show "length (rs_RequestID s) = 36"
    by (auto simp: RefusalSample_Validate_def uuidLaw_def split: option.splits)
  from assms(1) show "length (rs_Operation s) \<le> 128"
    by (auto simp: RefusalSample_Validate_def refusalOperation_def split: list.splits)
  from assms(1) obtain i where "refusalStageIndex (rs_Stage s) = Some i"
    by (auto simp: RefusalSample_Validate_def)
  then have "rs_Stage s \<in> set RefusalStages"
    using refusalStageIndex_less by (metis RefusalStages_length nth_mem)
  then show "length (rs_Stage s) \<le> 19" by (auto simp: RefusalStages_def)
qed

lemma requestRefused_row:
  "AuditSpec EventRequestRefused = Some
    \<lparr>ts_SchemaVersion = 1, ts_Retention = RetentionSecurity, ts_Outcomes = [OutcomeFailure], ts_Trails = [TrailInstance],
     ts_Schema = [
       (''window_start'', required (nonNegative (field KindInt))),
       (''window_end'', required (nonNegative (field KindInt))),
       (''stage'', required (withEnum RefusalStages (field KindString))),
       (''count'', required (atLeast 1 (field KindInt))),
       (''unsampled_count'', required (nonNegative (field KindInt))),
       (''samples'', required (withSchema
         [(''source_ip'', required (maxBytes 45 (field KindString))),
          (''request_id'', required (maxBytes 36 (field KindString))),
          (''operation'', required (maxBytes 128 (field KindString)))]
         (maxLen (int RefusalSampleLimit) (field KindObjectList))))]\<rparr>"
  by (simp add: AuditSpec_def eventTable_def eventTable1_def RefusalStages_def)

lemma samplePayload_valid:
  assumes "RefusalSample_Validate uuid s" "uuidLaw uuid"
  shows "Schema_validate
    [(''source_ip'', required (maxBytes 45 (field KindString))),
     (''request_id'', required (maxBytes 36 (field KindString))),
     (''operation'', required (maxBytes 128 (field KindString)))] (samplePayload s)"
  using sample_lengths [OF assms]
  by (simp add: samplePayload_def field_def checkConstraints_def enumAdmits_def overBound_def)

lemma sampled_at_most:
  assumes "RefusalWindow_Validate uuid w" "refusalStageIndex stage = Some i"
  shows "int (length (filter (\<lambda>s. rs_Stage s = stage) (rw_Samples w))) \<le> rw_Counts w ! i"
proof -
  have "filter (\<lambda>s. rs_Stage s = stage) (rw_Samples w) =
      filter (\<lambda>s. refusalStageIndex (rs_Stage s) = Some i) (rw_Samples w)"
    using assms(2) refusalStageIndex_inj by (intro filter_cong) auto
  moreover have "i < length (rw_Counts w)"
    using assms refusalStageIndex_less by (auto simp: RefusalWindow_Validate_def)
  ultimately show ?thesis
    using assms(1) by (auto simp: RefusalWindow_Validate_def list_all_iff sampledAt_def)
qed

lemma stage_in: "refusalStageIndex stage = Some i \<Longrightarrow> stage \<in> set RefusalStages"
  using refusalStageIndex_less by (metis RefusalStages_length nth_mem)

text \<open>A stage of a window that has something to report.\<close>

definition sealable :: "UUIDParse \<Rightarrow> RefusalWindow \<Rightarrow> string \<Rightarrow> nat \<Rightarrow> int \<Rightarrow> bool" where
  "sealable uuid w stage i start \<longleftrightarrow>
     RefusalWindow_Validate uuid w \<and> refusalStageIndex stage = Some i \<and>
     1 \<le> rw_Counts w ! i \<and> rw_Counts w ! i \<le> MaxInt64 \<and>
     0 \<le> start \<and> start mod 60 = 0 \<and> start \<le> MaxInt64 - 60"

definition stageSamples :: "RefusalWindow \<Rightarrow> string \<Rightarrow> RefusalSample list" where
  "stageSamples w stage = filter (\<lambda>s. rs_Stage s = stage) (rw_Samples w)"

definition summaryPayload :: "RefusalWindow \<Rightarrow> string \<Rightarrow> nat \<Rightarrow> int \<Rightarrow> Payload" where
  "summaryPayload w stage i start =
     [(''window_start'', VInt64 start), (''window_end'', VInt64 (start + 60)), (''stage'', VString stage),
      (''count'', VInt64 (rw_Counts w ! i)),
      (''unsampled_count'', VInt64 (rw_Counts w ! i - int (length (stageSamples w stage)))),
      (''samples'', VPayloadList (map samplePayload (stageSamples w stage)))]"

lemma RefusalPayload_eq:
  assumes "sealable uuid w stage i start"
  shows "RefusalPayload w stage start = Some (summaryPayload w stage i start)"
proof -
  have "int64 (start + 60) = start + 60"
    using assms by (intro int64_id) (simp_all add: sealable_def MaxInt64_def)
  moreover have "int64 (rw_Counts w ! i - int (length (stageSamples w stage))) =
      rw_Counts w ! i - int (length (stageSamples w stage))"
    using assms sampled_at_most [of uuid w stage i]
    by (intro int64_id) (simp_all add: sealable_def MaxInt64_def stageSamples_def)
  ultimately show ?thesis
    using assms by (simp add: RefusalPayload_def sealable_def summaryPayload_def stageSamples_def Let_def)
qed

lemma stageSamples_facts:
  assumes "RefusalWindow_Validate uuid w"
  shows "list_all (\<lambda>s. RefusalSample_Validate uuid s \<and> rs_Stage s = stage) (stageSamples w stage)"
    and "length (stageSamples w stage) \<le> RefusalSampleLimit"
proof -
  show "list_all (\<lambda>s. RefusalSample_Validate uuid s \<and> rs_Stage s = stage) (stageSamples w stage)"
    using assms by (auto simp: RefusalWindow_Validate_def list_all_iff stageSamples_def)
  have "length (stageSamples w stage) \<le> length (rw_Samples w)" by (simp add: stageSamples_def)
  then show "length (stageSamples w stage) \<le> RefusalSampleLimit"
    using assms by (simp add: RefusalWindow_Validate_def)
qed

lemma summaryPayload_schema:
  assumes seal: "sealable uuid w stage i start" and law: "uuidLaw uuid"
    and row: "AuditSpec EventRequestRefused = Some spec"
  shows "Schema_validate (ts_Schema spec) (summaryPayload w stage i start)"
proof -
  have valid: "RefusalWindow_Validate uuid w" using seal by (simp add: sealable_def)
  have obs: "list_all (\<lambda>ob. Schema_validate
      [(''source_ip'', required (maxBytes 45 (field KindString))),
       (''request_id'', required (maxBytes 36 (field KindString))),
       (''operation'', required (maxBytes 128 (field KindString)))] ob) (map samplePayload (stageSamples w stage))"
    using stageSamples_facts(1) [OF valid, of stage] samplePayload_valid [OF _ law]
    by (auto simp: list_all_iff simp del: Schema_validate.simps)
  have "int (length (stageSamples w stage)) \<le> rw_Counts w ! i"
    using seal sampled_at_most [of uuid w stage i] by (simp add: sealable_def stageSamples_def)
  then show ?thesis
    using seal row obs stageSamples_facts(2) [OF valid, of stage] stage_in [of stage i]
    by (subst Schema_validate.simps)
       (auto simp: requestRefused_row sealable_def summaryPayload_def field_def checkConstraints_def
          enumAdmits_def overBound_def checkInt_def RefusalSampleLimit_def simp del: Schema_validate.simps)
qed

lemma sample_eta:
  "rs_Stage q = stage \<Longrightarrow>
   \<lparr>rs_Stage = stage, rs_SourceIP = rs_SourceIP q, rs_RequestID = rs_RequestID q, rs_Operation = rs_Operation q\<rparr> = q"
  by (cases q) simp

lemma summary_canonical:
  assumes seal: "sealable uuid w stage i start"
  shows "validateRefusalSummary uuid (sealEvent ident start (summaryPayload w stage i start))"
proof -
  have valid: "RefusalWindow_Validate uuid w" using seal by (simp add: sealable_def)
  have samples: "list_all (\<lambda>q. RefusalSample_Validate uuid
        \<lparr>rs_Stage = stage, rs_SourceIP = asString (map_of q ''source_ip''),
         rs_RequestID = asString (map_of q ''request_id''), rs_Operation = asString (map_of q ''operation'')\<rparr>)
       (map samplePayload (stageSamples w stage))"
    using stageSamples_facts(1) [OF valid, of stage]
    by (auto simp: list_all_iff samplePayload_def asString_def sample_eta)
  have "int64 (start + 60) = start + 60"
    "int64 (rw_Counts w ! i - int (length (stageSamples w stage))) = rw_Counts w ! i - int (length (stageSamples w stage))"
    using RefusalPayload_eq [OF seal] seal
    by (auto simp: RefusalPayload_def sealable_def summaryPayload_def stageSamples_def Let_def)
  with seal samples show ?thesis
    by (simp add: validateRefusalSummary_def sealEvent_def summaryPayload_def Let_def refusalInt_def
        asString_def asPayloads_def sealable_def)
qed

lemma sealed_accepted:
  assumes "sealable uuid w stage i start" "uuidLaw uuid"
  shows "Validate AuditSpec uuid (sealEvent ident start (summaryPayload w stage i start)) TrailInstance (mkScope [] [] [])"
proof -
  have "unixTime (int64 (start + 60)) \<noteq> 0"
    using assms(1) by (subst int64_id) (auto simp: unixTime_def sealable_def MaxInt64_def)
  with summary_canonical [OF assms(1), of ident] summaryPayload_schema [OF assms requestRefused_row] show ?thesis
    by (simp add: Validate_def requestRefused_row sealEvent_def actorConsistent_def origins_def trailScope_def
        del: Schema_validate.simps)
qed

lemma sealed_written:
  assumes "sealable uuid w stage i start" "uuidLaw uuid" "\<And>p. isOk (marshal p)"
  shows "WriteAuthEvent kindOf uuid marshal recordedAt TrailInstance (sealEvent ident start (summaryPayload w stage i start))"
proof -
  let ?e = "sealEvent ident start (summaryPayload w stage i start)"
  have "?e\<lparr>ev_Actor := ev_Actor ?e\<rparr> = ?e" by simp
  moreover obtain json where "marshal (ev_Payload ?e) = Inr json" using assms(3) by (auto simp: isOk_iff)
  moreover have "ResolveActorClass kindOf (ev_Actor ?e) True = Inr (ev_Actor ?e)"
    by (simp add: ResolveActorClass_def sealEvent_def)
  ultimately show ?thesis
    using sealed_accepted [OF assms(1,2), of ident]
    by (simp add: WriteAuthEvent_def BuildRow_def ScopeClass_def)
qed


section \<open>The staging text stays within its bound\<close>

lemma jsonString_length [simp]: "length (jsonString s) = length s + 2"
  by (simp add: jsonString_def)

lemma commaSep_length:
  "(\<And>x. x \<in> set xs \<Longrightarrow> length x \<le> k) \<Longrightarrow> length (commaSep xs) \<le> length xs * Suc k"
proof (induction xs rule: commaSep.induct)
  case (3 x y ys)
  then have "length x \<le> k" "length (commaSep (y # ys)) \<le> length (y # ys) * Suc k" by auto
  then show ?case by simp
qed auto

lemma encodeSample_length:
  assumes "RefusalSample_Validate uuid s" "uuidLaw uuid"
  shows "length (encodeSample s) \<le> 290"
  using sample_lengths [OF assms] by (simp add: encodeSample_def)

definition windowOk :: "UUIDParse \<Rightarrow> RefusalWindow \<Rightarrow> bool" where
  "windowOk uuid w \<longleftrightarrow> RefusalWindow_Validate uuid w \<and> list_all (\<lambda>n. n \<le> MaxInt64) (rw_Counts w)"

lemma windowOk_counts:
  assumes "windowOk uuid w" "i < 5"
  shows "0 \<le> rw_Counts w ! i" "rw_Counts w ! i \<le> MaxInt64" "int (sampledAt (rw_Samples w) i) \<le> rw_Counts w ! i"
    "length (rw_Counts w) = 5"
  using assms by (auto simp: windowOk_def RefusalWindow_Validate_def list_all_iff list_all_length)

lemma jsonInt_length:
  assumes "0 \<le> n" "n \<le> MaxInt64"
  shows "length (jsonInt n) \<le> 19"
proof -
  have "nat n < 10 ^ 19" using assms by (simp add: MaxInt64_def nat_less_iff)
  then show ?thesis using assms itoa_length [of "nat n" 19] by (simp add: jsonInt_def)
qed

lemma encodeWindow_bound:
  assumes "windowOk uuid w" "uuidLaw uuid"
  shows "length (encodeWindow w) \<le> RefusalStateBytes"
proof -
  have "length (rw_Samples w) \<le> 32" "list_all (RefusalSample_Validate uuid) (rw_Samples w)"
    using assms(1) by (simp_all add: windowOk_def RefusalWindow_Validate_def RefusalSampleLimit_def)
  then have "length (commaSep (map encodeSample (rw_Samples w))) \<le> 32 * 291"
    using commaSep_length [of "map encodeSample (rw_Samples w)" 290] encodeSample_length [OF _ assms(2)]
    by (fastforce simp: list_all_iff)
  moreover have "length (commaSep (map jsonInt (rw_Counts w))) \<le> 5 * 20"
  proof -
    have "length x \<le> 19" if "x \<in> set (map jsonInt (rw_Counts w))" for x
      using that windowOk_counts [OF assms(1)] jsonInt_length by (fastforce simp: in_set_conv_nth)
    then show ?thesis
      using commaSep_length [of "map jsonInt (rw_Counts w)" 19] windowOk_counts(4) [OF assms(1), of 0] by simp
  qed
  ultimately show ?thesis by (simp add: encodeWindow_def RefusalStateBytes_def)
qed


section \<open>Updates\<close>

lemma Add_facts:
  assumes w: "windowOk uuid w" and add: "RefusalWindow_Add uuid s w = Some w'"
  obtains i where "refusalStageIndex (rs_Stage s) = Some i" "i < 5"
    "rw_Counts w' = (rw_Counts w)[i := rw_Counts w ! i + 1]" "windowOk uuid w'" "\<not> RefusalWindow_Empty w'"
proof -
  from add obtain i where i: "refusalStageIndex (rs_Stage s) = Some i" and s: "RefusalSample_Validate uuid s"
    and full: "rw_Counts w ! i \<noteq> MaxInt64"
    and w': "w' = \<lparr>rw_Counts = (rw_Counts w)[i := int64 (rw_Counts w ! i + 1)],
      rw_Samples = (if length (rw_Samples w) < RefusalSampleLimit then rw_Samples w @ [s] else rw_Samples w)\<rparr>"
    by (auto simp: RefusalWindow_Add_def split: if_splits option.splits)
  have i5: "i < 5" using refusalStageIndex_less [OF i] by simp
  note c = windowOk_counts [OF w i5]
  then have "int64 (rw_Counts w ! i + 1) = rw_Counts w ! i + 1"
    using full by (intro int64_id) (simp_all add: MaxInt64_def)
  then have counts: "rw_Counts w' = (rw_Counts w)[i := rw_Counts w ! i + 1]" by (simp add: w')
  have bound: "rw_Counts w' ! j \<le> MaxInt64 \<and> int (sampledAt (rw_Samples w') j) \<le> rw_Counts w' ! j \<and> 0 \<le> rw_Counts w' ! j"
    if "j < 5" for j
  proof -
    have "rw_Counts w' ! j = rw_Counts w ! j + (if j = i then 1 else 0)"
      using c(4) that by (simp add: counts nth_list_update)
    moreover have "sampledAt (rw_Samples w') j \<le> sampledAt (rw_Samples w) j + (if j = i then 1 else 0)"
      using i by (simp add: w' sampledAt_snoc)
    ultimately show ?thesis using windowOk_counts [OF w that] full by (cases "j = i") simp_all
  qed
  moreover have "length (rw_Samples w') \<le> RefusalSampleLimit" "list_all (RefusalSample_Validate uuid) (rw_Samples w')"
    using w s by (auto simp: w' windowOk_def RefusalWindow_Validate_def)
  ultimately have "windowOk uuid w'"
    using c(4) by (auto simp: windowOk_def RefusalWindow_Validate_def list_all_iff counts in_set_conv_nth)
  moreover have "\<not> RefusalWindow_Empty w'"
    using c i5 by (auto simp: RefusalWindow_Empty_def counts list_all_length intro!: exI [of _ i])
  ultimately show thesis using that [OF i i5 counts] by blast
qed

lemma New_windowOk: "windowOk uuid NewRefusalWindow" "RefusalWindow_Empty NewRefusalWindow"
  by (simp_all add: windowOk_def RefusalWindow_Validate_def RefusalWindow_Empty_def NewRefusalWindow_def
      sampledAt_def MaxInt64_def list_all_iff nth_replicate)

definition stagingOk :: "UUIDParse \<Rightarrow> Staging \<Rightarrow> bool" where
  "stagingOk uuid st \<longleftrightarrow> st_bytes st \<le> RefusalStateBytes \<and> 0 \<le> st_start st \<and> st_start st mod 60 = 0 \<and>
     (case st_window st of
        None \<Rightarrow> False
      | Some w \<Rightarrow> windowOk uuid w \<and> (st_start st = 0 \<longrightarrow> RefusalWindow_Empty w))"

text \<open>What an event reports and what a row still holds.\<close>

definition eventStage :: "Event \<Rightarrow> string" where
  "eventStage e = asString (map_of (ev_Payload e) ''stage'')"

definition eventCount :: "Event \<Rightarrow> int" where
  "eventCount e = refusalInt (map_of (ev_Payload e) ''count'')"

definition reported :: "string \<Rightarrow> Event list \<Rightarrow> int" where
  "reported stage es = sum_list (map eventCount (filter (\<lambda>e. eventStage e = stage) es))"

definition stageCount :: "RefusalWindow \<Rightarrow> string \<Rightarrow> int" where
  "stageCount w stage = (case refusalStageIndex stage of None \<Rightarrow> 0 | Some i \<Rightarrow> rw_Counts w ! i)"

definition staged :: "Staging \<Rightarrow> string \<Rightarrow> int" where
  "staged st stage = (case st_window st of None \<Rightarrow> 0 | Some w \<Rightarrow> stageCount w stage)"

lemma reported_simps [simp]:
  "reported stage [] = 0"
  "reported stage (e # es) = (if eventStage e = stage then eventCount e else 0) + reported stage es"
  "reported stage (es @ es') = reported stage es + reported stage es'"
  by (simp_all add: reported_def)

lemma sealEvent_reports:
  assumes "RefusalPayload w stage start = Some payload"
  shows "eventStage (sealEvent ident start payload) = stage"
    "eventCount (sealEvent ident start payload) = stageCount w stage"
    "map_of payload ''count'' = Some (VInt64 (stageCount w stage))"
  using assms
  by (auto simp: RefusalPayload_def Let_def eventStage_def eventCount_def sealEvent_def asString_def
      refusalInt_def stageCount_def split: option.splits)

lemma sealStages_reported:
  "sealStages emit mint w start stages n = Some es \<Longrightarrow> distinct stages \<Longrightarrow>
   reported stage es = (if stage \<in> set stages then stageCount w stage else 0)"
proof (induction emit mint w start stages n arbitrary: es rule: sealStages.induct)
  case (2 emit mint w start x stages n)
  from "2.prems"(1) obtain payload where p: "RefusalPayload w x start = Some payload"
    by (auto split: option.splits)
  note r = sealEvent_reports [OF p]
  show ?case
  proof (cases "stageCount w x = 0")
    case True
    with 2 p r show ?thesis by auto
  next
    case False
    with "2.prems"(1) p r obtain ident es' where
      es: "es = sealEvent ident start payload # es'" "sealStages emit mint w start stages (Suc n) = Some es'"
      and "mint n = Some ident" "emit (sealEvent ident start payload)"
      by (auto simp: Let_def split: option.splits if_splits)
    with "2.IH"(2) [OF p] False "2.prems"(2) r show ?thesis by auto
  qed
qed simp

lemma sealStages_total:
  assumes "windowOk uuid w" "uuidLaw uuid" "0 \<le> start" "start mod 60 = 0" "start \<le> MaxInt64 - 60"
    and "\<And>n. mint n \<noteq> None"
    and "\<And>ident stage i. sealable uuid w stage i start \<Longrightarrow> emit (sealEvent ident start (summaryPayload w stage i start))"
    and "set stages \<subseteq> set RefusalStages"
  shows "\<exists>es. sealStages emit mint w start stages n = Some es"
  using assms(8)
proof (induction stages arbitrary: n)
  case (Cons stage stages)
  then obtain i where i: "refusalStageIndex stage = Some i"
    by (cases "refusalStageIndex stage") (auto simp: refusalStageIndex_def find_None_iff in_set_conv_nth)
  have i5: "i < 5" using refusalStageIndex_less [OF i] by simp
  show ?case
  proof (cases "rw_Counts w ! i = 0")
    case True
    then have "\<exists>p. RefusalPayload w stage start = Some p \<and> map_of p ''count'' = Some (VInt64 0)"
      using i by (simp add: RefusalPayload_def Let_def)
    with Cons show ?thesis by fastforce
  next
    case False
    with windowOk_counts [OF assms(1) i5] i assms(1,3,4,5) have seal: "sealable uuid w stage i start"
      by (simp add: sealable_def windowOk_def)
    obtain ident where "mint n = Some ident" using assms(6) by blast
    moreover obtain es where "sealStages emit mint w start stages (Suc n) = Some es" using Cons by auto
    moreover have "map_of (summaryPayload w stage i start) ''count'' \<noteq> Some (VInt64 0)"
      using False by (simp add: summaryPayload_def)
    ultimately show ?thesis
      using RefusalPayload_eq [OF seal] assms(7) [OF seal, of ident] by simp
  qed
qed simp

text \<open>The parts of a successful update: sealing first, then the sample.\<close>

definition savedAs :: "UUIDParse \<Rightarrow> int \<Rightarrow> RefusalSample option \<Rightarrow> RefusalWindow \<Rightarrow> int \<Rightarrow> bool \<Rightarrow> Staging \<Rightarrow> Staging \<Rightarrow> bool" where
  "savedAs uuid now sample w start changed st st' \<longleftrightarrow>
    (\<exists>x. addSample uuid now sample w start changed = Some x \<and> saveStaging st x = Some st')"

lemma update_parts:
  assumes "stagingOk uuid st" "UpdateRequestRefusals emit uuid mint now sample st = Some (es, st', ret)"
  obtains w where "st_window st = Some w" "windowOk uuid w"
    "es = [] \<and> savedAs uuid now sample w (st_start st) False st st' \<or>
     sealStages emit mint w (st_start st) RefusalStages 0 = Some es \<and> savedAs uuid now sample NewRefusalWindow 0 True st st'"
proof -
  from assms(1) obtain w where w: "st_window st = Some w" "windowOk uuid w"
    by (auto simp: stagingOk_def split: option.splits)
  moreover have "es = [] \<and> savedAs uuid now sample w (st_start st) False st st' \<or>
     sealStages emit mint w (st_start st) RefusalStages 0 = Some es \<and> savedAs uuid now sample NewRefusalWindow 0 True st st'"
    using assms(2) w(1)
    by (auto simp: UpdateRequestRefusals_def Let_def savedAs_def Option.bind_eq_Some_conv split: if_splits)
  ultimately show thesis by (rule that)
qed

lemma stageCount_New [simp]: "stageCount NewRefusalWindow stage = 0"
  by (auto simp: stageCount_def NewRefusalWindow_def split: option.split dest!: refusalStageIndex_less)

lemma Add_stageCount:
  assumes "windowOk uuid w" "RefusalWindow_Add uuid s w = Some w'" "stage \<in> set RefusalStages"
  shows "stageCount w' stage = stageCount w stage + (if rs_Stage s = stage then 1 else 0)"
proof -
  obtain i where i: "refusalStageIndex (rs_Stage s) = Some i" "i < 5"
    "rw_Counts w' = (rw_Counts w)[i := rw_Counts w ! i + 1]" "windowOk uuid w'" "\<not> RefusalWindow_Empty w'"
    by (rule Add_facts [OF assms(1,2)])
  have len: "length (rw_Counts w) = 5" using windowOk_counts(4) [OF assms(1), of 0] by simp
  obtain j where j: "refusalStageIndex stage = Some j"
    using assms(3) by (cases "refusalStageIndex stage") (auto simp: refusalStageIndex_def find_None_iff in_set_conv_nth)
  then have "j = i \<longleftrightarrow> rs_Stage s = stage"
    using i(1) refusalStageIndex_inj [OF i(1), of stage] by auto
  with i j len show ?thesis by (auto simp: stageCount_def nth_list_update)
qed

lemma RefusalStages_distinct: "distinct RefusalStages"
  by (simp add: RefusalStages_def)

lemma savedAs_cases:
  assumes "savedAs uuid now sample w start changed st st'" "windowOk uuid w"
  obtains (Kept) "sample = None" "\<not> changed" "st' = st"
  | (Reset) "sample = None" "changed" "st_window st' = Some w" "st_start st' = start" "st_bytes st' \<le> RefusalStateBytes"
  | (Added) s w' where "sample = Some s" "RefusalWindow_Add uuid s w = Some w'" "windowOk uuid w'" "st_window st' = Some w'"
      "st_start st' = (if start = 0 \<or> RefusalWindow_Empty w then now div 60 * 60 else start)" "st_bytes st' \<le> RefusalStateBytes"
proof (cases sample)
  case None
  with assms(1) show thesis
    using Kept Reset by (cases changed) (auto simp: savedAs_def addSample_def saveStaging_def split: if_splits)
next
  case (Some s)
  with assms(1) obtain w' where "RefusalWindow_Add uuid s w = Some w'"
    "st' = \<lparr>st_start = if start = 0 \<or> RefusalWindow_Empty w then now div 60 * 60 else start, st_window = Some w',
            st_bytes = length (encodeWindow w')\<rparr>" "length (encodeWindow w') \<le> RefusalStateBytes"
    by (auto simp: savedAs_def addSample_def saveStaging_def split: if_splits)
  moreover from this(1) have "windowOk uuid w'" by (rule Add_facts [OF assms(2)])
  ultimately show thesis using Added [OF Some] by simp
qed

definition sampleAt :: "RefusalSample option \<Rightarrow> string \<Rightarrow> int" where
  "sampleAt sample stage = (case sample of None \<Rightarrow> 0 | Some s \<Rightarrow> if rs_Stage s = stage then 1 else 0)"

lemma savedAs_staged:
  assumes "savedAs uuid now sample w start changed st st'" "windowOk uuid w" "stage \<in> set RefusalStages"
    and "\<not> changed \<Longrightarrow> st_window st = Some w"
  shows "staged st' stage = stageCount w stage + sampleAt sample stage"
  using assms(1,2)
proof (cases rule: savedAs_cases)
  case (Added s w')
  with Add_stageCount [OF assms(2) Added(2) assms(3)] show ?thesis by (simp add: staged_def sampleAt_def)
qed (use assms(4) in \<open>auto simp: staged_def sampleAt_def\<close>)

lemma update_conserves:
  assumes "stagingOk uuid st" "UpdateRequestRefusals emit uuid mint now sample st = Some (es, st', ret)"
    and "stage \<in> set RefusalStages"
  shows "reported stage es + staged st' stage = staged st stage + sampleAt sample stage"
  using assms(1,2)
proof (rule update_parts)
  fix w
  assume w: "st_window st = Some w" "windowOk uuid w"
    and "es = [] \<and> savedAs uuid now sample w (st_start st) False st st' \<or>
      sealStages emit mint w (st_start st) RefusalStages 0 = Some es \<and> savedAs uuid now sample NewRefusalWindow 0 True st st'"
  then consider (Keep) "es = []" "savedAs uuid now sample w (st_start st) False st st'"
    | (Seal) "sealStages emit mint w (st_start st) RefusalStages 0 = Some es" "savedAs uuid now sample NewRefusalWindow 0 True st st'"
    by blast
  then show ?thesis
  proof cases
    case Keep
    with savedAs_staged [OF Keep(2) w(2) assms(3)] w(1) show ?thesis by (simp add: staged_def)
  next
    case Seal
    with savedAs_staged [OF Seal(2) New_windowOk(1) assms(3)] sealStages_reported [OF Seal(1) RefusalStages_distinct] w(1) assms(3)
    show ?thesis by (simp add: staged_def)
  qed
qed

lemma savedAs_ok:
  assumes "savedAs uuid now sample w start changed st st'" "windowOk uuid w" "60 \<le> now"
    and "0 \<le> start" "start mod 60 = 0" "start = 0 \<Longrightarrow> RefusalWindow_Empty w" "stagingOk uuid st"
  shows "stagingOk uuid st'"
  using assms(1,2)
proof (cases rule: savedAs_cases)
  case (Added s w')
  have "0 < now div 60" using assms(3) by (simp add: pos_imp_zdiv_pos_iff)
  with Added assms show ?thesis by (auto simp: stagingOk_def)
qed (use assms in \<open>auto simp: stagingOk_def\<close>)

lemma update_keeps_ok:
  assumes "stagingOk uuid st" "UpdateRequestRefusals emit uuid mint now sample st = Some (es, st', ret)" "60 \<le> now"
  shows "stagingOk uuid st'"
  using assms(1,2)
proof (rule update_parts)
  fix w
  assume w: "st_window st = Some w" "windowOk uuid w"
    and "es = [] \<and> savedAs uuid now sample w (st_start st) False st st' \<or>
      sealStages emit mint w (st_start st) RefusalStages 0 = Some es \<and> savedAs uuid now sample NewRefusalWindow 0 True st st'"
  then show ?thesis
    using savedAs_ok [OF _ w(2) assms(3) _ _ _ assms(1)] savedAs_ok [OF _ New_windowOk(1) assms(3) _ _ _ assms(1)]
      New_windowOk(2) assms(1) by (auto simp: stagingOk_def)
qed

text \<open>
  A run of updates. A failing update is rolled back: nothing is written and its sample is not
  accepted. The results accumulate the events written and the samples accepted.
\<close>

type_synonym Update = "(nat \<Rightarrow> string option) \<times> int \<times> RefusalSample option"

fun runUpdates ::
    "(Event \<Rightarrow> bool) \<Rightarrow> UUIDParse \<Rightarrow> Update list \<Rightarrow> Staging \<Rightarrow> Event list \<times> RefusalSample list \<times> Staging" where
  "runUpdates emit uuid [] st = ([], [], st)"
| "runUpdates emit uuid ((mint, now, sample) # us) st =
    (case UpdateRequestRefusals emit uuid mint now sample st of
       None \<Rightarrow> runUpdates emit uuid us st
     | Some (es, st', _) \<Rightarrow>
         (let (es', ss, st'') = runUpdates emit uuid us st' in
          (es @ es', (case sample of None \<Rightarrow> ss | Some s \<Rightarrow> s # ss), st'')))"

definition emptyStaging :: Staging where
  "emptyStaging = \<lparr>st_start = 0, st_window = Some NewRefusalWindow, st_bytes = length (encodeWindow NewRefusalWindow)\<rparr>"

lemma runUpdates_conserves:
  assumes "stagingOk uuid st" "list_all (\<lambda>(_, now, _). 60 \<le> now) us"
    and "runUpdates emit uuid us st = (es, ss, st')" "stage \<in> set RefusalStages"
  shows "reported stage es + staged st' stage = staged st stage + int (length (filter (\<lambda>s. rs_Stage s = stage) ss)) \<and>
         stagingOk uuid st'"
  using assms(1-3)
proof (induction emit uuid us st arbitrary: es ss st' rule: runUpdates.induct)
  case (2 emit uuid mint now sample us st)
  show ?case
  proof (cases "UpdateRequestRefusals emit uuid mint now sample st")
    case None
    with 2 show ?thesis by simp
  next
    case (Some x)
    obtain e1 st1 ret where x: "x = (e1, st1, ret)" by (cases x) auto
    obtain e2 s2 st2 where run: "runUpdates emit uuid us st1 = (e2, s2, st2)" by (cases "runUpdates emit uuid us st1") auto
    have upd: "UpdateRequestRefusals emit uuid mint now sample st = Some (e1, st1, ret)" using Some x by simp
    have now: "60 \<le> now" using "2.prems"(2) by simp
    have "reported stage e1 + staged st1 stage = staged st stage + sampleAt sample stage"
      by (rule update_conserves [OF "2.prems"(1) upd assms(4)])
    moreover have "reported stage e2 + staged st2 stage = staged st1 stage + int (length (filter (\<lambda>s. rs_Stage s = stage) s2)) \<and>
        stagingOk uuid st2"
      using "2.IH"(2) [OF Some _ _ update_keeps_ok [OF "2.prems"(1) upd now] _ run] x "2.prems"(2) by auto
    ultimately show ?thesis
      using "2.prems"(3) Some x run by (auto simp: sampleAt_def split: option.splits)
  qed
qed simp

lemma emptyStaging_ok: "stagingOk uuid emptyStaging" "staged emptyStaging stage = 0"
proof -
  have "length (encodeWindow NewRefusalWindow) \<le> RefusalStateBytes" by code_simp
  then show "stagingOk uuid emptyStaging" using New_windowOk by (simp add: stagingOk_def emptyStaging_def)
  show "staged emptyStaging stage = 0" by (simp add: staged_def emptyStaging_def)
qed

lemma update_total:
  assumes "stagingOk uuid st" "uuidLaw uuid" "st_start st \<le> now" "60 \<le> now" "now \<le> MaxInt64 - 60"
    and "\<And>n. mint n \<noteq> None" "\<And>p. isOk (marshal p)"
    and "\<And>s. sample = Some s \<Longrightarrow> RefusalSample_Validate uuid s \<and> staged st (rs_Stage s) \<noteq> MaxInt64"
  shows "\<exists>es st' ret. UpdateRequestRefusals (WriteAuthEvent kindOf uuid marshal recordedAt TrailInstance) uuid mint now sample st =
           Some (es, st', ret) \<and> stagingOk uuid st'"
proof -
  let ?emit = "WriteAuthEvent kindOf uuid marshal recordedAt TrailInstance"
  from assms(1) obtain w where w: "st_window st = Some w" "windowOk uuid w" "st_start st = 0 \<longrightarrow> RefusalWindow_Empty w"
    and st: "st_bytes st \<le> RefusalStateBytes" "0 \<le> st_start st" "st_start st mod 60 = 0"
    by (auto simp: stagingOk_def split: option.splits)
  have "\<exists>es. sealStages ?emit mint w (st_start st) RefusalStages 0 = Some es"
  proof (rule sealStages_total [OF w(2) assms(2) st(2,3)])
    show "st_start st \<le> MaxInt64 - 60" using assms(3,5) by simp
    show "mint n \<noteq> None" for n by (rule assms(6))
    show "?emit (sealEvent ident (st_start st) (summaryPayload w stage i (st_start st)))"
      if "sealable uuid w stage i (st_start st)" for ident stage i
      by (rule sealed_written [OF that assms(2)]) (rule assms(7))
  qed simp
  then obtain es where es: "sealStages ?emit mint w (st_start st) RefusalStages 0 = Some es" ..
  have add: "\<exists>st'. savedAs uuid now sample v start ch st st'"
    if v: "windowOk uuid v" "\<And>s. sample = Some s \<Longrightarrow> stageCount v (rs_Stage s) \<noteq> MaxInt64" for v start ch
  proof (cases sample)
    case None
    then show ?thesis
      using encodeWindow_bound [OF v(1) assms(2)] by (auto simp: savedAs_def addSample_def saveStaging_def)
  next
    case (Some s)
    then obtain i where i: "refusalStageIndex (rs_Stage s) = Some i" "RefusalSample_Validate uuid s"
      using assms(8) by (auto simp: RefusalSample_Validate_def)
    with v(2) [OF Some] obtain v' where v': "RefusalWindow_Add uuid s v = Some v'"
      by (auto simp: RefusalWindow_Add_def stageCount_def)
    then have "windowOk uuid v'" by (rule Add_facts [OF v(1)])
    then have "length (encodeWindow v') \<le> RefusalStateBytes" by (rule encodeWindow_bound [OF _ assms(2)])
    with v' Some show ?thesis
      by (auto simp: savedAs_def addSample_def saveStaging_def)
  qed
  have "\<exists>st'. savedAs uuid now sample w (st_start st) False st st'"
    using assms(8) w by (intro add) (auto simp: staged_def)
  moreover have "\<exists>st'. savedAs uuid now sample NewRefusalWindow 0 True st st'"
    using New_windowOk by (intro add) (simp_all add: MaxInt64_def)
  ultimately have "\<exists>x. UpdateRequestRefusals ?emit uuid mint now sample st = Some x"
    using w st es assms(3)
    by (auto simp: UpdateRequestRefusals_def Let_def savedAs_def windowOk_def)
  then show ?thesis using update_keeps_ok [OF assms(1) _ assms(4)] by (metis prod_cases3)
qed

lemma sample_update:
  "\<exists>es st' ret. UpdateRequestRefusals (WriteAuthEvent (\<lambda>_. Inl ErrNotFound) sampleUUID (\<lambda>_. Inr ''{}'') 0 TrailInstance)
       sampleUUID (\<lambda>_. Some ''a'') 120 (Some sampleRefusal) emptyStaging = Some (es, st', ret) \<and> stagingOk sampleUUID st'"
proof (rule update_total)
  show "stagingOk sampleUUID emptyStaging" by (rule emptyStaging_ok)
  show "uuidLaw sampleUUID" by (auto simp: uuidLaw_def sampleUUID_def split: if_splits)
  show "RefusalSample_Validate sampleUUID s \<and> staged emptyStaging (rs_Stage s) \<noteq> MaxInt64"
    if "Some sampleRefusal = Some s" for s
    using that sampleRefusal_valid emptyStaging_ok(2) by (simp add: MaxInt64_def)
qed (simp_all add: emptyStaging_def MaxInt64_def)

text \<open>
  C16. No refusal is lost or counted twice. Start from the empty row and run any sequence of
  updates, with any outcomes; for every stage, the counts in the audit events written plus the
  count still staged is exactly the number of samples whose update succeeded.
\<close>

theorem refusals_conserved:
  assumes "runUpdates emit uuid us emptyStaging = (es, ss, st)" "stage \<in> set RefusalStages"
    and "list_all (\<lambda>(_, now, _). 60 \<le> now) us"
  shows "reported stage es + staged st stage = int (length (filter (\<lambda>s. rs_Stage s = stage) ss))"
  using runUpdates_conserves [OF emptyStaging_ok(1) assms(3,1,2)] emptyStaging_ok(2) by simp

theorem refusals_conserved_witness:
  "\<exists>es ss st. runUpdates (WriteAuthEvent (\<lambda>_. Inl ErrNotFound) sampleUUID (\<lambda>_. Inr ''{}'') 0 TrailInstance) sampleUUID
       [(\<lambda>_. Some ''a'', 120, Some sampleRefusal)] emptyStaging = (es, ss, st) \<and>
     ss = [sampleRefusal] \<and> reported RefusalCSRF es + staged st RefusalCSRF = 1"
proof -
  let ?emit = "WriteAuthEvent (\<lambda>_. Inl ErrNotFound) sampleUUID (\<lambda>_. Inr ''{}'') 0 TrailInstance"
  obtain es st ret where "UpdateRequestRefusals ?emit sampleUUID (\<lambda>_. Some ''a'') 120 (Some sampleRefusal) emptyStaging = Some (es, st, ret)"
    using sample_update by blast
  then have run: "runUpdates ?emit sampleUUID [(\<lambda>_. Some ''a'', 120, Some sampleRefusal)] emptyStaging = (es, [sampleRefusal], st)"
    by simp
  with refusals_conserved [OF run, of RefusalCSRF] show ?thesis
    by (auto simp: RefusalStages_def sampleRefusal_def)
qed

text \<open>
  C28. A well-formed staging row never blocks the writer. If the row is well formed, the clock
  is neither behind the window nor outside the range of the counter arithmetic, identifiers
  are available, payloads encode, and the sample (if any) is valid and its counter not
  saturated, then the update succeeds: every sealed event passes the write boundary of the
  real event catalogue and the saved text is within its bound; and the saved row is again
  well formed.
\<close>

theorem refusal_update_succeeds:
  assumes "stagingOk uuid st" "uuidLaw uuid" "st_start st \<le> now" "60 \<le> now" "now \<le> MaxInt64 - 60"
    and "\<And>n. mint n \<noteq> None" "\<And>p. isOk (marshal p)"
    and "\<And>s. sample = Some s \<Longrightarrow> RefusalSample_Validate uuid s \<and> staged st (rs_Stage s) \<noteq> MaxInt64"
  shows "\<exists>es st' ret. UpdateRequestRefusals (WriteAuthEvent kindOf uuid marshal recordedAt TrailInstance) uuid mint now sample st =
           Some (es, st', ret) \<and> stagingOk uuid st'"
  using assms by (rule update_total)

theorem refusal_update_succeeds_witness:
  "\<exists>es st' ret. UpdateRequestRefusals (WriteAuthEvent (\<lambda>_. Inl ErrNotFound) sampleUUID (\<lambda>_. Inr ''{}'') 0 TrailInstance)
       sampleUUID (\<lambda>_. Some ''a'') 120 (Some sampleRefusal) emptyStaging = Some (es, st', ret) \<and> stagingOk sampleUUID st'"
proof (rule refusal_update_succeeds)
  show "stagingOk sampleUUID emptyStaging" by (rule emptyStaging_ok)
  show "uuidLaw sampleUUID" by (auto simp: uuidLaw_def sampleUUID_def split: if_splits)
  show "RefusalSample_Validate sampleUUID s \<and> staged emptyStaging (rs_Stage s) \<noteq> MaxInt64"
    if "Some sampleRefusal = Some s" for s
    using that sampleRefusal_valid emptyStaging_ok(2) by (simp add: MaxInt64_def)
qed (simp_all add: emptyStaging_def MaxInt64_def)

end
