(* ===== verification/GoStrings.thy ===== *)
theory GoStrings
  imports FreeText
begin

text \<open>
  The parts of Go's \<^verbatim>\<open>strings\<close> and \<^verbatim>\<open>unicode/utf8\<close> packages the schema engine and the dotenv
  grammar use, on byte strings: trimming by a cutset, \<^verbatim>\<open>TrimSpace\<close> with the Unicode white space
  characters spelled as their UTF-8 encodings, rune counting, and splitting into lines.
\<close>

section \<open>Trimming\<close>

definition TrimLeft :: "string \<Rightarrow> string \<Rightarrow> string" where
  "TrimLeft s cutset = dropWhile (\<lambda>c. c \<in> set cutset) s"

definition TrimRight :: "string \<Rightarrow> string \<Rightarrow> string" where
  "TrimRight s cutset = rev (dropWhile (\<lambda>c. c \<in> set cutset) (rev s))"

text \<open>
  The white space characters of \<^verbatim>\<open>unicode.IsSpace\<close>: U+0009 to U+000D, U+0020, U+0085, U+00A0, U+1680,
  U+2000 to U+200A, U+2028, U+2029, U+202F, U+205F and U+3000. UTF-8 is self-synchronizing, so the
  last rune of a text is one of them exactly when the text ends in its encoding.
\<close>

definition spaceRunes :: "string list" where
  "spaceRunes = map (map (char_of :: nat \<Rightarrow> char))
    ([[9], [10], [11], [12], [13], [32], [194, 133], [194, 160], [225, 154, 128]]
     @ map (\<lambda>b. [226, 128, b]) [128..<139]
     @ [[226, 128, 168], [226, 128, 169], [226, 128, 175], [226, 129, 159], [227, 128, 128]])"

lemma spaceRunes_nonempty: "r \<in> set spaceRunes \<Longrightarrow> r \<noteq> []"
  by (auto simp: spaceRunes_def)

text \<open>Removing words of a list from the front for as long as one fits.\<close>

function strip :: "string list \<Rightarrow> string \<Rightarrow> string" where
  "strip words s =
    (case find (\<lambda>w. w \<noteq> [] \<and> prefix w s) words of
       None \<Rightarrow> s
     | Some w \<Rightarrow> strip words (drop (length w) s))"
  by pat_completeness auto
termination
proof (relation "measure (\<lambda>(_, s). length s)")
  fix words s w assume "find (\<lambda>w. w \<noteq> [] \<and> prefix w s) words = Some w"
  then have "w \<noteq> []" "prefix w s" by (auto simp: find_Some_iff)
  then show "((words, drop (length w) s), words, s) \<in> measure (\<lambda>(_, s). length s)" by (cases s; cases w) auto
qed simp

declare strip.simps [simp del]

definition TrimSpace :: "string \<Rightarrow> string" where
  "TrimSpace s = rev (strip (map rev spaceRunes) (rev (strip spaceRunes s)))"

lemma strip_suffix: "suffix (strip words s) s"
proof (induction words s rule: strip.induct)
  case (1 words s)
  then show ?case
    by (subst strip.simps) (auto split: option.splits intro: suffix_order.trans suffix_drop)
qed

lemma strip_stops: "w \<in> set words \<Longrightarrow> w \<noteq> [] \<Longrightarrow> \<not> prefix w (strip words s)"
proof (induction words s rule: strip.induct)
  case (1 words s)
  then show ?case
    by (subst strip.simps) (auto split: option.splits simp: find_None_iff)
qed

lemma strip_id: "(\<And>w. w \<in> set words \<Longrightarrow> w \<noteq> [] \<Longrightarrow> \<not> prefix w s) \<Longrightarrow> strip words s = s"
  by (subst strip.simps) (auto split: option.splits simp: find_Some_iff)

text \<open>What a trimmed text is: no white space character at either end.\<close>

definition trimmed :: "string \<Rightarrow> bool" where
  "trimmed s \<longleftrightarrow> list_all (\<lambda>w. \<not> prefix w s \<and> \<not> suffix w s) spaceRunes"

lemma TrimSpace_prefix: "prefix (TrimSpace s) (strip spaceRunes s)"
  using strip_suffix [of "map rev spaceRunes" "rev (strip spaceRunes s)"]
  by (simp add: TrimSpace_def suffix_to_prefix)

lemma TrimSpace_sublist: "sublist (TrimSpace s) s"
  using TrimSpace_prefix strip_suffix by (metis prefix_imp_sublist sublist_order.order_trans suffix_imp_sublist)

lemma TrimSpace_trimmed: "trimmed (TrimSpace s)"
  unfolding trimmed_def list_all_iff
proof (intro ballI conjI)
  fix w assume w: "w \<in> set spaceRunes"
  show "\<not> prefix w (TrimSpace s)"
    using strip_stops [OF w spaceRunes_nonempty [OF w]] TrimSpace_prefix by (metis prefix_order.trans)
  show "\<not> suffix w (TrimSpace s)"
    using strip_stops [of "rev w" "map rev spaceRunes" "rev (strip spaceRunes s)"] w spaceRunes_nonempty [OF w]
    by (simp add: TrimSpace_def suffix_to_prefix)
qed

lemma TrimSpace_id: "trimmed s \<Longrightarrow> TrimSpace s = s"
proof -
  assume t: "trimmed s"
  then have "strip spaceRunes s = s" by (intro strip_id) (auto simp: trimmed_def list_all_iff)
  moreover have "strip (map rev spaceRunes) (rev s) = rev s"
    using t by (intro strip_id) (auto simp: trimmed_def list_all_iff suffix_to_prefix)
  ultimately show ?thesis by (simp add: TrimSpace_def)
qed

lemma TrimSpace_eq_iff: "TrimSpace s = s \<longleftrightarrow> trimmed s"
  using TrimSpace_id TrimSpace_trimmed by metis

lemma TrimSpace_idem [simp]: "TrimSpace (TrimSpace s) = TrimSpace s"
  by (rule TrimSpace_id [OF TrimSpace_trimmed])

lemma trimmed_Nil [simp]: "trimmed []"
  using spaceRunes_nonempty by (auto simp: trimmed_def list_all_iff)


section \<open>Runes and lines\<close>

text \<open>\<^verbatim>\<open>utf8.RuneCountInString\<close>: an invalid byte counts as one rune.\<close>

function RuneCount :: "string \<Rightarrow> nat" where
  "RuneCount [] = 0"
| "RuneCount (c # cs) =
    Suc (case runeWidth (c # cs) of None \<Rightarrow> RuneCount cs | Some w \<Rightarrow> RuneCount (drop w (c # cs)))"
  by pat_completeness auto
termination
  by (relation "measure length") (auto dest: runeWidth_pos)

text \<open>\<^verbatim>\<open>strings.Split(s, "\n")\<close> for a one-byte separator.\<close>

fun splitLines :: "char \<Rightarrow> string \<Rightarrow> string list" where
  "splitLines sep [] = [[]]"
| "splitLines sep (c # cs) =
    (if c = sep then [] # splitLines sep cs
     else case splitLines sep cs of [] \<Rightarrow> [[c]] | l # ls \<Rightarrow> (c # l) # ls)"

lemma splitLines_nonempty [simp]: "splitLines sep s \<noteq> []"
  by (cases s) (auto split: list.splits)

lemma splitLines_line: "sep \<notin> set l \<Longrightarrow> splitLines sep (l @ sep # s) = l # splitLines sep s"
  by (induction l) auto

end
