(* ===== verification/JsonSchema.thy ===== *)
theory JsonSchema
  imports Prelude "HOL-Library.Char_ord" "HOL-Library.List_Lexorder"
begin

text \<open>
  The JSON Schema profile (\<^verbatim>\<open>internal/schema/jsonschema.go\<close>): the walk over a declared schema
  document that enforces the keyword allowlist, the depth and subschema bounds and the reference
  form, and builds the graph of subschema applications; the three-colour cycle check; and the
  memoized, saturating count of evaluation paths that is the step cap. A JSON document is the
  decoded Go value, so the names of an object are distinct. The two recursive closures run on
  fuel (\<open>None\<close> is fuel exhausted); they are called with one unit more than the number of nodes,
  and that is proved to be enough. The results: the cycle check accepts exactly the acyclic
  graphs, and an accepted document has a finite number of evaluation paths within the budget.
\<close>

section \<open>Documents and pointers\<close>

datatype json = JNull | JBool bool | JNumber string | JString string | JArray "json list"
  | JObject "(string \<times> json) list"

text \<open>\<^verbatim>\<open>slices.Sorted(maps.Keys(obj))\<close>, with the values.\<close>

definition sortedMembers :: "(string \<times> json) list \<Rightarrow> (string \<times> json) list" where
  "sortedMembers kvs = sort_key fst kvs"

definition replaceChar :: "char \<Rightarrow> string \<Rightarrow> string \<Rightarrow> string" where
  "replaceChar c r s = concat (map (\<lambda>x. if x = c then r else [x]) s)"

definition escapePointer :: "string \<Rightarrow> string" where
  "escapePointer token = replaceChar CHR ''/'' ''~1'' (replaceChar CHR ''~'' ''~0'' token)"

definition unescapeRefTarget :: "string \<Rightarrow> string" where
  "unescapeRefTarget ref = (if prefix ''#'' ref then tl ref else ref)"


section \<open>The profile\<close>

abbreviation MaxValueBytes :: nat where "MaxValueBytes \<equiv> 65536"
abbreviation MaxValidatedInstanceBytes :: nat where "MaxValidatedInstanceBytes \<equiv> MaxValueBytes"
abbreviation MaxEvaluationWork :: nat where "MaxEvaluationWork \<equiv> 16777216"
abbreviation MaxJSONSchemaBytes :: nat where "MaxJSONSchemaBytes \<equiv> 65536"
abbreviation MaxJSONSchemaDepth :: nat where "MaxJSONSchemaDepth \<equiv> 32"

definition MaxJSONSchemaSubschemas :: nat where
  "MaxJSONSchemaSubschemas = MaxEvaluationWork div MaxValidatedInstanceBytes"

lemma MaxJSONSchemaSubschemas_code [code]: "MaxJSONSchemaSubschemas = 256"
  by (simp add: MaxJSONSchemaSubschemas_def)

datatype keywordKind = kindData | kindSchema | kindSchemaArray | kindSchemaMap

definition allowedKeywords :: "(string \<times> keywordKind) list" where
  "allowedKeywords = [
    (''$schema'', kindData), (''$comment'', kindData), (''$ref'', kindData), (''$defs'', kindSchemaMap),
    (''type'', kindData), (''enum'', kindData), (''const'', kindData), (''multipleOf'', kindData),
    (''maximum'', kindData), (''exclusiveMaximum'', kindData), (''minimum'', kindData),
    (''exclusiveMinimum'', kindData), (''maxLength'', kindData), (''minLength'', kindData),
    (''pattern'', kindData), (''maxItems'', kindData), (''minItems'', kindData), (''maxProperties'', kindData),
    (''minProperties'', kindData), (''required'', kindData), (''dependentRequired'', kindData),
    (''properties'', kindSchemaMap), (''patternProperties'', kindSchemaMap), (''dependentSchemas'', kindSchemaMap),
    (''additionalProperties'', kindSchema), (''propertyNames'', kindSchema), (''items'', kindSchema),
    (''prefixItems'', kindSchemaArray), (''allOf'', kindSchemaArray), (''anyOf'', kindSchemaArray),
    (''oneOf'', kindSchemaArray), (''not'', kindSchema), (''if'', kindSchema), (''then'', kindSchema),
    (''else'', kindSchema),
    (''title'', kindData), (''description'', kindData), (''examples'', kindData), (''deprecated'', kindData),
    (''readOnly'', kindData), (''writeOnly'', kindData)]"

text \<open>The keywords refused by name (the reasons are prose).\<close>

definition excludedKeywords :: "string list" where
  "excludedKeywords =
    [''$dynamicRef'', ''$dynamicAnchor'', ''unevaluatedProperties'', ''unevaluatedItems'', ''contains'',
     ''uniqueItems'', ''minContains'', ''maxContains'', ''default'', ''format'', ''$id'', ''$anchor'',
     ''$vocabulary'', ''contentEncoding'', ''contentMediaType'', ''contentSchema'']"

definition dialect2020 :: string where
  "dialect2020 = ''https://json-schema.org/draft/2020-12/schema''"

datatype profile_error =
    DepthExceeded | SubschemaCount | NotASchema | ExcludedKeyword | UnknownKeyword | ArrayExpected | ObjectExpected
  | DialectMismatch | RefNotString | RefNotInDocument | RefUnresolved | RefCycle | WorkBudget


section \<open>The walk\<close>

record profileWalk =
  pw_nodes :: "string list"
  pw_edges :: "string \<Rightarrow> string list"
  pw_count :: nat

definition emptyWalk :: profileWalk where
  "emptyWalk = \<lparr>pw_nodes = [], pw_edges = (\<lambda>_. []), pw_count = 0\<rparr>"

definition addEdge :: "string \<Rightarrow> string \<Rightarrow> profileWalk \<Rightarrow> profileWalk" where
  "addEdge from to w = w\<lparr>pw_edges := (pw_edges w)(from := pw_edges w from @ [to])\<rparr>"

definition dataKeyword :: "string \<Rightarrow> string \<Rightarrow> json \<Rightarrow> profileWalk \<Rightarrow> profile_error + profileWalk" where
  "dataKeyword ptr name val w =
    (if name = ''$schema'' then (if val = JString dialect2020 then Inr w else Inl DialectMismatch)
     else if name = ''$ref'' then
       (case val of
          JString ref \<Rightarrow>
            if ref \<noteq> ''#'' \<and> \<not> prefix ''#/'' ref then Inl RefNotInDocument
            else Inr (addEdge ptr (unescapeRefTarget ref) w)
        | _ \<Rightarrow> Inl RefNotString)
     else Inr w)"

text \<open>A loop that stops at the first error.\<close>

fun foldE :: "('a \<Rightarrow> 's \<Rightarrow> 'e + 's) \<Rightarrow> 'a list \<Rightarrow> 's \<Rightarrow> 'e + 's" where
  "foldE f [] s = Inr s"
| "foldE f (x # xs) s = bindE (f x s) (foldE f xs)"

lemma foldE_cong [fundef_cong]:
  "xs = ys \<Longrightarrow> s = t \<Longrightarrow> (\<And>x u. x \<in> set ys \<Longrightarrow> f x u = g x u) \<Longrightarrow> foldE f xs s = foldE g ys t"
proof (induction ys arbitrary: xs s t)
  case (Cons y ys)
  then show ?case by (cases "g y t") simp_all
qed simp

text \<open>The subschemas a keyword holds, with their pointers, in the order the walk enters them.\<close>

definition subschemas :: "keywordKind \<Rightarrow> string \<Rightarrow> json \<Rightarrow> profile_error + (string \<times> json) list" where
  "subschemas kind child val =
    (case kind of
       kindData \<Rightarrow> Inr []
     | kindSchema \<Rightarrow> Inr [(child, val)]
     | kindSchemaArray \<Rightarrow>
         (case val of
            JArray items \<Rightarrow> Inr (map (\<lambda>(i, item). (child @ ''/'' @ itoa i, item)) (enumerate 0 items))
          | _ \<Rightarrow> Inl ArrayExpected)
     | kindSchemaMap \<Rightarrow>
         (case val of
            JObject members \<Rightarrow>
              Inr (map (\<lambda>(member, m). (child @ ''/'' @ escapePointer member, m)) (sortedMembers members))
          | _ \<Rightarrow> Inl ObjectExpected))"

function walkSchema :: "json \<Rightarrow> string \<Rightarrow> nat \<Rightarrow> profileWalk \<Rightarrow> profile_error + profileWalk" where
  "walkSchema node ptr deep w =
    (if MaxJSONSchemaDepth < deep then Inl DepthExceeded
     else
       (let w1 = w\<lparr>pw_count := Suc (pw_count w)\<rparr> in
        if MaxJSONSchemaSubschemas < pw_count w1 then Inl SubschemaCount
        else
          (let w2 = w1\<lparr>pw_nodes := ptr # pw_nodes w1\<rparr> in
           case node of
             JBool _ \<Rightarrow> Inr w2
           | JObject kvs \<Rightarrow>
               foldE (\<lambda>(name, val) w.
                 if name \<in> set excludedKeywords then Inl ExcludedKeyword
                 else
                   case map_of allowedKeywords name of
                     None \<Rightarrow> Inl UnknownKeyword
                   | Some kind \<Rightarrow>
                       bindE (if kind = kindData then dataKeyword ptr name val w else Inr w) (\<lambda>w.
                       bindE (subschemas kind (ptr @ ''/'' @ escapePointer name) val) (\<lambda>subs.
                         foldE (\<lambda>(sub, item) w. walkSchema item sub (Suc deep) (addEdge ptr sub w)) subs w)))
                 (sortedMembers kvs) w2
           | _ \<Rightarrow> Inl NotASchema)))"
  by pat_completeness auto
termination by (relation "measure (\<lambda>(_, _, deep, _). Suc MaxJSONSchemaDepth - deep)") auto

declare walkSchema.simps [simp del]


section \<open>The cycle check\<close>

datatype colour = White | Grey | Black

fun visitAll :: "('a \<Rightarrow> 'c \<Rightarrow> ('e + 'c) option) \<Rightarrow> 'a list \<Rightarrow> 'c \<Rightarrow> ('e + 'c) option" where
  "visitAll g [] c = Some (Inr c)"
| "visitAll g (t # ts) c =
    (case g t c of
       None \<Rightarrow> None
     | Some (Inl e) \<Rightarrow> Some (Inl e)
     | Some (Inr c') \<Rightarrow> visitAll g ts c')"

fun visit ::
  "nat \<Rightarrow> (string \<Rightarrow> string list) \<Rightarrow> string \<Rightarrow> (string \<Rightarrow> colour) \<Rightarrow> (profile_error + (string \<Rightarrow> colour)) option" where
  "visit 0 edges node c = None"
| "visit (Suc fuel) edges node c =
    (case c node of
       Grey \<Rightarrow> Some (Inl RefCycle)
     | Black \<Rightarrow> Some (Inr c)
     | White \<Rightarrow>
         map_option (map_sum id (\<lambda>c'. c'(node := Black)))
           (visitAll (visit fuel edges) (sort (edges node)) (c(node := Grey))))"

definition checkAcyclic :: "profileWalk \<Rightarrow> (profile_error + (string \<Rightarrow> colour)) option" where
  "checkAcyclic w = visitAll (visit (Suc (length (pw_nodes w))) (pw_edges w)) (sort (pw_nodes w)) (\<lambda>_. White)"


section \<open>The work budget\<close>

fun sumChildren ::
  "(string \<Rightarrow> (string \<rightharpoonup> nat) \<Rightarrow> (nat \<times> (string \<rightharpoonup> nat)) option) \<Rightarrow> nat \<Rightarrow> string list \<Rightarrow> nat \<Rightarrow> (string \<rightharpoonup> nat) \<Rightarrow>
   (nat \<times> (string \<rightharpoonup> nat)) option" where
  "sumChildren count limit [] acc memo = Some (acc, memo)"
| "sumChildren count limit (child # children) acc memo =
    (case count child memo of
       None \<Rightarrow> None
     | Some (n, memo') \<Rightarrow>
         if limit < acc + n then Some (limit + 1, memo')
         else sumChildren count limit children (acc + n) memo')"

fun countPaths ::
  "nat \<Rightarrow> (string \<Rightarrow> string list) \<Rightarrow> nat \<Rightarrow> string \<Rightarrow> (string \<rightharpoonup> nat) \<Rightarrow> (nat \<times> (string \<rightharpoonup> nat)) option" where
  "countPaths 0 edges limit node memo = None"
| "countPaths (Suc fuel) edges limit node memo =
    (case memo node of
       Some n \<Rightarrow> Some (n, memo)
     | None \<Rightarrow>
         map_option (\<lambda>(t, memo'). (t, memo'(node \<mapsto> t)))
           (sumChildren (countPaths fuel edges limit) limit (edges node) 1 memo))"

definition expandedPaths :: "profileWalk \<Rightarrow> nat \<Rightarrow> nat option" where
  "expandedPaths w limit =
    map_option fst (countPaths (Suc (length (pw_nodes w))) (pw_edges w) limit [] Map.empty)"

definition pathLimit :: nat where
  "pathLimit = MaxEvaluationWork div MaxValidatedInstanceBytes"

lemma pathLimit_code [code]: "pathLimit = 256"
  by (simp add: pathLimit_def)

definition checkWorkBudget :: "profileWalk \<Rightarrow> (profile_error + unit) option" where
  "checkWorkBudget w =
    (let limit = pathLimit in
     map_option (\<lambda>paths. if limit < paths then Inl WorkBudget else Inr ()) (expandedPaths w limit))"

text \<open>
  The edges of the walk start at its nodes, so ranging over the nodes is ranging over the edge map.
\<close>

definition refsResolve :: "profileWalk \<Rightarrow> bool" where
  "refsResolve w = list_all (\<lambda>from. list_all (\<lambda>to. to \<in> set (pw_nodes w)) (pw_edges w from)) (pw_nodes w)"

definition checkProfile :: "json \<Rightarrow> (profile_error + profileWalk) option" where
  "checkProfile doc =
    (case walkSchema doc [] 1 emptyWalk of
       Inl e \<Rightarrow> Some (Inl e)
     | Inr w \<Rightarrow>
         if \<not> refsResolve w then Some (Inl RefUnresolved)
         else
           case checkAcyclic w of
             None \<Rightarrow> None
           | Some (Inl e) \<Rightarrow> Some (Inl e)
           | Some (Inr _) \<Rightarrow> map_option (map_sum id (\<lambda>_. w)) (checkWorkBudget w))"


section \<open>The walk, backwards\<close>

lemma foldE_inv:
  assumes "foldE f xs s = Inr s'" "I s" "\<And>x s s'. x \<in> set xs \<Longrightarrow> I s \<Longrightarrow> f x s = Inr s' \<Longrightarrow> I s'"
  shows "I s'"
  using assms by (induction xs arbitrary: s) auto

lemma addEdge_simps [simp]:
  "pw_nodes (addEdge a b w) = pw_nodes w" "pw_count (addEdge a b w) = pw_count w"
  "pw_edges (addEdge a b w) n = (if n = a then pw_edges w a @ [b] else pw_edges w n)"
  by (simp_all add: addEdge_def)

lemma dataKeyword_cases:
  "dataKeyword ptr name val w = Inr w' \<Longrightarrow> w' = w \<or> (\<exists>to. w' = addEdge ptr to w)"
  by (auto simp: dataKeyword_def split: if_splits json.splits)

lemma walkSchema_leaf:
  assumes "walkSchema node ptr deep w = Inr w'" "\<And>kvs. node \<noteq> JObject kvs"
  shows "w' = w\<lparr>pw_count := Suc (pw_count w), pw_nodes := ptr # pw_nodes w\<rparr>"
  using assms by (subst (asm) walkSchema.simps) (auto simp: Let_def split: if_splits json.splits)

text \<open>
  What holds of a walk is what entering a node and adding an edge from an entered node preserve.
\<close>

lemma walkSchema_preserves:
  assumes enter: "\<And>ptr w. P w \<Longrightarrow> pw_count w < MaxJSONSchemaSubschemas \<Longrightarrow>
      P (w\<lparr>pw_count := Suc (pw_count w), pw_nodes := ptr # pw_nodes w\<rparr>)"
    and edge: "\<And>from to w. P w \<Longrightarrow> from \<in> set (pw_nodes w) \<Longrightarrow> P (addEdge from to w)"
  shows "walkSchema node ptr deep w = Inr w' \<Longrightarrow> P w \<Longrightarrow>
    P w' \<and> ptr \<in> set (pw_nodes w') \<and> set (pw_nodes w) \<subseteq> set (pw_nodes w')"
proof (induction "Suc MaxJSONSchemaDepth - deep" arbitrary: node ptr deep w w' rule: less_induct)
  case less
  let ?w2 = "w\<lparr>pw_count := Suc (pw_count w), pw_nodes := ptr # pw_nodes w\<rparr>"
  let ?I = "\<lambda>v. P v \<and> ptr \<in> set (pw_nodes v) \<and> set (pw_nodes w) \<subseteq> set (pw_nodes v)"
  from less.prems have deep: "deep \<le> MaxJSONSchemaDepth" and cnt: "pw_count w < MaxJSONSchemaSubschemas"
    by (auto simp: walkSchema.simps [of node] Let_def split: if_splits)
  have w2: "?I ?w2" using enter [OF less.prems(2) cnt] by auto
  have step: "?I v'" if "walkSchema item sub (Suc deep) (addEdge ptr sub v) = Inr v'" "?I v" for item sub v v'
  proof -
    have "P (addEdge ptr sub v)" using edge that(2) by simp
    moreover have "Suc MaxJSONSchemaDepth - Suc deep < Suc MaxJSONSchemaDepth - deep" using deep by simp
    ultimately show ?thesis using less.hyps [OF _ that(1)] that(2) by auto
  qed
  show ?case
  proof (cases node)
    case (JObject kvs)
    with less.prems(1) deep cnt
    have "foldE (\<lambda>(name, val) w.
        if name \<in> set excludedKeywords then Inl ExcludedKeyword
        else case map_of allowedKeywords name of
            None \<Rightarrow> Inl UnknownKeyword
          | Some kind \<Rightarrow>
              bindE (if kind = kindData then dataKeyword ptr name val w else Inr w) (\<lambda>w.
              bindE (subschemas kind (ptr @ ''/'' @ escapePointer name) val) (\<lambda>subs.
                foldE (\<lambda>(sub, item) w. walkSchema item sub (Suc deep) (addEdge ptr sub w)) subs w)))
        (sortedMembers kvs) ?w2 = Inr w'"
      by (simp add: walkSchema.simps [of "JObject kvs"] Let_def not_less)
    then show ?thesis
    proof (rule foldE_inv [where I = ?I], goal_cases)
      case 1 show ?case by (rule w2)
    next
      case (2 x s s')
      obtain name val where x: "x = (name, val)" by (cases x)
      from 2(3) [unfolded x] have "\<exists>s1 subs. (s1 = s \<or> dataKeyword ptr name val s = Inr s1) \<and>
        foldE (\<lambda>(sub, item) w. walkSchema item sub (Suc deep) (addEdge ptr sub w)) subs s1 = Inr s'"
        by (auto split: if_splits option.splits)
      then obtain s1 subs where s1: "s1 = s \<or> dataKeyword ptr name val s = Inr s1" and
        subs: "foldE (\<lambda>(sub, item) w. walkSchema item sub (Suc deep) (addEdge ptr sub w)) subs s1 = Inr s'"
        by blast
      from s1 2(2) have "?I s1"
        by (auto dest!: dataKeyword_cases intro: edge)
      with subs show ?case by (rule foldE_inv [where I = ?I]) (use step in \<open>simp split: prod.splits\<close>)
    qed
  qed (use less.prems(1) w2 in \<open>auto dest: walkSchema_leaf\<close>)
qed

definition walkOk :: "profileWalk \<Rightarrow> bool" where
  "walkOk w \<longleftrightarrow> pw_count w = length (pw_nodes w) \<and> pw_count w \<le> MaxJSONSchemaSubschemas \<and>
     (\<forall>n. pw_edges w n \<noteq> [] \<longrightarrow> n \<in> set (pw_nodes w))"

lemma walkSchema_ok: "walkSchema doc [] 1 emptyWalk = Inr w \<Longrightarrow> walkOk w \<and> [] \<in> set (pw_nodes w)"
proof -
  assume walk: "walkSchema doc [] 1 emptyWalk = Inr w"
  have "walkOk w \<and> [] \<in> set (pw_nodes w) \<and> set (pw_nodes emptyWalk) \<subseteq> set (pw_nodes w)"
    by (rule walkSchema_preserves [OF _ _ walk]) (auto simp: walkOk_def emptyWalk_def)
  then show ?thesis by simp
qed


section \<open>The cycle check is exact\<close>

definition applies :: "(string \<Rightarrow> string list) \<Rightarrow> (string \<times> string) set" where
  "applies edges = {(a, b). b \<in> set (edges a)}"

definition cyclic :: "(string \<Rightarrow> string list) \<Rightarrow> bool" where
  "cyclic edges \<longleftrightarrow> (\<exists>n. (n, n) \<in> (applies edges)\<^sup>+)"

text \<open>Black nodes are closed under edges and lie on no cycle.\<close>

definition blackInv :: "(string \<Rightarrow> string list) \<Rightarrow> (string \<Rightarrow> colour) \<Rightarrow> bool" where
  "blackInv edges c \<longleftrightarrow>
     (\<forall>n. c n = Black \<longrightarrow> (\<forall>t \<in> set (edges n). c t = Black) \<and> (n, n) \<notin> (applies edges)\<^sup>+)"

text \<open>A visit leaves what is coloured as it is and turns white nodes black at most.\<close>

definition blackens :: "(string \<Rightarrow> colour) \<Rightarrow> (string \<Rightarrow> colour) \<Rightarrow> bool" where
  "blackens c c' \<longleftrightarrow> (\<forall>n. c' n = c n \<or> c n = White \<and> c' n = Black)"

lemma blackens_refl [simp]: "blackens c c"
  by (simp add: blackens_def)

lemma blackens_trans: "blackens a b \<Longrightarrow> blackens b c \<Longrightarrow> blackens a c"
  unfolding blackens_def by (metis colour.distinct)

lemma blackens_black: "blackens c c' \<Longrightarrow> c n = Black \<Longrightarrow> c' n = Black"
  unfolding blackens_def by (metis colour.distinct)

lemma blackens_grey: "blackens c c' \<Longrightarrow> c' n = Grey \<longleftrightarrow> c n = Grey"
  unfolding blackens_def by (metis colour.distinct)

lemma visitAll_done:
  assumes "visitAll g ts c = Some (Inr c')" "blackInv E c"
    and "\<And>t c c'. t \<in> set ts \<Longrightarrow> g t c = Some (Inr c') \<Longrightarrow> blackInv E c \<Longrightarrow> blackInv E c' \<and> c' t = Black \<and> blackens c c'"
  shows "blackInv E c' \<and> blackens c c' \<and> (\<forall>t \<in> set ts. c' t = Black)"
  using assms
proof (induction ts arbitrary: c)
  case (Cons t ts)
  then obtain c1 where c1: "g t c = Some (Inr c1)" "visitAll g ts c1 = Some (Inr c')"
    by (auto split: option.splits sum.splits)
  from Cons.prems(3) [OF _ c1(1) Cons.prems(2)] have t: "blackInv E c1" "c1 t = Black" "blackens c c1" by auto
  from Cons.IH [OF c1(2) t(1)] Cons.prems(3) have "blackInv E c' \<and> blackens c1 c' \<and> (\<forall>t \<in> set ts. c' t = Black)"
    by auto
  with t show ?case by (auto intro: blackens_trans blackens_black)
qed simp

lemma black_closed: "(a, b) \<in> (applies E)\<^sup>+ \<Longrightarrow> blackInv E c \<Longrightarrow> c a = Black \<Longrightarrow> c b = Black"
  by (induction rule: trancl_induct) (auto simp: blackInv_def applies_def)

lemma visit_done:
  "visit fuel E node c = Some (Inr c') \<Longrightarrow> blackInv E c \<Longrightarrow> blackInv E c' \<and> c' node = Black \<and> blackens c c'"
proof (induction fuel arbitrary: node c c')
  case (Suc fuel)
  show ?case
  proof (cases "c node")
    case White
    let ?g = "c(node := Grey)"
    from Suc.prems(1) White obtain d where
      d: "visitAll (visit fuel E) (sort (E node)) ?g = Some (Inr d)" "c' = d(node := Black)"
      by (cases "visitAll (visit fuel E) (sort (E node)) ?g") (auto simp: map_sum_def split: sum.splits)
    have "blackInv E ?g"
      using Suc.prems(2) White by (auto simp: blackInv_def)
    from visitAll_done [OF d(1) this Suc.IH] have inv: "blackInv E d" "blackens ?g d" "\<forall>t \<in> set (E node). d t = Black"
      by auto
    have grey: "d node = Grey" using blackens_grey [OF inv(2), of node] by simp
    have "(node, node) \<notin> (applies E)\<^sup>+"
    proof
      assume "(node, node) \<in> (applies E)\<^sup>+"
      then obtain t where "t \<in> set (E node)" "t = node \<or> (t, node) \<in> (applies E)\<^sup>+"
        by (auto simp: applies_def dest!: tranclD elim: rtranclE intro: rtrancl_into_trancl1 dest: rtranclD)
      with inv grey black_closed [OF _ inv(1)] show False by fastforce
    qed
    with inv grey have "blackInv E c'" by (auto simp: blackInv_def d(2))
    moreover have "blackens c c'" using inv(2) White by (auto simp: blackens_def d(2) split: if_splits)
    moreover have "c' node = Black" by (simp add: d(2))
    ultimately show ?thesis by blast
  qed (use Suc.prems in auto)
qed simp


lemma visitAll_fails:
  assumes "visitAll g ts c = Some (Inl e)" "P c"
    and "\<And>t c c'. t \<in> set ts \<Longrightarrow> P c \<Longrightarrow> g t c = Some (Inr c') \<Longrightarrow> P c'"
  obtains t d where "t \<in> set ts" "P d" "g t d = Some (Inl e)"
proof -
  have "\<exists>t \<in> set ts. \<exists>d. P d \<and> g t d = Some (Inl e)"
    using assms
  proof (induction ts arbitrary: c)
    case (Cons t ts)
    show ?case
    proof (cases "g t c")
      case (Some r)
      then show ?thesis
      proof (cases r)
        case (Inr d)
        with Some Cons.prems have "visitAll g ts d = Some (Inl e)" "P d" by auto
        from Cons.IH [OF this] Cons.prems(3) show ?thesis by auto
      qed (use Cons.prems in auto)
    qed (use Cons.prems in auto)
  qed simp
  with that show ?thesis by blast
qed

text \<open>The nodes in progress all reach the node being visited, so meeting one closes a cycle.\<close>

lemma visit_cycle:
  "visit fuel E node c = Some (Inl e) \<Longrightarrow> blackInv E c \<Longrightarrow> (\<And>n. c n = Grey \<Longrightarrow> (n, node) \<in> (applies E)\<^sup>+) \<Longrightarrow>
   e = RefCycle \<and> cyclic E"
proof (induction fuel arbitrary: node c)
  case (Suc fuel)
  show ?case
  proof (cases "c node")
    case White
    let ?g = "c(node := Grey)"
    let ?P = "\<lambda>d. blackInv E d \<and> (\<forall>n. d n = Grey \<longleftrightarrow> ?g n = Grey)"
    from Suc.prems(1) White have loop: "visitAll (visit fuel E) (sort (E node)) ?g = Some (Inl e)"
      by (cases "visitAll (visit fuel E) (sort (E node)) ?g") (auto simp: map_sum_def split: sum.splits)
    have "?P ?g" using Suc.prems(2) White by (auto simp: blackInv_def)
    then obtain t d where t: "t \<in> set (sort (E node))" and d: "?P d" and v: "visit fuel E t d = Some (Inl e)"
      using loop visit_done blackens_grey by (elim visitAll_fails [where P = ?P]) blast+
    have edge: "(node, t) \<in> applies E" using t by (simp add: applies_def)
    have "(n, t) \<in> (applies E)\<^sup>+" if "d n = Grey" for n
      using that d edge Suc.prems(3) [of n] by (cases "n = node") (auto intro: trancl_into_trancl)
    with Suc.IH [OF v] d show ?thesis by blast
  qed (use Suc.prems in \<open>auto simp: cyclic_def\<close>)
qed simp

text \<open>One unit of fuel per white node, and one more, is enough.\<close>

definition whites :: "string list \<Rightarrow> (string \<Rightarrow> colour) \<Rightarrow> string set" where
  "whites nodes c = {n \<in> set nodes. c n = White}"

lemma finite_whites [simp]: "finite (whites nodes c)"
  by (simp add: whites_def)

lemma visitAll_total:
  assumes "set ts \<subseteq> N" "P c"
    and "\<And>t c. t \<in> N \<Longrightarrow> P c \<Longrightarrow> g t c \<noteq> None"
    and "\<And>t c c'. t \<in> N \<Longrightarrow> P c \<Longrightarrow> g t c = Some (Inr c') \<Longrightarrow> P c'"
  shows "visitAll g ts c \<noteq> None"
  using assms(1,2)
proof (induction ts arbitrary: c)
  case (Cons t ts)
  then obtain r where r: "g t c = Some r" using assms(3) [of t c] by auto
  show ?case
  proof (cases r)
    case (Inr d)
    then have "P d" using assms(4) [of t c d] r Cons.prems by simp
    with Cons r Inr show ?thesis by simp
  qed (simp add: r)
qed simp

lemma blackens_whites: "blackens c c' \<Longrightarrow> whites nodes c' \<subseteq> whites nodes c"
  unfolding whites_def blackens_def by (auto, metis colour.distinct(3))

lemma blackens_card: "blackens c c' \<Longrightarrow> card (whites nodes c') \<le> card (whites nodes c)"
  by (intro card_mono finite_whites blackens_whites)

lemma visit_total:
  assumes closed: "\<And>n. set (E n) \<subseteq> set nodes"
  shows "card (whites nodes c) < fuel \<Longrightarrow> node \<in> set nodes \<Longrightarrow> blackInv E c \<Longrightarrow> visit fuel E node c \<noteq> None"
proof (induction fuel arbitrary: node c)
  case (Suc fuel)
  show ?case
  proof (cases "c node")
    case White
    let ?g = "c(node := Grey)"
    let ?P = "\<lambda>d. blackInv E d \<and> card (whites nodes d) < fuel"
    have "whites nodes c = insert node (whites nodes ?g)" "node \<notin> whites nodes ?g"
      using White Suc.prems(2) by (auto simp: whites_def)
    then have "card (whites nodes ?g) < fuel" using Suc.prems(1) by simp
    moreover have "blackInv E ?g" using Suc.prems(3) White by (auto simp: blackInv_def)
    ultimately have "visitAll (visit fuel E) (sort (E node)) ?g \<noteq> None"
    proof (intro visitAll_total [where P = ?P and N = "set nodes"])
      fix t d d' assume "?P d" "visit fuel E t d = Some (Inr d')"
      with visit_done [of fuel E t d d'] show "?P d'"
        using blackens_card [of d d' nodes] by auto
    qed (use Suc.IH closed in auto)
    with White show ?thesis by auto
  qed auto
qed simp

lemma checkAcyclic_exact:
  assumes ok: "walkOk w" and refs: "refsResolve w"
  shows "if cyclic (pw_edges w) then checkAcyclic w = Some (Inl RefCycle) else \<exists>c. checkAcyclic w = Some (Inr c)"
proof -
  let ?E = "pw_edges w" and ?N = "pw_nodes w"
  let ?P = "\<lambda>c. blackInv ?E c \<and> (\<forall>n. c n \<noteq> Grey) \<and> card (whites ?N c) < Suc (length ?N)"
  have closed: "set (?E n) \<subseteq> set ?N" for n
    using ok refs by (cases "?E n = []") (auto simp: walkOk_def refsResolve_def list_all_iff)
  have start: "?P (\<lambda>_. White)"
    using card_length [of ?N] by (simp add: blackInv_def whites_def)
  define v where "v = visit (Suc (length ?N)) ?E"
  have check: "checkAcyclic w = visitAll v (sort ?N) (\<lambda>_. White)" by (simp only: checkAcyclic_def v_def)
  have v_done: "blackInv ?E c' \<and> c' t = Black \<and> blackens c c'" if "v t c = Some (Inr c')" "blackInv ?E c" for t c c'
    using visit_done that unfolding v_def by blast
  have keep: "?P c'" if "?P c" "v t c = Some (Inr c')" for t c c'
  proof -
    from v_done [OF that(2)] that(1) have "blackInv ?E c'" and b: "blackens c c'" by blast+
    with that(1) blackens_card [OF b, of ?N] show ?thesis by (simp add: blackens_grey [OF b])
  qed
  have total: "checkAcyclic w \<noteq> None"
    unfolding check
  proof (rule visitAll_total [where P = ?P and N = "set ?N"])
    fix t c assume "t \<in> set ?N" "?P c"
    with visit_total [of ?E ?N c "Suc (length ?N)" t, OF closed] show "v t c \<noteq> None" unfolding v_def by blast
  qed (simp, rule start, rule keep)
  have cycle: "cyclic ?E \<and> e = RefCycle" if "checkAcyclic w = Some (Inl e)" for e
  proof (rule visitAll_fails [OF that [unfolded check], where P = ?P])
    fix t c assume "?P c" "v t c = Some (Inl e)"
    with visit_cycle [of "Suc (length ?N)" ?E t c e] show ?thesis unfolding v_def by blast
  qed (rule start, rule keep)
  have acyclic: "\<not> cyclic ?E" if finished: "checkAcyclic w = Some (Inr c)" for c
  proof
    assume "cyclic ?E"
    then obtain n where n: "(n, n) \<in> (applies ?E)\<^sup>+" by (auto simp: cyclic_def)
    then have "?E n \<noteq> []" by (auto simp: applies_def dest: tranclD)
    then have "n \<in> set ?N" using ok by (simp add: walkOk_def)
    moreover have "blackInv ?E c \<and> blackens (\<lambda>_. White) c \<and> (\<forall>t \<in> set (sort ?N). c t = Black)"
      by (rule visitAll_done [OF finished [unfolded check]]) (use start in blast, rule v_done)
    ultimately show False using n by (auto simp: blackInv_def)
  qed
  from total obtain r where r: "checkAcyclic w = Some r" by auto
  show ?thesis
  proof (cases r)
    case (Inl e)
    with r cycle [of e] show ?thesis by simp
  next
    case (Inr c)
    with r acyclic [of c] show ?thesis by simp
  qed
qed


section \<open>The path count is exact\<close>

text \<open>
  How often a subschema is entered when a node is applied once: once for itself, plus what each
  application below it enters, a \<^verbatim>\<open>$ref\<close> counted at every place it stands.
\<close>

inductive evalPaths :: "(string \<Rightarrow> string list) \<Rightarrow> string \<Rightarrow> nat \<Rightarrow> bool" for edges where
  "list_all2 (evalPaths edges) (edges node) ks \<Longrightarrow> evalPaths edges node (Suc (sum_list ks))"

lemma evalPaths_unique: "evalPaths E n k \<Longrightarrow> evalPaths E n k' \<Longrightarrow> k = k'"
proof (induction arbitrary: k' rule: evalPaths.induct)
  case (1 node ks)
  from 1(2) obtain ks' where ks': "k' = Suc (sum_list ks')" "list_all2 (evalPaths E) (E node) ks'"
    by (auto elim: evalPaths.cases)
  have "ks = ks'"
  proof (rule nth_equalityI)
    show "length ks = length ks'" using 1(1) ks'(2) by (auto dest!: list_all2_lengthD)
  next
    fix i assume "i < length ks"
    then show "ks ! i = ks' ! i" using 1(1) ks'(2) by (auto simp: list_all2_conv_all_nth)
  qed
  with ks' show ?case by simp
qed

lemma evalPaths_exists:
  assumes "wf ((applies E)\<inverse>)"
  shows "\<exists>k. evalPaths E n k"
  using assms
proof (induction n rule: wf_induct_rule)
  case (less n)
  then have "\<forall>c \<in> set (E n). \<exists>k. evalPaths E c k" by (simp add: applies_def)
  then obtain f where "\<forall>c \<in> set (E n). evalPaths E c (f c)" by metis
  then have "list_all2 (evalPaths E) (E n) (map f (E n))"
    by (simp add: list_all2_conv_all_nth)
  then show ?case by (blast intro: evalPaths.intros)
qed

text \<open>A memo entry is the path count of its node, cut at one above the limit.\<close>

definition capped :: "(string \<Rightarrow> string list) \<Rightarrow> nat \<Rightarrow> string \<Rightarrow> nat \<Rightarrow> bool" where
  "capped E limit n v \<longleftrightarrow> (\<exists>k. evalPaths E n k \<and> v = min k (limit + 1))"

definition memoOk :: "(string \<Rightarrow> string list) \<Rightarrow> nat \<Rightarrow> (string \<rightharpoonup> nat) \<Rightarrow> bool" where
  "memoOk E limit memo \<longleftrightarrow> (\<forall>n v. memo n = Some v \<longrightarrow> capped E limit n v)"

lemma sumChildren_exact:
  assumes "sumChildren g limit cs acc memo = Some (v, memo')" "memoOk E limit memo" "acc \<le> limit"
    and "\<And>c memo n memo'. c \<in> set cs \<Longrightarrow> g c memo = Some (n, memo') \<Longrightarrow> memoOk E limit memo \<Longrightarrow>
           capped E limit c n \<and> memoOk E limit memo'"
    and "list_all2 (evalPaths E) cs ks"
  shows "v = min (acc + sum_list ks) (limit + 1) \<and> memoOk E limit memo'"
  using assms
proof (induction cs arbitrary: acc memo ks)
  case (Cons c cs)
  from Cons.prems(5) obtain k ks' where ks: "ks = k # ks'" "evalPaths E c k" "list_all2 (evalPaths E) cs ks'"
    by (auto simp: list_all2_Cons1)
  from Cons.prems(1) obtain n memo1 where g: "g c memo = Some (n, memo1)" by (auto split: option.splits)
  with Cons.prems(2,4) have "capped E limit c n" "memoOk E limit memo1" by auto
  then have n: "n = min k (limit + 1)" using ks(2) by (auto simp: capped_def dest: evalPaths_unique)
  show ?case
  proof (cases "limit < acc + n")
    case True
    with Cons.prems(1) g n \<open>memoOk E limit memo1\<close> show ?thesis by (auto simp: ks min_def)
  next
    case False
    with Cons.prems(1) g have "sumChildren g limit cs (acc + n) memo1 = Some (v, memo')" by simp
    then have "v = min (acc + n + sum_list ks') (limit + 1) \<and> memoOk E limit memo'"
      by (rule Cons.IH) (use False \<open>memoOk E limit memo1\<close> ks(3) Cons.prems(4) in \<open>auto simp: not_less\<close>)
    with False n show ?thesis by (auto simp: ks min_def split: if_splits)
  qed
qed simp

lemma countPaths_exact:
  assumes ex: "\<And>n. \<exists>k. evalPaths E n k" and limit: "1 \<le> limit"
  shows "countPaths fuel E limit node memo = Some (v, memo') \<Longrightarrow> memoOk E limit memo \<Longrightarrow>
    capped E limit node v \<and> memoOk E limit memo'"
proof (induction fuel arbitrary: node memo v memo')
  case (Suc fuel)
  show ?case
  proof (cases "memo node")
    case None
    with Suc.prems(1) obtain m where
      m: "sumChildren (countPaths fuel E limit) limit (E node) 1 memo = Some (v, m)" "memo' = m(node \<mapsto> v)"
      by (auto split: prod.splits)
    from ex [of node] obtain ks where ks: "list_all2 (evalPaths E) (E node) ks"
      by (auto elim: evalPaths.cases)
    from sumChildren_exact [OF m(1) Suc.prems(2) limit Suc.IH ks]
    have "v = min (1 + sum_list ks) (limit + 1)" "memoOk E limit m" by auto
    with evalPaths.intros [OF ks] show ?thesis by (auto simp: m(2) memoOk_def capped_def)
  qed (use Suc.prems in \<open>auto simp: memoOk_def\<close>)
qed simp

definition below :: "(string \<Rightarrow> string list) \<Rightarrow> string \<Rightarrow> string set" where
  "below E n = {m. (n, m) \<in> (applies E)\<^sup>+}"

lemma sumChildren_total: "(\<And>c memo. c \<in> set cs \<Longrightarrow> g c memo \<noteq> None) \<Longrightarrow> sumChildren g limit cs acc memo \<noteq> None"
proof (induction cs arbitrary: acc memo)
  case (Cons c cs)
  from Cons.prems [of c memo] obtain n memo1 where "g c memo = Some (n, memo1)" by auto
  with Cons.IH [of "acc + n" memo1] Cons.prems show ?case by auto
qed simp

lemma countPaths_total:
  assumes fin: "\<And>n. finite (below E n)" and acyclic: "\<not> cyclic E"
  shows "card (below E node) < fuel \<Longrightarrow> countPaths fuel E limit node memo \<noteq> None"
proof (induction fuel arbitrary: node memo)
  case (Suc fuel)
  have "countPaths fuel E limit c memo' \<noteq> None" if "c \<in> set (E node)" for c memo'
  proof (rule Suc.IH)
    have c: "(node, c) \<in> applies E" using that by (simp add: applies_def)
    then have "below E c \<subseteq> below E node" "c \<in> below E node" "c \<notin> below E c"
      using acyclic by (auto simp: below_def cyclic_def)
    then have "below E c \<subset> below E node" by auto
    then have "card (below E c) < card (below E node)" by (rule psubset_card_mono [OF fin])
    with Suc.prems show "card (below E c) < fuel" by simp
  qed
  then have "sumChildren (countPaths fuel E limit) limit (E node) 1 memo \<noteq> None" by (rule sumChildren_total)
  then show ?case by (auto split: option.splits)
qed simp


lemma walk_graph:
  assumes ok: "walkOk w" and refs: "refsResolve w" and acyclic: "\<not> cyclic (pw_edges w)"
  shows "wf ((applies (pw_edges w))\<inverse>)" "finite (below (pw_edges w) n)" "card (below (pw_edges w) n) \<le> length (pw_nodes w)"
proof -
  let ?E = "pw_edges w" and ?N = "set (pw_nodes w)"
  have R: "applies ?E \<subseteq> ?N \<times> ?N"
    using ok refs by (force simp: applies_def walkOk_def refsResolve_def list_all_iff)
  then have "finite (applies ?E)" by (rule finite_subset) simp
  moreover from acyclic have "acyclic (applies ?E)" by (simp add: acyclic_def cyclic_def)
  ultimately show "wf ((applies ?E)\<inverse>)" by (rule finite_acyclic_wf_converse)
  have below: "below ?E n \<subseteq> ?N"
    using R trancl_subset_Sigma [of "applies ?E" ?N] by (force simp: below_def)
  then show "finite (below ?E n)" by (rule finite_subset) simp
  have "card (below ?E n) \<le> card ?N" using below by (rule card_mono [rotated]) simp
  with card_length [of "pw_nodes w"] show "card (below ?E n) \<le> length (pw_nodes w)" by simp
qed

lemma checkWorkBudget_exact:
  assumes ok: "walkOk w" and refs: "refsResolve w" and acyclic: "\<not> cyclic (pw_edges w)"
  shows "\<exists>k. evalPaths (pw_edges w) [] k \<and>
    checkWorkBudget w = Some (if k \<le> MaxJSONSchemaSubschemas then Inr () else Inl WorkBudget)"
proof -
  let ?E = "pw_edges w" and ?fuel = "Suc (length (pw_nodes w))"
  note graph = walk_graph [OF assms]
  have "card (below ?E []) < ?fuel" using graph(3) [of "[]"] by simp
  then have "countPaths ?fuel ?E 256 [] Map.empty \<noteq> None" by (rule countPaths_total [OF graph(2) acyclic])
  then obtain v m where v: "countPaths ?fuel ?E 256 [] Map.empty = Some (v, m)" by auto
  have "capped ?E 256 [] v"
    using countPaths_exact [OF evalPaths_exists [OF graph(1)] _ v] by (simp add: memoOk_def)
  then obtain k where "evalPaths ?E [] k" "v = min k 257" by (auto simp: capped_def)
  with v show ?thesis
    by (intro exI [of _ k]) (auto simp: checkWorkBudget_def expandedPaths_def MaxJSONSchemaSubschemas_def pathLimit_def simp del: countPaths.simps)
qed

lemma checkProfile_decides:
  "case walkSchema doc [] 1 emptyWalk of
     Inl e \<Rightarrow> checkProfile doc = Some (Inl e)
   | Inr w \<Rightarrow>
       checkProfile doc =
         Some (if \<not> refsResolve w then Inl RefUnresolved
               else if cyclic (pw_edges w) then Inl RefCycle
               else if \<exists>k \<le> MaxJSONSchemaSubschemas. evalPaths (pw_edges w) [] k then Inr w
               else Inl WorkBudget)"
proof (cases "walkSchema doc [] 1 emptyWalk")
  case (Inr w)
  note ok = walkSchema_ok [OF Inr]
  show ?thesis
  proof (cases "refsResolve w")
    case True
    note acyc = checkAcyclic_exact [OF conjunct1 [OF ok] True]
    show ?thesis
    proof (cases "cyclic (pw_edges w)")
      case False
      from checkWorkBudget_exact [OF conjunct1 [OF ok] True False] obtain k where
        k: "evalPaths (pw_edges w) [] k"
        "checkWorkBudget w = Some (if k \<le> MaxJSONSchemaSubschemas then Inr () else Inl WorkBudget)" by blast
      have "(\<exists>k \<le> MaxJSONSchemaSubschemas. evalPaths (pw_edges w) [] k) \<longleftrightarrow> k \<le> MaxJSONSchemaSubschemas"
        using evalPaths_unique [OF k(1)] k(1) by blast
      with acyc False True Inr k(2) show ?thesis by (auto simp: checkProfile_def)
    qed (use acyc True Inr in \<open>auto simp: checkProfile_def\<close>)
  qed (use Inr in \<open>simp add: checkProfile_def\<close>)
qed (simp add: checkProfile_def)


section \<open>Properties\<close>

text \<open>
  C12. The profile check always answers, and its answer is exact: after the structural walk it refuses
  a document for an unresolved reference, then for a cycle exactly when the application graph has
  one, then for its work exactly when the evaluation paths from the root exceed the budget; the
  bounded recursion of the cycle check and of the path count never runs dry.
\<close>
theorem checkProfile_terminates_exactly:
  "checkProfile doc = Some (case walkSchema doc [] 1 emptyWalk of
     Inl e \<Rightarrow> Inl e
   | Inr w \<Rightarrow>
       (if \<not> refsResolve w then Inl RefUnresolved
        else if cyclic (pw_edges w) then Inl RefCycle
        else if \<exists>k \<le> MaxJSONSchemaSubschemas. evalPaths (pw_edges w) [] k then Inr w
        else Inl WorkBudget))"
  using checkProfile_decides [of doc] by (auto split: sum.splits)

text \<open>
  C11. The step cap holds: for an accepted schema the number of subschema entries one evaluation makes
  is defined, counts every reuse of a reference, and times the largest validated instance stays
  within the evaluation work budget; the document has at most as many subschemas.
\<close>
theorem accepted_work_bounded:
  assumes "checkProfile doc = Some (Inr w)"
  shows "\<exists>k. (\<forall>k'. evalPaths (pw_edges w) [] k' \<longleftrightarrow> k' = k) \<and>
    k * MaxValidatedInstanceBytes \<le> MaxEvaluationWork \<and>
    pw_count w = length (pw_nodes w) \<and> pw_count w * MaxValidatedInstanceBytes \<le> MaxEvaluationWork"
proof -
  from assms checkProfile_decides [of doc] obtain k where
    w: "walkSchema doc [] 1 emptyWalk = Inr w" "evalPaths (pw_edges w) [] k" "k \<le> MaxJSONSchemaSubschemas"
    by (auto split: sum.splits if_splits)
  have "evalPaths (pw_edges w) [] k' \<longleftrightarrow> k' = k" for k'
    using w(2) evalPaths_unique [OF w(2)] by blast
  moreover have "k * MaxValidatedInstanceBytes \<le> MaxEvaluationWork"
    using w(3) by (simp add: MaxJSONSchemaSubschemas_def)
  moreover have "pw_count w = length (pw_nodes w)" "pw_count w * MaxValidatedInstanceBytes \<le> MaxEvaluationWork"
    using walkSchema_ok [OF w(1)] by (simp_all add: walkOk_def MaxJSONSchemaSubschemas_def)
  ultimately show ?thesis by blast
qed

definition sharedSchema :: json where
  "sharedSchema = JObject
    [(''$defs'', JObject [(''x'', JObject [(''type'', JString ''string'')])]),
     (''allOf'', JArray [JObject [(''$ref'', JString ''#/$defs/x'')], JObject [(''$ref'', JString ''#/$defs/x'')]])]"

theorem accepted_work_bounded_witness:
  "\<exists>w k. checkProfile sharedSchema = Some (Inr w) \<and> pw_count w = 4 \<and> evalPaths (pw_edges w) [] k \<and>
     k * MaxValidatedInstanceBytes \<le> MaxEvaluationWork"
proof -
  have "case checkProfile sharedSchema of Some (Inr w) \<Rightarrow> pw_count w = 4 | _ \<Rightarrow> False" by code_simp
  then obtain w where w: "checkProfile sharedSchema = Some (Inr w)" "pw_count w = 4"
    by (auto split: option.splits sum.splits)
  from accepted_work_bounded [OF w(1)] w show ?thesis by blast
qed

end
