(* ===== verification/KeySchema.thy ===== *)
theory KeySchema
  imports GoStrings JsonSchema
begin

text \<open>
  Key declarations (\<^verbatim>\<open>internal/schema\<close>: \<^verbatim>\<open>schema.go\<close>, \<^verbatim>\<open>presence.go\<close>, \<^verbatim>\<open>classification.go\<close> and
  \<^verbatim>\<open>declare.go\<close>): the name and description grammars, presence rules, the declared rules with their
  normal form, the classification boundary and compilation. The libraries the engine calls are
  parameters: \<open>lib_parse\<close> is the JSON decoder as a syntax tree that keeps repeated members,
  \<open>lib_marshal\<close> the encoder, \<open>lib_regexp\<close> the RE2 compiler, \<open>lib_lower\<close> the Unicode lower-casing of
  a text that is not ASCII, and \<open>lib_schema\<close> the JSON Schema compiler. The results: the token-stack
  scan for repeated members is exact, a presence pair is accepted exactly when no environment is
  both required and forbidden, and a compiled secret declaration holds no value literal.
\<close>

section \<open>Names and descriptions\<close>

abbreviation MaxKeyNameBytes :: nat where "MaxKeyNameBytes \<equiv> 128"
abbreviation MaxDescriptionBytes :: nat where "MaxDescriptionBytes \<equiv> 4096"
abbreviation MaxEnumMembers :: nat where "MaxEnumMembers \<equiv> 256"
abbreviation MaxEnumMemberBytes :: nat where "MaxEnumMemberBytes \<equiv> 512"
abbreviation MaxPatternBytes :: nat where "MaxPatternBytes \<equiv> 512"
abbreviation MaxAnyOfAlternatives :: nat where "MaxAnyOfAlternatives \<equiv> 8"

text \<open>Every refusal wraps the one sentinel; the text names the branch.\<close>

datatype decl_error = ErrInvalidDeclaration string

abbreviation declErr :: "string \<Rightarrow> decl_error + 'a" where "declErr why \<equiv> Inl (ErrInvalidDeclaration why)"

definition isUpper :: "char \<Rightarrow> bool" where
  "isUpper c \<longleftrightarrow> 65 \<le> byte c \<and> byte c \<le> 90"

text \<open>\<^verbatim>\<open>\A[A-Z_][A-Z0-9_]*\z\<close>\<close>

definition keyNameRe :: "string \<Rightarrow> bool" where
  "keyNameRe s = (case s of
     [] \<Rightarrow> False
   | c # cs \<Rightarrow> (isUpper c \<or> c = CHR ''_'') \<and> list_all (\<lambda>d. isUpper d \<or> is_digit d \<or> d = CHR ''_'') cs)"

definition CheckKeyName :: "string \<Rightarrow> decl_error + unit" where
  "CheckKeyName name =
    (if name = [] then declErr ''key name empty''
     else if MaxKeyNameBytes < length name then declErr ''key name bytes''
     else if \<not> keyNameRe name then declErr ''key name grammar''
     else Inr ())"

definition NUL :: char where "NUL = char_of (0 :: nat)"

definition CheckGroupName :: "string \<Rightarrow> decl_error + unit" where
  "CheckGroupName name =
    (if name = [] then declErr ''group name empty''
     else if MaxKeyNameBytes < length name then declErr ''group name bytes''
     else if TrimSpace name \<noteq> name then declErr ''group name whitespace''
     else if \<not> validUTF8 name then declErr ''group name utf8''
     else if NUL \<in> set name then declErr ''group name nul''
     else Inr ())"

definition CheckDescription :: "string \<Rightarrow> decl_error + unit" where
  "CheckDescription s =
    (if MaxDescriptionBytes < length s then declErr ''description bytes''
     else if \<not> validUTF8 s then declErr ''description utf8''
     else if NUL \<in> set s then declErr ''description nul''
     else Inr ())"


section \<open>Presence\<close>

type_synonym PresenceMode = string

abbreviation PresenceNone :: PresenceMode where "PresenceNone \<equiv> ''none''"
abbreviation PresenceAll :: PresenceMode where "PresenceAll \<equiv> ''all''"
abbreviation PresenceExplicit :: PresenceMode where "PresenceExplicit \<equiv> ''explicit''"

record Presence =
  ps_Mode :: PresenceMode
  ps_Environments :: "string list"

record PresenceRules =
  pr_Required :: Presence
  pr_Forbidden :: Presence

definition DefaultPresenceRules :: PresenceRules where
  "DefaultPresenceRules =
    \<lparr>pr_Required = \<lparr>ps_Mode = PresenceNone, ps_Environments = []\<rparr>,
     pr_Forbidden = \<lparr>ps_Mode = PresenceNone, ps_Environments = []\<rparr>\<rparr>"

fun presenceIDs :: "string list \<Rightarrow> string list \<Rightarrow> decl_error + unit" where
  "presenceIDs seen [] = Inr ()"
| "presenceIDs seen (id' # ids) =
    (if id' = [] then declErr ''presence empty id''
     else if id' \<in> set seen then declErr ''presence repeated id''
     else presenceIDs (id' # seen) ids)"

definition checkPresenceShape :: "Presence \<Rightarrow> decl_error + unit" where
  "checkPresenceShape p =
    (if ps_Mode p = PresenceNone \<or> ps_Mode p = PresenceAll then
       (if ps_Environments p \<noteq> [] then declErr ''presence ids without explicit'' else Inr ())
     else if ps_Mode p = PresenceExplicit then
       (if ps_Environments p = [] then declErr ''presence explicit without ids''
        else presenceIDs [] (ps_Environments p))
     else declErr ''presence mode'')"

text \<open>The environments the two rules both name, or \<open>None\<close> for the symbolic overlap of \<^verbatim>\<open>all\<close>.\<close>

definition presenceOverlap :: "Presence \<Rightarrow> Presence \<Rightarrow> bool" where
  "presenceOverlap req forb =
    (if ps_Mode req = PresenceNone \<or> ps_Mode forb = PresenceNone then False
     else if ps_Mode req = PresenceAll \<or> ps_Mode forb = PresenceAll then True
     else filter (\<lambda>id'. id' \<in> set (ps_Environments req)) (ps_Environments forb) \<noteq> [])"

definition CheckPresence :: "Presence \<Rightarrow> Presence \<Rightarrow> decl_error + unit" where
  "CheckPresence req forb =
    bindE (checkPresenceShape req) (\<lambda>_.
    bindE (checkPresenceShape forb) (\<lambda>_.
    if presenceOverlap req forb then declErr ''presence conflict'' else Inr ()))"

definition PresenceCovers :: "Presence \<Rightarrow> string \<Rightarrow> bool" where
  "PresenceCovers p envID =
    (if ps_Mode p = PresenceAll then True
     else if ps_Mode p = PresenceExplicit then envID \<in> set (ps_Environments p)
     else False)"

definition CheckGroupPresence :: "PresenceRules \<Rightarrow> PresenceRules \<Rightarrow> decl_error + unit" where
  "CheckGroupPresence a b =
    (if presenceOverlap (pr_Required a) (pr_Forbidden b) \<or> presenceOverlap (pr_Required b) (pr_Forbidden a)
     then declErr ''group presence conflict'' else Inr ())"


section \<open>Declarations\<close>

type_synonym Classification = string

abbreviation Config :: Classification where "Config \<equiv> ''config''"
abbreviation Secret :: Classification where "Secret \<equiv> ''secret''"

definition ClassificationValid :: "Classification \<Rightarrow> bool" where
  "ClassificationValid c \<longleftrightarrow> c = Config \<or> c = Secret"

type_synonym SchemaType = string

abbreviation TypeString :: SchemaType where "TypeString \<equiv> ''string''"
abbreviation TypeInteger :: SchemaType where "TypeInteger \<equiv> ''integer''"
abbreviation TypeBoolean :: SchemaType where "TypeBoolean \<equiv> ''boolean''"
abbreviation TypeEnum :: SchemaType where "TypeEnum \<equiv> ''enum''"
abbreviation TypeURL :: SchemaType where "TypeURL \<equiv> ''url''"
abbreviation TypeJSON :: SchemaType where "TypeJSON \<equiv> ''json''"

fun joinBar :: "string list \<Rightarrow> string" where
  "joinBar [] = []"
| "joinBar [x] = x"
| "joinBar (x # xs) = x @ ''|'' @ joinBar xs"

definition TypeExpression :: "SchemaType list \<Rightarrow> string" where
  "TypeExpression types =
    (case types of [] \<Rightarrow> [] | [t] \<Rightarrow> t | _ \<Rightarrow> ''any_of('' @ joinBar types @ '')'')"

record SchemaRule =
  ru_Type :: SchemaType
  ru_MinLength :: "int option"
  ru_MaxLength :: "int option"
  ru_Pattern :: string
  ru_AllowEmpty :: bool
  ru_Min :: "int option"
  ru_Max :: "int option"
  ru_Members :: "string list"
  ru_Schemes :: "string list"
  ru_JSONSchema :: string

record Declaration =
  dc_Rule :: "SchemaRule option"
  dc_AnyOf :: "SchemaRule list"

definition alternatives :: "Declaration \<Rightarrow> SchemaRule list" where
  "alternatives d = (case dc_Rule d of Some r \<Rightarrow> [r] | None \<Rightarrow> dc_AnyOf d)"

record 's library =
  lib_parse :: "string \<Rightarrow> json option"
  lib_marshal :: "json \<Rightarrow> string"
  lib_marshalDeclaration :: "Declaration \<Rightarrow> string"
  lib_regexp :: "string \<Rightarrow> (string \<Rightarrow> bool) option"
  lib_lower :: "string \<Rightarrow> string"
  lib_schema :: "json \<Rightarrow> 's option"

text \<open>\<^verbatim>\<open>strings.ToLower\<close>: an ASCII text byte by byte.\<close>

definition lowerByte :: "char \<Rightarrow> char" where
  "lowerByte c = (if isUpper c then char_of (byte c + 32) else c)"

definition ToLower :: "('s, 'm) library_scheme \<Rightarrow> string \<Rightarrow> string" where
  "ToLower lib s = (if list_all (\<lambda>c. byte c < 128) s then map lowerByte s else lib_lower lib s)"


section \<open>Strict JSON\<close>

text \<open>The token stream of a decoded document (\<^verbatim>\<open>json.Decoder.Token\<close>).\<close>

datatype token = Delim char | StringToken string | ScalarToken

fun tokensOf :: "json \<Rightarrow> token list" where
  "tokensOf JNull = [ScalarToken]"
| "tokensOf (JBool _) = [ScalarToken]"
| "tokensOf (JNumber _) = [ScalarToken]"
| "tokensOf (JString s) = [StringToken s]"
| "tokensOf (JArray xs) = Delim CHR ''['' # concat (map tokensOf xs) @ [Delim CHR '']'']"
| "tokensOf (JObject kvs) =
    Delim CHR ''{'' # concat (map (\<lambda>(k, v). StringToken k # tokensOf v) kvs) @ [Delim CHR ''}'']"

record frame =
  fr_object :: bool
  fr_seen :: "string list"
  fr_expectKey :: bool

datatype json_error = JsonParse | KeyNotString | DuplicateKey

definition fillSlot :: "frame list \<Rightarrow> frame list" where
  "fillSlot stack =
    (case stack of [] \<Rightarrow> [] | f # fs \<Rightarrow> (if fr_object f then f\<lparr>fr_expectKey := True\<rparr> else f) # fs)"

fun checkNoDuplicateKeys :: "token list \<Rightarrow> frame list \<Rightarrow> json_error + unit" where
  "checkNoDuplicateKeys [] stack = Inr ()"
| "checkNoDuplicateKeys (Delim d # toks) stack =
    (if d = CHR ''{'' then
       checkNoDuplicateKeys toks (\<lparr>fr_object = True, fr_seen = [], fr_expectKey = True\<rparr> # fillSlot stack)
     else if d = CHR ''['' then
       checkNoDuplicateKeys toks (\<lparr>fr_object = False, fr_seen = [], fr_expectKey = False\<rparr> # fillSlot stack)
     else checkNoDuplicateKeys toks (tl stack))"
| "checkNoDuplicateKeys (tok # toks) stack =
    (case stack of
       f # fs \<Rightarrow>
         if fr_object f \<and> fr_expectKey f then
           (case tok of
              StringToken name \<Rightarrow>
                if name \<in> set (fr_seen f) then Inl DuplicateKey
                else checkNoDuplicateKeys toks (f\<lparr>fr_seen := name # fr_seen f, fr_expectKey := False\<rparr> # fs)
            | _ \<Rightarrow> Inl KeyNotString)
         else checkNoDuplicateKeys toks (fillSlot stack)
     | [] \<Rightarrow> checkNoDuplicateKeys toks (fillSlot stack))"

definition strictJSON :: "('s, 'm) library_scheme \<Rightarrow> string \<Rightarrow> json_error + json" where
  "strictJSON lib raw =
    (case lib_parse lib raw of
       None \<Rightarrow> Inl JsonParse
     | Some doc \<Rightarrow> bindE (checkNoDuplicateKeys (tokensOf doc) []) (\<lambda>_. Inr doc))"


section \<open>The normal form\<close>

fun mapE :: "('a \<Rightarrow> 'e + 'b) \<Rightarrow> 'a list \<Rightarrow> 'e + 'b list" where
  "mapE f [] = Inr []"
| "mapE f (x # xs) = bindE (f x) (\<lambda>y. bindE (mapE f xs) (\<lambda>ys. Inr (y # ys)))"

definition normRule :: "('s, 'm) library_scheme \<Rightarrow> SchemaRule \<Rightarrow> decl_error + SchemaRule" where
  "normRule lib r =
    (let r' = r\<lparr>ru_Members := map TrimSpace (ru_Members r), ru_Schemes := map (\<lambda>s. ToLower lib (TrimSpace s)) (ru_Schemes r)\<rparr> in
     if ru_JSONSchema r = [] then Inr r'
     else if MaxJSONSchemaBytes < length (ru_JSONSchema r) then declErr ''json_schema bytes''
     else
       case strictJSON lib (ru_JSONSchema r) of
         Inl _ \<Rightarrow> declErr ''json_schema parse''
       | Inr doc \<Rightarrow> Inr (r'\<lparr>ru_JSONSchema := lib_marshal lib doc\<rparr>))"

definition normalize :: "('s, 'm) library_scheme \<Rightarrow> Declaration \<Rightarrow> decl_error + Declaration" where
  "normalize lib d =
    bindE (case dc_Rule d of None \<Rightarrow> Inr None | Some r \<Rightarrow> bindE (normRule lib r) (\<lambda>r'. Inr (Some r'))) (\<lambda>rule.
    bindE (mapE (normRule lib) (dc_AnyOf d)) (\<lambda>anyOf. Inr \<lparr>dc_Rule = rule, dc_AnyOf = anyOf\<rparr>))"

definition Canonical :: "('s, 'm) library_scheme \<Rightarrow> Declaration \<Rightarrow> decl_error + string" where
  "Canonical lib d = bindE (normalize lib d) (\<lambda>n. Inr (lib_marshalDeclaration lib n))"

definition ValueDependentChange :: "('s, 'm) library_scheme \<Rightarrow> Declaration \<Rightarrow> Declaration \<Rightarrow> bool" where
  "ValueDependentChange lib before after =
    (case (Canonical lib before, Canonical lib after) of
       (Inr a, Inr b) \<Rightarrow> a \<noteq> b
     | _ \<Rightarrow> True)"

definition normalizeForCompile :: "('s, 'm) library_scheme \<Rightarrow> Declaration \<Rightarrow> decl_error + Declaration" where
  "normalizeForCompile lib d =
    (if (dc_Rule d = None) = (dc_AnyOf d = []) then declErr ''exactly one of rule and any_of''
     else if dc_Rule d = None \<and> length (dc_AnyOf d) < 2 then declErr ''any_of alternatives''
     else if MaxAnyOfAlternatives < length (dc_AnyOf d) then declErr ''any_of too many alternatives''
     else normalize lib d)"

definition normalizeForCompilation ::
  "('s, 'm) library_scheme \<Rightarrow> Classification \<Rightarrow> Declaration \<Rightarrow> decl_error + Declaration" where
  "normalizeForCompilation lib classification d =
    (if \<not> ClassificationValid classification then declErr ''classification'' else normalizeForCompile lib d)"


section \<open>The classification boundary\<close>

definition literalKeywords :: "string list" where
  "literalKeywords = [''const'', ''enum'', ''examples'']"

fun firstSome :: "'a option list \<Rightarrow> 'a option" where
  "firstSome [] = None"
| "firstSome (x # xs) = (case x of Some y \<Rightarrow> Some y | None \<Rightarrow> firstSome xs)"

lemma sortedMembers_size:
  "(k, v) \<in> set (sortedMembers kvs) \<Longrightarrow> size v < Suc (size_list (size_prod (\<lambda>_. 0) size) kvs)"
proof -
  assume "(k, v) \<in> set (sortedMembers kvs)"
  then have "(k, v) \<in> set kvs" by (simp add: sortedMembers_def)
  then have "size_prod (\<lambda>_. 0) size (k, v) < Suc (size_list (size_prod (\<lambda>_. 0) size) kvs)"
    by (induction kvs) auto
  then show ?thesis by simp
qed

function valueLiteralKeyword :: "json \<Rightarrow> string option" where
  "valueLiteralKeyword (JObject kvs) =
    (case find (\<lambda>k. k \<in> set (map fst kvs)) literalKeywords of
       Some k \<Rightarrow> Some k
     | None \<Rightarrow> firstSome (map (\<lambda>(_, v). valueLiteralKeyword v) (sortedMembers kvs)))"
| "valueLiteralKeyword (JArray xs) = firstSome (map valueLiteralKeyword xs)"
| "valueLiteralKeyword JNull = None"
| "valueLiteralKeyword (JBool b) = None"
| "valueLiteralKeyword (JNumber n) = None"
| "valueLiteralKeyword (JString t) = None"
  by pat_completeness auto
termination
  by (relation "measure size") (auto dest: sortedMembers_size simp: less_Suc_eq_le intro: size_list_estimation' split: prod.splits)

definition ruleLiteralFree :: "('s, 'm) library_scheme \<Rightarrow> SchemaRule \<Rightarrow> decl_error + unit" where
  "ruleLiteralFree lib rule =
    (if ru_Type rule = TypeEnum \<or> ru_Members rule \<noteq> [] then declErr ''secret members''
     else if ru_JSONSchema rule = [] then Inr ()
     else
       case strictJSON lib (ru_JSONSchema rule) of
         Inl _ \<Rightarrow> declErr ''json_schema parse''
       | Inr doc \<Rightarrow> if valueLiteralKeyword doc \<noteq> None then declErr ''secret literal keyword'' else Inr ())"

definition checkDeclarationClassification ::
  "('s, 'm) library_scheme \<Rightarrow> Classification \<Rightarrow> Declaration \<Rightarrow> decl_error + unit" where
  "checkDeclarationClassification lib classification d =
    (if classification \<noteq> Secret then Inr ()
     else foldE (\<lambda>rule _. ruleLiteralFree lib rule) (alternatives d) ())"


section \<open>Compilation\<close>

record 's compiledRule =
  cr_rule :: SchemaRule
  cr_pattern :: "(string \<Rightarrow> bool) option"
  cr_schema :: "'s option"

definition compilePattern :: "('s, 'm) library_scheme \<Rightarrow> string \<Rightarrow> decl_error + (string \<Rightarrow> bool)" where
  "compilePattern lib p =
    (if MaxPatternBytes < length p then declErr ''pattern bytes''
     else
       case lib_regexp lib (CHR 0x5C # ''A(?:'' @ p @ '')'' @ CHR 0x5C # ''z'') of
         None \<Rightarrow> declErr ''pattern''
       | Some re \<Rightarrow> Inr re)"

fun enumMembersFrom :: "string list \<Rightarrow> string list \<Rightarrow> decl_error + unit" where
  "enumMembersFrom seen [] = Inr ()"
| "enumMembersFrom seen (m # ms) =
    (if m = [] then declErr ''enum member empty''
     else if MaxEnumMemberBytes < length m then declErr ''enum member bytes''
     else if \<not> validUTF8 m then declErr ''enum member utf8''
     else if NUL \<in> set m then declErr ''enum member nul''
     else if m \<in> set seen then declErr ''enum member repeats''
     else enumMembersFrom (m # seen) ms)"

definition checkEnumMembers :: "string list \<Rightarrow> decl_error + unit" where
  "checkEnumMembers members =
    (if members = [] then declErr ''enum without members''
     else if MaxEnumMembers < length members then declErr ''enum too many members''
     else enumMembersFrom [] members)"

text \<open>\<^verbatim>\<open>\A[a-z][a-z0-9+.-]*\z\<close>\<close>

definition schemeRe :: "string \<Rightarrow> bool" where
  "schemeRe s = (case s of
     [] \<Rightarrow> False
   | c # cs \<Rightarrow> isLower c \<and> list_all (\<lambda>d. isLower d \<or> is_digit d \<or> d \<in> set ''+.-'') cs)"

fun schemesFrom :: "string list \<Rightarrow> string list \<Rightarrow> decl_error + unit" where
  "schemesFrom seen [] = Inr ()"
| "schemesFrom seen (s # ss) =
    (if \<not> schemeRe s then declErr ''scheme''
     else if s \<in> set seen then declErr ''scheme repeats''
     else schemesFrom (s # seen) ss)"

definition checkSchemes :: "string list \<Rightarrow> decl_error + unit" where
  "checkSchemes schemes = (if schemes = [] then declErr ''url without schemes'' else schemesFrom [] schemes)"

definition compileJSONSchema :: "('s, 'm) library_scheme \<Rightarrow> string \<Rightarrow> decl_error + 's" where
  "compileJSONSchema lib raw =
    (if MaxJSONSchemaBytes < length raw then declErr ''json_schema bytes''
     else
       case lib_parse lib raw of
         None \<Rightarrow> declErr ''json_schema parse''
       | Some doc \<Rightarrow>
           (case checkProfile doc of
              Some (Inr _) \<Rightarrow>
                (case lib_schema lib doc of None \<Rightarrow> declErr ''json_schema compile'' | Some sch \<Rightarrow> Inr sch)
            | _ \<Rightarrow> declErr ''json_schema profile''))"

definition crossTypeFault :: "SchemaRule \<Rightarrow> string option" where
  "crossTypeFault r =
    (if ru_Type r = ''any_of'' then Some ''nested any_of''
     else if ru_Type r \<noteq> TypeString \<and> ru_Pattern r \<noteq> [] then Some ''pattern on another type''
     else if ru_Type r \<noteq> TypeString \<and> ru_MinLength r \<noteq> None then Some ''min_length on another type''
     else if ru_Type r \<noteq> TypeString \<and> ru_MaxLength r \<noteq> None then Some ''max_length on another type''
     else if ru_Type r \<noteq> TypeString \<and> ru_AllowEmpty r then Some ''allow_empty on another type''
     else if ru_Type r \<noteq> TypeInteger \<and> (ru_Min r \<noteq> None \<or> ru_Max r \<noteq> None) then Some ''min or max on another type''
     else if ru_Type r \<noteq> TypeEnum \<and> ru_Members r \<noteq> [] then Some ''members on another type''
     else if ru_Type r \<noteq> TypeURL \<and> ru_Schemes r \<noteq> [] then Some ''schemes on another type''
     else if ru_Type r \<noteq> TypeJSON \<and> ru_JSONSchema r \<noteq> [] then Some ''json_schema on another type''
     else None)"

definition exceeds :: "int option \<Rightarrow> int option \<Rightarrow> bool" where
  "exceeds lo hi = (case (lo, hi) of (Some a, Some b) \<Rightarrow> b < a | _ \<Rightarrow> False)"

definition compileRule :: "('s, 'm) library_scheme \<Rightarrow> SchemaRule \<Rightarrow> decl_error + 's compiledRule" where
  "compileRule lib r =
    (let out = \<lparr>cr_rule = r, cr_pattern = None, cr_schema = None\<rparr> in
     case crossTypeFault r of
       Some why \<Rightarrow> declErr why
     | None \<Rightarrow>
         if ru_Type r = TypeString then
           (if exceeds (Some 0) (ru_MinLength r) then declErr ''negative min_length''
            else if exceeds (Some 0) (ru_MaxLength r) then declErr ''negative max_length''
            else if exceeds (ru_MinLength r) (ru_MaxLength r) then declErr ''min_length exceeds max_length''
            else if ru_Pattern r = [] then Inr out
            else bindE (compilePattern lib (ru_Pattern r)) (\<lambda>re. Inr (out\<lparr>cr_pattern := Some re\<rparr>)))
         else if ru_Type r = TypeInteger then
           (if exceeds (ru_Min r) (ru_Max r) then declErr ''min exceeds max'' else Inr out)
         else if ru_Type r = TypeBoolean then Inr out
         else if ru_Type r = TypeEnum then bindE (checkEnumMembers (ru_Members r)) (\<lambda>_. Inr out)
         else if ru_Type r = TypeURL then bindE (checkSchemes (ru_Schemes r)) (\<lambda>_. Inr out)
         else if ru_Type r = TypeJSON then
           (if ru_JSONSchema r = [] then Inr out
            else bindE (compileJSONSchema lib (ru_JSONSchema r)) (\<lambda>sch. Inr (out\<lparr>cr_schema := Some sch\<rparr>)))
         else declErr ''type'')"

record 's Compiled =
  co_classification :: Classification
  co_decl :: Declaration
  co_alts :: "'s compiledRule list"

definition compileNormalized ::
  "('s, 'm) library_scheme \<Rightarrow> Classification \<Rightarrow> Declaration \<Rightarrow> decl_error + 's Compiled" where
  "compileNormalized lib classification norm =
    bindE (mapE (compileRule lib) (alternatives norm)) (\<lambda>alts.
      Inr \<lparr>co_classification = classification, co_decl = norm, co_alts = alts\<rparr>)"

definition CompileClassified ::
  "('s, 'm) library_scheme \<Rightarrow> Classification \<Rightarrow> Declaration \<Rightarrow> decl_error + 's Compiled" where
  "CompileClassified lib classification d =
    bindE (normalizeForCompilation lib classification d) (\<lambda>norm.
    bindE (checkDeclarationClassification lib classification norm) (\<lambda>_.
      compileNormalized lib classification norm))"


section \<open>The scan for repeated members\<close>

fun uniqueKeys :: "json \<Rightarrow> bool" where
  "uniqueKeys (JArray xs) = list_all uniqueKeys xs"
| "uniqueKeys (JObject kvs) = (distinct (map fst kvs) \<and> list_all (\<lambda>(_, v). uniqueKeys v) kvs)"
| "uniqueKeys _ = True"

text \<open>The stack stands where a value, not a member name, comes next.\<close>

definition valueSlot :: "frame list \<Rightarrow> bool" where
  "valueSlot stack = (case stack of [] \<Rightarrow> True | f # _ \<Rightarrow> \<not> (fr_object f \<and> fr_expectKey f))"

definition scansValue :: "json \<Rightarrow> bool" where
  "scansValue j \<longleftrightarrow> (\<forall>rest stack. valueSlot stack \<longrightarrow>
     checkNoDuplicateKeys (tokensOf j @ rest) stack =
       (if uniqueKeys j then checkNoDuplicateKeys rest (fillSlot stack) else Inl DuplicateKey))"

lemma scansValueD:
  "scansValue j \<Longrightarrow> valueSlot stack \<Longrightarrow> checkNoDuplicateKeys (tokensOf j @ rest) stack =
     (if uniqueKeys j then checkNoDuplicateKeys rest (fillSlot stack) else Inl DuplicateKey)"
  by (simp add: scansValue_def)

lemma scan_elements:
  assumes "\<forall>x \<in> set xs. scansValue x" "\<not> fr_object f"
  shows "checkNoDuplicateKeys (concat (map tokensOf xs) @ rest) (f # stack) =
    (if list_all uniqueKeys xs then checkNoDuplicateKeys rest (f # stack) else Inl DuplicateKey)"
  using assms by (induction xs) (auto simp: scansValueD valueSlot_def fillSlot_def)

lemma scan_members:
  assumes "\<forall>(k, v) \<in> set kvs. scansValue v"
  shows "\<exists>seen'. checkNoDuplicateKeys (concat (map (\<lambda>(k, v). StringToken k # tokensOf v) kvs) @ rest)
      (\<lparr>fr_object = True, fr_seen = seen, fr_expectKey = True\<rparr> # stack) =
    (if distinct (map fst kvs) \<and> set (map fst kvs) \<inter> set seen = {} \<and> list_all (\<lambda>(_, v). uniqueKeys v) kvs
     then checkNoDuplicateKeys rest (\<lparr>fr_object = True, fr_seen = seen', fr_expectKey = True\<rparr> # stack)
     else Inl DuplicateKey)"
  using assms
proof (induction kvs arbitrary: seen)
  case (Cons kv kvs)
  obtain k v where kv: "kv = (k, v)" by (cases kv)
  from Cons.IH [of "k # seen"] Cons.prems obtain seen' where
    "checkNoDuplicateKeys (concat (map (\<lambda>(k, v). StringToken k # tokensOf v) kvs) @ rest)
      (\<lparr>fr_object = True, fr_seen = k # seen, fr_expectKey = True\<rparr> # stack) =
    (if distinct (map fst kvs) \<and> set (map fst kvs) \<inter> set (k # seen) = {} \<and> list_all (\<lambda>(_, v). uniqueKeys v) kvs
     then checkNoDuplicateKeys rest (\<lparr>fr_object = True, fr_seen = seen', fr_expectKey = True\<rparr> # stack)
     else Inl DuplicateKey)" by auto
  then show ?case using Cons.prems
    by (intro exI [of _ seen']) (auto simp: kv scansValueD valueSlot_def fillSlot_def)
qed auto

lemma scan_value: "scansValue j"
proof (induction j rule: tokensOf.induct)
  case (5 xs)
  then show ?case
    by (auto simp: scansValue_def scan_elements)
next
  case (6 kvs)
  then have members: "\<forall>(k, v) \<in> set kvs. scansValue v" by fastforce
  show ?case
    unfolding scansValue_def
  proof (intro allI impI)
    fix rest stack
    from scan_members [OF members, of "Delim CHR ''}'' # rest" "[]" "fillSlot stack"]
    show "checkNoDuplicateKeys (tokensOf (JObject kvs) @ rest) stack =
        (if uniqueKeys (JObject kvs) then checkNoDuplicateKeys rest (fillSlot stack) else Inl DuplicateKey)"
      by auto
  qed
qed (auto simp: scansValue_def valueSlot_def split: list.splits)

lemma duplicates_decided:
  "checkNoDuplicateKeys (tokensOf doc) [] = (if uniqueKeys doc then Inr () else Inl DuplicateKey)"
  using scansValueD [OF scan_value, of "[]" doc "[]"] by (simp add: valueSlot_def)

lemma strictJSON_Inr: "strictJSON lib raw = Inr doc \<longleftrightarrow> lib_parse lib raw = Some doc \<and> uniqueKeys doc"
  by (auto simp: strictJSON_def duplicates_decided split: option.splits if_splits)


section \<open>Literal keywords\<close>

fun memberNames :: "json \<Rightarrow> string set" where
  "memberNames (JObject kvs) = set (map fst kvs) \<union> (\<Union>(_, v) \<in> set kvs. memberNames v)"
| "memberNames (JArray xs) = (\<Union>x \<in> set xs. memberNames x)"
| "memberNames _ = {}"

lemma firstSome_None: "firstSome xs = None \<longleftrightarrow> (\<forall>x \<in> set xs. x = None)"
  by (induction xs) (auto split: option.splits)

lemma valueLiteralKeyword_iff: "valueLiteralKeyword j = None \<longleftrightarrow> memberNames j \<inter> set literalKeywords = {}"
proof (induction j rule: valueLiteralKeyword.induct)
  case (1 kvs)
  then have IH: "valueLiteralKeyword v = None \<longleftrightarrow> memberNames v \<inter> set literalKeywords = {}"
    if "(k, v) \<in> set kvs" "find (\<lambda>k. k \<in> set (map fst kvs)) literalKeywords = None" for k v
    using that by (force simp: sortedMembers_def)
  show ?case
  proof (cases "find (\<lambda>k. k \<in> set (map fst kvs)) literalKeywords")
    case None
    then have "valueLiteralKeyword (JObject kvs) = None \<longleftrightarrow> (\<forall>(k, v) \<in> set kvs. valueLiteralKeyword v = None)"
      by (auto simp: firstSome_None sortedMembers_def)
    also have "\<dots> \<longleftrightarrow> (\<forall>(k, v) \<in> set kvs. memberNames v \<inter> set literalKeywords = {})"
      using IH None by fastforce
    finally show ?thesis using None [unfolded find_None_iff] by auto
  next
    case (Some k)
    then have "k \<in> set literalKeywords" "k \<in> set (map fst kvs)"
      by (auto simp: find_Some_iff)
    with Some show ?thesis by auto
  qed
qed (auto simp: firstSome_None)


section \<open>Properties\<close>

text \<open>
  C30. The token-stream scan for repeated member names, with its stack of open objects, refines the
  recursive definition: on the tokens of a document it accepts exactly the documents in which no
  object, at any depth, repeats a name, and the one error it then reports is the duplicate key.
\<close>
theorem duplicate_scan_refines:
  "checkNoDuplicateKeys (tokensOf doc) [] = (if uniqueKeys doc then Inr () else Inl DuplicateKey)"
  by (rule duplicates_decided)

lemma presenceIDs_iff: "presenceIDs seen ids = Inr () \<longleftrightarrow> distinct ids \<and> set ids \<inter> set seen = {} \<and> [] \<notin> set ids"
  by (induction seen ids rule: presenceIDs.induct) auto

definition shapedPresence :: "Presence \<Rightarrow> bool" where
  "shapedPresence p \<longleftrightarrow>
     (ps_Mode p = PresenceNone \<or> ps_Mode p = PresenceAll) \<and> ps_Environments p = [] \<or>
     ps_Mode p = PresenceExplicit \<and> ps_Environments p \<noteq> [] \<and> distinct (ps_Environments p) \<and> [] \<notin> set (ps_Environments p)"

lemma checkPresenceShape_iff: "checkPresenceShape p = Inr () \<longleftrightarrow> shapedPresence p"
  by (auto simp: checkPresenceShape_def shapedPresence_def presenceIDs_iff)

lemma presenceOverlap_iff:
  "shapedPresence p \<Longrightarrow> shapedPresence q \<Longrightarrow> presenceOverlap p q \<longleftrightarrow> (\<exists>e. PresenceCovers p e \<and> PresenceCovers q e)"
  by (auto simp: shapedPresence_def presenceOverlap_def PresenceCovers_def filter_empty_conv neq_Nil_conv)

text \<open>
  The static presence checks are exact: a pair of rules is accepted exactly when both are well
  shaped and no environment, existing or yet to be created, is covered by both; and for well-shaped
  rules two group members are accepted exactly when neither is required where the other is
  forbidden.
\<close>
theorem presence_checks_exact:
  "(CheckPresence req forb = Inr () \<longleftrightarrow>
      shapedPresence req \<and> shapedPresence forb \<and> \<not> (\<exists>e. PresenceCovers req e \<and> PresenceCovers forb e)) \<and>
   (CheckPresence (pr_Required a) (pr_Forbidden a) = Inr () \<and> CheckPresence (pr_Required b) (pr_Forbidden b) = Inr () \<longrightarrow>
      (CheckGroupPresence a b = Inr () \<longleftrightarrow>
         \<not> (\<exists>e. PresenceCovers (pr_Required a) e \<and> PresenceCovers (pr_Forbidden b) e \<or>
                PresenceCovers (pr_Required b) e \<and> PresenceCovers (pr_Forbidden a) e)))"
  by (auto simp: CheckPresence_def CheckGroupPresence_def checkPresenceShape_iff presenceOverlap_iff)

definition onlyIn :: "string list \<Rightarrow> Presence" where
  "onlyIn envs = \<lparr>ps_Mode = PresenceExplicit, ps_Environments = envs\<rparr>"

theorem presence_checks_exact_witness:
  "let a = \<lparr>pr_Required = onlyIn [''prod''], pr_Forbidden = onlyIn [''dev'']\<rparr>;
       b = \<lparr>pr_Required = onlyIn [''dev''], pr_Forbidden = onlyIn [''test'']\<rparr> in
     CheckPresence (pr_Required a) (pr_Forbidden a) = Inr () \<and> CheckPresence (pr_Required b) (pr_Forbidden b) = Inr () \<and>
     CheckGroupPresence a b \<noteq> Inr ()"
proof -
  let ?a = "\<lparr>pr_Required = onlyIn [''prod''], pr_Forbidden = onlyIn [''dev'']\<rparr>"
  let ?b = "\<lparr>pr_Required = onlyIn [''dev''], pr_Forbidden = onlyIn [''test'']\<rparr>"
  have ok: "CheckPresence (pr_Required ?a) (pr_Forbidden ?a) = Inr ()" "CheckPresence (pr_Required ?b) (pr_Forbidden ?b) = Inr ()"
    by code_simp+
  have "PresenceCovers (pr_Required ?b) ''dev'' \<and> PresenceCovers (pr_Forbidden ?a) ''dev''" by code_simp
  with presence_checks_exact [of _ _ ?a ?b] ok show ?thesis unfolding Let_def by blast
qed

lemma mapE_Inr: "mapE f xs = Inr ys \<longleftrightarrow> list_all2 (\<lambda>x y. f x = Inr y) xs ys"
  by (induction xs arbitrary: ys) (auto simp: list_all2_Cons1)

lemma foldE_unit: "foldE (\<lambda>x _. f x) xs () = Inr () \<longleftrightarrow> (\<forall>x \<in> set xs. f x = Inr ())"
  by (induction xs) auto

text \<open>
  A compiled secret declaration carries no value literal: none of its alternatives is an enum or
  holds members, and the JSON Schema of one, where it has a schema, is well-formed and no object
  anywhere in it has a member named const, enum or examples.
\<close>
theorem secret_declaration_literal_free:
  assumes "CompileClassified lib Secret d = Inr c"
  shows "co_alts c \<noteq> [] \<and> (\<forall>r \<in> set (alternatives (co_decl c)). ru_Type r \<noteq> TypeEnum \<and> ru_Members r = [] \<and>
    (ru_JSONSchema r = [] \<or>
     (\<exists>doc. lib_parse lib (ru_JSONSchema r) = Some doc \<and> uniqueKeys doc \<and>
        memberNames doc \<inter> {''const'', ''enum'', ''examples''} = {})))"
proof -
  from assms obtain norm where norm: "normalizeForCompile lib d = Inr norm"
    and free: "\<forall>r \<in> set (alternatives norm). ruleLiteralFree lib r = Inr ()"
    and c: "compileNormalized lib Secret norm = Inr c"
    by (auto simp: CompileClassified_def normalizeForCompilation_def checkDeclarationClassification_def foldE_unit
        ClassificationValid_def split: if_splits)
  have "alternatives norm \<noteq> []"
    using norm by (auto simp: normalizeForCompile_def normalize_def alternatives_def mapE_Inr split: if_splits option.splits)
  with c have "co_alts c \<noteq> [] \<and> co_decl c = norm"
    by (auto simp: compileNormalized_def mapE_Inr)
  moreover have "ru_Type r \<noteq> TypeEnum \<and> ru_Members r = [] \<and> (ru_JSONSchema r = [] \<or>
     (\<exists>doc. lib_parse lib (ru_JSONSchema r) = Some doc \<and> uniqueKeys doc \<and>
        memberNames doc \<inter> {''const'', ''enum'', ''examples''} = {}))" if "r \<in> set (alternatives norm)" for r
    using bspec [OF free that] valueLiteralKeyword_iff
    by (auto simp: ruleLiteralFree_def strictJSON_Inr literalKeywords_def split: if_splits sum.splits)
  ultimately show ?thesis by simp
qed

definition exampleLibrary :: "unit library" where
  "exampleLibrary =
    \<lparr>lib_parse = (\<lambda>s. if s = ''shared'' then Some sharedSchema else None), lib_marshal = (\<lambda>_. ''shared''),
     lib_marshalDeclaration = (\<lambda>_. []), lib_regexp = (\<lambda>_. None), lib_lower = id, lib_schema = (\<lambda>_. Some ())\<rparr>"

definition jsonRule :: SchemaRule where
  "jsonRule = \<lparr>ru_Type = TypeJSON, ru_MinLength = None, ru_MaxLength = None, ru_Pattern = [], ru_AllowEmpty = False,
     ru_Min = None, ru_Max = None, ru_Members = [], ru_Schemes = [], ru_JSONSchema = ''shared''\<rparr>"

definition jsonDeclaration :: Declaration where
  "jsonDeclaration = \<lparr>dc_Rule = Some jsonRule, dc_AnyOf = []\<rparr>"

lemma jsonDeclaration_compiles:
  assumes "lib_parse lib ''shared'' = Some sharedSchema" "lib_marshal lib sharedSchema = ''shared''"
    "lib_schema lib sharedSchema = Some sch"
  obtains c where "CompileClassified lib Secret jsonDeclaration = Inr c"
proof -
  have "isOk (the (checkProfile sharedSchema))" "checkProfile sharedSchema \<noteq> None" by code_simp+
  then obtain w where w: "checkProfile sharedSchema = Some (Inr w)" by (auto simp: isOk_iff)
  have "valueLiteralKeyword sharedSchema = None" "uniqueKeys sharedSchema" by code_simp+
  with w assms that show ?thesis
    by (simp add: CompileClassified_def normalizeForCompilation_def ClassificationValid_def normalizeForCompile_def
        normalize_def normRule_def jsonDeclaration_def jsonRule_def strictJSON_def duplicates_decided
        checkDeclarationClassification_def alternatives_def ruleLiteralFree_def compileNormalized_def compileRule_def
        crossTypeFault_def compileJSONSchema_def)
qed

theorem secret_declaration_literal_free_witness:
  "\<exists>c. CompileClassified exampleLibrary Secret jsonDeclaration = Inr c \<and> co_alts c \<noteq> []"
proof -
  obtain c where c: "CompileClassified exampleLibrary Secret jsonDeclaration = Inr c"
    by (rule jsonDeclaration_compiles [of exampleLibrary "()"]) (simp_all add: exampleLibrary_def)
  from secret_declaration_literal_free [OF c] c show ?thesis by blast
qed

end
