(* ===== verification/Validation.thy ===== *)
theory Validation
  imports KeySchema
begin

text \<open>
  The value-validation engine (\<^verbatim>\<open>internal/schema/validate.go\<close>): one compiled declaration, one value, one
  verdict. The URL parser, the JSON Schema evaluator and the encoder that measures a verdict are
  parameters, and so is how an evaluation ended (finished, overran its deadline or was never
  admitted). The results: a verdict is valid exactly when some alternative accepts the trimmed
  value, an invalid verdict always says why and stays within its caps, and the verdict on a secret
  does not depend on anything the evaluator reports about the instance.
\<close>

section \<open>Verdicts\<close>

record Failure =
  fl_Alternative :: int
  fl_Keyword :: string
  fl_Message :: string
  fl_InstancePath :: string

definition failure :: "int \<Rightarrow> string \<Rightarrow> string \<Rightarrow> Failure" where
  "failure alt keyword message =
    \<lparr>fl_Alternative = alt, fl_Keyword = keyword, fl_Message = message, fl_InstancePath = []\<rparr>"

record Verdict =
  vd_Valid :: bool
  vd_Errors :: "Failure list"

definition Verdict_fail :: "Failure \<Rightarrow> Verdict" where
  "Verdict_fail f = \<lparr>vd_Valid = False, vd_Errors = [f]\<rparr>"

definition Normalize :: "string \<Rightarrow> string" where
  "Normalize val = TrimSpace val"

abbreviation MaxVerdictErrors :: nat where "MaxVerdictErrors \<equiv> 100"
abbreviation MaxVerdictErrorBytes :: nat where "MaxVerdictErrorBytes \<equiv> 65536"

text \<open>\<^verbatim>\<open>%d\<close> of a signed integer.\<close>

definition showInt :: "int \<Rightarrow> string" where
  "showInt n = (if n < 0 then ''-'' @ itoa (nat (- n)) else itoa (nat n))"


section \<open>The JSON Schema evaluator\<close>

datatype evalOutcome = evalCompleted | evalOverran | evalRefused

text \<open>
  The library's error tree: its causes, the keyword path, the URL of the failing subschema, and
  two texts derived from the instance.
\<close>

datatype validationError =
  ValidationError (ve_Causes: "validationError list") (ve_KeywordPath: "string list") (ve_SchemaURL: string)
    (ve_InstanceLocation: "string list") (ve_Error: string)

datatype evaluation_error = Invalid validationError | OtherError

record 's runtime = "'s library" +
  lib_url :: "string \<Rightarrow> (string \<times> string) option"
  lib_outcome :: "'s \<Rightarrow> json \<Rightarrow> evalOutcome"
  lib_evaluate :: "'s \<Rightarrow> json \<Rightarrow> evaluation_error option"
  lib_encodedSize :: "Failure list \<Rightarrow> nat"

fun flattenValidationError :: "validationError \<Rightarrow> validationError list" where
  "flattenValidationError (ValidationError causes path url loc msg) =
    (if causes = [] then [ValidationError causes path url loc msg]
     else concat (map flattenValidationError causes))"

fun joinSlash :: "string list \<Rightarrow> string" where
  "joinSlash [] = []"
| "joinSlash [x] = x"
| "joinSlash (x # xs) = x @ ''/'' @ joinSlash xs"

definition keywordSuffix :: "validationError \<Rightarrow> string" where
  "keywordSuffix e = (if ve_KeywordPath e = [] then [] else ''/'' @ joinSlash (ve_KeywordPath e))"

definition schemaResourceURL :: string where
  "schemaResourceURL = ''https://schema.hikyo.invalid/declaration''"

definition schemaLocation :: "validationError \<Rightarrow> string" where
  "schemaLocation e =
    (let loc = (if prefix schemaResourceURL (ve_SchemaURL e) then drop (length schemaResourceURL) (ve_SchemaURL e)
                else ve_SchemaURL e) in
     if loc = [] then ''#'' else loc)"

definition instancePointer :: "string list \<Rightarrow> string" where
  "instancePointer tokens = concat (map (\<lambda>t. ''/'' @ escapePointer t) tokens)"

definition leafFailure :: "Classification \<Rightarrow> int \<Rightarrow> validationError \<Rightarrow> Failure" where
  "leafFailure cls alt leaf =
    (let f = failure alt (''json_schema'' @ keywordSuffix leaf)
               (''value failed the declared JSON Schema at '' @ schemaLocation leaf) in
     if cls = Config
     then f\<lparr>fl_InstancePath := instancePointer (ve_InstanceLocation leaf), fl_Message := ve_Error leaf\<rparr>
     else f)"

definition jsonSchemaFailures ::
  "('s, 'm) runtime_scheme \<Rightarrow> 's \<Rightarrow> json \<Rightarrow> Classification \<Rightarrow> int \<Rightarrow> Failure list" where
  "jsonSchemaFailures lib sch doc cls alt =
    (case lib_outcome lib sch doc of
       evalOverran \<Rightarrow> [failure alt ''budget.deadline'' ''validation exceeded the 100ms evaluation deadline'']
     | evalRefused \<Rightarrow>
         [failure alt ''budget.concurrency'' ''more than 8 JSON Schema evaluations are already in flight'']
     | evalCompleted \<Rightarrow>
         (case lib_evaluate lib sch doc of
            None \<Rightarrow> []
          | Some OtherError \<Rightarrow> [failure alt ''json_schema'' ''value failed the declared JSON Schema'']
          | Some (Invalid e) \<Rightarrow> map (leafFailure cls alt) (flattenValidationError e)))"


section \<open>One alternative\<close>

text \<open>\<^verbatim>\<open>\A-?[0-9]+\z\<close>\<close>

definition integerRe :: "string \<Rightarrow> bool" where
  "integerRe v = (let ds = (if prefix ''-'' v then tl v else v) in ds \<noteq> [] \<and> list_all is_digit ds)"

definition canonicalInteger :: "string \<Rightarrow> string" where
  "canonicalInteger v =
    (let sign = (if prefix ''-'' v then ''-'' else []);
         ds = TrimLeft (if prefix ''-'' v then tl v else v) ''0'' in
     sign @ (if ds = [] then ''0'' else ds))"

text \<open>\<^verbatim>\<open>strconv.ParseInt(s, 10, 64)\<close> on a text of the integer grammar.\<close>

definition ParseInt64 :: "string \<Rightarrow> int option" where
  "ParseInt64 s =
    (let n = (if prefix ''-'' s then - int (atoi_digits (tl s)) else int (atoi_digits s)) in
     if - (2 ^ 63) \<le> n \<and> n < 2 ^ 63 then Some n else None)"

definition below_min :: "int option \<Rightarrow> int \<Rightarrow> bool" where
  "below_min lo n = (case lo of None \<Rightarrow> False | Some m \<Rightarrow> n < m)"

definition above_max :: "int option \<Rightarrow> int \<Rightarrow> bool" where
  "above_max hi n = (case hi of None \<Rightarrow> False | Some m \<Rightarrow> m < n)"

definition bound :: "int option \<Rightarrow> string" where
  "bound b = (case b of None \<Rightarrow> [] | Some n \<Rightarrow> showInt n)"

definition validateString :: "'s compiledRule \<Rightarrow> string \<Rightarrow> int \<Rightarrow> Failure list" where
  "validateString cr val alt =
    (let r = cr_rule cr; len = int (RuneCount val) in
     if val = [] \<and> \<not> ru_AllowEmpty r
     then [failure alt ''allow_empty'' ''value is empty and `allow_empty` is not declared'']
     else
       (if below_min (ru_MinLength r) len
        then [failure alt ''min_length'' (''value is shorter than the declared `min_length` of '' @ bound (ru_MinLength r))] else []) @
       (if above_max (ru_MaxLength r) len
        then [failure alt ''max_length'' (''value is longer than the declared `max_length` of '' @ bound (ru_MaxLength r))] else []) @
       (case cr_pattern cr of
          Some re \<Rightarrow>
            if \<not> re val then [failure alt ''pattern'' ''value does not match the declared `pattern` over its whole length''] else []
        | None \<Rightarrow> []))"

definition validateInteger :: "SchemaRule \<Rightarrow> string \<Rightarrow> int \<Rightarrow> Failure list" where
  "validateInteger r val alt =
    (if \<not> integerRe val
     then [failure alt ''type'' ''value is not an integer (`-?[0-9]+`: no leading `+`, no underscores, no hex, no exponent)'']
     else
       case ParseInt64 (canonicalInteger val) of
         None \<Rightarrow> [failure alt ''magnitude'' ''integer magnitude does not fit signed 64-bit'']
       | Some n \<Rightarrow>
           (if below_min (ru_Min r) n
            then [failure alt ''min'' (''value is below the declared `min` of '' @ bound (ru_Min r))] else []) @
           (if above_max (ru_Max r) n
            then [failure alt ''max'' (''value is above the declared `max` of '' @ bound (ru_Max r))] else []))"

definition validateURL :: "('s, 'm) runtime_scheme \<Rightarrow> SchemaRule \<Rightarrow> string \<Rightarrow> int \<Rightarrow> Failure list" where
  "validateURL lib r val alt =
    (case lib_url lib val of
       Some (scheme, opaque) \<Rightarrow>
         if scheme = [] \<or> opaque \<noteq> [] then [failure alt ''absolute'' ''value is not an absolute hierarchical URL'']
         else if ToLower lib scheme \<in> set (ru_Schemes r) then []
         else [failure alt ''schemes'' ''URL scheme is not in the declared `schemes` allowlist'']
     | None \<Rightarrow> [failure alt ''absolute'' ''value is not an absolute hierarchical URL''])"

definition validateJSON ::
  "('s, 'm) runtime_scheme \<Rightarrow> 's compiledRule \<Rightarrow> string \<Rightarrow> Classification \<Rightarrow> int \<Rightarrow> Failure list" where
  "validateJSON lib cr val cls alt =
    (case strictJSON lib val of
       Inl DuplicateKey \<Rightarrow> [failure alt ''duplicate_key'' ''value contains a duplicate object key'']
     | Inl _ \<Rightarrow> [failure alt ''type'' ''value is not a single well-formed JSON document'']
     | Inr doc \<Rightarrow> (case cr_schema cr of None \<Rightarrow> [] | Some sch \<Rightarrow> jsonSchemaFailures lib sch doc cls alt))"

definition validateRule ::
  "('s, 'm) runtime_scheme \<Rightarrow> 's compiledRule \<Rightarrow> string \<Rightarrow> Classification \<Rightarrow> int \<Rightarrow> Failure list" where
  "validateRule lib cr val cls alt =
    (let r = cr_rule cr in
     if ru_Type r = TypeString then validateString cr val alt
     else if ru_Type r = TypeInteger then validateInteger r val alt
     else if ru_Type r = TypeBoolean then
       (if val \<noteq> ''true'' \<and> val \<noteq> ''false'' then [failure alt ''type'' ''value is not the canonical `true` or `false`''] else [])
     else if ru_Type r = TypeEnum then
       (if val \<in> set (ru_Members r) then []
        else [failure alt ''members''
                (''value is not one of the '' @ itoa (length (ru_Members r)) @ '' declared `enum` members'')])
     else if ru_Type r = TypeURL then validateURL lib r val alt
     else if ru_Type r = TypeJSON then validateJSON lib cr val cls alt
     else [failure alt ''type'' ''declaration carries an unsupported type''])"


section \<open>The caps\<close>

fun runeFloor :: "string \<Rightarrow> nat \<Rightarrow> nat" where
  "runeFloor s 0 = 0"
| "runeFloor s (Suc n) = (if validUTF8 (take (Suc n) s) then Suc n else runeFloor s n)"

definition trimRunes :: "string \<Rightarrow> nat \<Rightarrow> string" where
  "trimRunes s n = take (runeFloor s (if length s \<le> n then length s - 1 else n)) s"

lemma runeFloor_le: "runeFloor s n \<le> n"
  by (induction n) auto

lemma trimRunes_shorter: "s \<noteq> [] \<Longrightarrow> length (trimRunes s n) < length s"
  using runeFloor_le [of s "length s - 1"] runeFloor_le [of s n]
  by (cases s) (auto simp: trimRunes_def)

function shrinkFailure :: "(Failure list \<Rightarrow> nat) \<Rightarrow> Failure \<Rightarrow> Failure" where
  "shrinkFailure encSize f =
    (if encSize [f] \<le> MaxVerdictErrorBytes then f
     else if fl_Message f \<noteq> [] then
       shrinkFailure encSize (f\<lparr>fl_Message := trimRunes (fl_Message f) ((length (fl_Message f) + 1) div 2)\<rparr>)
     else if fl_Keyword f \<noteq> [] then
       shrinkFailure encSize (f\<lparr>fl_Keyword := trimRunes (fl_Keyword f) ((length (fl_Keyword f) + 1) div 2)\<rparr>)
     else f)"
  by pat_completeness auto
termination
  by (relation "measure (\<lambda>(_, f). length (fl_Message f) + length (fl_Keyword f))") (auto intro: trimRunes_shorter)

declare shrinkFailure.simps [simp del]

definition truncateFailure :: "(Failure list \<Rightarrow> nat) \<Rightarrow> Failure \<Rightarrow> Failure" where
  "truncateFailure encSize f = shrinkFailure encSize (f\<lparr>fl_InstancePath := []\<rparr>)"

fun capLoop :: "(Failure list \<Rightarrow> nat) \<Rightarrow> Failure list \<Rightarrow> Failure list \<Rightarrow> Failure list \<Rightarrow> Failure list" where
  "capLoop encSize seen out [] = out"
| "capLoop encSize seen out (f # fs) =
    (if f \<in> set seen then capLoop encSize seen out fs
     else if MaxVerdictErrors \<le> length out then out
     else if MaxVerdictErrorBytes < encSize (out @ [f]) then out
     else capLoop encSize (f # seen) (out @ [f]) fs)"

definition capFailures :: "(Failure list \<Rightarrow> nat) \<Rightarrow> Failure list \<Rightarrow> Failure list" where
  "capFailures encSize fs =
    (let out = capLoop encSize [] [] fs in
     case fs of f # _ \<Rightarrow> (if out = [] then [truncateFailure encSize f] else out) | [] \<Rightarrow> out)"


section \<open>The verdict\<close>

fun tryAlternatives ::
  "('s, 'm) runtime_scheme \<Rightarrow> Classification \<Rightarrow> bool \<Rightarrow> string \<Rightarrow> int \<Rightarrow> 's compiledRule list \<Rightarrow> Failure list \<Rightarrow> Verdict" where
  "tryAlternatives lib cls single val i [] acc =
    \<lparr>vd_Valid = False, vd_Errors = capFailures (lib_encodedSize lib) acc\<rparr>"
| "tryAlternatives lib cls single val i (alt # alts) acc =
    (let fs = validateRule lib alt val cls (if single then -1 else i) in
     if fs = [] then \<lparr>vd_Valid = True, vd_Errors = []\<rparr>
     else tryAlternatives lib cls single val (i + 1) alts (acc @ fs))"

definition Compiled_Validate :: "('s, 'm) runtime_scheme \<Rightarrow> 's Compiled \<Rightarrow> string \<Rightarrow> Verdict" where
  "Compiled_Validate lib c val =
    (let v = Normalize val in
     if MaxValueBytes < length v
     then Verdict_fail (failure (-1) ''budget.value_bytes'' ''value exceeds the 65536-byte validation budget'')
     else if \<not> validUTF8 v then Verdict_fail (failure (-1) ''lexical.utf8'' ''value is not valid UTF-8'')
     else if NUL \<in> set v then Verdict_fail (failure (-1) ''lexical.nul'' ''value contains a NUL byte'')
     else tryAlternatives lib (co_classification c) (dc_Rule (co_decl c) \<noteq> None) v 0 (co_alts c) [])"


section \<open>What a valid verdict means\<close>

definition intOf :: "string \<Rightarrow> int" where
  "intOf v = (if prefix ''-'' v then - int (atoi_digits (tl v)) else int (atoi_digits v))"

definition evaluates :: "('s, 'm) runtime_scheme \<Rightarrow> 's option \<Rightarrow> json \<Rightarrow> bool" where
  "evaluates lib sch doc \<longleftrightarrow>
     (\<forall>x. sch = Some x \<longrightarrow> lib_outcome lib x doc = evalCompleted \<and> lib_evaluate lib x doc = None)"

definition within :: "int option \<Rightarrow> int option \<Rightarrow> int \<Rightarrow> bool" where
  "within lo hi n \<longleftrightarrow> (\<forall>m. lo = Some m \<longrightarrow> m \<le> n) \<and> (\<forall>m. hi = Some m \<longrightarrow> n \<le> m)"

definition ruleAccepts :: "('s, 'm) runtime_scheme \<Rightarrow> 's compiledRule \<Rightarrow> string \<Rightarrow> bool" where
  "ruleAccepts lib cr v \<longleftrightarrow> (let r = cr_rule cr in
     ru_Type r = TypeString \<and> (v \<noteq> [] \<or> ru_AllowEmpty r) \<and> within (ru_MinLength r) (ru_MaxLength r) (int (RuneCount v)) \<and>
       (\<forall>re. cr_pattern cr = Some re \<longrightarrow> re v) \<or>
     ru_Type r = TypeInteger \<and> integerRe v \<and> - (2 ^ 63) \<le> intOf v \<and> intOf v < 2 ^ 63 \<and>
       within (ru_Min r) (ru_Max r) (intOf v) \<or>
     ru_Type r = TypeBoolean \<and> (v = ''true'' \<or> v = ''false'') \<or>
     ru_Type r = TypeEnum \<and> v \<in> set (ru_Members r) \<or>
     ru_Type r = TypeURL \<and> (\<exists>scheme. lib_url lib v = Some (scheme, []) \<and> scheme \<noteq> [] \<and> ToLower lib scheme \<in> set (ru_Schemes r)) \<or>
     ru_Type r = TypeJSON \<and> (\<exists>doc. lib_parse lib v = Some doc \<and> uniqueKeys doc \<and> evaluates lib (cr_schema cr) doc))"

lemma atoi_leading: "atoi_digits (TrimLeft ds ''0'') = atoi_digits ds"
  by (induction ds) (auto simp: TrimLeft_def atoi_digits_def)

lemma digits_unsigned: "list_all is_digit ds \<Longrightarrow> \<not> prefix ''-'' ds"
  by (cases ds) (auto simp: is_digit_def)

lemma canonicalInteger_value:
  assumes "integerRe v"
  shows "ParseInt64 (canonicalInteger v) = (if - (2 ^ 63) \<le> intOf v \<and> intOf v < 2 ^ 63 then Some (intOf v) else None)"
proof -
  define ds where "ds = (if prefix ''-'' v then tl v else v)"
  define cs where "cs = (if TrimLeft ds ''0'' = [] then ''0'' else TrimLeft ds ''0'')"
  have digits: "list_all is_digit ds" using assms by (simp add: integerRe_def ds_def Let_def)
  then have "list_all is_digit (TrimLeft ds ''0'')"
    by (auto simp: TrimLeft_def list_all_iff dest: set_dropWhileD)
  then have "list_all is_digit cs" by (auto simp: cs_def is_digit_def)
  then have unsigned: "\<not> prefix ''-'' cs" by (rule digits_unsigned)
  have "atoi_digits cs = atoi_digits ds"
    using atoi_leading [of ds] by (auto simp: cs_def atoi_digits_def)
  moreover have "canonicalInteger v = (if prefix ''-'' v then ''-'' else []) @ cs"
    by (simp add: canonicalInteger_def cs_def ds_def Let_def)
  ultimately show ?thesis using unsigned
    by (auto simp: ParseInt64_def intOf_def ds_def Let_def)
qed

lemma flatten_nonempty: "flattenValidationError e \<noteq> []"
proof (induction e rule: flattenValidationError.induct)
  case (1 causes path url loc msg)
  then show ?case by (cases causes) auto
qed

lemma jsonSchemaFailures_none:
  "jsonSchemaFailures lib sch doc cls alt = [] \<longleftrightarrow> evaluates lib (Some sch) doc"
  by (auto simp: jsonSchemaFailures_def evaluates_def flatten_nonempty
      split: evalOutcome.splits option.splits evaluation_error.splits)

lemma validateString_none:
  "validateString cr v alt = [] \<longleftrightarrow>
     (v \<noteq> [] \<or> ru_AllowEmpty (cr_rule cr)) \<and>
     within (ru_MinLength (cr_rule cr)) (ru_MaxLength (cr_rule cr)) (int (RuneCount v)) \<and>
     (\<forall>re. cr_pattern cr = Some re \<longrightarrow> re v)"
  by (auto simp: validateString_def within_def below_min_def above_max_def Let_def not_less
      split: option.splits if_splits)

lemma validateInteger_none:
  "validateInteger r v alt = [] \<longleftrightarrow>
     integerRe v \<and> - (2 ^ 63) \<le> intOf v \<and> intOf v < 2 ^ 63 \<and> within (ru_Min r) (ru_Max r) (intOf v)"
  by (auto simp: validateInteger_def canonicalInteger_value within_def below_min_def above_max_def not_less
      split: option.splits if_splits)

lemma validateURL_none:
  "validateURL lib r v alt = [] \<longleftrightarrow>
     (\<exists>scheme. lib_url lib v = Some (scheme, []) \<and> scheme \<noteq> [] \<and> ToLower lib scheme \<in> set (ru_Schemes r))"
  by (auto simp: validateURL_def split: option.splits if_splits)

lemma validateJSON_none:
  "validateJSON lib cr v cls alt = [] \<longleftrightarrow>
     (\<exists>doc. lib_parse lib v = Some doc \<and> uniqueKeys doc \<and> evaluates lib (cr_schema cr) doc)"
proof (cases "strictJSON lib v")
  case (Inl e)
  then have "\<not> (\<exists>doc. lib_parse lib v = Some doc \<and> uniqueKeys doc)"
    by (auto simp: strictJSON_def duplicates_decided)
  with Inl show ?thesis by (cases e) (auto simp: validateJSON_def)
next
  case (Inr doc)
  then have "lib_parse lib v = Some doc \<and> uniqueKeys doc" by (simp add: strictJSON_Inr)
  with Inr show ?thesis
    by (cases "cr_schema cr") (auto simp: validateJSON_def jsonSchemaFailures_none evaluates_def)
qed

lemmas validate_none = validateString_none validateInteger_none validateURL_none validateJSON_none

lemma validateRule_none: "validateRule lib cr v cls alt = [] \<longleftrightarrow> ruleAccepts lib cr v"
  by (auto simp: validateRule_def ruleAccepts_def validate_none Let_def)

lemma tryAlternatives_valid:
  "vd_Valid (tryAlternatives lib cls single v i alts acc) \<longleftrightarrow> (\<exists>cr \<in> set alts. ruleAccepts lib cr v)"
  by (induction alts arbitrary: i acc) (auto simp: Let_def validateRule_none)


section \<open>The contract of a verdict\<close>

text \<open>
  The one fact about the encoder: each byte of the texts of a single failure takes at most six
  bytes, and the envelope with its field names and a small index takes less than 128.
\<close>

definition encoderBound :: "('s, 'm) runtime_scheme \<Rightarrow> bool" where
  "encoderBound lib \<longleftrightarrow> (\<forall>f. fl_Alternative f \<in> {-1, 0} \<longrightarrow>
     lib_encodedSize lib [f] \<le>
       128 + 6 * (length (fl_Keyword f) + length (fl_Message f) + length (fl_InstancePath f)))"

lemma shrinkFailure_fits:
  assumes law: "\<And>f. fl_Alternative f \<in> {-1, 0} \<Longrightarrow>
      enc [f] \<le> 128 + 6 * (length (fl_Keyword f) + length (fl_Message f) + length (fl_InstancePath f))"
  shows "fl_Alternative f \<in> {-1, 0} \<Longrightarrow> fl_InstancePath f = [] \<Longrightarrow> enc [shrinkFailure enc f] \<le> MaxVerdictErrorBytes"
proof (induction "length (fl_Message f) + length (fl_Keyword f)" arbitrary: f rule: less_induct)
  case less
  let ?msg = "f\<lparr>fl_Message := trimRunes (fl_Message f) ((length (fl_Message f) + 1) div 2)\<rparr>"
  let ?kw = "f\<lparr>fl_Keyword := trimRunes (fl_Keyword f) ((length (fl_Keyword f) + 1) div 2)\<rparr>"
  consider "enc [f] \<le> MaxVerdictErrorBytes" | "\<not> enc [f] \<le> MaxVerdictErrorBytes" "fl_Message f \<noteq> []"
    | "\<not> enc [f] \<le> MaxVerdictErrorBytes" "fl_Message f = []" "fl_Keyword f \<noteq> []"
    | "\<not> enc [f] \<le> MaxVerdictErrorBytes" "fl_Message f = []" "fl_Keyword f = []" by blast
  then show ?case
  proof cases
    case 2
    have "enc [shrinkFailure enc ?msg] \<le> MaxVerdictErrorBytes"
      by (rule less.hyps) (use trimRunes_shorter [OF 2(2)] less.prems in auto)
    with 2 show ?thesis by (subst shrinkFailure.simps) simp
  next
    case 3
    have "enc [shrinkFailure enc ?kw] \<le> MaxVerdictErrorBytes"
      by (rule less.hyps) (use trimRunes_shorter [OF 3(3)] less.prems in auto)
    with 3 show ?thesis by (subst shrinkFailure.simps) simp
  next
    case 4
    with law [of f] less.prems show ?thesis by simp
  qed (subst shrinkFailure.simps, simp)
qed

lemma capLoop_within:
  "length out \<le> MaxVerdictErrors \<Longrightarrow> (out \<noteq> [] \<Longrightarrow> enc out \<le> MaxVerdictErrorBytes) \<Longrightarrow>
   length (capLoop enc seen out fs) \<le> MaxVerdictErrors \<and>
   (capLoop enc seen out fs \<noteq> [] \<longrightarrow> enc (capLoop enc seen out fs) \<le> MaxVerdictErrorBytes)"
  by (induction enc seen out fs rule: capLoop.induct) auto

text \<open>An error list as the contract has it: never empty, within both caps.\<close>

definition withinCaps :: "(Failure list \<Rightarrow> nat) \<Rightarrow> Failure list \<Rightarrow> bool" where
  "withinCaps enc fs \<longleftrightarrow> fs \<noteq> [] \<and> length fs \<le> MaxVerdictErrors \<and> enc fs \<le> MaxVerdictErrorBytes"

lemma capFailures_within:
  assumes "encoderBound lib" "fs \<noteq> []" "fl_Alternative (hd fs) \<in> {-1, 0}"
  shows "withinCaps (lib_encodedSize lib) (capFailures (lib_encodedSize lib) fs)"
proof -
  let ?enc = "lib_encodedSize lib"
  from assms(2) obtain f fs' where fs: "fs = f # fs'" by (cases fs) auto
  have "?enc [truncateFailure ?enc f] \<le> MaxVerdictErrorBytes"
    unfolding truncateFailure_def
    by (rule shrinkFailure_fits) (use assms(1,3) in \<open>auto simp: encoderBound_def fs\<close>)
  with capLoop_within [of "[]" ?enc "[]" fs] show ?thesis
    by (auto simp: capFailures_def withinCaps_def fs Let_def simp del: capLoop.simps)
qed

lemma failure_alternative [simp]: "fl_Alternative (failure alt kw msg) = alt"
  by (simp add: failure_def)

lemma leafFailure_alternative [simp]: "fl_Alternative (leafFailure cls alt leaf) = alt"
  by (simp add: leafFailure_def Let_def)

lemma jsonSchemaFailures_alternative: "f \<in> set (jsonSchemaFailures lib sch doc cls alt) \<Longrightarrow> fl_Alternative f = alt"
  unfolding jsonSchemaFailures_def
  by (cases "lib_outcome lib sch doc"; cases "lib_evaluate lib sch doc")
    (auto split: evaluation_error.splits)

lemma validateJSON_alternative: "f \<in> set (validateJSON lib cr v cls alt) \<Longrightarrow> fl_Alternative f = alt"
  unfolding validateJSON_def
  by (cases "strictJSON lib v"; cases "cr_schema cr")
    (auto split: json_error.splits dest: jsonSchemaFailures_alternative)

lemma validateRule_alternative: "f \<in> set (validateRule lib cr v cls alt) \<Longrightarrow> fl_Alternative f = alt"
  by (auto simp: validateRule_def validateString_def validateInteger_def validateURL_def Let_def
      split: if_splits option.splits dest: validateJSON_alternative)

lemma tryAlternatives_contract:
  assumes "encoderBound lib"
  shows "acc \<noteq> [] \<and> fl_Alternative (hd acc) \<in> {-1, 0} \<or> acc = [] \<and> alts \<noteq> [] \<and> i = 0 \<Longrightarrow>
    (let v = tryAlternatives lib cls single val i alts acc in
       if vd_Valid v then vd_Errors v = [] else withinCaps (lib_encodedSize lib) (vd_Errors v))"
proof (induction alts arbitrary: i acc)
  case Nil
  then show ?case using capFailures_within [OF assms] by auto
next
  case (Cons cr alts)
  let ?fs = "validateRule lib cr val cls (if single then -1 else i)"
  show ?case
  proof (cases "?fs = []")
    case False
    then obtain f fs where fs: "?fs = f # fs" by (cases ?fs) auto
    then have "fl_Alternative f = (if single then -1 else i)"
      by (intro validateRule_alternative [of f lib cr val cls]) simp
    then have "acc @ ?fs \<noteq> [] \<and> fl_Alternative (hd (acc @ ?fs)) \<in> {-1, 0}"
      unfolding fs using Cons.prems by (cases single; cases acc) auto
    then have "let v = tryAlternatives lib cls single val (i + 1) alts (acc @ ?fs) in
        if vd_Valid v then vd_Errors v = [] else withinCaps (lib_encodedSize lib) (vd_Errors v)"
      by (intro Cons.IH) simp
    with False show ?thesis by (simp add: Let_def)
  qed simp
qed

lemma compiled_alternatives: "CompileClassified lib cls d = Inr c \<Longrightarrow> co_alts c \<noteq> [] \<and> co_classification c = cls"
  by (auto simp: CompileClassified_def normalizeForCompilation_def normalizeForCompile_def normalize_def
      compileNormalized_def alternatives_def mapE_Inr split: if_splits option.splits)


section \<open>What a secret's verdict may depend on\<close>

fun withoutInstance :: "validationError \<Rightarrow> validationError" where
  "withoutInstance (ValidationError causes path url loc msg) =
    ValidationError (map withoutInstance causes) path url [] []"

fun schemaSide :: "evaluation_error \<Rightarrow> evaluation_error" where
  "schemaSide (Invalid e) = Invalid (withoutInstance e)"
| "schemaSide OtherError = OtherError"

lemma flatten_withoutInstance: "flattenValidationError (withoutInstance e) = map withoutInstance (flattenValidationError e)"
proof (induction e rule: flattenValidationError.induct)
  case (1 causes path url loc msg)
  show ?case
  proof (cases "causes = []")
    case False
    with 1 have "map (flattenValidationError \<circ> withoutInstance) causes = map (map withoutInstance \<circ> flattenValidationError) causes"
      by simp
    with False show ?thesis by (simp add: map_concat del: map_eq_conv)
  qed simp
qed

lemma leafFailure_secret: "leafFailure Secret alt (withoutInstance l) = leafFailure Secret alt l"
  by (cases l) (simp add: leafFailure_def keywordSuffix_def schemaLocation_def)

lemma secret_leaves:
  "map (leafFailure Secret alt) (flattenValidationError e) = map (leafFailure Secret alt) (flattenValidationError (withoutInstance e))"
  by (simp add: flatten_withoutInstance leafFailure_secret comp_def)

text \<open>The failures of an evaluation as a function of how it ended and what it reported.\<close>

definition reportFailures :: "Classification \<Rightarrow> int \<Rightarrow> evaluation_error option \<Rightarrow> Failure list" where
  "reportFailures cls alt report =
    (case report of
       None \<Rightarrow> []
     | Some OtherError \<Rightarrow> [failure alt ''json_schema'' ''value failed the declared JSON Schema'']
     | Some (Invalid e) \<Rightarrow> map (leafFailure cls alt) (flattenValidationError e))"

lemma jsonSchemaFailures_report:
  "jsonSchemaFailures lib sch doc cls alt =
    (case lib_outcome lib sch doc of
       evalOverran \<Rightarrow> [failure alt ''budget.deadline'' ''validation exceeded the 100ms evaluation deadline'']
     | evalRefused \<Rightarrow>
         [failure alt ''budget.concurrency'' ''more than 8 JSON Schema evaluations are already in flight'']
     | evalCompleted \<Rightarrow> reportFailures cls alt (lib_evaluate lib sch doc))"
  by (cases "lib_outcome lib sch doc") (simp_all add: jsonSchemaFailures_def reportFailures_def)

lemma reportFailures_secret:
  "reportFailures Secret alt report = reportFailures Secret alt (map_option schemaSide report)"
proof (cases report)
  case (Some err)
  then show ?thesis by (cases err) (simp_all add: reportFailures_def flip: secret_leaves)
qed (simp add: reportFailures_def)

lemma validateRule_blind:
  assumes "\<And>s doc. map_option schemaSide (ev s doc) = map_option schemaSide (lib_evaluate lib s doc)"
  shows "validateRule (lib\<lparr>lib_evaluate := ev\<rparr>) cr v Secret alt = validateRule lib cr v Secret alt"
proof -
  let ?lib = "lib\<lparr>lib_evaluate := ev\<rparr>"
  have report: "reportFailures Secret alt (ev s doc) = reportFailures Secret alt (lib_evaluate lib s doc)" for s doc
    using reportFailures_secret assms by metis
  have schema: "jsonSchemaFailures ?lib s doc Secret alt = jsonSchemaFailures lib s doc Secret alt" for s doc
    by (cases "lib_outcome lib s doc") (simp_all add: jsonSchemaFailures_report report)
  have strict: "strictJSON ?lib v = strictJSON lib v" and lower: "ToLower ?lib = ToLower lib"
    by (simp_all add: fun_eq_iff strictJSON_def ToLower_def)
  have "validateJSON ?lib cr v Secret alt = validateJSON lib cr v Secret alt"
    unfolding validateJSON_def strict
    by (cases "strictJSON lib v"; cases "cr_schema cr") (simp_all add: schema)
  moreover have "validateURL ?lib r v alt = validateURL lib r v alt" for r
    by (cases "lib_url lib v") (auto simp: validateURL_def lower)
  ultimately show ?thesis by (simp add: validateRule_def Let_def)
qed

lemma tryAlternatives_blind:
  assumes "\<And>s doc. map_option schemaSide (ev s doc) = map_option schemaSide (lib_evaluate lib s doc)"
  shows "tryAlternatives (lib\<lparr>lib_evaluate := ev\<rparr>) Secret single v i alts acc = tryAlternatives lib Secret single v i alts acc"
  by (induction alts arbitrary: i acc) (simp_all add: validateRule_blind [OF assms] Let_def)


section \<open>Properties\<close>

text \<open>
  C29. A value is valid exactly when, trimmed, it is within the size budget, valid UTF-8 and free of
  NUL bytes, and some alternative of the declaration accepts it: a string by rune length and
  whole-length pattern, an integer by its decimal value within signed 64 bits and the declared
  range, a boolean or enum by equality, a URL by its scheme, a JSON document by having no repeated
  member and passing its schema.
\<close>
theorem validity_exact:
  "vd_Valid (Compiled_Validate lib c val) \<longleftrightarrow>
     (let v = TrimSpace val in
      length v \<le> MaxValueBytes \<and> validUTF8 v \<and> NUL \<notin> set v \<and> (\<exists>cr \<in> set (co_alts c). ruleAccepts lib cr v))"
  by (auto simp: Compiled_Validate_def Normalize_def Verdict_fail_def tryAlternatives_valid Let_def)

text \<open>
  C19. The contract of a verdict: for a compiled declaration the error list is empty exactly when the
  value is valid, and otherwise has at most the capped number of failures and encodes within the
  byte cap, however large the evaluator's reports are.
\<close>
theorem verdict_contract:
  assumes compiled: "CompileClassified lib cls d = Inr c" and enc: "encoderBound lib"
  shows "let v = Compiled_Validate lib c val in
    (vd_Valid v \<longleftrightarrow> vd_Errors v = []) \<and> length (vd_Errors v) \<le> MaxVerdictErrors \<and>
    (\<not> vd_Valid v \<longrightarrow> lib_encodedSize lib (vd_Errors v) \<le> MaxVerdictErrorBytes)"
proof -
  have fixed: "withinCaps (lib_encodedSize lib) [failure (-1) kw msg]" if "length kw + length msg \<le> 100" for kw msg
  proof -
    have "lib_encodedSize lib [failure (-1) kw msg] \<le> 128 + 6 * (length kw + length msg)"
      using enc [unfolded encoderBound_def, rule_format, of "failure (-1) kw msg"] by (simp add: failure_def)
    with that show ?thesis by (simp add: withinCaps_def)
  qed
  have "let v = Compiled_Validate lib c val in
      if vd_Valid v then vd_Errors v = [] else withinCaps (lib_encodedSize lib) (vd_Errors v)"
    using tryAlternatives_contract [OF enc, of "[]" "co_alts c" 0] compiled_alternatives [OF compiled]
    by (simp add: Compiled_Validate_def Verdict_fail_def fixed Let_def)
  then show ?thesis by (auto simp: Let_def withinCaps_def split: if_splits)
qed

text \<open>
  C20. A secret's verdict discloses nothing of the instance: two evaluators that agree on which
  subschemas failed, and differ in any way on instance locations and messages, give the same
  verdict on every value of a secret declaration.
\<close>
theorem secret_verdict_blind:
  assumes "CompileClassified lib Secret d = Inr c"
    and "\<And>s doc. map_option schemaSide (ev s doc) = map_option schemaSide (lib_evaluate lib s doc)"
  shows "Compiled_Validate (lib\<lparr>lib_evaluate := ev\<rparr>) c val = Compiled_Validate lib c val"
  using compiled_alternatives [OF assms(1)] tryAlternatives_blind [OF assms(2)]
  by (simp add: Compiled_Validate_def Let_def)

text \<open>A runtime whose evaluator refuses everything with the given message, for the witnesses.\<close>

definition refusingRuntime :: "string \<Rightarrow> unit runtime" where
  "refusingRuntime message =
    \<lparr>lib_parse = (\<lambda>s. if s = ''shared'' then Some sharedSchema else None), lib_marshal = (\<lambda>_. ''shared''),
     lib_marshalDeclaration = (\<lambda>_. []), lib_regexp = (\<lambda>_. None), lib_lower = id, lib_schema = (\<lambda>_. Some ()),
     lib_url = (\<lambda>_. None), lib_outcome = (\<lambda>_ _. evalCompleted),
     lib_evaluate = (\<lambda>_ _. Some (Invalid (ValidationError [] [''type''] schemaResourceURL [''k''] message))),
     lib_encodedSize = (\<lambda>fs. 100 * length fs)\<rparr>"

lemma refusingRuntime_compiles:
  obtains c where "CompileClassified (refusingRuntime message) Secret jsonDeclaration = Inr c"
  by (rule jsonDeclaration_compiles [of "refusingRuntime message" "()"]) (simp_all add: refusingRuntime_def)

theorem verdict_contract_witness:
  "\<exists>c. CompileClassified (refusingRuntime ''text'') Secret jsonDeclaration = Inr c \<and> encoderBound (refusingRuntime ''text'') \<and>
     length (vd_Errors (Compiled_Validate (refusingRuntime ''text'') c ''shared'')) \<le> MaxVerdictErrors"
proof -
  obtain c where c: "CompileClassified (refusingRuntime ''text'') Secret jsonDeclaration = Inr c"
    by (rule refusingRuntime_compiles)
  have enc: "encoderBound (refusingRuntime ''text'')" by (simp add: encoderBound_def refusingRuntime_def)
  from verdict_contract [OF c enc] c enc show ?thesis unfolding Let_def by blast
qed

theorem secret_verdict_blind_witness:
  "\<exists>c. CompileClassified (refusingRuntime ''text'') Secret jsonDeclaration = Inr c \<and>
     Compiled_Validate (refusingRuntime ''AKIA'') c ''shared'' = Compiled_Validate (refusingRuntime ''text'') c ''shared''"
proof -
  obtain c where c: "CompileClassified (refusingRuntime ''text'') Secret jsonDeclaration = Inr c"
    by (rule refusingRuntime_compiles)
  let ?ev = "lib_evaluate (refusingRuntime ''AKIA'')"
  have ev: "map_option schemaSide (?ev s doc) = map_option schemaSide (lib_evaluate (refusingRuntime ''text'') s doc)" for s doc
    by (simp add: refusingRuntime_def)
  have "(refusingRuntime ''text'')\<lparr>lib_evaluate := ?ev\<rparr> = refusingRuntime ''AKIA''"
    by (simp add: refusingRuntime_def)
  with secret_verdict_blind [OF c ev] c show ?thesis by metis
qed

end
