(* ===== verification/Dotenv.thy ===== *)
theory Dotenv
  imports KeySchema
begin

text \<open>
  The dotenv grammar (\<^verbatim>\<open>internal/dotenv/dotenv.go\<close>): the fail-loud parser with its quoting and escape
  rules, and the encoder. The result is the round trip: a document the encoder writes for entries
  with pairwise different keys parses back to exactly those entries, byte for byte; entries that
  repeat a key are encoded too, into a document the parser refuses.
\<close>

section \<open>Parsing\<close>

record Entry =
  en_Key :: string
  en_Value :: string

datatype dotenv_error =
    NotAssignment | InvalidKey | DuplicateEntry | UnterminatedSingle | UnterminatedDouble | TrailingContent
  | DanglingBackslash | UnknownEscape

abbreviation TAB :: char where "TAB \<equiv> CHR 0x09"
abbreviation LF :: char where "LF \<equiv> CHR 0x0A"
abbreviation CR :: char where "CR \<equiv> CHR 0x0D"
abbreviation DQ :: char where "DQ \<equiv> CHR 0x22"
abbreviation SQ :: char where "SQ \<equiv> CHR 0x27"
abbreviation BACKSLASH :: char where "BACKSLASH \<equiv> CHR 0x5C"
abbreviation blanks :: string where "blanks \<equiv> [CHR '' '', TAB]"

definition cutExportPrefix :: "string \<Rightarrow> string option" where
  "cutExportPrefix s =
    (if \<not> prefix ''export'' s then None
     else case drop 6 s of
       [] \<Rightarrow> None
     | c # rest \<Rightarrow> if c \<noteq> CHR '' '' \<and> c \<noteq> TAB then None else Some (TrimLeft (c # rest) blanks))"

definition onlyTrailingBlank :: "string \<Rightarrow> dotenv_error + unit" where
  "onlyTrailingBlank s = guardE (TrimLeft s blanks = []) TrailingContent"

definition parseSingleQuoted :: "string \<Rightarrow> dotenv_error + string" where
  "parseSingleQuoted v =
    (let body = tl v in
     if SQ \<notin> set body then Inl UnterminatedSingle
     else bindE (onlyTrailingBlank (tl (dropWhile (\<lambda>c. c \<noteq> SQ) body))) (\<lambda>_. Inr (takeWhile (\<lambda>c. c \<noteq> SQ) body)))"

definition unescape :: "char \<Rightarrow> char option" where
  "unescape c = map_of
    [(CHR ''n'', LF), (CHR ''r'', CR), (CHR ''t'', TAB), (BACKSLASH, BACKSLASH), (DQ, DQ), (SQ, SQ)] c"

fun doubleQuotedFrom :: "string \<Rightarrow> string \<Rightarrow> dotenv_error + string" where
  "doubleQuotedFrom b [] = Inl UnterminatedDouble"
| "doubleQuotedFrom b (c # cs) =
    (if c = DQ then bindE (onlyTrailingBlank cs) (\<lambda>_. Inr b)
     else if c = BACKSLASH then
       (case cs of
          [] \<Rightarrow> Inl DanglingBackslash
        | e # cs' \<Rightarrow>
            (case unescape e of
               None \<Rightarrow> Inl UnknownEscape
             | Some x \<Rightarrow> doubleQuotedFrom (b @ [x]) cs'))
     else doubleQuotedFrom (b @ [c]) cs)"

definition parseDoubleQuoted :: "string \<Rightarrow> dotenv_error + string" where
  "parseDoubleQuoted v = doubleQuotedFrom [] (tl v)"

definition parseValue :: "string \<Rightarrow> dotenv_error + string" where
  "parseValue v =
    (case v of
       [] \<Rightarrow> Inr []
     | c # _ \<Rightarrow>
         if c = DQ then parseDoubleQuoted v
         else if c = SQ then parseSingleQuoted v
         else Inr (TrimRight v blanks))"

text \<open>One line: \<open>None\<close> is a blank line or a comment.\<close>

definition parseLine :: "string list \<Rightarrow> string \<Rightarrow> dotenv_error + Entry option" where
  "parseLine seen raw =
    (let line = TrimRight raw [CR]; trimmed = TrimLeft line blanks in
     if trimmed = [] \<or> prefix ''#'' trimmed then Inr None
     else
       (let body = (case cutExportPrefix trimmed of Some rest \<Rightarrow> rest | None \<Rightarrow> trimmed) in
        if CHR ''='' \<notin> set body then Inl NotAssignment
        else
          (let key = TrimRight (takeWhile (\<lambda>c. c \<noteq> CHR ''='') body) blanks in
           if \<not> isOk (CheckKeyName key) then Inl InvalidKey
           else if key \<in> set seen then Inl DuplicateEntry
           else
             bindE (parseValue (TrimLeft (tl (dropWhile (\<lambda>c. c \<noteq> CHR ''='') body)) blanks)) (\<lambda>v.
               Inr (Some \<lparr>en_Key = key, en_Value = v\<rparr>)))))"

text \<open>An error names its line, counted from one.\<close>

fun parseLines :: "nat \<Rightarrow> Entry list \<Rightarrow> string list \<Rightarrow> nat \<times> dotenv_error + Entry list" where
  "parseLines n entries [] = Inr entries"
| "parseLines n entries (raw # lines) =
    (case parseLine (map en_Key entries) raw of
       Inl e \<Rightarrow> Inl (n, e)
     | Inr None \<Rightarrow> parseLines (Suc n) entries lines
     | Inr (Some e) \<Rightarrow> parseLines (Suc n) (entries @ [e]) lines)"

definition Parse :: "string \<Rightarrow> nat \<times> dotenv_error + Entry list" where
  "Parse data = parseLines 1 [] (splitLines LF data)"


section \<open>Encoding\<close>

record Refusal =
  rf_Key :: string
  rf_Reason :: string

definition entryRefusal :: "Entry \<Rightarrow> Refusal option" where
  "entryRefusal e =
    (if \<not> isOk (CheckKeyName (en_Key e)) then Some \<lparr>rf_Key = en_Key e, rf_Reason = ''invalid name''\<rparr>
     else if NUL \<in> set (en_Value e) then Some \<lparr>rf_Key = en_Key e, rf_Reason = ''NUL byte''\<rparr>
     else None)"

definition quotableByte :: "char \<Rightarrow> bool" where
  "quotableByte c \<longleftrightarrow> c = CHR ''#'' \<or> c = BACKSLASH \<or> c = DQ \<or> c = LF \<or> c = CR \<or> c = TAB \<or> byte c < 32 \<or> byte c = 127"

definition needsQuoting :: "string \<Rightarrow> bool" where
  "needsQuoting v =
    (case v of
       [] \<Rightarrow> False
     | c # _ \<Rightarrow>
         if v \<noteq> TrimSpace v then True
         else if c = DQ \<or> c = SQ then True
         else list_ex quotableByte v)"

definition escapeByte :: "char \<Rightarrow> string" where
  "escapeByte c =
    (if c = BACKSLASH then [BACKSLASH, BACKSLASH]
     else if c = DQ then [BACKSLASH, DQ]
     else if c = LF then [BACKSLASH, CHR ''n'']
     else if c = CR then [BACKSLASH, CHR ''r'']
     else if c = TAB then [BACKSLASH, CHR ''t'']
     else [c])"

definition encodeValue :: "string \<Rightarrow> string" where
  "encodeValue v = (if needsQuoting v then DQ # concat (map escapeByte v) @ [DQ] else v)"

definition encodeLine :: "Entry \<Rightarrow> string" where
  "encodeLine e = en_Key e @ CHR ''='' # encodeValue (en_Value e)"

definition Encode :: "Entry list \<Rightarrow> Refusal list + string" where
  "Encode entries =
    (let refusals = List.map_filter entryRefusal entries in
     if refusals \<noteq> [] then Inl refusals
     else Inr (concat (map (\<lambda>e. encodeLine e @ [LF]) entries)))"


section \<open>The round trip\<close>

lemma TrimLeft_id: "s = [] \<or> hd s \<notin> set chars \<Longrightarrow> TrimLeft s chars = s"
  by (cases s) (auto simp: TrimLeft_def)

lemma TrimRight_id: "s = [] \<or> last s \<notin> set chars \<Longrightarrow> TrimRight s chars = s"
  by (cases s rule: rev_cases) (auto simp: TrimRight_def)

lemma trimmed_ends:
  assumes "trimmed v" "v \<noteq> []"
  shows "hd v \<notin> set blanks" "last v \<notin> set blanks"
proof -
  have "[CHR '' ''] \<in> set spaceRunes" "[TAB] \<in> set spaceRunes" by code_simp+
  with assms have no: "\<not> prefix [c] v \<and> \<not> suffix [c] v" if "c \<in> set blanks" for c
    using that by (auto simp: trimmed_def list_all_iff)
  show "hd v \<notin> set blanks" using no [of "hd v"] assms(2) by (cases v) auto
  show "last v \<notin> set blanks" using no [of "last v"] assms(2) by (cases v rule: rev_cases) auto
qed

lemma unescape_escape:
  "doubleQuotedFrom b (escapeByte c @ s) = doubleQuotedFrom (b @ [c]) s"
  by (auto simp: escapeByte_def unescape_def)

lemma doubleQuoted_escaped: "doubleQuotedFrom b (concat (map escapeByte v) @ [DQ]) = Inr (b @ v)"
  by (induction v arbitrary: b)
    (simp_all add: unescape_escape onlyTrailingBlank_def TrimLeft_def guardE_def)

lemma parseValue_encoded: "parseValue (TrimLeft (encodeValue v) blanks) = Inr v"
proof (cases "needsQuoting v")
  case True
  then show ?thesis
    by (simp add: encodeValue_def TrimLeft_id parseValue_def parseDoubleQuoted_def doubleQuoted_escaped)
next
  case False
  show ?thesis
  proof (cases "v = []")
    case False
    then obtain c cs where v: "v = c # cs" by (cases v) auto
    from \<open>\<not> needsQuoting v\<close> have "trimmed v" "c \<noteq> DQ" "c \<noteq> SQ"
      by (auto simp: needsQuoting_def v TrimSpace_eq_iff [symmetric] split: if_splits)
    with trimmed_ends [of v] \<open>\<not> needsQuoting v\<close> show ?thesis
      by (simp add: encodeValue_def v TrimLeft_id TrimRight_id parseValue_def)
  qed (simp add: encodeValue_def needsQuoting_def TrimLeft_def parseValue_def)
qed

lemma escapeByte_line: "d \<in> set (escapeByte c) \<Longrightarrow> d \<noteq> LF \<and> d \<noteq> CR"
  by (auto simp: escapeByte_def split: if_splits)

lemma encodeValue_line: "LF \<notin> set (encodeValue v)" "encodeValue v = [] \<or> last (encodeValue v) \<noteq> CR"
proof -
  have bare: "LF \<notin> set v \<and> CR \<notin> set v" if "\<not> needsQuoting v"
    using that by (cases v) (auto simp: needsQuoting_def quotableByte_def list_ex_iff split: if_splits)
  show "LF \<notin> set (encodeValue v)"
    using bare escapeByte_line by (auto simp: encodeValue_def)
  show "encodeValue v = [] \<or> last (encodeValue v) \<noteq> CR"
    using bare by (cases v rule: rev_cases) (auto simp: encodeValue_def)
qed

definition keyByte :: "char \<Rightarrow> bool" where
  "keyByte c \<longleftrightarrow> isUpper c \<or> is_digit c \<or> c = CHR ''_''"

lemma keyByte_plain: "keyByte c \<Longrightarrow> c \<notin> {CHR ''='', CHR ''#'', CHR ''e'', CHR '' '', TAB, LF, CR}"
  by (auto simp: keyByte_def isUpper_def is_digit_def)

lemma key_facts:
  assumes "isOk (CheckKeyName k)"
  shows "k \<noteq> []" "list_all keyByte k"
  using assms by (auto simp: CheckKeyName_def keyNameRe_def keyByte_def list_all_iff split: if_splits list.splits)

lemma key_plain:
  assumes "isOk (CheckKeyName k)" "c \<in> set k"
  shows "c \<noteq> CHR ''='' \<and> c \<noteq> CHR ''#'' \<and> c \<noteq> CHR ''e'' \<and> c \<noteq> CHR '' '' \<and> c \<noteq> TAB \<and> c \<noteq> LF \<and> c \<noteq> CR"
  using key_facts(2) [OF assms(1)] keyByte_plain assms(2) by (auto simp: list_all_iff)

lemma encodeLine_facts:
  assumes key: "isOk (CheckKeyName (en_Key e))"
  shows "LF \<notin> set (encodeLine e)" "TrimRight (encodeLine e) [CR] = encodeLine e"
    "TrimLeft (encodeLine e) blanks = encodeLine e" "encodeLine e \<noteq> []" "\<not> prefix ''#'' (encodeLine e)"
    "cutExportPrefix (encodeLine e) = None"
proof -
  obtain c cs where k: "en_Key e = c # cs" using key_facts(1) [OF key] by (cases "en_Key e") auto
  note c = key_plain [OF key, of c, unfolded k, simplified]
  show "LF \<notin> set (encodeLine e)"
    using key_plain [OF key] encodeValue_line(1) by (auto simp: encodeLine_def)
  show "TrimRight (encodeLine e) [CR] = encodeLine e"
    by (rule TrimRight_id) (use encodeValue_line(2) [of "en_Value e"] in \<open>auto simp: encodeLine_def\<close>)
  show "TrimLeft (encodeLine e) blanks = encodeLine e"
    by (rule TrimLeft_id) (use c in \<open>simp add: encodeLine_def k\<close>)
  show "encodeLine e \<noteq> []" "\<not> prefix ''#'' (encodeLine e)" "cutExportPrefix (encodeLine e) = None"
    using c by (auto simp: encodeLine_def k cutExportPrefix_def)
qed

lemma parseLine_encoded:
  assumes key: "isOk (CheckKeyName (en_Key e))"
  shows "parseLine seen (encodeLine e) = (if en_Key e \<in> set seen then Inl DuplicateEntry else Inr (Some e))"
proof -
  have eq: "CHR ''='' \<notin> set (en_Key e)" using key_plain [OF key] by blast
  have "TrimRight (en_Key e) blanks = en_Key e"
    by (rule TrimRight_id) (use key_plain [OF key, of "last (en_Key e)"] key_facts(1) [OF key] in auto)
  moreover have "takeWhile (\<lambda>c. c \<noteq> CHR ''='') (encodeLine e) = en_Key e"
    "dropWhile (\<lambda>c. c \<noteq> CHR ''='') (encodeLine e) = CHR ''='' # encodeValue (en_Value e)"
    using eq by (simp_all add: encodeLine_def takeWhile_append dropWhile_append)
  moreover have "CHR ''='' \<in> set (encodeLine e)" by (simp add: encodeLine_def)
  ultimately show ?thesis
    using encodeLine_facts [OF key] key by (simp add: parseLine_def parseValue_encoded)
qed

lemma parseLines_encoded:
  assumes "\<forall>e \<in> set es. isOk (CheckKeyName (en_Key e))" "distinct (map en_Key acc)"
  shows "if distinct (map en_Key (acc @ es))
    then parseLines n acc (splitLines LF (concat (map (\<lambda>e. encodeLine e @ [LF]) es))) = Inr (acc @ es)
    else \<exists>m. parseLines n acc (splitLines LF (concat (map (\<lambda>e. encodeLine e @ [LF]) es))) = Inl (m, DuplicateEntry)"
  using assms
proof (induction es arbitrary: acc n)
  case Nil
  then show ?case by (simp add: parseLine_def TrimRight_def TrimLeft_def)
next
  case (Cons e es)
  let ?rest = "splitLines LF (concat (map (\<lambda>e. encodeLine e @ [LF]) es))"
  have key: "isOk (CheckKeyName (en_Key e))" using Cons.prems(1) by simp
  have lines: "splitLines LF (encodeLine e @ LF # concat (map (\<lambda>e. encodeLine e @ [LF]) es)) = encodeLine e # ?rest"
    by (rule splitLines_line [OF encodeLine_facts(1) [OF key]])
  show ?case
  proof (cases "en_Key e \<in> en_Key ` set acc")
    case True
    then show ?thesis by (auto simp: lines parseLine_encoded [OF key])
  next
    case False
    with Cons.IH [of "acc @ [e]" "Suc n"] Cons.prems show ?thesis
      by (simp add: lines parseLine_encoded [OF key])
  qed
qed

lemma Encode_Inr:
  "Encode entries = Inr doc \<longleftrightarrow>
     doc = concat (map (\<lambda>e. encodeLine e @ [LF]) entries) \<and> (\<forall>e \<in> set entries. entryRefusal e = None)"
  by (auto simp: Encode_def Let_def map_filter_def filter_empty_conv)


section \<open>Property\<close>

text \<open>
  C21. The dotenv round trip: entries with valid names and no NUL byte always encode, and the document
  parses back to exactly those entries in their order, whatever whitespace, quotes, escapes,
  control or non-ASCII bytes the values hold, provided no key repeats; with a repeated key the
  encoder still writes a document, and the parser refuses it as a duplicate.
\<close>
theorem dotenv_roundtrip:
  assumes "\<forall>e \<in> set entries. isOk (CheckKeyName (en_Key e)) \<and> NUL \<notin> set (en_Value e)"
  shows "\<exists>doc. Encode entries = Inr doc \<and>
    (if distinct (map en_Key entries) then Parse doc = Inr entries else \<exists>n. Parse doc = Inl (n, DuplicateEntry))"
proof -
  have "Encode entries = Inr (concat (map (\<lambda>e. encodeLine e @ [LF]) entries))"
    using assms by (simp add: Encode_Inr entryRefusal_def)
  moreover have "\<forall>e \<in> set entries. isOk (CheckKeyName (en_Key e))" using assms by blast
  ultimately show ?thesis
    using parseLines_encoded [of entries "[]" 1] by (simp add: Parse_def split: if_splits)
qed

definition awkwardEntry :: Entry where
  "awkwardEntry = \<lparr>en_Key = ''TOKEN_1'', en_Value = '' a'' @ [LF, DQ, BACKSLASH, TAB] @ ''#=''\<rparr>"

theorem dotenv_roundtrip_witness:
  "(\<exists>doc. Encode [awkwardEntry] = Inr doc \<and> Parse doc = Inr [awkwardEntry]) \<and>
   (\<exists>doc n. Encode [awkwardEntry, awkwardEntry] = Inr doc \<and> Parse doc = Inl (n, DuplicateEntry))"
proof -
  have ok: "isOk (CheckKeyName (en_Key awkwardEntry)) \<and> NUL \<notin> set (en_Value awkwardEntry)" by code_simp
  show ?thesis
    using dotenv_roundtrip [of "[awkwardEntry]"] dotenv_roundtrip [of "[awkwardEntry, awkwardEntry]"] ok
    by simp
qed

end
