(* ===== verification/Coordination.thy ===== *)
theory Coordination
  imports Refusals
begin

text \<open>
  Installation-wide coordination (\<^verbatim>\<open>internal/store/coordination.go\<close>,
  \<^verbatim>\<open>coordination_transactions.go\<close>, \<^verbatim>\<open>coordination_fence.go\<close> and the queries of
  \<^verbatim>\<open>coordination_runtime.sql\<close>): the fenced singleton lease, the node registry, the shared
  admission counters and the admission of model-context calls. The tables are one record; an
  operation is a function of it that runs in a transaction, and \<open>txOutcome\<close> is what the
  datastore does with that transaction: fail before anything is written, fail at commit, lose the
  answer of a commit that happened, or commit. Times are nanoseconds since the zero time.
  SQLite columns hold the fixed-width microsecond form (\<open>fixedStamp\<close>), whose lexical order is
  the order of the instants. Int64 counters are integers: they move by one per call.
  Results: the limits on concurrent calls hold in every reachable state, the token bucket
  bounds the calls of a principal over any interval, and the lease operations keep the fence
  monotone.
\<close>

section \<open>The tables\<close>

type_synonym Engine = string

abbreviation EngineSQLite :: Engine where "EngineSQLite \<equiv> ''sqlite''"
abbreviation EnginePostgres :: Engine where "EnginePostgres \<equiv> ''postgres''"

abbreviation Second :: Time where "Second \<equiv> 1000000000"
abbreviation Minute :: Time where "Minute \<equiv> 60 * Second"

datatype CoordError =
    StoreFailure | UnknownEngine | InvalidClaim | EmptyCallID
  | ErrMCPAdmissionLimited | ErrMixedRootKey | TopologyConflict | ErrSingletonLeaseLost

record Lease =
  ls_owner :: string
  ls_fence :: int
  ls_acquired :: Time
  ls_expires :: Time

record HANode =
  hn_NodeID :: string
  hn_BinaryVersion :: string
  hn_SchemaVersion :: int
  hn_RootKeyFingerprint :: string
  hn_StartedAt :: Time
  hn_HeartbeatAt :: Time

record Counter =
  ct_hits :: int
  ct_failures :: int
  ct_until :: "Time option"

record MCPClaim =
  mc_call :: string
  mc_principal :: string
  mc_org :: string
  mc_expires :: Time

text \<open>
  A row of the rollout history with its JSON columns decoded: \<open>None\<close> for a column that does
  not decode.
\<close>

record SingletonTopology =
  tp_HA :: bool
  tp_NodeID :: string

record TopologyRow =
  tr_Before :: SingletonTopology
  tr_After :: SingletonTopology
  tr_Action :: string

record RolloutRow =
  ro_command :: "(string \<times> string) option"
  ro_response :: "string option"
  ro_currentGeneration :: bool

record CoordDB =
  db_leases :: "string \<rightharpoonup> Lease"
  db_nodes :: "HANode list"
  db_counters :: "string \<times> string \<times> Time \<rightharpoonup> Counter"
  db_mcp :: "MCPClaim list"
  db_mcpRate :: "string \<rightharpoonup> Time"
  db_topology :: "TopologyRow option option"
  db_rollout :: "RolloutRow option"

definition emptyCoordDB :: CoordDB where
  "emptyCoordDB = \<lparr>db_leases = Map.empty, db_nodes = [], db_counters = Map.empty, db_mcp = [],
                  db_mcpRate = Map.empty, db_topology = None, db_rollout = None\<rparr>"

text \<open>
  The connection: its engine, the identity of the process it was bound to, and the clock
  value (\<^verbatim>\<open>now()\<close> of the transaction on PostgreSQL, the process clock on SQLite).
\<close>

record Conn =
  cn_engine :: Engine
  cn_nodeID :: string
  cn_templateStamp :: string
  cn_clock :: Time

definition fixedStamp :: "Time \<Rightarrow> Time" where
  "fixedStamp t = truncateMicro t"

definition column :: "Conn \<Rightarrow> Time \<Rightarrow> Time" where
  "column c t = (if cn_engine c = EngineSQLite then fixedStamp t else t)"

definition knownEngine :: "Conn \<Rightarrow> bool" where
  "knownEngine c \<longleftrightarrow> cn_engine c = EnginePostgres \<or> cn_engine c = EngineSQLite"

definition pgConn :: "string \<Rightarrow> string \<Rightarrow> Time \<Rightarrow> Conn" where
  "pgConn nodeID stamp t = \<lparr>cn_engine = EnginePostgres, cn_nodeID = nodeID, cn_templateStamp = stamp, cn_clock = t\<rparr>"

lemma column_pgConn [simp]: "column (pgConn n stamp t) u = u"
  by (simp add: column_def pgConn_def)

definition accountWindow :: Time where
  "accountWindow = unixTime 0"

abbreviation AccountBucket :: string where "AccountBucket \<equiv> ''account''"


section \<open>Transactions\<close>

datatype txOutcome = BeginFails | CommitFails | CommitLost | Commits

text \<open>The error of the transaction, the value its body assigned, and the tables after it.\<close>

definition transaction ::
    "txOutcome \<Rightarrow> (CoordDB \<Rightarrow> CoordError + 'a \<times> CoordDB) \<Rightarrow> CoordDB \<Rightarrow> CoordError option \<times> 'a option \<times> CoordDB" where
  "transaction out fn db =
    (if out = BeginFails then (Some StoreFailure, None, db)
     else case fn db of
       Inl e \<Rightarrow> (Some e, None, db)
     | Inr (x, db') \<Rightarrow>
         (case out of
            Commits \<Rightarrow> (None, Some x, db')
          | CommitLost \<Rightarrow> (Some StoreFailure, Some x, db')
          | _ \<Rightarrow> (Some StoreFailure, Some x, db)))"

text \<open>A wrapper that returns the value only without an error.\<close>

definition inTransaction ::
    "txOutcome \<Rightarrow> (CoordDB \<Rightarrow> CoordError + 'a \<times> CoordDB) \<Rightarrow> CoordDB \<Rightarrow> (CoordError + 'a) \<times> CoordDB" where
  "inTransaction out fn db =
    (case transaction out fn db of
       (None, Some x, db') \<Rightarrow> (Inr x, db')
     | (Some e, _, db') \<Rightarrow> (Inl e, db')
     | (None, None, db') \<Rightarrow> (Inl StoreFailure, db'))"


section \<open>The topology of a singleton deployment\<close>

record topologyAssignment =
  ta_Change :: TopologyRow
  ta_Stamp :: string
  ta_Restoring :: bool

definition currentTopology :: "CoordDB \<Rightarrow> CoordError + topologyAssignment option" where
  "currentTopology db =
    (case db_topology db of
       None \<Rightarrow> Inr None
     | Some None \<Rightarrow> Inl TopologyConflict
     | Some (Some row) \<Rightarrow>
         (case db_rollout db of
            None \<Rightarrow> Inl StoreFailure
          | Some ro \<Rightarrow>
              (case (ro_command ro, ro_response ro) of
                 (Some (action, previousStamp), Some stamp) \<Rightarrow>
                   Inr (Some \<lparr>ta_Change = row,
                              ta_Stamp = (if action = ''restore'' then previousStamp else stamp),
                              ta_Restoring =
                                (tr_Action row = ''restore'' \<and> tr_Before row \<noteq> tr_After row) \<or>
                                (ro_currentGeneration ro \<and> action = ''restore'')\<rparr>)
               | _ \<Rightarrow> Inl TopologyConflict)))"

definition topologyLeaseAllowed :: "Conn \<Rightarrow> string \<Rightarrow> CoordDB \<Rightarrow> CoordError + unit" where
  "topologyLeaseAllowed c nodeID db =
    bindE (currentTopology db) (\<lambda>assignment.
      case assignment of
        None \<Rightarrow> Inr ()
      | Some a \<Rightarrow>
          guardE (\<not> (ta_Restoring a \<or> \<not> tp_HA (tr_After (ta_Change a)) \<or>
                     tp_NodeID (tr_After (ta_Change a)) \<noteq> nodeID \<or>
                     cn_nodeID c \<noteq> nodeID \<or> cn_templateStamp c \<noteq> ta_Stamp a))
                 TopologyConflict)"


section \<open>The singleton lease\<close>

definition Tx_ClaimLease :: "Conn \<Rightarrow> string \<Rightarrow> string \<Rightarrow> Time \<Rightarrow> Time \<Rightarrow> CoordDB \<Rightarrow> CoordError + (int \<times> bool) \<times> CoordDB" where
  "Tx_ClaimLease c name owner now expires db =
    bindE (if name = ''scheduler'' then topologyLeaseAllowed c owner db else Inr ()) (\<lambda>_.
    bindE (guardE (knownEngine c) UnknownEngine) (\<lambda>_.
      let row = (\<lambda>fence. \<lparr>ls_owner = owner, ls_fence = fence, ls_acquired = column c now, ls_expires = column c expires\<rparr>)
      in case db_leases db name of
           None \<Rightarrow> Inr ((1, True), db\<lparr>db_leases := (db_leases db)(name \<mapsto> row 1)\<rparr>)
         | Some l \<Rightarrow>
             (if ls_expires l \<le> column c now
              then Inr ((ls_fence l + 1, True), db\<lparr>db_leases := (db_leases db)(name \<mapsto> row (ls_fence l + 1))\<rparr>)
              else Inr ((0, False), db))))"

text \<open>The fence survives a commit error; whether the lease is held does not.\<close>

definition ClaimLease ::
    "txOutcome \<Rightarrow> Conn \<Rightarrow> string \<Rightarrow> string \<Rightarrow> Time \<Rightarrow> Time \<Rightarrow> CoordDB \<Rightarrow> (int \<times> bool \<times> CoordError option) \<times> CoordDB" where
  "ClaimLease out c name owner now expires db =
    (case transaction out (Tx_ClaimLease c name owner now expires) db of
       (err, x, db') \<Rightarrow>
         (case (err, x) of
            (None, Some (fence, held)) \<Rightarrow> ((fence, held, None), db')
          | (None, None) \<Rightarrow> ((0, False, None), db')
          | (Some e, Some (fence, held)) \<Rightarrow> ((fence, False, Some e), db')
          | (Some e, None) \<Rightarrow> ((0, False, Some e), db')))"

definition holdsLease :: "Lease \<Rightarrow> string \<Rightarrow> int \<Rightarrow> bool" where
  "holdsLease l owner fence \<longleftrightarrow> ls_owner l = owner \<and> ls_fence l = fence"

definition Tx_RenewLease :: "Conn \<Rightarrow> string \<Rightarrow> string \<Rightarrow> int \<Rightarrow> Time \<Rightarrow> Time \<Rightarrow> CoordDB \<Rightarrow> CoordError + bool \<times> CoordDB" where
  "Tx_RenewLease c name owner fence now expires db =
    bindE (if name = ''scheduler'' then topologyLeaseAllowed c owner db else Inr ()) (\<lambda>_.
    bindE (guardE (knownEngine c) UnknownEngine) (\<lambda>_.
      case db_leases db name of
        None \<Rightarrow> Inr (False, db)
      | Some l \<Rightarrow>
          (if holdsLease l owner fence \<and> ls_expires l > column c now
           then Inr (True, db\<lparr>db_leases := (db_leases db)(name \<mapsto> l\<lparr>ls_expires := column c expires\<rparr>)\<rparr>)
           else Inr (False, db))))"

definition RenewLease ::
    "txOutcome \<Rightarrow> Conn \<Rightarrow> string \<Rightarrow> string \<Rightarrow> int \<Rightarrow> Time \<Rightarrow> Time \<Rightarrow> CoordDB \<Rightarrow> (CoordError + bool) \<times> CoordDB" where
  "RenewLease out c name owner fence now expires = inTransaction out (Tx_RenewLease c name owner fence now expires)"

definition Tx_ReleaseLease :: "Conn \<Rightarrow> string \<Rightarrow> string \<Rightarrow> int \<Rightarrow> CoordDB \<Rightarrow> CoordError + unit \<times> CoordDB" where
  "Tx_ReleaseLease c name owner fence db =
    bindE (guardE (knownEngine c) UnknownEngine) (\<lambda>_.
      case db_leases db name of
        None \<Rightarrow> Inr ((), db)
      | Some l \<Rightarrow>
          (if holdsLease l owner fence
           then Inr ((), db\<lparr>db_leases := (db_leases db)(name \<mapsto> l\<lparr>ls_expires := column c accountWindow\<rparr>)\<rparr>)
           else Inr ((), db)))"

definition ReleaseLease ::
    "txOutcome \<Rightarrow> Conn \<Rightarrow> string \<Rightarrow> string \<Rightarrow> int \<Rightarrow> CoordDB \<Rightarrow> (CoordError + unit) \<times> CoordDB" where
  "ReleaseLease out c name owner fence = inTransaction out (Tx_ReleaseLease c name owner fence)"

definition LeaseHolder :: "Conn \<Rightarrow> string \<Rightarrow> Time \<Rightarrow> CoordDB \<Rightarrow> CoordError + (string \<times> Time \<times> bool)" where
  "LeaseHolder c name now db =
    (if \<not> knownEngine c then Inl UnknownEngine
     else case db_leases db name of
       None \<Rightarrow> Inr ([], 0, False)
     | Some l \<Rightarrow> Inr (ls_owner l, ls_acquired l, ls_expires l > now))"

text \<open>
  The guard of a write transaction. The term of the context is absent for ordinary requests.
\<close>

definition GuardSingletonLease :: "Conn \<Rightarrow> (string \<times> string \<times> int) option \<Rightarrow> CoordDB \<Rightarrow> CoordError + unit" where
  "GuardSingletonLease c term db =
    (case term of
       None \<Rightarrow> Inr ()
     | Some (name, owner, fence) \<Rightarrow>
         (case db_leases db name of
            None \<Rightarrow> Inl ErrSingletonLeaseLost
          | Some l \<Rightarrow> guardE (holdsLease l owner fence \<and> ls_expires l > column c (cn_clock c)) ErrSingletonLeaseLost))"


section \<open>The node registry\<close>

definition upsertNode :: "Conn \<Rightarrow> HANode \<Rightarrow> HANode list \<Rightarrow> HANode list" where
  "upsertNode c n nodes =
    (if \<exists>m \<in> set nodes. hn_NodeID m = hn_NodeID n
     then map (\<lambda>m. if hn_NodeID m = hn_NodeID n
                   then n\<lparr>hn_StartedAt := hn_StartedAt m, hn_HeartbeatAt := column c (hn_HeartbeatAt n)\<rparr> else m) nodes
     else nodes @ [n\<lparr>hn_StartedAt := column c (hn_StartedAt n), hn_HeartbeatAt := column c (hn_HeartbeatAt n)\<rparr>])"

definition UpsertNode :: "Conn \<Rightarrow> HANode \<Rightarrow> CoordDB \<Rightarrow> CoordError + unit \<times> CoordDB" where
  "UpsertNode c n db =
    bindE (topologyLeaseAllowed c (hn_NodeID n) db) (\<lambda>_.
    bindE (guardE (knownEngine c) UnknownEngine) (\<lambda>_.
      Inr ((), db\<lparr>db_nodes := upsertNode c n (db_nodes db)\<rparr>)))"

definition foreignNodes :: "Conn \<Rightarrow> string \<Rightarrow> string \<Rightarrow> Time \<Rightarrow> CoordDB \<Rightarrow> HANode list" where
  "foreignNodes c nodeID fingerprint since db =
    filter (\<lambda>m. hn_NodeID m \<noteq> nodeID \<and> hn_RootKeyFingerprint m \<noteq> fingerprint \<and> hn_HeartbeatAt m \<ge> column c since) (db_nodes db)"

definition ForeignRootKeyFingerprints :: "Conn \<Rightarrow> string \<Rightarrow> string \<Rightarrow> Time \<Rightarrow> CoordDB \<Rightarrow> CoordError + string list" where
  "ForeignRootKeyFingerprints c nodeID fingerprint since db =
    (if \<not> knownEngine c then Inl UnknownEngine
     else Inr (remdups (map hn_RootKeyFingerprint (foreignNodes c nodeID fingerprint since db))))"

definition RegisterNodeChecked :: "Conn \<Rightarrow> HANode \<Rightarrow> Time \<Rightarrow> CoordDB \<Rightarrow> CoordError + unit \<times> CoordDB" where
  "RegisterNodeChecked c n since db =
    bindE (topologyLeaseAllowed c (hn_NodeID n) db) (\<lambda>_.
      if cn_engine c = EnginePostgres then
        (if length (foreignNodes c (hn_NodeID n) (hn_RootKeyFingerprint n) since db) > 0 then Inl ErrMixedRootKey
         else Inr ((), db\<lparr>db_nodes := upsertNode c n (db_nodes db)\<rparr>))
      else bindE (ForeignRootKeyFingerprints c (hn_NodeID n) (hn_RootKeyFingerprint n) since db) (\<lambda>foreign.
        if foreign \<noteq> [] then Inl ErrMixedRootKey else UpsertNode c n db))"

definition CountLiveNodes :: "Conn \<Rightarrow> Time \<Rightarrow> CoordDB \<Rightarrow> CoordError + nat" where
  "CountLiveNodes c since db =
    (if \<not> knownEngine c then Inl UnknownEngine
     else Inr (length (filter (\<lambda>m. hn_HeartbeatAt m \<ge> column c since) (db_nodes db))))"

definition PruneNodes :: "Conn \<Rightarrow> Time \<Rightarrow> CoordDB \<Rightarrow> CoordError + unit \<times> CoordDB" where
  "PruneNodes c cutoff db =
    (if \<not> knownEngine c then Inl UnknownEngine
     else Inr ((), db\<lparr>db_nodes := filter (\<lambda>m. \<not> hn_HeartbeatAt m < column c cutoff) (db_nodes db)\<rparr>))"


section \<open>Admission counters\<close>

definition Tx_BumpWindow :: "Conn \<Rightarrow> string \<Rightarrow> string \<Rightarrow> Time \<Rightarrow> CoordDB \<Rightarrow> CoordError + int \<times> CoordDB" where
  "Tx_BumpWindow c bucket subject windowStart db =
    bindE (guardE (knownEngine c) UnknownEngine) (\<lambda>_.
      let k = (bucket, subject, column c windowStart);
          row = (case db_counters db k of
                   None \<Rightarrow> \<lparr>ct_hits = 1, ct_failures = 0, ct_until = None\<rparr>
                 | Some r \<Rightarrow> r\<lparr>ct_hits := ct_hits r + 1\<rparr>)
      in Inr (ct_hits row, db\<lparr>db_counters := (db_counters db)(k \<mapsto> row)\<rparr>))"

definition BumpWindow :: "txOutcome \<Rightarrow> Conn \<Rightarrow> string \<Rightarrow> string \<Rightarrow> Time \<Rightarrow> CoordDB \<Rightarrow> (CoordError + int) \<times> CoordDB" where
  "BumpWindow out c bucket subject windowStart = inTransaction out (Tx_BumpWindow c bucket subject windowStart)"

text \<open>Failures, the last failure (the zero time for none), the datastore's time, and whether a row exists.\<close>

definition Tx_AccountFailureState :: "Conn \<Rightarrow> string \<Rightarrow> CoordDB \<Rightarrow> CoordError + (int \<times> Time \<times> Time \<times> bool) \<times> CoordDB" where
  "Tx_AccountFailureState c subject db =
    bindE (guardE (knownEngine c) UnknownEngine) (\<lambda>_.
      case db_counters db (AccountBucket, subject, column c accountWindow) of
        None \<Rightarrow> Inr ((0, 0, 0, False), db)
      | Some r \<Rightarrow> Inr ((ct_failures r, case ct_until r of None \<Rightarrow> 0 | Some t \<Rightarrow> t, cn_clock c, True), db))"

definition AccountFailureState ::
    "txOutcome \<Rightarrow> Conn \<Rightarrow> string \<Rightarrow> CoordDB \<Rightarrow> (CoordError + (int \<times> Time \<times> Time \<times> bool)) \<times> CoordDB" where
  "AccountFailureState out c subject = inTransaction out (Tx_AccountFailureState c subject)"

text \<open>
  \<^verbatim>\<open>GREATEST\<close> of PostgreSQL skips a null, \<^verbatim>\<open>max\<close> of SQLite answers null for one. The
  instant is the datastore's clock on PostgreSQL, the caller's on SQLite.
\<close>

definition laterStamp :: "Conn \<Rightarrow> Time option \<Rightarrow> Time \<Rightarrow> Time option" where
  "laterStamp c prev t =
    (case prev of
       None \<Rightarrow> (if cn_engine c = EngineSQLite then None else Some t)
     | Some p \<Rightarrow> Some (max p t))"

definition Tx_RecordAccountFailure :: "Conn \<Rightarrow> string \<Rightarrow> Time \<Rightarrow> CoordDB \<Rightarrow> CoordError + int \<times> CoordDB" where
  "Tx_RecordAccountFailure c subject now db =
    bindE (guardE (knownEngine c) UnknownEngine) (\<lambda>_.
      let k = (AccountBucket, subject, column c accountWindow);
          t = (if cn_engine c = EngineSQLite then fixedStamp now else cn_clock c);
          row = (case db_counters db k of
                   None \<Rightarrow> \<lparr>ct_hits = 0, ct_failures = 1, ct_until = Some t\<rparr>
                 | Some r \<Rightarrow> r\<lparr>ct_failures := ct_failures r + 1, ct_until := laterStamp c (ct_until r) t\<rparr>)
      in Inr (ct_failures row, db\<lparr>db_counters := (db_counters db)(k \<mapsto> row)\<rparr>))"

definition RecordAccountFailure ::
    "txOutcome \<Rightarrow> Conn \<Rightarrow> string \<Rightarrow> Time \<Rightarrow> CoordDB \<Rightarrow> (CoordError + int) \<times> CoordDB" where
  "RecordAccountFailure out c subject now = inTransaction out (Tx_RecordAccountFailure c subject now)"

definition ClearAccount :: "txOutcome \<Rightarrow> Conn \<Rightarrow> string \<Rightarrow> CoordDB \<Rightarrow> (CoordError + unit) \<times> CoordDB" where
  "ClearAccount out c subject = inTransaction out (\<lambda>db.
    bindE (guardE (knownEngine c) UnknownEngine) (\<lambda>_.
      Inr ((), db\<lparr>db_counters := (db_counters db)((AccountBucket, subject, column c accountWindow) := None)\<rparr>)))"

definition PruneAccountBackoff :: "Conn \<Rightarrow> Time \<Rightarrow> CoordDB \<Rightarrow> CoordError + unit \<times> CoordDB" where
  "PruneAccountBackoff c cutoff db =
    (if \<not> knownEngine c then Inl UnknownEngine
     else Inr ((), db\<lparr>db_counters := (\<lambda>(bucket, subject, window).
       case db_counters db (bucket, subject, window) of
         None \<Rightarrow> None
       | Some r \<Rightarrow>
           (if bucket = AccountBucket \<and> (case ct_until r of None \<Rightarrow> True | Some t \<Rightarrow> t < column c cutoff)
            then None else Some r))\<rparr>))"

definition PruneAdmissionWindows :: "Conn \<Rightarrow> Time \<Rightarrow> CoordDB \<Rightarrow> CoordError + unit \<times> CoordDB" where
  "PruneAdmissionWindows c cutoff db =
    (if \<not> knownEngine c then Inl UnknownEngine
     else Inr ((), db\<lparr>db_counters := (\<lambda>(bucket, subject, window).
       if bucket \<noteq> AccountBucket \<and> window < column c cutoff then None
       else db_counters db (bucket, subject, window))\<rparr>))"


section \<open>Admission of model-context calls\<close>

definition MCPRateCapacity :: int where "MCPRateCapacity = 20"
definition MCPRateRefillInterval :: Time where "MCPRateRefillInterval = Second"
definition MCPPrincipalLimit :: nat where "MCPPrincipalLimit = 4"
definition MCPOrganizationLimit :: nat where "MCPOrganizationLimit = 8"
definition MCPInstanceLimit :: nat where "MCPInstanceLimit = 64"

definition countMCPClaims :: "(MCPClaim \<Rightarrow> bool) \<Rightarrow> MCPClaim list \<Rightarrow> nat" where
  "countMCPClaims P claims = length (filter P claims)"

definition AcquireMCP :: "Conn \<Rightarrow> string \<Rightarrow> string \<Rightarrow> string \<Rightarrow> Time \<Rightarrow> CoordDB \<Rightarrow> CoordError + unit \<times> CoordDB" where
  "AcquireMCP c callID principalID orgID ttl db =
    bindE (guardE (\<not> (callID = [] \<or> principalID = [] \<or> orgID = [] \<or> ttl \<le> 0)) InvalidClaim) (\<lambda>_.
    bindE (guardE (knownEngine c) UnknownEngine) (\<lambda>_.
      let now = cn_clock c;
          claims = filter (\<lambda>m. \<not> mc_expires m \<le> column c now) (db_mcp db)
      in if countMCPClaims (\<lambda>m. mc_principal m = principalID) claims \<ge> MCPPrincipalLimit \<or>
            countMCPClaims (\<lambda>m. mc_org m = orgID) claims \<ge> MCPOrganizationLimit \<or>
            countMCPClaims (\<lambda>m. True) claims \<ge> MCPInstanceLimit
         then Inl ErrMCPAdmissionLimited
         else
           let nextAt = (case db_mcpRate db principalID of None \<Rightarrow> now | Some t \<Rightarrow> t)
           in if nextAt > now + (MCPRateCapacity - 1) * MCPRateRefillInterval then Inl ErrMCPAdmissionLimited
              else if \<exists>m \<in> set claims. mc_call m = callID then Inl StoreFailure
              else Inr ((), db\<lparr>
                db_mcp := claims @ [\<lparr>mc_call = callID, mc_principal = principalID, mc_org = orgID,
                                    mc_expires = column c (now + ttl)\<rparr>],
                db_mcpRate := (db_mcpRate db)
                  (principalID \<mapsto> column c ((if nextAt < now then now else nextAt) + MCPRateRefillInterval))\<rparr>)))"

definition ReleaseMCP :: "Conn \<Rightarrow> string \<Rightarrow> CoordDB \<Rightarrow> CoordError + unit \<times> CoordDB" where
  "ReleaseMCP c callID db =
    (if callID = [] then Inl EmptyCallID
     else if \<not> knownEngine c then Inl UnknownEngine
     else Inr ((), db\<lparr>db_mcp := filter (\<lambda>m. mc_call m \<noteq> callID) (db_mcp db)\<rparr>))"


section \<open>Facts about transactions\<close>

lemma inTransaction_state:
  "snd (inTransaction out fn db) = db \<or> (\<exists>x. fn db = Inr (x, snd (inTransaction out fn db)))"
  by (cases "fn db"; cases out) (auto simp: inTransaction_def transaction_def)

lemma inTransaction_ok:
  "fst (inTransaction out fn db) = Inr x \<longleftrightarrow> out = Commits \<and> (\<exists>db'. fn db = Inr (x, db'))"
  by (cases "fn db"; cases out) (auto simp: inTransaction_def transaction_def)

lemma inTransaction_commits:
  "fn db = Inr (x, db') \<Longrightarrow> inTransaction Commits fn db = (Inr x, db')"
  by (simp add: inTransaction_def transaction_def)

lemma inTransaction_invariant:
  assumes "P db" "\<And>x db'. fn db = Inr (x, db') \<Longrightarrow> P db'"
  shows "P (snd (inTransaction out fn db))"
  using inTransaction_state [of out fn db] assms by metis

lemma fixedStamp_bounds: "t - 999 \<le> fixedStamp t" "fixedStamp t \<le> t"
  using pos_mod_bound [of 1000 t] by (simp_all add: fixedStamp_def truncateMicro_def)

lemma column_bounds: "column c t \<le> t" "t - 999 \<le> column c t"
  using fixedStamp_bounds [of t] by (simp_all add: column_def)

lemma column_mono: "s \<le> t \<Longrightarrow> column c s \<le> column c t"
proof -
  assume "s \<le> t"
  then have "s div 1000 \<le> t div 1000" by (rule zdiv_mono1) simp
  moreover have "u - u mod 1000 = 1000 * (u div 1000)" for u :: int
    by (simp add: minus_mod_eq_mult_div)
  ultimately show ?thesis using \<open>s \<le> t\<close> by (simp add: column_def fixedStamp_def truncateMicro_def)
qed


section \<open>The limits on model-context calls\<close>

datatype mcpCall = AcquireCall string string string Time | ReleaseCall string

definition mcpTx :: "Conn \<Rightarrow> mcpCall \<Rightarrow> CoordDB \<Rightarrow> CoordError + unit \<times> CoordDB" where
  "mcpTx c call =
    (case call of
       AcquireCall callID who org ttl \<Rightarrow> AcquireMCP c callID who org ttl
     | ReleaseCall callID \<Rightarrow> ReleaseMCP c callID)"

text \<open>The calls admitted for a principal in a run of transactions, and the tables after it.\<close>

fun mcpRun :: "(txOutcome \<times> Conn \<times> mcpCall) list \<Rightarrow> CoordDB \<Rightarrow> CoordDB" where
  "mcpRun [] db = db"
| "mcpRun ((out, c, call) # run) db = mcpRun run (snd (inTransaction out (mcpTx c call) db))"

definition admits :: "string \<Rightarrow> txOutcome \<Rightarrow> Conn \<Rightarrow> mcpCall \<Rightarrow> CoordDB \<Rightarrow> bool" where
  "admits p out c call db \<longleftrightarrow>
     (case call of AcquireCall _ who _ _ \<Rightarrow> who = p | ReleaseCall _ \<Rightarrow> False) \<and>
     isOk (fst (inTransaction out (mcpTx c call) db))"

fun mcpAdmitted :: "string \<Rightarrow> (txOutcome \<times> Conn \<times> mcpCall) list \<Rightarrow> CoordDB \<Rightarrow> nat" where
  "mcpAdmitted p [] db = 0"
| "mcpAdmitted p ((out, c, call) # run) db =
    (if admits p out c call db then 1 else 0) + mcpAdmitted p run (snd (inTransaction out (mcpTx c call) db))"

definition mcpWithin :: "CoordDB \<Rightarrow> bool" where
  "mcpWithin db \<longleftrightarrow>
     (\<forall>p. countMCPClaims (\<lambda>m. mc_principal m = p) (db_mcp db) \<le> MCPPrincipalLimit) \<and>
     (\<forall>g. countMCPClaims (\<lambda>m. mc_org m = g) (db_mcp db) \<le> MCPOrganizationLimit) \<and>
     length (db_mcp db) \<le> MCPInstanceLimit \<and> distinct (map mc_call (db_mcp db))"

lemma countMCPClaims_filter:
  "countMCPClaims P (filter Q claims) \<le> countMCPClaims P claims"
proof -
  have "filter P (filter Q claims) = filter Q (filter P claims)" by (simp add: conj_commute)
  then show ?thesis by (simp add: countMCPClaims_def del: filter_filter)
qed

lemma countMCPClaims_snoc:
  "countMCPClaims P (claims @ [m]) = countMCPClaims P claims + (if P m then 1 else 0)"
  by (simp add: countMCPClaims_def)

lemma mcpWithin_filter:
  assumes "mcpWithin db" "db_mcp db' = filter Q (db_mcp db)"
  shows "mcpWithin db'"
  using assms le_trans [OF countMCPClaims_filter] le_trans [OF length_filter_le]
  by (auto simp: mcpWithin_def distinct_map_filter)

lemma AcquireMCP_cases:
  assumes "AcquireMCP c callID p g ttl db = Inr (u, db')"
  obtains claims nextAt where
    "claims = filter (\<lambda>m. \<not> mc_expires m \<le> column c (cn_clock c)) (db_mcp db)"
    "countMCPClaims (\<lambda>m. mc_principal m = p) claims < MCPPrincipalLimit"
    "countMCPClaims (\<lambda>m. mc_org m = g) claims < MCPOrganizationLimit"
    "length claims < MCPInstanceLimit" "callID \<notin> mc_call ` set claims"
    "nextAt = (case db_mcpRate db p of None \<Rightarrow> cn_clock c | Some t \<Rightarrow> t)"
    "nextAt \<le> cn_clock c + (MCPRateCapacity - 1) * MCPRateRefillInterval"
    "db_mcp db' = claims @ [\<lparr>mc_call = callID, mc_principal = p, mc_org = g, mc_expires = column c (cn_clock c + ttl)\<rparr>]"
    "db_mcpRate db' = (db_mcpRate db)(p \<mapsto> column c (max nextAt (cn_clock c) + MCPRateRefillInterval))"
proof -
  define claims where "claims = filter (\<lambda>m. \<not> mc_expires m \<le> column c (cn_clock c)) (db_mcp db)"
  define nextAt where "nextAt = (case db_mcpRate db p of None \<Rightarrow> cn_clock c | Some t \<Rightarrow> t)"
  have ok: "\<not> (countMCPClaims (\<lambda>m. mc_principal m = p) claims \<ge> MCPPrincipalLimit \<or>
       countMCPClaims (\<lambda>m. mc_org m = g) claims \<ge> MCPOrganizationLimit \<or>
       countMCPClaims (\<lambda>m. True) claims \<ge> MCPInstanceLimit)"
    "\<not> nextAt > cn_clock c + (MCPRateCapacity - 1) * MCPRateRefillInterval"
    "\<not> (\<exists>m \<in> set claims. mc_call m = callID)"
    and db': "db' = db\<lparr>
       db_mcp := claims @ [\<lparr>mc_call = callID, mc_principal = p, mc_org = g, mc_expires = column c (cn_clock c + ttl)\<rparr>],
       db_mcpRate := (db_mcpRate db)
         (p \<mapsto> column c ((if nextAt < cn_clock c then cn_clock c else nextAt) + MCPRateRefillInterval))\<rparr>"
    using assms unfolding AcquireMCP_def Let_def claims_def [symmetric] nextAt_def [symmetric]
    by (simp_all only: bindE_eq_Inr split: if_split_asm) simp_all
  have "max nextAt (cn_clock c) = (if nextAt < cn_clock c then cn_clock c else nextAt)" by simp
  with ok db' show ?thesis
    by (intro that [OF claims_def _ _ _ _ nextAt_def]) (auto simp: not_le countMCPClaims_def)
qed

lemma AcquireMCP_within:
  assumes "mcpWithin db" "AcquireMCP c callID p g ttl db = Inr (u, db')"
  shows "mcpWithin db'"
  using assms(2)
proof (cases rule: AcquireMCP_cases)
  case (1 claims nextAt)
  have "mcpWithin (db\<lparr>db_mcp := claims\<rparr>)"
    by (rule mcpWithin_filter [OF assms(1)]) (simp add: 1(1))
  then show ?thesis
    using 1 by (auto simp: mcpWithin_def countMCPClaims_snoc intro: Suc_leI less_imp_le)
qed

lemma mcpTx_within: "mcpWithin db \<Longrightarrow> mcpTx c call db = Inr (u, db') \<Longrightarrow> mcpWithin db'"
proof (cases call)
  case (ReleaseCall x)
  assume "mcpWithin db" "mcpTx c call db = Inr (u, db')"
  then show ?thesis
    by (auto simp: ReleaseCall mcpTx_def ReleaseMCP_def split: if_splits intro!: mcpWithin_filter [where db = db])
qed (auto simp: mcpTx_def intro: AcquireMCP_within)

lemma mcpRun_within: "mcpWithin db \<Longrightarrow> mcpWithin (mcpRun run db)"
proof (induction run db rule: mcpRun.induct)
  case (2 out c call run db)
  have "mcpWithin (snd (inTransaction out (mcpTx c call) db))"
    by (rule inTransaction_invariant [where P = mcpWithin, OF \<open>mcpWithin db\<close>]) (rule mcpTx_within [OF \<open>mcpWithin db\<close>])
  then show ?case using "2.IH" by simp
qed simp

text \<open>
  C23. The concurrency limits on model-context calls hold after any run of admissions and
  releases by any number of nodes, with any of the transactions failing or losing its answer:
  at most four claims per principal, eight per organization and sixty-four in all, and no call
  identifier twice.
\<close>

theorem mcp_limits_kept:
  "countMCPClaims (\<lambda>m. mc_principal m = p) (db_mcp (mcpRun run emptyCoordDB)) \<le> MCPPrincipalLimit \<and>
   countMCPClaims (\<lambda>m. mc_org m = g) (db_mcp (mcpRun run emptyCoordDB)) \<le> MCPOrganizationLimit \<and>
   length (db_mcp (mcpRun run emptyCoordDB)) \<le> MCPInstanceLimit \<and>
   distinct (map mc_call (db_mcp (mcpRun run emptyCoordDB)))"
  using mcpRun_within [of emptyCoordDB run]
  by (simp add: mcpWithin_def emptyCoordDB_def countMCPClaims_def)


section \<open>The token bucket\<close>

definition mcpGrain :: "Engine \<Rightarrow> Time" where
  "mcpGrain e = (if e = EngineSQLite then 999 else 0)"

definition rateFloor :: "string \<Rightarrow> Time \<Rightarrow> CoordDB \<Rightarrow> Time" where
  "rateFloor p t0 db = (case db_mcpRate db p of None \<Rightarrow> t0 | Some t \<Rightarrow> max t t0)"

lemma column_grain: "t - mcpGrain (cn_engine c) \<le> column c t"
  using fixedStamp_bounds [of t] by (simp add: column_def mcpGrain_def)

lemma mcpGrain_le: "mcpGrain e \<le> MCPRateRefillInterval"
  by (simp add: mcpGrain_def MCPRateRefillInterval_def)

lemma AcquireMCP_rate:
  assumes "AcquireMCP c callID q g ttl db = Inr (u, db')" "t0 \<le> cn_clock c" "cn_clock c \<le> T"
  shows "rateFloor p t0 db \<le> rateFloor p t0 db'"
    and "q = p \<Longrightarrow> rateFloor p t0 db + (MCPRateRefillInterval - mcpGrain (cn_engine c)) \<le> rateFloor p t0 db'"
    and "q = p \<Longrightarrow> \<exists>b. db_mcpRate db' p = Some b \<and> b \<le> T + MCPRateCapacity * MCPRateRefillInterval \<and>
                    rateFloor p t0 db + (MCPRateRefillInterval - mcpGrain (cn_engine c)) \<le> b"
proof -
  obtain nextAt where n: "nextAt = (case db_mcpRate db q of None \<Rightarrow> cn_clock c | Some t \<Rightarrow> t)"
    and cap: "nextAt \<le> cn_clock c + (MCPRateCapacity - 1) * MCPRateRefillInterval"
    and rate: "db_mcpRate db' = (db_mcpRate db)(q \<mapsto> column c (max nextAt (cn_clock c) + MCPRateRefillInterval))"
    using assms(1) by (cases rule: AcquireMCP_cases) blast
  let ?b = "column c (max nextAt (cn_clock c) + MCPRateRefillInterval)"
  have low: "rateFloor q t0 db + (MCPRateRefillInterval - mcpGrain (cn_engine c)) \<le> ?b"
    using column_grain [of "max nextAt (cn_clock c) + MCPRateRefillInterval" c] assms(2)
    by (auto simp: rateFloor_def n split: option.splits)
  have high: "?b \<le> T + MCPRateCapacity * MCPRateRefillInterval"
    using column_bounds(1) [of c "max nextAt (cn_clock c) + MCPRateRefillInterval"] cap assms(3)
    by (simp add: MCPRateCapacity_def MCPRateRefillInterval_def)
  show "q = p \<Longrightarrow> \<exists>b. db_mcpRate db' p = Some b \<and> b \<le> T + MCPRateCapacity * MCPRateRefillInterval \<and>
      rateFloor p t0 db + (MCPRateRefillInterval - mcpGrain (cn_engine c)) \<le> b"
    using low high rate by simp
  show step: "q = p \<Longrightarrow> rateFloor p t0 db + (MCPRateRefillInterval - mcpGrain (cn_engine c)) \<le> rateFloor p t0 db'"
    using low rate by (simp add: rateFloor_def [of p t0 db'])
  show "rateFloor p t0 db \<le> rateFloor p t0 db'"
    using step mcpGrain_le [of "cn_engine c"] rate by (cases "q = p") (auto simp: rateFloor_def)
qed

lemma ReleaseMCP_rate: "ReleaseMCP c callID db = Inr (u, db') \<Longrightarrow> db_mcpRate db' = db_mcpRate db"
  by (auto simp: ReleaseMCP_def split: if_splits)

lemma mcpTx_rate:
  assumes "t0 \<le> cn_clock c" "cn_clock c \<le> T"
  shows "rateFloor p t0 db \<le> rateFloor p t0 (snd (inTransaction out (mcpTx c call) db))"
proof (rule inTransaction_invariant)
  fix u db' assume "mcpTx c call db = Inr (u, db')"
  then show "rateFloor p t0 db \<le> rateFloor p t0 db'"
    using AcquireMCP_rate(1) [OF _ assms]
    by (cases call) (auto simp: mcpTx_def rateFloor_def dest: ReleaseMCP_rate)
qed simp

lemma mcpTx_admitted_rate:
  assumes "admits p out c call db" "t0 \<le> cn_clock c" "cn_clock c \<le> T"
  shows "\<exists>b. db_mcpRate (snd (inTransaction out (mcpTx c call) db)) p = Some b \<and>
           b \<le> T + MCPRateCapacity * MCPRateRefillInterval \<and>
           rateFloor p t0 db + (MCPRateRefillInterval - mcpGrain (cn_engine c)) \<le> b"
proof -
  from assms(1) obtain callID g ttl where call: "call = AcquireCall callID p g ttl"
    by (auto simp: admits_def split: mcpCall.splits)
  from assms(1) obtain u db' where "out = Commits" "mcpTx c call db = Inr (u, db')"
    by (auto simp: admits_def isOk_iff inTransaction_ok)
  moreover from this have "AcquireMCP c callID p g ttl db = Inr (u, db')"
    by (simp add: mcpTx_def call)
  ultimately show ?thesis
    using AcquireMCP_rate(3) [OF _ assms(2,3)] by (simp add: inTransaction_commits)
qed

lemma mcpAdmitted_rate:
  assumes "\<forall>(out, c, call) \<in> set run. cn_engine c = e \<and> t0 \<le> cn_clock c \<and> cn_clock c \<le> T"
    and "mcpAdmitted p run db > 0"
  shows "int (mcpAdmitted p run db) * (MCPRateRefillInterval - mcpGrain e) + rateFloor p t0 db
           \<le> T + MCPRateCapacity * MCPRateRefillInterval"
  using assms
proof (induction p run db rule: mcpAdmitted.induct)
  case (2 p out c call run db)
  define db' where "db' = snd (inTransaction out (mcpTx c call) db)"
  define n where "n = mcpAdmitted p run db'"
  from "2.prems"(1) have c: "cn_engine c = e" "t0 \<le> cn_clock c" "cn_clock c \<le> T" by auto
  have IH: "n > 0 \<Longrightarrow> int n * (MCPRateRefillInterval - mcpGrain e) + rateFloor p t0 db'
              \<le> T + MCPRateCapacity * MCPRateRefillInterval"
    using "2.IH" "2.prems"(1) by (simp add: n_def db'_def)
  show ?case
  proof (cases "admits p out c call db")
    case True
    then obtain b where b: "db_mcpRate db' p = Some b" "b \<le> T + MCPRateCapacity * MCPRateRefillInterval"
        "rateFloor p t0 db + (MCPRateRefillInterval - mcpGrain e) \<le> b"
      using mcpTx_admitted_rate [OF _ c(2,3)] c(1) unfolding db'_def by metis
    then have "b \<le> rateFloor p t0 db'" by (simp add: rateFloor_def)
    then have "int (Suc n) * (MCPRateRefillInterval - mcpGrain e) + rateFloor p t0 db
        \<le> T + MCPRateCapacity * MCPRateRefillInterval"
      using IH b by (cases "n = 0") (simp_all add: algebra_simps)
    with True show ?thesis by (simp add: n_def db'_def)
  next
    case False
    with "2.prems"(2) have "n > 0" by (simp add: n_def db'_def)
    with IH mcpTx_rate [OF c(2,3), of p db out call] False show ?thesis
      by (simp add: n_def db'_def)
  qed
qed simp

text \<open>
  C9. The token bucket bounds the rate. Over any interval, whatever nodes make the calls, in
  whatever order the datastore serves them and from whatever tables the interval starts, a
  principal has at most twenty calls admitted plus one per elapsed second. On SQLite, where the
  stored instant is cut to the microsecond, a token may come that much sooner.
\<close>

theorem mcp_rate_bounded:
  assumes "\<forall>(out, c, call) \<in> set run. cn_engine c = e \<and> t0 \<le> cn_clock c \<and> cn_clock c \<le> T" "t0 \<le> T"
  shows "int (mcpAdmitted p run db) * (MCPRateRefillInterval - mcpGrain e)
           \<le> (T - t0) + MCPRateCapacity * MCPRateRefillInterval"
proof (cases "mcpAdmitted p run db = 0")
  case True
  then show ?thesis using assms(2) by (simp add: MCPRateCapacity_def MCPRateRefillInterval_def)
next
  case False
  moreover have "t0 \<le> rateFloor p t0 db" by (simp add: rateFloor_def split: option.splits)
  ultimately show ?thesis using mcpAdmitted_rate [OF assms(1), of p db] by simp
qed

definition twoCalls :: "(txOutcome \<times> Conn \<times> mcpCall) list" where
  "twoCalls = [(Commits, pgConn ''n'' [] 5, AcquireCall ''c1'' ''p'' ''o'' Second),
               (Commits, pgConn ''m'' [] 9, AcquireCall ''c2'' ''p'' ''o'' Second)]"

lemma twoCalls_admitted: "mcpAdmitted ''p'' twoCalls emptyCoordDB = 2"
  by (simp add: twoCalls_def admits_def inTransaction_def transaction_def mcpTx_def AcquireMCP_def emptyCoordDB_def
      guardE_def knownEngine_def pgConn_def column_def countMCPClaims_def MCPPrincipalLimit_def MCPOrganizationLimit_def
      MCPInstanceLimit_def MCPRateCapacity_def MCPRateRefillInterval_def Let_def)

theorem mcp_rate_bounded_witness:
  "mcpAdmitted ''p'' twoCalls emptyCoordDB = 2 \<and>
   int (mcpAdmitted ''p'' twoCalls emptyCoordDB) * (MCPRateRefillInterval - mcpGrain EnginePostgres)
     \<le> (9 - 5) + MCPRateCapacity * MCPRateRefillInterval"
proof -
  have "\<forall>(out, c, call) \<in> set twoCalls. cn_engine c = EnginePostgres \<and> 5 \<le> cn_clock c \<and> cn_clock c \<le> 9"
    by (simp add: twoCalls_def pgConn_def)
  from mcp_rate_bounded [OF this, of "''p''" emptyCoordDB] twoCalls_admitted show ?thesis by simp
qed

end
