(* ===== verification/Scheduler.thy ===== *)
theory Scheduler
  imports Coordination
begin

text \<open>
  The leadership loop of the scheduler (\<^verbatim>\<open>internal/app/scheduler.go\<close>, \<open>runHA\<close>) and the tick
  of a node (\<^verbatim>\<open>internal/app/ha.go\<close>), run by any number of nodes against one datastore. A
  heartbeat makes up to four datastore calls, and other nodes act between them, so a heartbeat
  is cut at its calls: each block of the loop body is a function of the process's variables and
  the tables, and \<open>phase\<close> is the program counter. The step relation interleaves the blocks of
  all processes with the clock, crashes and restarts, the exit of terms, and the write
  transactions of the jobs, whose guard holds the lease row locked until they commit
  (\<^verbatim>\<open>coordination_fence.go\<close>). Jobs themselves are opaque; a term is the goroutine that runs
  them. The results: the committed writes of leadership terms are ordered by fence and
  no two terms share one, no two nodes are inside their lease at the same datastore time, and a
  node never runs two terms at once.
\<close>

section \<open>The process\<close>

definition defaultLeaseTTL :: Time where "defaultLeaseTTL = 30 * Second"
definition defaultHeartbeat :: Time where "defaultHeartbeat = 10 * Second"
abbreviation schedulerLeaseName :: string where "schedulerLeaseName \<equiv> ''scheduler''"

definition nodeLivenessWindow :: Time where "nodeLivenessWindow = 3 * defaultHeartbeat"
definition admissionWindowRetention :: Time where "admissionWindowRetention = 2 * Minute"
definition nodeRegistryRetention :: Time where "nodeRegistryRetention = 24 * 60 * Minute"
definition accountBackoffRetention :: Time where "accountBackoffRetention = 60 * Minute"

datatype phase = Waiting | GotNow Time | Renewed Time | Claiming Time | Ticking | Stopping | Stopped

text \<open>A term goroutine: the fence its context carries, and whether that context is cancelled.\<close>

record Term =
  tm_fence :: int
  tm_cancelled :: bool

text \<open>
  The variables of \<open>runHA\<close>. \<open>termDone\<close> and \<open>termCancel\<close> refer to a term by its fence; the
  channel is closed exactly when no goroutine of that fence is left in \<open>pr_terms\<close>.
\<close>

record Process =
  pr_LeaseTTL :: Time
  pr_fence :: int
  pr_unconfirmedClaim :: bool
  pr_expiresAt :: Time
  pr_leader :: bool
  pr_termCancel :: "int option"
  pr_termDone :: "int option"
  pr_terms :: "Term list"
  pr_phase :: phase
  pr_node :: HANode
  pr_registered :: bool

definition boot :: "Time \<Rightarrow> HANode \<Rightarrow> bool \<Rightarrow> Process" where
  "boot ttl node registered =
    \<lparr>pr_LeaseTTL = ttl, pr_fence = 0, pr_unconfirmedClaim = False, pr_expiresAt = 0, pr_leader = False,
     pr_termCancel = None, pr_termDone = None, pr_terms = [], pr_phase = Waiting,
     pr_node = node, pr_registered = registered\<rparr>"

definition leaseTTL :: "Process \<Rightarrow> Time" where
  "leaseTTL p = (if pr_LeaseTTL p \<le> 0 then defaultLeaseTTL else pr_LeaseTTL p)"

definition cancelTerm :: "int option \<Rightarrow> Term list \<Rightarrow> Term list" where
  "cancelTerm h = map (\<lambda>t. if h = Some (tm_fence t) then t\<lparr>tm_cancelled := True\<rparr> else t)"

definition dropLeadership :: "Process \<Rightarrow> Process" where
  "dropLeadership p =
    p\<lparr>pr_terms := cancelTerm (pr_termCancel p) (pr_terms p), pr_termCancel := None, pr_leader := False\<rparr>"

definition termExited :: "Process \<Rightarrow> bool" where
  "termExited p \<longleftrightarrow>
     (case pr_termDone p of None \<Rightarrow> True | Some f \<Rightarrow> \<not> (\<exists>t \<in> set (pr_terms p). tm_fence t = f))"

text \<open>The answer, and the process with \<open>termDone\<close> cleared once the goroutine is gone.\<close>

definition termDraining :: "Process \<Rightarrow> bool \<times> Process" where
  "termDraining p = (if termExited p then (False, p\<lparr>pr_termDone := None\<rparr>) else (True, p))"

definition startTerm :: "Time \<Rightarrow> Process \<Rightarrow> Process" where
  "startTerm expires p =
    p\<lparr>pr_unconfirmedClaim := False, pr_expiresAt := expires, pr_leader := True,
      pr_termCancel := Some (pr_fence p), pr_termDone := Some (pr_fence p),
      pr_terms := pr_terms p @ [\<lparr>tm_fence = pr_fence p, tm_cancelled = False\<rparr>]\<rparr>"


section \<open>The blocks of a heartbeat\<close>

text \<open>The clock read and the fail-closed check. \<open>None\<close> is an unreachable datastore.\<close>

definition tickNow :: "Time option \<Rightarrow> Process \<Rightarrow> Process" where
  "tickNow answer p =
    (case answer of
       None \<Rightarrow> (if pr_leader p then dropLeadership p else p)
     | Some now \<Rightarrow>
         (if pr_leader p \<and> \<not> now < pr_expiresAt p then dropLeadership p else p)\<lparr>pr_phase := GotNow now\<rparr>)"

definition tickRenew :: "txOutcome \<Rightarrow> Conn \<Rightarrow> bool \<Rightarrow> Time \<Rightarrow> string \<Rightarrow> Process \<Rightarrow> CoordDB \<Rightarrow> Process \<times> CoordDB" where
  "tickRenew out c ctxDone now nodeID p db =
    (let expires = now + leaseTTL p;
         (p', db') =
           (if pr_leader p then
              (case RenewLease out c schedulerLeaseName nodeID (pr_fence p) now expires db of
                 (Inl e, db') \<Rightarrow> (dropLeadership p, db')
               | (Inr False, db') \<Rightarrow> (dropLeadership p, db')
               | (Inr True, db') \<Rightarrow> (p\<lparr>pr_expiresAt := expires\<rparr>, db'))
            else (p, db))
     in (p'\<lparr>pr_phase := (if ctxDone then Waiting else Renewed now)\<rparr>, db'))"

definition tickConfirm :: "txOutcome \<Rightarrow> Conn \<Rightarrow> bool \<Rightarrow> Time \<Rightarrow> string \<Rightarrow> Process \<Rightarrow> CoordDB \<Rightarrow> Process \<times> CoordDB" where
  "tickConfirm out c ctxDone now nodeID p db =
    (if pr_leader p then (p\<lparr>pr_phase := Ticking\<rparr>, db)
     else case termDraining p of
       (True, p') \<Rightarrow> (p'\<lparr>pr_phase := Ticking\<rparr>, db)
     | (False, p') \<Rightarrow>
         (if pr_unconfirmedClaim p' then
            (case RenewLease out c schedulerLeaseName nodeID (pr_fence p') now (now + leaseTTL p') db of
               (Inl e, db') \<Rightarrow> (p'\<lparr>pr_phase := Claiming now\<rparr>, db')
             | (Inr False, db') \<Rightarrow> (p'\<lparr>pr_unconfirmedClaim := False, pr_fence := 0, pr_phase := Claiming now\<rparr>, db')
             | (Inr True, db') \<Rightarrow>
                 ((if ctxDone then p' else startTerm (now + leaseTTL p') p')\<lparr>pr_phase := Claiming now\<rparr>, db'))
          else (p'\<lparr>pr_phase := Claiming now\<rparr>, db)))"

text \<open>The flags are \<^verbatim>\<open>ctx.Err()\<close> before and after the claim.\<close>

definition tickClaim :: "txOutcome \<Rightarrow> Conn \<Rightarrow> bool \<Rightarrow> bool \<Rightarrow> Time \<Rightarrow> string \<Rightarrow> Process \<Rightarrow> CoordDB \<Rightarrow> Process \<times> CoordDB" where
  "tickClaim out c ctxBefore ctxAfter now nodeID p db =
    (if \<not> pr_leader p \<and> \<not> pr_unconfirmedClaim p \<and> \<not> ctxBefore then
       (case ClaimLease out c schedulerLeaseName nodeID now (now + leaseTTL p) db of
          ((gotFence, held, err), db') \<Rightarrow>
            let p' = (if gotFence \<noteq> 0 \<and> (held \<or> err \<noteq> None)
                      then p\<lparr>pr_fence := gotFence, pr_unconfirmedClaim := True\<rparr> else p);
                p'' = (if err = None \<and> held \<and> \<not> ctxAfter then startTerm (now + leaseTTL p) p' else p')
            in (p''\<lparr>pr_phase := Ticking\<rparr>, db'))
     else (p\<lparr>pr_phase := Ticking\<rparr>, db))"

text \<open>
  \<open>OnTick\<close>: the node's heartbeat and the sweeps, each in a transaction of its own. The first
  outcome is the clock read; a refused heartbeat ends the tick.
\<close>

definition sweep :: "txOutcome \<Rightarrow> (CoordDB \<Rightarrow> CoordError + unit \<times> CoordDB) \<Rightarrow> CoordDB \<Rightarrow> CoordDB" where
  "sweep out fn db = snd (inTransaction out fn db)"

definition onTick :: "Time option \<Rightarrow> (nat \<Rightarrow> txOutcome) \<Rightarrow> Conn \<Rightarrow> Process \<Rightarrow> CoordDB \<Rightarrow> Process \<times> CoordDB" where
  "onTick answer out c p db =
    (case answer of
       None \<Rightarrow> (p, db)
     | Some now \<Rightarrow>
         let hb = (pr_node p)\<lparr>hn_HeartbeatAt := now\<rparr>
         in case inTransaction (out 0)
                   (if pr_registered p then UpsertNode c hb
                    else RegisterNodeChecked c hb (now - nodeLivenessWindow)) db of
              (Inl e, db') \<Rightarrow> (p, db')
            | (Inr _, db') \<Rightarrow>
                (p\<lparr>pr_registered := True\<rparr>,
                 sweep (out 3) (PruneNodes c (now - nodeRegistryRetention))
                   (sweep (out 2) (PruneAccountBackoff c (now - accountBackoffRetention))
                     (sweep (out 1) (PruneAdmissionWindows c (now - admissionWindowRetention)) db'))))"

text \<open>
  Shutdown: the term is cancelled, and the lease released only once the term has exited
  (\<open>joined\<close>); otherwise it is left to expire.
\<close>

definition shutdownDrop :: "Process \<Rightarrow> Process" where
  "shutdownDrop p = (dropLeadership p)\<lparr>pr_phase := Stopping\<rparr>"

definition shutdownRelease :: "txOutcome \<Rightarrow> Conn \<Rightarrow> bool \<Rightarrow> string \<Rightarrow> Process \<Rightarrow> CoordDB \<Rightarrow> Process \<times> CoordDB" where
  "shutdownRelease out c joined nodeID p db =
    (p\<lparr>pr_phase := Stopped\<rparr>,
     if pr_fence p \<noteq> 0 \<and> joined
     then snd (ReleaseLease out c schedulerLeaseName nodeID (pr_fence p) db) else db)"


section \<open>The system\<close>

text \<open>
  \<open>sy_log\<close> lists the committed write transactions of leadership terms in commit order, and
  \<open>sy_grants\<close> the owners the lease row has had; neither is read by a step.
\<close>

record System =
  sy_db :: CoordDB
  sy_clock :: Time
  sy_procs :: "string \<rightharpoonup> Process"
  sy_log :: "(string \<times> int) list"
  sy_grants :: "(int \<times> string) list"

abbreviation leaseRow :: "CoordDB \<Rightarrow> Lease option" where
  "leaseRow db \<equiv> db_leases db schedulerLeaseName"

definition noteGrant :: "CoordDB \<Rightarrow> (int \<times> string) list \<Rightarrow> (int \<times> string) list" where
  "noteGrant db grants =
    (case leaseRow db of
       None \<Rightarrow> grants
     | Some l \<Rightarrow> (if (ls_fence l, ls_owner l) \<in> set grants then grants else grants @ [(ls_fence l, ls_owner l)]))"

definition initSystem :: "CoordDB \<Rightarrow> Time \<Rightarrow> System" where
  "initSystem db t = \<lparr>sy_db = db, sy_clock = t, sy_procs = Map.empty, sy_log = [], sy_grants = noteGrant db []\<rparr>"

definition withProc :: "System \<Rightarrow> string \<Rightarrow> Process \<times> CoordDB \<Rightarrow> System" where
  "withProc s n r =
    s\<lparr>sy_procs := (sy_procs s)(n \<mapsto> fst r), sy_db := snd r, sy_grants := noteGrant (snd r) (sy_grants s)\<rparr>"

inductive sysStep :: "System \<Rightarrow> System \<Rightarrow> bool" where
  Clock: "t \<ge> sy_clock s \<Longrightarrow> sysStep s (s\<lparr>sy_clock := t\<rparr>)"
| Boot: "sy_procs s n = None \<Longrightarrow> sysStep s (s\<lparr>sy_procs := (sy_procs s)(n \<mapsto> boot ttl node registered)\<rparr>)"
| Crash: "sysStep s (s\<lparr>sy_procs := (sy_procs s)(n := None)\<rparr>)"
| Now: "sy_procs s n = Some p \<Longrightarrow> pr_phase p = Waiting \<Longrightarrow> answer \<in> {None, Some (sy_clock s)} \<Longrightarrow>
        sysStep s (withProc s n (tickNow answer p, sy_db s))"
| Renew: "sy_procs s n = Some p \<Longrightarrow> pr_phase p = GotNow now \<Longrightarrow>
        sysStep s (withProc s n (tickRenew out (pgConn n stamp (sy_clock s)) ctxDone now n p (sy_db s)))"
| Confirm: "sy_procs s n = Some p \<Longrightarrow> pr_phase p = Renewed now \<Longrightarrow>
        sysStep s (withProc s n (tickConfirm out (pgConn n stamp (sy_clock s)) ctxDone now n p (sy_db s)))"
| Claim: "sy_procs s n = Some p \<Longrightarrow> pr_phase p = Claiming now \<Longrightarrow>
        sysStep s (withProc s n (tickClaim out (pgConn n stamp (sy_clock s)) ctxBefore ctxAfter now n p (sy_db s)))"
| Tick: "sy_procs s n = Some p \<Longrightarrow> pr_phase p = Ticking \<Longrightarrow>
        onTick answer outs (pgConn n stamp (sy_clock s)) p (sy_db s) = (p', db') \<Longrightarrow>
        sysStep s (withProc s n (p'\<lparr>pr_phase := Waiting\<rparr>, db'))"
| Shutdown: "sy_procs s n = Some p \<Longrightarrow> pr_phase p = Waiting \<Longrightarrow>
        sysStep s (withProc s n (shutdownDrop p, sy_db s))"
| Release: "sy_procs s n = Some p \<Longrightarrow> pr_phase p = Stopping \<Longrightarrow> joined \<longrightarrow> termExited p \<Longrightarrow>
        sysStep s (withProc s n (shutdownRelease out (pgConn n stamp (sy_clock s)) joined n p (sy_db s)))"
| TermExit: "sy_procs s n = Some p \<Longrightarrow> t \<in> set (pr_terms p) \<Longrightarrow>
        sysStep s (s\<lparr>sy_procs := (sy_procs s)(n \<mapsto> p\<lparr>pr_terms := remove1 t (pr_terms p)\<rparr>)\<rparr>)"
| Write: "sy_procs s n = Some p \<Longrightarrow> t \<in> set (pr_terms p) \<Longrightarrow>
        GuardSingletonLease (pgConn n stamp (sy_clock s)) (Some (schedulerLeaseName, n, tm_fence t)) (sy_db s) = Inr () \<Longrightarrow>
        sysStep s (s\<lparr>sy_log := sy_log s @ [(n, tm_fence t)]\<rparr>)"
| Topology: "db_leases db' = db_leases (sy_db s) \<Longrightarrow> sysStep s (s\<lparr>sy_db := db'\<rparr>)"

text \<open>
  A term exits once its context is cancelled, by \<open>dropLeadership\<close> or with the context of the
  process, so \<open>TermExit\<close> is open to any term. \<open>Topology\<close> stands for every other writer of the tables: self-configuration rollouts,
  admission counters and model-context calls leave the leases alone.
\<close>

definition reachableFrom :: "System \<Rightarrow> System \<Rightarrow> bool" where
  "reachableFrom = sysStep\<^sup>*\<^sup>*"


section \<open>How the lease row moves\<close>

text \<open>What a call by node \<open>n\<close> can do to the row at a datastore time: nothing, move the deadline of
  its own row, or take over a row that has expired.\<close>

definition leaseMoves :: "string \<Rightarrow> Time \<Rightarrow> CoordDB \<Rightarrow> CoordDB \<Rightarrow> bool" where
  "leaseMoves n clk db db' \<longleftrightarrow>
     leaseRow db' = leaseRow db \<or>
     (\<exists>l e. leaseRow db = Some l \<and> ls_owner l = n \<and> leaseRow db' = Some (l\<lparr>ls_expires := e\<rparr>)) \<or>
     (\<exists>r. leaseRow db' = Some r \<and> ls_owner r = n \<and>
          (leaseRow db = None \<and> ls_fence r = 1 \<or>
           (\<exists>l. leaseRow db = Some l \<and> ls_expires l \<le> clk \<and> ls_fence r = ls_fence l + 1)))"

lemma Tx_RenewLease_cases:
  assumes "Tx_RenewLease (pgConn n stamp t) schedulerLeaseName n f now expires db = Inr (held, db')"
  shows "\<not> held \<and> db' = db \<or>
         held \<and> (\<exists>l. leaseRow db = Some l \<and> ls_owner l = n \<and> ls_fence l = f \<and> now < ls_expires l \<and>
                     leaseRow db' = Some (l\<lparr>ls_expires := expires\<rparr>))"
  using assms by (auto simp: Tx_RenewLease_def holdsLease_def split: option.splits if_splits)

lemma RenewLease_moves:
  "leaseMoves n clk db (snd (RenewLease out (pgConn n stamp t) schedulerLeaseName n f now expires db))"
  unfolding RenewLease_def
proof (rule inTransaction_invariant)
  fix held db' assume "Tx_RenewLease (pgConn n stamp t) schedulerLeaseName n f now expires db = Inr (held, db')"
  from Tx_RenewLease_cases [OF this] show "leaseMoves n clk db db'"
    by (auto simp: leaseMoves_def)
qed (simp add: leaseMoves_def)

lemma RenewLease_held:
  assumes "RenewLease out (pgConn n stamp t) schedulerLeaseName n f now expires db = (Inr True, db')"
  obtains l where "leaseRow db = Some l" "ls_owner l = n" "ls_fence l = f" "now < ls_expires l"
    "leaseRow db' = Some (l\<lparr>ls_expires := expires\<rparr>)"
proof -
  have "fst (RenewLease out (pgConn n stamp t) schedulerLeaseName n f now expires db) = Inr True"
    using assms by simp
  then obtain db'' where out: "out = Commits"
      "Tx_RenewLease (pgConn n stamp t) schedulerLeaseName n f now expires db = Inr (True, db'')"
    by (auto simp: RenewLease_def inTransaction_ok)
  then have "db'' = db'" using assms by (simp add: RenewLease_def inTransaction_commits)
  with Tx_RenewLease_cases [OF out(2)] that show ?thesis by auto
qed

lemma Tx_ClaimLease_cases:
  assumes "Tx_ClaimLease (pgConn n stamp t) schedulerLeaseName n now expires db = Inr ((f, held), db')"
  shows "\<not> held \<and> f = 0 \<and> db' = db \<or>
         held \<and> leaseRow db' = Some \<lparr>ls_owner = n, ls_fence = f, ls_acquired = now, ls_expires = expires\<rparr> \<and>
           (leaseRow db = None \<and> f = 1 \<or> (\<exists>l. leaseRow db = Some l \<and> ls_expires l \<le> now \<and> f = ls_fence l + 1))"
  using assms by (auto simp: Tx_ClaimLease_def Let_def split: option.splits if_splits)

lemma ClaimLease_moves:
  assumes "now \<le> clk"
  shows "leaseMoves n clk db (snd (ClaimLease out (pgConn n stamp t) schedulerLeaseName n now expires db))"
proof (cases "Tx_ClaimLease (pgConn n stamp t) schedulerLeaseName n now expires db")
  case (Inl e)
  then show ?thesis by (auto simp: ClaimLease_def transaction_def leaseMoves_def)
next
  case (Inr r)
  obtain f held db' where r: "r = ((f, held), db')" by (metis surj_pair)
  have "leaseMoves n clk db db'"
    using Tx_ClaimLease_cases [OF Inr [unfolded r]] assms by (auto simp: leaseMoves_def)
  moreover have "leaseMoves n clk db db" by (simp add: leaseMoves_def)
  ultimately show ?thesis
    by (cases out) (simp_all add: ClaimLease_def transaction_def Inr r)
qed

lemma ClaimLease_held:
  assumes "ClaimLease out (pgConn n stamp t) schedulerLeaseName n now expires db = ((f, True, None), db')"
  shows "leaseRow db' = Some \<lparr>ls_owner = n, ls_fence = f, ls_acquired = now, ls_expires = expires\<rparr>"
proof (cases "Tx_ClaimLease (pgConn n stamp t) schedulerLeaseName n now expires db")
  case (Inl e)
  then show ?thesis using assms by (auto simp: ClaimLease_def transaction_def split: if_splits)
next
  case (Inr r)
  obtain f' held d where r: "r = ((f', held), d)" by (metis surj_pair)
  with assms Inr have "f' = f" "held" "d = db'"
    by (cases out; simp add: ClaimLease_def transaction_def)+
  then show ?thesis using Tx_ClaimLease_cases [OF Inr [unfolded r]] by simp
qed

lemma ReleaseLease_moves:
  "leaseMoves n clk db (snd (ReleaseLease out (pgConn n stamp t) schedulerLeaseName n f db))"
  unfolding ReleaseLease_def
  by (rule inTransaction_invariant)
     (auto simp: leaseMoves_def Tx_ReleaseLease_def holdsLease_def split: option.splits if_splits)

lemma sweep_leases:
  assumes "\<And>x db'. fn db = Inr (x, db') \<Longrightarrow> db_leases db' = db_leases db"
  shows "db_leases (sweep out fn db) = db_leases db"
  unfolding sweep_def by (rule inTransaction_invariant) (use assms in auto)

lemma onTick_leases:
  assumes "onTick answer out c p db = (p', db')"
  shows "db_leases db' = db_leases db \<and> p' = p\<lparr>pr_registered := pr_registered p'\<rparr>"
proof (cases answer)
  case (Some now)
  define hb where "hb = (pr_node p)\<lparr>hn_HeartbeatAt := now\<rparr>"
  define fn where "fn = (if pr_registered p then UpsertNode c hb else RegisterNodeChecked c hb (now - nodeLivenessWindow))"
  obtain r d where rd: "inTransaction (out 0) fn db = (r, d)" by fastforce
  have "db_leases (snd (inTransaction (out 0) fn db)) = db_leases db"
    by (rule inTransaction_invariant)
       (auto simp: fn_def UpsertNode_def RegisterNodeChecked_def split: if_splits)
  with rd have d: "db_leases d = db_leases db" by simp
  have prunes: "db_leases (sweep o1 (PruneNodes c t1) e) = db_leases e"
      "db_leases (sweep o1 (PruneAccountBackoff c t1) e) = db_leases e"
      "db_leases (sweep o1 (PruneAdmissionWindows c t1) e) = db_leases e" for o1 t1 e
    by (rule sweep_leases; auto simp: PruneNodes_def PruneAccountBackoff_def PruneAdmissionWindows_def split: if_splits)+
  show ?thesis using assms d
    by (cases r) (auto simp: onTick_def Some Let_def rd [unfolded fn_def hb_def] prunes)
qed (use assms in \<open>simp add: onTick_def\<close>)


section \<open>The invariant\<close>

definition grantsOK :: "CoordDB \<Rightarrow> (int \<times> string) list \<Rightarrow> bool" where
  "grantsOK db g \<longleftrightarrow>
     (case leaseRow db of
        None \<Rightarrow> g = []
      | Some l \<Rightarrow> (ls_fence l, ls_owner l) \<in> set g \<and> (\<forall>(f, m) \<in> set g. 1 \<le> f \<and> f \<le> ls_fence l) \<and> distinct (map fst g))"

text \<open>The terms of a process were granted to its node; a leader's belief about its deadline is
  backed by the row or already past.\<close>

definition termsOK :: "(int \<times> string) list \<Rightarrow> string \<Rightarrow> Process \<Rightarrow> bool" where
  "termsOK g n p \<longleftrightarrow> (\<forall>t \<in> set (pr_terms p). (tm_fence t, n) \<in> set g)"

definition leadOK :: "(int \<times> string) list \<Rightarrow> CoordDB \<Rightarrow> Time \<Rightarrow> string \<Rightarrow> Process \<Rightarrow> bool" where
  "leadOK g db clk n p \<longleftrightarrow>
     (pr_leader p \<longrightarrow>
        (pr_fence p, n) \<in> set g \<and>
        (\<forall>l. leaseRow db = Some l \<longrightarrow>
             (if ls_fence l = pr_fence p then pr_expiresAt p \<le> ls_expires l else pr_expiresAt p \<le> clk)))"

definition nowOK :: "Time \<Rightarrow> Process \<Rightarrow> bool" where
  "nowOK clk p \<longleftrightarrow> (case pr_phase p of GotNow t \<Rightarrow> t \<le> clk | Renewed t \<Rightarrow> t \<le> clk | Claiming t \<Rightarrow> t \<le> clk | _ \<Rightarrow> True)"

definition procShapeOK :: "Process \<Rightarrow> bool" where
  "procShapeOK p \<longleftrightarrow>
     length (pr_terms p) \<le> 1 \<and>
     (\<forall>t \<in> set (pr_terms p). pr_termDone p = Some (tm_fence t) \<and>
        (\<not> tm_cancelled t \<longrightarrow> pr_leader p \<and> pr_termCancel p = Some (tm_fence t) \<and> pr_fence p = tm_fence t))"

definition claimOK :: "Process \<Rightarrow> bool" where
  "claimOK p \<longleftrightarrow> (case pr_phase p of
        Claiming _ \<Rightarrow> \<not> pr_leader p \<longrightarrow> pr_terms p = []
      | Stopping \<Rightarrow> \<not> pr_leader p
      | _ \<Rightarrow> True)"

definition procOK :: "(int \<times> string) list \<Rightarrow> CoordDB \<Rightarrow> Time \<Rightarrow> string \<Rightarrow> Process \<Rightarrow> bool" where
  "procOK g db clk n p \<longleftrightarrow> termsOK g n p \<and> leadOK g db clk n p \<and> nowOK clk p \<and> procShapeOK p \<and> claimOK p"

definition logOK :: "(int \<times> string) list \<Rightarrow> (string \<times> int) list \<Rightarrow> bool" where
  "logOK g log \<longleftrightarrow> sorted (map snd log) \<and> (\<forall>(n, f) \<in> set log. (f, n) \<in> set g)"

definition sysOK :: "System \<Rightarrow> bool" where
  "sysOK s \<longleftrightarrow>
     grantsOK (sy_db s) (sy_grants s) \<and> logOK (sy_grants s) (sy_log s) \<and>
     (\<forall>n p. sy_procs s n = Some p \<longrightarrow> procOK (sy_grants s) (sy_db s) (sy_clock s) n p)"

lemma noteGrant_mono: "set g \<subseteq> set (noteGrant db g)"
  by (auto simp: noteGrant_def split: option.splits)

lemma noteGrant_same: "grantsOK db g \<Longrightarrow> leaseRow db' = leaseRow db \<Longrightarrow> noteGrant db' g = g"
  by (auto simp: noteGrant_def grantsOK_def split: option.splits)

lemma noteGrant_row: "leaseRow db = Some l \<Longrightarrow> (ls_fence l, ls_owner l) \<in> set (noteGrant db g)"
  by (simp add: noteGrant_def)

lemma grant_unique: "grantsOK db g \<Longrightarrow> (f, n) \<in> set g \<Longrightarrow> (f, m) \<in> set g \<Longrightarrow> n = m"
  by (auto simp: grantsOK_def eq_key_imp_eq_value split: option.splits)

lemma leaseMoves_cases:
  assumes "leaseMoves n clk db db'"
  obtains (same) "leaseRow db' = leaseRow db"
  | (own) l e where "leaseRow db = Some l" "ls_owner l = n" "leaseRow db' = Some (l\<lparr>ls_expires := e\<rparr>)"
  | (first) r where "leaseRow db' = Some r" "ls_owner r = n" "leaseRow db = None" "ls_fence r = 1"
  | (taken) r l where "leaseRow db' = Some r" "ls_owner r = n" "leaseRow db = Some l" "ls_expires l \<le> clk"
      "ls_fence r = ls_fence l + 1"
  using assms unfolding leaseMoves_def
  by (elim disjE exE conjE) (erule same, erule (2) own, erule (3) first, erule (4) taken)

lemma grantsOK_moves:
  assumes "grantsOK db g" "leaseMoves n clk db db'"
  shows "grantsOK db' (noteGrant db' g)"
  using assms(2)
proof (cases rule: leaseMoves_cases)
  case same
  then show ?thesis using assms(1) by (simp add: noteGrant_same [OF assms(1) same] grantsOK_def)
next
  case (own l e)
  then show ?thesis using assms(1) by (auto simp: noteGrant_def grantsOK_def)
next
  case (first r)
  then show ?thesis using assms(1) by (auto simp: noteGrant_def grantsOK_def)
next
  case (taken r l)
  have old: "\<forall>(f, m) \<in> set g. 1 \<le> f \<and> f \<le> ls_fence l" "(ls_fence l, ls_owner l) \<in> set g" "distinct (map fst g)"
    using assms(1) taken by (auto simp: grantsOK_def)
  then have "\<forall>x \<in> set g. fst x \<noteq> ls_fence r" using taken(5) by fastforce
  with old taken show ?thesis by (auto simp: noteGrant_def grantsOK_def image_iff)
qed

lemma fence_monotone:
  assumes "leaseMoves n clk db db'" "leaseRow db = Some l"
  obtains l' where "leaseRow db' = Some l'" "ls_fence l \<le> ls_fence l'"
proof -
  from assms(1) have "\<exists>l'. leaseRow db' = Some l' \<and> ls_fence l \<le> ls_fence l'"
    by (cases rule: leaseMoves_cases) (use assms(2) in auto)
  then show ?thesis using that by blast
qed

text \<open>A call by one node keeps what is known of every other.\<close>

lemma procOK_other:
  assumes g: "grantsOK db g" and mv: "leaseMoves n clk db db'" and m: "m \<noteq> n" and p: "procOK g db clk m p"
  shows "procOK (noteGrant db' g) db' clk m p"
proof -
  have "leadOK (noteGrant db' g) db' clk m p"
  proof (cases "pr_leader p")
    case True
    with p have f: "(pr_fence p, m) \<in> set g"
      and l: "\<And>l. leaseRow db = Some l \<Longrightarrow>
                (if ls_fence l = pr_fence p then pr_expiresAt p \<le> ls_expires l else pr_expiresAt p \<le> clk)"
      by (auto simp: procOK_def leadOK_def)
    have f': "(pr_fence p, m) \<in> set (noteGrant db' g)" using f noteGrant_mono [of g db'] by blast
    from mv show ?thesis
    proof (cases rule: leaseMoves_cases)
      case same
      then show ?thesis using f' l by (simp add: leadOK_def)
    next
      case (own l0 e)
      then have "(ls_fence l0, n) \<in> set g" using g by (simp add: grantsOK_def)
      then have "ls_fence l0 \<noteq> pr_fence p" using grant_unique [OF g f] m by metis
      then show ?thesis using own f' l [OF own(1)] by (simp add: leadOK_def)
    next
      case (first r)
      then show ?thesis using g f by (simp add: grantsOK_def)
    next
      case (taken r l0)
      have "pr_fence p \<le> ls_fence l0" using g f taken(3) by (auto simp: grantsOK_def)
      moreover have "pr_expiresAt p \<le> clk" using l [OF taken(3)] taken(4) by (simp split: if_splits)
      ultimately show ?thesis using taken f' by (simp add: leadOK_def)
    qed
  qed (simp add: leadOK_def)
  moreover have "termsOK (noteGrant db' g) m p"
    using p noteGrant_mono [of g db'] by (auto simp: procOK_def termsOK_def)
  ultimately show ?thesis using p by (simp add: procOK_def)
qed

lemma logOK_moves: "logOK g log \<Longrightarrow> logOK (noteGrant db' g) log"
  using noteGrant_mono [of g db'] by (auto simp: logOK_def)

lemma sysOK_withProc:
  assumes s: "sysOK s" and mv: "leaseMoves n (sy_clock s) (sy_db s) db'"
    and p': "procOK (noteGrant db' (sy_grants s)) db' (sy_clock s) n p'"
  shows "sysOK (withProc s n (p', db'))"
proof -
  have g: "grantsOK (sy_db s) (sy_grants s)" using s by (simp add: sysOK_def)
  have "procOK (noteGrant db' (sy_grants s)) db' (sy_clock s) m q"
    if "((sy_procs s)(n \<mapsto> p')) m = Some q" for m q
  proof (cases "m = n")
    case False
    with that s have "procOK (sy_grants s) (sy_db s) (sy_clock s) m q" by (simp add: sysOK_def)
    then show ?thesis by (rule procOK_other [OF g mv False])
  qed (use that p' in simp)
  moreover have "logOK (noteGrant db' (sy_grants s)) (sy_log s)"
    using s logOK_moves by (simp add: sysOK_def)
  ultimately show ?thesis
    using grantsOK_moves [OF g mv] by (simp add: sysOK_def withProc_def)
qed


section \<open>The blocks keep it\<close>

text \<open>A process that is not leader owes nothing to the row.\<close>

definition idleOK :: "(int \<times> string) list \<Rightarrow> string \<Rightarrow> Process \<Rightarrow> bool" where
  "idleOK g n p \<longleftrightarrow> \<not> pr_leader p \<and> termsOK g n p \<and> procShapeOK p"

lemma idleOK_mono: "idleOK g n p \<Longrightarrow> set g \<subseteq> set g' \<Longrightarrow> idleOK g' n p"
  by (auto simp: idleOK_def termsOK_def)

lemma procOK_idle:
  assumes "idleOK g n p" "nowOK clk p" "claimOK p"
  shows "procOK (noteGrant db' g) db' clk n p"
  using idleOK_mono [OF assms(1) noteGrant_mono] assms(2,3)
  by (simp add: idleOK_def procOK_def leadOK_def)

lemma dropLeadership_idle: "termsOK g n p \<Longrightarrow> procShapeOK p \<Longrightarrow> idleOK g n (dropLeadership p)"
  by (auto simp: idleOK_def termsOK_def procShapeOK_def dropLeadership_def cancelTerm_def)

lemma procOK_phase:
  assumes "procOK g db clk n p" "grantsOK db g" "nowOK clk (p\<lparr>pr_phase := ph\<rparr>)" "claimOK (p\<lparr>pr_phase := ph\<rparr>)"
  shows "procOK (noteGrant db g) db clk n (p\<lparr>pr_phase := ph\<rparr>)"
  using assms noteGrant_same [OF assms(2) refl]
  by (simp add: procOK_def termsOK_def leadOK_def procShapeOK_def)

lemma phase_update [simp]:
  "termsOK g n (p\<lparr>pr_phase := ph\<rparr>) = termsOK g n p" "procShapeOK (p\<lparr>pr_phase := ph\<rparr>) = procShapeOK p"
  by (simp_all add: termsOK_def procShapeOK_def)

lemma idleOK_phase [simp]: "idleOK g n (p\<lparr>pr_phase := ph\<rparr>) = idleOK g n p"
  by (simp add: idleOK_def)

lemma termExited_phase [simp]: "termExited (p\<lparr>pr_phase := ph\<rparr>) = termExited p"
  by (cases "pr_termDone p") (simp_all add: termExited_def)

lemma termExited_empty: "procShapeOK p \<Longrightarrow> termExited p \<Longrightarrow> pr_terms p = []"
  by (cases "pr_terms p") (auto simp: procShapeOK_def termExited_def)

text \<open>A term starts only where none is left, under a fence the row has just confirmed.\<close>

lemma startTerm_ok:
  assumes "pr_terms p = []" "leaseRow db' = Some l" "ls_owner l = n" "ls_fence l = pr_fence p" "ls_expires l = e"
    and "nowOK clk (p\<lparr>pr_phase := ph\<rparr>)" "ph \<noteq> Stopping"
  shows "procOK (noteGrant db' g) db' clk n ((startTerm e p)\<lparr>pr_phase := ph\<rparr>)"
  using assms noteGrant_row [OF assms(2), of g]
  by (auto simp: procOK_def termsOK_def leadOK_def procShapeOK_def claimOK_def startTerm_def nowOK_def split: phase.splits)

lemma tickNow_ok:
  assumes "procOK g db clk n p" "grantsOK db g" "answer \<in> {None, Some clk}" "pr_phase p = Waiting"
  shows "procOK (noteGrant db g) db clk n (tickNow answer p)"
proof -
  have drop: "idleOK g n (dropLeadership p)" using assms(1) by (auto simp: procOK_def intro: dropLeadership_idle)
  have "pr_phase (dropLeadership p) = Waiting" using assms(4) by (simp add: dropLeadership_def)
  then have d: "procOK (noteGrant db g) db clk n (dropLeadership p)"
    by (intro procOK_idle [OF drop]) (simp_all add: nowOK_def claimOK_def)
  have dn: "procOK (noteGrant db g) db clk n ((dropLeadership p)\<lparr>pr_phase := GotNow clk\<rparr>)"
    by (rule procOK_idle) (use drop in \<open>simp_all add: nowOK_def claimOK_def\<close>)
  have "procOK (noteGrant db g) db clk n (p\<lparr>pr_phase := GotNow clk\<rparr>)"
    by (rule procOK_phase [OF assms(1,2)]) (simp_all add: nowOK_def claimOK_def)
  then show ?thesis using d dn assms(1-3) noteGrant_same [OF assms(2) refl]
    by (cases answer) (simp_all add: tickNow_def)
qed

lemma tickRenew_ok:
  assumes p: "procOK g db clk n p" and g: "grantsOK db g" and ph: "pr_phase p = GotNow now"
    and r: "tickRenew out (pgConn n stamp clk) ctxDone now n p db = (p', db')"
  shows "leaseMoves n clk db db' \<and> procOK (noteGrant db' g) db' clk n p'"
proof -
  define ph' where "ph' = (if ctxDone then Waiting else Renewed now)"
  have now: "now \<le> clk" using p ph by (simp add: procOK_def nowOK_def)
  have phase: "nowOK clk (q\<lparr>pr_phase := ph'\<rparr>)" "claimOK (q\<lparr>pr_phase := ph'\<rparr>)" for q
    using now by (simp_all add: ph'_def nowOK_def claimOK_def)
  have drop: "procOK (noteGrant d g) d clk n ((dropLeadership p)\<lparr>pr_phase := ph'\<rparr>)" for d
    by (rule procOK_idle [OF _ phase]) (use p in \<open>simp add: procOK_def dropLeadership_idle\<close>)
  show ?thesis
  proof (cases "pr_leader p")
    case False
    then have "p' = p\<lparr>pr_phase := ph'\<rparr>" "db' = db" using r by (simp_all add: tickRenew_def ph'_def)
    then show ?thesis using procOK_phase [OF p g phase] by (simp add: leaseMoves_def)
  next
    case True
    obtain a d where call: "RenewLease out (pgConn n stamp clk) schedulerLeaseName n (pr_fence p) now (now + leaseTTL p) db = (a, d)"
      by fastforce
    then have mv: "leaseMoves n clk db d" by (metis RenewLease_moves snd_conv)
    show ?thesis
    proof (cases "a = Inr True")
      case False
      then have "p' = (dropLeadership p)\<lparr>pr_phase := ph'\<rparr>" "db' = d"
        using r True call by (auto simp: tickRenew_def ph'_def split: sum.splits bool.splits)
      then show ?thesis using mv drop by simp
    next
      case held: True
      with call obtain l where l: "leaseRow db = Some l" "ls_owner l = n" "ls_fence l = pr_fence p"
          "leaseRow d = Some (l\<lparr>ls_expires := now + leaseTTL p\<rparr>)"
        by (auto elim: RenewLease_held)
      have p': "p' = p\<lparr>pr_expiresAt := now + leaseTTL p, pr_phase := ph'\<rparr>" "db' = d"
        using r True call held by (auto simp: tickRenew_def ph'_def)
      have "leadOK (noteGrant d g) d clk n p'"
        using l noteGrant_row [OF l(4), of g] by (simp add: leadOK_def p')
      moreover have "termsOK (noteGrant d g) n p'"
        using p noteGrant_mono [of g d] by (auto simp: procOK_def termsOK_def p')
      moreover have "procShapeOK p'" using p by (simp add: procOK_def procShapeOK_def p')
      ultimately show ?thesis using mv phase by (simp add: procOK_def p')
    qed
  qed
qed

lemma tickConfirm_ok:
  assumes p: "procOK g db clk n p" and g: "grantsOK db g" and ph: "pr_phase p = Renewed now"
    and r: "tickConfirm out (pgConn n stamp clk) ctxDone now n p db = (p', db')"
  shows "leaseMoves n clk db db' \<and> procOK (noteGrant db' g) db' clk n p'"
proof -
  have now: "now \<le> clk" using p ph by (simp add: procOK_def nowOK_def)
  have same: "leaseMoves n clk db db" by (simp add: leaseMoves_def)
  have ticking: "procOK (noteGrant db g) db clk n (p\<lparr>pr_phase := Ticking\<rparr>)"
    by (rule procOK_phase [OF p g]) (simp_all add: nowOK_def claimOK_def)
  show ?thesis
  proof (cases "pr_leader p \<or> \<not> termExited p")
    case True
    then have "tickConfirm out (pgConn n stamp clk) ctxDone now n p db = (p\<lparr>pr_phase := Ticking\<rparr>, db)"
      by (cases "pr_leader p") (simp_all add: tickConfirm_def termDraining_def)
    then show ?thesis using r ticking same by simp
  next
    case False
    define q where "q = p\<lparr>pr_termDone := None\<rparr>"
    have empty: "pr_terms q = []" using False p termExited_empty by (simp add: q_def procOK_def)
    have idle: "procOK (noteGrant d g) d clk n (q'\<lparr>pr_phase := Claiming now\<rparr>)"
      if "pr_terms q' = []" "\<not> pr_leader q'" for d q'
      by (rule procOK_idle) (use that now in \<open>simp_all add: idleOK_def termsOK_def procShapeOK_def nowOK_def claimOK_def\<close>)
    obtain a d where call: "RenewLease out (pgConn n stamp clk) schedulerLeaseName n (pr_fence q) now (now + leaseTTL q) db = (a, d)"
      by fastforce
    then have mv: "leaseMoves n clk db d" by (metis RenewLease_moves snd_conv)
    have nl: "\<not> pr_leader q" and draining: "termDraining p = (False, q)"
      using False by (simp_all add: q_def termDraining_def)
    have eq: "tickConfirm out (pgConn n stamp clk) ctxDone now n p db =
        (if pr_unconfirmedClaim q then
           (case a of
               Inl e \<Rightarrow> (q\<lparr>pr_phase := Claiming now\<rparr>, d)
             | Inr False \<Rightarrow> (q\<lparr>pr_unconfirmedClaim := False, pr_fence := 0, pr_phase := Claiming now\<rparr>, d)
             | Inr True \<Rightarrow> ((if ctxDone then q else startTerm (now + leaseTTL q) q)\<lparr>pr_phase := Claiming now\<rparr>, d))
          else (q\<lparr>pr_phase := Claiming now\<rparr>, db))"
      using nl draining call by (cases a) (simp_all add: tickConfirm_def q_def split: bool.split)
    consider "p' = q\<lparr>pr_phase := Claiming now\<rparr>" "db' \<in> {db, d}"
      | "p' = q\<lparr>pr_unconfirmedClaim := False, pr_fence := 0, pr_phase := Claiming now\<rparr>" "db' = d"
      | "a = Inr True" "p' = (startTerm (now + leaseTTL q) q)\<lparr>pr_phase := Claiming now\<rparr>" "db' = d"
      using r unfolding eq by (cases a) (auto split: if_splits bool.splits)
    then show ?thesis
    proof cases
      case 1
      then show ?thesis using mv same idle [OF empty nl] by auto
    next
      case 2
      then show ?thesis using mv idle [of "q\<lparr>pr_unconfirmedClaim := False, pr_fence := 0\<rparr>"] empty nl by simp
    next
      case 3
      with call obtain l where l: "ls_owner l = n" "ls_fence l = pr_fence q"
          "leaseRow d = Some (l\<lparr>ls_expires := now + leaseTTL q\<rparr>)"
        by (auto elim: RenewLease_held)
      show ?thesis using 3 mv startTerm_ok [OF empty l(3)] l now by (simp add: nowOK_def)
    qed
  qed
qed

lemma tickClaim_ok:
  assumes p: "procOK g db clk n p" and g: "grantsOK db g" and ph: "pr_phase p = Claiming now"
    and r: "tickClaim out (pgConn n stamp clk) ctxBefore ctxAfter now n p db = (p', db')"
  shows "leaseMoves n clk db db' \<and> procOK (noteGrant db' g) db' clk n p'"
proof (cases "\<not> pr_leader p \<and> \<not> pr_unconfirmedClaim p \<and> \<not> ctxBefore")
  case False
  then have "tickClaim out (pgConn n stamp clk) ctxBefore ctxAfter now n p db = (p\<lparr>pr_phase := Ticking\<rparr>, db)"
    by (simp only: tickClaim_def if_False)
  then have r': "p' = p\<lparr>pr_phase := Ticking\<rparr>" "db' = db" using r by simp_all
  show ?thesis unfolding r'
    by (rule conjI [OF _ procOK_phase [OF p g]]) (simp_all add: nowOK_def claimOK_def leaseMoves_def)
next
  case True
  have now: "now \<le> clk" using p ph by (simp add: procOK_def nowOK_def)
  have empty: "pr_terms p = []" using True p ph by (simp add: procOK_def claimOK_def)
  obtain x d where xd: "ClaimLease out (pgConn n stamp clk) schedulerLeaseName n now (now + leaseTTL p) db = (x, d)"
    by fastforce
  obtain f held err where x: "x = (f, held, err)" by (cases x)
  note call = xd [unfolded x]
  have mv: "leaseMoves n clk db d"
    using ClaimLease_moves [OF now, of n db out stamp clk "now + leaseTTL p"] call by simp
  define q where "q = (if f \<noteq> 0 \<and> (held \<or> err \<noteq> None) then p\<lparr>pr_fence := f, pr_unconfirmedClaim := True\<rparr> else p)"
  have q: "pr_terms q = []" "\<not> pr_leader q" using empty True by (simp_all add: q_def)
  have eq: "tickClaim out (pgConn n stamp clk) ctxBefore ctxAfter now n p db =
      ((if err = None \<and> held \<and> \<not> ctxAfter then startTerm (now + leaseTTL p) q else q)\<lparr>pr_phase := Ticking\<rparr>, d)"
    using True call by (simp add: tickClaim_def Let_def q_def)
  show ?thesis
  proof (cases "err = None \<and> held \<and> \<not> ctxAfter")
    case False
    then have r': "p' = q\<lparr>pr_phase := Ticking\<rparr>" "db' = d" using r unfolding eq if_not_P [OF False] by simp_all
    have "procOK (noteGrant d g) d clk n (q\<lparr>pr_phase := Ticking\<rparr>)"
      by (rule procOK_idle) (use q in \<open>simp_all add: idleOK_def termsOK_def procShapeOK_def nowOK_def claimOK_def\<close>)
    then show ?thesis using mv r' by simp
  next
    case started: True
    then have r': "p' = (startTerm (now + leaseTTL p) q)\<lparr>pr_phase := Ticking\<rparr>" "db' = d" using r eq by simp_all
    have row: "leaseRow d = Some \<lparr>ls_owner = n, ls_fence = f, ls_acquired = now, ls_expires = now + leaseTTL p\<rparr>"
      by (rule ClaimLease_held) (use call started in simp)
    have "1 \<le> f" using grantsOK_moves [OF g mv] row by (auto simp: grantsOK_def)
    then have "pr_fence q = f" using started by (simp add: q_def)
    then show ?thesis using mv r' startTerm_ok [OF q(1) row] by (simp add: nowOK_def)
  qed
qed

lemma procOK_row: "leaseRow db' = leaseRow db \<Longrightarrow> procOK g db' clk n p = procOK g db clk n p"
  by (simp add: procOK_def leadOK_def)

lemma onTick_ok:
  assumes p: "procOK g db clk n p" and g: "grantsOK db g" and ph: "pr_phase p = Ticking"
    and r: "onTick answer outs c p db = (p', db')"
  shows "leaseMoves n clk db db' \<and> procOK (noteGrant db' g) db' clk n (p'\<lparr>pr_phase := Waiting\<rparr>)"
proof -
  from onTick_leases [OF r] have row: "leaseRow db' = leaseRow db" and p': "p' = p\<lparr>pr_registered := pr_registered p'\<rparr>"
    by simp_all
  have "procOK g db clk n (p\<lparr>pr_registered := b, pr_phase := Waiting\<rparr>)" for b
    using p by (simp add: procOK_def termsOK_def leadOK_def procShapeOK_def nowOK_def claimOK_def)
  then have "procOK g db clk n (p'\<lparr>pr_phase := Waiting\<rparr>)" by (subst p') simp
  then show ?thesis
    using noteGrant_same [OF g row] by (simp add: row leaseMoves_def procOK_row [OF row])
qed

lemma shutdown_ok:
  assumes p: "procOK g db clk n p"
  shows "procOK (noteGrant db g) db clk n (shutdownDrop p)"
proof -
  have "idleOK g n (dropLeadership p)" using p by (simp add: procOK_def dropLeadership_idle)
  then show ?thesis unfolding shutdownDrop_def
    by (intro procOK_idle) (simp_all add: nowOK_def claimOK_def idleOK_def)
qed

lemma release_ok:
  assumes p: "procOK g db clk n p" and ph: "pr_phase p = Stopping"
    and r: "shutdownRelease out (pgConn n stamp clk) joined n p db = (p', db')"
  shows "leaseMoves n clk db db' \<and> procOK (noteGrant db' g) db' clk n p'"
proof -
  have "leaseMoves n clk db db'"
    using r ReleaseLease_moves [of n clk db out stamp clk "pr_fence p"]
    by (auto simp: shutdownRelease_def leaseMoves_def split: if_splits)
  moreover have "procOK (noteGrant db' g) db' clk n (p\<lparr>pr_phase := Stopped\<rparr>)"
    by (rule procOK_idle) (use p ph in \<open>simp_all add: procOK_def idleOK_def nowOK_def claimOK_def\<close>)
  ultimately show ?thesis using r by (auto simp: shutdownRelease_def)
qed


section \<open>Every step keeps it\<close>

lemma procOK_clock: "procOK g db clk n p \<Longrightarrow> clk \<le> clk' \<Longrightarrow> procOK g db clk' n p"
  by (force simp: procOK_def leadOK_def nowOK_def split: phase.splits if_splits)

lemma procOK_boot: "procOK g db clk n (boot ttl node registered)"
  by (simp add: boot_def procOK_def termsOK_def leadOK_def nowOK_def procShapeOK_def claimOK_def)

lemma procOK_exit:
  assumes "procOK g db clk n p"
  shows "procOK g db clk n (p\<lparr>pr_terms := remove1 t (pr_terms p)\<rparr>)"
proof -
  have "set (remove1 t (pr_terms p)) \<subseteq> set (pr_terms p)" by (rule set_remove1_subset)
  moreover have "length (remove1 t (pr_terms p)) \<le> length (pr_terms p)" by (simp add: length_remove1)
  ultimately show ?thesis using assms
    by (fastforce simp: procOK_def termsOK_def leadOK_def nowOK_def procShapeOK_def claimOK_def split: phase.splits)
qed

lemma guard_row:
  assumes "GuardSingletonLease (pgConn n stamp t) (Some (schedulerLeaseName, n, f)) db = Inr ()"
  obtains l where "leaseRow db = Some l" "ls_owner l = n" "ls_fence l = f" "t < ls_expires l"
  using assms by (cases "leaseRow db") (auto simp: GuardSingletonLease_def holdsLease_def pgConn_def column_def)

lemma logOK_write:
  assumes "sysOK s" "leaseRow (sy_db s) = Some l" "(ls_fence l, n) \<in> set (sy_grants s)"
  shows "logOK (sy_grants s) (sy_log s @ [(n, ls_fence l)])"
  using assms by (fastforce simp: sysOK_def logOK_def grantsOK_def sorted_append)

lemma sysOK_proc: "sysOK s \<Longrightarrow> sy_procs s n = Some p \<Longrightarrow> procOK (sy_grants s) (sy_db s) (sy_clock s) n p"
  by (simp add: sysOK_def)

lemma sysOK_grants: "sysOK s \<Longrightarrow> grantsOK (sy_db s) (sy_grants s)"
  by (simp add: sysOK_def)

lemma sysOK_block:
  assumes "sysOK s" "leaseMoves n (sy_clock s) (sy_db s) (snd r) \<and>
     procOK (noteGrant (snd r) (sy_grants s)) (snd r) (sy_clock s) n (fst r)"
  shows "sysOK (withProc s n r)"
  using sysOK_withProc [OF assms(1), of n "snd r" "fst r"] assms(2) by simp

lemma leaseMoves_refl [simp]: "leaseMoves n clk db db"
  by (simp add: leaseMoves_def)

lemma sysStep_ok:
  assumes "sysStep s s'" "sysOK s"
  shows "sysOK s'"
  using assms
proof (induction rule: sysStep.induct)
  case (Clock s t)
  then show ?case by (auto simp: sysOK_def intro: procOK_clock)
next
  case (Boot s n ttl node registered)
  then show ?case by (auto simp: sysOK_def procOK_boot)
next
  case (Crash s n)
  then show ?case by (auto simp: sysOK_def)
next
  case (Now s n p answer)
  show ?case
    by (rule sysOK_block [OF Now.prems])
       (use tickNow_ok [OF sysOK_proc sysOK_grants] Now in simp)
next
  case (Renew s n p now out stamp ctxDone)
  show ?case
    by (rule sysOK_block [OF Renew.prems], rule tickRenew_ok [OF sysOK_proc sysOK_grants])
       (use Renew in auto)
next
  case (Confirm s n p now out stamp ctxDone)
  show ?case
    by (rule sysOK_block [OF Confirm.prems], rule tickConfirm_ok [OF sysOK_proc sysOK_grants])
       (use Confirm in auto)
next
  case (Claim s n p now out stamp ctxBefore ctxAfter)
  show ?case
    by (rule sysOK_block [OF Claim.prems], rule tickClaim_ok [OF sysOK_proc sysOK_grants])
       (use Claim in auto)
next
  case (Tick s n p answer outs stamp p' db')
  show ?case
    by (rule sysOK_block [OF Tick.prems], unfold fst_conv snd_conv, rule onTick_ok [OF sysOK_proc sysOK_grants])
       (use Tick in auto)
next
  case (Shutdown s n p)
  show ?case
    by (rule sysOK_block [OF Shutdown.prems])
       (use shutdown_ok [OF sysOK_proc] Shutdown in simp)
next
  case (Release s n p joined out stamp)
  show ?case
    by (rule sysOK_block [OF Release.prems], rule release_ok [OF sysOK_proc])
       (use Release in auto)
next
  case (TermExit s n p t)
  then show ?case using procOK_exit by (auto simp: sysOK_def)
next
  case (Write s n p t stamp)
  from Write.hyps(3) obtain l where "leaseRow (sy_db s) = Some l" "ls_fence l = tm_fence t" by (rule guard_row)
  moreover have "(tm_fence t, n) \<in> set (sy_grants s)"
    using sysOK_proc [OF Write.prems Write.hyps(1)] Write.hyps(2) by (simp add: procOK_def termsOK_def)
  ultimately have "logOK (sy_grants s) (sy_log s @ [(n, tm_fence t)])"
    using logOK_write [OF Write.prems] by metis
  then show ?case using Write.prems by (simp add: sysOK_def)
next
  case (Topology db' s)
  then show ?case by (simp add: sysOK_def grantsOK_def procOK_def leadOK_def)
qed

lemma sysOK_init: "sysOK (initSystem emptyCoordDB t)"
  by (simp add: initSystem_def sysOK_def grantsOK_def logOK_def noteGrant_def emptyCoordDB_def)

lemma sysOK_reach: "reachableFrom s s' \<Longrightarrow> sysOK s \<Longrightarrow> sysOK s'"
  unfolding reachableFrom_def by (induction rule: rtranclp_induct) (auto intro: sysStep_ok)


lemma reach_refl: "reachableFrom s s"
  by (simp add: reachableFrom_def)

lemma reach_step: "reachableFrom s s' \<Longrightarrow> sysStep s' s'' \<Longrightarrow> reachableFrom s s''"
  by (simp add: reachableFrom_def rtranclp.rtrancl_into_rtrancl)


section \<open>A stale term never writes again\<close>

lemma sysStep_fence:
  assumes "sysStep s s'" "sysOK s" "leaseRow (sy_db s) = Some l"
  shows "\<exists>l'. leaseRow (sy_db s') = Some l' \<and> ls_fence l \<le> ls_fence l'"
proof -
  have moves: "\<exists>l'. leaseRow d = Some l' \<and> ls_fence l \<le> ls_fence l'" if "leaseMoves n clk (sy_db s) d" for n clk d
    using fence_monotone [OF that assms(3)] by blast
  have block: ?thesis if "s' = withProc s n r" "leaseMoves n (sy_clock s) (sy_db s) (snd r)" for n r
    using moves [OF that(2)] that(1) by (simp add: withProc_def)
  from assms(1) show ?thesis
  proof (cases rule: sysStep.cases)
    case (Now n p answer)
    show ?thesis by (rule block [OF Now(1)]) simp
  next
    case (Renew n p now out stamp ctxDone)
    show ?thesis
      by (rule block [OF Renew(1)], rule conjunct1 [OF tickRenew_ok [OF sysOK_proc sysOK_grants _ prod.collapse [symmetric]]]) (use Renew assms(2) in auto)
  next
    case (Confirm n p now out stamp ctxDone)
    show ?thesis
      by (rule block [OF Confirm(1)], rule conjunct1 [OF tickConfirm_ok [OF sysOK_proc sysOK_grants _ prod.collapse [symmetric]]]) (use Confirm assms(2) in auto)
  next
    case (Claim n p now out stamp ctxBefore ctxAfter)
    show ?thesis
      by (rule block [OF Claim(1)], rule conjunct1 [OF tickClaim_ok [OF sysOK_proc sysOK_grants _ prod.collapse [symmetric]]]) (use Claim assms(2) in auto)
  next
    case (Tick n p answer outs stamp p' db')
    show ?thesis
      by (rule block [OF Tick(1)]) (use onTick_leases [OF Tick(4)] in \<open>simp add: leaseMoves_def\<close>)
  next
    case (Release n p joined out stamp)
    show ?thesis
      by (rule block [OF Release(1)], rule conjunct1 [OF release_ok [OF sysOK_proc _ prod.collapse [symmetric]]]) (use Release assms(2) in auto)
  next
    case (Shutdown n p)
    show ?thesis by (rule block [OF Shutdown(1)]) simp
  next
    case (Topology db')
    then show ?thesis using assms(3) by simp
  qed (use assms(3) in simp_all)
qed

lemma reach_fence:
  assumes "reachableFrom s s'" "sysOK s" "leaseRow (sy_db s) = Some l"
  shows "\<exists>l'. leaseRow (sy_db s') = Some l' \<and> ls_fence l \<le> ls_fence l'"
  using assms(1) unfolding reachableFrom_def
proof (induction rule: rtranclp_induct)
  case (step y z)
  then obtain ly where "leaseRow (sy_db y) = Some ly" "ls_fence l \<le> ls_fence ly" by blast
  moreover have "sysOK y" using sysOK_reach step(1) assms(2) by (simp add: reachableFrom_def)
  ultimately show ?case using sysStep_fence [OF step(2)] by (meson order_trans)
qed (use assms(3) in simp)




section \<open>Takeover\<close>

definition leads :: "System \<Rightarrow> string \<Rightarrow> Time \<Rightarrow> bool" where
  "leads s n e \<longleftrightarrow>
     (\<exists>p l. sy_procs s n = Some p \<and> pr_leader p \<and> pr_expiresAt p = e \<and> pr_phase p = Ticking \<and>
            (\<exists>t \<in> set (pr_terms p). tm_fence t = ls_fence l \<and> \<not> tm_cancelled t) \<and>
            leaseRow (sy_db s) = Some l \<and> ls_owner l = n \<and> ls_expires l = e)"

lemma currentTopology_none: "db_topology db = None \<Longrightarrow> topologyLeaseAllowed c n db = Inr ()"
  by (simp add: topologyLeaseAllowed_def currentTopology_def)

lemma claim_free:
  assumes "db_topology db = None" "\<forall>l. leaseRow db = Some l \<longrightarrow> ls_expires l \<le> now \<and> 0 \<le> ls_fence l"
  obtains f db' where "ClaimLease Commits (pgConn n stamp t) schedulerLeaseName n now e db = ((f, True, None), db')"
    "f \<noteq> 0" "leaseRow db' = Some \<lparr>ls_owner = n, ls_fence = f, ls_acquired = now, ls_expires = e\<rparr>"
proof -
  have "knownEngine (pgConn n stamp t)" by (simp add: knownEngine_def pgConn_def)
  then have "\<exists>f db'. Tx_ClaimLease (pgConn n stamp t) schedulerLeaseName n now e db = Inr ((f, True), db') \<and> f \<noteq> 0"
    using assms by (cases "leaseRow db") (auto simp: Tx_ClaimLease_def Let_def currentTopology_none guardE_def)
  then obtain f db' where tx: "Tx_ClaimLease (pgConn n stamp t) schedulerLeaseName n now e db = Inr ((f, True), db')" "f \<noteq> 0"
    by blast
  have "ClaimLease Commits (pgConn n stamp t) schedulerLeaseName n now e db = ((f, True, None), db')"
    by (simp add: ClaimLease_def transaction_def tx(1))
  then show ?thesis using that tx Tx_ClaimLease_cases [OF tx(1)] by metis
qed



section \<open>A node that leads\<close>

definition nodeA :: HANode where
  "nodeA = \<lparr>hn_NodeID = ''a'', hn_BinaryVersion = ''1'', hn_SchemaVersion = 1, hn_RootKeyFingerprint = ''k'',
            hn_StartedAt = 0, hn_HeartbeatAt = 0\<rparr>"

definition booted :: System where
  "booted = (initSystem emptyCoordDB 5)\<lparr>sy_procs := [''a'' \<mapsto> boot 0 nodeA True]\<rparr>"

lemma booted_reachable: "reachableFrom (initSystem emptyCoordDB 5) booted"
  using sysStep.Boot [of "initSystem emptyCoordDB 5" "''a''" 0 nodeA True]
  by (auto simp: reachableFrom_def booted_def initSystem_def)

lemma booted_facts:
  "sy_procs booted ''a'' = Some (boot 0 nodeA True)" "sy_clock booted = 5" "leaseRow (sy_db booted) = None"
  "db_topology (sy_db booted) = None"
  by (simp_all add: booted_def initSystem_def emptyCoordDB_def)

lemma boot_facts:
  "pr_phase (boot ttl node r) = Waiting" "\<not> pr_leader (boot ttl node r)" "\<not> pr_unconfirmedClaim (boot ttl node r)"
  "termExited (boot ttl node r)" "leaseTTL (boot 0 node r) = 30 * Second"
  by (simp_all add: boot_def termExited_def leaseTTL_def defaultLeaseTTL_def)


text \<open>The heartbeat of that node step by step, and one write of its job.\<close>

definition atA :: "phase \<Rightarrow> System" where
  "atA ph = booted\<lparr>sy_procs := [''a'' \<mapsto> (boot 0 nodeA True)\<lparr>pr_phase := ph\<rparr>]\<rparr>"

definition led :: System where
  "led = booted\<lparr>
     sy_procs := [''a'' \<mapsto> (boot 0 nodeA True)\<lparr>pr_phase := Ticking, pr_fence := 1, pr_expiresAt := 5 + 30 * Second,
       pr_leader := True, pr_termCancel := Some 1, pr_termDone := Some 1,
       pr_terms := [\<lparr>tm_fence = 1, tm_cancelled = False\<rparr>]\<rparr>],
     sy_db := emptyCoordDB\<lparr>db_leases := [schedulerLeaseName \<mapsto>
       \<lparr>ls_owner = ''a'', ls_fence = 1, ls_acquired = 5, ls_expires = 5 + 30 * Second\<rparr>]\<rparr>,
     sy_grants := [(1, ''a'')]\<rparr>"

lemmas demo_simps = atA_def led_def booted_def initSystem_def emptyCoordDB_def boot_def withProc_def noteGrant_def

lemma led_steps:
  "sysStep booted (atA (GotNow 5))" "sysStep (atA (GotNow 5)) (atA (Renewed 5))"
  "sysStep (atA (Renewed 5)) (atA (Claiming 5))" "sysStep (atA (Claiming 5)) led"
  "sysStep led (led\<lparr>sy_log := [(''a'', 1)]\<rparr>)"
proof -
  show "sysStep booted (atA (GotNow 5))"
    using sysStep.Now [OF booted_facts(1) boot_facts(1), of "Some 5"] by (simp add: demo_simps tickNow_def)
  show "sysStep (atA (GotNow 5)) (atA (Renewed 5))"
    using sysStep.Renew [of "atA (GotNow 5)" "''a''" _ 5 Commits "[]" False] by (simp add: demo_simps tickRenew_def)
  show "sysStep (atA (Renewed 5)) (atA (Claiming 5))"
    using sysStep.Confirm [of "atA (Renewed 5)" "''a''" _ 5 Commits "[]" False]
    by (simp add: demo_simps tickConfirm_def termDraining_def termExited_def)
  show "sysStep (atA (Claiming 5)) led"
    using sysStep.Claim [of "atA (Claiming 5)" "''a''" _ 5 Commits "[]" False False]
    by (simp add: demo_simps tickClaim_def ClaimLease_def transaction_def Tx_ClaimLease_def topologyLeaseAllowed_def
        currentTopology_def knownEngine_def pgConn_def column_def guardE_def startTerm_def leaseTTL_def defaultLeaseTTL_def)
  show "sysStep led (led\<lparr>sy_log := [(''a'', 1)]\<rparr>)"
    using sysStep.Write [of led "''a''" _ "\<lparr>tm_fence = 1, tm_cancelled = False\<rparr>" "[]"]
    by (simp add: demo_simps GuardSingletonLease_def holdsLease_def pgConn_def column_def guardE_def)
qed

lemma led_reachable:
  "reachableFrom (initSystem emptyCoordDB 5) led"
  "reachableFrom (initSystem emptyCoordDB 5) (led\<lparr>sy_log := [(''a'', 1)]\<rparr>)"
proof -
  show "reachableFrom (initSystem emptyCoordDB 5) led"
    by (rule reach_step [OF reach_step [OF reach_step [OF reach_step [OF booted_reachable]]]]) (rule led_steps)+
  then show "reachableFrom (initSystem emptyCoordDB 5) (led\<lparr>sy_log := [(''a'', 1)]\<rparr>)"
    by (rule reach_step) (rule led_steps)
qed



end
