(* ===== verification/Admission.thy ===== *)
theory Admission
  imports Coordination "HOL-Library.AList" "HOL-Library.Word"
begin

text \<open>
  Pre-authentication admission control (\<^verbatim>\<open>internal/admission\<close>: \<open>admission.go\<close>, \<open>inherit.go\<close>,
  \<open>live_sessions.go\<close>): the semaphore sized by the memory budget with its bounded queue, the
  sliding windows per source and per issuer, the per-account backoff, the sessions proven live,
  and the handoff of the counters to a new generation. A Go map is an association list whose
  order is the order a \<^verbatim>\<open>range\<close> visits it, and the results about maps hold for every order.
  The clock value is an argument (\<open>now\<close>), as is the digest (\<open>hash\<close>, SHA-256). With a shared
  backend the counters are the tables of the coordination theory, and the outcome of each
  datastore call is an argument. Durations are integers: \<^verbatim>\<open>Sub\<close> saturates only past 292
  years. The results: the verifications in flight never exceed the memory budget and the queue
  never its depth; a window admits at most its allowance in any minute; the wait a refusal
  advertises is exactly when the window reopens; no map outgrows its bound; the in-memory and the
  shared backoff agree; a handoff happens only between idle generations and keeps every counter.
\<close>

section \<open>Constants and state\<close>

abbreviation DefaultBudgetMiB :: int where "DefaultBudgetMiB \<equiv> 272"
abbreviation HeadroomMiB :: int where "HeadroomMiB \<equiv> 16"
abbreviation MaxConcurrency :: int where "MaxConcurrency \<equiv> 8"
abbreviation QueueDepth :: int where "QueueDepth \<equiv> 16"
abbreviation PerIPPerMinute :: int where "PerIPPerMinute \<equiv> 10"
abbreviation MetaPerIPPerMinute :: int where "MetaPerIPPerMinute \<equiv> 60"
abbreviation IssuerRefreshPerMinute :: nat where "IssuerRefreshPerMinute \<equiv> 5"
abbreviation FailuresBeforeBackoff :: int where "FailuresBeforeBackoff \<equiv> 5"
abbreviation MaxAccountBackoff :: Time where "MaxAccountBackoff \<equiv> 60 * Second"
abbreviation RetryAfter :: Time where "RetryAfter \<equiv> 5 * Second"

definition MaxTrackedSubjects :: nat where
  "MaxTrackedSubjects = 4096"

datatype AdmissionError =
    ErrOverloaded | RateLimited Time
  | ArgonMemoryUnstated | BudgetTooSmall
  | ErrNotDistinct | ErrNotInitialized | ErrNotQuiescent | ErrCountersNotEmpty | ErrSharedBackendChanged

text \<open>The whole seconds of a \<^verbatim>\<open>Retry-After\<close> header.\<close>

definition RetryAfterSeconds :: "Time \<Rightarrow> int" where
  "RetryAfterSeconds wait = max 1 (- ((- wait) div Second))"

type_synonym subjectKey = string
type_synonym windows = "(string \<times> Time list) list"

record accountBackoff =
  ab_failures :: int
  ab_until :: Time

record liveSession =
  lv_id :: string
  lv_seen :: Time

text \<open>A backend reference: whether its dynamic type is comparable, and its identity.\<close>

type_synonym SharedRef = "bool \<times> nat"

record Limiter =
  l_concurrency :: int
  l_perIP :: nat
  l_discoveryPerIP :: nat
  l_slots :: "int option"
  l_shared :: "SharedRef option"
  l_log :: "nat option"
  l_readers :: int
  l_waiting :: int
  l_ipHits :: windows
  l_metaHits :: windows
  l_issuerRefreshes :: windows
  l_accounts :: "(subjectKey \<times> accountBackoff) list"
  l_liveSessions :: "(subjectKey \<times> liveSession) list"

record Config =
  cf_BudgetMiB :: int
  cf_ArgonMemoryKiB :: "32 word"
  cf_PerIPPerMinute :: int

definition budgetMiB :: "Config \<Rightarrow> int" where
  "budgetMiB cfg = (if cf_BudgetMiB cfg \<le> 0 then DefaultBudgetMiB else cf_BudgetMiB cfg)"

definition argonMiB :: "Config \<Rightarrow> int" where
  "argonMiB cfg = (uint (cf_ArgonMemoryKiB cfg) + 1023) div 1024"

definition NewLimiter :: "Config \<Rightarrow> AdmissionError + Limiter" where
  "NewLimiter cfg =
    (if cf_ArgonMemoryKiB cfg = 0 then Inl ArgonMemoryUnstated
     else if budgetMiB cfg < argonMiB cfg + HeadroomMiB then Inl BudgetTooSmall
     else
       let concurrency = max 1 (min MaxConcurrency ((budgetMiB cfg - HeadroomMiB) div argonMiB cfg));
           perIP = (if cf_PerIPPerMinute cfg \<le> 0 then PerIPPerMinute else cf_PerIPPerMinute cfg)
       in Inr \<lparr>l_concurrency = concurrency, l_perIP = nat perIP, l_discoveryPerIP = nat (max MetaPerIPPerMinute perIP),
               l_slots = Some concurrency, l_shared = None, l_log = None, l_readers = 0, l_waiting = 0,
               l_ipHits = [], l_metaHits = [], l_issuerRefreshes = [], l_accounts = [], l_liveSessions = []\<rparr>)"

definition UseShared :: "SharedRef \<Rightarrow> nat option \<Rightarrow> Limiter \<Rightarrow> Limiter" where
  "UseShared s log l = l\<lparr>l_shared := Some s, l_log := log\<rparr>"


section \<open>Windows\<close>

definition isLive :: "Time \<Rightarrow> Time list \<Rightarrow> bool" where
  "isLive cutoff hits \<longleftrightarrow> (\<exists>t \<in> set hits. cutoff < t)"

text \<open>The sweep of \<open>evictStale\<close>: what stays, and the live subject with the oldest first hit seen
  before anything was reclaimed.\<close>

fun evictSweep :: "Time \<Rightarrow> string \<Rightarrow> Time \<Rightarrow> bool \<Rightarrow> windows \<Rightarrow> windows \<times> string" where
  "evictSweep cutoff oldestKey oldest reclaimed [] = ([], oldestKey)"
| "evictSweep cutoff oldestKey oldest reclaimed ((k, hits) # bucket) =
    (if \<not> isLive cutoff hits then evictSweep cutoff oldestKey oldest True bucket
     else if \<not> reclaimed \<and> (oldestKey = [] \<or> hd hits < oldest)
     then apfst ((#) (k, hits)) (evictSweep cutoff k (hd hits) reclaimed bucket)
     else apfst ((#) (k, hits)) (evictSweep cutoff oldestKey oldest reclaimed bucket))"

definition evictStale :: "windows \<Rightarrow> Time \<Rightarrow> windows" where
  "evictStale bucket cutoff =
    (case evictSweep cutoff [] 0 False bucket of
       (bucket', oldestKey) \<Rightarrow>
         (if length bucket' \<ge> MaxTrackedSubjects \<and> oldestKey \<noteq> [] then AList.delete oldestKey bucket' else bucket'))"

text \<open>The wait (zero for admitted) and the charged bucket.\<close>

definition allowIPIn :: "windows \<Rightarrow> string \<Rightarrow> nat \<Rightarrow> Time \<Rightarrow> Time \<times> windows" where
  "allowIPIn bucket ip allowance now =
    (if ip = [] then (0, bucket)
     else
       let cutoff = now - Minute;
           kept = filter (\<lambda>t. cutoff < t) (slice_at bucket ip)
       in if length kept \<ge> allowance
          then (kept ! (length kept - allowance) + Minute - now, AList.update ip kept bucket)
          else (0, AList.update ip (kept @ [now])
                     (if kept = [] \<and> length bucket \<ge> MaxTrackedSubjects then evictStale bucket cutoff else bucket)))"

definition allowShared :: "txOutcome \<Rightarrow> Conn \<Rightarrow> string \<Rightarrow> string \<Rightarrow> nat \<Rightarrow> Time \<Rightarrow> CoordDB \<Rightarrow> Time \<times> CoordDB" where
  "allowShared out c bucket subject allowance now db =
    (if subject = [] then (0, db)
     else
       let window = now - now mod Minute
       in case BumpWindow out c bucket subject window db of
            (Inl e, db') \<Rightarrow> (RetryAfter, db')
          | (Inr count, db') \<Rightarrow> (if count \<le> int allowance then 0 else window + Minute - now, db'))"

definition allowIP :: "txOutcome \<Rightarrow> Conn \<Rightarrow> string \<Rightarrow> Time \<Rightarrow> Limiter \<Rightarrow> CoordDB \<Rightarrow> Time \<times> Limiter \<times> CoordDB" where
  "allowIP out c ip now l db =
    (if l_shared l \<noteq> None then
       (case allowShared out c ''ip'' ip (l_perIP l) now db of (wait, db') \<Rightarrow> (wait, l, db'))
     else
       (case allowIPIn (l_ipHits l) ip (l_perIP l) now of (wait, hits) \<Rightarrow> (wait, l\<lparr>l_ipHits := hits\<rparr>, db)))"

definition AdmitDiscovery ::
    "txOutcome \<Rightarrow> Conn \<Rightarrow> string \<Rightarrow> Time \<Rightarrow> Limiter \<Rightarrow> CoordDB \<Rightarrow> AdmissionError option \<times> Limiter \<times> CoordDB" where
  "AdmitDiscovery out c ip now l db =
    (let (wait, l', db') =
       (if l_shared l \<noteq> None then
          (case allowShared out c ''meta'' ip (l_discoveryPerIP l) now db of (wait, db') \<Rightarrow> (wait, l, db'))
        else
          (case allowIPIn (l_metaHits l) ip (l_discoveryPerIP l) now of
             (wait, hits) \<Rightarrow> (wait, l\<lparr>l_metaHits := hits\<rparr>, db)))
     in (if wait > 0 then Some (RateLimited wait) else None, l', db'))"

definition AllowDiscovery :: "txOutcome \<Rightarrow> Conn \<Rightarrow> string \<Rightarrow> Time \<Rightarrow> Limiter \<Rightarrow> CoordDB \<Rightarrow> bool \<times> Limiter \<times> CoordDB" where
  "AllowDiscovery out c ip now l db =
    (case AdmitDiscovery out c ip now l db of (err, l', db') \<Rightarrow> (err = None, l', db'))"

definition AllowIssuerRefresh :: "txOutcome \<Rightarrow> Conn \<Rightarrow> string \<Rightarrow> Time \<Rightarrow> Limiter \<Rightarrow> CoordDB \<Rightarrow> bool \<times> Limiter \<times> CoordDB" where
  "AllowIssuerRefresh out c issuer now l db =
    (if l_shared l \<noteq> None then
       (case allowShared out c ''issuer'' issuer IssuerRefreshPerMinute now db of (wait, db') \<Rightarrow> (wait = 0, l, db'))
     else
       (case allowIPIn (l_issuerRefreshes l) issuer IssuerRefreshPerMinute now of
          (wait, hits) \<Rightarrow> (wait = 0, l\<lparr>l_issuerRefreshes := hits\<rparr>, db)))"


section \<open>Per-account backoff\<close>

definition backoffDelay :: "int \<Rightarrow> Time" where
  "backoffDelay failures =
    (if failures \<le> FailuresBeforeBackoff then 0
     else min (2 ^ nat (min (failures - FailuresBeforeBackoff - 1) 16) * Second) MaxAccountBackoff)"

definition hexEncode :: "string \<Rightarrow> string" where
  "hexEncode s = concat (map (\<lambda>b. [hexDigit (of_char b div 16), hexDigit (of_char b mod 16)]) s)"

definition sharedAccountSubject :: "(string \<Rightarrow> subjectKey) \<Rightarrow> string \<Rightarrow> string" where
  "sharedAccountSubject hash presented = hexEncode (hash presented)"

definition accountDelay :: "subjectKey \<Rightarrow> Time \<Rightarrow> Limiter \<Rightarrow> Time" where
  "accountDelay key now l =
    (case map_of (l_accounts l) key of
       None \<Rightarrow> 0
     | Some st \<Rightarrow> (if ab_until st = 0 then 0 else if ab_until st - now > 0 then ab_until st - now else 0))"

definition sharedAccountDelay :: "txOutcome \<Rightarrow> Conn \<Rightarrow> string \<Rightarrow> CoordDB \<Rightarrow> Time" where
  "sharedAccountDelay out c subject db =
    (case fst (AccountFailureState out c subject db) of
       Inl e \<Rightarrow> RetryAfter
     | Inr (failures, lastFailure, dbNow, ok) \<Rightarrow>
         (if \<not> ok then 0
          else let d = lastFailure + backoffDelay failures - dbNow in if d > 0 then d else 0))"

definition AccountDelay :: "(string \<Rightarrow> subjectKey) \<Rightarrow> txOutcome \<Rightarrow> Conn \<Rightarrow> string \<Rightarrow> Time \<Rightarrow> Limiter \<Rightarrow> CoordDB \<Rightarrow> Time" where
  "AccountDelay hash out c presented now l db =
    (if l_shared l \<noteq> None then sharedAccountDelay out c (sharedAccountSubject hash presented) db
     else accountDelay (hash presented) now l)"

fun accountSweep ::
    "Time \<Rightarrow> subjectKey option \<Rightarrow> Time \<Rightarrow> bool \<Rightarrow> (subjectKey \<times> accountBackoff) list \<Rightarrow>
     (subjectKey \<times> accountBackoff) list \<times> subjectKey option" where
  "accountSweep now found soonest reclaimed [] = ([], found)"
| "accountSweep now found soonest reclaimed ((k, st) # accounts) =
    (if \<not> now < ab_until st then accountSweep now found soonest True accounts
     else if \<not> reclaimed \<and> (found = None \<or> ab_until st < soonest)
     then apfst ((#) (k, st)) (accountSweep now (Some k) (ab_until st) reclaimed accounts)
     else apfst ((#) (k, st)) (accountSweep now found soonest reclaimed accounts))"

definition evictAccounts :: "Time \<Rightarrow> (subjectKey \<times> accountBackoff) list \<Rightarrow> (subjectKey \<times> accountBackoff) list" where
  "evictAccounts now accounts =
    (case accountSweep now None 0 False accounts of
       (accounts', found) \<Rightarrow>
         (case found of
            Some k \<Rightarrow> (if length accounts' \<ge> MaxTrackedSubjects then AList.delete k accounts' else accounts')
          | None \<Rightarrow> accounts'))"

text \<open>Whether this failure crossed the threshold.\<close>

definition recordFailure :: "subjectKey \<Rightarrow> Time \<Rightarrow> Limiter \<Rightarrow> bool \<times> Limiter" where
  "recordFailure key now l =
    (let tracked = map_of (l_accounts l) key;
         state = (case tracked of None \<Rightarrow> \<lparr>ab_failures = 0, ab_until = 0\<rparr> | Some st \<Rightarrow> st);
         accounts = (if tracked = None \<and> length (l_accounts l) \<ge> MaxTrackedSubjects
                     then evictAccounts now (l_accounts l) else l_accounts l);
         n = ab_failures state + 1
     in if n \<le> FailuresBeforeBackoff
        then (False, l\<lparr>l_accounts := AList.update key (state\<lparr>ab_failures := n\<rparr>) accounts\<rparr>)
        else (n = FailuresBeforeBackoff + 1,
              l\<lparr>l_accounts := AList.update key
                  \<lparr>ab_failures = n,
                   ab_until = now + min (2 ^ nat (min (n - FailuresBeforeBackoff - 1) 16) * Second) MaxAccountBackoff\<rparr>
                  accounts\<rparr>))"

definition sharedRecordFailure :: "txOutcome \<Rightarrow> Conn \<Rightarrow> string \<Rightarrow> Time \<Rightarrow> CoordDB \<Rightarrow> bool \<times> CoordDB" where
  "sharedRecordFailure out c subject now db =
    (case RecordAccountFailure out c subject now db of
       (Inl e, db') \<Rightarrow> (False, db')
     | (Inr failures, db') \<Rightarrow> (failures = FailuresBeforeBackoff + 1, db'))"

definition RecordFailure ::
    "(string \<Rightarrow> subjectKey) \<Rightarrow> txOutcome \<Rightarrow> Conn \<Rightarrow> string \<Rightarrow> Time \<Rightarrow> Limiter \<Rightarrow> CoordDB \<Rightarrow> bool \<times> Limiter \<times> CoordDB" where
  "RecordFailure hash out c presented now l db =
    (if l_shared l \<noteq> None then
       (case sharedRecordFailure out c (sharedAccountSubject hash presented) now db of (crossed, db') \<Rightarrow> (crossed, l, db'))
     else (case recordFailure (hash presented) now l of (crossed, l') \<Rightarrow> (crossed, l', db)))"

definition recordSuccess :: "subjectKey \<Rightarrow> Limiter \<Rightarrow> Limiter" where
  "recordSuccess key l = l\<lparr>l_accounts := AList.delete key (l_accounts l)\<rparr>"

definition RecordSuccess ::
    "(string \<Rightarrow> subjectKey) \<Rightarrow> txOutcome \<Rightarrow> Conn \<Rightarrow> string \<Rightarrow> Limiter \<Rightarrow> CoordDB \<Rightarrow> Limiter \<times> CoordDB" where
  "RecordSuccess hash out c presented l db =
    (if l_shared l \<noteq> None then (l, snd (ClearAccount out c (sharedAccountSubject hash presented) db))
     else (recordSuccess (hash presented) l, db))"


section \<open>Live sessions\<close>

definition KnownLiveSession :: "(string \<Rightarrow> subjectKey) \<Rightarrow> string \<Rightarrow> Limiter \<Rightarrow> string \<times> bool" where
  "KnownLiveSession hash verifier l =
    (case map_of (l_liveSessions l) (hash verifier) of None \<Rightarrow> ([], False) | Some s \<Rightarrow> (lv_id s, True))"

text \<open>The zero time marks that no candidate has been seen.\<close>

fun oldestSession :: "subjectKey \<Rightarrow> Time \<Rightarrow> (subjectKey \<times> liveSession) list \<Rightarrow> subjectKey" where
  "oldestSession oldestKey oldest [] = oldestKey"
| "oldestSession oldestKey oldest ((k, s) # sessions) =
    (if oldest = 0 \<or> lv_seen s < oldest then oldestSession k (lv_seen s) sessions
     else oldestSession oldestKey oldest sessions)"

definition NoteLiveSession :: "(string \<Rightarrow> subjectKey) \<Rightarrow> string \<Rightarrow> string \<Rightarrow> Time \<Rightarrow> Limiter \<Rightarrow> Limiter" where
  "NoteLiveSession hash verifier sessionID now l =
    (let key = hash verifier;
         sessions =
           (if map_of (l_liveSessions l) key = None \<and> length (l_liveSessions l) \<ge> MaxTrackedSubjects
            then AList.delete (oldestSession (replicate 32 (CHR 0x00)) 0 (l_liveSessions l)) (l_liveSessions l)
            else l_liveSessions l)
     in l\<lparr>l_liveSessions := AList.update key \<lparr>lv_id = sessionID, lv_seen = now\<rparr> sessions\<rparr>)"

definition ForgetSession :: "(string \<Rightarrow> subjectKey) \<Rightarrow> string \<Rightarrow> Limiter \<Rightarrow> Limiter" where
  "ForgetSession hash verifier l = l\<lparr>l_liveSessions := AList.delete (hash verifier) (l_liveSessions l)\<rparr>"


section \<open>Generation handoff\<close>

text \<open>
  The arguments are the candidate and the previous limiter (\<open>None\<close> a nil pointer) and whether
  they are one object. A read lock of an operation in progress makes \<^verbatim>\<open>TryLock\<close> fail.
  Values of the model are never shared, as \<open>cloneWindows\<close> ensures in the code.
\<close>

definition InheritCounters :: "bool \<Rightarrow> Limiter option \<Rightarrow> Limiter option \<Rightarrow> AdmissionError + Limiter" where
  "InheritCounters sameObject candidate old =
    (case (candidate, old) of
       (Some l, Some previous) \<Rightarrow>
         (if sameObject then Inl ErrNotDistinct
          else if l_readers previous \<noteq> 0 then Inl ErrNotQuiescent
          else if l_readers l \<noteq> 0 then Inl ErrNotQuiescent
          else if l_slots previous = None \<or> l_slots l = None then Inl ErrNotInitialized
          else if l_waiting previous \<noteq> 0 \<or> l_waiting l \<noteq> 0 \<or>
                  l_slots previous \<noteq> Some (l_concurrency previous) \<or> l_slots l \<noteq> Some (l_concurrency l)
          then Inl ErrNotQuiescent
          else if l_ipHits l \<noteq> [] \<or> l_metaHits l \<noteq> [] \<or> l_issuerRefreshes l \<noteq> [] \<or>
                  l_accounts l \<noteq> [] \<or> l_liveSessions l \<noteq> []
          then Inl ErrCountersNotEmpty
          else if l_shared l \<noteq> None \<and> (\<not> fst (the (l_shared l)) \<or> l_shared l \<noteq> l_shared previous)
          then Inl ErrSharedBackendChanged
          else Inr (l\<lparr>l_ipHits := l_ipHits previous, l_metaHits := l_metaHits previous,
                      l_issuerRefreshes := l_issuerRefreshes previous, l_accounts := l_accounts previous,
                      l_liveSessions := l_liveSessions previous, l_shared := l_shared previous,
                      l_log := (if l_log l = None then l_log previous else l_log l)\<rparr>))
     | _ \<Rightarrow> Inl ErrNotDistinct)"


section \<open>Entering\<close>

definition enqueue :: "Limiter \<Rightarrow> bool \<times> Limiter" where
  "enqueue l = (if l_waiting l \<ge> QueueDepth then (False, l) else (True, l\<lparr>l_waiting := l_waiting l + 1\<rparr>))"

definition dequeue :: "Limiter \<Rightarrow> Limiter" where
  "dequeue l = l\<lparr>l_waiting := l_waiting l - 1\<rparr>"

text \<open>\<open>Enter\<close> up to its wait for a slot.\<close>

definition enterQueue ::
    "txOutcome \<Rightarrow> Conn \<Rightarrow> string \<Rightarrow> Time \<Rightarrow> Limiter \<Rightarrow> CoordDB \<Rightarrow> AdmissionError option \<times> Limiter \<times> CoordDB" where
  "enterQueue out c ip now l db =
    (case allowIP out c ip now l db of
       (wait, l', db') \<Rightarrow>
         (if wait > 0 then (Some (RateLimited wait), l', db')
          else case enqueue l' of (ok, l'') \<Rightarrow> (if ok then None else Some ErrOverloaded, l'', db')))"

text \<open>
  A caller inside \<open>Enter\<close> or holding its release function: queued at the \<^verbatim>\<open>select\<close>; past
  it, with or without a slot; dequeued; returned with the slot (\<open>Admitted\<close>); slot given back;
  refused. The deferred calls run in the order of the phases.
\<close>

datatype callPhase = Queued | Selected bool | Dequeued bool | Admitted | Released | Refused

record Caller =
  cl_phase :: callPhase
  cl_probe :: bool
  cl_receipt :: refusalReceipt

record Gate =
  g_limiter :: Limiter
  g_db :: CoordDB
  g_callers :: "Caller list"

definition noteRefused :: "Caller \<Rightarrow> Caller" where
  "noteRefused cl = cl\<lparr>cl_phase := Refused, cl_receipt := NoteRefusal (cl_probe cl) RefusalAdmission (cl_receipt cl)\<rparr>"

definition withCaller :: "Gate \<Rightarrow> nat \<Rightarrow> Caller \<Rightarrow> Limiter \<Rightarrow> Gate" where
  "withCaller g i cl l = g\<lparr>g_callers := (g_callers g)[i := cl], g_limiter := l\<rparr>"

definition gateFrame :: "Limiter \<Rightarrow> Limiter \<Rightarrow> bool" where
  "gateFrame l l' \<longleftrightarrow> l_concurrency l' = l_concurrency l \<and> l_slots l' = l_slots l \<and>
                    l_waiting l' = l_waiting l \<and> l_readers l' = l_readers l"

inductive gateStep :: "Gate \<Rightarrow> Gate \<Rightarrow> bool" where
  Turned: "enterQueue out c ip now (g_limiter g) (g_db g) = (Some err, l', db') \<Longrightarrow>
     gateStep g \<lparr>g_limiter = l', g_db = db',
       g_callers = g_callers g @ [noteRefused \<lparr>cl_phase = Queued, cl_probe = probe, cl_receipt = r\<rparr>]\<rparr>"
| Enqueued: "enterQueue out c ip now (g_limiter g) (g_db g) = (None, l', db') \<Longrightarrow>
     gateStep g \<lparr>g_limiter = l'\<lparr>l_readers := l_readers l' + 1\<rparr>, g_db = db',
       g_callers = g_callers g @ [\<lparr>cl_phase = Queued, cl_probe = probe, cl_receipt = r\<rparr>]\<rparr>"
| Take: "i < length (g_callers g) \<Longrightarrow> g_callers g ! i = cl \<Longrightarrow> cl_phase cl = Queued \<Longrightarrow>
     l_slots (g_limiter g) = Some k \<Longrightarrow> 0 < k \<Longrightarrow>
     gateStep g (withCaller g i (cl\<lparr>cl_phase := Selected True\<rparr>) ((g_limiter g)\<lparr>l_slots := Some (k - 1)\<rparr>))"
| Cancel: "i < length (g_callers g) \<Longrightarrow> g_callers g ! i = cl \<Longrightarrow> cl_phase cl = Queued \<Longrightarrow>
     gateStep g (withCaller g i (cl\<lparr>cl_phase := Selected False\<rparr>) (g_limiter g))"
| Dequeue: "i < length (g_callers g) \<Longrightarrow> g_callers g ! i = cl \<Longrightarrow> cl_phase cl = Selected b \<Longrightarrow>
     gateStep g (withCaller g i (cl\<lparr>cl_phase := Dequeued b\<rparr>) (dequeue (g_limiter g)))"
| Return: "i < length (g_callers g) \<Longrightarrow> g_callers g ! i = cl \<Longrightarrow> cl_phase cl = Dequeued b \<Longrightarrow>
     gateStep g (withCaller g i (if b then cl\<lparr>cl_phase := Admitted\<rparr> else noteRefused cl)
       ((g_limiter g)\<lparr>l_readers := l_readers (g_limiter g) - 1\<rparr>))"
| Release: "i < length (g_callers g) \<Longrightarrow> g_callers g ! i = cl \<Longrightarrow> cl_phase cl = Admitted \<Longrightarrow>
     l_slots (g_limiter g) = Some k \<Longrightarrow>
     gateStep g (withCaller g i (cl\<lparr>cl_phase := Released\<rparr>) ((g_limiter g)\<lparr>l_slots := Some (k + 1)\<rparr>))"
| Other: "gateFrame (g_limiter g) l' \<Longrightarrow> gateStep g (g\<lparr>g_limiter := l', g_db := db'\<rparr>)"

text \<open>\<open>Other\<close> is any operation of the limiter that leaves the semaphore and the queue alone.\<close>

record Snapshot =
  sn_ConcurrencyLimit :: int
  sn_InFlight :: int
  sn_QueueDepthLimit :: int
  sn_Waiting :: int
  sn_ActiveBackoffs :: nat

definition SnapshotOf :: "Time \<Rightarrow> Limiter \<Rightarrow> Snapshot" where
  "SnapshotOf now l =
    \<lparr>sn_ConcurrencyLimit = l_concurrency l,
     sn_InFlight = l_concurrency l - (case l_slots l of None \<Rightarrow> 0 | Some k \<Rightarrow> k),
     sn_QueueDepthLimit = QueueDepth, sn_Waiting = l_waiting l,
     sn_ActiveBackoffs = length (filter (\<lambda>(_, st). now < ab_until st) (l_accounts l))\<rparr>"


section \<open>The semaphore and the queue\<close>

definition countCallers :: "(callPhase \<Rightarrow> bool) \<Rightarrow> Caller list \<Rightarrow> int" where
  "countCallers P cls = int (length (filter (\<lambda>cl. P (cl_phase cl)) cls))"

definition waits :: "callPhase \<Rightarrow> bool" where
  "waits ph \<longleftrightarrow> (case ph of Queued \<Rightarrow> True | Selected _ \<Rightarrow> True | _ \<Rightarrow> False)"

definition inside :: "callPhase \<Rightarrow> bool" where
  "inside ph \<longleftrightarrow> (case ph of Queued \<Rightarrow> True | Selected _ \<Rightarrow> True | Dequeued _ \<Rightarrow> True | _ \<Rightarrow> False)"

definition holdsSlot :: "callPhase \<Rightarrow> bool" where
  "holdsSlot ph \<longleftrightarrow> (case ph of Selected b \<Rightarrow> b | Dequeued b \<Rightarrow> b | Admitted \<Rightarrow> True | _ \<Rightarrow> False)"

lemmas phase_defs = waits_def inside_def holdsSlot_def

definition gateOK :: "Gate \<Rightarrow> bool" where
  "gateOK g \<longleftrightarrow>
     l_waiting (g_limiter g) = countCallers waits (g_callers g) \<and> l_waiting (g_limiter g) \<le> QueueDepth \<and>
     l_readers (g_limiter g) = countCallers inside (g_callers g) \<and>
     (\<exists>k. l_slots (g_limiter g) = Some k \<and> 0 \<le> k \<and>
          k + countCallers holdsSlot (g_callers g) = l_concurrency (g_limiter g))"

lemma countCallers_snoc: "countCallers P (cls @ [cl]) = countCallers P cls + (if P (cl_phase cl) then 1 else 0)"
  by (simp add: countCallers_def)

lemma countCallers_nonneg [simp]: "0 \<le> countCallers P cls"
  by (simp add: countCallers_def)

lemma countCallers_Cons: "countCallers P (cl # cls) = (if P (cl_phase cl) then 1 else 0) + countCallers P cls"
  by (simp add: countCallers_def)

lemma countCallers_update:
  "i < length cls \<Longrightarrow>
   countCallers P (cls[i := cl]) =
     countCallers P cls - (if P (cl_phase (cls ! i)) then 1 else 0) + (if P (cl_phase cl) then 1 else 0)"
proof (induction cls arbitrary: i)
  case (Cons c cls)
  then show ?case by (cases i) (simp_all add: countCallers_Cons)
qed simp

lemma countCallers_zero: "countCallers P cls = 0 \<longleftrightarrow> (\<forall>cl \<in> set cls. \<not> P (cl_phase cl))"
  by (auto simp: countCallers_def filter_empty_conv)

lemma allowIP_frame: "allowIP out c ip now l db = (wait, l', db') \<Longrightarrow> gateFrame l l'"
  by (auto simp: allowIP_def gateFrame_def split: if_splits prod.splits)

lemma enterQueue_frame:
  assumes "enterQueue out c ip now l db = (err, l', db')"
  shows "l_concurrency l' = l_concurrency l \<and> l_slots l' = l_slots l \<and> l_readers l' = l_readers l \<and>
         (err = None \<longrightarrow> l_waiting l' = l_waiting l + 1 \<and> l_waiting l < QueueDepth) \<and>
         (err \<noteq> None \<longrightarrow> l_waiting l' = l_waiting l)"
proof -
  obtain wait l1 d where a: "allowIP out c ip now l db = (wait, l1, d)" by (metis surj_pair)
  from allowIP_frame [OF a] assms a show ?thesis
    by (auto simp: enterQueue_def enqueue_def gateFrame_def split: if_splits)
qed

lemma gateStep_ok: "gateStep g g' \<Longrightarrow> gateOK g \<Longrightarrow> gateOK g'"
proof (induction rule: gateStep.induct)
  case (Turned out c ip now g err l' db' probe r)
  then show ?case using enterQueue_frame [OF Turned.hyps]
    by (auto simp: gateOK_def countCallers_snoc noteRefused_def phase_defs)
next
  case (Enqueued out c ip now g l' db' probe r)
  then show ?case using enterQueue_frame [OF Enqueued.hyps]
    by (auto simp: gateOK_def countCallers_snoc phase_defs)
next
  case (Take i g cl k)
  then show ?case by (auto simp: gateOK_def withCaller_def countCallers_update phase_defs)
next
  case (Cancel i g cl)
  then show ?case by (auto simp: gateOK_def withCaller_def countCallers_update phase_defs)
next
  case (Dequeue i g cl b)
  then show ?case by (auto simp: gateOK_def withCaller_def countCallers_update phase_defs dequeue_def)
next
  case (Return i g cl b)
  then show ?case by (auto simp: gateOK_def withCaller_def countCallers_update phase_defs noteRefused_def)
next
  case (Release i g cl k)
  then show ?case by (auto simp: gateOK_def withCaller_def countCallers_update phase_defs)
next
  case (Other g l' db')
  then show ?case by (auto simp: gateOK_def gateFrame_def)
qed

lemma gateRun_ok: "gateStep\<^sup>*\<^sup>* g g' \<Longrightarrow> gateOK g \<Longrightarrow> gateOK g'"
  by (induction rule: rtranclp_induct) (auto intro: gateStep_ok)

lemma gateStep_concurrency: "gateStep g g' \<Longrightarrow> l_concurrency (g_limiter g') = l_concurrency (g_limiter g)"
  by (induction rule: gateStep.induct) (auto simp: withCaller_def dequeue_def gateFrame_def dest: enterQueue_frame)

lemma gateRun_concurrency: "gateStep\<^sup>*\<^sup>* g g' \<Longrightarrow> l_concurrency (g_limiter g') = l_concurrency (g_limiter g)"
  by (induction rule: rtranclp_induct) (auto dest: gateStep_concurrency)

definition freshGate :: "Limiter \<Rightarrow> CoordDB \<Rightarrow> Gate" where
  "freshGate l db = \<lparr>g_limiter = l, g_db = db, g_callers = []\<rparr>"

lemma NewLimiter_ok:
  assumes "NewLimiter cfg = Inr l"
  shows "gateOK (freshGate l db)"
    and "0 < argonMiB cfg" "l_concurrency l * argonMiB cfg + HeadroomMiB \<le> budgetMiB cfg"
    and "1 \<le> l_concurrency l" "l_concurrency l \<le> MaxConcurrency"
proof -
  from assms have z: "cf_ArgonMemoryKiB cfg \<noteq> 0" and b: "\<not> budgetMiB cfg < argonMiB cfg + HeadroomMiB"
    and c: "l_concurrency l = max 1 (min MaxConcurrency ((budgetMiB cfg - HeadroomMiB) div argonMiB cfg))"
    and l: "l_slots l = Some (l_concurrency l)" "l_waiting l = 0" "l_readers l = 0"
    by (auto simp: NewLimiter_def Let_def split: if_splits)
  show "1 \<le> l_concurrency l" "l_concurrency l \<le> MaxConcurrency" using c by simp_all
  from z have "0 < uint (cf_ArgonMemoryKiB cfg)" by (simp add: word_neq_0_conv word_less_def)
  then show pos: "0 < argonMiB cfg" by (simp add: argonMiB_def pos_imp_zdiv_pos_iff)
  have one: "1 \<le> (budgetMiB cfg - HeadroomMiB) div argonMiB cfg"
    using b pos by (simp add: pos_imp_zdiv_pos_iff int_one_le_iff_zero_less)
  have "l_concurrency l \<le> (budgetMiB cfg - HeadroomMiB) div argonMiB cfg" using c one by simp
  then have "l_concurrency l * argonMiB cfg \<le> ((budgetMiB cfg - HeadroomMiB) div argonMiB cfg) * argonMiB cfg"
    using pos by (intro mult_right_mono) auto
  also have "\<dots> \<le> budgetMiB cfg - HeadroomMiB" using pos by (simp add: minus_mod_eq_div_mult [symmetric])
  finally show "l_concurrency l * argonMiB cfg + HeadroomMiB \<le> budgetMiB cfg" by simp
  show "gateOK (freshGate l db)" using l c by (auto simp: gateOK_def freshGate_def countCallers_def)
qed

text \<open>
  C6. The memory budget is kept. For every configuration the limiter accepts, in every state its
  callers can reach - arriving, refused, queued, taking slots, cancelled, returning, releasing, in
  any order, with or without the shared backend - the verifications in flight fit the configured
  budget beside the headroom, no more callers wait than the queue admits, and the counters the
  snapshot reports count exactly those callers.
\<close>

theorem memory_budget_kept:
  assumes "NewLimiter cfg = Inr l" "gateStep\<^sup>*\<^sup>* (freshGate l db) g"
  shows "countCallers holdsSlot (g_callers g) * argonMiB cfg + HeadroomMiB \<le> budgetMiB cfg \<and>
         countCallers waits (g_callers g) \<le> QueueDepth \<and>
         sn_InFlight (SnapshotOf now (g_limiter g)) = countCallers holdsSlot (g_callers g) \<and>
         sn_Waiting (SnapshotOf now (g_limiter g)) = countCallers waits (g_callers g)"
proof -
  have ok: "gateOK g" using gateRun_ok [OF assms(2)] NewLimiter_ok(1) [OF assms(1)] .
  have "l_concurrency (g_limiter g) = l_concurrency l"
    using gateRun_concurrency [OF assms(2)] by (simp add: freshGate_def)
  with ok have "countCallers holdsSlot (g_callers g) \<le> l_concurrency l" by (auto simp: gateOK_def)
  then have "countCallers holdsSlot (g_callers g) * argonMiB cfg \<le> l_concurrency l * argonMiB cfg"
    using NewLimiter_ok(2) [OF assms(1)] by (intro mult_right_mono) auto
  then show ?thesis using NewLimiter_ok(3) [OF assms(1)] ok by (auto simp: gateOK_def SnapshotOf_def)
qed

lemma InheritCounters_Inr:
  assumes "InheritCounters False (Some l) (Some previous) = Inr l'"
  shows "l_readers l = 0" "l_readers previous = 0"
    "l_slots l = Some (l_concurrency l)" "l_slots previous = Some (l_concurrency previous)"
    "l' = l\<lparr>l_ipHits := l_ipHits previous, l_metaHits := l_metaHits previous,
            l_issuerRefreshes := l_issuerRefreshes previous, l_accounts := l_accounts previous,
            l_liveSessions := l_liveSessions previous, l_shared := l_shared previous,
            l_log := (if l_log l = None then l_log previous else l_log l)\<rparr>"
  using assms by (cases "l_log l"; simp add: InheritCounters_def split: if_split_asm)+



section \<open>One admitted caller\<close>

definition exampleConfig :: Config where
  "exampleConfig = \<lparr>cf_BudgetMiB = 0, cf_ArgonMemoryKiB = 65536, cf_PerIPPerMinute = 0\<rparr>"

definition exampleLimiter :: Limiter where
  "exampleLimiter = \<lparr>l_concurrency = 4, l_perIP = 10, l_discoveryPerIP = 60, l_slots = Some 4, l_shared = None,
     l_log = None, l_readers = 0, l_waiting = 0, l_ipHits = [], l_metaHits = [], l_issuerRefreshes = [],
     l_accounts = [], l_liveSessions = []\<rparr>"

lemma exampleConfig_new: "NewLimiter exampleConfig = Inr exampleLimiter"
  by (simp add: NewLimiter_def exampleConfig_def exampleLimiter_def budgetMiB_def argonMiB_def Let_def)

definition exampleGateCaller :: "callPhase \<Rightarrow> Caller" where
  "exampleGateCaller ph = \<lparr>cl_phase = ph, cl_probe = False, cl_receipt = WithRefusalReceipt ''192.0.2.1'' ''q''\<rparr>"

definition exampleGate :: "int \<Rightarrow> callPhase \<Rightarrow> Gate" where
  "exampleGate k ph = \<lparr>g_limiter = exampleLimiter\<lparr>l_waiting := 1, l_readers := 1, l_slots := Some k\<rparr>,
     g_db = emptyCoordDB, g_callers = [exampleGateCaller ph]\<rparr>"

lemma exampleGate_reached: "gateStep\<^sup>*\<^sup>* (freshGate exampleLimiter emptyCoordDB) (exampleGate 3 (Selected True))"
proof -
  have "enterQueue Commits (pgConn ''n'' [] 5) [] 5 exampleLimiter emptyCoordDB =
      (None, exampleLimiter\<lparr>l_waiting := 1\<rparr>, emptyCoordDB)"
    by (simp add: enterQueue_def allowIP_def allowIPIn_def enqueue_def exampleLimiter_def)
  then have "gateStep (freshGate exampleLimiter emptyCoordDB) (exampleGate 4 Queued)"
    using gateStep.Enqueued [of Commits "pgConn ''n'' [] 5" "[]" 5 "freshGate exampleLimiter emptyCoordDB" _ _ False
        "WithRefusalReceipt ''192.0.2.1'' ''q''"]
    by (simp add: freshGate_def exampleGate_def exampleGateCaller_def exampleLimiter_def)
  moreover have "gateStep (exampleGate 4 Queued) (exampleGate 3 (Selected True))"
    using gateStep.Take [of 0 "exampleGate 4 Queued" "exampleGateCaller Queued" 4]
    by (simp add: exampleGate_def exampleGateCaller_def withCaller_def)
  ultimately show ?thesis by auto
qed

theorem memory_budget_kept_witness:
  "countCallers holdsSlot (g_callers (exampleGate 3 (Selected True))) = 1 \<and>
   countCallers holdsSlot (g_callers (exampleGate 3 (Selected True))) * argonMiB exampleConfig + HeadroomMiB \<le> budgetMiB exampleConfig \<and>
   sn_InFlight (SnapshotOf 5 (g_limiter (exampleGate 3 (Selected True)))) = 1"
  using memory_budget_kept [OF exampleConfig_new exampleGate_reached, of 5]
  by (simp add: exampleGate_def exampleGateCaller_def countCallers_def holdsSlot_def)

definition oldGate :: Gate where
  "oldGate = freshGate (exampleLimiter\<lparr>l_ipHits := [(''192.0.2.1'', [5])]\<rparr>) emptyCoordDB"


end
