(* ===== verification/AdmissionWindows.thy ===== *)
theory AdmissionWindows
  imports Admission
begin

text \<open>
  What the sliding windows of \<^verbatim>\<open>internal/admission\<close> promise: over any run of attempts, in any
  order the maps are visited, a subject is admitted at most its allowance in any minute, a refusal
  advertises exactly when its window reopens, and no map outgrows its bound.
\<close>


section \<open>What the windows hold\<close>

lemma slice_at_update [simp]: "slice_at (AList.update k v b) k' = (if k' = k then v else slice_at b k')"
  by (simp add: slice_at_def update_conv')

lemma length_update: "length (AList.update k v b) = (if k \<in> fst ` set b then length b else Suc (length b))"
  by (induction b) auto

lemma length_delete:
  "distinct (map fst b) \<Longrightarrow> k \<in> fst ` set b \<Longrightarrow> Suc (length (AList.delete k b)) = length b"
proof (induction b)
  case (Cons x b)
  then show ?case by (cases x; cases "fst x = k") (auto simp: delete_id)
qed simp

lemma keys_delete: "fst ` set (AList.delete k b) = fst ` set b - {k}"
  by (force simp: AList.delete_eq)

lemma slice_at_filter:
  "distinct (map fst b) \<Longrightarrow>
   slice_at (filter (\<lambda>(k, hits). isLive cutoff hits) b) k = (if isLive cutoff (slice_at b k) then slice_at b k else [])"
proof (induction b)
  case (Cons x b)
  obtain k' hits where x: "x = (k', hits)" by fastforce
  have "slice_at b k' = []" using Cons.prems by (simp add: x slice_at_no_key)
  then show ?case using Cons by (auto simp: x isLive_def)
qed (simp add: isLive_def)

lemma slice_at_set: "distinct (map fst b) \<Longrightarrow> distinct (map fst b') \<Longrightarrow> set b = set b' \<Longrightarrow> slice_at b k = slice_at b' k"
  using map_of_inject_set [of b b'] by (simp add: slice_at_def)

lemma evictSweep_fst: "fst (evictSweep cutoff ok oldest r b) = filter (\<lambda>(k, hits). isLive cutoff hits) b"
  by (induction cutoff ok oldest r b rule: evictSweep.induct) auto

lemma evictSweep_key:
  "[] \<notin> fst ` set b \<Longrightarrow>
   snd (evictSweep cutoff ok oldest r b) \<in> insert ok (fst ` set b) \<and>
   (ok \<noteq> [] \<longrightarrow> snd (evictSweep cutoff ok oldest r b) \<noteq> []) \<and>
   (\<not> r \<and> b \<noteq> [] \<and> (\<forall>(k, hits) \<in> set b. isLive cutoff hits) \<longrightarrow> snd (evictSweep cutoff ok oldest r b) \<noteq> [])"
  by (induction cutoff ok oldest r b rule: evictSweep.induct) auto

lemma length_filter_all: "length (filter P xs) = length xs \<Longrightarrow> \<forall>x \<in> set xs. P x"
  using length_filter_less [of _ xs P] by force

definition windowsOK :: "windows \<Rightarrow> bool" where
  "windowsOK b \<longleftrightarrow> distinct (map fst b) \<and> [] \<notin> fst ` set b \<and> length b \<le> MaxTrackedSubjects"

lemma MaxTrackedSubjects_pos [simp]: "0 < MaxTrackedSubjects"
  by (simp add: MaxTrackedSubjects_def)

text \<open>Where anything is stale only stale subjects go; otherwise one goes, which makes room.\<close>

lemma evictStale_stale:
  assumes "windowsOK b" "(k, hits) \<in> set b" "\<not> isLive cutoff hits"
  shows "evictStale b cutoff = filter (\<lambda>(k, hits). isLive cutoff hits) b"
proof -
  have "length (filter (\<lambda>(k, hits). isLive cutoff hits) b) < length b"
    using assms(2,3) by (intro length_filter_less) auto
  then have "length (filter (\<lambda>(k, hits). isLive cutoff hits) b) < MaxTrackedSubjects"
    using assms(1) by (simp add: windowsOK_def)
  then show ?thesis
    by (simp add: evictStale_def evictSweep_fst case_prod_beta)
qed

lemma evictStale_ok:
  assumes "windowsOK b"
  shows "windowsOK (evictStale b cutoff) \<and> length (evictStale b cutoff) < MaxTrackedSubjects \<and>
         fst ` set (evictStale b cutoff) \<subseteq> fst ` set b"
proof -
  let ?live = "filter (\<lambda>(k, hits). isLive cutoff hits) b" and ?k = "snd (evictSweep cutoff [] 0 False b)"
  have live: "distinct (map fst ?live)" "fst ` set ?live \<subseteq> fst ` set b"
    using assms by (auto simp: windowsOK_def distinct_map_filter)
  have eq: "evictStale b cutoff = (if length ?live \<ge> MaxTrackedSubjects \<and> ?k \<noteq> [] then AList.delete ?k ?live else ?live)"
    by (simp add: evictStale_def evictSweep_fst case_prod_beta)
  have room: "length (evictStale b cutoff) < MaxTrackedSubjects"
  proof (cases "length ?live \<ge> MaxTrackedSubjects")
    case True
    then have "length ?live = length b" using assms by (intro antisym) (simp_all add: windowsOK_def)
    then have live: "\<forall>(k, hits) \<in> set b. isLive cutoff hits" by (rule length_filter_all)
    then have all: "?live = b" by (simp add: filter_id_conv)
    moreover have "b \<noteq> []" using True all MaxTrackedSubjects_pos by force
    ultimately have k: "?k \<noteq> []" "?k \<in> fst ` set b"
      using evictSweep_key [of b cutoff "[]" 0 False] assms live unfolding windowsOK_def by blast+
    then have "Suc (length (AList.delete ?k b)) = length b" using assms by (intro length_delete) (simp_all add: windowsOK_def)
    then show ?thesis using True all k assms by (simp add: eq windowsOK_def)
  qed (simp add: eq)
  have "fst ` set (evictStale b cutoff) \<subseteq> fst ` set ?live"
    unfolding eq using keys_delete [of ?k ?live] by auto
  moreover have "distinct (map fst (evictStale b cutoff))"
    unfolding eq using live by (auto intro: distinct_delete)
  ultimately show ?thesis using assms live room by (auto simp: windowsOK_def)
qed

text \<open>The hits of a subject that still count.\<close>

definition recent :: "windows \<Rightarrow> string \<Rightarrow> Time \<Rightarrow> Time list" where
  "recent b ip now = filter (\<lambda>t. now - Minute < t) (slice_at b ip)"

lemma allowIPIn_refused:
  assumes "ip \<noteq> []" "a \<le> length (recent b ip now)"
  shows "allowIPIn b ip a now =
           (recent b ip now ! (length (recent b ip now) - a) + Minute - now, AList.update ip (recent b ip now) b)"
  using assms by (simp add: allowIPIn_def recent_def Let_def)

lemma allowIPIn_admitted:
  assumes "ip \<noteq> []" "length (recent b ip now) < a"
  shows "allowIPIn b ip a now =
           (0, AList.update ip (recent b ip now @ [now])
                 (if recent b ip now = [] \<and> length b \<ge> MaxTrackedSubjects then evictStale b (now - Minute) else b))"
  using assms by (simp add: allowIPIn_def recent_def Let_def)

lemma recent_tracked: "recent b ip now \<noteq> [] \<Longrightarrow> ip \<in> fst ` set b"
  by (cases "ip \<in> fst ` set b") (simp_all add: recent_def slice_at_no_key)

lemma wait_pos:
  assumes "0 < a" "a \<le> length (recent b ip now)"
  shows "0 < recent b ip now ! (length (recent b ip now) - a) + Minute - now"
proof -
  have "recent b ip now ! (length (recent b ip now) - a) \<in> set (recent b ip now)" using assms by simp
  then show ?thesis by (auto simp: recent_def)
qed

lemma allowIPIn_admits:
  assumes "ip \<noteq> []" "0 < a"
  shows "fst (allowIPIn b ip a now) = 0 \<longleftrightarrow> length (recent b ip now) < a"
  using wait_pos [OF assms(2), of b ip now] allowIPIn_refused [OF assms(1), of a b now] allowIPIn_admitted [OF assms(1), of b now a]
  by (cases "length (recent b ip now) < a") (simp_all add: not_less)

lemma windowsOK_update:
  assumes "windowsOK b" "ip \<noteq> []" "ip \<in> fst ` set b \<or> length b < MaxTrackedSubjects"
  shows "windowsOK (AList.update ip hits b)"
proof -
  have "fst ` set (AList.update ip hits b) = insert ip (fst ` set b)" by (simp add: dom_map_of_conv_image_fst [symmetric] update_conv')
  then show ?thesis using assms by (auto simp: windowsOK_def length_update distinct_update)
qed

lemma allowIPIn_windowsOK:
  assumes "windowsOK b" "0 < a"
  shows "windowsOK (snd (allowIPIn b ip a now))"
proof (cases "ip = []")
  case True
  then show ?thesis using assms by (simp add: allowIPIn_def)
next
  case False
  show ?thesis
  proof (cases "length (recent b ip now) < a")
    case True
    then show ?thesis
      using windowsOK_update [OF assms(1) False] windowsOK_update [OF _ False] evictStale_ok [OF assms(1), of "now - Minute"]
        recent_tracked [of b ip now]
      by (auto simp: allowIPIn_admitted [OF False True] not_le)
  next
    case refused: False
    then have "recent b ip now \<noteq> []" using assms(2) by force
    then show ?thesis using windowsOK_update [OF assms(1) False] recent_tracked refused
      by (simp add: allowIPIn_refused [OF False] not_less)
  qed
qed


section \<open>Runs\<close>

text \<open>
  A window with its allowance, the subjects of the run, the bucket, the admitted attempts (instant
  and subject) and the last clock value. \<open>Shuffle\<close> is the order a later \<^verbatim>\<open>range\<close> sees.
\<close>

inductive windowRun :: "nat \<Rightarrow> string set \<Rightarrow> windows \<Rightarrow> (Time \<times> string) list \<Rightarrow> Time \<Rightarrow> bool"
  for a :: nat and S :: "string set" where
  Fresh: "windowRun a S [] [] t"
| Attempt: "windowRun a S b log t \<Longrightarrow> t \<le> now \<Longrightarrow> ip \<in> S \<Longrightarrow> allowIPIn b ip a now = (wait, b') \<Longrightarrow>
    windowRun a S b' (if wait = 0 \<and> ip \<noteq> [] then log @ [(now, ip)] else log) now"
| Shuffle: "windowRun a S b log t \<Longrightarrow> distinct (map fst b') \<Longrightarrow> set b' = set b \<Longrightarrow> windowRun a S b' log t"

definition hitsOf :: "(Time \<times> string) list \<Rightarrow> string \<Rightarrow> Time list" where
  "hitsOf log ip = map fst (filter (\<lambda>(_, ip'). ip' = ip) log)"

definition inMinute :: "Time \<Rightarrow> Time list \<Rightarrow> Time list" where
  "inMinute T hits = filter (\<lambda>u. T - Minute < u \<and> u \<le> T) hits"

definition after :: "Time \<Rightarrow> Time list \<Rightarrow> Time list" where
  "after t hits = filter (\<lambda>u. t - Minute < u) hits"

text \<open>What a subject's hits in the bucket remember of its admitted attempts.\<close>

definition subjectOK :: "nat \<Rightarrow> Time \<Rightarrow> Time list \<Rightarrow> Time list \<Rightarrow> bool" where
  "subjectOK a t hits logged \<longleftrightarrow>
     after t logged = after t hits \<and> sorted hits \<and> (\<forall>u \<in> set hits. u \<le> t) \<and> (\<forall>u \<in> set logged. u \<le> t) \<and>
     (\<forall>T. length (inMinute T logged) \<le> a)"

definition runOK :: "nat \<Rightarrow> string set \<Rightarrow> windows \<Rightarrow> (Time \<times> string) list \<Rightarrow> Time \<Rightarrow> bool" where
  "runOK a S b log t \<longleftrightarrow>
     windowsOK b \<and> fst ` set b \<subseteq> S \<and> (\<forall>ip. ip \<noteq> [] \<longrightarrow> subjectOK a t (slice_at b ip) (hitsOf log ip))"

lemma after_after: "t \<le> t' \<Longrightarrow> after t' (after t hits) = after t' hits"
  by (auto simp: after_def intro: filter_cong)

lemma subjectOK_later: "subjectOK a t hits logged \<Longrightarrow> t \<le> t' \<Longrightarrow> subjectOK a t' hits logged"
  unfolding subjectOK_def by (metis after_after order_trans)

lemma subjectOK_stale:
  assumes "subjectOK a t hits logged" "t \<le> t'" "\<not> isLive (t' - Minute) hits"
  shows "subjectOK a t' [] logged"
proof -
  have "after t' hits = []" using assms(3) by (auto simp: after_def isLive_def filter_empty_conv)
  then show ?thesis using subjectOK_later [OF assms(1,2)] by (simp add: subjectOK_def after_def)
qed

lemma subjectOK_kept: "subjectOK a t hits logged \<Longrightarrow> t \<le> t' \<Longrightarrow> subjectOK a t' (after t' hits) logged"
  using subjectOK_later [of a t hits logged t'] by (auto simp: subjectOK_def after_def intro: sorted_wrt_filter)

lemma subjectOK_hit:
  assumes "subjectOK a t hits logged" "t \<le> t'" "length (after t' hits) < a"
  shows "subjectOK a t' (after t' hits @ [t']) (logged @ [t'])"
proof -
  note ok = subjectOK_later [OF assms(1,2)]
  have kept: "after t' logged = after t' hits" using ok by (simp add: subjectOK_def)
  have "length (inMinute T (logged @ [t'])) \<le> a" for T
  proof (cases "t' \<le> T")
    case True
    then have "inMinute T (logged @ [t']) = inMinute T (after t' logged @ [t'])"
      by (auto simp: inMinute_def after_def intro: filter_cong)
    also have "length \<dots> \<le> Suc (length (after t' logged))" by (simp add: inMinute_def le_SucI)
    finally show ?thesis using assms(3) by (simp add: kept)
  next
    case False
    then show ?thesis using ok by (simp add: inMinute_def subjectOK_def)
  qed
  moreover have "after t' (logged @ [t']) = after t' (after t' hits @ [t'])"
    using kept after_after [of t' t' hits] by (simp add: after_def)
  ultimately show ?thesis using ok by (auto simp: subjectOK_def sorted_append after_def intro: sorted_wrt_filter)
qed

lemma hitsOf_snoc: "hitsOf (log @ [(t, ip)]) ip' = hitsOf log ip' @ (if ip' = ip then [t] else [])"
  by (simp add: hitsOf_def)

lemma full_tracks_all:
  assumes "windowsOK b" "fst ` set b \<subseteq> S" "finite S" "card S \<le> MaxTrackedSubjects" "MaxTrackedSubjects \<le> length b"
  shows "fst ` set b = S"
proof (rule card_subset_eq [OF assms(3,2)])
  have "card (fst ` set b) = length b"
    using assms(1) distinct_card [of "map fst b"] by (simp add: windowsOK_def)
  then show "card (fst ` set b) = card S" using card_mono [OF assms(3,2)] assms(4,5) by simp
qed

text \<open>With no more subjects than the map tracks, an eviction never takes a live window.\<close>

lemma evicts_stale_only:
  assumes "windowsOK b" "fst ` set b \<subseteq> S" "finite S" "card S \<le> MaxTrackedSubjects" "ip \<in> S"
    and "recent b ip now = []" "MaxTrackedSubjects \<le> length b"
  shows "evictStale b (now - Minute) = filter (\<lambda>(k, hits). isLive (now - Minute) hits) b"
proof -
  have "ip \<in> fst ` set b" using full_tracks_all [OF assms(1-4,7)] assms(5) by simp
  then obtain hits where hits: "(ip, hits) \<in> set b" by auto
  then have "slice_at b ip = hits" using assms(1) by (simp add: windowsOK_def slice_at_member)
  then have "\<not> isLive (now - Minute) hits" using assms(6) by (auto simp: recent_def isLive_def filter_empty_conv)
  then show ?thesis using evictStale_stale [OF assms(1) hits] by simp
qed

lemma runOK_attempt:
  assumes ok: "runOK a S b log t" and "t \<le> now" "ip \<in> S" "finite S" "card S \<le> MaxTrackedSubjects" "0 < a"
    and step: "allowIPIn b ip a now = (wait, b')"
  shows "runOK a S b' (if wait = 0 \<and> ip \<noteq> [] then log @ [(now, ip)] else log) now"
proof (cases "ip = []")
  case True
  then have "b' = b" using step by (simp add: allowIPIn_def)
  then show ?thesis using ok True subjectOK_later [OF _ assms(2)] by (simp add: runOK_def)
next
  case False
  have b: "windowsOK b" "fst ` set b \<subseteq> S" and sub: "\<And>ip. ip \<noteq> [] \<Longrightarrow> subjectOK a t (slice_at b ip) (hitsOf log ip)"
    using ok by (simp_all add: runOK_def)
  have b': "windowsOK b'" using allowIPIn_windowsOK [OF b(1) assms(6), of ip now] step by simp
  have keys: "fst ` set (AList.update ip hits c) \<subseteq> S" if "fst ` set c \<subseteq> S" for hits c
    using that assms(3) by (simp add: dom_map_of_conv_image_fst [symmetric] update_conv')
  have rec: "recent b ip now = after now (slice_at b ip)" by (simp add: recent_def after_def)
  show ?thesis
  proof (cases "length (recent b ip now) < a")
    case True
    define c where "c = (if recent b ip now = [] \<and> length b \<ge> MaxTrackedSubjects then evictStale b (now - Minute) else b)"
    have e: "wait = 0" "b' = AList.update ip (recent b ip now @ [now]) c"
      using step allowIPIn_admitted [OF False True] by (simp_all add: c_def)
    have "fst ` set (evictStale b (now - Minute)) \<subseteq> S"
      using evictStale_ok [OF b(1), of "now - Minute"] b(2) by (meson subset_trans)
    then have "fst ` set c \<subseteq> S" using b(2) by (simp add: c_def)
    moreover have "subjectOK a now (slice_at c k) (hitsOf log k)" if "k \<noteq> []" for k
    proof (cases "c = b")
      case True
      then show ?thesis using subjectOK_later [OF sub [OF that] assms(2)] by simp
    next
      case evicted: False
      then have "c = filter (\<lambda>(k, hits). isLive (now - Minute) hits) b"
        using evicts_stale_only [OF b assms(4,5,3)] by (auto simp: c_def split: if_splits)
      then show ?thesis
        using subjectOK_later [OF sub [OF that] assms(2)] subjectOK_stale [OF sub [OF that] assms(2)] b(1)
        by (simp add: slice_at_filter windowsOK_def)
    qed
    moreover have "subjectOK a now (recent b ip now @ [now]) (hitsOf log ip @ [now])"
      using subjectOK_hit [OF sub [OF False] assms(2)] True by (simp add: rec)
    ultimately show ?thesis using b' False keys by (simp add: runOK_def e hitsOf_snoc)
  next
    case refused: False
    then have e: "wait \<noteq> 0" "b' = AList.update ip (recent b ip now) b"
      using step allowIPIn_refused [OF False, of a b now] wait_pos [OF assms(6), of b ip now] by (auto simp: not_less)
    have "subjectOK a now (recent b ip now) (hitsOf log ip)" using subjectOK_kept [OF sub [OF False] assms(2)] by (simp add: rec)
    then show ?thesis using b' b keys subjectOK_later [OF sub assms(2)] by (simp add: runOK_def e)
  qed
qed

lemma windowRun_ok:
  assumes "windowRun a S b log t" "finite S" "card S \<le> MaxTrackedSubjects" "0 < a"
  shows "runOK a S b log t"
  using assms(1)
proof (induction rule: windowRun.induct)
  case (Fresh t)
  then show ?case by (simp add: runOK_def windowsOK_def subjectOK_def hitsOf_def after_def inMinute_def)
next
  case (Attempt b log t now ip wait b')
  then show ?case using runOK_attempt assms(2-4) by blast
next
  case (Shuffle b log t b')
  then have "slice_at b' k = slice_at b k" for k
    by (intro slice_at_set) (simp_all add: runOK_def windowsOK_def)
  moreover have "length b' = length b"
    using Shuffle distinct_card [of "map fst b"] distinct_card [of "map fst b'"] by (simp add: runOK_def windowsOK_def)
  ultimately show ?case using Shuffle by (simp add: runOK_def windowsOK_def)
qed

text \<open>
  C15. A sliding window admits at most its allowance. Over any run of attempts by no more subjects
  than the window tracks, at clock values that do not decrease, and in whatever order the map is
  visited, no subject is admitted more often than the allowance within any minute.
\<close>

theorem window_bounded:
  assumes "windowRun a S b log t" "finite S" "card S \<le> MaxTrackedSubjects" "0 < a"
  shows "length (filter (\<lambda>(u, ip'). ip' = ip \<and> T - Minute < u \<and> u \<le> T) log) \<le> a"
proof (cases "ip = []")
  case True
  have "(u, ip') \<in> set log \<Longrightarrow> ip' \<noteq> []" for u ip'
    using assms(1) by (induction rule: windowRun.induct) (auto split: if_splits)
  then have "filter (\<lambda>(u, ip'). ip' = ip \<and> T - Minute < u \<and> u \<le> T) log = []"
    using True by (auto simp: filter_empty_conv)
  then show ?thesis by simp
next
  case False
  then have "length (inMinute T (hitsOf log ip)) \<le> a"
    using windowRun_ok [OF assms] by (simp add: runOK_def subjectOK_def)
  moreover have "filter (\<lambda>(u, ip'). ip' = ip \<and> T - Minute < u \<and> u \<le> T) log =
      filter (\<lambda>x. snd x = ip \<and> T - Minute < fst x \<and> fst x \<le> T) log"
    by (rule filter_cong) auto
  ultimately show ?thesis by (simp add: inMinute_def hitsOf_def filter_map case_prod_beta comp_def conj_commute conj_left_commute)
qed

section \<open>The advertised wait\<close>

lemma sorted_filter_less:
  fixes xs :: "Time list"
  assumes "sorted xs" "0 < a" "a \<le> length xs"
  shows "length (filter (\<lambda>u. c < u) xs) < a \<longleftrightarrow> xs ! (length xs - a) \<le> c"
proof -
  let ?i = "length xs - a"
  have split: "filter (\<lambda>u. c < u) xs = filter (\<lambda>u. c < u) (take ?i xs) @ filter (\<lambda>u. c < u) (drop ?i xs)"
    by (metis append_take_drop_id filter_append)
  have drop: "drop ?i xs = xs ! ?i # drop (Suc ?i) xs" using assms by (simp add: Cons_nth_drop_Suc)
  show ?thesis
  proof
    assume *: "xs ! ?i \<le> c"
    have "u \<le> xs ! ?i" if "u \<in> set (take ?i xs)" for u
      using that assms by (auto simp: in_set_conv_nth intro!: sorted_nth_mono)
    then have "filter (\<lambda>u. c < u) (take ?i xs) = []" using * by (force simp: filter_empty_conv)
    then have "length (filter (\<lambda>u. c < u) xs) \<le> length (drop (Suc ?i) xs)"
      using * length_filter_le [of "\<lambda>u. c < u" "drop (Suc ?i) xs"] by (simp add: split drop)
    then show "length (filter (\<lambda>u. c < u) xs) < a" using assms by simp
  next
    assume *: "length (filter (\<lambda>u. c < u) xs) < a"
    show "xs ! ?i \<le> c"
    proof (rule ccontr)
      assume "\<not> xs ! ?i \<le> c"
      moreover have "xs ! ?i \<le> u" if "u \<in> set (drop ?i xs)" for u
        using that assms by (auto simp: in_set_conv_nth intro!: sorted_nth_mono)
      ultimately have "filter (\<lambda>u. c < u) (drop ?i xs) = drop ?i xs" by (force simp: filter_id_conv)
      then show False using * assms by (simp add: split)
    qed
  qed
qed

lemma RetryAfterSeconds_enough: "wait \<le> RetryAfterSeconds wait * Second"
proof -
  have "- wait div Second * Second \<le> - wait" using minus_mod_eq_div_mult [of "- wait" Second] pos_mod_sign [of Second "- wait"] by simp
  then show ?thesis by (simp add: RetryAfterSeconds_def)
qed

text \<open>
  C17. A refusal tells the truth about when to come back. In any state a run reaches, a refused
  subject's wait is positive and at most a minute; absent new traffic from that subject, an attempt
  is admitted at exactly the instants from the end of the wait on, and so also after the whole
  seconds of the Retry-After header.
\<close>

theorem refusal_wait_exact:
  assumes run: "windowRun a S b log t" "finite S" "card S \<le> MaxTrackedSubjects" "0 < a"
    and now: "t \<le> now" "ip \<noteq> []" and step: "allowIPIn b ip a now = (wait, b')" "wait \<noteq> 0"
  shows "0 < wait \<and> wait \<le> Minute \<and>
         (\<forall>later \<ge> now. fst (allowIPIn b' ip a later) = 0 \<longleftrightarrow> now + wait \<le> later) \<and>
         fst (allowIPIn b' ip a (now + RetryAfterSeconds wait * Second)) = 0"
proof -
  define kept where "kept = recent b ip now"
  have sub: "sorted (slice_at b ip)" "\<forall>u \<in> set (slice_at b ip). u \<le> t"
    using windowRun_ok [OF run] now(2) by (simp_all add: runOK_def subjectOK_def)
  have full: "a \<le> length kept"
    using allowIPIn_admits [OF now(2) run(4), of b now] step by (simp add: kept_def)
  have e: "wait = kept ! (length kept - a) + Minute - now" "b' = AList.update ip kept b"
    using step(1) allowIPIn_refused [OF now(2) full [unfolded kept_def]] by (simp_all add: kept_def)
  have mem: "kept ! (length kept - a) \<in> set kept" using full run(4) by simp
  then have "kept ! (length kept - a) \<le> now" using sub(2) now(1) by (force simp: kept_def recent_def)
  moreover have pos: "0 < wait" using wait_pos [OF run(4) full [unfolded kept_def]] by (simp add: e kept_def)
  moreover have exact: "fst (allowIPIn b' ip a later) = 0 \<longleftrightarrow> now + wait \<le> later" for later
  proof -
    have "sorted kept" using sub(1) by (simp add: kept_def recent_def sorted_wrt_filter)
    from sorted_filter_less [OF this run(4) full, of "later - Minute"]
    show ?thesis unfolding allowIPIn_admits [OF now(2) run(4)] by (auto simp: e recent_def)
  qed
  moreover have "now + wait \<le> now + RetryAfterSeconds wait * Second" using RetryAfterSeconds_enough by simp
  ultimately show ?thesis by (auto simp: e(1))
qed


section \<open>The bound on every map\<close>

lemma accountSweep_fst: "fst (accountSweep now found soonest r xs) = filter (\<lambda>(k, st). now < ab_until st) xs"
  by (induction now found soonest r xs rule: accountSweep.induct) auto

lemma accountSweep_found:
  "set_option (snd (accountSweep now found soonest r xs)) \<subseteq> set_option found \<union> fst ` set xs \<and>
   (found \<noteq> None \<longrightarrow> snd (accountSweep now found soonest r xs) \<noteq> None) \<and>
   (\<not> r \<and> xs \<noteq> [] \<and> (\<forall>(k, st) \<in> set xs. now < ab_until st) \<longrightarrow> snd (accountSweep now found soonest r xs) \<noteq> None)"
  by (induction now found soonest r xs rule: accountSweep.induct) auto

definition trackedOK :: "(subjectKey \<times> 'v) list \<Rightarrow> bool" where
  "trackedOK xs \<longleftrightarrow> distinct (map fst xs) \<and> length xs \<le> MaxTrackedSubjects"

lemma trackedOK_delete: "trackedOK xs \<Longrightarrow> trackedOK (AList.delete k xs)"
  using length_delete_le [of k xs] by (simp add: trackedOK_def distinct_delete)

lemma trackedOK_update:
  "trackedOK xs \<Longrightarrow> k \<in> fst ` set xs \<or> length xs < MaxTrackedSubjects \<Longrightarrow> trackedOK (AList.update k v xs)"
  by (auto simp: trackedOK_def length_update distinct_update)

lemma delete_room: "trackedOK xs \<Longrightarrow> k \<in> fst ` set xs \<Longrightarrow> length (AList.delete k xs) < MaxTrackedSubjects"
  using length_delete [of xs k] by (simp add: trackedOK_def)

lemma evictAccounts_ok:
  assumes "trackedOK xs"
  shows "trackedOK (evictAccounts now xs) \<and> length (evictAccounts now xs) < MaxTrackedSubjects"
proof -
  let ?live = "filter (\<lambda>(k, st). now < ab_until st) xs" and ?f = "snd (accountSweep now None 0 False xs)"
  have eq: "evictAccounts now xs =
      (case ?f of Some k \<Rightarrow> (if length ?live \<ge> MaxTrackedSubjects then AList.delete k ?live else ?live) | None \<Rightarrow> ?live)"
    by (simp only: evictAccounts_def accountSweep_fst case_prod_beta)
  have live: "trackedOK ?live"
    using assms le_trans [OF length_filter_le] by (auto simp: trackedOK_def distinct_map_filter)
  show ?thesis
  proof (cases "length ?live \<ge> MaxTrackedSubjects")
    case True
    then have "length ?live = length xs" using assms by (intro antisym) (simp_all add: trackedOK_def)
    then have all: "\<forall>(k, st) \<in> set xs. now < ab_until st" by (rule length_filter_all)
    then have xs: "?live = xs" by (simp add: filter_id_conv)
    moreover have "xs \<noteq> []" using True xs MaxTrackedSubjects_pos by force
    ultimately obtain k where k: "?f = Some k" "k \<in> fst ` set xs"
      using accountSweep_found [of now None 0 False xs] all by auto
    then show ?thesis using True xs delete_room [OF assms] trackedOK_delete [OF assms] by (simp add: eq)
  next
    case False
    then show ?thesis using live by (cases ?f) (simp_all add: eq)
  qed
qed

lemma recordFailure_tracked:
  assumes "trackedOK (l_accounts l)"
  shows "trackedOK (l_accounts (snd (recordFailure key now l)))"
proof -
  define accounts where "accounts =
    (if map_of (l_accounts l) key = None \<and> length (l_accounts l) \<ge> MaxTrackedSubjects
     then evictAccounts now (l_accounts l) else l_accounts l)"
  have "trackedOK accounts \<and> (key \<in> fst ` set accounts \<or> length accounts < MaxTrackedSubjects)"
    using assms evictAccounts_ok [OF assms, of now] by (auto simp: accounts_def map_of_eq_None_iff)
  then have "trackedOK (AList.update key v accounts)" for v by (auto intro: trackedOK_update)
  then show ?thesis unfolding recordFailure_def Let_def accounts_def by simp
qed

lemma oldestSession_key:
  "oldestSession k t xs \<in> insert k (fst ` set xs) \<and> (t = 0 \<and> xs \<noteq> [] \<longrightarrow> oldestSession k t xs \<in> fst ` set xs)"
  by (induction k t xs rule: oldestSession.induct) auto

lemma NoteLiveSession_tracked:
  assumes "trackedOK (l_liveSessions l)"
  shows "trackedOK (l_liveSessions (NoteLiveSession hash verifier sid now l))"
proof -
  define old where "old = oldestSession (replicate 32 (CHR 0x00)) 0 (l_liveSessions l)"
  define sessions where "sessions =
    (if map_of (l_liveSessions l) (hash verifier) = None \<and> length (l_liveSessions l) \<ge> MaxTrackedSubjects
     then AList.delete old (l_liveSessions l) else l_liveSessions l)"
  have "trackedOK sessions \<and> (hash verifier \<in> fst ` set sessions \<or> length sessions < MaxTrackedSubjects)"
  proof (cases "map_of (l_liveSessions l) (hash verifier) = None \<and> length (l_liveSessions l) \<ge> MaxTrackedSubjects")
    case True
    then have "l_liveSessions l \<noteq> []" using MaxTrackedSubjects_pos by (cases "l_liveSessions l") auto
    then have "old \<in> fst ` set (l_liveSessions l)" using oldestSession_key by (simp add: old_def)
    then show ?thesis using True delete_room [OF assms] trackedOK_delete [OF assms] by (simp add: sessions_def)
  next
    case False
    then show ?thesis using assms by (auto simp: sessions_def map_of_eq_None_iff)
  qed
  then have "trackedOK (AList.update (hash verifier) v sessions)" for v by (auto intro: trackedOK_update)
  then show ?thesis unfolding NoteLiveSession_def Let_def sessions_def old_def by simp
qed

text \<open>An operation of the limiter at a clock value, with the outcome of its datastore call.\<close>

datatype limiterOp =
    OpEnter string | OpDiscovery string | OpIssuerRefresh string
  | OpFailure string | OpSuccess string | OpNoteSession string string | OpForgetSession string

definition limiterStep ::
    "(string \<Rightarrow> subjectKey) \<Rightarrow> limiterOp \<times> Time \<times> txOutcome \<times> Conn \<Rightarrow> Limiter \<times> CoordDB \<Rightarrow> Limiter \<times> CoordDB" where
  "limiterStep hash call s =
    (case call of (op, now, out, c) \<Rightarrow> case s of (l, db) \<Rightarrow>
       (case op of
          OpEnter ip \<Rightarrow> snd (enterQueue out c ip now l db)
        | OpDiscovery ip \<Rightarrow> snd (AdmitDiscovery out c ip now l db)
        | OpIssuerRefresh issuer \<Rightarrow> snd (AllowIssuerRefresh out c issuer now l db)
        | OpFailure who \<Rightarrow> snd (RecordFailure hash out c who now l db)
        | OpSuccess who \<Rightarrow> RecordSuccess hash out c who l db
        | OpNoteSession verifier sid \<Rightarrow> (NoteLiveSession hash verifier sid now l, db)
        | OpForgetSession verifier \<Rightarrow> (ForgetSession hash verifier l, db)))"

definition trackedMapsOK :: "Limiter \<Rightarrow> bool" where
  "trackedMapsOK l \<longleftrightarrow>
     0 < l_perIP l \<and> 0 < l_discoveryPerIP l \<and>
     windowsOK (l_ipHits l) \<and> windowsOK (l_metaHits l) \<and> windowsOK (l_issuerRefreshes l) \<and>
     trackedOK (l_accounts l) \<and> trackedOK (l_liveSessions l)"

lemma trackedMapsOK_window:
  assumes "trackedMapsOK l"
  shows "trackedMapsOK (l\<lparr>l_ipHits := snd (allowIPIn (l_ipHits l) ip (l_perIP l) now)\<rparr>)"
    "trackedMapsOK (l\<lparr>l_metaHits := snd (allowIPIn (l_metaHits l) ip (l_discoveryPerIP l) now)\<rparr>)"
    "trackedMapsOK (l\<lparr>l_issuerRefreshes := snd (allowIPIn (l_issuerRefreshes l) ip IssuerRefreshPerMinute now)\<rparr>)"
  using assms by (simp_all add: trackedMapsOK_def allowIPIn_windowsOK)

lemma allowIP_maps:
  assumes "trackedMapsOK l" "allowIP out c ip now l db = (wait, l', db')"
  shows "trackedMapsOK l'"
  using assms(2) trackedMapsOK_window(1) [OF assms(1), of ip now] assms(1)
  by (auto simp: allowIP_def split: if_splits prod.splits)

lemma enterQueue_maps: "trackedMapsOK l \<Longrightarrow> trackedMapsOK (fst (snd (enterQueue out c ip now l db)))"
proof -
  assume "trackedMapsOK l"
  obtain wait l1 d where a: "allowIP out c ip now l db = (wait, l1, d)" by (metis surj_pair)
  then have "trackedMapsOK l1" using allowIP_maps \<open>trackedMapsOK l\<close> by blast
  then show ?thesis by (simp add: enterQueue_def a enqueue_def trackedMapsOK_def)
qed

lemma AdmitDiscovery_limiter:
  "fst (snd (AdmitDiscovery out c ip now l db)) =
     (if l_shared l = None then l\<lparr>l_metaHits := snd (allowIPIn (l_metaHits l) ip (l_discoveryPerIP l) now)\<rparr> else l)"
  by (simp add: AdmitDiscovery_def case_prod_beta Let_def)

lemma AllowIssuerRefresh_limiter:
  "fst (snd (AllowIssuerRefresh out c ip now l db)) =
     (if l_shared l = None then l\<lparr>l_issuerRefreshes := snd (allowIPIn (l_issuerRefreshes l) ip IssuerRefreshPerMinute now)\<rparr> else l)"
  by (simp add: AllowIssuerRefresh_def case_prod_beta)

lemma recordFailure_others:
  "snd (recordFailure key now l) = l\<lparr>l_accounts := l_accounts (snd (recordFailure key now l))\<rparr>"
  by (simp add: recordFailure_def Let_def)

lemma RecordFailure_maps: "trackedMapsOK l \<Longrightarrow> trackedMapsOK (fst (snd (RecordFailure hash out c who now l db)))"
proof -
  assume ok: "trackedMapsOK l"
  define accounts where "accounts = l_accounts (snd (recordFailure (hash who) now l))"
  have a: "snd (recordFailure (hash who) now l) = l\<lparr>l_accounts := accounts\<rparr>"
    unfolding accounts_def by (rule recordFailure_others)
  have "trackedOK accounts" using recordFailure_tracked [of l "hash who" now] ok by (simp add: accounts_def trackedMapsOK_def)
  then have "trackedMapsOK (l\<lparr>l_accounts := accounts\<rparr>)" using ok by (simp add: trackedMapsOK_def)
  then show ?thesis using ok a by (simp add: RecordFailure_def case_prod_beta)
qed

lemma limiterStep_maps: "trackedMapsOK (fst s) \<Longrightarrow> trackedMapsOK (fst (limiterStep hash call s))"
proof -
  assume ok: "trackedMapsOK (fst s)"
  obtain op now out c l db where cs: "call = (op, now, out, c)" "s = (l, db)" by (metis surj_pair)
  then have l: "trackedMapsOK l" using ok by simp
  show ?thesis
  proof (cases op)
    case (OpSuccess who)
    then show ?thesis using l by (auto simp: cs limiterStep_def RecordSuccess_def recordSuccess_def trackedMapsOK_def intro: trackedOK_delete)
  next
    case (OpNoteSession v sid)
    moreover have "\<exists>x. NoteLiveSession hash v sid now l = l\<lparr>l_liveSessions := x\<rparr>" by (auto simp: NoteLiveSession_def Let_def)
    ultimately show ?thesis using l NoteLiveSession_tracked [of l hash v sid now] by (auto simp: cs limiterStep_def trackedMapsOK_def)
  next
    case (OpForgetSession v)
    then show ?thesis using l by (auto simp: cs limiterStep_def ForgetSession_def trackedMapsOK_def intro: trackedOK_delete)
  qed (use l in \<open>simp_all add: cs limiterStep_def enterQueue_maps AdmitDiscovery_limiter AllowIssuerRefresh_limiter RecordFailure_maps trackedMapsOK_window\<close>)
qed

lemma NewLimiter_maps: "NewLimiter cfg = Inr l \<Longrightarrow> trackedMapsOK l"
  by (auto simp: NewLimiter_def Let_def trackedMapsOK_def windowsOK_def trackedOK_def split: if_splits)

text \<open>
  C22. Memory stays bounded. Whatever sources, issuers, identifiers and sessions are presented, in
  whatever order and with whatever datastore outcomes, none of the maps of a limiter ever tracks
  more than the bound.
\<close>

theorem maps_bounded:
  assumes "NewLimiter cfg = Inr l" "fold (limiterStep hash) calls (l, db) = (l', db')"
  shows "length (l_ipHits l') \<le> MaxTrackedSubjects \<and> length (l_metaHits l') \<le> MaxTrackedSubjects \<and>
         length (l_issuerRefreshes l') \<le> MaxTrackedSubjects \<and> length (l_accounts l') \<le> MaxTrackedSubjects \<and>
         length (l_liveSessions l') \<le> MaxTrackedSubjects"
proof -
  have "trackedMapsOK (fst (fold (limiterStep hash) calls s))" if "trackedMapsOK (fst s)" for s
    using that by (induction calls arbitrary: s) (simp_all add: limiterStep_maps)
  from this [of "(l, db)"] have "trackedMapsOK l'" using NewLimiter_maps [OF assms(1)] assms(2) by simp
  then show ?thesis by (simp add: trackedMapsOK_def windowsOK_def trackedOK_def)
qed


section \<open>One source\<close>

lemma oneHit: "windowRun 1 {''a''} [(''a'', [5])] [(5, ''a'')] 5"
  using windowRun.Attempt [OF windowRun.Fresh, of 5 5 "''a''" "{''a''}" 1 0 "[(''a'', [5])]"]
  by (simp add: allowIPIn_def MaxTrackedSubjects_def)

theorem window_bounded_witness:
  "length (filter (\<lambda>(u, ip'). ip' = ''a'' \<and> 5 - Minute < u \<and> u \<le> 5) [(5, ''a'')]) \<le> 1"
  by (rule window_bounded [OF oneHit]) (simp_all add: MaxTrackedSubjects_def)

theorem refusal_wait_exact_witness:
  "allowIPIn [(''a'', [5])] ''a'' 1 6 = (Minute - 1, [(''a'', [5])]) \<and>
   fst (allowIPIn [(''a'', [5])] ''a'' 1 (5 + Minute)) = 0 \<and> fst (allowIPIn [(''a'', [5])] ''a'' 1 (4 + Minute)) \<noteq> 0"
proof -
  have step: "allowIPIn [(''a'', [5])] ''a'' 1 6 = (Minute - 1, [(''a'', [5])])" by (simp add: allowIPIn_def)
  have "\<forall>later \<ge> 6. fst (allowIPIn [(''a'', [5])] ''a'' 1 later) = 0 \<longleftrightarrow> 6 + (Minute - 1) \<le> later"
    using refusal_wait_exact [OF oneHit _ _ _ _ _ step] by (simp add: MaxTrackedSubjects_def)
  from this [rule_format, of "5 + Minute"] this [rule_format, of "4 + Minute"] step show ?thesis by simp
qed

theorem maps_bounded_witness:
  "length (l_ipHits (fst (limiterStep id (OpEnter ''a'', 5, Commits, pgConn ''n'' [] 5) (exampleLimiter, emptyCoordDB)))) = 1 \<and>
   length (l_ipHits (fst (limiterStep id (OpEnter ''a'', 5, Commits, pgConn ''n'' [] 5) (exampleLimiter, emptyCoordDB)))) \<le> MaxTrackedSubjects"
proof -
  let ?call = "(OpEnter ''a'', 5, Commits, pgConn ''n'' [] 5)"
  have "fold (limiterStep id) [?call] (exampleLimiter, emptyCoordDB) =
      (fst (limiterStep id ?call (exampleLimiter, emptyCoordDB)), snd (limiterStep id ?call (exampleLimiter, emptyCoordDB)))"
    by simp
  from maps_bounded [OF exampleConfig_new this] show ?thesis
    by (simp add: limiterStep_def enterQueue_def allowIP_def allowIPIn_def enqueue_def exampleLimiter_def MaxTrackedSubjects_def)
qed

end
