(* ===== verification/AdmissionBackoff.thy ===== *)
theory AdmissionBackoff
  imports Admission
begin

text \<open>
  The counters of \<^verbatim>\<open>internal/admission\<close> under a shared backend. A locale states what a
  window counter shared by the nodes promises - an answered charge is the count after it, and no
  charge lowers a count - and derives the bound on admissions; the interpretation discharges it for
  the coordination tables, whatever the outcomes of the calls. Then the backoff: its curve, and that
  the in-memory and the shared path give every account the same delays.
\<close>

section \<open>A window counter shared by the nodes\<close>

fun admittedCharges :: "('op \<Rightarrow> 'db \<Rightarrow> int option \<times> 'db) \<Rightarrow> ('op \<Rightarrow> 'k) \<Rightarrow> 'k \<Rightarrow> int \<Rightarrow> 'op list \<Rightarrow> 'db \<Rightarrow> nat" where
  "admittedCharges charge target k a [] db = 0"
| "admittedCharges charge target k a (op # ops) db =
    (if target op = k \<and> (\<exists>n. fst (charge op db) = Some n \<and> n \<le> a) then 1 else 0) +
    admittedCharges charge target k a ops (snd (charge op db))"

locale window_store =
  fixes charge :: "'op \<Rightarrow> 'db \<Rightarrow> int option \<times> 'db"
    and target :: "'op \<Rightarrow> 'k"
    and hits :: "'db \<Rightarrow> 'k \<Rightarrow> int"
  assumes charged: "charge op db = (Some n, db') \<Longrightarrow> n = hits db (target op) + 1 \<and> hits db' (target op) = n"
    and grows: "charge op db = (r, db') \<Longrightarrow> hits db k \<le> hits db' k"
begin

lemma admitted_bound: "int (admittedCharges charge target k a ops db) \<le> max 0 (a - hits db k)"
proof (induction ops arbitrary: db)
  case (Cons op ops)
  obtain r db' where c: "charge op db = (r, db')" by fastforce
  have grow: "hits db k \<le> hits db' k" using grows [OF c] .
  show ?case
  proof (cases "target op = k \<and> (\<exists>n. r = Some n \<and> n \<le> a)")
    case True
    then obtain n where "r = Some n" "n \<le> a" "target op = k" by blast
    then have "hits db' k = hits db k + 1" "hits db k + 1 \<le> a" using charged [of op db n db'] c by auto
    then show ?thesis using Cons.IH [of db'] True c by simp
  next
    case False
    then have "admittedCharges charge target k a (op # ops) db = admittedCharges charge target k a ops db'"
      using c by auto
    then show ?thesis using Cons.IH [of db'] grow by linarith
  qed
qed simp

end

text \<open>The charge of a node: outcome, connection, bucket, subject and window.\<close>

type_synonym charge = "txOutcome \<times> Conn \<times> string \<times> string \<times> Time"

definition bumpCharge :: "charge \<Rightarrow> CoordDB \<Rightarrow> int option \<times> CoordDB" where
  "bumpCharge op db =
    (case op of (out, c, bucket, subject, window) \<Rightarrow>
       (case BumpWindow out c bucket subject window db of
          (Inl e, db') \<Rightarrow> (None, db')
        | (Inr n, db') \<Rightarrow> (Some n, db')))"

definition chargeKey :: "charge \<Rightarrow> string \<times> string \<times> Time" where
  "chargeKey op = (case op of (out, c, bucket, subject, window) \<Rightarrow> (bucket, subject, column c window))"

definition counterHits :: "CoordDB \<Rightarrow> string \<times> string \<times> Time \<Rightarrow> int" where
  "counterHits db k = (case db_counters db k of None \<Rightarrow> 0 | Some r \<Rightarrow> ct_hits r)"

lemma Tx_BumpWindow_hits:
  assumes "Tx_BumpWindow c bucket subject window db = Inr (n, db')"
  shows "n = counterHits db (bucket, subject, column c window) + 1"
    "counterHits db' k = (if k = (bucket, subject, column c window) then n else counterHits db k)"
  using assms by (auto simp: Tx_BumpWindow_def Let_def counterHits_def split: option.splits)

interpretation bump: window_store bumpCharge chargeKey counterHits
proof
  fix op db n db' assume *: "bumpCharge op db = (Some n, db')"
  obtain out c bucket subject window where op: "op = (out, c, bucket, subject, window)" by (metis surj_pair)
  have b: "BumpWindow out c bucket subject window db = (Inr n, db')"
    using * by (auto simp: bumpCharge_def op split: sum.splits prod.splits)
  then have "fst (BumpWindow out c bucket subject window db) = Inr n" by simp
  then obtain d where "out = Commits" "Tx_BumpWindow c bucket subject window db = Inr (n, d)"
    by (auto simp: BumpWindow_def inTransaction_ok)
  moreover from this b have "d = db'" by (simp add: BumpWindow_def inTransaction_commits)
  ultimately show "n = counterHits db (chargeKey op) + 1 \<and> counterHits db' (chargeKey op) = n"
    using Tx_BumpWindow_hits [of c bucket subject window db n db'] by (simp add: chargeKey_def op)
next
  fix op db r db' k assume *: "bumpCharge op db = (r, db')"
  obtain out c bucket subject window where op: "op = (out, c, bucket, subject, window)" by (metis surj_pair)
  have "counterHits db k \<le> counterHits (snd (BumpWindow out c bucket subject window db)) k"
    unfolding BumpWindow_def
  proof (rule inTransaction_invariant)
    fix n d assume "Tx_BumpWindow c bucket subject window db = Inr (n, d)"
    from Tx_BumpWindow_hits [OF this] show "counterHits db k \<le> counterHits d k" by simp
  qed simp
  moreover have "db' = snd (BumpWindow out c bucket subject window db)"
    using * by (auto simp: bumpCharge_def op split: sum.splits prod.splits)
  ultimately show "counterHits db k \<le> counterHits db' k" by simp
qed

text \<open>The attempts of one subject admitted by \<open>allowShared\<close> in a run of calls by any nodes.\<close>

fun sharedAdmitted :: "string \<Rightarrow> string \<Rightarrow> nat \<Rightarrow> (txOutcome \<times> Conn \<times> Time) list \<Rightarrow> CoordDB \<Rightarrow> nat" where
  "sharedAdmitted bucket subject a [] db = 0"
| "sharedAdmitted bucket subject a ((out, c, now) # calls) db =
    (if fst (allowShared out c bucket subject a now db) = 0 then 1 else 0) +
    sharedAdmitted bucket subject a calls (snd (allowShared out c bucket subject a now db))"

definition windowCharge :: "string \<Rightarrow> string \<Rightarrow> txOutcome \<times> Conn \<times> Time \<Rightarrow> charge" where
  "windowCharge bucket subject call = (case call of (out, c, now) \<Rightarrow> (out, c, bucket, subject, now - now mod Minute))"

lemma allowShared_charge:
  assumes "subject \<noteq> []"
  shows "fst (allowShared out c bucket subject a now db) = 0 \<longleftrightarrow>
           (\<exists>n. fst (bumpCharge (windowCharge bucket subject (out, c, now)) db) = Some n \<and> n \<le> int a)"
    and "snd (allowShared out c bucket subject a now db) = snd (bumpCharge (windowCharge bucket subject (out, c, now)) db)"
proof -
  obtain r db' where b: "BumpWindow out c bucket subject (now - now mod Minute) db = (r, db')" by fastforce
  have "now mod Minute < Minute" by simp
  then show "fst (allowShared out c bucket subject a now db) = 0 \<longleftrightarrow>
      (\<exists>n. fst (bumpCharge (windowCharge bucket subject (out, c, now)) db) = Some n \<and> n \<le> int a)"
    using assms b by (cases r) (auto simp: allowShared_def bumpCharge_def windowCharge_def Let_def)
  show "snd (allowShared out c bucket subject a now db) = snd (bumpCharge (windowCharge bucket subject (out, c, now)) db)"
    using assms b by (cases r) (auto simp: allowShared_def bumpCharge_def windowCharge_def Let_def)
qed

lemma sharedAdmitted_charges:
  assumes "subject \<noteq> []" "\<forall>(out, c, now) \<in> set calls. column c (now - now mod Minute) = w"
  shows "sharedAdmitted bucket subject a calls db =
           admittedCharges bumpCharge chargeKey (bucket, subject, w) (int a) (map (windowCharge bucket subject) calls) db"
  using assms(2)
proof (induction calls arbitrary: db)
  case (Cons call calls)
  obtain out c now where call: "call = (out, c, now)" by (metis surj_pair)
  have "chargeKey (windowCharge bucket subject call) = (bucket, subject, w)"
    using Cons.prems by (simp add: call chargeKey_def windowCharge_def)
  then show ?case using Cons allowShared_charge [OF assms(1), of out c bucket a now db] by (simp add: call)
qed simp

text \<open>
  C18. Node hopping does not help. Whatever nodes a source's attempts of one minute reach, with any
  of the datastore calls failing or losing its answer, no more of them than the allowance are
  admitted together.
\<close>

theorem shared_window_bounded:
  assumes "subject \<noteq> []" "\<forall>(out, c, now) \<in> set calls. column c (now - now mod Minute) = w"
    and "db_counters db (bucket, subject, w) = None"
  shows "sharedAdmitted bucket subject a calls db \<le> a"
proof -
  have "int (sharedAdmitted bucket subject a calls db) \<le> max 0 (int a - counterHits db (bucket, subject, w))"
    unfolding sharedAdmitted_charges [OF assms(1,2)] by (rule bump.admitted_bound)
  then show ?thesis using assms(3) by (simp add: counterHits_def)
qed

theorem shared_window_bounded_witness:
  "sharedAdmitted ''ip'' ''a'' 1 [(Commits, pgConn ''n'' [] 5, 5), (Commits, pgConn ''m'' [] 6, 6)] emptyCoordDB \<le> 1"
  by (rule shared_window_bounded [where w = 0]) (simp_all add: emptyCoordDB_def)


section \<open>The curve\<close>

definition failuresOf :: "subjectKey \<Rightarrow> Limiter \<Rightarrow> int" where
  "failuresOf key l = (case map_of (l_accounts l) key of None \<Rightarrow> 0 | Some st \<Rightarrow> ab_failures st)"

lemma backoffDelay_closed:
  "backoffDelay n = (if n \<le> 5 then 0 else min (2 ^ nat (n - 6)) 60 * Second)"
proof (cases "n \<le> 21")
  case True
  then show ?thesis by (auto simp: backoffDelay_def min_def)
next
  case False
  then have "(2::int) ^ 16 \<le> 2 ^ nat (n - 6)" by (intro power_increasing) auto
  then show ?thesis using False by (simp add: backoffDelay_def min_def)
qed

lemma backoffDelay_mono: "m \<le> n \<Longrightarrow> backoffDelay m \<le> backoffDelay n"
proof -
  assume "m \<le> n"
  define x y :: int where "x = 2 ^ nat (m - 6)" and "y = 2 ^ nat (n - 6)"
  have "x \<le> y" "1 \<le> y" unfolding x_def y_def using \<open>m \<le> n\<close> by (auto intro!: power_increasing)
  then show ?thesis using \<open>m \<le> n\<close> by (auto simp: backoffDelay_closed min_def x_def [symmetric] y_def [symmetric])
qed

lemma recordFailure_update:
  "\<exists>accounts until. snd (recordFailure key now l) =
     l\<lparr>l_accounts := AList.update key \<lparr>ab_failures = failuresOf key l + 1, ab_until = until\<rparr> accounts\<rparr> \<and>
     (failuresOf key l + 1 > 5 \<longrightarrow> until = now + backoffDelay (failuresOf key l + 1)) \<and>
     (failuresOf key l + 1 \<le> 5 \<longrightarrow> until = (case map_of (l_accounts l) key of None \<Rightarrow> 0 | Some st \<Rightarrow> ab_until st)) \<and>
     accounts = (if map_of (l_accounts l) key = None \<and> length (l_accounts l) \<ge> MaxTrackedSubjects
                 then evictAccounts now (l_accounts l) else l_accounts l) \<and>
     fst (recordFailure key now l) = (failuresOf key l + 1 = 6)"
proof (cases "map_of (l_accounts l) key")
  case None
  then show ?thesis by (simp add: recordFailure_def failuresOf_def Let_def)
next
  case (Some st)
  then show ?thesis
    by (cases st) (auto simp: recordFailure_def failuresOf_def Let_def backoffDelay_def)
qed




section \<open>The two paths agree\<close>

lemma of_char_hexDigit: "d < 16 \<Longrightarrow> (of_char (hexDigit d) :: nat) = (if d < 10 then 48 + d else 87 + d)"
  by (simp add: hexDigit_def of_char_digit)

lemma hexDigit_inj:
  assumes "d < 16" "e < 16" "hexDigit d = hexDigit e"
  shows "d = e"
proof -
  have "(if d < 10 then 48 + d else 87 + d) = (if e < 10 then 48 + e else 87 + e)"
    unfolding of_char_hexDigit [OF assms(1), symmetric] of_char_hexDigit [OF assms(2), symmetric] assms(3) ..
  then show ?thesis using assms(1,2) by presburger
qed

lemma hexEncode_Cons: "hexEncode (b # s) = hexDigit (of_char b div 16) # hexDigit (of_char b mod 16) # hexEncode s"
  by (simp add: hexEncode_def)

lemma byte_hex_inj:
  assumes "hexDigit (of_char b div 16) = hexDigit (of_char b' div 16)" "hexDigit (of_char b mod 16) = hexDigit (of_char b' mod 16)"
  shows "b = b'"
proof -
  have lt: "(of_char x :: nat) div 16 < 16" for x
    using nat_of_char_less_256 [of x] by (simp only: div_less_iff_less_mult)
  have q: "(of_char b :: nat) div 16 = of_char b' div 16" by (rule hexDigit_inj [OF lt lt assms(1)])
  have r: "(of_char b :: nat) mod 16 = of_char b' mod 16" by (rule hexDigit_inj [OF _ _ assms(2)]) simp_all
  have "(of_char b :: nat) = of_char b div 16 * 16 + of_char b mod 16" by (rule div_mult_mod_eq [symmetric])
  also have "\<dots> = of_char b' div 16 * 16 + of_char b' mod 16" by (simp only: q r)
  also have "\<dots> = of_char b'" by (rule div_mult_mod_eq)
  finally show ?thesis by (simp only: of_char_eq_iff)
qed

lemma hexEncode_inj: "hexEncode s = hexEncode s' \<Longrightarrow> s = s'"
proof (induction s arbitrary: s')
  case Nil
  then show ?case by (cases s') (simp_all add: hexEncode_def)
next
  case (Cons b s)
  then show ?case
  proof (cases s')
    case Nil
    then show ?thesis using Cons.prems by (simp add: hexEncode_def)
  next
    case (Cons b' t)
    then show ?thesis using Cons.prems Cons.IH [of t] byte_hex_inj [of b b'] by (simp add: hexEncode_Cons)
  qed
qed

datatype accountOp = Failed string | Succeeded string

definition presented :: "accountOp \<Rightarrow> string" where
  "presented op = (case op of Failed who \<Rightarrow> who | Succeeded who \<Rightarrow> who)"

text \<open>One outcome of a login at a clock value, on a limiter and the tables; the flag is the
  threshold crossing. The node's clock and the datastore's agree, and the calls commit.\<close>

definition accountStep :: "(string \<Rightarrow> subjectKey) \<Rightarrow> accountOp \<times> Time \<Rightarrow> Limiter \<times> CoordDB \<Rightarrow> bool \<times> Limiter \<times> CoordDB" where
  "accountStep hash call s =
    (case call of (op, t) \<Rightarrow> case s of (l, db) \<Rightarrow>
       (case op of
          Failed who \<Rightarrow> RecordFailure hash Commits (pgConn ''node'' [] t) who t l db
        | Succeeded who \<Rightarrow> (False, RecordSuccess hash Commits (pgConn ''node'' [] t) who l db)))"

fun accountRun :: "(string \<Rightarrow> subjectKey) \<Rightarrow> (accountOp \<times> Time) list \<Rightarrow> Limiter \<times> CoordDB \<Rightarrow> bool list \<times> Limiter \<times> CoordDB" where
  "accountRun hash [] s = ([], s)"
| "accountRun hash (call # calls) s =
    (case accountStep hash call s of (crossed, s') \<Rightarrow> apfst ((#) crossed) (accountRun hash calls s'))"

definition accountRow :: "CoordDB \<Rightarrow> subjectKey \<Rightarrow> Counter option" where
  "accountRow db key = db_counters db (AccountBucket, hexEncode key, accountWindow)"

text \<open>An account in memory and its row in the tables at a clock value.\<close>

definition sameAccount :: "Time \<Rightarrow> accountBackoff option \<Rightarrow> Counter option \<Rightarrow> bool" where
  "sameAccount t mem row \<longleftrightarrow>
     (case (mem, row) of
        (None, None) \<Rightarrow> True
      | (Some st, Some r) \<Rightarrow>
          (\<exists>last. ct_until r = Some last \<and> 0 \<le> last \<and> last \<le> t \<and> ct_failures r = ab_failures st \<and>
             ab_until st = (if ab_failures st \<le> 5 then 0 else last + backoffDelay (ab_failures st)))
      | _ \<Rightarrow> False)"

definition accountSim :: "subjectKey set \<Rightarrow> Time \<Rightarrow> Limiter \<Rightarrow> Limiter \<Rightarrow> CoordDB \<Rightarrow> bool" where
  "accountSim S t m s db \<longleftrightarrow>
     l_shared m = None \<and> l_shared s \<noteq> None \<and> distinct (map fst (l_accounts m)) \<and> fst ` set (l_accounts m) \<subseteq> S \<and>
     (\<forall>key. sameAccount t (map_of (l_accounts m) key) (accountRow db key))"

lemma sameAccount_later: "sameAccount t mem row \<Longrightarrow> t \<le> t' \<Longrightarrow> sameAccount t' mem row"
  by (auto simp: sameAccount_def split: option.splits) 

lemma sameAccount_delay:
  assumes "sameAccount t mem row" "t \<le> now"
  shows "(case mem of None \<Rightarrow> 0 | Some st \<Rightarrow> (if ab_until st = 0 then 0 else if ab_until st - now > 0 then ab_until st - now else 0)) =
         (case row of None \<Rightarrow> 0 | Some r \<Rightarrow>
            let d = (case ct_until r of None \<Rightarrow> 0 | Some u \<Rightarrow> u) + backoffDelay (ct_failures r) - now in if d > 0 then d else 0)"
proof (cases mem)
  case None
  then show ?thesis using assms(1) by (cases row) (auto simp: sameAccount_def)
next
  case (Some st)
  then obtain r last where r: "row = Some r" "ct_until r = Some last" "0 \<le> last" "last \<le> t" "ct_failures r = ab_failures st"
    and u: "ab_until st = (if ab_failures st \<le> 5 then 0 else last + backoffDelay (ab_failures st))"
    using assms(1) by (cases row) (auto simp: sameAccount_def)
  show ?thesis
  proof (cases "ab_failures st \<le> 5")
    case True
    then have "backoffDelay (ab_failures st) = 0" by (simp add: backoffDelay_def)
    then show ?thesis using Some r u True assms(2) by (simp add: Let_def)
  next
    case False
    define d where "d = backoffDelay (ab_failures st)"
    have "0 < d" using False by (simp add: d_def backoffDelay_closed)
    then show ?thesis using Some r u False by (simp add: Let_def d_def [symmetric])
  qed
qed

lemma delay_agrees:
  assumes "accountSim S t m s db" "t \<le> now"
  shows "AccountDelay hash Commits (pgConn ''node'' [] now) who now m dbm =
         AccountDelay hash Commits (pgConn ''node'' [] now) who now s db"
proof -
  have k: "knownEngine (pgConn ''node'' [] now)" "cn_clock (pgConn ''node'' [] now) = now" by (simp_all add: knownEngine_def pgConn_def)
  have sh: "l_shared m = None" "l_shared s \<noteq> None" using assms(1) by (simp_all add: accountSim_def)
  have row: "sameAccount t (map_of (l_accounts m) (hash who)) (accountRow db (hash who))"
    using assms(1) by (simp add: accountSim_def)
  have "sharedAccountDelay Commits (pgConn ''node'' [] now) (hexEncode (hash who)) db =
      (case accountRow db (hash who) of None \<Rightarrow> 0 | Some r \<Rightarrow>
         let d = (case ct_until r of None \<Rightarrow> 0 | Some u \<Rightarrow> u) + backoffDelay (ct_failures r) - now in if d > 0 then d else 0)"
    using k by (cases "accountRow db (hash who)")
      (simp_all add: sharedAccountDelay_def AccountFailureState_def inTransaction_def transaction_def Tx_AccountFailureState_def
        guardE_def accountRow_def Let_def)
  then show ?thesis
    using sameAccount_delay [OF row assms(2)] sh by (simp add: AccountDelay_def accountDelay_def sharedAccountSubject_def)
qed

lemma no_eviction:
  assumes "distinct (map fst xs)" "fst ` set xs \<subseteq> S" "finite S" "card S \<le> MaxTrackedSubjects" "key \<in> S" "map_of xs key = None"
  shows "length xs < MaxTrackedSubjects"
proof -
  have "fst ` set xs \<subset> S" using assms(2,5,6) by (auto simp: map_of_eq_None_iff)
  then have "card (fst ` set xs) < card S" using assms(3) psubset_card_mono by blast
  then show ?thesis using assms(1,4) distinct_card [of "map fst xs"] by simp
qed

definition withRow :: "subjectKey \<Rightarrow> Counter option \<Rightarrow> CoordDB \<Rightarrow> CoordDB" where
  "withRow key row db = db\<lparr>db_counters := (db_counters db)((AccountBucket, hexEncode key, accountWindow) := row)\<rparr>"

lemma accountRow_withRow: "accountRow (withRow key row db) k = (if k = key then row else accountRow db k)"
  by (auto simp: accountRow_def withRow_def dest: hexEncode_inj)

lemma sharedRecordFailure_row:
  fixes key :: subjectKey and t :: Time and db :: CoordDB and n :: string
  defines "row \<equiv> (case accountRow db key of
     None \<Rightarrow> \<lparr>ct_hits = 0, ct_failures = 1, ct_until = Some t\<rparr>
   | Some r \<Rightarrow> r\<lparr>ct_failures := ct_failures r + 1, ct_until := laterStamp (pgConn n [] t) (ct_until r) t\<rparr>)"
  shows "sharedRecordFailure Commits (pgConn n [] t) (hexEncode key) t db = (ct_failures row = 6, withRow key (Some row) db)"
proof -
  have k: "knownEngine (pgConn n [] t)" "cn_engine (pgConn n [] t) = EnginePostgres" "cn_clock (pgConn n [] t) = t"
    by (simp_all add: knownEngine_def pgConn_def)
  then have "Tx_RecordAccountFailure (pgConn n [] t) (hexEncode key) t db = Inr (ct_failures row, withRow key (Some row) db)"
    by (simp add: Tx_RecordAccountFailure_def row_def accountRow_def withRow_def guardE_def Let_def)
  then show ?thesis by (simp add: sharedRecordFailure_def RecordAccountFailure_def inTransaction_commits)
qed

lemma ClearAccount_row: "snd (ClearAccount Commits (pgConn n [] t) (hexEncode key) db) = withRow key None db"
proof -
  have "knownEngine (pgConn n [] t)" by (simp add: knownEngine_def pgConn_def)
  then show ?thesis
    by (simp add: ClearAccount_def inTransaction_def transaction_def withRow_def guardE_def)
qed

text \<open>A failure advances an account and its row alike.\<close>

lemma sameAccount_fail:
  assumes "sameAccount t (map_of (l_accounts m) key) (accountRow db key)" "t \<le> t'" "0 \<le> t'"
    and "map_of (l_accounts m) key = None \<longrightarrow> length (l_accounts m) < MaxTrackedSubjects"
  obtains st row where
    "recordFailure key t' m = (ab_failures st = 6, m\<lparr>l_accounts := AList.update key st (l_accounts m)\<rparr>)"
    "sharedRecordFailure Commits (pgConn n [] t') (hexEncode key) t' db = (ab_failures st = 6, withRow key (Some row) db)"
    "sameAccount t' (Some st) (Some row)"
proof -
  obtain accounts until where r: "snd (recordFailure key t' m) =
      m\<lparr>l_accounts := AList.update key \<lparr>ab_failures = failuresOf key m + 1, ab_until = until\<rparr> accounts\<rparr>"
    and high: "failuresOf key m + 1 > 5 \<longrightarrow> until = t' + backoffDelay (failuresOf key m + 1)"
    and low: "failuresOf key m + 1 \<le> 5 \<longrightarrow> until = (case map_of (l_accounts m) key of None \<Rightarrow> 0 | Some st \<Rightarrow> ab_until st)"
    and acc: "accounts = (if map_of (l_accounts m) key = None \<and> length (l_accounts m) \<ge> MaxTrackedSubjects
                 then evictAccounts t' (l_accounts m) else l_accounts m)"
    and crossed: "fst (recordFailure key t' m) = (failuresOf key m + 1 = 6)"
    using recordFailure_update by blast
  have acc': "accounts = l_accounts m" using acc assms(4) by auto
  define st where "st = \<lparr>ab_failures = failuresOf key m + 1, ab_until = until\<rparr>"
  define row where "row = (case accountRow db key of
     None \<Rightarrow> \<lparr>ct_hits = 0, ct_failures = 1, ct_until = Some t'\<rparr>
   | Some q \<Rightarrow> q\<lparr>ct_failures := ct_failures q + 1, ct_until := laterStamp (pgConn n [] t') (ct_until q) t'\<rparr>)"
  have u: "until = (if ab_failures st \<le> 5 then 0 else t' + backoffDelay (ab_failures st))"
    using high low assms(1) by (auto simp: st_def failuresOf_def sameAccount_def split: option.splits)
  have row: "ct_failures row = ab_failures st" "ct_until row = Some t'"
    using assms(1,2) by (auto simp: row_def st_def failuresOf_def sameAccount_def laterStamp_def split: option.splits)
  show ?thesis
  proof (rule that [of st row])
    show "recordFailure key t' m = (ab_failures st = 6, m\<lparr>l_accounts := AList.update key st (l_accounts m)\<rparr>)"
      using r crossed by (simp add: prod_eq_iff st_def acc')
    show "sharedRecordFailure Commits (pgConn n [] t') (hexEncode key) t' db = (ab_failures st = 6, withRow key (Some row) db)"
      unfolding row(1) [symmetric] unfolding row_def by (rule sharedRecordFailure_row)
    have "ab_until st = (if ab_failures st \<le> 5 then 0 else t' + backoffDelay (ab_failures st))"
      unfolding u [symmetric] by (simp add: st_def)
    then show "sameAccount t' (Some st) (Some row)" using row assms(3) by (simp add: sameAccount_def)
  qed
qed

lemma accountSim_step:
  assumes sim: "accountSim S t m s db" and t: "t \<le> t'" "0 \<le> t'" and S: "finite S" "card S \<le> MaxTrackedSubjects" "hash (presented op) \<in> S"
  shows "\<exists>crossed m' db'. accountStep hash (op, t') (m, dbm) = (crossed, m', dbm) \<and>
           accountStep hash (op, t') (s, db) = (crossed, s, db') \<and> accountSim S t' m' s db'"
proof (cases op)
  case (Failed who)
  have acc: "distinct (map fst (l_accounts m))" "fst ` set (l_accounts m) \<subseteq> S" and sh: "l_shared m = None" "l_shared s \<noteq> None"
    and same: "\<And>key. sameAccount t (map_of (l_accounts m) key) (accountRow db key)"
    using sim by (simp_all add: accountSim_def)
  have room: "map_of (l_accounts m) (hash who) = None \<longrightarrow> length (l_accounts m) < MaxTrackedSubjects"
    using no_eviction [OF acc S(1,2)] S(3) by (simp add: Failed presented_def)
  obtain st row where st:
    "recordFailure (hash who) t' m = (ab_failures st = 6, m\<lparr>l_accounts := AList.update (hash who) st (l_accounts m)\<rparr>)"
    "sharedRecordFailure Commits (pgConn ''node'' [] t') (hexEncode (hash who)) t' db = (ab_failures st = 6, withRow (hash who) (Some row) db)"
    "sameAccount t' (Some st) (Some row)"
    by (rule sameAccount_fail [OF same t room])
  have "accountSim S t' (m\<lparr>l_accounts := AList.update (hash who) st (l_accounts m)\<rparr>) s (withRow (hash who) (Some row) db)"
    using sh acc S(3) st(3) sameAccount_later [OF same t(1)]
    by (auto simp: accountSim_def accountRow_withRow update_conv' distinct_update Failed presented_def
        simp flip: dom_map_of_conv_image_fst)
  then show ?thesis using sh st by (simp add: accountStep_def Failed RecordFailure_def sharedAccountSubject_def)
next
  case (Succeeded who)
  have acc: "distinct (map fst (l_accounts m))" "fst ` set (l_accounts m) \<subseteq> S" and sh: "l_shared m = None" "l_shared s \<noteq> None"
    and same: "\<And>key. sameAccount t (map_of (l_accounts m) key) (accountRow db key)"
    using sim by (simp_all add: accountSim_def)
  have "sameAccount t' None None" by (simp add: sameAccount_def)
  then have "accountSim S t' (recordSuccess (hash who) m) s (withRow (hash who) None db)"
    using sh acc sameAccount_later [OF same t(1)]
    by (auto simp: accountSim_def recordSuccess_def accountRow_withRow delete_conv' distinct_delete
        simp flip: dom_map_of_conv_image_fst)
  then show ?thesis using sh
    by (intro exI [of _ False]) (simp add: accountStep_def Succeeded RecordSuccess_def sharedAccountSubject_def ClearAccount_row)
qed

lemma accountSim_run:
  assumes "accountSim S t m s db" "sorted (t # map snd calls)" "0 \<le> t" "finite S" "card S \<le> MaxTrackedSubjects"
    and "\<forall>(op, u) \<in> set calls. hash (presented op) \<in> S"
  shows "\<exists>flags m' db'. accountRun hash calls (m, dbm) = (flags, m', dbm) \<and> accountRun hash calls (s, db) = (flags, s, db') \<and>
           accountSim S (last (t # map snd calls)) m' s db'"
  using assms(1-3,6)
proof (induction calls arbitrary: t m db)
  case Nil
  then show ?case by simp
next
  case (Cons call calls)
  obtain op t' where call: "call = (op, t')" by fastforce
  have t': "t \<le> t'" "0 \<le> t'" "sorted (t' # map snd calls)" "hash (presented op) \<in> S"
    using Cons.prems by (auto simp: call)
  obtain crossed m1 db1 where step: "accountStep hash (op, t') (m, dbm) = (crossed, m1, dbm)"
      "accountStep hash (op, t') (s, db) = (crossed, s, db1)" "accountSim S t' m1 s db1"
    using accountSim_step [where hash = hash and op = op and dbm = dbm, OF Cons.prems(1) t'(1,2) assms(4,5) t'(4)] by blast
  from Cons.IH [OF step(3) t'(3,2)] Cons.prems(4) obtain flags m' db' where
    "accountRun hash calls (m1, dbm) = (flags, m', dbm)" "accountRun hash calls (s, db1) = (flags, s, db')"
    "accountSim S (last (t' # map snd calls)) m' s db'" by (auto simp: call)
  then show ?case using step by (simp add: call)
qed



end
