(* ===== verification/Spec2Isabelle.thy ===== *)
theory Spec2Isabelle
  imports Policy Refusals Validation Dotenv Scheduler AdmissionWindows AdmissionBackoff
begin

text \<open>
  \<^bold>\<open>Hikyo: a verification development.\<close>

  Hikyo is a multi-tenant configuration and secrets server with its command-line client. A
  request is first admitted (\<^verbatim>\<open>internal/admission\<close>), then authenticated, then authorized at one
  chokepoint (\<^verbatim>\<open>internal/authz\<close>) that mints a proof; every store call
  (\<^verbatim>\<open>internal/store\<close>) checks that proof and every mutation writes a typed audit event
  (\<^verbatim>\<open>internal/audit\<close>). Values are validated against declared key schemas
  (\<^verbatim>\<open>internal/schema\<close>). Several nodes may share one datastore, one of them leading the
  singleton jobs (\<^verbatim>\<open>internal/app\<close>, \<^verbatim>\<open>internal/store/coordination*.go\<close>). The theories
  below follow these parts; definitions keep the names of the Go functions they translate.

  \<^bold>\<open>Conventions.\<close> A Go function returning \<^verbatim>\<open>(T, error)\<close> is a sum with the error on the left; a
  validator whose message is never inspected is a bool-valued function. A Go \<^verbatim>\<open>string\<close> is its
  bytes. A Go map is an association list where iteration order can matter, otherwise a map. Clock
  values, datastore outcomes, random identifiers and third-party code (regular expressions, JSON,
  UUIDs, digests, signatures, the JSON Schema evaluator) are arguments. Engine rows are records and
  SQL predicates are functions of them. Integers have the width of the source where it matters
  (\<open>int64\<close> in the refusal counters, 8- and 16-bit words in addresses); counters that move by one per
  call are unbounded.

  \<^bold>\<open>Shared theories.\<close>
  \<^item> \<^verbatim>\<open>Prelude\<close>: results, slices and maps as Go reads them, decimal rendering, the open-ended
    search loop.
  \<^item> \<^verbatim>\<open>GoStrings\<close>, \<^verbatim>\<open>NetAddr\<close>: the parts of the Go library the sources use (trimming, runes,
    lines; \<^verbatim>\<open>net/netip\<close> parsing and printing).

  \<^bold>\<open>Authority.\<close>
  \<^item> \<^verbatim>\<open>Domain\<close> (\<^verbatim>\<open>internal/domain/domain.go\<close>, \<^verbatim>\<open>permission.go\<close>): capability table, scopes, role
    templates, machine classes. Lemmas: the tables are closed, templates create only grantable
    capabilities.
  \<^item> \<^verbatim>\<open>Rules\<close> (\<^verbatim>\<open>domain/rule.go\<close>, \<^verbatim>\<open>store/authn/rules.go\<close>): member access rules, their validator
    and stored rows. Lemmas: writing and reading back keeps the reach, in any row order.
  \<^item> \<^verbatim>\<open>Containment\<close> (\<^verbatim>\<open>domain/rule_containment.go\<close>): the pairwise and the sampled union test. The
    locale \<open>containment_test\<close> states what a caller relies on, and both tests interpret it. Lemmas: the
    union test decides inclusion exactly; its two open-ended name searches are partial functions that
    are proved to return.
  \<^item> \<^verbatim>\<open>Authz\<close> (\<^verbatim>\<open>authz/authorize.go\<close>, \<^verbatim>\<open>rules.go\<close>, \<^verbatim>\<open>rule_navigation.go\<close>,
    \<^verbatim>\<open>rule_delegation.go\<close>, \<^verbatim>\<open>machine.go\<close>, \<^verbatim>\<open>developer.go\<close>): formulas over grants and
    rules. Lemmas: inheritance, additivity, the grantor bound, navigation within read.
  \<^item> \<^verbatim>\<open>Resolution\<close> (\<^verbatim>\<open>store/authn\<close> and its queries): the reads authorization makes. The locale
    \<open>resolution_surface\<close> is their contract, interpreted on the tables.
  \<^item> \<^verbatim>\<open>Chokepoint\<close> (\<^verbatim>\<open>authz/authorize.go\<close>, \<^verbatim>\<open>denial.go\<close>, \<^verbatim>\<open>proof.go\<close>, \<^verbatim>\<open>verify.go\<close>,
    \<^verbatim>\<open>self_config.go\<close>, \<^verbatim>\<open>session.go\<close>): the whole decision and the store boundary. Lemmas: a
    decision read backwards, uniform refusals, proofs live and die with their transaction.
  \<^item> \<^verbatim>\<open>StoreOps\<close>, \<^verbatim>\<open>Registry\<close>, \<^verbatim>\<open>OperationTable\<close>, \<^verbatim>\<open>Policy\<close>
    (\<^verbatim>\<open>authz/registry.go\<close>): the names, the row validation, every row of the policy table and the
    installed registry. Lemmas: the shipped table passes its validation, mutations are audited.

  \<^bold>\<open>Records.\<close>
  \<^item> \<^verbatim>\<open>FreeText\<close> (\<^verbatim>\<open>internal/freetext\<close>): sanitizing of caller text; canonical and idempotent.
  \<^item> \<^verbatim>\<open>AuditTrail\<close>, \<^verbatim>\<open>AuditEvents\<close> (\<^verbatim>\<open>internal/audit\<close>): schemas, events, rows, refusal windows,
    and every row of the event registry. Lemmas: accepted texts are clean, every type is recordable.
  \<^item> \<^verbatim>\<open>Refusals\<close> (\<^verbatim>\<open>store/authn/refusal.go\<close>): the staging writer. Lemmas: nothing is lost or
    counted twice, an update on a well-formed row succeeds.

  \<^bold>\<open>Schemas and values.\<close>
  \<^item> \<^verbatim>\<open>JsonSchema\<close> (\<^verbatim>\<open>schema/jsonschema.go\<close>): the profile walk, cycle check and work budget. The
    two recursive closures run on fuel, one unit more than the number of nodes, proved to be enough.
  \<^item> \<^verbatim>\<open>KeySchema\<close>, \<^verbatim>\<open>Validation\<close> (\<^verbatim>\<open>internal/schema\<close>): declarations, compilation and verdicts.
    Lemmas: the duplicate scan refines its specification, verdicts are exact, capped, and blind to
    secrets.
  \<^item> \<^verbatim>\<open>Dotenv\<close> (\<^verbatim>\<open>internal/dotenv\<close>): parser and encoder with their round trip.

  \<^bold>\<open>Nodes.\<close>
  \<^item> \<^verbatim>\<open>Coordination\<close> (\<^verbatim>\<open>store/coordination*.go\<close>): the lease, the node registry, the shared counters
    and the admission of model-context calls, as transactions with every outcome of a datastore.
    Lemmas: the concurrency limits and the rate bound.
  \<^item> \<^verbatim>\<open>Scheduler\<close> (\<^verbatim>\<open>app/scheduler.go\<close>, \<^verbatim>\<open>ha.go\<close>): the leadership loop, cut at its
    datastore calls, as an inductive step relation over any number of nodes. Lemmas: an invariant of
    all steps, from which fencing, exclusive leadership and takeover follow.
  \<^item> \<^verbatim>\<open>Admission\<close>, \<^verbatim>\<open>AdmissionWindows\<close>, \<^verbatim>\<open>AdmissionBackoff\<close> (\<^verbatim>\<open>internal/admission\<close>): the
    limiter. The semaphore is a step relation; the locale \<open>window_store\<close> is the contract of a shared
    counter, interpreted on the coordination tables. Lemmas: memory and queue bounds, windows, waits,
    bounded maps, the back-off curve and the agreement of its two implementations.

  \<^bold>\<open>This theory\<close> holds the properties that show where the code and its documents part ways: each is
  an evaluation of the model at a concrete installation.

  \<^bold>\<open>Not modelled.\<close> The domain services (\<^verbatim>\<open>internal/service\<close>) and HTTP handlers
  (\<^verbatim>\<open>internal/server\<close>) compose the decisions above with SQL effects through generated code; the
  generated queries and router are not in the sources as logic to read. Cryptography, certificates,
  OIDC, SAML, WebAuthn, signature verification and the Kubernetes client are third-party code that
  the sources frame. The client, importers, adapters and updaters are effects on files,
  processes and remote services. Go's scheduler, memory model and the isolation of the SQL engines
  are taken as documented: a transaction is atomic, and a row a guard has locked does not move
  before the commit.
\<close>


section \<open>Where the code and its documents part ways\<close>

definition temporaryDB :: Database where
  "temporaryDB = exampleDB\<lparr>db_grants := [],
     db_access_grants := [\<lparr>ag_row = \<lparr>gr_principal = ''alice'', gr_capability = CapReveal, gr_org = ''org'',
                                    gr_project = ''web'', gr_env = ''prod''\<rparr>, ag_expires_at = 10\<rparr>]\<rparr>"

definition permanentRule :: Rule where
  "permanentRule =
    \<lparr>r_ID = ''r'', r_Principal = ''bob'', r_Capability = CapReveal, r_Org = ''org'',
     r_Where = \<lparr>w_Projects = [''web''], w_EnvMode = AxisOnly, w_Envs = [(''web'', [''prod''])],
                w_KeyMode = AxisAll, w_Keys = []\<rparr>\<rparr>"


definition boundDB :: Database where
  "boundDB = exampleDB\<lparr>db_grants := [], db_self_config_org := ''org'',
     db_rules := [\<lparr>ru_id = ''r1'', ru_principal = ''alice'', ru_capability = CapRead, ru_org = ''org'',
                   ru_env_mode = AxisAll, ru_key_mode = AxisAll\<rparr>],
     db_rule_items := [(''r1'', (storedItem ruleAxisProject ''web'' [] [] [])\<lparr>si_ID := ''i1''\<rparr>)]\<rparr>"

definition readRegistry :: Registry where
  "readRegistry = map_of
    [(''value.read'', \<lparr>spec_class = ClassTenant, spec_level = LevelEnv, spec_formula = [atom CapRead LevelEnv]\<rparr>)]"




end
